(* ===== verification/Codec.thy ===== *)
theory Codec
  imports Prelude
begin

text \<open>
  The byte accumulator of \<open>hasher.rs\<close> (\<open>struct Acc\<close>) and the theory of the codes
  it builds. An operation of \<open>Acc\<close> is modelled by the bytes it appends, so a chain of
  calls is a chain of \<open>@\<close>. The locale \<open>prefix_code\<close> is the contract every
  encoder of the hasher keeps: what is appended can be told apart from whatever follows it.
\<close>

section \<open>The accumulator operations\<close>

definition be_bytes32 :: "u32 \<Rightarrow> bytes" where
  "be_bytes32 w = [ucast (drop_bit 24 w), ucast (drop_bit 16 w), ucast (drop_bit 8 w), ucast w]"

definition be_bytes64 :: "u64 \<Rightarrow> bytes" where
  "be_bytes64 w = [ucast (drop_bit 56 w), ucast (drop_bit 48 w), ucast (drop_bit 40 w),
     ucast (drop_bit 32 w), ucast (drop_bit 24 w), ucast (drop_bit 16 w),
     ucast (drop_bit 8 w), ucast w]"

definition bool_val :: "bool \<Rightarrow> bytes" where
  "bool_val v = [if v then 1 else 0]"

definition i32_val :: "u32 \<Rightarrow> bytes" where
  "i32_val v = be_bytes32 v"

definition i64_val :: "u64 \<Rightarrow> bytes" where
  "i64_val v = be_bytes64 v"

text \<open>\<open>u32_val\<close> and \<open>u64_val\<close> cast to the signed type: the same bits.\<close>

definition u32_val :: "u32 \<Rightarrow> bytes" where
  "u32_val v = i32_val v"

definition u64_val :: "u64 \<Rightarrow> bytes" where
  "u64_val v = i64_val v"

text \<open>\<open>xs.len() as i32\<close>: the low 32 bits of the length.\<close>

definition len_i32 :: "nat \<Rightarrow> u32" where
  "len_i32 n = word_of_nat n"

definition bytes_val :: "bytes \<Rightarrow> bytes" where
  "bytes_val b = i32_val (len_i32 (length b)) @ b"

definition str_val :: "string \<Rightarrow> bytes" where
  "str_val s = i32_val (len_i32 (length (str_bytes s))) @ str_bytes s"

definition hex_bytes :: "(string \<Rightarrow> bytes option) \<Rightarrow> string \<Rightarrow> bytes result" where
  "hex_bytes hex_decode s =
     (case hex_decode s of
        None \<Rightarrow> Inl [Lit ''invalid hex: '', Arg (short s 20), Lit ''...'']
      | Some b \<Rightarrow> Inr (bytes_val b))"

definition string_set :: "string list \<Rightarrow> bytes" where
  "string_set vals = i32_val (len_i32 (length vals)) @ concat (map str_val (sort vals))"

section \<open>Codes that can be told apart from what follows\<close>

text \<open>
  \<open>enc\<close> may fail; \<open>canon\<close> is what the bytes determine of the encoded value, and
  \<open>ok\<close> bounds the sizes that are written as 32-bit lengths.
\<close>

locale partial_prefix_code =
  fixes enc :: "'a \<Rightarrow> bytes result" and canon :: "'a \<Rightarrow> 'b" and ok :: "'a \<Rightarrow> bool"
  assumes prefix_free: "ok x \<Longrightarrow> ok y \<Longrightarrow> enc x = Inr b \<Longrightarrow> enc y = Inr c \<Longrightarrow>
    b @ s = c @ t \<Longrightarrow> canon x = canon y \<and> s = t"
begin

lemma determines:
  assumes "ok x" and "ok y" and "enc x = Inr b" and "enc y = Inr b"
  shows "canon x = canon y"
  using prefix_free [OF assms, of "[]" "[]"] by simp

lemma canonD: "ok x \<Longrightarrow> ok y \<Longrightarrow> enc x = Inr b \<Longrightarrow> enc y = Inr c \<Longrightarrow>
    b @ s = c @ t \<Longrightarrow> canon x = canon y"
  using prefix_free by blast

lemma restD: "ok x \<Longrightarrow> ok y \<Longrightarrow> enc x = Inr b \<Longrightarrow> enc y = Inr c \<Longrightarrow>
    b @ s = c @ t \<Longrightarrow> s = t"
  using prefix_free by blast

end

locale prefix_code =
  fixes enc :: "'a \<Rightarrow> bytes" and ok :: "'a \<Rightarrow> bool"
  assumes prefix: "ok x \<Longrightarrow> ok y \<Longrightarrow> enc x @ s = enc y @ t \<Longrightarrow> x = y \<and> s = t"
begin

lemma append_iff: "ok x \<Longrightarrow> ok y \<Longrightarrow> enc x @ s = enc y @ t \<longleftrightarrow> x = y \<and> s = t"
  using prefix by blast

lemma inj_enc: "ok x \<Longrightarrow> ok y \<Longrightarrow> enc x = enc y \<longleftrightarrow> x = y"
  using prefix [of x y "[]" "[]"] by auto

lemma concat_prefix:
  "length xs = length ys \<Longrightarrow> \<forall>x \<in> set xs. ok x \<Longrightarrow> \<forall>y \<in> set ys. ok y \<Longrightarrow>
   concat (map enc xs) @ s = concat (map enc ys) @ t \<Longrightarrow> xs = ys \<and> s = t"
proof (induction xs ys rule: list_induct2)
  case (Cons x xs y ys)
  then have "enc x @ (concat (map enc xs) @ s) = enc y @ (concat (map enc ys) @ t)"
    by simp
  with Cons.prems have "x = y" "concat (map enc xs) @ s = concat (map enc ys) @ t"
    using prefix by (fastforce, metis list.set_intros(1) prefix)
  with Cons show ?case by simp
qed simp

end

sublocale prefix_code \<subseteq> partial: partial_prefix_code "\<lambda>x. Inr (enc x)" "\<lambda>x. x" ok
proof unfold_locales
  fix x y b c s t
  assume "ok x" "ok y" "Inr (enc x) = Inr b" "Inr (enc y) = Inr c" "b @ s = c @ t"
  then show "x = y \<and> s = t" using prefix [of x y s t] by simp
qed

section \<open>Fixed-width and counted codes\<close>

lemma be_bytes32_inject [simp]: "be_bytes32 v = be_bytes32 w \<longleftrightarrow> v = w"
proof
  assume "be_bytes32 v = be_bytes32 w"
  then have eqs: "(ucast (drop_bit 24 v) :: u8) = ucast (drop_bit 24 w)"
    "(ucast (drop_bit 16 v) :: u8) = ucast (drop_bit 16 w)"
    "(ucast (drop_bit 8 v) :: u8) = ucast (drop_bit 8 w)" "(ucast v :: u8) = ucast w"
    by (simp_all add: be_bytes32_def)
  have at: "bit v (k + n) = bit w (k + n)"
    if "(ucast (drop_bit k v) :: u8) = ucast (drop_bit k w)" "n < 8" for k n
    using arg_cong [OF that(1), of "\<lambda>x. bit x n"] that(2)
    by (simp add: bit_simps add.commute)
  show "v = w"
  proof (rule bit_word_eqI)
    fix n assume "n < LENGTH(32)"
    then consider "n < 8" | "8 \<le> n" "n < 16" | "16 \<le> n" "n < 24" | "24 \<le> n" "n < 32"
      by fastforce
    then show "bit v n = bit w n"
      using at [of 24 "n - 24"] at [of 16 "n - 16"] at [of 8 "n - 8"] at [of 0 n] eqs
      by cases simp_all
  qed
qed simp

lemma be_bytes64_inject [simp]: "be_bytes64 v = be_bytes64 w \<longleftrightarrow> v = w"
proof
  assume "be_bytes64 v = be_bytes64 w"
  then have eqs: "(ucast (drop_bit 56 v) :: u8) = ucast (drop_bit 56 w)"
    "(ucast (drop_bit 48 v) :: u8) = ucast (drop_bit 48 w)"
    "(ucast (drop_bit 40 v) :: u8) = ucast (drop_bit 40 w)"
    "(ucast (drop_bit 32 v) :: u8) = ucast (drop_bit 32 w)"
    "(ucast (drop_bit 24 v) :: u8) = ucast (drop_bit 24 w)"
    "(ucast (drop_bit 16 v) :: u8) = ucast (drop_bit 16 w)"
    "(ucast (drop_bit 8 v) :: u8) = ucast (drop_bit 8 w)" "(ucast v :: u8) = ucast w"
    by (simp_all add: be_bytes64_def)
  have at: "bit v (k + n) = bit w (k + n)"
    if "(ucast (drop_bit k v) :: u8) = ucast (drop_bit k w)" "n < 8" for k n
    using arg_cong [OF that(1), of "\<lambda>x. bit x n"] that(2)
    by (simp add: bit_simps add.commute)
  show "v = w"
  proof (rule bit_word_eqI)
    fix n assume "n < LENGTH(64)"
    then consider "n < 8" | "8 \<le> n" "n < 16" | "16 \<le> n" "n < 24" | "24 \<le> n" "n < 32"
      | "32 \<le> n" "n < 40" | "40 \<le> n" "n < 48" | "48 \<le> n" "n < 56" | "56 \<le> n" "n < 64"
      by fastforce
    then show "bit v n = bit w n"
      using at [of 56 "n - 56"] at [of 48 "n - 48"] at [of 40 "n - 40"] at [of 32 "n - 32"]
        at [of 24 "n - 24"] at [of 16 "n - 16"] at [of 8 "n - 8"] at [of 0 n] eqs
      by cases simp_all
  qed
qed simp

lemma length_be_bytes [simp]: "length (be_bytes32 v) = 4" "length (be_bytes64 w) = 8"
  by (simp_all add: be_bytes32_def be_bytes64_def)

lemma i32_append_iff [simp]: "i32_val v @ s = i32_val w @ t \<longleftrightarrow> v = w \<and> s = t"
  by (simp add: i32_val_def)

lemma i64_append_iff [simp]: "i64_val v @ s = i64_val w @ t \<longleftrightarrow> v = w \<and> s = t"
  by (simp add: i64_val_def)

lemma len_i32_inject: "m < 2 ^ 32 \<Longrightarrow> n < 2 ^ 32 \<Longrightarrow> len_i32 m = len_i32 n \<longleftrightarrow> m = n"
  by (simp add: len_i32_def word_of_nat_eq_iff take_bit_eq_mod)

definition str_ok :: "string \<Rightarrow> bool" where
  "str_ok s \<longleftrightarrow> length s < 2 ^ 32"

lemma bytes_val_append_iff:
  "length b < 2 ^ 32 \<Longrightarrow> length c < 2 ^ 32 \<Longrightarrow>
   bytes_val b @ s = bytes_val c @ t \<longleftrightarrow> b = c \<and> s = t"
  by (auto simp: bytes_val_def len_i32_inject)

lemma str_val_append_iff:
  "str_ok r \<Longrightarrow> str_ok r' \<Longrightarrow> str_val r @ s = str_val r' @ t \<longleftrightarrow> r = r' \<and> s = t"
  by (auto simp: str_val_def str_ok_def len_i32_inject)

interpretation bool_code: prefix_code bool_val "\<lambda>_. True"
  by unfold_locales (auto simp: bool_val_def split: if_splits)

interpretation i32_code: prefix_code i32_val "\<lambda>_. True"
  by unfold_locales auto

interpretation i64_code: prefix_code i64_val "\<lambda>_. True"
  by unfold_locales auto

interpretation str_code: prefix_code str_val str_ok
  by unfold_locales (auto simp: str_val_append_iff)

interpretation bytes_code: prefix_code bytes_val "\<lambda>b. length b < 2 ^ 32"
  by unfold_locales (auto simp: bytes_val_append_iff)

definition strs_ok :: "string list \<Rightarrow> bool" where
  "strs_ok ss \<longleftrightarrow> length ss < 2 ^ 32 \<and> (\<forall>s \<in> set ss. str_ok s)"

lemma counted_strs_append_iff:
  assumes "strs_ok ss" and "strs_ok ts"
  shows "i32_val (len_i32 (length ss)) @ concat (map str_val ss) @ s =
         i32_val (len_i32 (length ts)) @ concat (map str_val ts) @ t \<longleftrightarrow> ss = ts \<and> s = t"
  using assms str_code.concat_prefix [of ss ts s t]
  by (auto simp: strs_ok_def len_i32_inject)

text \<open>A string set is written sorted, so its bytes determine the multiset.\<close>

lemma string_set_append_iff:
  assumes "strs_ok ss" and "strs_ok ts"
  shows "string_set ss @ s = string_set ts @ t \<longleftrightarrow> mset ss = mset ts \<and> s = t"
proof -
  have "sort ss = sort ts \<longleftrightarrow> mset ss = mset ts"
    by (metis mset_sort properties_for_sort sorted_sort)
  then show ?thesis
    using counted_strs_append_iff [of "sort ss" "sort ts" s t] assms
    by (simp add: string_set_def strs_ok_def)
qed

interpretation string_set_code: partial_prefix_code "\<lambda>ss. Inr (string_set ss)" mset strs_ok
  by unfold_locales (auto simp: string_set_append_iff)

lemma string_set_perm: "mset ss = mset ts \<Longrightarrow> string_set ss = string_set ts"
  unfolding string_set_def by (metis mset_sort properties_for_sort size_mset sorted_sort)

end
