(* ===== verification/Daml_Types.thy ===== *)
theory Daml_Types
  imports Prelude
begin

text \<open>
  The protobuf messages of \<open>crates/tx-verifier/proto\<close> that the verifier reads, in
  the shape prost gives them: a message field is an option, a repeated field a list, a
  oneof an optional datatype. Signed and unsigned integers are words of their width.
  \<open>global_key_mapping\<close> of the metadata is left out, as no code of the crate reads it.
\<close>

section \<open>Values\<close>

record daml_id =
  id_package :: string
  id_module :: string
  id_entity :: string

datatype dvalue = Value (sum_of: "vsum option")
  and vsum =
    VUnit
  | VBool bool
  | VInt64 u64
  | VDate u32
  | VTimestamp u64
  | VNumeric string
  | VParty string
  | VText string
  | VContractId string
  | VOptional "dvalue option"
  | VList "dvalue list"
  | VTextMap "text_entry list"
  | VGenMap "gen_entry list"
  | VRecord drecord
  | VVariant "daml_id option" string "dvalue option"
  | VEnum "daml_id option" string
  and drecord = Record (record_id: "daml_id option") (fields: "rfield list")
  and rfield = RecordField (label: string) (field_value: "dvalue option")
  and text_entry = TextEntry string "dvalue option"
  and gen_entry = GenEntry "dvalue option" "dvalue option"

section \<open>Nodes\<close>

record create =
  c_lf_version :: string
  c_contract_id :: string
  c_package_name :: string
  c_template_id :: "daml_id option"
  c_argument :: "dvalue option"
  c_signatories :: "string list"
  c_stakeholders :: "string list"

record exercise =
  e_lf_version :: string
  e_contract_id :: string
  e_package_name :: string
  e_template_id :: "daml_id option"
  e_signatories :: "string list"
  e_stakeholders :: "string list"
  e_acting_parties :: "string list"
  e_interface_id :: "daml_id option"
  e_choice_id :: string
  e_chosen_value :: "dvalue option"
  e_consuming :: bool
  e_children :: "string list"
  e_exercise_result :: "dvalue option"
  e_choice_observers :: "string list"

record fetch =
  f_lf_version :: string
  f_contract_id :: string
  f_package_name :: string
  f_template_id :: "daml_id option"
  f_signatories :: "string list"
  f_stakeholders :: "string list"
  f_acting_parties :: "string list"
  f_interface_id :: "daml_id option"

record rollback =
  r_children :: "string list"

datatype node_type =
    Create create
  | Fetch fetch
  | Exercise exercise
  | Rollback rollback

datatype versioned_node = V1 "node_type option"

record node =
  node_id :: string
  versioned :: "versioned_node option"

record node_seed =
  ns_node_id :: u32
  ns_seed :: bytes

record daml_transaction =
  tx_version :: string
  roots :: "string list"
  nodes :: "node list"
  node_seeds :: "node_seed list"

section \<open>Metadata and the prepared transaction\<close>

record submitter_info =
  act_as :: "string list"
  command_id :: string

record input_contract =
  ic_contract :: "create option"
  ic_created_at :: u64
  ic_event_blob :: bytes

record metadata =
  submitter :: "submitter_info option"
  synchronizer_id :: string
  mediator_group :: u32
  transaction_uuid :: string
  preparation_time :: u64
  input_contracts :: "input_contract list"
  min_ledger_effective_time :: "u64 option"
  max_ledger_effective_time :: "u64 option"
  max_record_time :: "u64 option"

record prepared_transaction =
  p_transaction :: "daml_transaction option"
  p_metadata :: "metadata option"

section \<open>The node dictionary\<close>

text \<open>
  \<open>build_nodes_dict\<close> inserts the nodes in order into a hash map: the last node of an
  id is the one kept.
\<close>

type_synonym nodes_dict = "string \<rightharpoonup> node"

definition build_nodes_dict :: "daml_transaction \<Rightarrow> nodes_dict" where
  "build_nodes_dict tx = fold (\<lambda>n d. d(node_id n \<mapsto> n)) (nodes tx) Map.empty"

lemma fold_dict_eq:
  "fold (\<lambda>n d. d(node_id n \<mapsto> n)) ns d = d ++ map_of (rev (map (\<lambda>n. (node_id n, n)) ns))"
  by (induction ns arbitrary: d) (simp_all add: map_add_def fun_eq_iff split: option.splits)

lemma build_nodes_dict_eq:
  "build_nodes_dict tx = map_of (rev (map (\<lambda>n. (node_id n, n)) (nodes tx)))"
  by (simp add: build_nodes_dict_def fold_dict_eq)

lemma build_nodes_dict_SomeD:
  "build_nodes_dict tx i = Some n \<Longrightarrow> n \<in> set (nodes tx) \<and> node_id n = i"
  unfolding build_nodes_dict_eq by (drule map_of_SomeD) auto

lemma build_nodes_dict_unique:
  assumes "distinct (map node_id (nodes tx))" and "n \<in> set (nodes tx)"
  shows "build_nodes_dict tx (node_id n) = Some n"
proof -
  have "distinct (map fst (rev (map (\<lambda>n. (node_id n, n)) (nodes tx))))"
    using assms(1) by (simp add: rev_map [symmetric] o_def)
  then show ?thesis
    unfolding build_nodes_dict_eq using assms(2) by (intro map_of_is_SomeI) auto
qed

end
