(* ===== verification/Hasher.thy ===== *)
theory Hasher
  imports Codec Daml_Types
begin

text \<open>
  \<open>crates/tx-verifier/src/hasher.rs\<close>: the three-layer hash of a prepared
  transaction. \<open>hex\<close> stands for \<open>hex::decode\<close> and \<open>sha\<close> for \<open>Sha256::digest\<close>, both of
  other crates; nothing is assumed of them here. Every encoder returns the bytes it
  appends, or the error that aborts the whole computation.
\<close>

section \<open>Constants\<close>

definition HASH_PURPOSE :: bytes where "HASH_PURPOSE = [0x00, 0x00, 0x00, 0x30]"
definition NODE_ENCODING_V1 :: u8 where "NODE_ENCODING_V1 = 0x01"
definition METADATA_ENCODING_V1 :: u8 where "METADATA_ENCODING_V1 = 0x01"
definition HASHING_SCHEME_V2 :: u8 where "HASHING_SCHEME_V2 = 0x02"
definition MAX_NODE_DEPTH :: nat where "MAX_NODE_DEPTH = 256"
definition MAX_VALUE_DEPTH :: nat where "MAX_VALUE_DEPTH = 128"

definition CREATE_TAG :: u8 where "CREATE_TAG = 0x00"
definition EXERCISE_TAG :: u8 where "EXERCISE_TAG = 0x01"
definition FETCH_TAG :: u8 where "FETCH_TAG = 0x02"
definition ROLLBACK_TAG :: u8 where "ROLLBACK_TAG = 0x03"

definition UNIT_TAG :: u8 where "UNIT_TAG = 0x00"
definition BOOL_TAG :: u8 where "BOOL_TAG = 0x01"
definition INT64_TAG :: u8 where "INT64_TAG = 0x02"
definition NUMERIC_TAG :: u8 where "NUMERIC_TAG = 0x03"
definition TIMESTAMP_TAG :: u8 where "TIMESTAMP_TAG = 0x04"
definition DATE_TAG :: u8 where "DATE_TAG = 0x05"
definition PARTY_TAG :: u8 where "PARTY_TAG = 0x06"
definition TEXT_TAG :: u8 where "TEXT_TAG = 0x07"
definition CONTRACT_ID_TAG :: u8 where "CONTRACT_ID_TAG = 0x08"
definition OPTIONAL_TAG :: u8 where "OPTIONAL_TAG = 0x09"
definition LIST_TAG :: u8 where "LIST_TAG = 0x0A"
definition TEXT_MAP_TAG :: u8 where "TEXT_MAP_TAG = 0x0B"
definition RECORD_TAG :: u8 where "RECORD_TAG = 0x0C"
definition VARIANT_TAG :: u8 where "VARIANT_TAG = 0x0D"
definition ENUM_TAG :: u8 where "ENUM_TAG = 0x0E"
definition GEN_MAP_TAG :: u8 where "GEN_MAP_TAG = 0x0F"

lemmas value_tag_defs = UNIT_TAG_def BOOL_TAG_def INT64_TAG_def NUMERIC_TAG_def
  TIMESTAMP_TAG_def DATE_TAG_def PARTY_TAG_def TEXT_TAG_def CONTRACT_ID_TAG_def
  OPTIONAL_TAG_def LIST_TAG_def TEXT_MAP_TAG_def RECORD_TAG_def VARIANT_TAG_def
  ENUM_TAG_def GEN_MAP_TAG_def

lemmas node_tag_defs = CREATE_TAG_def EXERCISE_TAG_def FETCH_TAG_def ROLLBACK_TAG_def

section \<open>Identifiers\<close>

definition encode_parts :: "string list \<Rightarrow> bytes" where
  "encode_parts ps = i32_val (len_i32 (length ps)) @ concat (map str_val ps)"

definition encode_identifier :: "daml_id \<Rightarrow> bytes" where
  "encode_identifier i = str_val (id_package i)
     @ encode_parts (split_on CHR ''.'' (id_module i))
     @ encode_parts (split_on CHR ''.'' (id_entity i))"

definition encode_optional_identifier :: "daml_id option \<Rightarrow> bytes" where
  "encode_optional_identifier i =
     (case i of Some j \<Rightarrow> 0x01 # encode_identifier j | None \<Rightarrow> [0x00])"

section \<open>Values\<close>

text \<open>
  \<open>encode_value_at\<close> checks the depth and that the oneof is set; \<open>encode_sum\<close> is its
  \<open>match\<close>, whose nested values are encoded one level deeper, and the four list
  functions are its loops.
\<close>

fun encode_value_at :: "(string \<Rightarrow> bytes option) \<Rightarrow> dvalue \<Rightarrow> nat \<Rightarrow> bytes result"
  and encode_sum :: "(string \<Rightarrow> bytes option) \<Rightarrow> vsum \<Rightarrow> nat \<Rightarrow> bytes result"
  and encode_values :: "(string \<Rightarrow> bytes option) \<Rightarrow> dvalue list \<Rightarrow> nat \<Rightarrow> bytes result"
  and encode_text_entries ::
    "(string \<Rightarrow> bytes option) \<Rightarrow> text_entry list \<Rightarrow> nat \<Rightarrow> bytes result"
  and encode_fields :: "(string \<Rightarrow> bytes option) \<Rightarrow> rfield list \<Rightarrow> nat \<Rightarrow> bytes result"
  and encode_gen_entries ::
    "(string \<Rightarrow> bytes option) \<Rightarrow> gen_entry list \<Rightarrow> nat \<Rightarrow> bytes result"
where
  "encode_value_at hex (Value s) depth =
     (if depth > MAX_VALUE_DEPTH
      then Inl [Lit ''value nesting exceeds '', Num (int MAX_VALUE_DEPTH), Lit '' levels'']
      else case s of None \<Rightarrow> Inl [Lit ''Value has no sum field set'']
        | Some v \<Rightarrow> encode_sum hex v (depth + 1))"
| "encode_sum hex VUnit next = Inr [UNIT_TAG]"
| "encode_sum hex (VBool b) next = Inr (BOOL_TAG # bool_val b)"
| "encode_sum hex (VInt64 v) next = Inr (INT64_TAG # i64_val v)"
| "encode_sum hex (VNumeric s) next = Inr (NUMERIC_TAG # str_val s)"
| "encode_sum hex (VTimestamp v) next = Inr (TIMESTAMP_TAG # i64_val v)"
| "encode_sum hex (VDate v) next = Inr (DATE_TAG # i32_val v)"
| "encode_sum hex (VParty s) next = Inr (PARTY_TAG # str_val s)"
| "encode_sum hex (VText s) next = Inr (TEXT_TAG # str_val s)"
| "encode_sum hex (VContractId s) next =
     try_bind (hex_bytes hex s) (\<lambda>b. Inr (CONTRACT_ID_TAG # b))"
| "encode_sum hex (VOptional v) next =
     (case v of None \<Rightarrow> Inr [OPTIONAL_TAG, 0x00]
      | Some inner \<Rightarrow> try_bind (encode_value_at hex inner next)
          (\<lambda>b. Inr (OPTIONAL_TAG # 0x01 # b)))"
| "encode_sum hex (VList es) next =
     try_bind (encode_values hex es next)
       (\<lambda>b. Inr (LIST_TAG # i32_val (len_i32 (length es)) @ b))"
| "encode_sum hex (VTextMap es) next =
     try_bind (encode_text_entries hex es next)
       (\<lambda>b. Inr (TEXT_MAP_TAG # i32_val (len_i32 (length es)) @ b))"
| "encode_sum hex (VRecord (Record i fs)) next =
     try_bind (encode_fields hex fs next)
       (\<lambda>b. Inr (RECORD_TAG # encode_optional_identifier i
                  @ i32_val (len_i32 (length fs)) @ b))"
| "encode_sum hex (VVariant i c v) next =
     (case v of None \<Rightarrow> Inl [Lit ''Variant missing value'']
      | Some w \<Rightarrow> try_bind (encode_value_at hex w next)
          (\<lambda>b. Inr (VARIANT_TAG # encode_optional_identifier i @ str_val c @ b)))"
| "encode_sum hex (VEnum i c) next =
     Inr (ENUM_TAG # encode_optional_identifier i @ str_val c)"
| "encode_sum hex (VGenMap es) next =
     try_bind (encode_gen_entries hex es next)
       (\<lambda>b. Inr (GEN_MAP_TAG # i32_val (len_i32 (length es)) @ b))"
| "encode_values hex [] next = Inr []"
| "encode_values hex (v # vs) next =
     try_bind (encode_value_at hex v next) (\<lambda>b.
     try_bind (encode_values hex vs next) (\<lambda>bs. Inr (b @ bs)))"
| "encode_text_entries hex [] next = Inr []"
| "encode_text_entries hex (TextEntry k v # es) next =
     (case v of None \<Rightarrow> Inl [Lit ''TextMap entry missing value'']
      | Some w \<Rightarrow> try_bind (encode_value_at hex w next) (\<lambda>b.
          try_bind (encode_text_entries hex es next) (\<lambda>bs. Inr (str_val k @ b @ bs))))"
| "encode_fields hex [] next = Inr []"
| "encode_fields hex (RecordField l v # fs) next =
     (case v of None \<Rightarrow> Inl [Lit ''Record field missing value'']
      | Some w \<Rightarrow> try_bind (encode_value_at hex w next) (\<lambda>b.
          try_bind (encode_fields hex fs next) (\<lambda>bs.
            Inr ((if l = [] then [0x00] else 0x01 # str_val l) @ b @ bs))))"
| "encode_gen_entries hex [] next = Inr []"
| "encode_gen_entries hex (GenEntry k v # es) next =
     (case k of None \<Rightarrow> Inl [Lit ''GenMap entry missing key'']
      | Some k' \<Rightarrow> try_bind (encode_value_at hex k' next) (\<lambda>kb.
          (case v of None \<Rightarrow> Inl [Lit ''GenMap entry missing value'']
           | Some w \<Rightarrow> try_bind (encode_value_at hex w next) (\<lambda>b.
               try_bind (encode_gen_entries hex es next) (\<lambda>bs. Inr (kb @ b @ bs))))))"

definition encode_value :: "(string \<Rightarrow> bytes option) \<Rightarrow> dvalue \<Rightarrow> bytes result" where
  "encode_value hex v = encode_value_at hex v 1"


section \<open>Seeds and the walk over the nodes\<close>

text \<open>
  \<open>build_seed_map\<close>: seeds by node id in decimal; \<open>entry().or_insert\<close> keeps the first
  seed of an id.
\<close>

type_synonym seed_map = "string \<rightharpoonup> bytes"

definition build_seed_map :: "node_seed list \<Rightarrow> seed_map" where
  "build_seed_map seeds =
     fold (\<lambda>ns m. let k = show_int (sint (ns_node_id ns)) in
             (case m k of Some _ \<Rightarrow> m | None \<Rightarrow> m(k \<mapsto> ns_seed ns)))
          seeds Map.empty"

text \<open>
  The lookup tables of \<open>NodeWalk\<close>, with the two library functions; the set of node ids
  already hashed is threaded through the recursion.
\<close>

record walk =
  w_hex :: "string \<Rightarrow> bytes option"
  w_sha :: "bytes \<Rightarrow> bytes"
  w_nodes :: nodes_dict
  w_seeds :: seed_map

definition encode_create_node ::
  "(string \<Rightarrow> bytes option) \<Rightarrow> create \<Rightarrow> bytes option \<Rightarrow> bytes result" where
  "encode_create_node hex c seed =
     try_bind (hex_bytes hex (c_contract_id c)) (\<lambda>cid.
     try_bind (with_ctx (c_template_id c) ''Create missing template_id'') (\<lambda>tid.
     try_bind (with_ctx (c_argument c) ''Create missing argument'') (\<lambda>arg.
     try_bind (encode_value hex arg) (\<lambda>argb.
       Inr (str_val (c_lf_version c) @ [CREATE_TAG]
         @ (case seed of Some s \<Rightarrow> 0x01 # s | None \<Rightarrow> [0x00])
         @ cid @ str_val (c_package_name c) @ encode_identifier tid @ argb
         @ string_set (c_signatories c) @ string_set (c_stakeholders c))))))"

definition encode_fetch_node ::
  "(string \<Rightarrow> bytes option) \<Rightarrow> fetch \<Rightarrow> bytes result" where
  "encode_fetch_node hex f =
     try_bind (hex_bytes hex (f_contract_id f)) (\<lambda>cid.
     try_bind (with_ctx (f_template_id f) ''Fetch missing template_id'') (\<lambda>tid.
       Inr (str_val (f_lf_version f) @ [FETCH_TAG] @ cid @ str_val (f_package_name f)
         @ encode_identifier tid @ string_set (f_signatories f)
         @ string_set (f_stakeholders f) @ encode_optional_identifier (f_interface_id f)
         @ string_set (f_acting_parties f))))"

text \<open>
  An exercise node up to its children: everything \<open>encode_exercise_node\<close> appends before
  it calls \<open>encode_node_ids\<close>.
\<close>

definition encode_exercise_result ::
  "(string \<Rightarrow> bytes option) \<Rightarrow> dvalue option \<Rightarrow> bytes result" where
  "encode_exercise_result hex r =
     (case r of Some v \<Rightarrow> try_bind (encode_value hex v) (\<lambda>b. Inr (0x01 # b))
      | None \<Rightarrow> Inr [0x00])"

definition encode_exercise_head ::
  "(string \<Rightarrow> bytes option) \<Rightarrow> exercise \<Rightarrow> bytes option \<Rightarrow> bytes result" where
  "encode_exercise_head hex e seed =
     try_bind (with_ctx seed ''Exercise node must have a seed'') (\<lambda>sd.
     try_bind (hex_bytes hex (e_contract_id e)) (\<lambda>cid.
     try_bind (with_ctx (e_template_id e) ''Exercise missing template_id'') (\<lambda>tid.
     try_bind (with_ctx (e_chosen_value e) ''Exercise missing chosen_value'') (\<lambda>cv.
     try_bind (encode_value hex cv) (\<lambda>cvb.
     try_bind (encode_exercise_result hex (e_exercise_result e)) (\<lambda>resb.
       Inr (str_val (e_lf_version e) @ [EXERCISE_TAG] @ sd @ cid
         @ str_val (e_package_name e) @ encode_identifier tid
         @ string_set (e_signatories e) @ string_set (e_stakeholders e)
         @ string_set (e_acting_parties e) @ encode_optional_identifier (e_interface_id e)
         @ str_val (e_choice_id e) @ cvb @ bool_val (e_consuming e) @ resb
         @ string_set (e_choice_observers e))))))))"

text \<open>
  The recursion over the transaction. \<open>encode_node_ids\<close> refuses a node that was
  already referenced and a nesting deeper than \<open>MAX_NODE_DEPTH\<close>; the depth bound is also
  why the recursion ends. \<open>encode_each_node\<close> is its loop.
\<close>

function (sequential)
      hash_node :: "walk \<Rightarrow> node \<Rightarrow> string set \<Rightarrow> nat \<Rightarrow> (bytes \<times> string set) result"
  and encode_exercise_node ::
    "walk \<Rightarrow> exercise \<Rightarrow> string \<Rightarrow> string set \<Rightarrow> nat \<Rightarrow> (bytes \<times> string set) result"
  and encode_rollback_node ::
    "walk \<Rightarrow> rollback \<Rightarrow> string set \<Rightarrow> nat \<Rightarrow> (bytes \<times> string set) result"
  and encode_node_ids ::
    "walk \<Rightarrow> string list \<Rightarrow> string set \<Rightarrow> nat \<Rightarrow> (bytes \<times> string set) result"
  and encode_each_node ::
    "walk \<Rightarrow> string list \<Rightarrow> string set \<Rightarrow> nat \<Rightarrow> (bytes \<times> string set) result"
where
  "hash_node w n seen depth =
     (case versioned n of
        None \<Rightarrow> Inl [Lit ''Node missing versioned_node'']
      | Some (V1 None) \<Rightarrow> Inl [Lit ''v1 Node missing node_type'']
      | Some (V1 (Some nt)) \<Rightarrow>
          try_bind (case nt of
              Create c \<Rightarrow> try_bind (encode_create_node (w_hex w) c (w_seeds w (node_id n)))
                (\<lambda>b. Inr (b, seen))
            | Exercise e \<Rightarrow> encode_exercise_node w e (node_id n) seen depth
            | Fetch f \<Rightarrow> try_bind (encode_fetch_node (w_hex w) f) (\<lambda>b. Inr (b, seen))
            | Rollback r \<Rightarrow> encode_rollback_node w r seen depth)
          (\<lambda>(b, seen'). Inr (w_sha w (NODE_ENCODING_V1 # b), seen')))"
| "encode_exercise_node w e nid seen depth =
     try_bind (encode_exercise_head (w_hex w) e (w_seeds w nid)) (\<lambda>hd.
     try_bind (encode_node_ids w (e_children e) seen (depth + 1)) (\<lambda>(b, seen').
       Inr (hd @ b, seen')))"
| "encode_rollback_node w r seen depth =
     try_bind (encode_node_ids w (r_children r) seen (depth + 1)) (\<lambda>(b, seen').
       Inr (ROLLBACK_TAG # b, seen'))"
| "encode_node_ids w ids seen depth =
     (if depth > MAX_NODE_DEPTH \<and> ids \<noteq> []
      then Inl [Lit ''transaction nesting exceeds '', Num (int MAX_NODE_DEPTH), Lit '' levels'']
      else try_bind (encode_each_node w ids seen depth) (\<lambda>(b, seen').
        Inr (i32_val (len_i32 (length ids)) @ b, seen')))"
| "encode_each_node w [] seen depth = Inr ([], seen)"
| "encode_each_node w (i # is) seen depth =
     (if i \<in> seen
      then Inl [Lit ''Node '', Arg i, Lit '' referenced more than once'']
      else case w_nodes w i of
        None \<Rightarrow> Inl [Lit ''Node '', Arg i, Lit '' not found in transaction'']
      | Some n \<Rightarrow>
          try_bind (hash_node w n (insert i seen) depth) (\<lambda>(h, seen').
          try_bind (encode_each_node w is seen' depth) (\<lambda>(b, seen'').
            Inr (h @ b, seen''))))"
  by pat_completeness auto

termination
  by (relation "measures
       [\<lambda>x. case x of
            Inl (Inl (w, n, seen, d)) \<Rightarrow> 257 - d
          | Inl (Inr (w, e, i, seen, d)) \<Rightarrow> 257 - d
          | Inr (Inl (w, r, seen, d)) \<Rightarrow> 257 - d
          | Inr (Inr (Inl (w, ids, seen, d))) \<Rightarrow> if d > 256 then 0 else 257 - d
          | Inr (Inr (Inr (w, ids, seen, d))) \<Rightarrow> if d > 256 then 0 else 257 - d,
        \<lambda>x. case x of
            Inl (Inl (w, n, seen, d)) \<Rightarrow> 4
          | Inl (Inr (w, e, i, seen, d)) \<Rightarrow> 3
          | Inr (Inl (w, r, seen, d)) \<Rightarrow> 3
          | Inr (Inr (Inl (w, ids, seen, d))) \<Rightarrow> if d > 256 then 2 else 6 + length ids
          | Inr (Inr (Inr (w, ids, seen, d))) \<Rightarrow> if d > 256 \<and> ids = [] then 1 else 5 + length ids]")
     (auto simp: MAX_NODE_DEPTH_def)


declare hash_node.simps [simp del] encode_exercise_node.simps [simp del]
  encode_rollback_node.simps [simp del] encode_node_ids.simps [simp del]

section \<open>The three layers\<close>

text \<open>
  The accumulator at its \<open>finish()\<close> is named for each layer (\<open>..._acc\<close>), and the layer's
  hash is its digest.
\<close>

definition node_walk ::
  "(string \<Rightarrow> bytes option) \<Rightarrow> (bytes \<Rightarrow> bytes) \<Rightarrow> daml_transaction \<Rightarrow> walk" where
  "node_walk hex sha tx = \<lparr>w_hex = hex, w_sha = sha, w_nodes = build_nodes_dict tx,
     w_seeds = build_seed_map (node_seeds tx)\<rparr>"

definition transaction_acc ::
  "(string \<Rightarrow> bytes option) \<Rightarrow> (bytes \<Rightarrow> bytes) \<Rightarrow> daml_transaction \<Rightarrow> bytes result" where
  "transaction_acc hex sha tx =
     try_bind (encode_node_ids (node_walk hex sha tx) (roots tx) {} 1) (\<lambda>(b, seen).
       Inr (HASH_PURPOSE @ str_val (tx_version tx) @ b))"

definition hash_transaction ::
  "(string \<Rightarrow> bytes option) \<Rightarrow> (bytes \<Rightarrow> bytes) \<Rightarrow> daml_transaction \<Rightarrow> bytes result" where
  "hash_transaction hex sha tx = try_bind (transaction_acc hex sha tx) (\<lambda>b. Inr (sha b))"

definition encode_opt_u64 :: "u64 option \<Rightarrow> bytes" where
  "encode_opt_u64 t = (case t of Some v \<Rightarrow> 0x01 # u64_val v | None \<Rightarrow> [0x00])"

fun encode_input_contracts ::
  "(string \<Rightarrow> bytes option) \<Rightarrow> (bytes \<Rightarrow> bytes) \<Rightarrow> input_contract list \<Rightarrow> bytes result" where
  "encode_input_contracts hex sha [] = Inr []"
| "encode_input_contracts hex sha (ic # ics) =
     (case ic_contract ic of
        None \<Rightarrow> Inl [Lit ''Input contract missing v1 create'']
      | Some c \<Rightarrow>
          try_bind (encode_create_node hex c None) (\<lambda>b.
          try_bind (encode_input_contracts hex sha ics) (\<lambda>bs.
            Inr (u64_val (ic_created_at ic) @ sha (NODE_ENCODING_V1 # b) @ bs))))"

definition metadata_acc ::
  "(string \<Rightarrow> bytes option) \<Rightarrow> (bytes \<Rightarrow> bytes) \<Rightarrow> metadata \<Rightarrow> bool \<Rightarrow> bytes result" where
  "metadata_acc hex sha m is_v3 =
     try_bind (with_ctx (submitter m) ''Metadata missing submitter_info'') (\<lambda>sub.
     try_bind (encode_input_contracts hex sha (input_contracts m)) (\<lambda>ics.
       Inr (HASH_PURPOSE @ [METADATA_ENCODING_V1]
         @ string_set (act_as sub) @ str_val (command_id sub)
         @ str_val (transaction_uuid m) @ u32_val (mediator_group m)
         @ str_val (synchronizer_id m)
         @ encode_opt_u64 (min_ledger_effective_time m)
         @ encode_opt_u64 (max_ledger_effective_time m)
         @ u64_val (preparation_time m)
         @ i32_val (len_i32 (length (input_contracts m))) @ ics
         @ (if is_v3 then encode_opt_u64 (max_record_time m) else []))))"

definition hash_metadata ::
  "(string \<Rightarrow> bytes option) \<Rightarrow> (bytes \<Rightarrow> bytes) \<Rightarrow> metadata \<Rightarrow> bool \<Rightarrow> bytes result" where
  "hash_metadata hex sha m is_v3 = try_bind (metadata_acc hex sha m is_v3) (\<lambda>b. Inr (sha b))"

definition parse_hashing_version :: "string \<Rightarrow> bool" where
  "parse_hashing_version s \<longleftrightarrow>
     s = ''HASHING_SCHEME_VERSION_V3'' \<or> s = ''V3'' \<or> s = ''3''"

definition final_acc ::
  "(string \<Rightarrow> bytes option) \<Rightarrow> (bytes \<Rightarrow> bytes) \<Rightarrow> prepared_transaction \<Rightarrow> string \<Rightarrow> bytes result" where
  "final_acc hex sha p version =
     try_bind (with_ctx (p_transaction p) ''PreparedTransaction missing transaction'') (\<lambda>tx.
     try_bind (with_ctx (p_metadata p) ''PreparedTransaction missing metadata'') (\<lambda>md.
     let is_v3 = parse_hashing_version version in
     try_bind (hash_transaction hex sha tx) (\<lambda>tx_hash.
     try_bind (hash_metadata hex sha md is_v3) (\<lambda>meta_hash.
       Inr (HASH_PURPOSE @ [HASHING_SCHEME_V2] @ tx_hash @ meta_hash)))))"

definition compute_final_hash ::
  "(string \<Rightarrow> bytes option) \<Rightarrow> (bytes \<Rightarrow> bytes) \<Rightarrow> prepared_transaction \<Rightarrow> string \<Rightarrow> bytes result" where
  "compute_final_hash hex sha p version =
     try_bind (final_acc hex sha p version) (\<lambda>b. Inr (sha b))"

text \<open>
  The entry point. A failed computation is the all-zero sentinel, not an error; only
  bytes that do not decode (\<open>PreparedTransaction::decode\<close>, generated code) are one.
\<close>

definition zero_hash :: bytes where
  "zero_hash = replicate 32 0"

definition compute_hash ::
  "(string \<Rightarrow> bytes option) \<Rightarrow> (bytes \<Rightarrow> bytes) \<Rightarrow> (bytes \<Rightarrow> prepared_transaction option)
   \<Rightarrow> bytes \<Rightarrow> string \<Rightarrow> bytes result" where
  "compute_hash hex sha decode bs version =
     try_bind (with_ctx (decode bs) ''Failed to decode PreparedTransaction'') (\<lambda>p.
     case compute_final_hash hex sha p version of
       Inr h \<Rightarrow> Inr h
     | Inl e \<Rightarrow> Inr zero_hash)"

end
