(* ===== verification/Hash_Binding.thy ===== *)
theory Hash_Binding
  imports Hasher
begin

text \<open>
  What the bytes of \<open>hasher.rs\<close> determine. Every encoder is shown to be a prefix code up to
  a canonical form (\<open>canon_...\<close>), under size bounds (\<open>..._ok\<close>) that keep each length
  within the 32 bits it is written in. A walk denotes a tree of canonical nodes, and two
  walks whose hashes agree denote the same tree unless the hash collides on their nodes
  (\<open>hash_binding\<close>).
\<close>

section \<open>Identifiers\<close>

definition dotted_ok :: "string \<Rightarrow> bool" where
  "dotted_ok s \<longleftrightarrow> Suc (length s) < 2 ^ 32"

definition id_ok :: "daml_id \<Rightarrow> bool" where
  "id_ok i \<longleftrightarrow> str_ok (id_package i) \<and> dotted_ok (id_module i) \<and> dotted_ok (id_entity i)"

definition opt_ok :: "('a \<Rightarrow> bool) \<Rightarrow> 'a option \<Rightarrow> bool" where
  "opt_ok P x \<longleftrightarrow> (case x of None \<Rightarrow> True | Some v \<Rightarrow> P v)"

lemma opt_ok_simps [simp]: "opt_ok P None" "opt_ok P (Some v) \<longleftrightarrow> P v"
  by (simp_all add: opt_ok_def)

lemma dotted_strs_ok: "dotted_ok s \<Longrightarrow> strs_ok (split_on c s)"
  using length_split_on_parts [of c s] length_split_on [of _ c s]
  by (fastforce simp: dotted_ok_def strs_ok_def str_ok_def)

lemma encode_parts_append_iff:
  assumes "dotted_ok a" and "dotted_ok b"
  shows "encode_parts (split_on c a) @ s = encode_parts (split_on c b) @ t \<longleftrightarrow> a = b \<and> s = t"
  using counted_strs_append_iff [OF dotted_strs_ok [OF assms(1)] dotted_strs_ok [OF assms(2)]]
  by (simp add: encode_parts_def)

lemma encode_identifier_append_iff:
  "id_ok i \<Longrightarrow> id_ok j \<Longrightarrow>
   encode_identifier i @ s = encode_identifier j @ t \<longleftrightarrow> i = j \<and> s = t"
  by (auto simp: encode_identifier_def id_ok_def str_val_append_iff encode_parts_append_iff)

interpretation identifier_code: prefix_code encode_identifier id_ok
  by unfold_locales (auto simp: encode_identifier_append_iff)

lemma encode_optional_identifier_append_iff:
  "opt_ok id_ok i \<Longrightarrow> opt_ok id_ok j \<Longrightarrow>
   encode_optional_identifier i @ s = encode_optional_identifier j @ t \<longleftrightarrow> i = j \<and> s = t"
  by (auto simp: encode_optional_identifier_def encode_identifier_append_iff split: option.splits)

interpretation opt_identifier_code: prefix_code encode_optional_identifier "opt_ok id_ok"
  by unfold_locales (auto simp: encode_optional_identifier_append_iff)

section \<open>Values\<close>

text \<open>
  What the bytes of a value determine: the value with every contract id replaced by the
  bytes its hex text decodes to (so \<open>ab\<close> and \<open>AB\<close> are one contract id).
\<close>

definition canon_cid :: "(string \<Rightarrow> bytes option) \<Rightarrow> string \<Rightarrow> string" where
  "canon_cid hex s = (case hex s of None \<Rightarrow> s | Some b \<Rightarrow> map (\<lambda>w. char_of (unat w)) b)"

primrec canon_value :: "(string \<Rightarrow> bytes option) \<Rightarrow> dvalue \<Rightarrow> dvalue"
  and canon_sum :: "(string \<Rightarrow> bytes option) \<Rightarrow> vsum \<Rightarrow> vsum"
  and canon_record :: "(string \<Rightarrow> bytes option) \<Rightarrow> drecord \<Rightarrow> drecord"
  and canon_field :: "(string \<Rightarrow> bytes option) \<Rightarrow> rfield \<Rightarrow> rfield"
  and canon_text :: "(string \<Rightarrow> bytes option) \<Rightarrow> text_entry \<Rightarrow> text_entry"
  and canon_gen :: "(string \<Rightarrow> bytes option) \<Rightarrow> gen_entry \<Rightarrow> gen_entry"
where
  "canon_value hex (Value s) = Value (map_option (canon_sum hex) s)"
| "canon_sum hex VUnit = VUnit"
| "canon_sum hex (VBool b) = VBool b"
| "canon_sum hex (VInt64 v) = VInt64 v"
| "canon_sum hex (VDate v) = VDate v"
| "canon_sum hex (VTimestamp v) = VTimestamp v"
| "canon_sum hex (VNumeric s) = VNumeric s"
| "canon_sum hex (VParty s) = VParty s"
| "canon_sum hex (VText s) = VText s"
| "canon_sum hex (VContractId s) = VContractId (canon_cid hex s)"
| "canon_sum hex (VOptional v) = VOptional (map_option (canon_value hex) v)"
| "canon_sum hex (VList es) = VList (map (canon_value hex) es)"
| "canon_sum hex (VTextMap es) = VTextMap (map (canon_text hex) es)"
| "canon_sum hex (VGenMap es) = VGenMap (map (canon_gen hex) es)"
| "canon_sum hex (VRecord r) = VRecord (canon_record hex r)"
| "canon_sum hex (VVariant i c v) = VVariant i c (map_option (canon_value hex) v)"
| "canon_sum hex (VEnum i c) = VEnum i c"
| "canon_record hex (Record i fs) = Record i (map (canon_field hex) fs)"
| "canon_field hex (RecordField l v) = RecordField l (map_option (canon_value hex) v)"
| "canon_text hex (TextEntry k v) = TextEntry k (map_option (canon_value hex) v)"
| "canon_gen hex (GenEntry k v) =
     GenEntry (map_option (canon_value hex) k) (map_option (canon_value hex) v)"

text \<open>Every length that is written in 32 bits fits.\<close>

definition hex_ok :: "(string \<Rightarrow> bytes option) \<Rightarrow> string \<Rightarrow> bool" where
  "hex_ok hex s \<longleftrightarrow> opt_ok (\<lambda>b. length b < 2 ^ 32) (hex s)"

primrec value_ok :: "(string \<Rightarrow> bytes option) \<Rightarrow> dvalue \<Rightarrow> bool"
  and sum_ok :: "(string \<Rightarrow> bytes option) \<Rightarrow> vsum \<Rightarrow> bool"
  and record_ok :: "(string \<Rightarrow> bytes option) \<Rightarrow> drecord \<Rightarrow> bool"
  and field_ok :: "(string \<Rightarrow> bytes option) \<Rightarrow> rfield \<Rightarrow> bool"
  and text_ok :: "(string \<Rightarrow> bytes option) \<Rightarrow> text_entry \<Rightarrow> bool"
  and gen_ok :: "(string \<Rightarrow> bytes option) \<Rightarrow> gen_entry \<Rightarrow> bool"
where
  "value_ok hex (Value s) = pred_option (sum_ok hex) s"
| "sum_ok hex VUnit = True"
| "sum_ok hex (VBool b) = True"
| "sum_ok hex (VInt64 v) = True"
| "sum_ok hex (VDate v) = True"
| "sum_ok hex (VTimestamp v) = True"
| "sum_ok hex (VNumeric s) = str_ok s"
| "sum_ok hex (VParty s) = str_ok s"
| "sum_ok hex (VText s) = str_ok s"
| "sum_ok hex (VContractId s) = hex_ok hex s"
| "sum_ok hex (VOptional v) = pred_option (value_ok hex) v"
| "sum_ok hex (VList es) = (length es < 2 ^ 32 \<and> list_all (value_ok hex) es)"
| "sum_ok hex (VTextMap es) = (length es < 2 ^ 32 \<and> list_all (text_ok hex) es)"
| "sum_ok hex (VGenMap es) = (length es < 2 ^ 32 \<and> list_all (gen_ok hex) es)"
| "sum_ok hex (VRecord r) = record_ok hex r"
| "sum_ok hex (VVariant i c v) =
     (opt_ok id_ok i \<and> str_ok c \<and> pred_option (value_ok hex) v)"
| "sum_ok hex (VEnum i c) = (opt_ok id_ok i \<and> str_ok c)"
| "record_ok hex (Record i fs) =
     (opt_ok id_ok i \<and> length fs < 2 ^ 32 \<and> list_all (field_ok hex) fs)"
| "field_ok hex (RecordField l v) = (str_ok l \<and> pred_option (value_ok hex) v)"
| "text_ok hex (TextEntry k v) = (str_ok k \<and> pred_option (value_ok hex) v)"
| "gen_ok hex (GenEntry k v) = (pred_option (value_ok hex) k \<and> pred_option (value_ok hex) v)"


lemma canon_cid_eq:
  "hex s = Some b \<Longrightarrow> hex t = Some b \<Longrightarrow> canon_cid hex s = canon_cid hex t"
  by (simp add: canon_cid_def)

lemma hex_bytes_Inr_iff [result_simps]:
  "hex_bytes hex s = Inr b \<longleftrightarrow> (\<exists>c. hex s = Some c \<and> b = bytes_val c)"
  by (auto simp: hex_bytes_def split: option.splits)

lemmas append_iffs = str_val_append_iff bytes_val_append_iff string_set_append_iff
  encode_identifier_append_iff encode_optional_identifier_append_iff

text \<open>The first byte of an encoded value is the tag of its constructor.\<close>

primrec sum_tag :: "vsum \<Rightarrow> u8" where
  "sum_tag VUnit = UNIT_TAG"
| "sum_tag (VBool b) = BOOL_TAG"
| "sum_tag (VInt64 v) = INT64_TAG"
| "sum_tag (VDate v) = DATE_TAG"
| "sum_tag (VTimestamp v) = TIMESTAMP_TAG"
| "sum_tag (VNumeric s) = NUMERIC_TAG"
| "sum_tag (VParty s) = PARTY_TAG"
| "sum_tag (VText s) = TEXT_TAG"
| "sum_tag (VContractId s) = CONTRACT_ID_TAG"
| "sum_tag (VOptional v) = OPTIONAL_TAG"
| "sum_tag (VList es) = LIST_TAG"
| "sum_tag (VTextMap es) = TEXT_MAP_TAG"
| "sum_tag (VGenMap es) = GEN_MAP_TAG"
| "sum_tag (VRecord r) = RECORD_TAG"
| "sum_tag (VVariant i c v) = VARIANT_TAG"
| "sum_tag (VEnum i c) = ENUM_TAG"

lemma encode_sum_tag: "encode_sum hex u n = Inr b \<Longrightarrow> \<exists>r. b = sum_tag u # r"
  by (cases "(hex, u, n)" rule: encode_sum.cases) (auto simp: result_simps split: option.splits)

lemma encode_sum_same_tag:
  assumes "encode_sum hex u d = Inr b" and "encode_sum hex u' d' = Inr b'" and "b @ s = b' @ t"
  shows "sum_tag u' = sum_tag u"
  using assms encode_sum_tag [OF assms(1)] encode_sum_tag [OF assms(2)] by auto

lemma value_prefix:
  "encode_value_at hex v d = Inr b \<Longrightarrow> encode_value_at hex v' d' = Inr b' \<Longrightarrow>
   value_ok hex v \<Longrightarrow> value_ok hex v' \<Longrightarrow> b @ s = b' @ t \<Longrightarrow>
   canon_value hex v = canon_value hex v' \<and> s = t"
  "encode_sum hex u d = Inr b \<Longrightarrow> encode_sum hex u' d' = Inr b' \<Longrightarrow>
   sum_ok hex u \<Longrightarrow> sum_ok hex u' \<Longrightarrow> b @ s = b' @ t \<Longrightarrow>
   canon_sum hex u = canon_sum hex u' \<and> s = t"
  "encode_values hex vs d = Inr b \<Longrightarrow> encode_values hex vs' d' = Inr b' \<Longrightarrow>
   length vs = length vs' \<Longrightarrow>
   list_all (value_ok hex) vs \<Longrightarrow> list_all (value_ok hex) vs' \<Longrightarrow> b @ s = b' @ t \<Longrightarrow>
   map (canon_value hex) vs = map (canon_value hex) vs' \<and> s = t"
  "encode_text_entries hex ts d = Inr b \<Longrightarrow> encode_text_entries hex ts' d' = Inr b' \<Longrightarrow>
   length ts = length ts' \<Longrightarrow>
   list_all (text_ok hex) ts \<Longrightarrow> list_all (text_ok hex) ts' \<Longrightarrow> b @ s = b' @ t \<Longrightarrow>
   map (canon_text hex) ts = map (canon_text hex) ts' \<and> s = t"
  "encode_fields hex fs d = Inr b \<Longrightarrow> encode_fields hex fs' d' = Inr b' \<Longrightarrow>
   length fs = length fs' \<Longrightarrow>
   list_all (field_ok hex) fs \<Longrightarrow> list_all (field_ok hex) fs' \<Longrightarrow> b @ s = b' @ t \<Longrightarrow>
   map (canon_field hex) fs = map (canon_field hex) fs' \<and> s = t"
  "encode_gen_entries hex gs d = Inr b \<Longrightarrow> encode_gen_entries hex gs' d' = Inr b' \<Longrightarrow>
   length gs = length gs' \<Longrightarrow>
   list_all (gen_ok hex) gs \<Longrightarrow> list_all (gen_ok hex) gs' \<Longrightarrow> b @ s = b' @ t \<Longrightarrow>
   map (canon_gen hex) gs = map (canon_gen hex) gs' \<and> s = t"
proof (induction hex v d and hex u d and hex vs d and hex ts d and hex fs d and hex gs d
    arbitrary: v' d' b b' s t and u' d' b b' s t and vs' d' b b' s t and ts' d' b b' s t
      and fs' d' b b' s t and gs' d' b b' s t
    rule: encode_value_at_encode_sum_encode_values_encode_text_entries_encode_fields_encode_gen_entries.induct)
  case (1 hex sm depth)
  from "1.prems" obtain u u' where u: "sm = Some u" "v' = Value (Some u')" "\<not> depth > MAX_VALUE_DEPTH"
    and enc: "encode_sum hex u (depth + 1) = Inr b" "encode_sum hex u' (d' + 1) = Inr b'"
    by (cases v') (auto split: if_splits option.splits)
  have "canon_sum hex u = canon_sum hex u' \<and> s = t"
    by (rule "1.IH" [OF u(3,1) enc]) (use "1.prems" u in auto)
  with u show ?case by simp
next
  case (2)
  have u': "u' = VUnit"
    using encode_sum_same_tag [OF "2.prems"(1,2,5)] by (cases u') (simp_all add: value_tag_defs)
  with "2.prems" show ?case
    by (auto simp: result_simps append_iffs hex_ok_def bool_val_def
        intro: canon_cid_eq split: if_splits)
next
  case (3)
  obtain x where u': "u' = VBool x"
    using encode_sum_same_tag [OF "3.prems"(1,2,5)] by (cases u') (simp_all add: value_tag_defs)
  with "3.prems" show ?case
    by (auto simp: result_simps append_iffs hex_ok_def bool_val_def
        intro: canon_cid_eq split: if_splits)
next
  case (4)
  obtain x where u': "u' = VInt64 x"
    using encode_sum_same_tag [OF "4.prems"(1,2,5)] by (cases u') (simp_all add: value_tag_defs)
  with "4.prems" show ?case
    by (auto simp: result_simps append_iffs hex_ok_def bool_val_def
        intro: canon_cid_eq split: if_splits)
next
  case (5)
  obtain x where u': "u' = VNumeric x"
    using encode_sum_same_tag [OF "5.prems"(1,2,5)] by (cases u') (simp_all add: value_tag_defs)
  with "5.prems" show ?case
    by (auto simp: result_simps append_iffs hex_ok_def bool_val_def
        intro: canon_cid_eq split: if_splits)
next
  case (6)
  obtain x where u': "u' = VTimestamp x"
    using encode_sum_same_tag [OF "6.prems"(1,2,5)] by (cases u') (simp_all add: value_tag_defs)
  with "6.prems" show ?case
    by (auto simp: result_simps append_iffs hex_ok_def bool_val_def
        intro: canon_cid_eq split: if_splits)
next
  case (7)
  obtain x where u': "u' = VDate x"
    using encode_sum_same_tag [OF "7.prems"(1,2,5)] by (cases u') (simp_all add: value_tag_defs)
  with "7.prems" show ?case
    by (auto simp: result_simps append_iffs hex_ok_def bool_val_def
        intro: canon_cid_eq split: if_splits)
next
  case (8)
  obtain x where u': "u' = VParty x"
    using encode_sum_same_tag [OF "8.prems"(1,2,5)] by (cases u') (simp_all add: value_tag_defs)
  with "8.prems" show ?case
    by (auto simp: result_simps append_iffs hex_ok_def bool_val_def
        intro: canon_cid_eq split: if_splits)
next
  case (9)
  obtain x where u': "u' = VText x"
    using encode_sum_same_tag [OF "9.prems"(1,2,5)] by (cases u') (simp_all add: value_tag_defs)
  with "9.prems" show ?case
    by (auto simp: result_simps append_iffs hex_ok_def bool_val_def
        intro: canon_cid_eq split: if_splits)
next
  case (10)
  obtain x where u': "u' = VContractId x"
    using encode_sum_same_tag [OF "10.prems"(1,2,5)] by (cases u') (simp_all add: value_tag_defs)
  with "10.prems" show ?case
    by (auto simp: result_simps append_iffs hex_ok_def bool_val_def
        intro: canon_cid_eq split: if_splits)
next
  case (11 hex v nx)
  obtain x where u': "u' = VOptional x"
    using encode_sum_same_tag [OF "11.prems"(1,2,5)] by (cases u') (simp_all add: value_tag_defs)
  show ?case
  proof (cases v)
    case None
    with "11.prems" u' show ?thesis by (auto simp: result_simps split: option.splits)
  next
    case (Some w)
    with "11.prems" u' obtain w' c c' where
      "x = Some w'" "encode_value_at hex w nx = Inr c" "encode_value_at hex w' d' = Inr c'"
      "c @ s = c' @ t" "value_ok hex w" "value_ok hex w'"
      by (auto simp: result_simps split: option.splits)
    with "11.IH" [OF Some, of c w' d' c' s t] Some u' show ?thesis by simp
  qed
next
  case (12 hex es nx)
  obtain xs where u': "u' = VList xs"
    using encode_sum_same_tag [OF "12.prems"(1,2,5)] by (cases u') (simp_all add: value_tag_defs)
  from "12.prems" u' obtain c c' where
    "encode_values hex es nx = Inr c" "encode_values hex xs d' = Inr c'"
    "c @ s = c' @ t" "length es = length xs"
    "list_all (value_ok hex) es" "list_all (value_ok hex) xs"
    by (auto simp: result_simps len_i32_inject)
  with "12.IH" [of c xs d' c' s t] u' show ?case by simp
next
  case (13 hex es nx)
  obtain xs where u': "u' = VTextMap xs"
    using encode_sum_same_tag [OF "13.prems"(1,2,5)] by (cases u') (simp_all add: value_tag_defs)
  from "13.prems" u' obtain c c' where
    "encode_text_entries hex es nx = Inr c" "encode_text_entries hex xs d' = Inr c'"
    "c @ s = c' @ t" "length es = length xs"
    "list_all (text_ok hex) es" "list_all (text_ok hex) xs"
    by (auto simp: result_simps len_i32_inject)
  with "13.IH" [of c xs d' c' s t] u' show ?case by simp
next
  case (14 hex i fs nx)
  obtain x where u': "u' = VRecord x"
    using encode_sum_same_tag [OF "14.prems"(1,2,5)] by (cases u') (simp_all add: value_tag_defs)
  obtain j xs where x: "x = Record j xs" by (cases x)
  from "14.prems" u' x obtain c c' where
    "encode_fields hex fs nx = Inr c" "encode_fields hex xs d' = Inr c'"
    "c @ s = c' @ t" "i = j" "length fs = length xs"
    "list_all (field_ok hex) fs" "list_all (field_ok hex) xs"
    by (auto simp: result_simps append_iffs len_i32_inject)
  with "14.IH" [of c xs d' c' s t] u' x show ?case by simp
next
  case (15 hex i c v nx)
  obtain j k x where u': "u' = VVariant j k x"
    using encode_sum_same_tag [OF "15.prems"(1,2,5)] by (cases u') (simp_all add: value_tag_defs)
  from "15.prems" u' obtain w w' e e' where
    w: "v = Some w" and x: "x = Some w'" and "encode_value_at hex w nx = Inr e"
    "encode_value_at hex w' d' = Inr e'" "e @ s = e' @ t" "i = j" "c = k"
    "value_ok hex w" "value_ok hex w'"
    by (auto simp: result_simps append_iffs split: option.splits)
  with "15.IH" [OF w, of e w' d' e' s t] u' show ?case by simp
next
  case (16)
  obtain j k where u': "u' = VEnum j k"
    using encode_sum_same_tag [OF "16.prems"(1,2,5)] by (cases u') (simp_all add: value_tag_defs)
  with "16.prems" show ?case
    by (auto simp: result_simps append_iffs hex_ok_def bool_val_def
        intro: canon_cid_eq split: if_splits)
next
  case (17 hex es nx)
  obtain xs where u': "u' = VGenMap xs"
    using encode_sum_same_tag [OF "17.prems"(1,2,5)] by (cases u') (simp_all add: value_tag_defs)
  from "17.prems" u' obtain c c' where
    "encode_gen_entries hex es nx = Inr c" "encode_gen_entries hex xs d' = Inr c'"
    "c @ s = c' @ t" "length es = length xs"
    "list_all (gen_ok hex) es" "list_all (gen_ok hex) xs"
    by (auto simp: result_simps len_i32_inject)
  with "17.IH" [of c xs d' c' s t] u' show ?case by simp
next
  case (18)
  then show ?case by auto
next
  case (19 hex v vs nx)
  from "19.prems" obtain w ws where vs': "vs' = w # ws"
    by (cases vs') auto
  with "19.prems" obtain c c' e e' where
    enc: "encode_value_at hex v nx = Inr c" "encode_value_at hex w d' = Inr c'"
    "value_ok hex v" "value_ok hex w" "c @ e @ s = c' @ e' @ t"
    and rest: "encode_values hex vs nx = Inr e" "encode_values hex ws d' = Inr e'"
    "length vs = length ws" "list_all (value_ok hex) vs" "list_all (value_ok hex) ws"
    by (auto simp: result_simps)
  from "19.IH"(1) [OF enc] have hd: "canon_value hex v = canon_value hex w" "e @ s = e' @ t"
    by auto
  from "19.IH"(2) [OF enc(1) rest hd(2)] hd vs' show ?case by simp
next
  case (20)
  then show ?case by auto
next
  case (21 hex k v es nx)
  from "21.prems" obtain k' v' es' where ts': "ts' = TextEntry k' v' # es'"
    by (cases ts') (auto intro: text_entry.exhaust)
  with "21.prems" obtain w w' c c' e e' where w: "v = Some w" "v' = Some w'" "k = k'"
    and enc: "encode_value_at hex w nx = Inr c" "encode_value_at hex w' d' = Inr c'"
    "value_ok hex w" "value_ok hex w'" "c @ e @ s = c' @ e' @ t"
    and rest: "encode_text_entries hex es nx = Inr e" "encode_text_entries hex es' d' = Inr e'"
    "length es = length es'" "list_all (text_ok hex) es" "list_all (text_ok hex) es'"
    by (auto simp: result_simps append_iffs split: option.splits)
  from "21.IH"(1) [OF w(1) enc] have hd: "canon_value hex w = canon_value hex w'" "e @ s = e' @ t"
    by auto
  from "21.IH"(2) [OF w(1) enc(1) rest hd(2)] hd w ts' show ?case by simp
next
  case (22)
  then show ?case by auto
next
  case (23 hex l v fs nx)
  from "23.prems" obtain l' v' es' where fs': "fs' = RecordField l' v' # es'"
    by (cases fs') (auto intro: rfield.exhaust)
  with "23.prems" obtain w w' c c' e e' where w: "v = Some w" "v' = Some w'" "l = l'"
    and enc: "encode_value_at hex w nx = Inr c" "encode_value_at hex w' d' = Inr c'"
    "value_ok hex w" "value_ok hex w'" "c @ e @ s = c' @ e' @ t"
    and rest: "encode_fields hex fs nx = Inr e" "encode_fields hex es' d' = Inr e'"
    "length fs = length es'" "list_all (field_ok hex) fs" "list_all (field_ok hex) es'"
    by (auto simp: result_simps append_iffs split: option.splits if_splits)
  from "23.IH"(1) [OF w(1) enc] have hd: "canon_value hex w = canon_value hex w'" "e @ s = e' @ t"
    by auto
  from "23.IH"(2) [OF w(1) enc(1) rest hd(2)] hd w fs' show ?case by simp
next
  case (24)
  then show ?case by auto
next
  case (25 hex k v es nx)
  from "25.prems" obtain k' v' es' where gs': "gs' = GenEntry k' v' # es'"
    by (cases gs') (auto intro: gen_entry.exhaust)
  with "25.prems" obtain u u' w w' a a' c c' e e' where
    w: "k = Some u" "k' = Some u'" "v = Some w" "v' = Some w'"
    and key: "encode_value_at hex u nx = Inr a" "encode_value_at hex u' d' = Inr a'"
    "value_ok hex u" "value_ok hex u'" "a @ c @ e @ s = a' @ c' @ e' @ t"
    and enc: "encode_value_at hex w nx = Inr c" "encode_value_at hex w' d' = Inr c'"
    "value_ok hex w" "value_ok hex w'"
    and rest: "encode_gen_entries hex es nx = Inr e" "encode_gen_entries hex es' d' = Inr e'"
    "length es = length es'" "list_all (gen_ok hex) es" "list_all (gen_ok hex) es'"
    by (auto simp: result_simps split: option.splits)
  from "25.IH"(1) [OF w(1) key]
  have k: "canon_value hex u = canon_value hex u'" "c @ e @ s = c' @ e' @ t" by auto
  from "25.IH"(2) [OF w(1) key(1) w(3) enc k(2)]
  have hd: "canon_value hex w = canon_value hex w'" "e @ s = e' @ t" by auto
  from "25.IH"(3) [OF w(1) key(1) w(3) enc(1) rest hd(2)] k hd w gs' show ?case by simp
qed


interpretation value_code: partial_prefix_code "encode_value hex" "canon_value hex" "value_ok hex"
  for hex
  by unfold_locales (unfold encode_value_def, rule value_prefix(1))

section \<open>Nodes\<close>

text \<open>
  What a node's bytes determine: contract ids as bytes, party sets as multisets (here:
  sorted lists), and for an exercise everything but the names of its children.
\<close>

definition canon_create :: "(string \<Rightarrow> bytes option) \<Rightarrow> create \<Rightarrow> create" where
  "canon_create hex c = c\<lparr>c_contract_id := canon_cid hex (c_contract_id c),
     c_argument := map_option (canon_value hex) (c_argument c),
     c_signatories := sort (c_signatories c), c_stakeholders := sort (c_stakeholders c)\<rparr>"

definition canon_fetch :: "(string \<Rightarrow> bytes option) \<Rightarrow> fetch \<Rightarrow> fetch" where
  "canon_fetch hex f = f\<lparr>f_contract_id := canon_cid hex (f_contract_id f),
     f_signatories := sort (f_signatories f), f_stakeholders := sort (f_stakeholders f),
     f_acting_parties := sort (f_acting_parties f)\<rparr>"

definition canon_exercise :: "(string \<Rightarrow> bytes option) \<Rightarrow> exercise \<Rightarrow> exercise" where
  "canon_exercise hex e = e\<lparr>e_contract_id := canon_cid hex (e_contract_id e),
     e_signatories := sort (e_signatories e), e_stakeholders := sort (e_stakeholders e),
     e_acting_parties := sort (e_acting_parties e),
     e_chosen_value := map_option (canon_value hex) (e_chosen_value e),
     e_children := [],
     e_exercise_result := map_option (canon_value hex) (e_exercise_result e),
     e_choice_observers := sort (e_choice_observers e)\<rparr>"

definition version_ok :: "string \<Rightarrow> bool" where
  "version_ok s \<longleftrightarrow> length s < 2 ^ 24"

definition create_ok :: "(string \<Rightarrow> bytes option) \<Rightarrow> create \<Rightarrow> bool" where
  "create_ok hex c \<longleftrightarrow> version_ok (c_lf_version c) \<and> hex_ok hex (c_contract_id c)
     \<and> str_ok (c_package_name c) \<and> opt_ok id_ok (c_template_id c)
     \<and> opt_ok (value_ok hex) (c_argument c)
     \<and> strs_ok (c_signatories c) \<and> strs_ok (c_stakeholders c)"

definition fetch_ok :: "(string \<Rightarrow> bytes option) \<Rightarrow> fetch \<Rightarrow> bool" where
  "fetch_ok hex f \<longleftrightarrow> version_ok (f_lf_version f) \<and> hex_ok hex (f_contract_id f)
     \<and> str_ok (f_package_name f) \<and> opt_ok id_ok (f_template_id f)
     \<and> opt_ok id_ok (f_interface_id f) \<and> strs_ok (f_signatories f)
     \<and> strs_ok (f_stakeholders f) \<and> strs_ok (f_acting_parties f)"

definition exercise_ok :: "(string \<Rightarrow> bytes option) \<Rightarrow> exercise \<Rightarrow> bool" where
  "exercise_ok hex e \<longleftrightarrow> version_ok (e_lf_version e) \<and> hex_ok hex (e_contract_id e)
     \<and> str_ok (e_package_name e) \<and> opt_ok id_ok (e_template_id e)
     \<and> strs_ok (e_signatories e) \<and> strs_ok (e_stakeholders e)
     \<and> strs_ok (e_acting_parties e) \<and> opt_ok id_ok (e_interface_id e)
     \<and> str_ok (e_choice_id e) \<and> opt_ok (value_ok hex) (e_chosen_value e)
     \<and> opt_ok (value_ok hex) (e_exercise_result e) \<and> strs_ok (e_choice_observers e)
     \<and> length (e_children e) < 2 ^ 32"

fun node_type_ok :: "(string \<Rightarrow> bytes option) \<Rightarrow> node_type \<Rightarrow> bool" where
  "node_type_ok hex (Create c) = create_ok hex c"
| "node_type_ok hex (Fetch f) = fetch_ok hex f"
| "node_type_ok hex (Exercise e) = exercise_ok hex e"
| "node_type_ok hex (Rollback r) = (length (r_children r) < 2 ^ 32)"

lemma version_str_ok: "version_ok s \<Longrightarrow> str_ok s"
  by (simp add: version_ok_def str_ok_def)

lemma seed_append_iff:
  "opt_ok (\<lambda>s. length s = 32) sd \<Longrightarrow> opt_ok (\<lambda>s. length s = 32) sd' \<Longrightarrow>
   (case sd of Some x \<Rightarrow> (0x01 :: u8) # x | None \<Rightarrow> [0x00]) @ s
     = (case sd' of Some x \<Rightarrow> 0x01 # x | None \<Rightarrow> [0x00]) @ t \<longleftrightarrow> sd = sd' \<and> s = t"
  by (auto split: option.splits)

lemma create_prefix:
  assumes "create_ok hex c" and "create_ok hex c'"
    and "opt_ok (\<lambda>s. length s = 32) sd" and "opt_ok (\<lambda>s. length s = 32) sd'"
    and "encode_create_node hex c sd = Inr b" and "encode_create_node hex c' sd' = Inr b'"
    and "b @ s = b' @ t"
  shows "canon_create hex c = canon_create hex c' \<and> sd = sd' \<and> s = t"
proof -
  from assms obtain cid cid' arg arg' ab ab' tid tid' where
    cid: "hex (c_contract_id c) = Some cid" "hex (c_contract_id c') = Some cid'"
    and args: "c_argument c = Some arg" "c_argument c' = Some arg'"
    "encode_value hex arg = Inr ab" "encode_value hex arg' = Inr ab'"
    and tids: "c_template_id c = Some tid" "c_template_id c' = Some tid'"
    and b: "b = str_val (c_lf_version c) @ [CREATE_TAG]
         @ (case sd of Some s \<Rightarrow> 0x01 # s | None \<Rightarrow> [0x00])
         @ bytes_val cid @ str_val (c_package_name c) @ encode_identifier tid @ ab
         @ string_set (c_signatories c) @ string_set (c_stakeholders c)"
    and b': "b' = str_val (c_lf_version c') @ [CREATE_TAG]
         @ (case sd' of Some s \<Rightarrow> 0x01 # s | None \<Rightarrow> [0x00])
         @ bytes_val cid' @ str_val (c_package_name c') @ encode_identifier tid' @ ab'
         @ string_set (c_signatories c') @ string_set (c_stakeholders c')"
    by (auto simp: encode_create_node_def result_simps)
  have ok: "length cid < 2 ^ 32" "length cid' < 2 ^ 32" "id_ok tid" "id_ok tid'"
    "value_ok hex arg" "value_ok hex arg'"
    using assms(1,2) cid args tids by (auto simp: create_ok_def hex_ok_def)
  have eq: "c_lf_version c = c_lf_version c'" "sd = sd'" "cid = cid'"
    "c_package_name c = c_package_name c'" "tid = tid'"
    "ab @ (string_set (c_signatories c) @ string_set (c_stakeholders c) @ s)
     = ab' @ (string_set (c_signatories c') @ string_set (c_stakeholders c') @ t)"
    using assms(1-4,7) ok unfolding b b'
    by (simp_all add: create_ok_def version_str_ok append_iffs seed_append_iff)
  with value_code.prefix_free [OF ok(5,6) args(3,4) eq(6)] assms(1,2)
  show ?thesis
    using cid args tids
    by (auto simp: create_ok_def canon_create_def append_iffs sort_eq_iff_mset canon_cid_def)
qed

lemma fetch_prefix:
  assumes "fetch_ok hex f" and "fetch_ok hex f'"
    and "encode_fetch_node hex f = Inr b" and "encode_fetch_node hex f' = Inr b'"
    and "b @ s = b' @ t"
  shows "canon_fetch hex f = canon_fetch hex f' \<and> s = t"
  using assms
  by (auto simp: encode_fetch_node_def result_simps fetch_ok_def hex_ok_def canon_fetch_def
      version_str_ok append_iffs sort_eq_iff_mset canon_cid_def)

lemma exercise_result_prefix:
  assumes "encode_exercise_result hex r = Inr b" and "encode_exercise_result hex r' = Inr b'"
    and "opt_ok (value_ok hex) r" and "opt_ok (value_ok hex) r'" and "b @ s = b' @ t"
  shows "map_option (canon_value hex) r = map_option (canon_value hex) r' \<and> s = t"
proof (cases "r = None \<or> r' = None")
  case True
  with assms show ?thesis
    by (auto simp: encode_exercise_result_def result_simps split: option.splits)
next
  case False
  then obtain v v' c c' where v: "r = Some v" "r' = Some v'"
    and "encode_value hex v = Inr c" "encode_value hex v' = Inr c'" "c @ s = c' @ t"
    using assms by (auto simp: encode_exercise_result_def result_simps)
  with value_code.prefix_free [of hex v v' c c' s t] assms show ?thesis by simp
qed

lemma exercise_head_prefix:
  assumes "exercise_ok hex e" and "exercise_ok hex e'"
    and "opt_ok (\<lambda>s. length s = 32) sd" and "opt_ok (\<lambda>s. length s = 32) sd'"
    and "encode_exercise_head hex e sd = Inr b" and "encode_exercise_head hex e' sd' = Inr b'"
    and "b @ s = b' @ t"
  shows "canon_exercise hex e = canon_exercise hex e' \<and> sd = sd' \<and> s = t"
proof -
  from assms obtain x x' cid cid' arg arg' ab ab' tid tid' rb rb' where
    sd: "sd = Some x" "sd' = Some x'"
    and cid: "hex (e_contract_id e) = Some cid" "hex (e_contract_id e') = Some cid'"
    and args: "e_chosen_value e = Some arg" "e_chosen_value e' = Some arg'"
    "encode_value hex arg = Inr ab" "encode_value hex arg' = Inr ab'"
    and tids: "e_template_id e = Some tid" "e_template_id e' = Some tid'"
    and rbs: "encode_exercise_result hex (e_exercise_result e) = Inr rb"
    "encode_exercise_result hex (e_exercise_result e') = Inr rb'"
    and b: "b = str_val (e_lf_version e) @ [EXERCISE_TAG] @ x @ bytes_val cid
         @ str_val (e_package_name e) @ encode_identifier tid
         @ string_set (e_signatories e) @ string_set (e_stakeholders e)
         @ string_set (e_acting_parties e) @ encode_optional_identifier (e_interface_id e)
         @ str_val (e_choice_id e) @ ab @ bool_val (e_consuming e) @ rb
         @ string_set (e_choice_observers e)"
    and b': "b' = str_val (e_lf_version e') @ [EXERCISE_TAG] @ x' @ bytes_val cid'
         @ str_val (e_package_name e') @ encode_identifier tid'
         @ string_set (e_signatories e') @ string_set (e_stakeholders e')
         @ string_set (e_acting_parties e') @ encode_optional_identifier (e_interface_id e')
         @ str_val (e_choice_id e') @ ab' @ bool_val (e_consuming e') @ rb'
         @ string_set (e_choice_observers e')"
    by (auto simp: encode_exercise_head_def result_simps)
  have ok: "length cid < 2 ^ 32" "length cid' < 2 ^ 32" "id_ok tid" "id_ok tid'"
    "value_ok hex arg" "value_ok hex arg'" "length x = length x'"
    using assms(1-4) cid args tids sd by (auto simp: exercise_ok_def hex_ok_def)
  have eq: "e_lf_version e = e_lf_version e'" "x = x'" "cid = cid'"
    "e_package_name e = e_package_name e'" "tid = tid'"
    "mset (e_signatories e) = mset (e_signatories e')"
    "mset (e_stakeholders e) = mset (e_stakeholders e')"
    "mset (e_acting_parties e) = mset (e_acting_parties e')"
    "e_interface_id e = e_interface_id e'" "e_choice_id e = e_choice_id e'"
    "ab @ (bool_val (e_consuming e) @ rb @ string_set (e_choice_observers e) @ s)
     = ab' @ (bool_val (e_consuming e') @ rb' @ string_set (e_choice_observers e') @ t)"
    using assms(1,2,7) ok unfolding b b'
    by (simp_all add: exercise_ok_def version_str_ok append_iffs)
  from value_code.prefix_free [OF ok(5,6) args(3,4) eq(11)]
  have arg: "canon_value hex arg = canon_value hex arg'" "e_consuming e = e_consuming e'"
    and rest: "rb @ (string_set (e_choice_observers e) @ s)
      = rb' @ (string_set (e_choice_observers e') @ t)"
    by (auto simp: bool_val_def split: if_splits)
  from exercise_result_prefix [OF rbs _ _ rest] assms(1,2)
  have "map_option (canon_value hex) (e_exercise_result e)
      = map_option (canon_value hex) (e_exercise_result e')"
    "mset (e_choice_observers e) = mset (e_choice_observers e')" "s = t"
    by (auto simp: exercise_ok_def append_iffs)
  with eq arg show ?thesis using sd cid args tids
    by (simp add: canon_exercise_def sort_eq_iff_mset canon_cid_def)
qed


section \<open>The transaction tree a walk denotes\<close>

text \<open>
  The tree behind the node ids: each node in its canonical form with its seed and the
  trees of its children. The ids themselves are gone.
\<close>

datatype tree =
    TCreate create "bytes option"
  | TFetch fetch
  | TExercise exercise bytes "tree list"
  | TRollback "tree list"

inductive denotes :: "walk \<Rightarrow> node \<Rightarrow> tree \<Rightarrow> bool"
  and denotes_ids :: "walk \<Rightarrow> string list \<Rightarrow> tree list \<Rightarrow> bool" for w :: walk
where
  create: "versioned n = Some (V1 (Some (Create c))) \<Longrightarrow>
     denotes w n (TCreate (canon_create (w_hex w) c) (w_seeds w (node_id n)))"
| fetch: "versioned n = Some (V1 (Some (Fetch f))) \<Longrightarrow>
     denotes w n (TFetch (canon_fetch (w_hex w) f))"
| exercise: "versioned n = Some (V1 (Some (Exercise e))) \<Longrightarrow> w_seeds w (node_id n) = Some sd \<Longrightarrow>
     denotes_ids w (e_children e) ts \<Longrightarrow>
     denotes w n (TExercise (canon_exercise (w_hex w) e) sd ts)"
| rollback: "versioned n = Some (V1 (Some (Rollback r))) \<Longrightarrow> denotes_ids w (r_children r) ts \<Longrightarrow>
     denotes w n (TRollback ts)"
| nil: "denotes_ids w [] []"
| cons: "w_nodes w i = Some n \<Longrightarrow> denotes w n t \<Longrightarrow> denotes_ids w is ts \<Longrightarrow>
     denotes_ids w (i # is) (t # ts)"

inductive_cases denotes_idsE [elim]: "denotes_ids w (i # is) ts"
inductive_simps denotes_ids_nil [simp]: "denotes_ids w [] ts"
inductive_simps denotes_ids_cons: "denotes_ids w (i # is) (t # ts)"

lemma denotes_deterministic:
  "denotes w n t \<Longrightarrow> (\<And>t'. denotes w n t' \<Longrightarrow> t' = t)"
  "denotes_ids w is ts \<Longrightarrow> (\<And>ts'. denotes_ids w is ts' \<Longrightarrow> ts' = ts)"
proof (induction rule: denotes_denotes_ids.inducts)
  case (create n c)
  from create(2) show ?case by cases (use create(1) in auto)
next
  case (fetch n f)
  from fetch(2) show ?case by cases (use fetch(1) in auto)
next
  case (exercise n e sd ts)
  from exercise(5) show ?case by cases (use exercise(1,2) in \<open>auto dest!: exercise(4)\<close>)
next
  case (rollback n r ts)
  from rollback(4) show ?case by cases (use rollback(1) in \<open>auto dest!: rollback(3)\<close>)
next
  case (cons i n t js ts)
  from cons(6) show ?case by cases (use cons(1) in \<open>auto dest!: cons(3,5)\<close>)
qed auto

section \<open>Sizes and preimages of a walk\<close>

text \<open>
  \<open>node_body\<close> is what \<open>hash_node\<close> hashes after the version byte.
\<close>

definition node_body :: "walk \<Rightarrow> node \<Rightarrow> string set \<Rightarrow> nat \<Rightarrow> (bytes \<times> string set) result" where
  "node_body w n seen depth =
     (case versioned n of
        None \<Rightarrow> Inl [Lit ''Node missing versioned_node'']
      | Some (V1 None) \<Rightarrow> Inl [Lit ''v1 Node missing node_type'']
      | Some (V1 (Some (Create c))) \<Rightarrow>
          try_bind (encode_create_node (w_hex w) c (w_seeds w (node_id n))) (\<lambda>b. Inr (b, seen))
      | Some (V1 (Some (Exercise e))) \<Rightarrow> encode_exercise_node w e (node_id n) seen depth
      | Some (V1 (Some (Fetch f))) \<Rightarrow>
          try_bind (encode_fetch_node (w_hex w) f) (\<lambda>b. Inr (b, seen))
      | Some (V1 (Some (Rollback r))) \<Rightarrow> encode_rollback_node w r seen depth)"

lemma hash_node_eq:
  "hash_node w n seen depth =
     try_bind (node_body w n seen depth) (\<lambda>(b, s). Inr (w_sha w (NODE_ENCODING_V1 # b), s))"
  by (simp add: hash_node.simps node_body_def split: option.splits versioned_node.splits node_type.splits)

definition node_preimages :: "walk \<Rightarrow> bytes set" where
  "node_preimages w = {NODE_ENCODING_V1 # b | b n seen depth s.
     n \<in> ran (w_nodes w) \<and> node_body w n seen depth = Inr (b, s)}"

definition node_ok :: "walk \<Rightarrow> node \<Rightarrow> bool" where
  "node_ok w n \<longleftrightarrow> (case versioned n of Some (V1 (Some nt)) \<Rightarrow> node_type_ok (w_hex w) nt | _ \<Rightarrow> True)
     \<and> opt_ok (\<lambda>s. length s = 32) (w_seeds w (node_id n))"

definition walk_ok :: "walk \<Rightarrow> bool" where
  "walk_ok w \<longleftrightarrow> (\<forall>n \<in> ran (w_nodes w). node_ok w n)"

text \<open>
  Two walks that use the same library functions, a 32-byte hash, sizes that fit their
  length prefixes, and no collision among the nodes of the two.
\<close>

definition comparable :: "walk \<Rightarrow> walk \<Rightarrow> bool" where
  "comparable w w' \<longleftrightarrow> w_hex w' = w_hex w \<and> w_sha w' = w_sha w
     \<and> (\<forall>x. length (w_sha w x) = 32) \<and> walk_ok w \<and> walk_ok w'
     \<and> inj_on (w_sha w) (node_preimages w \<union> node_preimages w')"

fun node_shape :: "node_type \<Rightarrow> bytes \<Rightarrow> bool" where
  "node_shape (Create c) b = (\<exists>r. b = str_val (c_lf_version c) @ CREATE_TAG # r)"
| "node_shape (Fetch f) b = (\<exists>r. b = str_val (f_lf_version f) @ FETCH_TAG # r)"
| "node_shape (Exercise e) b = (\<exists>r. b = str_val (e_lf_version e) @ EXERCISE_TAG # r)"
| "node_shape (Rollback r) b = (\<exists>r. b = ROLLBACK_TAG # r)"

lemma node_body_shape:
  assumes "node_body w n seen d = Inr (b, s)"
  shows "\<exists>nt. versioned n = Some (V1 (Some nt)) \<and> node_shape nt b"
  using assms unfolding node_body_def
  by (auto simp: result_simps encode_create_node_def encode_fetch_node_def
      encode_exercise_node.simps encode_exercise_head_def encode_rollback_node.simps
      split: option.splits versioned_node.splits node_type.splits)

lemma str_val_not_rollback: "version_ok s \<Longrightarrow> str_val s @ r \<noteq> ROLLBACK_TAG # t"
proof -
  assume "version_ok s"
  then have "length s < 2 ^ 24" by (simp add: version_ok_def)
  moreover have "unat (drop_bit 24 (len_i32 (length s))) = drop_bit 24 (unat (len_i32 (length s)))"
    by (rule unat_drop_bit_eq)
  ultimately have "unat (drop_bit 24 (len_i32 (length s))) = 0"
    by (simp only: len_i32_def unsigned_of_nat) (simp add: take_bit_eq_mod drop_bit_eq_div)
  then have "drop_bit 24 (len_i32 (length s)) = 0"
    by (simp only: unat_eq_zero)
  then show ?thesis
    by (simp add: str_val_def i32_val_def be_bytes32_def ROLLBACK_TAG_def)
qed

lemma node_shape_same:
  assumes "node_shape nt b" and "node_shape nt' b" and "node_type_ok hex nt" and "node_type_ok hex nt'"
  shows "case nt of Create _ \<Rightarrow> (\<exists>c. nt' = Create c) | Fetch _ \<Rightarrow> (\<exists>f. nt' = Fetch f)
    | Exercise _ \<Rightarrow> (\<exists>e. nt' = Exercise e) | Rollback _ \<Rightarrow> (\<exists>r. nt' = Rollback r)"
proof -
  note no_rb = str_val_not_rollback str_val_not_rollback [symmetric]
  show ?thesis using assms
    by (cases nt; cases nt')
      (auto simp: create_ok_def fetch_ok_def exercise_ok_def version_str_ok append_iffs
        node_tag_defs no_rb [unfolded node_tag_defs])
qed


section \<open>Equal hashes, equal trees\<close>

definition same_tree :: "walk \<Rightarrow> node \<Rightarrow> walk \<Rightarrow> node \<Rightarrow> bool" where
  "same_tree w n w' n' \<longleftrightarrow> (\<exists>t. denotes w n t \<and> denotes w' n' t)"

definition same_trees :: "walk \<Rightarrow> string list \<Rightarrow> walk \<Rightarrow> string list \<Rightarrow> bool" where
  "same_trees w ids w' ids' \<longleftrightarrow> (\<exists>ts. denotes_ids w ids ts \<and> denotes_ids w' ids' ts)"

lemma same_trees_cons:
  "w_nodes w i = Some n \<Longrightarrow> w_nodes w' i' = Some n' \<Longrightarrow> same_tree w n w' n' \<Longrightarrow>
   same_trees w ids w' ids' \<Longrightarrow> same_trees w (i # ids) w' (i' # ids')"
  unfolding same_tree_def same_trees_def by (blast intro: denotes_denotes_ids.cons)

lemma comparable_preimage:
  assumes "comparable w w'" and "n \<in> ran (w_nodes w)" and "n' \<in> ran (w_nodes w')"
    and "hash_node w n seen d = Inr (h, s)" and "hash_node w' n' seen' d' = Inr (h, s')"
  obtains b where "node_body w n seen d = Inr (b, s)" and "node_body w' n' seen' d' = Inr (b, s')"
proof -
  from assms(4,5) obtain b b' where b: "node_body w n seen d = Inr (b, s)"
    "node_body w' n' seen' d' = Inr (b', s')"
    and h: "w_sha w (NODE_ENCODING_V1 # b) = w_sha w' (NODE_ENCODING_V1 # b')"
    by (auto simp: hash_node_eq result_simps)
  have "NODE_ENCODING_V1 # b \<in> node_preimages w" "NODE_ENCODING_V1 # b' \<in> node_preimages w'"
    using b assms(2,3) by (auto simp: node_preimages_def)
  with h assms(1) have "b = b'"
    by (auto simp: comparable_def dest: inj_onD)
  with b that show ?thesis by blast
qed

text \<open>One node: the children are compared by the hypotheses on exercises and rollbacks.\<close>

lemma same_tree_step:
  assumes cmp: "comparable w w'" and ran: "n \<in> ran (w_nodes w)" "n' \<in> ran (w_nodes w')"
    and hash: "hash_node w n seen d = Inr (h, s)" "hash_node w' n' seen' d' = Inr (h, s')"
    and ex: "\<And>e e' b. versioned n = Some (V1 (Some (Exercise e))) \<Longrightarrow>
      encode_exercise_node w e (node_id n) seen d = Inr (b, s) \<Longrightarrow>
      encode_exercise_node w' e' (node_id n') seen' d' = Inr (b, s') \<Longrightarrow>
      exercise_ok (w_hex w) e \<Longrightarrow> exercise_ok (w_hex w) e' \<Longrightarrow>
      canon_exercise (w_hex w) e = canon_exercise (w_hex w) e'
        \<and> (\<exists>sd. w_seeds w (node_id n) = Some sd \<and> w_seeds w' (node_id n') = Some sd)
        \<and> same_trees w (e_children e) w' (e_children e')"
    and rb: "\<And>r r' b. versioned n = Some (V1 (Some (Rollback r))) \<Longrightarrow>
      encode_rollback_node w r seen d = Inr (b, s) \<Longrightarrow>
      encode_rollback_node w' r' seen' d' = Inr (b, s') \<Longrightarrow>
      length (r_children r) < 2 ^ 32 \<Longrightarrow> length (r_children r') < 2 ^ 32 \<Longrightarrow>
      same_trees w (r_children r) w' (r_children r')"
  shows "same_tree w n w' n'"
proof -
  obtain b where b: "node_body w n seen d = Inr (b, s)" "node_body w' n' seen' d' = Inr (b, s')"
    by (rule comparable_preimage [OF cmp ran hash])
  from node_body_shape [OF b(1)] node_body_shape [OF b(2)] obtain nt nt' where
    nt: "versioned n = Some (V1 (Some nt))" "versioned n' = Some (V1 (Some nt'))"
    and shape: "node_shape nt b" "node_shape nt' b" by blast
  have ok: "node_type_ok (w_hex w) nt" "node_type_ok (w_hex w) nt'"
    "opt_ok (\<lambda>s. length s = 32) (w_seeds w (node_id n))"
    "opt_ok (\<lambda>s. length s = 32) (w_seeds w' (node_id n'))" "w_hex w' = w_hex w"
    using cmp ran nt by (auto simp: comparable_def walk_ok_def node_ok_def)
  note same = node_shape_same [OF shape ok(1,2)]
  show ?thesis
  proof (cases nt)
    case (Create c)
    with same obtain c' where c': "nt' = Create c'" by auto
    have "canon_create (w_hex w) c = canon_create (w_hex w) c'
        \<and> w_seeds w (node_id n) = w_seeds w' (node_id n')"
      using create_prefix [of "w_hex w" c c' _ _ b b "[]" "[]"] b nt ok Create c'
      by (auto simp: node_body_def result_simps)
    then show ?thesis unfolding same_tree_def
      using denotes_denotes_ids.create [of n c w] denotes_denotes_ids.create [of n' c' w'] nt ok Create c'
      by auto
  next
    case (Fetch f)
    with same obtain f' where f': "nt' = Fetch f'" by auto
    have "canon_fetch (w_hex w) f = canon_fetch (w_hex w) f'"
      using fetch_prefix [of "w_hex w" f f' b b "[]" "[]"] b nt ok Fetch f'
      by (auto simp: node_body_def result_simps)
    then show ?thesis unfolding same_tree_def
      using denotes_denotes_ids.fetch [of n f w] denotes_denotes_ids.fetch [of n' f' w'] nt ok Fetch f'
      by auto
  next
    case (Exercise e)
    with same obtain e' where e': "nt' = Exercise e'" by auto
    from ex [of e b e'] obtain ts sd where "canon_exercise (w_hex w) e = canon_exercise (w_hex w) e'"
      "w_seeds w (node_id n) = Some sd" "w_seeds w' (node_id n') = Some sd"
      "denotes_ids w (e_children e) ts" "denotes_ids w' (e_children e') ts"
      using b nt ok Exercise e' by (auto simp: node_body_def same_trees_def)
    then show ?thesis unfolding same_tree_def
      using denotes_denotes_ids.exercise [of n e w sd ts] denotes_denotes_ids.exercise [of n' e' w' sd ts] nt ok Exercise e'
      by auto
  next
    case (Rollback r)
    with same obtain r' where r': "nt' = Rollback r'" by auto
    from rb [of r b r'] obtain ts where
      "denotes_ids w (r_children r) ts" "denotes_ids w' (r_children r') ts"
      using b nt ok Rollback r' by (auto simp: node_body_def same_trees_def)
    then show ?thesis unfolding same_tree_def
      using denotes_denotes_ids.rollback [of n r w] denotes_denotes_ids.rollback [of n' r' w'] nt Rollback r'
      by auto
  qed
qed

lemma hash_node_length:
  "comparable w w' \<Longrightarrow> hash_node w n seen d = Inr (h, s) \<Longrightarrow> length h = 32"
  "comparable w w' \<Longrightarrow> hash_node w' n seen d = Inr (h, s) \<Longrightarrow> length h = 32"
  by (auto simp: comparable_def hash_node_eq result_simps)

lemma encode_node_ids_InrD:
  "encode_node_ids w ids seen d = Inr (b, s) \<Longrightarrow>
   \<exists>c. encode_each_node w ids seen d = Inr (c, s) \<and> b = i32_val (len_i32 (length ids)) @ c
     \<and> \<not> (MAX_NODE_DEPTH < d \<and> ids \<noteq> [])"
  by (auto simp: encode_node_ids.simps result_simps split: if_splits)

lemma hash_binding:
  "comparable w w' \<Longrightarrow> n \<in> ran (w_nodes w) \<Longrightarrow> n' \<in> ran (w_nodes w') \<Longrightarrow>
   hash_node w n seen d = Inr (h, s) \<Longrightarrow> hash_node w' n' seen' d' = Inr (h, s') \<Longrightarrow>
   same_tree w n w' n'"
  "comparable w w' \<Longrightarrow> encode_exercise_node w e nid seen d = Inr (b, s) \<Longrightarrow>
   encode_exercise_node w' e' nid' seen' d' = Inr (b, s') \<Longrightarrow>
   exercise_ok (w_hex w) e \<Longrightarrow> exercise_ok (w_hex w) e' \<Longrightarrow>
   opt_ok (\<lambda>s. length s = 32) (w_seeds w nid) \<Longrightarrow> opt_ok (\<lambda>s. length s = 32) (w_seeds w' nid') \<Longrightarrow>
   canon_exercise (w_hex w) e = canon_exercise (w_hex w) e'
     \<and> (\<exists>sd. w_seeds w nid = Some sd \<and> w_seeds w' nid' = Some sd) \<and> same_trees w (e_children e) w' (e_children e')"
  "comparable w w' \<Longrightarrow> encode_rollback_node w r seen d = Inr (b, s) \<Longrightarrow>
   encode_rollback_node w' r' seen' d' = Inr (b, s') \<Longrightarrow>
   length (r_children r) < 2 ^ 32 \<Longrightarrow> length (r_children r') < 2 ^ 32 \<Longrightarrow>
   same_trees w (r_children r) w' (r_children r')"
  "comparable w w' \<Longrightarrow> encode_node_ids w ids seen d = Inr (b, s) \<Longrightarrow>
   encode_node_ids w' ids' seen' d' = Inr (b, s') \<Longrightarrow>
   length ids < 2 ^ 32 \<Longrightarrow> length ids' < 2 ^ 32 \<Longrightarrow> same_trees w ids w' ids'"
  "comparable w w' \<Longrightarrow> encode_each_node w ids seen d = Inr (b, s) \<Longrightarrow>
   encode_each_node w' ids' seen' d' = Inr (b, s') \<Longrightarrow>
   length ids = length ids' \<Longrightarrow> same_trees w ids w' ids'"
proof (induction w n seen d and w e nid seen d and w r seen d and w ids seen d and w ids seen d
    arbitrary: n' seen' d' h s s' and e' nid' seen' d' b s s' and r' seen' d' b s s'
      and ids' seen' d' b s s' and ids' seen' d' b s s'
    rule: hash_node_encode_exercise_node_encode_rollback_node_encode_node_ids_encode_each_node.induct)
  case (1 w n seen d)
  show ?case
  proof (rule same_tree_step [OF "1.prems"])
    fix e e' b
    assume v: "versioned n = Some (V1 (Some (Exercise e)))"
      and enc: "encode_exercise_node w e (node_id n) seen d = Inr (b, s)"
        "encode_exercise_node w' e' (node_id n') seen' d' = Inr (b, s')"
      and ok: "exercise_ok (w_hex w) e" "exercise_ok (w_hex w) e'"
    have "opt_ok (\<lambda>s. length s = 32) (w_seeds w (node_id n))"
      "opt_ok (\<lambda>s. length s = 32) (w_seeds w' (node_id n'))"
      using "1.prems" by (auto simp: comparable_def walk_ok_def node_ok_def)
    from "1.IH"(1) [OF v refl refl refl "1.prems"(1) enc ok this]
    show "canon_exercise (w_hex w) e = canon_exercise (w_hex w) e'
        \<and> (\<exists>sd. w_seeds w (node_id n) = Some sd \<and> w_seeds w' (node_id n') = Some sd)
        \<and> same_trees w (e_children e) w' (e_children e')" .
  next
    fix r r' b
    assume v: "versioned n = Some (V1 (Some (Rollback r)))"
      and enc: "encode_rollback_node w r seen d = Inr (b, s)"
        "encode_rollback_node w' r' seen' d' = Inr (b, s')"
      and len: "length (r_children r) < 2 ^ 32" "length (r_children r') < 2 ^ 32"
    from "1.IH"(2) [OF v refl refl refl "1.prems"(1) enc len]
    show "same_trees w (r_children r) w' (r_children r')" .
  qed
next
  case (2 w e nid seen d)
  from "2.prems"(2,3) obtain hd hd' c c' where
    head: "encode_exercise_head (w_hex w) e (w_seeds w nid) = Inr hd"
    "encode_exercise_head (w_hex w') e' (w_seeds w' nid') = Inr hd'"
    and ids: "encode_node_ids w (e_children e) seen (d + 1) = Inr (c, s)"
    "encode_node_ids w' (e_children e') seen' (d' + 1) = Inr (c', s')"
    and bs: "hd @ c = hd' @ c'"
    by (auto simp: encode_exercise_node.simps result_simps)
  have hex: "w_hex w' = w_hex w" using "2.prems"(1) by (simp add: comparable_def)
  have eq: "canon_exercise (w_hex w) e = canon_exercise (w_hex w) e'"
    "w_seeds w nid = w_seeds w' nid'" "c = c'"
    using exercise_head_prefix [OF "2.prems"(4-7) head(1) head(2) [unfolded hex] bs] by auto
  moreover from this(2) have "\<exists>sd. w_seeds w nid = Some sd \<and> w_seeds w' nid' = Some sd"
    using head(1) by (auto simp: encode_exercise_head_def result_simps)
  moreover have "same_trees w (e_children e) w' (e_children e')"
    using "2.IH" [OF head(1) "2.prems"(1) ids(1)] ids(2) eq(3) "2.prems"(4,5)
    by (simp add: exercise_ok_def)
  ultimately show ?case by simp
next
  case (3 w r seen d)
  then show ?case
    by (fastforce simp: encode_rollback_node.simps result_simps)
next
  case (4 w ids seen d)
  from encode_node_ids_InrD [OF "4.prems"(2)] encode_node_ids_InrD [OF "4.prems"(3)] obtain c c'
    where guard: "\<not> (MAX_NODE_DEPTH < d \<and> ids \<noteq> [])"
    and enc: "encode_each_node w ids seen d = Inr (c, s)"
    "encode_each_node w' ids' seen' d' = Inr (c', s')"
    and b: "b = i32_val (len_i32 (length ids)) @ c" "b = i32_val (len_i32 (length ids')) @ c'"
    by blast
  from b have "i32_val (len_i32 (length ids)) @ c = i32_val (len_i32 (length ids')) @ c'" by simp
  then have "length ids = length ids'" "c = c'"
    using "4.prems"(4,5) by (simp_all add: len_i32_inject)
  with "4.IH" [OF guard "4.prems"(1) enc(1)] enc(2) show ?case by simp
next
  case (5 w seen d)
  then show ?case by (auto simp: same_trees_def)
next
  case (6 w i "is" seen d)
  from "6.prems"(4) obtain j js where ids': "ids' = j # js" by (cases ids') auto
  from "6.prems" ids' obtain n m h k c c' sa sb where
    look: "i \<notin> seen" "w_nodes w i = Some n" "w_nodes w' j = Some m"
    and hash: "hash_node w n (insert i seen) d = Inr (h, sa)"
    "hash_node w' m (insert j seen') d' = Inr (k, sb)"
    and rest: "encode_each_node w is sa d = Inr (c, s)" "encode_each_node w' js sb d' = Inr (c', s')"
    and bs: "h @ c = k @ c'"
    by (auto simp: result_simps split: if_splits option.splits)
  have "h = k" "c = c'"
    using bs hash_node_length(1) [OF "6.prems"(1) hash(1)] hash_node_length(2) [OF "6.prems"(1) hash(2)]
    by auto
  moreover have "n \<in> ran (w_nodes w)" "m \<in> ran (w_nodes w')"
    using look by (auto simp: ran_def)
  ultimately have "same_tree w n w' m"
    using "6.IH"(1) [OF look(1,2) "6.prems"(1) _ _ hash(1)] hash(2) by simp
  moreover have "same_trees w is w' js"
    using "6.IH"(2) [OF look(1,2) hash(1) refl "6.prems"(1) rest(1)] rest(2) \<open>c = c'\<close> "6.prems"(4) ids'
    by simp
  ultimately show ?case
    using look ids' by (auto intro: same_trees_cons)
qed

end
