(* ===== verification/Hash_Final.thy ===== *)
theory Hash_Final
  imports Hash_Binding
begin

text \<open>
  The metadata layer and the final hash: what a signature over the hash of
  \<open>compute_final_hash\<close> covers.
\<close>

section \<open>The metadata layer\<close>

definition signed_contracts ::
  "(string \<Rightarrow> bytes option) \<Rightarrow> metadata \<Rightarrow> (u64 \<times> create option) list" where
  "signed_contracts hex m =
     map (\<lambda>ic. (ic_created_at ic, map_option (canon_create hex) (ic_contract ic))) (input_contracts m)"

definition contract_preimages :: "(string \<Rightarrow> bytes option) \<Rightarrow> input_contract list \<Rightarrow> bytes set" where
  "contract_preimages hex ics = {NODE_ENCODING_V1 # b | b c ic.
     ic \<in> set ics \<and> ic_contract ic = Some c \<and> encode_create_node hex c None = Inr b}"

lemma contract_preimages_mono:
  "set ics \<subseteq> set ics' \<Longrightarrow> contract_preimages hex ics \<subseteq> contract_preimages hex ics'"
  unfolding contract_preimages_def by blast

definition metadata_ok :: "(string \<Rightarrow> bytes option) \<Rightarrow> metadata \<Rightarrow> bool" where
  "metadata_ok hex m \<longleftrightarrow>
     (\<forall>sub. submitter m = Some sub \<longrightarrow> strs_ok (act_as sub) \<and> str_ok (command_id sub))
     \<and> str_ok (transaction_uuid m) \<and> str_ok (synchronizer_id m)
     \<and> length (input_contracts m) < 2 ^ 32
     \<and> (\<forall>ic \<in> set (input_contracts m). opt_ok (create_ok hex) (ic_contract ic))"

lemma encode_opt_u64_append_iff [simp]:
  "encode_opt_u64 x @ s = encode_opt_u64 y @ t \<longleftrightarrow> x = y \<and> s = t"
  by (auto simp: encode_opt_u64_def u64_val_def split: option.splits)

interpretation opt_u64_code: prefix_code encode_opt_u64 "\<lambda>_. True"
  by unfold_locales auto

lemma u64_append_iff [simp]: "u64_val x @ s = u64_val y @ t \<longleftrightarrow> x = y \<and> s = t"
  by (simp add: u64_val_def)

lemma u32_append_iff [simp]: "u32_val x @ s = u32_val y @ t \<longleftrightarrow> x = y \<and> s = t"
  by (simp add: u32_val_def)

lemma contracts_prefix:
  assumes "encode_input_contracts hex sha ics = Inr b" and "encode_input_contracts hex sha ics' = Inr b'"
    and "length ics = length ics'" and "b @ s = b' @ t"
    and "\<forall>ic \<in> set ics. opt_ok (create_ok hex) (ic_contract ic)"
    and "\<forall>ic \<in> set ics'. opt_ok (create_ok hex) (ic_contract ic)"
    and "\<forall>x. length (sha x) = 32"
    and "inj_on sha (contract_preimages hex ics \<union> contract_preimages hex ics')"
  shows "map (\<lambda>ic. (ic_created_at ic, map_option (canon_create hex) (ic_contract ic))) ics
     = map (\<lambda>ic. (ic_created_at ic, map_option (canon_create hex) (ic_contract ic))) ics' \<and> s = t"
  using assms(3,1,2,4-)
proof (induction ics ics' arbitrary: b b' rule: list_induct2)
  case (Cons i is0 j js)
  obtain c c' e e' d d' where
    c: "ic_contract i = Some c" "ic_contract j = Some c'"
    and e: "encode_create_node hex c None = Inr e" "encode_create_node hex c' None = Inr e'"
    and d: "encode_input_contracts hex sha is0 = Inr d" "encode_input_contracts hex sha js = Inr d'"
    and b: "b = u64_val (ic_created_at i) @ sha (NODE_ENCODING_V1 # e) @ d"
      "b' = u64_val (ic_created_at j) @ sha (NODE_ENCODING_V1 # e') @ d'"
    using Cons.prems(1,2) by (auto simp: result_simps split: option.splits)
  have time: "ic_created_at i = ic_created_at j"
    and h: "sha (NODE_ENCODING_V1 # e) = sha (NODE_ENCODING_V1 # e')" and rest: "d @ s = d' @ t"
    using Cons.prems(3,6) unfolding b by auto
  have "NODE_ENCODING_V1 # e \<in> contract_preimages hex (i # is0)"
    "NODE_ENCODING_V1 # e' \<in> contract_preimages hex (j # js)"
    using c e by (auto simp: contract_preimages_def)
  with h Cons.prems(7) have "e = e'" by (auto dest: inj_onD)
  then have "canon_create hex c = canon_create hex c'"
    using create_prefix [of hex c c' None None e e' "[]" "[]"] Cons.prems(4,5) c e by simp
  moreover have "inj_on sha (contract_preimages hex is0 \<union> contract_preimages hex js)"
    by (rule inj_on_subset [OF Cons.prems(7)])
      (use contract_preimages_mono [of is0 "i # is0"] contract_preimages_mono [of js "j # js"] in auto)
  ultimately show ?case
    using Cons.IH [OF d rest] Cons.prems(4-6) c time by simp
qed simp

text \<open>
  The signed content of two metadata: the same submitters (as a multiset), command,
  transaction uuid, mediator group, synchronizer, time bounds, preparation time and input
  contracts; under V3 also the maximal record time.
\<close>

definition same_metadata ::
  "(string \<Rightarrow> bytes option) \<Rightarrow> metadata \<Rightarrow> bool \<Rightarrow> metadata \<Rightarrow> bool \<Rightarrow> bool" where
  "same_metadata hex m v3 m' v3' \<longleftrightarrow>
     (\<exists>sub sub'. submitter m = Some sub \<and> submitter m' = Some sub'
        \<and> mset (act_as sub) = mset (act_as sub') \<and> command_id sub = command_id sub')
     \<and> transaction_uuid m = transaction_uuid m' \<and> mediator_group m = mediator_group m'
     \<and> synchronizer_id m = synchronizer_id m'
     \<and> min_ledger_effective_time m = min_ledger_effective_time m'
     \<and> max_ledger_effective_time m = max_ledger_effective_time m'
     \<and> preparation_time m = preparation_time m'
     \<and> signed_contracts hex m = signed_contracts hex m'
     \<and> v3 = v3' \<and> (v3 \<longrightarrow> max_record_time m = max_record_time m')"

lemma metadata_binding:
  assumes ok: "metadata_ok hex m" "metadata_ok hex m'"
    and acc: "metadata_acc hex sha m v3 = Inr b" "metadata_acc hex sha m' v3' = Inr b"
    and sha: "\<forall>x. length (sha x) = 32"
      "inj_on sha (contract_preimages hex (input_contracts m) \<union> contract_preimages hex (input_contracts m'))"
  shows "same_metadata hex m v3 m' v3'"
proof -
  define tail where "tail v x = (if v then encode_opt_u64 (max_record_time x) else [])" for v and x :: metadata
  obtain sub sub' c c' where sub: "submitter m = Some sub" "submitter m' = Some sub'"
    and c: "encode_input_contracts hex sha (input_contracts m) = Inr c"
      "encode_input_contracts hex sha (input_contracts m') = Inr c'"
    using acc by (auto simp: metadata_acc_def result_simps)
  have sizes: "strs_ok (act_as sub)" "strs_ok (act_as sub')" "str_ok (command_id sub)"
    "str_ok (command_id sub')" "str_ok (transaction_uuid m)" "str_ok (transaction_uuid m')"
    "str_ok (synchronizer_id m)" "str_ok (synchronizer_id m')"
    "length (input_contracts m) < 2 ^ 32" "length (input_contracts m') < 2 ^ 32"
    using ok sub by (auto simp: metadata_ok_def)
  have eq: "mset (act_as sub) = mset (act_as sub')" "command_id sub = command_id sub'"
    "transaction_uuid m = transaction_uuid m'" "mediator_group m = mediator_group m'"
    "synchronizer_id m = synchronizer_id m'"
    "min_ledger_effective_time m = min_ledger_effective_time m'"
    "max_ledger_effective_time m = max_ledger_effective_time m'"
    "preparation_time m = preparation_time m'"
    "length (input_contracts m) = length (input_contracts m')"
    and rest: "c @ tail v3 m = c' @ tail v3' m'"
    using trans [OF acc(1) acc(2) [symmetric]] sub c sizes
    by (simp_all add: metadata_acc_def append_iffs len_i32_inject flip: tail_def)
  have contracts: "signed_contracts hex m = signed_contracts hex m'" "tail v3 m = tail v3' m'"
    using contracts_prefix [OF c eq(9) rest _ _ sha] ok
    by (auto simp: metadata_ok_def signed_contracts_def)
  have "v3 = v3' \<and> (v3 \<longrightarrow> max_record_time m = max_record_time m')"
    using contracts(2) opt_u64_code.inj_enc
    by (auto simp: tail_def encode_opt_u64_def split: if_splits option.splits)
  with eq contracts(1) sub show ?thesis by (simp add: same_metadata_def)
qed


section \<open>What a signature over the final hash covers\<close>

text \<open>
  All byte strings that are hashed on behalf of a prepared transaction: the three layers,
  the nodes of the transaction and the disclosed contracts.
\<close>

definition hash_preimages ::
  "(string \<Rightarrow> bytes option) \<Rightarrow> (bytes \<Rightarrow> bytes) \<Rightarrow> prepared_transaction \<Rightarrow> string \<Rightarrow> bytes set" where
  "hash_preimages hex sha p version =
     {b. final_acc hex sha p version = Inr b}
     \<union> {b. \<exists>tx. p_transaction p = Some tx \<and>
          (transaction_acc hex sha tx = Inr b \<or> b \<in> node_preimages (node_walk hex sha tx))}
     \<union> {b. \<exists>m. p_metadata p = Some m \<and>
          (metadata_acc hex sha m (parse_hashing_version version) = Inr b
           \<or> b \<in> contract_preimages hex (input_contracts m))}"

definition prepared_ok ::
  "(string \<Rightarrow> bytes option) \<Rightarrow> (bytes \<Rightarrow> bytes) \<Rightarrow> prepared_transaction \<Rightarrow> bool" where
  "prepared_ok hex sha p \<longleftrightarrow>
     (\<forall>tx. p_transaction p = Some tx \<longrightarrow> str_ok (tx_version tx) \<and> length (roots tx) < 2 ^ 32
        \<and> walk_ok (node_walk hex sha tx))
     \<and> (\<forall>m. p_metadata p = Some m \<longrightarrow> metadata_ok hex m)"

definition same_signed_content ::
  "(string \<Rightarrow> bytes option) \<Rightarrow> (bytes \<Rightarrow> bytes) \<Rightarrow>
   prepared_transaction \<Rightarrow> string \<Rightarrow> prepared_transaction \<Rightarrow> string \<Rightarrow> bool" where
  "same_signed_content hex sha p v p' v' \<longleftrightarrow>
     (\<exists>tx tx' m m'. p_transaction p = Some tx \<and> p_transaction p' = Some tx'
        \<and> p_metadata p = Some m \<and> p_metadata p' = Some m'
        \<and> tx_version tx = tx_version tx'
        \<and> same_trees (node_walk hex sha tx) (roots tx) (node_walk hex sha tx') (roots tx')
        \<and> same_metadata hex m (parse_hashing_version v) m' (parse_hashing_version v'))"

text \<open>
  C1: Two prepared transactions with the same final hash have the same signed content,
  whatever their hashing versions: the same version and the same tree of nodes under the
  roots (contract ids as bytes, party sets as multisets, node ids abstracted), the same
  submitters, command, synchronizer, times and disclosed contracts. It is assumed that the
  lengths fit their prefixes, that seeds and digests have 32 bytes, and that the hash has no
  collision among the byte strings hashed for the two.
\<close>

theorem final_binding:
  assumes ok: "prepared_ok hex sha p" "prepared_ok hex sha p'"
    and hash: "compute_final_hash hex sha p v = Inr h" "compute_final_hash hex sha p' v' = Inr h"
    and len: "\<forall>x. length (sha x) = 32"
    and inj: "inj_on sha (hash_preimages hex sha p v \<union> hash_preimages hex sha p' v')"
  shows "same_signed_content hex sha p v p' v'"
proof -
  obtain f f' where f: "final_acc hex sha p v = Inr f" "final_acc hex sha p' v' = Inr f'"
    and "sha f = sha f'"
    using hash by (auto simp: compute_final_hash_def result_simps)
  moreover have "f \<in> hash_preimages hex sha p v" "f' \<in> hash_preimages hex sha p' v'"
    using f by (auto simp: hash_preimages_def)
  ultimately have "f = f'" using inj by (auto dest: inj_onD)
  with f obtain tx tx' m m' ta ta' ma ma' where
    p: "p_transaction p = Some tx" "p_transaction p' = Some tx'"
      "p_metadata p = Some m" "p_metadata p' = Some m'"
    and ta: "transaction_acc hex sha tx = Inr ta" "transaction_acc hex sha tx' = Inr ta'"
    and ma: "metadata_acc hex sha m (parse_hashing_version v) = Inr ma"
      "metadata_acc hex sha m' (parse_hashing_version v') = Inr ma'"
    and h: "sha ta @ sha ma = sha ta' @ sha ma'"
    by (auto simp: final_acc_def Let_def hash_transaction_def hash_metadata_def result_simps)
  have hs: "sha ta = sha ta'" "sha ma = sha ma'" using h len by auto
  have "ta \<in> hash_preimages hex sha p v" "ma \<in> hash_preimages hex sha p v"
    "ta' \<in> hash_preimages hex sha p' v'" "ma' \<in> hash_preimages hex sha p' v'"
    using p ta ma by (auto simp: hash_preimages_def)
  with hs inj have eq: "ta = ta'" "ma = ma'" by (auto dest: inj_onD)
  have sizes: "str_ok (tx_version tx)" "str_ok (tx_version tx')"
    "length (roots tx) < 2 ^ 32" "length (roots tx') < 2 ^ 32"
    "metadata_ok hex m" "metadata_ok hex m'"
    using ok p by (auto simp: prepared_ok_def)
  have "inj_on sha (node_preimages (node_walk hex sha tx) \<union> node_preimages (node_walk hex sha tx'))"
    by (rule inj_on_subset [OF inj]) (use p in \<open>auto simp: hash_preimages_def\<close>)
  then have cmp: "comparable (node_walk hex sha tx) (node_walk hex sha tx')"
    using ok p len by (auto simp: comparable_def prepared_ok_def node_walk_def)
  obtain c c' s s' where ids: "encode_node_ids (node_walk hex sha tx) (roots tx) {} 1 = Inr (c, s)"
    "encode_node_ids (node_walk hex sha tx') (roots tx') {} 1 = Inr (c', s')"
    and tb: "ta = HASH_PURPOSE @ str_val (tx_version tx) @ c"
      "ta' = HASH_PURPOSE @ str_val (tx_version tx') @ c'"
    using ta by (auto simp: transaction_acc_def result_simps)
  have tv: "tx_version tx = tx_version tx'" "c = c'"
    using eq(1) sizes unfolding tb by (simp_all add: str_val_append_iff)
  have "same_trees (node_walk hex sha tx) (roots tx) (node_walk hex sha tx') (roots tx')"
    using hash_binding(4) [OF cmp ids(1) _ sizes(3,4)] ids(2) tv(2) by blast
  moreover have "inj_on sha (contract_preimages hex (input_contracts m)
      \<union> contract_preimages hex (input_contracts m'))"
    by (rule inj_on_subset [OF inj]) (use p in \<open>auto simp: hash_preimages_def\<close>)
  then have "same_metadata hex m (parse_hashing_version v) m' (parse_hashing_version v')"
    using metadata_binding [OF sizes(5,6) ma(1)] ma(2) eq(2) len by blast
  ultimately show ?thesis using p tv by (auto simp: same_signed_content_def)
qed

section \<open>An instance\<close>

text \<open>Sample data: a hash that keeps the first 32 bytes, and a transaction of one create node.\<close>

definition sample_sha :: "bytes \<Rightarrow> bytes" where
  "sample_sha b = take 32 (b @ replicate 32 0)"

definition sample_hex :: "string \<Rightarrow> bytes option" where
  "sample_hex s = Some (str_bytes s)"

definition sample_tid :: daml_id where
  "sample_tid = \<lparr>id_package = ''p'', id_module = ''M.N'', id_entity = ''T''\<rparr>"

definition sample_create :: "string list \<Rightarrow> create" where
  "sample_create sigs = \<lparr>c_lf_version = ''2.1'', c_contract_id = ''00'', c_package_name = ''p'',
     c_template_id = Some sample_tid, c_argument = Some (Value (Some VUnit)),
     c_signatories = sigs, c_stakeholders = sigs\<rparr>"

definition sample_node :: "string \<Rightarrow> string list \<Rightarrow> node" where
  "sample_node i sigs = \<lparr>node_id = i, versioned = Some (V1 (Some (Create (sample_create sigs))))\<rparr>"

definition sample_tx :: "string \<Rightarrow> u32 \<Rightarrow> string list \<Rightarrow> daml_transaction" where
  "sample_tx i k sigs = \<lparr>tx_version = ''2'', roots = [i], nodes = [sample_node i sigs],
     node_seeds = [\<lparr>ns_node_id = k, ns_seed = replicate 32 7\<rparr>]\<rparr>"

definition sample_metadata :: "string list \<Rightarrow> metadata" where
  "sample_metadata parties = \<lparr>submitter = Some \<lparr>act_as = parties, command_id = ''c''\<rparr>,
     synchronizer_id = ''s'', mediator_group = 0, transaction_uuid = ''u'', preparation_time = 5,
     input_contracts = [], min_ledger_effective_time = None, max_ledger_effective_time = Some 9,
     max_record_time = None\<rparr>"

definition sample_prepared :: "string \<Rightarrow> u32 \<Rightarrow> string list \<Rightarrow> prepared_transaction" where
  "sample_prepared i k ps = \<lparr>p_transaction = Some (sample_tx i k ps),
     p_metadata = Some (sample_metadata ps)\<rparr>"

lemmas sample_defs = sample_prepared_def sample_metadata_def sample_tx_def sample_node_def
  sample_create_def sample_tid_def sample_hex_def


definition sample_create_bytes :: bytes where
  "sample_create_bytes = (case encode_create_node sample_hex (sample_create [''a'', ''b''])
     (Some (replicate 32 7)) of Inr b \<Rightarrow> b | Inl _ \<Rightarrow> [])"

lemma sample_create_enc:
  "encode_create_node sample_hex (sample_create [''a'', ''b'']) (Some (replicate 32 7))
     = Inr sample_create_bytes"
  "encode_create_node sample_hex (sample_create [''b'', ''a'']) (Some (replicate 32 7))
     = Inr sample_create_bytes"
  by code_simp+

lemma sample_seeds:
  "w_seeds (node_walk sample_hex sample_sha (sample_tx ''0'' 0 ps)) ''0'' = Some (replicate 32 7)"
  "w_seeds (node_walk sample_hex sample_sha (sample_tx ''7'' 7 ps)) ''7'' = Some (replicate 32 7)"
  by code_simp+

lemma sample_ran:
  "ran (w_nodes (node_walk sample_hex sample_sha (sample_tx i k ps))) = {sample_node i ps}"
  by (simp add: node_walk_def sample_tx_def build_nodes_dict_def sample_node_def)

lemma node_walk_hex: "w_hex (node_walk hex sha tx) = hex"
  by (simp add: node_walk_def)

lemma sample_node_preimages:
  "node_preimages (node_walk sample_hex sample_sha (sample_tx ''0'' 0 [''a'', ''b'']))
     \<subseteq> {NODE_ENCODING_V1 # sample_create_bytes}"
  "node_preimages (node_walk sample_hex sample_sha (sample_tx ''7'' 7 [''b'', ''a'']))
     \<subseteq> {NODE_ENCODING_V1 # sample_create_bytes}"
  by (auto simp: node_preimages_def sample_ran node_body_def sample_node_def result_simps
      sample_create_enc sample_seeds node_walk_hex)

lemma sample_accs:
  "transaction_acc sample_hex sample_sha (sample_tx ''0'' 0 [''a'', ''b'']) =
     transaction_acc sample_hex sample_sha (sample_tx ''7'' 7 [''b'', ''a''])"
  "metadata_acc sample_hex sample_sha (sample_metadata [''a'', ''b'']) False =
     metadata_acc sample_hex sample_sha (sample_metadata [''b'', ''a'']) False"
  "final_acc sample_hex sample_sha (sample_prepared ''0'' 0 [''a'', ''b'']) ''V2'' =
     final_acc sample_hex sample_sha (sample_prepared ''7'' 7 [''b'', ''a'']) ''2''"
  by code_simp+

lemma sample_heads:
  "\<forall>b. transaction_acc sample_hex sample_sha (sample_tx ''0'' 0 [''a'', ''b'']) = Inr b
     \<longrightarrow> take 5 b = [0, 0, 0, 48, 0]"
  "\<forall>b. metadata_acc sample_hex sample_sha (sample_metadata [''a'', ''b'']) False = Inr b
     \<longrightarrow> take 5 b = [0, 0, 0, 48, 1]"
  "\<forall>b. final_acc sample_hex sample_sha (sample_prepared ''0'' 0 [''a'', ''b'']) ''V2'' = Inr b
     \<longrightarrow> take 5 b = [0, 0, 0, 48, 2]"
  by (auto simp: transaction_acc_def metadata_acc_def final_acc_def Let_def result_simps
      HASH_PURPOSE_def METADATA_ENCODING_V1_def HASHING_SCHEME_V2_def sample_defs str_val_def
      i32_val_def be_bytes32_def len_i32_def)


lemma sample_sha_heads: "sample_sha x = sample_sha y \<Longrightarrow> 5 \<le> length x \<Longrightarrow> 5 \<le> length y \<Longrightarrow> take 5 x = take 5 y"
proof -
  assume eq: "sample_sha x = sample_sha y" and len: "5 \<le> length x" "5 \<le> length y"
  have "take 5 z = take 5 (sample_sha z)" if "5 \<le> length z" for z
    using that by (simp add: sample_sha_def)
  with eq len show ?thesis by metis
qed

lemma sample_strs_ok: "strs_ok [''a'', ''b'']" "strs_ok [''b'', ''a'']"
  by (simp_all add: strs_ok_def str_ok_def)

lemma sample_node_ok: "strs_ok ps \<Longrightarrow> node_type_ok sample_hex (Create (sample_create ps))"
  by (simp add: create_ok_def sample_create_def sample_tid_def sample_hex_def version_ok_def
      hex_ok_def str_ok_def id_ok_def dotted_ok_def)

lemma sample_walk_ok:
  "strs_ok ps \<Longrightarrow> walk_ok (node_walk sample_hex sample_sha (sample_tx ''0'' 0 ps))"
  "strs_ok ps \<Longrightarrow> walk_ok (node_walk sample_hex sample_sha (sample_tx ''7'' 7 ps))"
  using sample_node_ok [of ps]
  by (simp_all add: walk_ok_def sample_ran node_ok_def node_walk_hex sample_seeds sample_node_def)

lemma sample_metadata_ok: "strs_ok ps \<Longrightarrow> metadata_ok sample_hex (sample_metadata ps)"
  by (simp add: metadata_ok_def sample_metadata_def str_ok_def)

lemma sample_tx_ok: "str_ok (tx_version (sample_tx i k ps))" "length (roots (sample_tx i k ps)) < 2 ^ 32"
  by (simp_all add: sample_tx_def str_ok_def)

lemma sample_prepared_ok:
  "prepared_ok sample_hex sample_sha (sample_prepared ''0'' 0 [''a'', ''b''])"
  "prepared_ok sample_hex sample_sha (sample_prepared ''7'' 7 [''b'', ''a''])"
  using sample_walk_ok sample_metadata_ok sample_strs_ok sample_tx_ok
  by (simp_all add: prepared_ok_def sample_prepared_def)

lemma sample_take5:
  assumes "x \<in> hash_preimages sample_hex sample_sha (sample_prepared ''0'' 0 [''a'', ''b'']) ''V2''
    \<union> hash_preimages sample_hex sample_sha (sample_prepared ''7'' 7 [''b'', ''a'']) ''2''"
  shows "transaction_acc sample_hex sample_sha (sample_tx ''0'' 0 [''a'', ''b'']) = Inr x
      \<and> take 5 x = [0, 0, 0, 48, 0]
    \<or> metadata_acc sample_hex sample_sha (sample_metadata [''a'', ''b'']) False = Inr x
      \<and> take 5 x = [0, 0, 0, 48, 1]
    \<or> final_acc sample_hex sample_sha (sample_prepared ''0'' 0 [''a'', ''b'']) ''V2'' = Inr x
      \<and> take 5 x = [0, 0, 0, 48, 2]
    \<or> x = NODE_ENCODING_V1 # sample_create_bytes"
proof -
  have "\<not> parse_hashing_version ''V2''" "\<not> parse_hashing_version ''2''"
    by (simp_all add: parse_hashing_version_def)
  moreover have "contract_preimages sample_hex (input_contracts (sample_metadata ps)) = {}" for ps
    by (simp add: contract_preimages_def sample_metadata_def)
  moreover have "p_transaction (sample_prepared i k ps) = Some (sample_tx i k ps)"
    "p_metadata (sample_prepared i k ps) = Some (sample_metadata ps)" for i k ps
    by (simp_all add: sample_prepared_def)
  ultimately show ?thesis
    using assms sample_heads sample_node_preimages
    by (auto simp: hash_preimages_def sample_accs [symmetric])
qed

lemma sample_inj:
  "inj_on sample_sha (hash_preimages sample_hex sample_sha (sample_prepared ''0'' 0 [''a'', ''b'']) ''V2''
    \<union> hash_preimages sample_hex sample_sha (sample_prepared ''7'' 7 [''b'', ''a'']) ''2'')"
proof (rule inj_onI)
  have five: "5 \<le> length b" if "take 5 b = [x, y, z, u, v]" for b :: bytes and x y z u v
    using arg_cong [OF that, of length] by simp
  have node: "take 5 (NODE_ENCODING_V1 # sample_create_bytes) = [1, 0, 0, 0, 3]" by code_simp
  fix x y
  assume mem: "x \<in> hash_preimages sample_hex sample_sha (sample_prepared ''0'' 0 [''a'', ''b'']) ''V2''
      \<union> hash_preimages sample_hex sample_sha (sample_prepared ''7'' 7 [''b'', ''a'']) ''2''"
    "y \<in> hash_preimages sample_hex sample_sha (sample_prepared ''0'' 0 [''a'', ''b'']) ''V2''
      \<union> hash_preimages sample_hex sample_sha (sample_prepared ''7'' 7 [''b'', ''a'']) ''2''"
    and eq: "sample_sha x = sample_sha y"
  note cases = sample_take5 [OF mem(1)] sample_take5 [OF mem(2)]
  have "5 \<le> length x" "5 \<le> length y"
    using cases five node by blast+
  with eq have "take 5 x = take 5 y" by (rule sample_sha_heads)
  with cases node show "x = y" by auto
qed

theorem final_binding_witness:
  "same_signed_content sample_hex sample_sha (sample_prepared ''0'' 0 [''a'', ''b'']) ''V2''
     (sample_prepared ''7'' 7 [''b'', ''a'']) ''2''"
proof -
  have "\<not> isl (compute_final_hash sample_hex sample_sha (sample_prepared ''0'' 0 [''a'', ''b'']) ''V2'')"
    by code_simp
  then obtain h where h:
    "compute_final_hash sample_hex sample_sha (sample_prepared ''0'' 0 [''a'', ''b'']) ''V2'' = Inr h"
    by (cases "compute_final_hash sample_hex sample_sha (sample_prepared ''0'' 0 [''a'', ''b'']) ''V2''") auto
  then have h': "compute_final_hash sample_hex sample_sha (sample_prepared ''7'' 7 [''b'', ''a'']) ''2'' = Inr h"
    by (simp add: compute_final_hash_def sample_accs(3))
  have "\<forall>x. length (sample_sha x) = 32" by (auto simp: sample_sha_def)
  from final_binding [OF sample_prepared_ok h h' this sample_inj] show ?thesis .
qed

end
