(* ===== verification/Hash_Walk.thy ===== *)
theory Hash_Walk
  imports Hash_Final
begin

text \<open>
  How far the walk of \<open>hasher.rs\<close> goes: every node is hashed once, at a level of at most
  \<open>MAX_NODE_DEPTH\<close>, and a node referenced twice is an error. The last section shows what
  the missing length check on seeds costs.
\<close>

section \<open>The order and the extent of a walk\<close>

definition children_of :: "node \<Rightarrow> string list" where
  "children_of n = (case versioned n of
      Some (V1 (Some (Exercise e))) \<Rightarrow> e_children e
    | Some (V1 (Some (Rollback r))) \<Rightarrow> r_children r
    | _ \<Rightarrow> [])"

text \<open>
  \<open>preorder w d ids js\<close>: walking the subtrees of \<open>ids\<close>, which are at level \<open>d\<close>, visits
  the nodes of \<open>js\<close> in this order, each listed with its level.
\<close>

inductive preorder :: "walk \<Rightarrow> nat \<Rightarrow> string list \<Rightarrow> (string \<times> nat) list \<Rightarrow> bool" for w :: walk where
  nil: "preorder w d [] []"
| cons: "w_nodes w i = Some n \<Longrightarrow> preorder w (d + 1) (children_of n) js \<Longrightarrow>
     preorder w d is ks \<Longrightarrow> preorder w d (i # is) ((i, d) # js @ ks)"

definition walked :: "walk \<Rightarrow> nat \<Rightarrow> string list \<Rightarrow> string set \<Rightarrow> string set \<Rightarrow> bool" where
  "walked w d ids seen seen' \<longleftrightarrow> (\<exists>js. preorder w d ids js \<and> distinct (map fst js)
     \<and> set (map fst js) \<inter> seen = {} \<and> seen' = seen \<union> set (map fst js)
     \<and> set (map fst js) \<subseteq> dom (w_nodes w) \<and> (\<forall>(i, k) \<in> set js. k \<le> MAX_NODE_DEPTH))"

lemma walked_nil [simp]: "walked w d [] seen seen' \<longleftrightarrow> seen' = seen"
  by (auto simp: walked_def intro: preorder.nil elim: preorder.cases)

lemma walked_cons:
  assumes "w_nodes w i = Some n" and "i \<notin> seen" and "d \<le> MAX_NODE_DEPTH"
    and "walked w (d + 1) (children_of n) (insert i seen) sa" and "walked w d ids sa sb"
  shows "walked w d (i # ids) seen sb"
proof -
  obtain js ks where js: "preorder w (d + 1) (children_of n) js" "distinct (map fst js)"
      "set (map fst js) \<inter> insert i seen = {}" "sa = insert i seen \<union> set (map fst js)"
      "set (map fst js) \<subseteq> dom (w_nodes w)" "\<forall>(i, k) \<in> set js. k \<le> MAX_NODE_DEPTH"
    and ks: "preorder w d ids ks" "distinct (map fst ks)" "set (map fst ks) \<inter> sa = {}"
      "sb = sa \<union> set (map fst ks)" "set (map fst ks) \<subseteq> dom (w_nodes w)"
      "\<forall>(i, k) \<in> set ks. k \<le> MAX_NODE_DEPTH"
    using assms(4,5) unfolding walked_def by blast
  have "preorder w d (i # ids) ((i, d) # js @ ks)"
    using assms(1) js(1) ks(1) by (rule preorder.cons)
  moreover have "distinct (map fst ((i, d) # js @ ks))"
    using js(2-4) ks(2,3) by auto
  ultimately show ?thesis
    unfolding walked_def using assms(1-3) js ks
    by (intro exI [of _ "(i, d) # js @ ks"]) auto
qed

lemma hash_walk:
  "hash_node w n seen d = Inr (h, s) \<Longrightarrow> walked w (d + 1) (children_of n) seen s"
  "encode_exercise_node w e nid seen d = Inr (b, s) \<Longrightarrow> walked w (d + 1) (e_children e) seen s"
  "encode_rollback_node w r seen d = Inr (b, s) \<Longrightarrow> walked w (d + 1) (r_children r) seen s"
  "encode_node_ids w ids seen d = Inr (b, s) \<Longrightarrow> walked w d ids seen s"
  "d \<le> MAX_NODE_DEPTH \<or> ids' = [] \<Longrightarrow> encode_each_node w ids' seen d = Inr (b, s) \<Longrightarrow> walked w d ids' seen s"
proof (induction w n seen d and w e nid seen d and w r seen d and w ids seen d and w ids' seen d
    arbitrary: h s and b s and b s and b s and b s
    rule: hash_node_encode_exercise_node_encode_rollback_node_encode_node_ids_encode_each_node.induct)
  case (1 w n seen d)
  from "1.prems" obtain b where b: "node_body w n seen d = Inr (b, s)"
    by (auto simp: hash_node_eq result_simps)
  then obtain nt where nt: "versioned n = Some (V1 (Some nt))"
    using node_body_shape by blast
  show ?case
    using b nt "1.IH"(1) [OF nt refl refl] "1.IH"(2) [OF nt refl refl]
    by (cases nt) (auto simp: node_body_def children_of_def result_simps)
next
  case (2 w e nid seen d)
  then show ?case by (auto simp: encode_exercise_node.simps result_simps)
next
  case (3 w r seen d)
  then show ?case by (auto simp: encode_rollback_node.simps result_simps)
next
  case (4 w ids seen d)
  from encode_node_ids_InrD [OF "4.prems"] obtain c where
    c: "encode_each_node w ids seen d = Inr (c, s)" "\<not> (MAX_NODE_DEPTH < d \<and> ids \<noteq> [])" by blast
  then show ?case using "4.IH" [OF c(2) _ c(1)] by auto
next
  case (5 w seen d)
  then show ?case by simp
next
  case (6 w i is0 seen d)
  from "6.prems" obtain n h' c sa where
    look: "i \<notin> seen" "w_nodes w i = Some n"
    and hash: "hash_node w n (insert i seen) d = Inr (h', sa)"
    and rest: "encode_each_node w is0 sa d = Inr (c, s)"
    by (auto simp: result_simps split: if_splits option.splits)
  show ?case
  proof (rule walked_cons [OF look(2,1)])
    show "d \<le> MAX_NODE_DEPTH" using "6.prems"(1) by simp
    show "walked w (d + 1) (children_of n) (insert i seen) sa" by (rule "6.IH"(1) [OF look hash])
    show "walked w d is0 sa s" using "6.IH"(2) [OF look hash refl _ rest] "6.prems"(1) by simp
  qed
qed


text \<open>
  A transaction that hashes is a finite tree: the walk from its roots visits every node
  at most once, visits only nodes of the transaction (so the work is bounded by their
  number), and never goes below 256 levels.
\<close>

theorem transaction_walk_bounded:
  assumes "transaction_acc hex sha tx = Inr b"
  shows "\<exists>js. preorder (node_walk hex sha tx) 1 (roots tx) js \<and> distinct (map fst js)
    \<and> set (map fst js) \<subseteq> set (map node_id (nodes tx)) \<and> length js \<le> length (nodes tx)
    \<and> (\<forall>(i, k) \<in> set js. k \<le> 256)"
proof -
  obtain c s where "encode_node_ids (node_walk hex sha tx) (roots tx) {} 1 = Inr (c, s)"
    using assms by (auto simp: transaction_acc_def result_simps)
  from hash_walk(4) [OF this] obtain js where js: "preorder (node_walk hex sha tx) 1 (roots tx) js"
    "distinct (map fst js)" "set (map fst js) \<subseteq> dom (w_nodes (node_walk hex sha tx))"
    "\<forall>(i, k) \<in> set js. k \<le> MAX_NODE_DEPTH"
    unfolding walked_def by blast
  have sub: "set (map fst js) \<subseteq> set (map node_id (nodes tx))"
    using js(3) by (auto simp: node_walk_def dest!: subsetD build_nodes_dict_SomeD)
  have "length js = card (set (map fst js))"
    using distinct_card [OF js(2)] by simp
  also have "\<dots> \<le> card (set (map node_id (nodes tx)))"
    by (rule card_mono [OF _ sub]) simp
  also have "\<dots> \<le> length (nodes tx)"
    using card_length [of "map node_id (nodes tx)"] by simp
  finally show ?thesis using js sub unfolding MAX_NODE_DEPTH_def by blast
qed

theorem transaction_walk_bounded_witness:
  "\<exists>js. preorder (node_walk sample_hex sample_sha (sample_tx ''0'' 0 [''a''])) 1 [''0''] js
     \<and> length js \<le> 1"
proof -
  have "\<not> isl (transaction_acc sample_hex sample_sha (sample_tx ''0'' 0 [''a'']))"
    by code_simp
  then obtain b where "transaction_acc sample_hex sample_sha (sample_tx ''0'' 0 [''a'']) = Inr b"
    by (cases "transaction_acc sample_hex sample_sha (sample_tx ''0'' 0 [''a''])") auto
  from transaction_walk_bounded [OF this] show ?thesis
    by (auto simp: sample_tx_def)
qed

text \<open>
  A transaction in which some list of siblings, or the roots, names a node twice has no
  hash: whatever the tables of the walk, a repeated id is an error.
\<close>

theorem repeated_reference_rejected:
  assumes "\<not> distinct ids"
  shows "\<exists>e. encode_node_ids w ids seen depth = Inl e"
proof (cases "encode_node_ids w ids seen depth")
  case (Inr r)
  then obtain b s where "encode_node_ids w ids seen depth = Inr (b, s)" by (cases r) auto
  from hash_walk(4) [OF this] obtain js where "preorder w depth ids js" "distinct (map fst js)"
    unfolding walked_def by blast
  moreover have "preorder w d is js \<Longrightarrow> distinct (map fst js) \<Longrightarrow>
      distinct is \<and> set is \<subseteq> set (map fst js)" for d "is" js
    by (induction rule: preorder.induct) auto
  ultimately show ?thesis using assms by blast
qed auto

theorem repeated_reference_rejected_witness:
  "\<exists>e. encode_node_ids (node_walk sample_hex sample_sha (sample_tx ''0'' 0 [])) [''0'', ''0''] {} 1 = Inl e"
  by (rule repeated_reference_rejected) simp

section \<open>Seeds are not checked to have 32 bytes\<close>

definition seed_demo_create :: "string \<Rightarrow> create" where
  "seed_demo_create cid = (sample_create [''a''])\<lparr>c_contract_id := cid\<rparr>"

text \<open>
  The seed is written raw, with no length: a create node with a seed of 36 bytes and an
  empty contract id has the bytes of another one with a seed of 32 bytes and a different
  contract id. The hash separates them only where every seed has 32 bytes, which the code
  does not check.
\<close>

theorem seed_length_ambiguity:
  "encode_create_node sample_hex (seed_demo_create (map char_of [0, 0, 0, 0::nat])) (Some (replicate 32 7))
     = encode_create_node sample_hex (seed_demo_create []) (Some (replicate 32 7 @ [0, 0, 0, 4]))
   \<and> seed_demo_create (map char_of [0, 0, 0, 0::nat]) \<noteq> seed_demo_create []
   \<and> \<not> isl (encode_create_node sample_hex (seed_demo_create []) (Some (replicate 32 7 @ [0, 0, 0, 4])))"
  by (intro conjI; code_simp)

end
