(* ===== verification/F64.thy ===== *)
theory F64
  imports Prelude
begin

text \<open>
  The part of Rust's \<open>f64\<close> that \<open>numeric_eq\<close> of \<open>inspector.rs\<close> uses: \<open>str::parse\<close>,
  subtraction, \<open>abs\<close> and \<open><\<close>. A finite double is the rational it stands for; parsing and
  subtraction round the exact result to the nearest double, ties to even (IEEE 754). The
  sign of zero is not kept, as nothing here depends on it.
\<close>

section \<open>Rounding to the nearest double\<close>

datatype f64 = NaN | Inf bool | Fin rat

fun bit_len :: "int \<Rightarrow> int" where
  "bit_len n = (if n \<le> 0 then 0 else 1 + bit_len (n div 2))"

declare bit_len.simps [simp del]

definition pow2 :: "int \<Rightarrow> rat" where
  "pow2 k = 2 powi k"

text \<open>The exponent \<open>e\<close> of a positive rational: \<open>2\<^sup>e \<le> a < 2\<^sup>e\<^sup>+\<^sup>1\<close>.\<close>

definition exponent :: "rat \<Rightarrow> int" where
  "exponent a = (let (n, d) = quotient_of a;
       k = bit_len n - bit_len d
     in if pow2 k \<le> a then k else k - 1)"

definition round_half_even :: "rat \<Rightarrow> int" where
  "round_half_even x = (let f = \<lfloor>x\<rfloor>; r = x - of_int f in
     if r < 1 / 2 then f else if 1 / 2 < r then f + 1 else if even f then f else f + 1)"

definition round_abs :: "rat \<Rightarrow> rat" where
  "round_abs a = (if a \<le> 0 then 0
     else let u = max (exponent a - 52) (- 1074)
          in of_int (round_half_even (a / pow2 u)) * pow2 u)"

definition round_f64 :: "rat \<Rightarrow> f64" where
  "round_f64 q = (let v = round_abs \<bar>q\<bar> in
     if pow2 1024 \<le> v then Inf (q < 0) else Fin (if q < 0 then - v else v))"

section \<open>Arithmetic and comparison\<close>

fun f64_sub :: "f64 \<Rightarrow> f64 \<Rightarrow> f64" where
  "f64_sub NaN y = NaN"
| "f64_sub x NaN = NaN"
| "f64_sub (Inf s) (Inf t) = (if s = t then NaN else Inf s)"
| "f64_sub (Inf s) (Fin y) = Inf s"
| "f64_sub (Fin x) (Inf t) = Inf (\<not> t)"
| "f64_sub (Fin x) (Fin y) = round_f64 (x - y)"

fun f64_abs :: "f64 \<Rightarrow> f64" where
  "f64_abs NaN = NaN"
| "f64_abs (Inf s) = Inf False"
| "f64_abs (Fin x) = Fin \<bar>x\<bar>"

fun f64_lt :: "f64 \<Rightarrow> f64 \<Rightarrow> bool" where
  "f64_lt NaN y = False"
| "f64_lt x NaN = False"
| "f64_lt (Inf s) (Inf t) = (s \<and> \<not> t)"
| "f64_lt (Inf s) (Fin y) = s"
| "f64_lt (Fin x) (Inf t) = (\<not> t)"
| "f64_lt (Fin x) (Fin y) = (x < y)"

section \<open>Parsing\<close>

definition is_digit :: "char \<Rightarrow> bool" where
  "is_digit c \<longleftrightarrow> digit_val c \<noteq> None"

definition lower :: "char \<Rightarrow> char" where
  "lower c = (let n = (of_char c :: nat) in if 65 \<le> n \<and> n \<le> 90 then char_of (n + 32) else c)"

definition split_sign :: "string \<Rightarrow> bool \<times> string" where
  "split_sign s = (case s of
     c # cs \<Rightarrow> if c = CHR ''-'' then (True, cs) else if c = CHR ''+'' then (False, cs) else (False, s)
   | [] \<Rightarrow> (False, []))"

definition parse_exp :: "string \<Rightarrow> int option" where
  "parse_exp s = (case s of
     [] \<Rightarrow> Some 0
   | c # cs \<Rightarrow>
       if lower c \<noteq> CHR ''e'' then None
       else let (neg, ds) = split_sign cs in
         if ds = [] then None
         else map_option (\<lambda>n. if neg then - n else n) (digits_val 0 ds))"

definition pow10 :: "int \<Rightarrow> rat" where
  "pow10 k = (if 0 \<le> k then 10 ^ nat k else 1 / 10 ^ nat (- k))"

text \<open>The exact value of an unsigned decimal number, \<open>None\<close> where the grammar rejects it.\<close>

definition parse_number :: "string \<Rightarrow> rat option" where
  "parse_number s =
     (let ip = takeWhile is_digit s; r1 = dropWhile is_digit s;
          (fp, r2) = (case r1 of
             c # cs \<Rightarrow> if c = CHR ''.'' then (takeWhile is_digit cs, dropWhile is_digit cs) else ([], r1)
           | [] \<Rightarrow> ([], []))
      in if ip = [] \<and> fp = [] then None
         else case (digits_val 0 (ip @ fp), parse_exp r2) of
           (Some m, Some e) \<Rightarrow> Some (of_int m * pow10 (e - int (length fp)))
         | _ \<Rightarrow> None)"

definition parse_f64 :: "string \<Rightarrow> f64 option" where
  "parse_f64 s =
     (let (neg, t) = split_sign s; l = map lower t
      in if l = ''inf'' \<or> l = ''infinity'' then Some (Inf neg)
         else if l = ''nan'' then Some NaN
         else map_option (\<lambda>v. round_f64 (if neg then - v else v)) (parse_number t))"

text \<open>\<open>numeric_eq\<close> of \<open>inspector.rs\<close>; the literal \<open>1e-9\<close> is itself a rounded double.\<close>

definition numeric_eq :: "string \<Rightarrow> string \<Rightarrow> bool" where
  "numeric_eq a b \<longleftrightarrow> a = b \<or>
     (case (parse_f64 a, parse_f64 b) of
        (Some fa, Some fb) \<Rightarrow> f64_lt (f64_abs (f64_sub fa fb)) (round_f64 (1 / 10 ^ 9))
      | _ \<Rightarrow> False)"


section \<open>The rounding error\<close>

lemma pow2_pos [simp]: "0 < pow2 k"
  by (simp add: pow2_def)

lemma pow2_add: "pow2 (a + b) = pow2 a * pow2 b"
  by (simp add: pow2_def power_int_add)

lemma pow2_Suc: "pow2 (k + 1) = 2 * pow2 k"
  by (simp add: pow2_add) (simp add: pow2_def)

lemma pow2_mono: "a \<le> b \<Longrightarrow> pow2 a \<le> pow2 b"
  by (simp add: pow2_def power_int_increasing)

lemma pow2_less_imp: "pow2 a < pow2 b \<Longrightarrow> a < b"
  using pow2_mono [of b a] by (cases "b \<le> a") auto

lemma pow2_nat: "pow2 (int n) = 2 ^ n" "pow2 (- int n) = 1 / 2 ^ n"
  by (simp_all add: pow2_def power_int_minus divide_inverse)

lemma bit_len_pos: "0 < n \<Longrightarrow> \<exists>k. bit_len n = int k + 1 \<and> 2 ^ k \<le> n \<and> n < 2 * 2 ^ k"
proof (induction n rule: bit_len.induct)
  case (1 n)
  show ?case
  proof (cases "n = 1")
    case True
    then show ?thesis
      by (intro exI [of _ 0]) (simp add: bit_len.simps [of 1] bit_len.simps [of 0])
  next
    case False
    with "1.prems" have n: "\<not> n \<le> 0" "0 < n div 2" by linarith+
    from "1.IH" [OF n] obtain k where k: "bit_len (n div 2) = int k + 1" "2 ^ k \<le> n div 2"
      "n div 2 < 2 * 2 ^ k" by blast
    have "bit_len n = int (Suc k) + 1"
      using k(1) n(1) by (simp add: bit_len.simps [of n])
    moreover have "2 ^ Suc k \<le> n" "n < 2 * 2 ^ Suc k"
      using k(2,3) by simp_all
    ultimately show ?thesis by blast
  qed
qed

lemma bit_len_bounds:
  assumes "0 < n"
  shows "pow2 (bit_len n - 1) \<le> of_int n" and "of_int n < pow2 (bit_len n)"
proof -
  obtain k where k: "bit_len n = int k + 1" "2 ^ k \<le> n" "n < 2 * 2 ^ k"
    using bit_len_pos [OF assms] by blast
  have "(of_int (2 ^ k) :: rat) \<le> of_int n" "(of_int n :: rat) < of_int (2 * 2 ^ k)"
    using k(2,3) by (simp_all only: of_int_le_iff of_int_less_iff)
  then show "pow2 (bit_len n - 1) \<le> of_int n" "of_int n < pow2 (bit_len n)"
    using k(1) by (simp_all add: pow2_Suc pow2_nat)
qed

lemma exponent_bounds:
  assumes "0 < a"
  shows "pow2 (exponent a) \<le> a" and "a < pow2 (exponent a + 1)"
proof -
  obtain n d where q: "quotient_of a = (n, d)" by (cases "quotient_of a")
  have d: "0 < d" and a: "a = of_int n / of_int d"
    using quotient_of_denom_pos [OF q] quotient_of_div [OF q] by simp_all
  with assms have n: "0 < n" by (simp add: zero_less_divide_iff)
  define k where "k = bit_len n - bit_len d"
  have nb: "pow2 (bit_len n - 1) \<le> of_int n" "of_int n < pow2 (bit_len n)"
    and db: "pow2 (bit_len d - 1) \<le> of_int d" "of_int d < pow2 (bit_len d)"
    using bit_len_bounds n d by blast+
  have pos: "(0::rat) < of_int d" using d by simp
  have lo: "pow2 (k - 1) \<le> a"
  proof -
    have "pow2 (k - 1) * of_int d \<le> pow2 (k - 1) * pow2 (bit_len d)"
      using db(2) by (intro mult_left_mono) (simp_all add: less_imp_le)
    also have "\<dots> = pow2 (bit_len n - 1)"
      by (simp add: k_def flip: pow2_add)
    finally show ?thesis using nb(1) pos by (simp add: a pos_le_divide_eq)
  qed
  have hi: "a < pow2 (k + 1)"
  proof -
    have "pow2 (bit_len n) = pow2 (k + 1) * pow2 (bit_len d - 1)"
      by (simp add: k_def flip: pow2_add)
    also have "\<dots> \<le> pow2 (k + 1) * of_int d"
      using db(1) by (intro mult_left_mono) (simp_all add: less_imp_le)
    finally show ?thesis using nb(2) pos by (simp add: a pos_divide_less_eq)
  qed
  show "pow2 (exponent a) \<le> a" "a < pow2 (exponent a + 1)"
    using lo hi by (simp_all add: exponent_def q flip: k_def)
qed

lemma exponent_unique:
  assumes "pow2 e \<le> a" and "a < pow2 (e + 1)"
  shows "exponent a = e"
proof -
  have "0 < a" using assms(1) pow2_pos [of e] by linarith
  from exponent_bounds [OF this] assms have "pow2 e < pow2 (exponent a + 1)"
    "pow2 (exponent a) < pow2 (e + 1)" by linarith+
  then have "e < exponent a + 1" "exponent a < e + 1" by (blast intro: pow2_less_imp)+
  then show ?thesis by simp
qed

lemma round_half_even_error: "\<bar>of_int (round_half_even x) - x\<bar> \<le> 1 / 2"
proof -
  define r where "r = x - of_int \<lfloor>x\<rfloor>"
  have "0 \<le> r" "r < 1" unfolding r_def by linarith+
  moreover have "x = of_int \<lfloor>x\<rfloor> + r" by (simp add: r_def)
  ultimately show ?thesis
    unfolding round_half_even_def Let_def r_def [symmetric] by (auto simp: abs_le_iff)
qed

lemma round_half_even_nearest: "\<bar>x - of_int m\<bar> < 1 / 2 \<Longrightarrow> round_half_even x = m"
proof -
  assume h: "\<bar>x - of_int m\<bar> < 1 / 2"
  show ?thesis
  proof (cases "of_int m \<le> x")
    case True
    then have "\<lfloor>x\<rfloor> = m" "x - of_int m < 1 / 2" using h by (auto simp: floor_eq_iff abs_less_iff)
    then show ?thesis by (simp add: round_half_even_def Let_def)
  next
    case False
    then have f: "\<lfloor>x\<rfloor> = m - 1" and "1 / 2 < x - of_int (m - 1)"
      using h by (auto simp: floor_eq_iff abs_less_iff)
    then show ?thesis by (simp add: round_half_even_def Let_def)
  qed
qed

text \<open>The result of rounding, from an exponent and an integer significand as certificates.\<close>

lemma round_absI:
  assumes "pow2 e \<le> a" and "a < pow2 (e + 1)" and "u = max (e - 52) (- 1074)"
    and "\<bar>a / pow2 u - of_int m\<bar> < 1 / 2"
  shows "round_abs a = of_int m * pow2 u"
proof -
  have "0 < a" using assms(1) pow2_pos [of e] by linarith
  then show ?thesis
    using exponent_unique [OF assms(1,2)] assms(3) round_half_even_nearest [OF assms(4)]
    by (simp add: round_abs_def)
qed

lemma round_abs_error:
  assumes "0 \<le> a"
  shows "\<bar>round_abs a - a\<bar> \<le> a / 2 ^ 53 + pow2 (- 1075)"
proof (cases "a = 0")
  case False
  with assms have a: "0 < a" by simp
  define u where "u = max (exponent a - 52) (- 1074)"
  have "\<bar>round_abs a - a\<bar> = \<bar>of_int (round_half_even (a / pow2 u)) - a / pow2 u\<bar> * pow2 u"
    using a by (simp add: round_abs_def abs_mult_pos less_imp_le left_diff_distrib flip: u_def)
      (metis abs_mult abs_of_pos left_diff_distrib nonzero_eq_divide_eq order_less_irrefl pow2_pos)
  also have "\<dots> \<le> 1 / 2 * pow2 u"
    by (intro mult_right_mono round_half_even_error) (simp add: less_imp_le)
  also have "\<dots> = pow2 (u - 1)"
    using pow2_Suc [of "u - 1"] by simp
  also have "\<dots> \<le> a / 2 ^ 53 + pow2 (- 1075)"
  proof (cases "exponent a - 52 \<le> - 1074")
    case True
    then show ?thesis using a by (simp add: u_def)
  next
    case False
    then have "pow2 (u - 1) = pow2 (exponent a) * pow2 (- int 53)"
      by (simp add: u_def flip: pow2_add)
    also have "\<dots> \<le> a * pow2 (- int 53)"
      using exponent_bounds(1) [OF a] by (intro mult_right_mono) (simp_all add: less_imp_le)
    also have "a * pow2 (- int 53) = a / 2 ^ 53" unfolding pow2_nat by simp
    finally have "pow2 (u - 1) \<le> a / 2 ^ 53" .
    then show ?thesis using pow2_pos [of "- 1075"] by linarith
  qed
  finally show ?thesis .
qed (simp add: round_abs_def less_imp_le)

lemma round_f64_error:
  assumes "round_f64 q = Fin x"
  shows "\<bar>x - q\<bar> \<le> \<bar>q\<bar> / 2 ^ 53 + pow2 (- 1075)"
proof -
  have "x = (if q < 0 then - round_abs \<bar>q\<bar> else round_abs \<bar>q\<bar>)"
    using assms by (auto simp: round_f64_def Let_def split: if_splits)
  then show ?thesis using round_abs_error [of "\<bar>q\<bar>"]
    by (auto simp: abs_le_iff split: if_splits)
qed

lemma round_f64_minus: "round_f64 (- q) = (case round_f64 q of NaN \<Rightarrow> NaN
    | Inf s \<Rightarrow> Inf (\<not> s) | Fin x \<Rightarrow> Fin (- x))" if "q \<noteq> 0"
  using that by (auto simp: round_f64_def Let_def)

lemma round_f64_0 [simp]: "round_f64 0 = Fin 0"
  by (simp add: round_f64_def round_abs_def not_le)


section \<open>What numeric_eq accepts\<close>

text \<open>The exact decimal value of a number in the grammar (not of the infinities and NaN).\<close>

definition dec_value :: "string \<Rightarrow> rat option" where
  "dec_value s =
     (let (neg, t) = split_sign s; l = map lower t
      in if l = ''inf'' \<or> l = ''infinity'' \<or> l = ''nan'' then None
         else map_option (\<lambda>v. if neg then - v else v) (parse_number t))"

lemma parse_f64_dec_value: "dec_value s = Some q \<Longrightarrow> parse_f64 s = Some (round_f64 q)"
  by (auto simp: parse_f64_def dec_value_def Let_def split: prod.splits if_splits)

lemma parse_f64_Fin:
  assumes "parse_f64 s = Some (Fin x)"
  obtains q where "dec_value s = Some q" and "round_f64 q = Fin x"
proof -
  obtain neg t where st: "split_sign s = (neg, t)" by (cases "split_sign s")
  define q where "q v = (if neg then - v else v)" for v :: rat
  have n: "map lower t \<noteq> ''inf''" "map lower t \<noteq> ''infinity''" "map lower t \<noteq> ''nan''"
    using assms by (auto simp: parse_f64_def st Let_def)
  with assms have "map_option (\<lambda>v. round_f64 (q v)) (parse_number t) = Some (Fin x)"
    by (simp add: parse_f64_def st Let_def q_def)
  then obtain v where v: "parse_number t = Some v" "round_f64 (q v) = Fin x" by blast
  have "dec_value s = Some (q v)"
    using n v(1) by (simp add: dec_value_def st Let_def q_def)
  with v(2) that show ?thesis by blast
qed

text \<open>The double nearest to \<open>1e-9\<close>.\<close>

definition tolerance :: rat where
  "tolerance = 4835703278458517 / 2 ^ 82"

lemma round_tolerance: "round_f64 (1 / 10 ^ 9) = Fin tolerance"
proof -
  have "round_abs (1 / 10 ^ 9) = of_int 4835703278458517 * pow2 (- int 82)"
  proof (rule round_absI)
    show "pow2 (- int 30) \<le> 1 / 10 ^ 9" unfolding pow2_nat by simp
    have "pow2 (- int 30 + 1) = pow2 (- int 29)" by simp
    then show "(1::rat) / 10 ^ 9 < pow2 (- int 30 + 1)" unfolding pow2_nat by simp
    show "\<bar>1 / 10 ^ 9 / pow2 (- int 82) - rat_of_int 4835703278458517\<bar> < 1 / 2"
      unfolding pow2_nat by simp
  qed simp
  then have v: "round_abs (1 / 10 ^ 9) = tolerance"
    unfolding pow2_nat tolerance_def by simp
  have "tolerance < pow2 (int 1)" unfolding pow2_nat tolerance_def by simp
  also have "\<dots> \<le> pow2 1024" by (rule pow2_mono) simp
  finally have "\<not> pow2 1024 \<le> tolerance" by simp
  moreover have "\<bar>1 / 10 ^ 9 :: rat\<bar> = 1 / 10 ^ 9" "\<not> (1 / 10 ^ 9 :: rat) < 0" by simp_all
  ultimately show ?thesis
    unfolding round_f64_def Let_def v by (simp only: v if_False)
qed

lemma tolerance_bounds: "999 / 10 ^ 12 \<le> tolerance" "tolerance \<le> 1001 / 10 ^ 12"
  by (simp_all add: tolerance_def)

lemma pow2_1075: "pow2 (- 1075) \<le> 1 / 10 ^ 18"
proof -
  have "pow2 (- 1075) \<le> pow2 (- int 60)" by (rule pow2_mono) simp
  then show ?thesis unfolding pow2_nat by simp
qed

lemma f64_close_Fin:
  assumes "f64_lt (f64_abs (f64_sub u v)) (Fin t)"
  obtains x y d where "u = Fin x" and "v = Fin y" and "round_f64 (x - y) = Fin d" and "\<bar>d\<bar> < t"
proof (cases "f64_sub u v")
  case (Fin d)
  then obtain x y where xy: "u = Fin x" "v = Fin y" "round_f64 (x - y) = Fin d"
    by (cases u; cases v) (auto split: if_splits)
  have "\<bar>d\<bar> < t" using assms by (simp add: Fin)
  with xy that show ?thesis by blast
qed (use assms in simp_all)

lemma numeric_eq_cases:
  assumes "numeric_eq a b"
  obtains "a = b"
  | x y fx fy d where "dec_value a = Some x" and "dec_value b = Some y"
    and "round_f64 x = Fin fx" and "round_f64 y = Fin fy"
    and "round_f64 (fx - fy) = Fin d" and "\<bar>d\<bar> < tolerance"
proof (cases "a = b")
  case False
  with assms obtain u v where p: "parse_f64 a = Some u" "parse_f64 b = Some v"
    and lt: "f64_lt (f64_abs (f64_sub u v)) (Fin tolerance)"
    unfolding numeric_eq_def round_tolerance by (auto split: option.splits)
  from lt obtain fx fy d where f: "u = Fin fx" "v = Fin fy" "round_f64 (fx - fy) = Fin d"
    "\<bar>d\<bar> < tolerance" by (rule f64_close_Fin)
  from p(1) [unfolded f(1)] obtain x where "dec_value a = Some x" "round_f64 x = Fin fx"
    by (rule parse_f64_Fin)
  moreover from p(2) [unfolded f(2)] obtain y where "dec_value b = Some y" "round_f64 y = Fin fy"
    by (rule parse_f64_Fin)
  ultimately show ?thesis using f(3,4) that(2) by blast
qed (use that in blast)

text \<open>Accepted amounts are equal as decimals up to the tolerance and the rounding.\<close>

lemma abs_triangle3: "\<bar>a - b\<bar> \<le> \<bar>c - a\<bar> + \<bar>c - d\<bar> + \<bar>d - b\<bar>" for a :: rat
  by linarith

lemma sum3_le: "p \<le> q + e + r \<Longrightarrow> q \<le> q' \<Longrightarrow> e \<le> e' \<Longrightarrow> p \<le> (q' + r) + e'" for p :: rat
  by linarith

lemma rounding_gap:
  assumes "round_f64 x = Fin fx" and "round_f64 y = Fin fy" and "round_f64 (fx - fy) = Fin d"
  shows "\<bar>fx - fy\<bar> \<le> \<bar>x - y\<bar> + (\<bar>x\<bar> + \<bar>y\<bar>) / 2 ^ 53 + 2 / 10 ^ 18"
    and "\<bar>x - y\<bar> \<le> \<bar>fx - fy\<bar> + (\<bar>x\<bar> + \<bar>y\<bar>) / 2 ^ 53 + 2 / 10 ^ 18"
    and "\<bar>d\<bar> \<le> \<bar>fx - fy\<bar> + \<bar>fx - fy\<bar> / 2 ^ 53 + 1 / 10 ^ 18"
    and "\<bar>fx - fy\<bar> \<le> \<bar>d\<bar> + \<bar>fx - fy\<bar> / 2 ^ 53 + 1 / 10 ^ 18"
  using round_f64_error [OF assms(1)] round_f64_error [OF assms(2)] round_f64_error [OF assms(3)]
    pow2_1075 by (simp_all only: add_divide_distrib) linarith+

lemma round_f64_finite:
  assumes "\<bar>q\<bar> \<le> 10 ^ 40"
  shows "\<exists>x. round_f64 q = Fin x"
proof -
  have "round_abs \<bar>q\<bar> \<le> \<bar>q\<bar> + \<bar>q\<bar> / 2 ^ 53 + pow2 (- 1075)"
    using round_abs_error [of "\<bar>q\<bar>"] by (simp add: abs_le_iff)
  also have "\<dots> \<le> 10 ^ 41"
    using assms pow2_1075 by simp
  also have "(10::rat) ^ 41 < pow2 (int 200)" unfolding pow2_nat by simp
  also have "\<dots> \<le> pow2 1024" by (rule pow2_mono) simp
  finally show ?thesis by (auto simp: round_f64_def Let_def)
qed

lemma numeric_eqI:
  assumes "dec_value a = Some x" and "dec_value b = Some y"
    and "round_f64 x = Fin fx" and "round_f64 y = Fin fy"
    and "round_f64 (fx - fy) = Fin d" and "\<bar>d\<bar> < tolerance"
  shows "numeric_eq a b"
  using parse_f64_dec_value [OF assms(1)] parse_f64_dec_value [OF assms(2)] assms(3-6)
  unfolding numeric_eq_def round_tolerance by simp

lemma numeric_eq_refl [simp]: "numeric_eq a a"
  by (simp add: numeric_eq_def)

lemma numeric_eq_same_value:
  assumes "dec_value a = Some x" and "dec_value b = Some x" and "\<bar>x\<bar> \<le> 10 ^ 40"
  shows "numeric_eq a b"
proof -
  obtain f where "round_f64 x = Fin f" using round_f64_finite [OF assms(3)] ..
  then show ?thesis
    using tolerance_bounds(1) by (intro numeric_eqI [OF assms(1,2), of f f 0]) simp_all
qed

lemma numeric_eq_close:
  assumes "dec_value a = Some x" and "dec_value b = Some y"
    and "\<bar>x\<bar> \<le> 10 ^ 4" and "\<bar>y\<bar> \<le> 10 ^ 4" and "\<bar>x - y\<bar> \<le> 9 / 10 ^ 10"
  shows "numeric_eq a b"
proof -
  obtain fx fy where f: "round_f64 x = Fin fx" "round_f64 y = Fin fy"
    using round_f64_finite [of x] round_f64_finite [of y] assms(3,4) by auto
  have le: "(\<bar>x\<bar> + \<bar>y\<bar>) / 2 ^ 53 \<le> 3 / 10 ^ 12"
    using assms(3,4) by simp
  obtain e where e: "round_f64 0 = Fin e" by simp
  have "\<bar>fx - fy\<bar> \<le> 10 ^ 40"
    using round_f64_error [OF f(1)] round_f64_error [OF f(2)] assms(3,4) pow2_1075
    by simp
  then obtain d where d: "round_f64 (fx - fy) = Fin d" using round_f64_finite by blast
  note gap = rounding_gap [OF f d]
  have "\<bar>fx - fy\<bar> \<le> 95 / 10 ^ 11"
    using sum3_le [OF gap(1) assms(5) le] by simp
  then have "\<bar>d\<bar> < tolerance"
    using gap(3) tolerance_bounds(1) by simp
  then show ?thesis by (intro numeric_eqI [OF assms(1,2) f d])
qed


text \<open>
  Amounts that \<open>numeric_eq\<close> takes for equal are the same text, or two decimal numbers
  whose exact values differ by at most \<open>1.1e-9\<close> plus \<open>2\<^sup>-\<^sup>5\<^sup>2\<close> times their size.
\<close>

theorem numeric_eq_sound:
  assumes "numeric_eq a b"
  shows "a = b \<or> (\<exists>x y. dec_value a = Some x \<and> dec_value b = Some y
    \<and> \<bar>x - y\<bar> \<le> 11 / 10 ^ 10 + (\<bar>x\<bar> + \<bar>y\<bar>) / 2 ^ 52)"
  using assms
proof (cases rule: numeric_eq_cases)
  case (2 x y fx fy d)
  note gap = rounding_gap [OF 2(3,4,5)]
  have "\<bar>fx - fy\<bar> \<le> 10011 / 10 ^ 13"
    using gap(4) 2(6) tolerance_bounds(2) by simp
  moreover have "(\<bar>x\<bar> + \<bar>y\<bar>) / 2 ^ 53 \<le> (\<bar>x\<bar> + \<bar>y\<bar>) / 2 ^ 52"
    by (rule divide_left_mono) simp_all
  ultimately have "\<bar>x - y\<bar> \<le> (10011 / 10 ^ 13 + 2 / 10 ^ 18) + (\<bar>x\<bar> + \<bar>y\<bar>) / 2 ^ 52"
    by (rule sum3_le [OF gap(2)])
  also have "\<dots> \<le> 11 / 10 ^ 10 + (\<bar>x\<bar> + \<bar>y\<bar>) / 2 ^ 52"
    by (rule add_right_mono) simp
  finally have "\<bar>x - y\<bar> \<le> 11 / 10 ^ 10 + (\<bar>x\<bar> + \<bar>y\<bar>) / 2 ^ 52" .
  with 2 show ?thesis by blast
qed simp

theorem numeric_eq_sound_witness:
  "\<exists>x y. dec_value ''1'' = Some x \<and> dec_value ''1.0000000001'' = Some y
    \<and> \<bar>x - y\<bar> \<le> 11 / 10 ^ 10 + (\<bar>x\<bar> + \<bar>y\<bar>) / 2 ^ 52"
proof -
  have v: "dec_value ''1'' = Some 1" "dec_value ''1.0000000001'' = Some (10000000001 / 10000000000)"
    by code_simp+
  have "numeric_eq ''1'' ''1.0000000001''"
    by (rule numeric_eq_close [OF v]) simp_all
  from numeric_eq_sound [OF this] show ?thesis by simp
qed

end
