(* ===== verification/Inspect_Flow.thy ===== *)
theory Inspect_Flow
  imports Daml_Types F64
begin

text \<open>
  The control flow of the functions of \<open>inspector.rs\<close> and the helpers they share. A check
  either goes on with a value, rejects the transaction (\<open>return Ok(InspectionResult {
  accepted: false, .. })\<close>) or fails (\<open>?\<close> on an error), and on the way it appends to the
  warnings: the type \<open>check\<close> pairs the outcome with the warnings pushed so far. The
  fragments of a message are those of its \<open>format!\<close> string.
\<close>

section \<open>Results\<close>

record inspection_result =
  accepted :: bool
  summary :: message
  warnings :: "message list"
  rejection_reason :: "message option"

section \<open>Checks\<close>

datatype 'a flow = Fail message | Reject message message | Go 'a

type_synonym 'a check = "'a flow \<times> message list"

definition check_bind :: "'a check \<Rightarrow> ('a \<Rightarrow> 'b check) \<Rightarrow> 'b check" where
  "check_bind m f = (case fst m of
     Fail e \<Rightarrow> (Fail e, snd m)
   | Reject s r \<Rightarrow> (Reject s r, snd m)
   | Go x \<Rightarrow> (fst (f x), snd m @ snd (f x)))"

definition go :: "'a \<Rightarrow> 'a check" where
  "go x = (Go x, [])"

definition reject :: "message \<Rightarrow> message \<Rightarrow> 'a check" where
  "reject s r = (Reject s r, [])"

definition require :: "bool \<Rightarrow> message \<Rightarrow> message \<Rightarrow> unit check" where
  "require b s r = (if b then go () else reject s r)"

definition require_some :: "'a option \<Rightarrow> message \<Rightarrow> message \<Rightarrow> 'a check" where
  "require_some x s r = (case x of None \<Rightarrow> reject s r | Some v \<Rightarrow> go v)"

definition demand :: "'a option \<Rightarrow> string \<Rightarrow> 'a check" where
  "demand x s = (case x of None \<Rightarrow> (Fail [Lit s], []) | Some v \<Rightarrow> go v)"

definition warn_if :: "bool \<Rightarrow> message \<Rightarrow> unit check" where
  "warn_if b m = (Go (), if b then [m] else [])"

fun steps :: "unit check list \<Rightarrow> unit check" where
  "steps [] = go ()"
| "steps (c # cs) = check_bind c (\<lambda>_. steps cs)"

text \<open>\<open>if let Some(v) = x\<close> with and without an \<open>else\<close>.\<close>

definition when_some :: "'a option \<Rightarrow> ('a \<Rightarrow> unit check) \<Rightarrow> unit check" where
  "when_some x f = (case x of None \<Rightarrow> go () | Some v \<Rightarrow> f v)"

definition some_or :: "'a option \<Rightarrow> ('a \<Rightarrow> unit check) \<Rightarrow> unit check \<Rightarrow> unit check" where
  "some_or x f c = (case x of None \<Rightarrow> c | Some v \<Rightarrow> f v)"

text \<open>A condition on a value that need not be there.\<close>

definition absent_or :: "('a \<Rightarrow> bool) \<Rightarrow> 'a option \<Rightarrow> bool" where
  "absent_or P x = (case x of None \<Rightarrow> True | Some v \<Rightarrow> P v)"

text \<open>The value an inspection function returns.\<close>

definition finish :: "message check \<Rightarrow> inspection_result result" where
  "finish c = (case fst c of
     Fail e \<Rightarrow> Inl e
   | Reject s r \<Rightarrow> Inr \<lparr>accepted = False, summary = s, warnings = snd c, rejection_reason = Some r\<rparr>
   | Go s \<Rightarrow> Inr \<lparr>accepted = True, summary = s, warnings = snd c, rejection_reason = None\<rparr>)"

definition accepts :: "inspection_result result \<Rightarrow> bool" where
  "accepts r = (case r of Inl e \<Rightarrow> False | Inr i \<Rightarrow> accepted i)"

section \<open>When a check goes on\<close>

named_theorems flow_simps \<open>when a check goes on\<close>

definition goes :: "'a check \<Rightarrow> 'a \<Rightarrow> bool" where
  "goes c x \<longleftrightarrow> fst c = Go x"

lemma goes_bind [flow_simps]: "goes (check_bind m f) y \<longleftrightarrow> (\<exists>x. goes m x \<and> goes (f x) y)"
  by (auto simp: goes_def check_bind_def split: flow.splits)

lemma goes_go [flow_simps]: "goes (go x) y \<longleftrightarrow> y = x"
  by (auto simp: goes_def go_def)

lemma goes_reject [flow_simps]: "\<not> goes (reject s r) y"
  by (simp add: goes_def reject_def)

lemma goes_require [flow_simps]: "goes (require b s r) y \<longleftrightarrow> b"
  by (simp add: require_def flow_simps)

lemma goes_require_some [flow_simps]: "goes (require_some x s r) y \<longleftrightarrow> x = Some y"
  by (auto simp: require_some_def flow_simps split: option.splits)

lemma goes_demand [flow_simps]: "goes (demand x s) y \<longleftrightarrow> x = Some y"
  by (auto simp: demand_def goes_def go_def split: option.splits)

lemma goes_warn_if [flow_simps]: "goes (warn_if b m) y"
  by (simp add: goes_def warn_if_def)

lemma ex_unit [flow_simps]: "Ex P \<longleftrightarrow> P ()" for P :: "unit \<Rightarrow> bool"
  by (metis old.unit.exhaust)

lemma goes_steps [flow_simps]:
  "goes (steps []) y"
  "goes (steps (c # cs)) y \<longleftrightarrow> goes c () \<and> goes (steps cs) ()"
  by (simp_all add: flow_simps)

lemma absent_or_simps [simp]:
  "absent_or P None"
  "absent_or P (Some v) \<longleftrightarrow> P v"
  "absent_or (\<lambda>_. True) x"
  by (simp_all add: absent_or_def split: option.splits)

lemma absent_or_iff: "absent_or P x \<longleftrightarrow> (\<forall>v. x = Some v \<longrightarrow> P v)"
  by (simp add: absent_or_def split: option.splits)

lemma goes_when_some [flow_simps]:
  "goes (when_some x f) y \<longleftrightarrow> absent_or (\<lambda>v. goes (f v) y) x" for f :: "'a \<Rightarrow> unit check"
  by (cases x) (auto simp: when_some_def flow_simps)

lemma goes_some_or [flow_simps]:
  "goes (some_or x f c) y \<longleftrightarrow> (x = None \<longrightarrow> goes c y) \<and> absent_or (\<lambda>v. goes (f v) y) x"
  by (cases x) (auto simp: some_or_def)

lemma goes_if [flow_simps]: "goes (if b then c else d) y \<longleftrightarrow> (if b then goes c y else goes d y)"
  by simp

definition passes :: "'a check \<Rightarrow> bool" where
  "passes c \<longleftrightarrow> (\<exists>x. goes c x)"

lemma passes_bind [flow_simps]: "passes (check_bind m f) \<longleftrightarrow> (\<exists>x. goes m x \<and> passes (f x))"
  by (auto simp: passes_def goes_bind)

lemma passes_go [flow_simps]: "passes (go x)"
  by (simp add: passes_def goes_go)

lemma accepts_finish [flow_simps]: "accepts (finish c) \<longleftrightarrow> passes c"
  by (auto simp: passes_def accepts_def finish_def goes_def split: flow.splits)

lemma finish_InlE: "finish c = Inl e \<Longrightarrow> fst c = Fail e"
  by (simp add: finish_def split: flow.splits)

lemma accepted_no_reason:
  "finish c = Inr r \<Longrightarrow> accepted r \<longleftrightarrow> rejection_reason r = None"
  by (auto simp: finish_def split: flow.splits)

section \<open>Values\<close>

definition get_record_field :: "drecord \<Rightarrow> string \<Rightarrow> dvalue option" where
  "get_record_field r l = (case find (\<lambda>f. label f = l) (drecord.fields r) of
     None \<Rightarrow> None | Some f \<Rightarrow> field_value f)"

definition as_record :: "dvalue \<Rightarrow> drecord option" where
  "as_record v = (case sum_of v of Some (VRecord r) \<Rightarrow> Some r | _ \<Rightarrow> None)"

definition get_party :: "dvalue \<Rightarrow> string option" where
  "get_party v = (case sum_of v of Some (VParty s) \<Rightarrow> Some s | _ \<Rightarrow> None)"

definition get_numeric :: "dvalue \<Rightarrow> string option" where
  "get_numeric v = (case sum_of v of Some (VNumeric s) \<Rightarrow> Some s | _ \<Rightarrow> None)"

definition get_text :: "dvalue \<Rightarrow> string option" where
  "get_text v = (case sum_of v of Some (VText s) \<Rightarrow> Some s | _ \<Rightarrow> None)"

definition as_list :: "dvalue \<Rightarrow> dvalue list option" where
  "as_list v = (case sum_of v of Some (VList vs) \<Rightarrow> Some vs | _ \<Rightarrow> None)"

definition get_contract_id :: "dvalue \<Rightarrow> string option" where
  "get_contract_id v = (case sum_of v of Some (VContractId s) \<Rightarrow> Some s | _ \<Rightarrow> None)"

text \<open>\<open>get_record_field(r, l).and_then(f)\<close>, and \<open>first\<close> of a slice.\<close>

definition field_as :: "(dvalue \<Rightarrow> 'a option) \<Rightarrow> drecord \<Rightarrow> string \<Rightarrow> 'a option" where
  "field_as f r l = Option.bind (get_record_field r l) f"

definition first_of :: "'a list \<Rightarrow> 'a option" where
  "first_of xs = (case xs of [] \<Rightarrow> None | x # _ \<Rightarrow> Some x)"

definition extract_instrument_quantity ::
  "drecord \<Rightarrow> string option \<times> string option \<times> string option" where
  "extract_instrument_quantity iq =
     (let instrument = field_as as_record iq ''instrument'';
          i = Option.bind instrument (\<lambda>r. field_as get_text r ''id'');
          admin = Option.bind instrument (\<lambda>r. field_as get_party r ''admin'');
          amount = field_as get_numeric iq ''amount''
      in (i, admin, amount))"

definition template_matches :: "daml_id \<Rightarrow> string \<Rightarrow> string \<Rightarrow> bool" where
  "template_matches i m e \<longleftrightarrow> id_module i = m \<and> id_entity i = e"

section \<open>Nodes\<close>

definition get_node_type :: "node \<Rightarrow> node_type option" where
  "get_node_type n = (case versioned n of None \<Rightarrow> None | Some (V1 t) \<Rightarrow> t)"

definition as_exercise :: "node_type option \<Rightarrow> exercise option" where
  "as_exercise t = (case t of Some (Exercise e) \<Rightarrow> Some e | _ \<Rightarrow> None)"

definition as_create :: "node_type option \<Rightarrow> create option" where
  "as_create t = (case t of Some (Create c) \<Rightarrow> Some c | _ \<Rightarrow> None)"

fun find_exercise_by_choice :: "string \<Rightarrow> string list \<Rightarrow> nodes_dict \<Rightarrow> exercise option" where
  "find_exercise_by_choice choice [] d = None"
| "find_exercise_by_choice choice (i # ids) d =
     (case Option.bind (d i) (\<lambda>n. as_exercise (get_node_type n)) of
        Some ex \<Rightarrow> if e_choice_id ex = choice then Some ex else find_exercise_by_choice choice ids d
      | None \<Rightarrow> find_exercise_by_choice choice ids d)"

definition node_summary :: "daml_transaction \<Rightarrow> message" where
  "node_summary tx =
     (let ts = map get_node_type (nodes tx);
          ex = length (filter (\<lambda>t. case t of Some (Exercise _) \<Rightarrow> True | _ \<Rightarrow> False) ts);
          fe = length (filter (\<lambda>t. case t of Some (Fetch _) \<Rightarrow> True | _ \<Rightarrow> False) ts);
          cr = length (filter (\<lambda>t. case t of Some (Create _) \<Rightarrow> True | _ \<Rightarrow> False) ts)
      in [Num (int (length (nodes tx))), Lit '' nodes ('', Num (int ex), Lit '' exercise, '',
          Num (int fe), Lit '' fetch, '', Num (int cr), Lit '' create)''])"

section \<open>The root exercise\<close>

record tx_parts =
  tp_tx :: daml_transaction
  tp_submitter :: submitter_info
  tp_metadata :: metadata
  tp_dict :: nodes_dict
  tp_root :: exercise

definition extract_root_exercise :: "prepared_transaction \<Rightarrow> string \<Rightarrow> tx_parts check" where
  "extract_root_exercise p op =
     check_bind (require_some (p_transaction p) [Arg op, Lit '': missing transaction'']
                  [Lit ''PreparedTransaction missing transaction'']) (\<lambda>tx.
     check_bind (require_some (p_metadata p) [Arg op, Lit '': missing metadata'']
                  [Lit ''PreparedTransaction missing metadata'']) (\<lambda>md.
     check_bind (require_some (submitter md) [Arg op, Lit '': missing submitter_info'']
                  [Lit ''Metadata missing submitter_info'']) (\<lambda>sub.
     let d = build_nodes_dict tx in
     check_bind (require_some (first_of (roots tx)) [Arg op, Lit '': no root nodes'']
                  [Lit ''Transaction has no root nodes'']) (\<lambda>root_id.
     check_bind (require_some (d root_id) [Arg op, Lit '': root node not found'']
                  [Lit ''Root node not found in nodes dict'']) (\<lambda>root_node.
     check_bind (require_some (as_exercise (get_node_type root_node))
                  [Arg op, Lit '': root is not Exercise'']
                  [Lit ''Root node is not an Exercise node'']) (\<lambda>ex.
     go \<lparr>tp_tx = tx, tp_submitter = sub, tp_metadata = md, tp_dict = d, tp_root = ex\<rparr>))))))"

text \<open>
  The declarative reading: the exercise at the first root, looked up in the dictionary,
  and the parties the submission acts as.
\<close>

definition root_exercise :: "prepared_transaction \<Rightarrow> exercise option" where
  "root_exercise p =
     Option.bind (p_transaction p) (\<lambda>tx.
     Option.bind (first_of (roots tx)) (\<lambda>r.
     Option.bind (build_nodes_dict tx r) (\<lambda>n. as_exercise (get_node_type n))))"

definition submitted_by :: "prepared_transaction \<Rightarrow> submitter_info option" where
  "submitted_by p = Option.bind (p_metadata p) submitter"

lemma bind_Some_iff [simp]: "Option.bind x f = Some y \<longleftrightarrow> (\<exists>v. x = Some v \<and> f v = Some y)"
  by (cases x) auto

definition parts_of :: "prepared_transaction \<Rightarrow> tx_parts option" where
  "parts_of p =
     Option.bind (p_transaction p) (\<lambda>tx.
     Option.bind (p_metadata p) (\<lambda>md.
     Option.bind (submitter md) (\<lambda>sub.
     map_option (\<lambda>ex. \<lparr>tp_tx = tx, tp_submitter = sub, tp_metadata = md,
                       tp_dict = build_nodes_dict tx, tp_root = ex\<rparr>) (root_exercise p))))"

lemma goes_extract_root_exercise [flow_simps]:
  "goes (extract_root_exercise p op) q \<longleftrightarrow> parts_of p = Some q"
  by (auto simp: extract_root_exercise_def Let_def flow_simps parts_of_def root_exercise_def)

lemma parts_of_Some:
  "parts_of p = Some q \<longleftrightarrow> p_transaction p = Some (tp_tx q) \<and> p_metadata p = Some (tp_metadata q)
     \<and> submitter (tp_metadata q) = Some (tp_submitter q) \<and> root_exercise p = Some (tp_root q)
     \<and> tp_dict q = build_nodes_dict (tp_tx q)"
  by (cases q) (auto simp: parts_of_def)

lemma parts_of_iff:
  "(\<exists>q. parts_of p = Some q \<and> P q) \<longleftrightarrow>
   (\<exists>tx md sub ex. p_transaction p = Some tx \<and> p_metadata p = Some md \<and> submitter md = Some sub
     \<and> root_exercise p = Some ex
     \<and> P \<lparr>tp_tx = tx, tp_submitter = sub, tp_metadata = md, tp_dict = build_nodes_dict tx, tp_root = ex\<rparr>)"
  by (auto simp: parts_of_def)

lemma field_as_Some: "field_as f r l = Some x \<longleftrightarrow> (\<exists>v. get_record_field r l = Some v \<and> f v = Some x)"
  by (simp add: field_as_def)

lemma absent_or_field [flow_simps]:
  "absent_or (\<lambda>v. absent_or P (g v)) (get_record_field r l) \<longleftrightarrow> absent_or P (field_as g r l)"
  by (cases "get_record_field r l") (simp_all add: field_as_def)

lemma find_exercise_by_choice_Some:
  "find_exercise_by_choice choice ids d = Some ex \<Longrightarrow>
   e_choice_id ex = choice \<and> (\<exists>i \<in> set ids. \<exists>n. d i = Some n \<and> as_exercise (get_node_type n) = Some ex)"
  by (induction choice ids d rule: find_exercise_by_choice.induct)
    (auto split: option.splits if_splits)

lemma find_exercise_by_choice_None:
  "find_exercise_by_choice choice ids d = None \<longleftrightarrow>
   (\<forall>i \<in> set ids. \<forall>n ex. d i = Some n \<longrightarrow> as_exercise (get_node_type n) = Some ex
      \<longrightarrow> e_choice_id ex \<noteq> choice)"
  by (induction choice ids d rule: find_exercise_by_choice.induct)
    (auto split: option.splits if_splits)

end
