(* ===== verification/Inspect_Transfer.thy ===== *)
theory Inspect_Transfer
  imports Inspect_Flow
begin

text \<open>
  The inspections of the operations that move tokens: \<open>inspect_transfer_cc\<close>,
  \<open>inspect_accept_cip56\<close> and \<open>inspect_pay_fee\<close> of \<open>inspector.rs\<close>, each with the exact
  condition under which it accepts.
\<close>

section \<open>The shared opening\<close>

definition open_prepared :: "prepared_transaction \<Rightarrow> (daml_transaction \<times> submitter_info) check" where
  "open_prepared p =
     check_bind (demand (p_transaction p) ''PreparedTransaction missing transaction'') (\<lambda>tx.
     check_bind (demand (p_metadata p) ''PreparedTransaction missing metadata'') (\<lambda>md.
     check_bind (demand (submitter md) ''Metadata missing submitter_info'') (\<lambda>sub.
     go (tx, sub))))"

definition open_root :: "string \<Rightarrow> daml_transaction \<Rightarrow> nodes_dict \<Rightarrow> exercise check" where
  "open_root op tx d =
     check_bind (require_some (first_of (roots tx)) [Lit (op @ '': no root nodes'')]
                  [Lit ''Transaction has no root nodes'']) (\<lambda>root_id.
     check_bind (demand (d root_id) ''Root node not found in nodes dict'') (\<lambda>root_node.
     require_some (as_exercise (get_node_type root_node)) [Lit (op @ '': root is not Exercise'')]
       [Lit ''Root node is not an Exercise node'']))"

lemma goes_open_prepared [flow_simps]:
  "goes (open_prepared p) x \<longleftrightarrow>
   p_transaction p = Some (fst x) \<and> submitted_by p = Some (snd x)"
  by (cases x) (auto simp: open_prepared_def flow_simps submitted_by_def)

lemma goes_open_root:
  "p_transaction p = Some tx \<Longrightarrow>
   goes (open_root op tx (build_nodes_dict tx)) ex \<longleftrightarrow> root_exercise p = Some ex"
  by (auto simp: open_root_def flow_simps root_exercise_def)

text \<open>\<open>instrumentId.id\<close> of a transfer record.\<close>

definition instrument_id_of :: "drecord \<Rightarrow> string option" where
  "instrument_id_of transfer =
     Option.bind (field_as as_record transfer ''instrumentId'') (\<lambda>r. field_as get_text r ''id'')"

definition check_instrument :: "string \<Rightarrow> drecord \<Rightarrow> unit check" where
  "check_instrument op transfer = some_or (instrument_id_of transfer)
     (\<lambda>iid. require (iid = ''Amulet'') [Lit (op @ '': wrong instrument: ''), Arg iid]
        [Lit ''instrumentId.id='', Arg iid, Lit '', expected=Amulet''])
     (warn_if True [Lit ''Could not extract instrumentId.id''])"

lemma goes_check_instrument [flow_simps]:
  "goes (check_instrument op t) u \<longleftrightarrow> absent_or (\<lambda>v. v = ''Amulet'') (instrument_id_of t)"
  by (cases "instrument_id_of t") (auto simp: check_instrument_def flow_simps)

definition quoted :: "string \<Rightarrow> string" where
  "quoted s = [CHR 0x27] @ s @ [CHR 0x27]"

text \<open>The Unicode arrow of the summaries.\<close>

definition arrow :: string where
  "arrow = [CHR 0xE2, CHR 0x86, CHR 0x92]"

section \<open>TransferCc\<close>

definition transfer_cc_root :: "string \<Rightarrow> exercise \<Rightarrow> unit check" where
  "transfer_cc_root sender ex = steps [
     require (e_choice_id ex = ''TransferFactory_Transfer'')
       [Lit ''TransferCc: wrong choice_id: '', Arg (e_choice_id ex)]
       [Lit ''Expected choice_id=TransferFactory_Transfer, got='', Arg (e_choice_id ex)],
     some_or (e_template_id ex)
       (\<lambda>tid. warn_if (\<not> template_matches tid ''Splice.ExternalPartyAmuletRules'' ''ExternalPartyAmuletRules'')
          [Lit ''Unexpected template: '', Arg (id_module tid), Lit ''.'', Arg (id_entity tid),
           Lit '' (expected Splice.ExternalPartyAmuletRules)''])
       (reject [Lit ''TransferCc: root exercise missing template_id'']
          [Lit ''Root exercise missing template_id'']),
     require (sender \<in> set (e_acting_parties ex))
       [Lit ''TransferCc: sender not in acting_parties'']
       [Lit ''acting_parties '', Dbg (e_acting_parties ex), Lit '' does not contain sender '', Arg sender]]"

definition transfer_cc_fields :: "string \<Rightarrow> string \<Rightarrow> string \<Rightarrow> drecord \<Rightarrow> unit check" where
  "transfer_cc_fields sender receiver amount transfer = steps [
     when_some (get_record_field transfer ''sender'') (\<lambda>v. when_some (get_party v) (\<lambda>s.
       require (s = sender) [Lit ''TransferCc: wrong sender in transfer'']
         [Lit ''transfer.sender='', Arg s, Lit '', expected='', Arg sender])),
     some_or (get_record_field transfer ''receiver'')
       (\<lambda>v. when_some (get_party v) (\<lambda>r.
          require (r = receiver) [Lit ''TransferCc: wrong receiver in transfer'']
            [Lit ''transfer.receiver='', Arg r, Lit '', expected='', Arg receiver]))
       (reject [Lit ''TransferCc: missing receiver field'']
          [Lit (''transfer record missing '' @ quoted ''receiver'' @ '' field'')]),
     some_or (get_record_field transfer ''amount'')
       (\<lambda>v. when_some (get_numeric v) (\<lambda>a.
          require (numeric_eq a amount) [Lit ''TransferCc: wrong amount'']
            [Lit ''transfer.amount='', Arg a, Lit '', expected='', Arg amount]))
       (warn_if True [Lit ''Could not extract transfer.amount'']),
     check_instrument ''TransferCc'' transfer]"

definition transfer_cc_inner :: "nodes_dict \<Rightarrow> exercise \<Rightarrow> unit check" where
  "transfer_cc_inner d ex =
     (let send = find_exercise_by_choice ''TransferPreapproval_Send'' (e_children ex) d
      in steps [
        warn_if (send = None) [Lit ''TransferPreapproval_Send not found in root children''],
        when_some send (\<lambda>ps.
          warn_if (find_exercise_by_choice ''AmuletRules_Transfer'' (e_children ps) d = None)
            [Lit ''AmuletRules_Transfer not found in TransferPreapproval_Send children''])])"

definition inspect_transfer_cc ::
  "prepared_transaction \<Rightarrow> string \<Rightarrow> string \<Rightarrow> string \<Rightarrow> string \<Rightarrow> inspection_result result" where
  "inspect_transfer_cc p sender receiver amount cmd = finish (
     check_bind (open_prepared p) (\<lambda>(tx, sub).
     check_bind (steps [
       require (sender \<in> set (act_as sub)) [Lit ''TransferCc metadata check failed'']
         [Lit ''act_as '', Dbg (act_as sub), Lit '' does not contain sender_party '', Arg sender],
       warn_if (command_id sub \<noteq> cmd)
         [Lit ''command_id mismatch: expected='', Arg cmd, Lit '', got='', Arg (command_id sub)]]) (\<lambda>_.
     let d = build_nodes_dict tx in
     check_bind (open_root ''TransferCc'' tx d) (\<lambda>ex.
     check_bind (transfer_cc_root sender ex) (\<lambda>_.
     check_bind (demand (e_chosen_value ex) ''Root exercise missing chosen_value'') (\<lambda>chosen.
     check_bind (demand (as_record chosen) ''chosen_value is not a Record'') (\<lambda>chosen_record.
     check_bind (demand (get_record_field chosen_record ''transfer'')
                  (''chosen_value missing '' @ quoted ''transfer'')) (\<lambda>transfer_val.
     check_bind (demand (as_record transfer_val) (quoted ''transfer'' @ '' field is not a Record'')) (\<lambda>transfer.
     check_bind (transfer_cc_fields sender receiver amount transfer) (\<lambda>_.
     check_bind (transfer_cc_inner d ex) (\<lambda>_.
     go ([Lit ''TransferCc VERIFIED: '', Arg amount, Lit '' CC '', Arg (short sender 8),
          Lit ('' '' @ arrow @ '' ''), Arg (short receiver 8), Lit '' | ''] @ node_summary tx))))))))))))"

text \<open>A field of the transfer, when it is there and a party or a number, is the expected one.\<close>

definition transfer_of :: "exercise \<Rightarrow> drecord option" where
  "transfer_of ex = Option.bind (e_chosen_value ex) (\<lambda>v.
     Option.bind (as_record v) (\<lambda>r. field_as as_record r ''transfer''))"

definition transfer_cc_terms :: "string \<Rightarrow> string \<Rightarrow> string \<Rightarrow> drecord \<Rightarrow> bool" where
  "transfer_cc_terms sender receiver amount t \<longleftrightarrow>
     absent_or (\<lambda>v. v = sender) (field_as get_party t ''sender'')
     \<and> get_record_field t ''receiver'' \<noteq> None
     \<and> absent_or (\<lambda>v. v = receiver) (field_as get_party t ''receiver'')
     \<and> absent_or (\<lambda>a. numeric_eq a amount) (field_as get_numeric t ''amount'')
     \<and> absent_or (\<lambda>v. v = ''Amulet'') (instrument_id_of t)"

lemma goes_transfer_cc_fields [flow_simps]:
  "goes (transfer_cc_fields sender receiver amount t) u \<longleftrightarrow> transfer_cc_terms sender receiver amount t"
  unfolding transfer_cc_fields_def transfer_cc_terms_def
  by (simp add: flow_simps)

lemma goes_transfer_cc_inner [flow_simps]: "goes (transfer_cc_inner d ex) u"
  by (simp add: transfer_cc_inner_def flow_simps Let_def)

lemma goes_transfer_cc_root [flow_simps]:
  "goes (transfer_cc_root sender ex) u \<longleftrightarrow> e_choice_id ex = ''TransferFactory_Transfer''
     \<and> e_template_id ex \<noteq> None \<and> sender \<in> set (e_acting_parties ex)"
  by (auto simp: transfer_cc_root_def flow_simps split: option.splits)

lemma transfer_cc_accepts:
  "accepts (inspect_transfer_cc p sender receiver amount cmd) \<longleftrightarrow>
   (\<exists>tx sub ex t. p_transaction p = Some tx \<and> submitted_by p = Some sub
      \<and> root_exercise p = Some ex \<and> sender \<in> set (act_as sub)
      \<and> e_choice_id ex = ''TransferFactory_Transfer'' \<and> e_template_id ex \<noteq> None
      \<and> sender \<in> set (e_acting_parties ex)
      \<and> transfer_of ex = Some t \<and> transfer_cc_terms sender receiver amount t)"
  unfolding inspect_transfer_cc_def accepts_finish transfer_of_def
  by (auto simp: flow_simps goes_open_root Let_def field_as_Some)


section \<open>AcceptCip56\<close>

definition accept_cip56_root :: "string \<Rightarrow> string \<Rightarrow> exercise \<Rightarrow> unit check" where
  "accept_cip56_root receiver cid ex = steps [
     require (e_choice_id ex = ''TransferInstruction_Accept'')
       [Lit ''AcceptCip56: wrong choice_id: '', Arg (e_choice_id ex)]
       [Lit ''Expected choice_id=TransferInstruction_Accept, got='', Arg (e_choice_id ex)],
     require (e_contract_id ex = cid) [Lit ''AcceptCip56: wrong contract_id'']
       [Lit ''contract_id='', Arg (e_contract_id ex), Lit '', expected='', Arg cid],
     require (receiver \<in> set (e_acting_parties ex))
       [Lit ''AcceptCip56: receiver not in acting_parties'']
       [Lit ''acting_parties '', Dbg (e_acting_parties ex), Lit '' does not contain receiver '', Arg receiver],
     some_or (e_interface_id ex)
       (\<lambda>iface. warn_if (\<not> template_matches iface ''Splice.Api.Token.TransferInstructionV1'' ''TransferInstruction'')
          [Lit ''Unexpected interface_id: '', Arg (id_module iface), Lit ''.'', Arg (id_entity iface),
           Lit '' (expected Splice.Api.Token.TransferInstructionV1.TransferInstruction)''])
       (warn_if True [Lit ''Root exercise missing interface_id'']),
     require (e_consuming ex) [Lit ''AcceptCip56: exercise is not consuming'']
       [Lit ''Root exercise must be consuming (TransferOffer is consumed on accept)'']]"

text \<open>The search for \<open>TransferRule_Transfer\<close> one level below the children, each child once.\<close>

definition has_rule :: "nodes_dict \<Rightarrow> string \<Rightarrow> bool" where
  "has_rule d i = (case Option.bind (d i) (\<lambda>n. as_exercise (get_node_type n)) of
     Some ex \<Rightarrow> find_exercise_by_choice ''TransferRule_Transfer'' (e_children ex) d \<noteq> None
   | None \<Rightarrow> False)"

fun rule_below :: "nodes_dict \<Rightarrow> string list \<Rightarrow> string list \<Rightarrow> bool" where
  "rule_below d visited [] = False"
| "rule_below d visited (i # ids) =
     (if i \<in> set visited then rule_below d visited ids
      else if has_rule d i then True
      else rule_below d (i # visited) ids)"

definition holding_for :: "string \<Rightarrow> node \<Rightarrow> bool" where
  "holding_for receiver n =
     (case as_create (get_node_type n) of
        None \<Rightarrow> False
      | Some c \<Rightarrow> (case c_template_id c of
          None \<Rightarrow> False
        | Some tid \<Rightarrow> id_entity tid = ''Holding''
            \<and> Option.bind (c_argument c) (\<lambda>a. Option.bind (as_record a) (\<lambda>r. field_as get_party r ''owner''))
                = Some receiver))"

definition accept_cip56_inner :: "string \<Rightarrow> daml_transaction \<Rightarrow> nodes_dict \<Rightarrow> exercise \<Rightarrow> unit check" where
  "accept_cip56_inner receiver tx d ex = steps [
     warn_if (find_exercise_by_choice ''TransferRule_Transfer'' (e_children ex) d = None
              \<and> \<not> rule_below d [] (e_children ex))
       [Lit ''TransferRule_Transfer not found in exercise tree''],
     warn_if (\<not> list_ex (holding_for receiver) (nodes tx))
       [Lit ''No Holding Create found with owner=receiver_party'']]"

definition inspect_accept_cip56 ::
  "prepared_transaction \<Rightarrow> string \<Rightarrow> string \<Rightarrow> inspection_result result" where
  "inspect_accept_cip56 p receiver cid = finish (
     check_bind (open_prepared p) (\<lambda>(tx, sub).
     check_bind (require (receiver \<in> set (act_as sub)) [Lit ''AcceptCip56 metadata check failed'']
       [Lit ''act_as '', Dbg (act_as sub), Lit '' does not contain receiver_party '', Arg receiver]) (\<lambda>_.
     let d = build_nodes_dict tx in
     check_bind (open_root ''AcceptCip56'' tx d) (\<lambda>ex.
     check_bind (accept_cip56_root receiver cid ex) (\<lambda>_.
     check_bind (accept_cip56_inner receiver tx d ex) (\<lambda>_.
     go ([Lit ''AcceptCip56 VERIFIED: receiver '', Arg receiver, Lit '' accepts TransferOffer '',
          Arg cid, Lit '' | ''] @ node_summary tx)))))))"

lemma goes_accept_cip56_root [flow_simps]:
  "goes (accept_cip56_root receiver cid ex) u \<longleftrightarrow> e_choice_id ex = ''TransferInstruction_Accept''
     \<and> e_contract_id ex = cid \<and> receiver \<in> set (e_acting_parties ex) \<and> e_consuming ex"
  by (auto simp: accept_cip56_root_def flow_simps)

lemma goes_accept_cip56_inner [flow_simps]: "goes (accept_cip56_inner receiver tx d ex) u"
  by (simp add: accept_cip56_inner_def flow_simps)

lemma accept_cip56_accepts:
  "accepts (inspect_accept_cip56 p receiver cid) \<longleftrightarrow>
   (\<exists>sub ex. submitted_by p = Some sub \<and> root_exercise p = Some ex
      \<and> receiver \<in> set (act_as sub) \<and> e_choice_id ex = ''TransferInstruction_Accept''
      \<and> e_contract_id ex = cid \<and> receiver \<in> set (e_acting_parties ex) \<and> e_consuming ex)"
proof -
  have "root_exercise p = Some ex \<Longrightarrow> \<exists>tx. p_transaction p = Some tx" for ex
    by (auto simp: root_exercise_def)
  then show ?thesis
    unfolding inspect_accept_cip56_def accepts_finish
    by (auto simp: flow_simps goes_open_root Let_def)
qed

lemma rule_below_iff: "rule_below d visited ids \<longleftrightarrow> (\<exists>i \<in> set ids - set visited. has_rule d i)"
  by (induction d visited ids rule: rule_below.induct) auto

text \<open>Visiting each child once does not change what the search finds.\<close>

lemma rule_below_all: "rule_below d [] ids \<longleftrightarrow> (\<exists>i \<in> set ids. has_rule d i)"
  by (simp add: rule_below_iff)

section \<open>PayFee\<close>

definition pay_fee_transfer :: "string \<Rightarrow> drecord \<Rightarrow> unit check" where
  "pay_fee_transfer fee_party transfer = steps [
     some_or (get_record_field transfer ''receiver'')
       (\<lambda>v. when_some (get_party v) (\<lambda>r.
          require (r = fee_party) [Lit ''PayFee: wrong receiver'']
            [Lit ''transfer.receiver='', Arg r, Lit '', expected fee_party='', Arg fee_party]))
       (warn_if True [Lit ''Could not extract transfer.receiver'']),
     check_instrument ''PayFee'' transfer]"

definition inspect_pay_fee ::
  "prepared_transaction \<Rightarrow> string \<Rightarrow> string \<Rightarrow> string \<Rightarrow> string \<Rightarrow> inspection_result result" where
  "inspect_pay_fee p sender fee_party proposal_id fee_type = finish (
     check_bind (extract_root_exercise p ''PayFee'') (\<lambda>parts.
     let sub = tp_submitter parts; ex = tp_root parts;
         expected_prefix = ''fee-'' @ fee_type @ ''-'' in
     check_bind (steps [
       require (sender \<in> set (act_as sub)) [Lit ''PayFee: sender not in act_as'']
         [Lit ''act_as '', Dbg (act_as sub), Lit '' does not contain sender_party '', Arg sender],
       warn_if (\<not> starts_with (command_id sub) expected_prefix)
         [Lit ''command_id '', Arg (command_id sub), Lit '' does not start with expected prefix '',
          Arg expected_prefix],
       warn_if (\<not> ends_with (command_id sub) proposal_id)
         [Lit ''command_id '', Arg (command_id sub), Lit '' does not end with proposal_id '', Arg proposal_id],
       require (e_choice_id ex = ''TransferFactory_Transfer'')
         [Lit ''PayFee: wrong choice_id: '', Arg (e_choice_id ex)]
         [Lit ''Expected choice_id=TransferFactory_Transfer, got='', Arg (e_choice_id ex)],
       when_some (e_template_id ex) (\<lambda>tid.
         warn_if (\<not> template_matches tid ''Splice.ExternalPartyAmuletRules'' ''ExternalPartyAmuletRules'')
           [Lit ''Unexpected template: '', Arg (id_module tid), Lit ''.'', Arg (id_entity tid)]),
       require (sender \<in> set (e_acting_parties ex)) [Lit ''PayFee: sender not in acting_parties'']
         [Lit ''acting_parties '', Dbg (e_acting_parties ex), Lit '' does not contain sender '', Arg sender],
       some_or (Option.bind (e_chosen_value ex) as_record)
         (\<lambda>cr. some_or (field_as as_record cr ''transfer'')
            (pay_fee_transfer fee_party)
            (warn_if True [Lit (''Could not extract '' @ quoted ''transfer'' @ '' from chosen_value'')]))
         (warn_if True [Lit ''Could not parse chosen_value as Record''])]) (\<lambda>_.
     go ([Lit ''PayFee('', Arg fee_type, Lit '') VERIFIED: '', Arg (short sender 8),
          Lit '' pays fee to '', Arg (short fee_party 8), Lit '' for '', Arg proposal_id, Lit '' | '']
          @ node_summary (tp_tx parts)))))"

lemma goes_pay_fee_transfer [flow_simps]:
  "goes (pay_fee_transfer fee_party t) u \<longleftrightarrow>
     absent_or (\<lambda>v. v = fee_party) (field_as get_party t ''receiver'')
     \<and> absent_or (\<lambda>v. v = ''Amulet'') (instrument_id_of t)"
  by (simp add: pay_fee_transfer_def flow_simps)

lemma pay_fee_accepts:
  "accepts (inspect_pay_fee p sender fee_party proposal_id fee_type) \<longleftrightarrow>
   (\<exists>sub ex. submitted_by p = Some sub \<and> root_exercise p = Some ex
      \<and> sender \<in> set (act_as sub) \<and> e_choice_id ex = ''TransferFactory_Transfer''
      \<and> sender \<in> set (e_acting_parties ex)
      \<and> (\<forall>t. transfer_of ex = Some t \<longrightarrow>
           absent_or (\<lambda>v. v = fee_party) (field_as get_party t ''receiver'')
           \<and> absent_or (\<lambda>v. v = ''Amulet'') (instrument_id_of t)))"
proof -
  have tx: "root_exercise p = Some ex \<Longrightarrow> \<exists>tx. p_transaction p = Some tx" for ex
    by (auto simp: root_exercise_def)
  have t: "transfer_of ex = Option.bind (Option.bind (e_chosen_value ex) as_record) (\<lambda>r. field_as as_record r ''transfer'')"
    for ex by (simp add: transfer_of_def)
  show ?thesis
    unfolding inspect_pay_fee_def accepts_finish t submitted_by_def
    by (auto simp: flow_simps Let_def parts_of_iff absent_or_iff dest: tx)
qed

end
