(* ===== verification/Inspect_Create.thy ===== *)
theory Inspect_Create
  imports Inspect_Transfer
begin

text \<open>
  The inspections of the requests: the three that create one contract
  (\<open>inspect_request_user_service\<close>, \<open>inspect_request_preapproval\<close>,
  \<open>inspect_recurring_payasyougo\<close>) and \<open>inspect_recurring_prepaid\<close>. The create
  inspections look the root up with \<open>nodes.iter().find\<close>, so they take the first node of
  that id, where the hasher's dictionary keeps the last.
\<close>

section \<open>The single create node\<close>

definition find_node :: "daml_transaction \<Rightarrow> string \<Rightarrow> node option" where
  "find_node tx i = find (\<lambda>n. node_id n = i) (nodes tx)"

definition open_create :: "string \<Rightarrow> string \<Rightarrow> daml_transaction \<Rightarrow> submitter_info \<Rightarrow> create check" where
  "open_create op party tx sub =
     check_bind (require (party \<in> set (act_as sub)) [Lit (op @ '': party not in act_as'')]
       [Lit ''act_as '', Dbg (act_as sub), Lit '' does not contain party '', Arg party]) (\<lambda>_.
     check_bind (require_some (case roots tx of [r] \<Rightarrow> Some r | _ \<Rightarrow> None)
       [Lit (op @ '': expected 1 root, got ''), Num (int (length (roots tx)))]
       [Lit ''Expected 1 root node, got '', Num (int (length (roots tx)))]) (\<lambda>root_id.
     check_bind (warn_if (length (nodes tx) \<noteq> 1)
       [Lit ''Expected 1 node, got '', Num (int (length (nodes tx)))]) (\<lambda>_.
     check_bind (demand (find_node tx root_id) ''Root node not found'') (\<lambda>root_node.
     require_some (as_create (get_node_type root_node))
       [Lit (op @ '': root is not a Create node'')] [Lit ''Root node must be a Create node'']))))"

definition create_record :: "create \<Rightarrow> drecord check" where
  "create_record c =
     check_bind (demand (c_argument c) ''Create node missing argument'') (\<lambda>arg.
     demand (as_record arg) ''Create argument is not a Record'')"

definition check_template :: "string \<Rightarrow> string \<Rightarrow> (daml_id \<Rightarrow> bool) \<Rightarrow> create \<Rightarrow> daml_id check" where
  "check_template op name ok c =
     check_bind (demand (c_template_id c) ''Create node missing template_id'') (\<lambda>tid.
     check_bind (require (ok tid)
       [Lit (op @ '': wrong template ''), Arg (id_module tid), Lit ''.'', Arg (id_entity tid)]
       [Lit (''Expected '' @ name @ '' template, got ''), Arg (id_module tid), Lit ''.'', Arg (id_entity tid)]) (\<lambda>_.
     go tid))"

definition unwrap_or :: "string option \<Rightarrow> string \<Rightarrow> string" where
  "unwrap_or x s = (case x of None \<Rightarrow> s | Some v \<Rightarrow> v)"

definition check_party_field ::
  "string \<Rightarrow> string \<Rightarrow> string \<Rightarrow> string \<Rightarrow> drecord \<Rightarrow> unit check" where
  "check_party_field op field what party r =
     require (field_as get_party r field = Some party)
       [Lit (op @ '': '' @ field @ '' field does not match '' @ what)]
       [Lit (field @ ''=''), Arg (unwrap_or (field_as get_party r field) ''<missing>''),
        Lit '', expected='', Arg party]"

definition check_signatory :: "string \<Rightarrow> string \<Rightarrow> create \<Rightarrow> unit check" where
  "check_signatory op party c =
     require (party \<in> set (c_signatories c)) [Lit (op @ '': party not in signatories'')]
       [Lit ''signatories '', Dbg (c_signatories c), Lit '' does not contain party '', Arg party]"

definition check_daily_amount :: "string \<Rightarrow> drecord \<Rightarrow> unit check" where
  "check_daily_amount amount r = some_or (field_as get_numeric r ''amountPerDayUsd'')
     (\<lambda>a. warn_if (\<not> numeric_eq a amount)
        [Lit ''amountPerDayUsd mismatch: tx='', Arg a, Lit '', expected='', Arg amount])
     (warn_if True [Lit ''amountPerDayUsd field missing or not numeric''])"

section \<open>The three create inspections\<close>

definition inspect_request_user_service ::
  "prepared_transaction \<Rightarrow> string \<Rightarrow> inspection_result result" where
  "inspect_request_user_service p party = finish (
     check_bind (open_prepared p) (\<lambda>(tx, sub).
     check_bind (open_create ''RequestUserService'' party tx sub) (\<lambda>c.
     check_bind (check_template ''RequestUserService'' ''UserServiceRequest''
       (\<lambda>t. template_matches t ''Utility.Settlement.App.V1.Service.User'' ''UserServiceRequest'') c) (\<lambda>tid.
     check_bind (create_record c) (\<lambda>r.
     check_bind (steps [
       check_party_field ''RequestUserService'' ''user'' ''party'' party r,
       check_signatory ''RequestUserService'' party c]) (\<lambda>_.
     go [Lit ''RequestUserService VERIFIED: user '', Arg party, Lit '' requests service from operator '',
         Arg (unwrap_or (field_as get_party r ''operator'') ''<unknown>''), Lit '' | 1 Create node'']))))))"

definition inspect_request_preapproval ::
  "prepared_transaction \<Rightarrow> string \<Rightarrow> inspection_result result" where
  "inspect_request_preapproval p party = finish (
     let is_cip56 = (\<lambda>t. template_matches t ''Utility.Registry.App.V0.Model.TransferPreapproval'' ''TransferPreapproval'');
         is_splice = (\<lambda>t. template_matches t ''Splice.Wallet.TransferPreapproval'' ''TransferPreapprovalProposal'') in
     check_bind (open_prepared p) (\<lambda>(tx, sub).
     check_bind (open_create ''RequestPreapproval'' party tx sub) (\<lambda>c.
     check_bind (check_template ''RequestPreapproval'' ''TransferPreapproval''
       (\<lambda>t. is_cip56 t \<or> is_splice t) c) (\<lambda>tid.
     check_bind (create_record c) (\<lambda>r.
     check_bind (steps [
       check_party_field ''RequestPreapproval'' ''receiver'' ''party'' party r,
       check_signatory ''RequestPreapproval'' party c]) (\<lambda>_.
     let provider = (case get_record_field r ''provider'' of
           Some v \<Rightarrow> Some v | None \<Rightarrow> get_record_field r ''operator'') in
     go [Lit ''RequestPreapproval VERIFIED ('', Arg (if is_cip56 tid then ''CIP-56'' else ''Splice''),
         Lit ''): receiver '', Arg party, Lit '' preapproval with '',
         Arg (unwrap_or (Option.bind provider get_party) ''<unknown>''), Lit '' | 1 Create node'']))))))"

definition inspect_recurring_payasyougo ::
  "prepared_transaction \<Rightarrow> string \<Rightarrow> string \<Rightarrow> string \<Rightarrow> inspection_result result" where
  "inspect_recurring_payasyougo p party app_party amount = finish (
     let op_name = ''RequestRecurringPayasyougo'' in
     check_bind (open_prepared p) (\<lambda>(tx, sub).
     check_bind (open_create op_name party tx sub) (\<lambda>c.
     check_bind (check_template op_name ''RecurringPaymentRequest''
       (\<lambda>t. template_matches t ''RecurringPaymentRequest'' ''RecurringPaymentRequest'') c) (\<lambda>tid.
     check_bind (create_record c) (\<lambda>r.
     check_bind (steps [
       check_party_field op_name ''user'' ''party'' party r,
       check_party_field op_name ''app'' ''app_party'' app_party r,
       check_daily_amount amount r,
       check_signatory op_name party c]) (\<lambda>_.
     go [Lit (op_name @ '' VERIFIED: user ''), Arg (short party 16), Lit '' requests from app '',
         Arg (short app_party 16), Lit '', amount='',
         Arg (unwrap_or (field_as get_numeric r ''amountPerDayUsd'') amount), Lit ''/day | 1 Create node'']))))))"

section \<open>RequestRecurringPrepaid\<close>

definition inspect_recurring_prepaid ::
  "prepared_transaction \<Rightarrow> string \<Rightarrow> string \<Rightarrow> string \<Rightarrow> inspection_result result" where
  "inspect_recurring_prepaid p party app_party amount = finish (
     let op_name = ''RequestRecurringPrepaid'' in
     check_bind (extract_root_exercise p op_name) (\<lambda>parts.
     let sub = tp_submitter parts; ex = tp_root parts in
     check_bind (steps [
       require (party \<in> set (act_as sub)) [Lit (op_name @ '': party not in act_as'')]
         [Lit ''act_as '', Dbg (act_as sub), Lit '' does not contain party '', Arg party],
       require (e_choice_id ex = ''RecurringPaymentAppService_LockFundsForRequest'')
         [Lit (op_name @ '': wrong choice_id: ''), Arg (e_choice_id ex)]
         [Lit ''Expected choice_id=RecurringPaymentAppService_LockFundsForRequest, got='', Arg (e_choice_id ex)],
       when_some (e_template_id ex) (\<lambda>tid.
         warn_if (\<not> template_matches tid ''RecurringPaymentAppService'' ''RecurringPaymentAppService'')
           [Lit ''Unexpected template: '', Arg (id_module tid), Lit ''.'', Arg (id_entity tid)]),
       require (party \<in> set (e_acting_parties ex)) [Lit (op_name @ '': party not in acting_parties'')]
         [Lit ''acting_parties '', Dbg (e_acting_parties ex), Lit '' does not contain party '', Arg party],
       some_or (Option.bind (e_chosen_value ex) as_record)
         (\<lambda>cr. steps [check_party_field op_name ''user'' ''party'' party cr,
                      check_daily_amount amount cr])
         (warn_if True [Lit ''Could not parse chosen_value as Record'']),
       warn_if (app_party \<notin> set (e_signatories ex))
         [Lit ''signatories '', Dbg (e_signatories ex), Lit '' does not contain app_party '', Arg app_party]]) (\<lambda>_.
     go ([Lit (op_name @ '' VERIFIED: user ''), Arg (short party 16), Lit '' requests from app '',
          Arg (short app_party 16), Lit '', amount='', Arg amount, Lit ''/day | ''] @ node_summary (tp_tx parts)))))"

section \<open>When they accept\<close>

text \<open>The create node that the inspections look at.\<close>

definition root_create :: "prepared_transaction \<Rightarrow> create option" where
  "root_create p =
     Option.bind (p_transaction p) (\<lambda>tx.
     Option.bind (case roots tx of [r] \<Rightarrow> Some r | _ \<Rightarrow> None) (\<lambda>r.
     Option.bind (find_node tx r) (\<lambda>n. as_create (get_node_type n))))"

definition created_record :: "create \<Rightarrow> drecord option" where
  "created_record c = Option.bind (c_argument c) as_record"

lemma goes_open_create:
  "p_transaction p = Some tx \<Longrightarrow>
   goes (open_create op party tx sub) c \<longleftrightarrow> party \<in> set (act_as sub) \<and> root_create p = Some c"
  by (simp add: open_create_def flow_simps root_create_def)

lemma goes_create_record [flow_simps]: "goes (create_record c) r \<longleftrightarrow> created_record c = Some r"
  by (simp add: create_record_def flow_simps created_record_def)

lemma goes_check_template [flow_simps]:
  "goes (check_template op name ok c) tid \<longleftrightarrow> c_template_id c = Some tid \<and> ok tid"
  by (auto simp: check_template_def flow_simps)

lemma goes_check_party_field [flow_simps]:
  "goes (check_party_field op field what party r) u \<longleftrightarrow> field_as get_party r field = Some party"
  by (simp add: check_party_field_def flow_simps)

lemma goes_check_signatory [flow_simps]:
  "goes (check_signatory op party c) u \<longleftrightarrow> party \<in> set (c_signatories c)"
  by (simp add: check_signatory_def flow_simps)

lemma goes_check_daily_amount [flow_simps]: "goes (check_daily_amount amount r) u"
  by (simp add: check_daily_amount_def flow_simps)

lemma root_create_None [simp]: "p_transaction p = None \<Longrightarrow> root_create p = None"
  by (simp add: root_create_def)

definition creates_for ::
  "prepared_transaction \<Rightarrow> string \<Rightarrow> (daml_id \<Rightarrow> bool) \<Rightarrow> (string \<times> string) list \<Rightarrow> bool" where
  "creates_for p party ok parties \<longleftrightarrow>
     (\<exists>sub c tid r. submitted_by p = Some sub \<and> party \<in> set (act_as sub)
        \<and> root_create p = Some c \<and> c_template_id c = Some tid \<and> ok tid
        \<and> created_record c = Some r
        \<and> (\<forall>(l, q) \<in> set parties. field_as get_party r l = Some q)
        \<and> party \<in> set (c_signatories c))"

lemmas create_flow = flow_simps goes_open_create Let_def creates_for_def

lemma user_service_accepts:
  "accepts (inspect_request_user_service p party) \<longleftrightarrow>
   creates_for p party
     (\<lambda>t. template_matches t ''Utility.Settlement.App.V1.Service.User'' ''UserServiceRequest'')
     [(''user'', party)]"
  unfolding inspect_request_user_service_def accepts_finish
  by (cases "p_transaction p") (auto simp: create_flow)

lemma preapproval_accepts:
  "accepts (inspect_request_preapproval p party) \<longleftrightarrow>
   creates_for p party
     (\<lambda>t. template_matches t ''Utility.Registry.App.V0.Model.TransferPreapproval'' ''TransferPreapproval''
        \<or> template_matches t ''Splice.Wallet.TransferPreapproval'' ''TransferPreapprovalProposal'')
     [(''receiver'', party)]"
  unfolding inspect_request_preapproval_def Let_def accepts_finish
  by (cases "p_transaction p") (auto simp: create_flow)

lemma payasyougo_accepts:
  "accepts (inspect_recurring_payasyougo p party app_party amount) \<longleftrightarrow>
   creates_for p party
     (\<lambda>t. template_matches t ''RecurringPaymentRequest'' ''RecurringPaymentRequest'')
     [(''user'', party), (''app'', app_party)]"
  unfolding inspect_recurring_payasyougo_def Let_def accepts_finish
  by (cases "p_transaction p") (auto simp: create_flow)

lemma prepaid_accepts:
  "accepts (inspect_recurring_prepaid p party app_party amount) \<longleftrightarrow>
   (\<exists>sub ex. submitted_by p = Some sub \<and> root_exercise p = Some ex
      \<and> party \<in> set (act_as sub) \<and> e_choice_id ex = ''RecurringPaymentAppService_LockFundsForRequest''
      \<and> party \<in> set (e_acting_parties ex)
      \<and> absent_or (\<lambda>r. field_as get_party r ''user'' = Some party)
          (Option.bind (e_chosen_value ex) as_record))"
proof -
  have tx: "root_exercise p = Some ex \<Longrightarrow> \<exists>tx. p_transaction p = Some tx" for ex
    by (auto simp: root_exercise_def)
  show ?thesis
    unfolding inspect_recurring_prepaid_def Let_def accepts_finish submitted_by_def
    by (auto simp: flow_simps Let_def parts_of_iff dest: tx)
qed

text \<open>With distinct node ids, the node inspected is the one the hasher encodes.\<close>

lemma find_node_eq_dict:
  assumes "distinct (map node_id (nodes tx))"
  shows "find_node tx i = build_nodes_dict tx i"
proof (cases "find_node tx i")
  case None
  then have "\<forall>n \<in> set (nodes tx). node_id n \<noteq> i"
    by (simp add: find_node_def find_None_iff)
  then show ?thesis
    using None build_nodes_dict_SomeD [of tx i] by (cases "build_nodes_dict tx i") auto
next
  case (Some n)
  then have "n \<in> set (nodes tx)" "node_id n = i"
    by (auto simp: find_node_def find_Some_iff)
  then show ?thesis using build_nodes_dict_unique [OF assms] Some by auto
qed

end
