(* ===== verification/Inspect_Dvp.thy ===== *)
theory Inspect_Dvp
  imports Inspect_Transfer
begin

text \<open>
  The inspections of the settlement steps: \<open>inspect_propose_dvp\<close>,
  \<open>inspect_dvp_proposal_gc\<close> (cancel and reject), \<open>inspect_accept_dvp\<close>, whose terms are
  checked on the disclosed proposal among the input contracts, and \<open>inspect_allocate\<close>.
\<close>

section \<open>Checks the settlement inspections share\<close>

definition check_acts :: "string \<Rightarrow> string \<Rightarrow> string \<Rightarrow> string \<Rightarrow> submitter_info \<Rightarrow> unit check" where
  "check_acts op who named party sub =
     require (party \<in> set (act_as sub)) [Arg op, Lit ('': '' @ who @ '' not in act_as'')]
       [Lit ''act_as '', Dbg (act_as sub), Lit ('' does not contain '' @ named @ '' ''), Arg party]"

definition check_acting :: "string \<Rightarrow> string \<Rightarrow> string \<Rightarrow> exercise \<Rightarrow> unit check" where
  "check_acting op who party ex =
     require (party \<in> set (e_acting_parties ex)) [Arg op, Lit ('': '' @ who @ '' not in acting_parties'')]
       [Lit ''acting_parties '', Dbg (e_acting_parties ex), Lit ('' does not contain '' @ who @ '' ''), Arg party]"

definition check_choice :: "string \<Rightarrow> string \<Rightarrow> exercise \<Rightarrow> unit check" where
  "check_choice op choice ex =
     require (e_choice_id ex = choice) [Arg op, Lit '': wrong choice_id: '', Arg (e_choice_id ex)]
       [Lit ''Expected choice_id='', Arg choice, Lit '', got='', Arg (e_choice_id ex)]"

definition check_command :: "string \<Rightarrow> submitter_info \<Rightarrow> unit check" where
  "check_command cmd sub = warn_if (command_id sub \<noteq> cmd)
     [Lit ''command_id mismatch: expected='', Arg cmd, Lit '', got='', Arg (command_id sub)]"

definition check_root_template :: "string \<Rightarrow> string \<Rightarrow> string \<Rightarrow> exercise \<Rightarrow> unit check" where
  "check_root_template op m e ex = when_some (e_template_id ex) (\<lambda>tid.
     require (template_matches tid m e)
       [Arg op, Lit '': wrong template: '', Arg (id_module tid), Lit ''.'', Arg (id_entity tid)]
       [Lit (''Expected '' @ e @ '' template, got ''), Arg (id_module tid), Lit ''.'', Arg (id_entity tid)])"

lemma goes_shared_checks [flow_simps]:
  "goes (check_acts op who named party sub) u \<longleftrightarrow> party \<in> set (act_as sub)"
  "goes (check_acting op who party ex) u \<longleftrightarrow> party \<in> set (e_acting_parties ex)"
  "goes (check_choice op choice ex) u \<longleftrightarrow> e_choice_id ex = choice"
  "goes (check_command cmd sub) u"
  "goes (check_root_template op m e ex) u \<longleftrightarrow> absent_or (\<lambda>t. template_matches t m e) (e_template_id ex)"
  by (simp_all add: check_acts_def check_acting_def check_choice_def check_command_def
      check_root_template_def flow_simps)

text \<open>\<open>terms.id\<close> of a record.\<close>

definition terms_id :: "drecord \<Rightarrow> string option" where
  "terms_id r = Option.bind (field_as as_record r ''terms'') (\<lambda>t. field_as get_text t ''id'')"

definition dvp_module :: string where
  "dvp_module = ''Utility.Settlement.App.V1.Model.Dvp''"

definition user_module :: string where
  "user_module = ''Utility.Settlement.App.V1.Service.User''"

section \<open>ProposeDvp\<close>

definition proposal_create :: "nodes_dict \<Rightarrow> string \<Rightarrow> create option" where
  "proposal_create d i =
     (case Option.bind (d i) (\<lambda>n. as_create (get_node_type n)) of
        Some c \<Rightarrow> (case c_template_id c of
            Some tid \<Rightarrow> if template_matches tid dvp_module ''DvpProposal'' then Some c else None
          | None \<Rightarrow> None)
      | None \<Rightarrow> None)"

text \<open>The loop over the children; the value is \<open>dvp_proposal_created\<close>.\<close>

fun proposed_children :: "string \<Rightarrow> nodes_dict \<Rightarrow> string list \<Rightarrow> bool \<Rightarrow> bool check" where
  "proposed_children proposal_id d [] created = go created"
| "proposed_children proposal_id d (i # ids) created =
     (case proposal_create d i of
        None \<Rightarrow> proposed_children proposal_id d ids created
      | Some c \<Rightarrow>
          check_bind (when_some (Option.bind (Option.bind (c_argument c) as_record) terms_id) (\<lambda>cid.
            require (cid = proposal_id) [Lit ''ProposeDvp: created DvpProposal has wrong terms.id'']
              [Lit ''DvpProposal.terms.id='', Arg cid, Lit '', expected='', Arg proposal_id])) (\<lambda>_.
          proposed_children proposal_id d ids True))"

definition inspect_propose_dvp ::
  "prepared_transaction \<Rightarrow> string \<Rightarrow> string \<Rightarrow> string \<Rightarrow> inspection_result result" where
  "inspect_propose_dvp p buyer proposal_id sync_id = finish (
     check_bind (extract_root_exercise p ''ProposeDvp'') (\<lambda>parts.
     let sub = tp_submitter parts; ex = tp_root parts in
     check_bind (steps [
       check_acts ''ProposeDvp'' ''buyer'' ''buyer_party'' buyer sub,
       warn_if (sync_id \<noteq> [] \<and> synchronizer_id (tp_metadata parts) \<noteq> sync_id)
         [Lit ''synchronizer_id mismatch: expected='', Arg sync_id, Lit '', got='',
          Arg (synchronizer_id (tp_metadata parts))],
       check_command (''dvp-propose-'' @ proposal_id) sub,
       check_choice ''ProposeDvp'' ''UserService_ProposeDvp'' ex,
       check_root_template ''ProposeDvp'' user_module ''UserService'' ex,
       check_acting ''ProposeDvp'' ''buyer'' buyer ex,
       when_some (e_chosen_value ex) (\<lambda>chosen. when_some (as_record chosen) (\<lambda>cr.
         some_or (terms_id cr)
           (\<lambda>tid. require (tid = proposal_id) [Lit ''ProposeDvp: wrong terms.id'']
              [Lit ''chosen_value.terms.id='', Arg tid, Lit '', expected='', Arg proposal_id])
           (warn_if True [Lit ''Could not extract chosen_value.terms.id''])))]) (\<lambda>_.
     check_bind (proposed_children proposal_id (tp_dict parts) (e_children ex) False) (\<lambda>created.
     check_bind (warn_if (\<not> created) [Lit ''No DvpProposal Create node found in children'']) (\<lambda>_.
     go ([Lit ''ProposeDvp VERIFIED: buyer '', Arg (short buyer 8), Lit '' proposes '', Arg proposal_id,
          Lit '' | ''] @ node_summary (tp_tx parts)))))))"

text \<open>The id that a created proposal carries.\<close>

definition created_terms_id :: "create \<Rightarrow> string option" where
  "created_terms_id c = Option.bind (Option.bind (c_argument c) as_record) terms_id"

lemma passes_proposed_children:
  "(\<exists>b. goes (proposed_children proposal_id d ids created) b) \<longleftrightarrow>
   (\<forall>i \<in> set ids. absent_or (\<lambda>c. absent_or (\<lambda>t. t = proposal_id) (created_terms_id c)) (proposal_create d i))"
  by (induction proposal_id d ids created rule: proposed_children.induct)
    (auto simp: flow_simps created_terms_id_def split: option.splits)

text \<open>\<open>terms.id\<close> of the choice argument.\<close>

definition chosen_terms_id :: "exercise \<Rightarrow> string option" where
  "chosen_terms_id ex = Option.bind (Option.bind (e_chosen_value ex) as_record) terms_id"

lemma absent_or_bind: "absent_or P (Option.bind x f) \<longleftrightarrow> absent_or (\<lambda>v. absent_or P (f v)) x"
  by (cases x) simp_all

lemma root_exercise_None [simp]: "p_transaction p = None \<Longrightarrow> root_exercise p = None"
  by (simp add: root_exercise_def)

lemma propose_dvp_accepts:
  "accepts (inspect_propose_dvp p buyer proposal_id sync_id) \<longleftrightarrow>
   (\<exists>tx sub ex. p_transaction p = Some tx \<and> submitted_by p = Some sub \<and> root_exercise p = Some ex
      \<and> buyer \<in> set (act_as sub) \<and> e_choice_id ex = ''UserService_ProposeDvp''
      \<and> absent_or (\<lambda>t. template_matches t user_module ''UserService'') (e_template_id ex)
      \<and> buyer \<in> set (e_acting_parties ex)
      \<and> absent_or (\<lambda>t. t = proposal_id) (chosen_terms_id ex)
      \<and> (\<forall>i \<in> set (e_children ex). \<forall>c. proposal_create (build_nodes_dict tx) i = Some c \<longrightarrow>
           absent_or (\<lambda>t. t = proposal_id) (created_terms_id c)))"
  unfolding inspect_propose_dvp_def accepts_finish submitted_by_def chosen_terms_id_def absent_or_bind
  by (cases "p_transaction p")
    (auto simp: flow_simps Let_def parts_of_iff passes_proposed_children absent_or_iff)

section \<open>Cancel and Reject\<close>

definition em_dash :: string where
  "em_dash = [CHR 0xE2, CHR 0x80, CHR 0x94]"

definition gc_allowed :: "string \<Rightarrow> create \<Rightarrow> bool" where
  "gc_allowed choice c \<longleftrightarrow> choice = ''DvpProposal_Reject''
     \<and> (case c_template_id c of
          None \<Rightarrow> False | Some tid \<Rightarrow> template_matches tid dvp_module ''RejectedDvpProposal'')"

definition template_name :: "create \<Rightarrow> message" where
  "template_name c = (case c_template_id c of
     Some t \<Rightarrow> [Arg (id_module t), Lit ''.'', Arg (id_entity t)] | None \<Rightarrow> [Lit ''unknown''])"

fun gc_children :: "string \<Rightarrow> nodes_dict \<Rightarrow> string list \<Rightarrow> unit check" where
  "gc_children choice d [] = go ()"
| "gc_children choice d (i # ids) =
     check_bind (when_some (Option.bind (d i) (\<lambda>n. as_create (get_node_type n))) (\<lambda>c.
       require (gc_allowed choice c)
         ([Arg choice, Lit '': unexpected Create of ''] @ template_name c)
         ([Arg choice, Lit '' must not create ''] @ template_name c
           @ [Lit ('' '' @ em_dash @ '' only DvpProposal_Reject may create RejectedDvpProposal'')]))) (\<lambda>_.
     gc_children choice d ids)"

definition inspect_dvp_proposal_gc ::
  "prepared_transaction \<Rightarrow> string \<Rightarrow> string \<Rightarrow> string \<Rightarrow> inspection_result result" where
  "inspect_dvp_proposal_gc p party cid choice = finish (
     check_bind (extract_root_exercise p choice) (\<lambda>parts.
     let sub = tp_submitter parts; ex = tp_root parts; n = length (roots (tp_tx parts)) in
     check_bind (steps [
       require (n = 1) [Arg choice, Lit '': expected 1 root, got '', Num (int n)]
         [Lit ''Transaction has '', Num (int n), Lit '' root nodes, expected exactly 1''],
       check_acts choice ''party'' ''party'' party sub,
       check_command (''dvp-proposal-gc-'' @ cid) sub,
       check_choice choice choice ex,
       check_root_template choice dvp_module ''DvpProposal'' ex,
       require (e_contract_id ex = cid) [Arg choice, Lit '': wrong contract_id'']
         [Lit ''contract_id='', Arg (e_contract_id ex), Lit '', expected='', Arg cid],
       check_acting choice ''party'' party ex,
       gc_children choice (tp_dict parts) (e_children ex)]) (\<lambda>_.
     go ([Arg choice, Lit '' VERIFIED: party '', Arg (short party 8), Lit '' archives '',
          Arg (short cid 16), Lit '' | ''] @ node_summary (tp_tx parts)))))"

lemma goes_gc_children [flow_simps]:
  "goes (gc_children choice d ids) u \<longleftrightarrow>
   (\<forall>i \<in> set ids. \<forall>n c. d i = Some n \<longrightarrow> as_create (get_node_type n) = Some c \<longrightarrow> gc_allowed choice c)"
  by (induction choice d ids rule: gc_children.induct)
    (auto simp: flow_simps absent_or_iff)

lemma gc_accepts:
  "accepts (inspect_dvp_proposal_gc p party cid choice) \<longleftrightarrow>
   (\<exists>tx sub ex r. p_transaction p = Some tx \<and> submitted_by p = Some sub \<and> root_exercise p = Some ex
      \<and> roots tx = [r] \<and> party \<in> set (act_as sub) \<and> e_choice_id ex = choice
      \<and> absent_or (\<lambda>t. template_matches t dvp_module ''DvpProposal'') (e_template_id ex)
      \<and> e_contract_id ex = cid \<and> party \<in> set (e_acting_parties ex)
      \<and> (\<forall>i \<in> set (e_children ex). \<forall>n c. build_nodes_dict tx i = Some n \<longrightarrow>
           as_create (get_node_type n) = Some c \<longrightarrow> gc_allowed choice c))"
  unfolding inspect_dvp_proposal_gc_def accepts_finish submitted_by_def
  by (cases "p_transaction p") (auto simp: flow_simps Let_def parts_of_iff length_Suc_conv)

section \<open>Allocate\<close>

definition inspect_allocate ::
  "prepared_transaction \<Rightarrow> string \<Rightarrow> string \<Rightarrow> string \<Rightarrow> inspection_result result" where
  "inspect_allocate p party proposal_id dvp_cid = finish (
     check_bind (extract_root_exercise p ''Allocate'') (\<lambda>parts.
     let sub = tp_submitter parts; ex = tp_root parts in
     check_bind (steps [
       check_acts ''Allocate'' ''party'' ''party'' party sub,
       warn_if (\<not> str_contains (command_id sub) proposal_id)
         [Lit ''command_id '', Arg (command_id sub), Lit '' does not contain proposal_id '', Arg proposal_id],
       check_choice ''Allocate'' ''AllocationFactory_Allocate'' ex,
       when_some (e_template_id ex) (\<lambda>tid.
         warn_if (\<not> template_matches tid ''Splice.ExternalPartyAmuletRules'' ''ExternalPartyAmuletRules''
             \<and> \<not> template_matches tid ''Utility.Registry.App.V0.Service.AllocationFactory'' ''AllocationFactory'')
           [Lit ''Unexpected template: '', Arg (id_module tid), Lit ''.'', Arg (id_entity tid),
            Lit '' (expected ExternalPartyAmuletRules or AllocationFactory)'']),
       check_acting ''Allocate'' ''party'' party ex]) (\<lambda>_.
     go ([Lit ''Allocate VERIFIED: '', Arg (short party 8), Lit '' allocates for '', Arg proposal_id,
          Lit '' | ''] @ node_summary (tp_tx parts)))))"

lemma allocate_accepts:
  "accepts (inspect_allocate p party proposal_id dvp_cid) \<longleftrightarrow>
   (\<exists>sub ex. submitted_by p = Some sub \<and> root_exercise p = Some ex
      \<and> party \<in> set (act_as sub) \<and> e_choice_id ex = ''AllocationFactory_Allocate''
      \<and> party \<in> set (e_acting_parties ex))"
  unfolding inspect_allocate_def accepts_finish submitted_by_def
  by (cases "p_transaction p") (auto simp: flow_simps Let_def parts_of_iff)

end
