(* ===== verification/Inspect_Accept.thy ===== *)
theory Inspect_Accept
  imports Inspect_Dvp
begin

text \<open>
  \<open>inspect_accept_dvp\<close> of \<open>inspector.rs\<close>: the root exercise, and the terms of the
  proposal that is disclosed among the input contracts of the metadata.
\<close>

section \<open>The terms of the disclosed proposal\<close>

record accept_terms =
  at_delivery_amount :: string
  at_payment_amount :: string
  at_delivery_id :: string
  at_delivery_admin :: string
  at_payment_id :: string
  at_payment_admin :: string

text \<open>
  One leg, \<open>deliveries[0]\<close> or \<open>payments[0]\<close>: an expected value is compared when it is not
  empty, and a value that cannot be extracted only warns.
\<close>

definition check_leg :: "string \<Rightarrow> string \<Rightarrow> string \<Rightarrow> string \<Rightarrow> string \<Rightarrow> drecord \<Rightarrow> unit check" where
  "check_leg leg items amount i admin iq =
     (let (leg_id, leg_admin, leg_amount) = extract_instrument_quantity iq in steps [
        if amount = [] then go () else some_or leg_amount
          (\<lambda>amt. require (numeric_eq amt amount) [Lit (''AcceptDvp: '' @ leg @ '' amount mismatch'')]
             [Lit (''DVP '' @ leg @ ''=''), Arg amt, Lit '', expected='', Arg amount])
          (warn_if True [Lit (''Could not extract '' @ items @ ''[0].amount from DvpProposal'')]),
        if i = [] then go () else some_or leg_id
          (\<lambda>x. require (x = i) [Lit (''AcceptDvp: '' @ leg @ '' instrument_id mismatch'')]
             [Lit (''DVP '' @ leg @ '' instrument.id=''), Arg x, Lit '', expected='', Arg i])
          (warn_if True [Lit (''Could not extract '' @ items @ ''[0].instrument.id from DvpProposal'')]),
        if admin = [] then go () else some_or leg_admin
          (\<lambda>x. require (x = admin) [Lit (''AcceptDvp: '' @ leg @ '' instrument_admin mismatch'')]
             [Lit (''DVP '' @ leg @ '' instrument.admin=''), Arg (short x 20), Lit '', expected='',
              Arg (short admin 20)])
          (warn_if True [Lit (''Could not extract '' @ items @ ''[0].instrument.admin from DvpProposal'')])])"

definition first_leg :: "drecord \<Rightarrow> string \<Rightarrow> drecord option" where
  "first_leg terms items =
     Option.bind (Option.bind (field_as as_list terms items) first_of) as_record"

definition check_terms :: "accept_terms \<Rightarrow> drecord \<Rightarrow> unit check" where
  "check_terms e terms = steps [
     some_or (first_leg terms ''deliveries'')
       (check_leg ''delivery'' ''deliveries'' (at_delivery_amount e) (at_delivery_id e) (at_delivery_admin e))
       (warn_if True [Lit ''Could not extract deliveries[0] from DvpProposal'']),
     some_or (first_leg terms ''payments'')
       (check_leg ''payment'' ''payments'' (at_payment_amount e) (at_payment_id e) (at_payment_admin e))
       (warn_if True [Lit ''Could not extract payments[0] from DvpProposal''])]"

definition is_dvp_proposal :: "create \<Rightarrow> bool" where
  "is_dvp_proposal c = (case c_template_id c of
     None \<Rightarrow> False | Some t \<Rightarrow> template_matches t dvp_module ''DvpProposal'')"

definition proposal_terms :: "create \<Rightarrow> drecord option" where
  "proposal_terms c = Option.bind (Option.bind (c_argument c) as_record) (\<lambda>r. field_as as_record r ''terms'')"

text \<open>The loop over the input contracts stops at the first proposal.\<close>

fun check_input_contracts :: "accept_terms \<Rightarrow> input_contract list \<Rightarrow> unit check" where
  "check_input_contracts e [] =
     warn_if True [Lit ''No DvpProposal found in input_contracts to verify terms'']"
| "check_input_contracts e (ic # ics) =
     (case ic_contract ic of
        None \<Rightarrow> check_input_contracts e ics
      | Some c \<Rightarrow> if \<not> is_dvp_proposal c then check_input_contracts e ics
                 else when_some (proposal_terms c) (check_terms e))"

definition terms_expected :: "accept_terms \<Rightarrow> bool" where
  "terms_expected e \<longleftrightarrow>
     (let has_amount_check = at_delivery_amount e \<noteq> [];
          has_instrument_check = at_delivery_id e \<noteq> [] \<or> at_payment_id e \<noteq> []
      in has_amount_check \<or> has_instrument_check)"

section \<open>The inspection\<close>

definition accept_dvp_root :: "string \<Rightarrow> string \<Rightarrow> string \<Rightarrow> tx_parts \<Rightarrow> unit check" where
  "accept_dvp_root seller proposal_id cid parts =
     (let sub = tp_submitter parts; ex = tp_root parts in steps [
        check_acts ''AcceptDvp'' ''seller'' ''seller_party'' seller sub,
        check_command (''dvp-accept-'' @ proposal_id) sub,
        check_choice ''AcceptDvp'' ''UserService_AcceptDvpProposal'' ex,
        check_root_template ''AcceptDvp'' user_module ''UserService'' ex,
        check_acting ''AcceptDvp'' ''seller'' seller ex,
        when_some (e_chosen_value ex) (\<lambda>chosen. when_some (as_record chosen) (\<lambda>cr.
          when_some (get_record_field cr ''cid'') (\<lambda>v. when_some (get_contract_id v) (\<lambda>c.
            warn_if (cid \<noteq> [] \<and> c \<noteq> cid)
              [Lit ''chosen_value.cid='', Arg (short c 16),
               Lit '' does not match expected dvp_proposal_cid='', Arg (short cid 16)]))))])"

definition inspect_accept_dvp ::
  "prepared_transaction \<Rightarrow> string \<Rightarrow> string \<Rightarrow> string \<Rightarrow> accept_terms \<Rightarrow> inspection_result result" where
  "inspect_accept_dvp p seller proposal_id cid e = finish (
     check_bind (extract_root_exercise p ''AcceptDvp'') (\<lambda>parts.
     check_bind (accept_dvp_root seller proposal_id cid parts) (\<lambda>_.
     check_bind (if terms_expected e then check_input_contracts e (input_contracts (tp_metadata parts))
                 else go ()) (\<lambda>_.
     go ([Lit ''AcceptDvp VERIFIED: seller '', Arg (short seller 8), Lit '' accepts proposal '',
          Arg proposal_id, Lit '' | ''] @ node_summary (tp_tx parts))))))"

section \<open>When it accepts\<close>

text \<open>A leg agrees with what was expected of it, where both are known.\<close>

definition leg_agrees :: "string \<Rightarrow> string \<Rightarrow> string \<Rightarrow> drecord \<Rightarrow> bool" where
  "leg_agrees amount i admin iq \<longleftrightarrow>
     (let (leg_id, leg_admin, leg_amount) = extract_instrument_quantity iq
      in (amount \<noteq> [] \<longrightarrow> absent_or (\<lambda>a. numeric_eq a amount) leg_amount)
         \<and> (i \<noteq> [] \<longrightarrow> absent_or (\<lambda>x. x = i) leg_id)
         \<and> (admin \<noteq> [] \<longrightarrow> absent_or (\<lambda>x. x = admin) leg_admin))"

definition terms_agree :: "accept_terms \<Rightarrow> drecord \<Rightarrow> bool" where
  "terms_agree e terms \<longleftrightarrow>
     absent_or (leg_agrees (at_delivery_amount e) (at_delivery_id e) (at_delivery_admin e))
       (first_leg terms ''deliveries'')
     \<and> absent_or (leg_agrees (at_payment_amount e) (at_payment_id e) (at_payment_admin e))
       (first_leg terms ''payments'')"

text \<open>The proposal whose terms are compared.\<close>

definition disclosed_proposal :: "metadata \<Rightarrow> create option" where
  "disclosed_proposal md = find is_dvp_proposal (List.map_filter ic_contract (input_contracts md))"

lemma goes_check_leg [flow_simps]:
  "goes (check_leg leg items amount i admin iq) u \<longleftrightarrow> leg_agrees amount i admin iq"
  by (cases "extract_instrument_quantity iq") (simp add: check_leg_def leg_agrees_def flow_simps)

lemma goes_check_terms [flow_simps]: "goes (check_terms e terms) u \<longleftrightarrow> terms_agree e terms"
  by (simp add: check_terms_def terms_agree_def flow_simps)

lemma goes_check_input_contracts:
  "goes (check_input_contracts e ics) u \<longleftrightarrow>
   absent_or (\<lambda>c. absent_or (terms_agree e) (proposal_terms c))
     (find is_dvp_proposal (List.map_filter ic_contract ics))"
  by (induction e ics rule: check_input_contracts.induct)
    (auto simp: flow_simps map_filter_simps split: option.splits)

lemma goes_accept_dvp_root [flow_simps]:
  "goes (accept_dvp_root seller proposal_id cid parts) u \<longleftrightarrow>
     seller \<in> set (act_as (tp_submitter parts))
     \<and> e_choice_id (tp_root parts) = ''UserService_AcceptDvpProposal''
     \<and> absent_or (\<lambda>t. template_matches t user_module ''UserService'') (e_template_id (tp_root parts))
     \<and> seller \<in> set (e_acting_parties (tp_root parts))"
  by (auto simp: accept_dvp_root_def Let_def flow_simps)

lemma accept_dvp_accepts:
  "accepts (inspect_accept_dvp p seller proposal_id cid e) \<longleftrightarrow>
   (\<exists>md sub ex. p_metadata p = Some md \<and> submitter md = Some sub \<and> root_exercise p = Some ex
      \<and> seller \<in> set (act_as sub) \<and> e_choice_id ex = ''UserService_AcceptDvpProposal''
      \<and> absent_or (\<lambda>t. template_matches t user_module ''UserService'') (e_template_id ex)
      \<and> seller \<in> set (e_acting_parties ex)
      \<and> (terms_expected e \<longrightarrow>
           absent_or (\<lambda>c. absent_or (terms_agree e) (proposal_terms c)) (disclosed_proposal md)))"
  unfolding inspect_accept_dvp_def accepts_finish disclosed_proposal_def
  by (cases "p_transaction p")
    (auto simp: flow_simps parts_of_iff goes_check_input_contracts)

end
