(* ===== verification/Inspector.thy ===== *)
theory Inspector
  imports Inspect_Create Inspect_Accept
begin

text \<open>
  \<open>OperationExpectation\<close> of \<open>types.rs\<close> and \<open>inspect\<close> of \<open>inspector.rs\<close>, which picks the
  inspection of the expected operation, with the properties of each operation that is
  inspected. \<open>PreparedTransaction::decode\<close> is generated code, the parameter \<open>decode\<close>. The
  verbose dump only logs and is left out.
\<close>

section \<open>Expectations\<close>

record settle_expectation =
  se_user_party :: string
  se_venue_cid :: string
  se_template_id :: string
  se_quote_id :: string
  se_ticket_id :: string
  se_ticket_cid :: "string option"
  se_side :: string
  se_base_amount :: string
  se_quote_amount :: string
  se_lp_party :: string
  se_base_instrument_id :: string
  se_base_instrument_admin :: string
  se_quote_instrument_id :: string
  se_quote_instrument_admin :: string
  se_valid_until_micros :: int
  se_lp_input_holding_cids :: "string list"
  se_user_input_holding_cids :: "string list"

text \<open>The arguments are the fields of the variant, in the order of the source.\<close>

datatype operation_expectation =
    PayFee string string string string
  | ProposeDvp string string string string
  | AcceptDvp string string string accept_terms
  | Allocate string string string
  | CancelDvpProposal string string
  | RejectDvpProposal string string
  | TransferCc string string string string
  | PrepayTraffic string string string
  | RequestPreapproval string
  | RequestRecurringPrepaid string string string
  | RequestRecurringPayasyougo string string string
  | RequestUserService string
  | TransferCip56 string string string string string
  | AcceptCip56 string string
  | SplitCc string "string list"
  | ExecuteMulticall string nat
  | LockHoldings string string string string
  | ProcessLockUnlockRequests string nat
  | ResizeLock string string
  | TerminateLock string
  | AtomicDvpSettle settle_expectation
  | IssueTickets string nat
  | SplitHoldings string string nat "string list"
  | CreateAtomicDvpVenue string string string
  | UpdateVenueKey string string string
  | RetireVenue string string
  | CancelTickets string nat

fun operation_name :: "operation_expectation \<Rightarrow> message" where
  "operation_name (PayFee s f i fee_type) = [Lit ''PayFee('', Arg fee_type, Lit '')'']"
| "operation_name (ProposeDvp b s i y) = [Lit ''ProposeDvp'']"
| "operation_name (AcceptDvp s i c t) = [Lit ''AcceptDvp'']"
| "operation_name (Allocate p i c) = [Lit ''Allocate'']"
| "operation_name (CancelDvpProposal p c) = [Lit ''CancelDvpProposal'']"
| "operation_name (RejectDvpProposal p c) = [Lit ''RejectDvpProposal'']"
| "operation_name (TransferCc s r amount c) = [Lit ''TransferCc('', Arg amount, Lit '')'']"
| "operation_name (PrepayTraffic s amount c) = [Lit ''PrepayTraffic('', Arg amount, Lit '')'']"
| "operation_name (RequestPreapproval p) = [Lit ''RequestPreapproval'']"
| "operation_name (RequestRecurringPrepaid p a n) = [Lit ''RequestRecurringPrepaid'']"
| "operation_name (RequestRecurringPayasyougo p a n) = [Lit ''RequestRecurringPayasyougo'']"
| "operation_name (RequestUserService p) = [Lit ''RequestUserService'']"
| "operation_name (TransferCip56 s r i a amount) =
     [Lit ''TransferCip56('', Arg amount, Lit '' '', Arg i, Lit '')'']"
| "operation_name (AcceptCip56 r cid) = [Lit ''AcceptCip56('', Arg (short cid 16), Lit '')'']"
| "operation_name (SplitCc p outs) = [Lit ''SplitCc('', Num (int (length outs)), Lit '' outputs)'']"
| "operation_name (ExecuteMulticall p n) = [Lit ''ExecuteMulticall('', Num (int n), Lit '' ops)'']"
| "operation_name (LockHoldings p amount i c) =
     [Lit ''LockHoldings('', Arg amount, Lit '' '', Arg i, Lit '')'']"
| "operation_name (ProcessLockUnlockRequests p n) =
     [Lit ''ProcessLockUnlockRequests('', Num (int n), Lit '' reqs)'']"
| "operation_name (ResizeLock p amount) = [Lit ''ResizeLock('', Arg amount, Lit '')'']"
| "operation_name (TerminateLock p) = [Lit ''TerminateLock'']"
| "operation_name (AtomicDvpSettle e) =
     [Lit ''AtomicDvpSettle('', Arg (se_quote_id e), Lit '', '',
      Arg (if se_ticket_id e = [] then ''ticketless'' else ''ticketed''), Lit '')'']"
| "operation_name (IssueTickets p n) = [Lit ''IssueTickets('', Num (int n), Lit '' tickets)'']"
| "operation_name (SplitHoldings p i n cs) =
     [Lit ''SplitHoldings('', Num (int n), Lit '' '', Arg i, Lit '' splits)'']"
| "operation_name (CreateAtomicDvpVenue p pair k) = [Lit ''CreateAtomicDvpVenue('', Arg pair, Lit '')'']"
| "operation_name (UpdateVenueKey p v k) = [Lit ''UpdateVenueKey'']"
| "operation_name (RetireVenue p v) = [Lit ''RetireVenue'']"
| "operation_name (CancelTickets p n) = [Lit ''CancelTickets('', Num (int n), Lit '' tickets)'']"

section \<open>The entry point\<close>

definition stub_result :: "bytes \<Rightarrow> operation_expectation \<Rightarrow> inspection_result" where
  "stub_result bs e =
     \<lparr>accepted = True,
      summary = [Lit ''[STUB] ''] @ operation_name e @ [Lit ('' '' @ em_dash @ '' ''),
        Num (int (length bs)), Lit '' bytes, not yet verified''],
      warnings = [[Lit ''Transaction fields not yet verified for this operation'']],
      rejection_reason = None\<rparr>"

definition inspect ::
  "(bytes \<Rightarrow> prepared_transaction option) \<Rightarrow> bytes \<Rightarrow> operation_expectation \<Rightarrow> inspection_result result" where
  "inspect decode bs e =
     (let decoded = with_ctx (decode bs) ''Failed to decode PreparedTransaction protobuf'' in
      case e of
        TransferCc s r a c \<Rightarrow> try_bind decoded (\<lambda>p. inspect_transfer_cc p s r a c)
      | AcceptCip56 r c \<Rightarrow> try_bind decoded (\<lambda>p. inspect_accept_cip56 p r c)
      | RequestUserService q \<Rightarrow> try_bind decoded (\<lambda>p. inspect_request_user_service p q)
      | PayFee s f i t \<Rightarrow> try_bind decoded (\<lambda>p. inspect_pay_fee p s f i t)
      | ProposeDvp b s i y \<Rightarrow> try_bind decoded (\<lambda>p. inspect_propose_dvp p b i y)
      | AcceptDvp s i c t \<Rightarrow> try_bind decoded (\<lambda>p. inspect_accept_dvp p s i c t)
      | Allocate q i c \<Rightarrow> try_bind decoded (\<lambda>p. inspect_allocate p q i c)
      | CancelDvpProposal q c \<Rightarrow> try_bind decoded (\<lambda>p. inspect_dvp_proposal_gc p q c ''DvpProposal_Cancel'')
      | RejectDvpProposal q c \<Rightarrow> try_bind decoded (\<lambda>p. inspect_dvp_proposal_gc p q c ''DvpProposal_Reject'')
      | RequestPreapproval q \<Rightarrow> try_bind decoded (\<lambda>p. inspect_request_preapproval p q)
      | RequestRecurringPayasyougo q a n \<Rightarrow> try_bind decoded (\<lambda>p. inspect_recurring_payasyougo p q a n)
      | RequestRecurringPrepaid q a n \<Rightarrow> try_bind decoded (\<lambda>p. inspect_recurring_prepaid p q a n)
      | _ \<Rightarrow> Inr (stub_result bs e))"

text \<open>The operations whose transactions are looked at.\<close>

definition inspected :: "operation_expectation \<Rightarrow> bool" where
  "inspected e = (case e of
       TransferCc s r a c \<Rightarrow> True | AcceptCip56 r c \<Rightarrow> True | RequestUserService q \<Rightarrow> True
     | PayFee s f i t \<Rightarrow> True | ProposeDvp b s i y \<Rightarrow> True | AcceptDvp s i c t \<Rightarrow> True
     | Allocate q i c \<Rightarrow> True | CancelDvpProposal q c \<Rightarrow> True | RejectDvpProposal q c \<Rightarrow> True
     | RequestPreapproval q \<Rightarrow> True | RequestRecurringPayasyougo q a n \<Rightarrow> True
     | RequestRecurringPrepaid q a n \<Rightarrow> True | _ \<Rightarrow> False)"

lemma accepts_decoded [simp]:
  "accepts (try_bind (with_ctx x s) f) \<longleftrightarrow> (\<exists>p. x = Some p \<and> accepts (f p))"
  by (cases x) (simp_all add: accepts_def)

lemma accepts_Inr [simp]: "accepts (Inr i) \<longleftrightarrow> accepted i"
  by (simp add: accepts_def)

lemma accepts_Inl [simp]: "\<not> accepts (Inl e)"
  by (simp add: accepts_def)

lemma inspect_stub: "\<not> inspected e \<Longrightarrow> inspect decode bs e = Inr (stub_result bs e)"
  by (cases e) (simp_all add: inspect_def inspected_def)

lemma gc_allowed_choices:
  "\<not> gc_allowed ''DvpProposal_Cancel'' c"
  "gc_allowed ''DvpProposal_Reject'' c \<longleftrightarrow>
     (\<exists>t. c_template_id c = Some t \<and> template_matches t dvp_module ''RejectedDvpProposal'')"
  by (auto simp: gc_allowed_def split: option.splits)

section \<open>Sample transactions\<close>

definition sample_exercise :: "string \<Rightarrow> string list \<Rightarrow> exercise" where
  "sample_exercise choice children = \<lparr>e_lf_version = ''2.1'', e_contract_id = ''00'',
     e_package_name = ''p'', e_template_id = None, e_signatories = [], e_stakeholders = [],
     e_acting_parties = [''a''], e_interface_id = None, e_choice_id = choice, e_chosen_value = None,
     e_consuming = False, e_children = children, e_exercise_result = None, e_choice_observers = []\<rparr>"

definition sample_create :: "string \<Rightarrow> dvalue option \<Rightarrow> create" where
  "sample_create entity arg = \<lparr>c_lf_version = ''2.1'', c_contract_id = ''00'', c_package_name = ''p'',
     c_template_id = Some \<lparr>id_package = ''k'', id_module = dvp_module, id_entity = entity\<rparr>,
     c_argument = arg, c_signatories = [''a''], c_stakeholders = [''a'']\<rparr>"

definition sample_prepared :: "exercise \<Rightarrow> node list \<Rightarrow> input_contract list \<Rightarrow> prepared_transaction" where
  "sample_prepared ex ns ics = \<lparr>p_transaction = Some \<lparr>tx_version = ''2'', roots = [''0''],
       nodes = \<lparr>node_id = ''0'', versioned = Some (V1 (Some (Exercise ex)))\<rparr> # ns, node_seeds = []\<rparr>,
     p_metadata = Some \<lparr>submitter = Some \<lparr>act_as = [''a''], command_id = ''q''\<rparr>,
       synchronizer_id = ''s'', mediator_group = 0, transaction_uuid = ''u'', preparation_time = 5,
       input_contracts = ics, min_ledger_effective_time = None, max_ledger_effective_time = None,
       max_record_time = None\<rparr>\<rparr>"

lemma sample_prepared_simps [simp]:
  "root_exercise (sample_prepared ex [] ics) = Some ex"
  "submitted_by (sample_prepared ex ns ics) = Some \<lparr>act_as = [''a''], command_id = ''q''\<rparr>"
  by (simp_all add: sample_prepared_def root_exercise_def submitted_by_def build_nodes_dict_def
      first_of_def get_node_type_def as_exercise_def)

definition sample_created :: "string \<Rightarrow> dvalue option \<Rightarrow> node list" where
  "sample_created entity arg =
     [\<lparr>node_id = ''1'', versioned = Some (V1 (Some (Create (sample_create entity arg))))\<rparr>]"

definition sample_allocation :: prepared_transaction where
  "sample_allocation = sample_prepared (sample_exercise ''AllocationFactory_Allocate'' []) [] []"

text \<open>The argument of a proposal: its terms with an id and one delivery.\<close>

definition rec_value :: "(string \<times> vsum) list \<Rightarrow> dvalue" where
  "rec_value fs = Value (Some (VRecord (Record None
     (map (\<lambda>(l, v). RecordField l (Some (Value (Some v)))) fs))))"

definition sum_record :: "(string \<times> vsum) list \<Rightarrow> vsum" where
  "sum_record fs = the (sum_of (rec_value fs))"

definition sample_proposal :: "string \<Rightarrow> dvalue" where
  "sample_proposal i = rec_value [(''terms'', sum_record [(''id'', VText i),
     (''deliveries'', VList [rec_value [(''instrument'', sum_record [(''id'', VText ''Amulet'')]),
        (''amount'', VNumeric ''2.5'')]])])]"

section \<open>Properties of the inspections\<close>

text \<open>
  A transfer is accepted exactly when the bytes decode and the first root is a
  \<open>TransferFactory_Transfer\<close> exercise, submitted and acted by the sender, whose transfer
  record names no other sender, a receiver field that names no other receiver, no amount
  that differs from the expected one and no instrument but Amulet.
\<close>

theorem transfer_cc_inspection:
  "accepts (inspect decode bs (TransferCc sender receiver amount cmd)) \<longleftrightarrow>
   (\<exists>p tx sub ex t. decode bs = Some p \<and> p_transaction p = Some tx \<and> submitted_by p = Some sub
      \<and> root_exercise p = Some ex \<and> sender \<in> set (act_as sub)
      \<and> e_choice_id ex = ''TransferFactory_Transfer'' \<and> e_template_id ex \<noteq> None
      \<and> sender \<in> set (e_acting_parties ex)
      \<and> transfer_of ex = Some t \<and> transfer_cc_terms sender receiver amount t)"
  by (auto simp: inspect_def transfer_cc_accepts)


definition sample_acceptance :: prepared_transaction where
  "sample_acceptance = sample_prepared (sample_exercise ''UserService_AcceptDvpProposal'' []) []
     [\<lparr>ic_contract = Some (sample_create ''DvpProposal'' (Some (sample_proposal ''q''))),
       ic_created_at = 0, ic_event_blob = []\<rparr>]"

definition sample_terms :: accept_terms where
  "sample_terms = \<lparr>at_delivery_amount = [], at_payment_amount = [], at_delivery_id = ''Amulet'',
     at_delivery_admin = [], at_payment_id = [], at_payment_admin = []\<rparr>"


text \<open>
  A proposal is accepted exactly when the first root is a \<open>UserService_ProposeDvp\<close>
  exercise submitted and acted by the buyer, and no id other than the expected one stands in
  its terms or in those of a proposal that its children create.
\<close>

theorem propose_dvp_inspection:
  "accepts (inspect decode bs (ProposeDvp buyer seller proposal_id sync_id)) \<longleftrightarrow>
   (\<exists>p tx sub ex. decode bs = Some p \<and> p_transaction p = Some tx \<and> submitted_by p = Some sub
      \<and> root_exercise p = Some ex
      \<and> buyer \<in> set (act_as sub) \<and> e_choice_id ex = ''UserService_ProposeDvp''
      \<and> absent_or (\<lambda>t. template_matches t user_module ''UserService'') (e_template_id ex)
      \<and> buyer \<in> set (e_acting_parties ex)
      \<and> absent_or (\<lambda>t. t = proposal_id) (chosen_terms_id ex)
      \<and> (\<forall>i \<in> set (e_children ex). \<forall>c. proposal_create (build_nodes_dict tx) i = Some c \<longrightarrow>
           absent_or (\<lambda>t. t = proposal_id) (created_terms_id c)))"
  by (auto simp: inspect_def propose_dvp_accepts)

definition sample_propose :: prepared_transaction where
  "sample_propose = sample_prepared (sample_exercise ''UserService_ProposeDvp'' [''1''])
     (sample_created ''DvpProposal'' (Some (sample_proposal ''q''))) []"

theorem propose_dvp_inspection_witness:
  "accepts (inspect (\<lambda>b. Some sample_propose) [] (ProposeDvp ''a'' ''b'' ''q'' ''s''))"
proof -
  have "root_exercise sample_propose = Some (sample_exercise ''UserService_ProposeDvp'' [''1''])"
    by code_simp
  moreover have "absent_or (\<lambda>c. absent_or (\<lambda>t. t = ''q'') (created_terms_id c))
      (Option.bind (p_transaction sample_propose) (\<lambda>tx. proposal_create (build_nodes_dict tx) ''1''))"
    and "absent_or (\<lambda>t. t = ''q'') (chosen_terms_id (sample_exercise ''UserService_ProposeDvp'' [''1'']))"
    by code_simp+
  moreover have "submitted_by sample_propose = Some \<lparr>act_as = [''a''], command_id = ''q''\<rparr>"
    and "p_transaction sample_propose \<noteq> None" by code_simp+
  ultimately show ?thesis unfolding propose_dvp_inspection
    by (force simp: sample_exercise_def)
qed

text \<open>
  The garbage collection of a proposal is accepted exactly when the transaction has one
  root, which exercises the expected choice on the expected contract, submitted and acted by
  the party, and no child creates a contract, save a \<open>RejectedDvpProposal\<close> on a reject.
\<close>

theorem proposal_gc_inspection:
  "accepts (inspect decode bs (if cancel then CancelDvpProposal party cid else RejectDvpProposal party cid)) \<longleftrightarrow>
   (\<exists>p tx sub ex r. decode bs = Some p \<and> p_transaction p = Some tx \<and> submitted_by p = Some sub
      \<and> root_exercise p = Some ex \<and> roots tx = [r] \<and> party \<in> set (act_as sub)
      \<and> e_choice_id ex = (if cancel then ''DvpProposal_Cancel'' else ''DvpProposal_Reject'')
      \<and> absent_or (\<lambda>t. template_matches t dvp_module ''DvpProposal'') (e_template_id ex)
      \<and> e_contract_id ex = cid \<and> party \<in> set (e_acting_parties ex)
      \<and> (\<forall>i \<in> set (e_children ex). \<forall>n c. build_nodes_dict tx i = Some n \<longrightarrow>
           as_create (get_node_type n) = Some c \<longrightarrow> \<not> cancel
           \<and> (\<exists>t. c_template_id c = Some t \<and> template_matches t dvp_module ''RejectedDvpProposal'')))"
  by (cases cancel) (auto simp: inspect_def gc_accepts gc_allowed_choices)

definition sample_reject :: prepared_transaction where
  "sample_reject = sample_prepared (sample_exercise ''DvpProposal_Reject'' [''1''])
     (sample_created ''RejectedDvpProposal'' None) []"

theorem proposal_gc_inspection_witness:
  "accepts (inspect (\<lambda>b. Some sample_reject) []
     (if False then CancelDvpProposal ''a'' ''00'' else RejectDvpProposal ''a'' ''00''))"
proof -
  have "root_exercise sample_reject = Some (sample_exercise ''DvpProposal_Reject'' [''1''])"
    and "submitted_by sample_reject = Some \<lparr>act_as = [''a''], command_id = ''q''\<rparr>"
    and "p_transaction sample_reject \<noteq> None" by code_simp+
  moreover have "map_option roots (p_transaction sample_reject) = Some [''0'']"
    and "absent_or (\<lambda>c. Option.bind (c_template_id c)
        (\<lambda>t. if template_matches t dvp_module ''RejectedDvpProposal'' then Some () else None) \<noteq> None)
      (Option.bind (p_transaction sample_reject) (\<lambda>tx. Option.bind (build_nodes_dict tx ''1'')
        (\<lambda>n. as_create (get_node_type n))))"
    by code_simp+
  ultimately show ?thesis unfolding proposal_gc_inspection
    by (force simp: sample_exercise_def bind_eq_Some_conv split: if_splits)
qed

text \<open>
  The three requests that create a contract are accepted exactly when the only root is
  a create node of the expected template, submitted and signed by the party, with the party
  (and the app, for a recurring payment) in its argument.
\<close>

theorem request_inspections:
  "(accepts (inspect decode bs (RequestUserService party)) \<longleftrightarrow>
      (\<exists>p. decode bs = Some p \<and> creates_for p party
        (\<lambda>t. template_matches t ''Utility.Settlement.App.V1.Service.User'' ''UserServiceRequest'')
        [(''user'', party)]))
   \<and> (accepts (inspect decode bs (RequestPreapproval party)) \<longleftrightarrow>
      (\<exists>p. decode bs = Some p \<and> creates_for p party
        (\<lambda>t. template_matches t ''Utility.Registry.App.V0.Model.TransferPreapproval'' ''TransferPreapproval''
           \<or> template_matches t ''Splice.Wallet.TransferPreapproval'' ''TransferPreapprovalProposal'')
        [(''receiver'', party)]))
   \<and> (accepts (inspect decode bs (RequestRecurringPayasyougo party app amount)) \<longleftrightarrow>
      (\<exists>p. decode bs = Some p \<and> creates_for p party
        (\<lambda>t. template_matches t ''RecurringPaymentRequest'' ''RecurringPaymentRequest'')
        [(''user'', party), (''app'', app)]))"
  by (auto simp: inspect_def user_service_accepts preapproval_accepts payasyougo_accepts)

text \<open>
  The remaining inspections (accepting a transfer, paying a fee, allocating, prepaying)
  accept exactly the transactions whose first root is the expected exercise by the party;
  a fee must not name another receiver or instrument, and a prepayment another user.
\<close>

theorem exercise_inspections:
  "(accepts (inspect decode bs (AcceptCip56 party cid)) \<longleftrightarrow>
      (\<exists>p sub ex. decode bs = Some p \<and> submitted_by p = Some sub \<and> root_exercise p = Some ex
        \<and> party \<in> set (act_as sub) \<and> e_choice_id ex = ''TransferInstruction_Accept''
        \<and> e_contract_id ex = cid \<and> party \<in> set (e_acting_parties ex) \<and> e_consuming ex))
   \<and> (accepts (inspect decode bs (PayFee party fee_party proposal_id fee_type)) \<longleftrightarrow>
      (\<exists>p sub ex. decode bs = Some p \<and> submitted_by p = Some sub \<and> root_exercise p = Some ex
        \<and> party \<in> set (act_as sub) \<and> e_choice_id ex = ''TransferFactory_Transfer''
        \<and> party \<in> set (e_acting_parties ex)
        \<and> (\<forall>t. transfer_of ex = Some t \<longrightarrow>
             absent_or (\<lambda>v. v = fee_party) (field_as get_party t ''receiver'')
             \<and> absent_or (\<lambda>v. v = ''Amulet'') (instrument_id_of t))))
   \<and> (accepts (inspect decode bs (Allocate party proposal_id dvp_cid)) \<longleftrightarrow>
      (\<exists>p sub ex. decode bs = Some p \<and> submitted_by p = Some sub \<and> root_exercise p = Some ex
        \<and> party \<in> set (act_as sub) \<and> e_choice_id ex = ''AllocationFactory_Allocate''
        \<and> party \<in> set (e_acting_parties ex)))
   \<and> (accepts (inspect decode bs (RequestRecurringPrepaid party app amount)) \<longleftrightarrow>
      (\<exists>p sub ex. decode bs = Some p \<and> submitted_by p = Some sub \<and> root_exercise p = Some ex
        \<and> party \<in> set (act_as sub)
        \<and> e_choice_id ex = ''RecurringPaymentAppService_LockFundsForRequest''
        \<and> party \<in> set (e_acting_parties ex)
        \<and> absent_or (\<lambda>r. field_as get_party r ''user'' = Some party)
            (Option.bind (e_chosen_value ex) as_record)))"
  by (auto simp: inspect_def accept_cip56_accepts pay_fee_accepts allocate_accepts prepaid_accepts)

definition sample_fee :: prepared_transaction where
  "sample_fee = sample_prepared ((sample_exercise ''TransferFactory_Transfer'' [])
     \<lparr>e_chosen_value := Some (rec_value [(''transfer'', sum_record [(''receiver'', VParty ''f'')])])\<rparr>) [] []"

theorem exercise_inspections_witness:
  "\<exists>ex t. root_exercise sample_fee = Some ex \<and> transfer_of ex = Some t
     \<and> absent_or (\<lambda>v. v = ''f'') (field_as get_party t ''receiver'')"
proof -
  have "Option.bind (root_exercise sample_fee) transfer_of \<noteq> None" by code_simp
  moreover have "accepts (inspect (\<lambda>b. Some sample_fee) [] (PayFee ''a'' ''f'' ''q'' ''dvp''))" by code_simp
  ultimately show ?thesis
    using exercise_inspections [of "\<lambda>b. Some sample_fee" "[]" "''a''" _ "''f''" "''q''" "''dvp''"] by auto
qed

section \<open>What the inspections do not look at\<close>

definition with_roots :: "prepared_transaction \<Rightarrow> string list \<Rightarrow> prepared_transaction" where
  "with_roots p rs = p\<lparr>p_transaction := map_option (\<lambda>tx. tx\<lparr>roots := rs\<rparr>) (p_transaction p)\<rparr>"

lemma with_roots_simps [simp]:
  "p_transaction (with_roots p rs) = map_option (\<lambda>tx. tx\<lparr>roots := rs\<rparr>) (p_transaction p)"
  "p_metadata (with_roots p rs) = p_metadata p"
  by (simp_all add: with_roots_def)

lemma build_nodes_dict_roots [simp]: "build_nodes_dict (tx\<lparr>roots := rs\<rparr>) = build_nodes_dict tx"
  by (simp add: build_nodes_dict_def)

text \<open>The operations whose inspection takes the exercise at the first root.\<close>

definition reads_first_root :: "operation_expectation \<Rightarrow> bool" where
  "reads_first_root e = (case e of
       TransferCc s r a c \<Rightarrow> True | AcceptCip56 r c \<Rightarrow> True | PayFee s f i t \<Rightarrow> True
     | ProposeDvp b s i y \<Rightarrow> True | AcceptDvp s i c t \<Rightarrow> True | Allocate q i c \<Rightarrow> True
     | RequestRecurringPrepaid q a n \<Rightarrow> True | _ \<Rightarrow> False)"

lemma node_summary_roots [simp]: "node_summary (tx\<lparr>roots := rs\<rparr>) = node_summary tx"
  by (simp add: node_summary_def)

lemma open_root_first:
  "open_root op (tx\<lparr>roots := r # rs\<rparr>) d = open_root op (tx\<lparr>roots := r # rs'\<rparr>) d"
  by (simp add: open_root_def first_of_def)

lemma open_prepared_roots:
  "open_prepared (with_roots p rs) = check_bind (open_prepared p) (\<lambda>(tx, sub). go (tx\<lparr>roots := rs\<rparr>, sub))"
  by (cases "p_transaction p"; cases "p_metadata p")
    (auto simp: open_prepared_def check_bind_def demand_def go_def split: option.splits)

lemma extract_roots:
  "extract_root_exercise (with_roots p (r # rs)) op =
   check_bind (extract_root_exercise (with_roots p [r]) op)
     (\<lambda>parts. go (parts\<lparr>tp_tx := tp_tx parts\<lparr>roots := r # rs\<rparr>\<rparr>))"
  by (cases "p_transaction p"; cases "p_metadata p")
    (auto simp: extract_root_exercise_def check_bind_def require_some_def reject_def go_def first_of_def
      Let_def split: option.splits)

lemma check_bind_go [simp]: "check_bind (check_bind m (\<lambda>x. go (f x))) g = check_bind m (\<lambda>x. g (f x))"
  by (simp add: check_bind_def go_def split: flow.splits)

text \<open>
  The inspections that read the exercise at the first root ignore every other root:
  whatever else the transaction does under a second root, result, summary and warnings are
  the same.
\<close>

theorem other_roots_ignored:
  assumes "reads_first_root e"
  shows "inspect (\<lambda>b. map_option (\<lambda>p. with_roots p (r # rs)) (decode b)) bs e =
         inspect (\<lambda>b. map_option (\<lambda>p. with_roots p (r # rs')) (decode b)) bs e"
proof -
  note same = inspect_def inspect_transfer_cc_def inspect_accept_cip56_def open_prepared_roots
    inspect_pay_fee_def inspect_propose_dvp_def inspect_accept_dvp_def inspect_allocate_def
    inspect_recurring_prepaid_def accept_dvp_root_def Let_def extract_roots [where rs = rs]
    extract_roots [where rs = rs'] open_root_first [where rs = rs and rs' = rs']
    accept_cip56_inner_def
  show ?thesis
    using assms by (cases e) (simp_all add: reads_first_root_def same case_prod_unfold with_ctx_def
        ok_or_def cong: if_cong split: option.split)
qed

theorem other_roots_ignored_witness:
  "accepts (inspect (\<lambda>b. map_option (\<lambda>p. with_roots p [''0'', ''9'']) (Some sample_allocation)) []
     (Allocate ''a'' ''q'' ''d''))"
proof -
  have "accepts (inspect (\<lambda>b. map_option (\<lambda>p. with_roots p [''0'']) (Some sample_allocation)) []
     (Allocate ''a'' ''q'' ''d''))" by code_simp
  moreover have "reads_first_root (Allocate ''a'' ''q'' ''d'')" by code_simp
  ultimately show ?thesis
    by (simp only: other_roots_ignored [of _ "''0''" "[''9'']" "\<lambda>b. Some sample_allocation" "[]" "[]"])
qed

text \<open>
  The verifier does not look at the transaction of any other operation: whatever the
  bytes are, even ones that do not decode, the inspection accepts them with one warning.
\<close>

theorem uninspected_accepted:
  assumes "\<not> inspected e"
  shows "\<exists>i. inspect decode bs e = Inr i \<and> accepted i \<and> length (warnings i) = 1"
  using inspect_stub [OF assms] by (simp add: stub_result_def)

theorem uninspected_accepted_witness:
  "\<exists>i. inspect (\<lambda>b. None) [] (RetireVenue ''l'' ''v'') = Inr i \<and> accepted i \<and> length (warnings i) = 1"
  by (rule uninspected_accepted) code_simp

end
