(* ===== verification/Verifier.thy ===== *)
theory Verifier
  imports Inspector Hasher
begin

text \<open>
  \<open>verify_and_hash\<close> of \<open>crates/tx-verifier/src/lib.rs\<close>: the inspection, then the hash,
  then the comparison with the server's hash. Base64 decoding (an error is its text) and hex
  rendering are the parameters \<open>b64\<close> and \<open>hex_enc\<close>; \<open>decode\<close>, \<open>hex\<close> and \<open>sha\<close> are those
  of the hasher.
\<close>

record verification_result =
  v_accepted :: bool
  v_computed_hash :: bytes
  v_summary :: message
  v_warnings :: "message list"
  v_rejection_reason :: "message option"

definition compare_hash ::
  "(string \<Rightarrow> string + bytes) \<Rightarrow> (bytes \<Rightarrow> string) \<Rightarrow> inspection_result \<Rightarrow> bytes \<Rightarrow> string
   \<Rightarrow> verification_result result" where
  "compare_hash b64 hex_enc i h server =
     (case b64 server of
        Inl e \<Rightarrow> Inl [Lit ''Failed to decode server hash: '', Arg e]
      | Inr s \<Rightarrow>
          if h = s
          then Inr \<lparr>v_accepted = True, v_computed_hash = h,
                 v_summary = summary i @ [Lit ([CHR 0x0A] @ ''Hash verified '' @ em_dash @ '' MATCH.'')],
                 v_warnings = warnings i, v_rejection_reason = None\<rparr>
          else Inr \<lparr>v_accepted = True, v_computed_hash = zero_hash,
                 v_summary = summary i @ [Lit ([CHR 0x0A] @ ''Hash MISMATCH (debug mode '' @ em_dash
                   @ '' using server hash).'')],
                 v_warnings = warnings i @ [[Lit ''Hash mismatch: server='', Arg (hex_enc s),
                   Lit '', computed='', Arg (hex_enc h)]],
                 v_rejection_reason = None\<rparr>)"

definition verify_and_hash ::
  "(bytes \<Rightarrow> prepared_transaction option) \<Rightarrow> (string \<Rightarrow> bytes option) \<Rightarrow> (bytes \<Rightarrow> bytes)
   \<Rightarrow> (string \<Rightarrow> string + bytes) \<Rightarrow> (bytes \<Rightarrow> string)
   \<Rightarrow> bytes \<Rightarrow> string \<Rightarrow> string \<Rightarrow> operation_expectation \<Rightarrow> verification_result result" where
  "verify_and_hash decode hex sha b64 hex_enc bs server version e =
     try_bind (inspect decode bs e) (\<lambda>i.
     if \<not> accepted i
     then Inr \<lparr>v_accepted = False, v_computed_hash = zero_hash, v_summary = summary i,
            v_warnings = warnings i, v_rejection_reason = rejection_reason i\<rparr>
     else try_bind (compute_hash hex sha decode bs version) (\<lambda>h.
       if h \<noteq> zero_hash then compare_hash b64 hex_enc i h server
       else Inr \<lparr>v_accepted = True, v_computed_hash = h,
              v_summary = summary i @ [Lit ([CHR 0x0A] @ ''Hash computation failed '' @ em_dash
                @ '' using server hash.'')],
              v_warnings = warnings i, v_rejection_reason = None\<rparr>))"

section \<open>What a verdict means\<close>

lemma accepts_iff: "accepts r \<longleftrightarrow> (\<exists>i. r = Inr i \<and> accepted i)"
  by (auto simp: accepts_def split: sum.splits)

lemma compute_hash_Inr:
  "compute_hash hex sha decode bs version = Inr h \<longleftrightarrow>
   (\<exists>p. decode bs = Some p \<and> (compute_final_hash hex sha p version = Inr h
      \<or> h = zero_hash \<and> isl (compute_final_hash hex sha p version)))"
proof (cases "decode bs")
  case (Some p)
  then show ?thesis
    by (cases "compute_final_hash hex sha p version") (auto simp: compute_hash_def)
qed (simp add: compute_hash_def)

lemma compare_hash_Inr:
  assumes "compare_hash b64 hex_enc i h server = Inr r"
  shows "v_accepted r \<and> (\<exists>s. b64 server = Inr s \<and> v_computed_hash r = (if h = s then h else zero_hash))"
proof (cases "b64 server")
  case (Inr s)
  then show ?thesis
    using assms unfolding compare_hash_def by (cases "h = s") (simp_all, safe, simp_all)
qed (use assms in \<open>simp add: compare_hash_def\<close>)

lemma compare_hash_total:
  "b64 server = Inr s \<Longrightarrow> \<exists>r. compare_hash b64 hex_enc i h server = Inr r \<and> v_accepted r
     \<and> v_computed_hash r = (if h = s then h else zero_hash)"
  by (simp add: compare_hash_def)

text \<open>
  C35: The verifier returns a hash of its own to sign (anything but the all-zero sentinel)
  exactly when the inspection accepts the transaction, that hash is the one computed from
  the decoded transaction, and the server sent the same hash.
\<close>

theorem verified_hash:
  "(\<exists>r. verify_and_hash decode hex sha b64 hex_enc bs server version e = Inr r
      \<and> v_accepted r \<and> v_computed_hash r = h \<and> h \<noteq> zero_hash) \<longleftrightarrow>
   (accepts (inspect decode bs e) \<and> h \<noteq> zero_hash \<and> b64 server = Inr h
      \<and> (\<exists>p. decode bs = Some p \<and> compute_final_hash hex sha p version = Inr h))"
  (is "?L \<longleftrightarrow> ?R")
proof
  assume ?L
  then obtain r i h' where i: "inspect decode bs e = Inr i" "accepted i"
    and h': "compute_hash hex sha decode bs version = Inr h'"
    and r: "v_computed_hash r = h" "h \<noteq> zero_hash" "compare_hash b64 hex_enc i h' server = Inr r"
    by (auto simp: verify_and_hash_def result_simps split: if_splits)
  with compare_hash_Inr [OF r(3)] have "b64 server = Inr h" "h' = h"
    by (auto split: if_splits)
  with i h' r(2) show ?R by (auto simp: accepts_iff compute_hash_Inr)
next
  assume R: ?R
  then obtain i p where i: "inspect decode bs e = Inr i" "accepted i"
    and p: "decode bs = Some p" "compute_final_hash hex sha p version = Inr h"
    by (auto simp: accepts_iff)
  have "compute_hash hex sha decode bs version = Inr h"
    using p by (auto simp: compute_hash_Inr)
  moreover obtain r where "compare_hash b64 hex_enc i h server = Inr r" "v_accepted r" "v_computed_hash r = h"
    using compare_hash_total [of b64 server h hex_enc i h] R by auto
  ultimately show ?L using i R by (auto simp: verify_and_hash_def)
qed

text \<open>
  The verifier accepts with the sentinel, which tells the caller to sign the server's
  hash, exactly when the inspection accepts and the hash cannot be computed, is all zero, or
  differs from the server's: a wrong server hash is not rejected.
\<close>

theorem server_hash_fallback:
  "(\<exists>r. verify_and_hash decode hex sha b64 hex_enc bs server version e = Inr r
      \<and> v_accepted r \<and> v_computed_hash r = zero_hash) \<longleftrightarrow>
   (accepts (inspect decode bs e) \<and> (\<exists>p. decode bs = Some p \<and>
      (case compute_final_hash hex sha p version of
         Inl err \<Rightarrow> True
       | Inr h \<Rightarrow> h = zero_hash \<or> (\<exists>s. b64 server = Inr s \<and> s \<noteq> h))))"
  (is "?L \<longleftrightarrow> ?R")
proof
  assume ?L
  then obtain r i h where i: "inspect decode bs e = Inr i" "accepted i"
    and h: "compute_hash hex sha decode bs version = Inr h"
    and r: "h \<noteq> zero_hash \<longrightarrow> compare_hash b64 hex_enc i h server = Inr r" "v_computed_hash r = zero_hash"
    by (auto simp: verify_and_hash_def result_simps split: if_splits)
  from h obtain p where p: "decode bs = Some p" "compute_final_hash hex sha p version = Inr h
      \<or> h = zero_hash \<and> isl (compute_final_hash hex sha p version)"
    by (auto simp: compute_hash_Inr)
  have "h \<noteq> zero_hash \<Longrightarrow> \<exists>s. b64 server = Inr s \<and> s \<noteq> h"
    using r compare_hash_Inr [of b64 hex_enc i h server r] by (auto split: if_splits)
  then have "h = zero_hash \<or> (\<exists>s. b64 server = Inr s \<and> s \<noteq> h)" by blast
  with p(2) have "case compute_final_hash hex sha p version of Inl err \<Rightarrow> True
      | Inr h \<Rightarrow> h = zero_hash \<or> (\<exists>s. b64 server = Inr s \<and> s \<noteq> h)"
    by (auto split: sum.split)
  with i p(1) show ?R by (auto simp: accepts_iff)
next
  assume R: ?R
  then obtain i p where i: "inspect decode bs e = Inr i" "accepted i" and p: "decode bs = Some p"
    and c: "case compute_final_hash hex sha p version of Inl err \<Rightarrow> True
       | Inr h \<Rightarrow> h = zero_hash \<or> (\<exists>s. b64 server = Inr s \<and> s \<noteq> h)"
    by (auto simp: accepts_iff)
  obtain h where h: "compute_hash hex sha decode bs version = Inr h"
    and hs: "h = zero_hash \<or> (\<exists>s. b64 server = Inr s \<and> s \<noteq> h)"
    using p c by (cases "compute_final_hash hex sha p version") (auto simp: compute_hash_Inr)
  show ?L
  proof (cases "h = zero_hash")
    case True
    then show ?thesis using i h by (simp add: verify_and_hash_def)
  next
    case False
    with hs obtain s where "b64 server = Inr s" "s \<noteq> h" by blast
    with compare_hash_total [of b64 server s hex_enc i h] i h False
    show ?thesis by (auto simp: verify_and_hash_def)
  qed
qed

end
