(* ===== verification/Canonical.thy ===== *)
theory Canonical
  imports Prelude
begin

text \<open>
  The canonical text format of \<open>crates/message-signing\<close>: lines \<open>key=value\<close>, each closed by
  a newline. \<open>render\<close> writes them as the \<open>format!\<close> strings do, \<open>fields_of\<close> reads a text
  back. The locale \<open>signed_text\<close> is the contract of a payload builder, what its text
  determines of the message, and carries the consequences over to texts with a header.
\<close>

abbreviation newline :: char where
  "newline \<equiv> CHR 0x0A"

definition line :: "string \<times> string \<Rightarrow> string" where
  "line kv = fst kv @ ''='' @ snd kv @ [newline]"

definition render :: "(string \<times> string) list \<Rightarrow> string" where
  "render kvs = concat (map line kvs)"

text \<open>\<open>if let Some(v) = x { s.push_str(&format!("key={}\n", v)) }\<close>.\<close>

definition opt_line :: "string \<Rightarrow> string option \<Rightarrow> string" where
  "opt_line k x = (case x of None \<Rightarrow> [] | Some v \<Rightarrow> line (k, v))"

definition show_bool :: "bool \<Rightarrow> string" where
  "show_bool b = (if b then ''true'' else ''false'')"

section \<open>Reading a text back\<close>

definition split_once :: "char \<Rightarrow> string \<Rightarrow> string \<times> string" where
  "split_once c s = (takeWhile (\<lambda>x. x \<noteq> c) s, drop 1 (dropWhile (\<lambda>x. x \<noteq> c) s))"

definition fields_of :: "string \<Rightarrow> (string \<times> string) list" where
  "fields_of s = map (split_once (CHR ''='')) (butlast (split_on newline s))"

definition key_ok :: "string \<Rightarrow> bool" where
  "key_ok k \<longleftrightarrow> CHR ''='' \<notin> set k \<and> newline \<notin> set k"

definition value_ok :: "string \<Rightarrow> bool" where
  "value_ok v \<longleftrightarrow> newline \<notin> set v"

definition opt_ok :: "string option \<Rightarrow> bool" where
  "opt_ok x = (case x of None \<Rightarrow> True | Some v \<Rightarrow> value_ok v)"

lemma render_simps [simp]:
  "render [] = []"
  "render (kv # kvs) = line kv @ render kvs"
  by (simp_all add: render_def)

lemma render_append [simp]: "render (a @ b) = render a @ render b"
  by (simp add: render_def)

lemma split_once_line: "key_ok k \<Longrightarrow> split_once (CHR ''='') (k @ CHR ''='' # v) = (k, v)"
  by (auto simp: split_once_def key_ok_def takeWhile_tail dropWhile_append takeWhile_append
      dropWhile_eq_Nil_conv)

lemma fields_of_Nil [simp]: "fields_of [] = []"
  by (simp add: fields_of_def)

lemma fields_of_line [simp]:
  assumes "key_ok k" and "value_ok v"
  shows "fields_of (line (k, v) @ s) = (k, v) # fields_of s"
proof -
  have "newline \<notin> set (k @ CHR ''='' # v)"
    using assms by (auto simp: key_ok_def value_ok_def)
  from split_on_append [OF this, of s] show ?thesis
    using split_once_line [OF assms(1), of v] by (simp add: fields_of_def line_def)
qed

lemma fields_of_render [simp]:
  "\<forall>(k, v) \<in> set kvs. key_ok k \<and> value_ok v \<Longrightarrow> fields_of (render kvs @ s) = kvs @ fields_of s"
  by (induction kvs) auto

lemma fields_of_opt_line [simp]:
  "key_ok k \<Longrightarrow> opt_ok x \<Longrightarrow>
   fields_of (opt_line k x @ s) = (case x of None \<Rightarrow> [] | Some v \<Rightarrow> [(k, v)]) @ fields_of s"
  by (cases x) (simp_all add: opt_line_def opt_ok_def)

lemma fields_of_single [simp]:
  "key_ok k \<Longrightarrow> value_ok v \<Longrightarrow> fields_of (line (k, v)) = [(k, v)]"
  using fields_of_line [of k v "[]"] by simp

lemma fields_of_opt_single [simp]:
  "key_ok k \<Longrightarrow> opt_ok x \<Longrightarrow>
   fields_of (opt_line k x) = (case x of None \<Rightarrow> [] | Some v \<Rightarrow> [(k, v)])"
  using fields_of_opt_line [of k x "[]"] by simp

lemma value_ok_show [simp]:
  "value_ok (show_nat n)" "value_ok (show_int i)" "value_ok (show_bool b)"
  using show_nat_no_char [of newline] show_int_no_char [of newline]
  by (auto simp: value_ok_def show_bool_def digit_val_def)

lemma opt_ok_map [simp]: "opt_ok (map_option (\<lambda>n. show_nat (f n)) x)"
  by (simp add: opt_ok_def split: option.split)

lemma show_bool_inject [simp]: "show_bool a = show_bool b \<longleftrightarrow> a = b"
  by (simp add: show_bool_def)

section \<open>Comma-separated lists\<close>

definition commas :: "string list \<Rightarrow> string" where
  "commas xs = join_with '','' xs"

definition items_ok :: "string list \<Rightarrow> bool" where
  "items_ok xs \<longleftrightarrow> (\<forall>x \<in> set xs. x \<noteq> [] \<and> CHR '','' \<notin> set x \<and> newline \<notin> set x)"

lemma set_join_with: "set (join_with sep xs) \<subseteq> set sep \<union> \<Union> (set (map set xs))"
  by (induction sep xs rule: join_with.induct) auto

lemma value_ok_commas [simp]: "items_ok xs \<Longrightarrow> value_ok (commas xs)"
  using set_join_with [of "'',''" xs] by (auto simp: value_ok_def commas_def items_ok_def)

lemma commas_Nil_iff: "items_ok xs \<Longrightarrow> commas xs = [] \<longleftrightarrow> xs = []"
proof (cases xs)
  case (Cons y ys)
  then show "items_ok xs \<Longrightarrow> ?thesis" by (cases ys) (auto simp: commas_def items_ok_def)
qed (simp add: commas_def)

lemma commas_inject:
  assumes "items_ok xs" and "items_ok ys"
  shows "commas xs = commas ys \<longleftrightarrow> xs = ys"
proof
  assume eq: "commas xs = commas ys"
  show "xs = ys"
  proof (cases "xs = [] \<or> ys = []")
    case True
    then show ?thesis
      using eq commas_Nil_iff [OF assms(1)] commas_Nil_iff [OF assms(2)] by (auto simp: commas_def)
  next
    case False
    have "split_on (CHR '','') (commas zs) = zs" if "zs \<noteq> []" "items_ok zs" for zs
      unfolding commas_def by (rule split_join_with) (use that in \<open>auto simp: items_ok_def\<close>)
    from this [of xs] this [of ys] False assms have
      "split_on (CHR '','') (commas xs) = xs" "split_on (CHR '','') (commas ys) = ys" by blast+
    then show ?thesis using eq by metis
  qed
qed simp

text \<open>The last separator of a text splits it in one way.\<close>

lemma last_sep_inject:
  assumes "c \<notin> set s" and "c \<notin> set t"
  shows "a @ c # s = b @ c # t \<longleftrightarrow> a = b \<and> s = t"
proof
  assume "a @ c # s = b @ c # t"
  then have "rev s @ c # rev a = rev t @ c # rev b"
    by (metis append_assoc append_Cons append_Nil rev.simps(2) rev_append)
  moreover have "u @ c # x = v @ c # y \<Longrightarrow> c \<notin> set u \<Longrightarrow> c \<notin> set v \<Longrightarrow> u = v \<and> x = y" for u v x y
    by (induction u arbitrary: v) (auto simp: Cons_eq_append_conv append_eq_Cons_conv)
  ultimately show "a = b \<and> s = t" using assms by (metis rev_rev_ident set_rev)
qed simp

text \<open>\<open>if !xs.is_empty() { s.push_str(&format!("key={}\n", xs.join(","))) }\<close>.\<close>

definition list_line :: "string \<Rightarrow> string list \<Rightarrow> string" where
  "list_line k xs = (if xs = [] then [] else line (k, commas xs))"

lemma fields_of_list_line [simp]:
  "key_ok k \<Longrightarrow> items_ok xs \<Longrightarrow>
   fields_of (list_line k xs @ s) = (if xs = [] then [] else [(k, commas xs)]) @ fields_of s"
  by (simp add: list_line_def)

section \<open>What a signed text determines\<close>

locale signed_text =
  fixes enc :: "'a \<Rightarrow> string" and ok :: "'a \<Rightarrow> bool" and signed :: "'a \<Rightarrow> 'b"
  assumes determines: "ok x \<Longrightarrow> ok y \<Longrightarrow> fields_of (enc x) = fields_of (enc y) \<Longrightarrow> signed x = signed y"
    and only: "signed x = signed y \<Longrightarrow> enc x = enc y"
begin

lemma text_iff: "ok x \<Longrightarrow> ok y \<Longrightarrow> enc x = enc y \<longleftrightarrow> signed x = signed y"
  by (metis determines only)

lemma headed_text_iff:
  assumes "ok x" and "ok y" and "length h = length h'"
    and "\<forall>(k, v) \<in> set h. key_ok k \<and> value_ok v" and "\<forall>(k, v) \<in> set h'. key_ok k \<and> value_ok v"
  shows "render h @ enc x = render h' @ enc y \<longleftrightarrow> h = h' \<and> signed x = signed y"
proof
  assume eq: "render h @ enc x = render h' @ enc y"
  have "h @ fields_of (enc x) = h' @ fields_of (enc y)"
    using fields_of_render [OF assms(4), of "enc x"] fields_of_render [OF assms(5), of "enc y"] eq
    by simp
  with assms(3) have "h = h'" "fields_of (enc x) = fields_of (enc y)" by auto
  with determines [OF assms(1,2)] show "h = h' \<and> signed x = signed y" by blast
qed (auto dest: only)

end

end
