(* ===== verification/Message_Signing.thy ===== *)
theory Message_Signing
  imports Canonical
begin

text \<open>
  The payload builders of \<open>crates/message-signing/src/lib.rs\<close> for the requests that a
  transaction is prepared with, and \<open>build_canonical_from_prepare_request\<close> of
  \<open>ledger_client.rs\<close>, which picks one. A Rust \<open>String\<close> is already the list of its bytes, so
  \<open>into_bytes\<close> is the identity. Of the nested messages of a parameter only the number is
  read, and some fields not at all: they have the type variables \<open>'op\<close> and \<open>'u\<close>.
\<close>

section \<open>The parameters of PrepareTransactionRequest\<close>

definition canonical_params_pay_fee :: "string \<Rightarrow> string \<Rightarrow> string" where
  "canonical_params_pay_fee proposal_id fee_type =
     render [(''param_type'', ''PayFee''), (''proposal_id'', proposal_id), (''fee_type'', fee_type)]"

definition canonical_params_propose_dvp :: "string \<Rightarrow> string" where
  "canonical_params_propose_dvp proposal_id =
     render [(''param_type'', ''ProposeDvp''), (''proposal_id'', proposal_id)]"

definition canonical_params_accept_dvp :: "string \<Rightarrow> string \<Rightarrow> string" where
  "canonical_params_accept_dvp proposal_id dvp_proposal_cid =
     render [(''param_type'', ''AcceptDvp''),
       (''proposal_id'', proposal_id),
       (''dvp_proposal_cid'', dvp_proposal_cid)]"

definition canonical_params_allocate :: "string \<Rightarrow> string \<Rightarrow> string" where
  "canonical_params_allocate proposal_id dvp_cid =
     render [(''param_type'', ''Allocate''), (''proposal_id'', proposal_id), (''dvp_cid'', dvp_cid)]"

definition canonical_params_cancel_dvp_proposal :: "string \<Rightarrow> string" where
  "canonical_params_cancel_dvp_proposal dvp_proposal_cid =
     render [(''param_type'', ''CancelDvpProposal''), (''dvp_proposal_cid'', dvp_proposal_cid)]"

definition canonical_params_reject_dvp_proposal :: "string \<Rightarrow> string \<Rightarrow> string" where
  "canonical_params_reject_dvp_proposal dvp_proposal_cid reason =
     render [(''param_type'', ''RejectDvpProposal''),
       (''dvp_proposal_cid'', dvp_proposal_cid),
       (''reason'', reason)]"

definition canonical_params_transfer_cc :: "string \<Rightarrow> string \<Rightarrow> string option \<Rightarrow> string \<Rightarrow> string option \<Rightarrow> string" where
  "canonical_params_transfer_cc receiver_party amount description command_id settlement_proposal_id =
     render [(''param_type'', ''TransferCc''),
       (''receiver_party'', receiver_party),
       (''amount'', amount)]
     @ opt_line ''description'' description
     @ render [(''command_id'', command_id)]
     @ opt_line ''settlement_proposal_id'' settlement_proposal_id"

definition canonical_params_prepay_traffic :: "string \<Rightarrow> string option \<Rightarrow> string \<Rightarrow> string" where
  "canonical_params_prepay_traffic amount description command_id =
     render [(''param_type'', ''PrepayTraffic''), (''amount'', amount)]
     @ opt_line ''description'' description
     @ render [(''command_id'', command_id)]"

definition canonical_params_request_preapproval :: "string \<Rightarrow> string" where
  "canonical_params_request_preapproval instrument_admin =
     render [(''param_type'', ''RequestPreapproval''), (''instrument_admin'', instrument_admin)]"

definition canonical_params_request_recurring_prepaid :: "string \<Rightarrow> string \<Rightarrow> string \<Rightarrow> u32 \<Rightarrow> string option \<Rightarrow> string option \<Rightarrow> string" where
  "canonical_params_request_recurring_prepaid app_party amount locked_amount lock_days description reference =
     render [(''param_type'', ''RequestRecurringPrepaid''),
       (''app_party'', app_party),
       (''amount'', amount),
       (''locked_amount'', locked_amount),
       (''lock_days'', show_nat (unat lock_days))]
     @ opt_line ''description'' description
     @ opt_line ''reference'' reference"

definition canonical_params_request_recurring_payasyougo :: "string \<Rightarrow> string \<Rightarrow> string option \<Rightarrow> string option \<Rightarrow> string" where
  "canonical_params_request_recurring_payasyougo app_party amount description reference =
     render [(''param_type'', ''RequestRecurringPayasyougo''),
       (''app_party'', app_party),
       (''amount'', amount)]
     @ opt_line ''description'' description
     @ opt_line ''reference'' reference"

definition canonical_params_request_user_service :: "string option \<Rightarrow> string option \<Rightarrow> string" where
  "canonical_params_request_user_service reference_id party_name =
     render [(''param_type'', ''RequestUserService'')]
     @ opt_line ''reference_id'' reference_id
     @ opt_line ''party_name'' party_name"

definition canonical_params_transfer_cip56 :: "string \<Rightarrow> string \<Rightarrow> string \<Rightarrow> string \<Rightarrow> string option \<Rightarrow> string list \<Rightarrow> u32 option \<Rightarrow> string" where
  "canonical_params_transfer_cip56 instrument_id instrument_admin receiver_party amount reference input_holding_cids max_input_holdings =
     render [(''param_type'', ''TransferCip56''),
       (''instrument_id'', instrument_id),
       (''instrument_admin'', instrument_admin),
       (''receiver_party'', receiver_party),
       (''amount'', amount)]
     @ opt_line ''reference'' reference
     @ list_line ''input_holding_cids'' input_holding_cids
     @ opt_line ''max_input_holdings'' (map_option (\<lambda>n. show_nat (unat n)) max_input_holdings)"

definition canonical_params_accept_cip56 :: "string \<Rightarrow> string" where
  "canonical_params_accept_cip56 contract_id =
     render [(''param_type'', ''AcceptCip56''), (''contract_id'', contract_id)]"

definition canonical_params_split_cc :: "string list \<Rightarrow> string" where
  "canonical_params_split_cc output_amounts =
     render [(''param_type'', ''SplitCc''), (''output_amounts'', commas output_amounts)]"

definition canonical_params_execute_multicall :: "nat \<Rightarrow> string" where
  "canonical_params_execute_multicall op_count =
     render [(''param_type'', ''ExecuteMultiCall''), (''op_count'', show_nat op_count)]"

definition canonical_params_lock_holdings :: "string \<Rightarrow> string \<Rightarrow> string \<Rightarrow> string" where
  "canonical_params_lock_holdings lock_service_cid amount lock_context =
     render [(''param_type'', ''LockHoldings''),
       (''lock_service_cid'', lock_service_cid),
       (''amount'', amount),
       (''context'', lock_context)]"

definition canonical_params_process_lock_unlock_requests :: "string \<Rightarrow> nat \<Rightarrow> string" where
  "canonical_params_process_lock_unlock_requests lock_controller_cid request_count =
     render [(''param_type'', ''ProcessLockUnlockRequests''),
       (''lock_controller_cid'', lock_controller_cid),
       (''request_count'', show_nat request_count)]"

definition canonical_params_resize_lock :: "string \<Rightarrow> string \<Rightarrow> string" where
  "canonical_params_resize_lock lock_controller_cid new_amount =
     render [(''param_type'', ''ResizeLock''),
       (''lock_controller_cid'', lock_controller_cid),
       (''new_amount'', new_amount)]"

definition canonical_params_terminate_lock :: "string \<Rightarrow> string" where
  "canonical_params_terminate_lock lock_controller_cid =
     render [(''param_type'', ''TerminateLock''), (''lock_controller_cid'', lock_controller_cid)]"

definition canonical_params_faucet :: "string \<Rightarrow> string \<Rightarrow> string \<Rightarrow> bool \<Rightarrow> string" where
  "canonical_params_faucet token_name token_admin ticket dry_run =
     render [(''param_type'', ''Faucet''),
       (''token_name'', token_name),
       (''token_admin'', token_admin),
       (''ticket'', ticket),
       (''dry_run'', show_bool dry_run)]"

section \<open>The request\<close>

definition canonical_prepare_request :: "32 word \<Rightarrow> string \<Rightarrow> string" where
  "canonical_prepare_request operation params_text =
     render [(''msg_type'', ''PrepareTransactionRequest''), (''operation'', show_int (sint operation))]
     @ params_text"

text \<open>
  One constructor for each arm of the oneof, with the fields that are signed; the last
  argument is the rest of the message (input contract ids, fee parties and amounts,
  template ids, allowances and the like), which no builder reads.
\<close>

datatype ('op, 'u) params =
    PayFeeP string string 'u
  | ProposeDvpP string 'u
  | AcceptDvpP string string 'u
  | AllocateP string string 'u
  | CancelDvpProposalP string 'u
  | RejectDvpProposalP string string 'u
  | TransferCcP string string "string option" string "string option" 'u
  | PrepayTrafficP string "string option" string 'u
  | RequestPreapprovalP string 'u
  | RequestRecurringPrepaidP string string string u32 "string option" "string option" 'u
  | RequestRecurringPayasyougoP string string "string option" "string option" 'u
  | RequestUserServiceP "string option" "string option" 'u
  | TransferCip56P string string string string "string option" "string list" "u32 option" 'u
  | AcceptCip56P string 'u
  | SplitCcP "string list" 'u
  | ExecuteMultiCallP "'op list" 'u
  | LockHoldingsP string string string 'u
  | ProcessLockUnlockRequestsP string "'op list" 'u
  | ResizeLockP string string 'u
  | TerminateLockP string 'u

fun params_canonical :: "('op, 'u) params \<Rightarrow> string" where
  "params_canonical (PayFeeP proposal_id fee_type u) =
     canonical_params_pay_fee proposal_id fee_type"
| "params_canonical (ProposeDvpP proposal_id u) =
     canonical_params_propose_dvp proposal_id"
| "params_canonical (AcceptDvpP proposal_id dvp_proposal_cid u) =
     canonical_params_accept_dvp proposal_id dvp_proposal_cid"
| "params_canonical (AllocateP proposal_id dvp_cid u) =
     canonical_params_allocate proposal_id dvp_cid"
| "params_canonical (CancelDvpProposalP dvp_proposal_cid u) =
     canonical_params_cancel_dvp_proposal dvp_proposal_cid"
| "params_canonical (RejectDvpProposalP dvp_proposal_cid reason u) =
     canonical_params_reject_dvp_proposal dvp_proposal_cid reason"
| "params_canonical (TransferCcP receiver_party amount description command_id settlement_proposal_id u) =
     canonical_params_transfer_cc receiver_party amount description command_id settlement_proposal_id"
| "params_canonical (PrepayTrafficP amount description command_id u) =
     canonical_params_prepay_traffic amount description command_id"
| "params_canonical (RequestPreapprovalP instrument_admin u) =
     canonical_params_request_preapproval instrument_admin"
| "params_canonical (RequestRecurringPrepaidP app_party amount locked_amount lock_days description reference u) =
     canonical_params_request_recurring_prepaid app_party amount locked_amount lock_days description reference"
| "params_canonical (RequestRecurringPayasyougoP app_party amount description reference u) =
     canonical_params_request_recurring_payasyougo app_party amount description reference"
| "params_canonical (RequestUserServiceP reference_id party_name u) =
     canonical_params_request_user_service reference_id party_name"
| "params_canonical (TransferCip56P instrument_id instrument_admin receiver_party amount reference input_holding_cids max_input_holdings u) =
     canonical_params_transfer_cip56 instrument_id instrument_admin receiver_party amount reference input_holding_cids max_input_holdings"
| "params_canonical (AcceptCip56P contract_id u) =
     canonical_params_accept_cip56 contract_id"
| "params_canonical (SplitCcP output_amounts u) =
     canonical_params_split_cc output_amounts"
| "params_canonical (ExecuteMultiCallP operations u) =
     canonical_params_execute_multicall (length operations)"
| "params_canonical (LockHoldingsP lock_service_cid amount lock_context u) =
     canonical_params_lock_holdings lock_service_cid amount lock_context"
| "params_canonical (ProcessLockUnlockRequestsP lock_controller_cid requests u) =
     canonical_params_process_lock_unlock_requests lock_controller_cid (length requests)"
| "params_canonical (ResizeLockP lock_controller_cid new_amount u) =
     canonical_params_resize_lock lock_controller_cid new_amount"
| "params_canonical (TerminateLockP lock_controller_cid u) =
     canonical_params_terminate_lock lock_controller_cid"

record ('op, 'u) prepare_request =
  pr_operation :: "32 word"
  pr_params :: "('op, 'u) params option"

definition build_canonical_from_prepare_request :: "('op, 'u) prepare_request \<Rightarrow> string result" where
  "build_canonical_from_prepare_request req =
     try_bind (with_ctx (pr_params req) ''PrepareTransactionRequest missing params'') (\<lambda>params.
     Inr (canonical_prepare_request (pr_operation req) (params_canonical params)))"

section \<open>What the text determines\<close>

fun params_ok :: "('op, 'u) params \<Rightarrow> bool" where
  "params_ok (PayFeeP proposal_id fee_type u) \<longleftrightarrow> value_ok proposal_id \<and> value_ok fee_type"
| "params_ok (ProposeDvpP proposal_id u) \<longleftrightarrow> value_ok proposal_id"
| "params_ok (AcceptDvpP proposal_id dvp_proposal_cid u) \<longleftrightarrow> value_ok proposal_id \<and> value_ok dvp_proposal_cid"
| "params_ok (AllocateP proposal_id dvp_cid u) \<longleftrightarrow> value_ok proposal_id \<and> value_ok dvp_cid"
| "params_ok (CancelDvpProposalP dvp_proposal_cid u) \<longleftrightarrow> value_ok dvp_proposal_cid"
| "params_ok (RejectDvpProposalP dvp_proposal_cid reason u) \<longleftrightarrow> value_ok dvp_proposal_cid \<and> value_ok reason"
| "params_ok (TransferCcP receiver_party amount description command_id settlement_proposal_id u) \<longleftrightarrow> value_ok receiver_party \<and> value_ok amount \<and> opt_ok description \<and> value_ok command_id \<and> opt_ok settlement_proposal_id"
| "params_ok (PrepayTrafficP amount description command_id u) \<longleftrightarrow> value_ok amount \<and> opt_ok description \<and> value_ok command_id"
| "params_ok (RequestPreapprovalP instrument_admin u) \<longleftrightarrow> value_ok instrument_admin"
| "params_ok (RequestRecurringPrepaidP app_party amount locked_amount lock_days description reference u) \<longleftrightarrow> value_ok app_party \<and> value_ok amount \<and> value_ok locked_amount \<and> opt_ok description \<and> opt_ok reference"
| "params_ok (RequestRecurringPayasyougoP app_party amount description reference u) \<longleftrightarrow> value_ok app_party \<and> value_ok amount \<and> opt_ok description \<and> opt_ok reference"
| "params_ok (RequestUserServiceP reference_id party_name u) \<longleftrightarrow> opt_ok reference_id \<and> opt_ok party_name"
| "params_ok (TransferCip56P instrument_id instrument_admin receiver_party amount reference input_holding_cids max_input_holdings u) \<longleftrightarrow> value_ok instrument_id \<and> value_ok instrument_admin \<and> value_ok receiver_party \<and> value_ok amount \<and> opt_ok reference \<and> items_ok input_holding_cids"
| "params_ok (AcceptCip56P contract_id u) \<longleftrightarrow> value_ok contract_id"
| "params_ok (SplitCcP output_amounts u) \<longleftrightarrow> items_ok output_amounts"
| "params_ok (ExecuteMultiCallP operations u) \<longleftrightarrow> True"
| "params_ok (LockHoldingsP lock_service_cid amount lock_context u) \<longleftrightarrow> value_ok lock_service_cid \<and> value_ok amount \<and> value_ok lock_context"
| "params_ok (ProcessLockUnlockRequestsP lock_controller_cid requests u) \<longleftrightarrow> value_ok lock_controller_cid"
| "params_ok (ResizeLockP lock_controller_cid new_amount u) \<longleftrightarrow> value_ok lock_controller_cid \<and> value_ok new_amount"
| "params_ok (TerminateLockP lock_controller_cid u) \<longleftrightarrow> value_ok lock_controller_cid"

lemma keys_ok [simp]:
  "key_ok ''amount''"
  "key_ok ''app_party''"
  "key_ok ''base_instrument_admin''"
  "key_ok ''base_instrument_id''"
  "key_ok ''command_id''"
  "key_ok ''context''"
  "key_ok ''contract_id''"
  "key_ok ''description''"
  "key_ok ''dry_run''"
  "key_ok ''dvp_cid''"
  "key_ok ''dvp_proposal_cid''"
  "key_ok ''error_message''"
  "key_ok ''external_id''"
  "key_ok ''fee_type''"
  "key_ok ''fees_json''"
  "key_ok ''input_holding_cids''"
  "key_ok ''instrument_admin''"
  "key_ok ''instrument_id''"
  "key_ok ''invite_code''"
  "key_ok ''lock_controller_cid''"
  "key_ok ''lock_days''"
  "key_ok ''lock_service_cid''"
  "key_ok ''locked_amount''"
  "key_ok ''max_input_holdings''"
  "key_ok ''msg_type''"
  "key_ok ''multihash_signature''"
  "key_ok ''new_amount''"
  "key_ok ''new_quote_public_key''"
  "key_ok ''nonce''"
  "key_ok ''op_count''"
  "key_ok ''operation''"
  "key_ok ''output_amounts''"
  "key_ok ''pair_name''"
  "key_ok ''param_type''"
  "key_ok ''party_id''"
  "key_ok ''party_name''"
  "key_ok ''proposal_id''"
  "key_ok ''public_key''"
  "key_ok ''quote_instrument_admin''"
  "key_ok ''quote_instrument_id''"
  "key_ok ''quote_public_key''"
  "key_ok ''reason''"
  "key_ok ''receiver_party''"
  "key_ok ''reference''"
  "key_ok ''reference_id''"
  "key_ok ''request_count''"
  "key_ok ''rewards_amount''"
  "key_ok ''rewards_round''"
  "key_ok ''session_id''"
  "key_ok ''settlement_proposal_id''"
  "key_ok ''signature''"
  "key_ok ''source_kind''"
  "key_ok ''splits''"
  "key_ok ''success''"
  "key_ok ''ticket''"
  "key_ok ''ticket_cids''"
  "key_ok ''ticket_ids''"
  "key_ok ''token_admin''"
  "key_ok ''token_name''"
  "key_ok ''transaction_id''"
  "key_ok ''update_id''"
  "key_ok ''venue_cid''"
  by code_simp+

lemma tags_ok [simp]:
  "value_ok ''PayFee''"
  "value_ok ''ProposeDvp''"
  "value_ok ''AcceptDvp''"
  "value_ok ''Allocate''"
  "value_ok ''CancelDvpProposal''"
  "value_ok ''RejectDvpProposal''"
  "value_ok ''TransferCc''"
  "value_ok ''PrepayTraffic''"
  "value_ok ''RequestPreapproval''"
  "value_ok ''RequestRecurringPrepaid''"
  "value_ok ''RequestRecurringPayasyougo''"
  "value_ok ''RequestUserService''"
  "value_ok ''TransferCip56''"
  "value_ok ''AcceptCip56''"
  "value_ok ''SplitCc''"
  "value_ok ''ExecuteMultiCall''"
  "value_ok ''LockHoldings''"
  "value_ok ''ProcessLockUnlockRequests''"
  "value_ok ''ResizeLock''"
  "value_ok ''TerminateLock''"
  "value_ok ''Faucet''"
  "value_ok ''IssueTickets''"
  "value_ok ''SplitHoldings''"
  "value_ok ''CreateAtomicDvpVenue''"
  "value_ok ''UpdateVenueKey''"
  "value_ok ''RetireVenue''"
  "value_ok ''CancelTickets''"
  "value_ok ''RegisterAgent''"
  "value_ok ''GetOnboardingStatus''"
  "value_ok ''SubmitOnboardingSignature''"
  "value_ok ''PreparePayFeeRequest''"
  "value_ok ''PreparePayFeeResponse''"
  "value_ok ''ExecutePayFeeRequest''"
  "value_ok ''ExecutePayFeeResponse''"
  "value_ok ''TxFeesAuthorization''"
  "value_ok ''PayFeeAuthorization''"
  "value_ok ''OffChainAuthorization''"
  "value_ok ''ExecuteTransactionRequest''"
  "value_ok ''ExecuteTransactionResponse''"
  "value_ok ''PrepareTransactionRequest''"
  "value_ok ''PrepareAtomicTransactionRequest''"
  "value_ok ''PrepareTransactionResponse''"
  "value_ok ''AtomicDvpSettle''"
  by code_simp+


lemma unat_inject [simp]: "unat a = unat b \<longleftrightarrow> a = b"
  by (simp add: word_unat_eq_iff)

lemma sint_inject [simp]: "sint a = sint b \<longleftrightarrow> a = b"
  by (auto intro: signed_word_eqI)

lemma map_unit_eq [simp]: "map (\<lambda>_. ()) xs = map (\<lambda>_. ()) ys \<longleftrightarrow> length xs = length ys"
  by (metis length_map map_replicate_const)

lemma map_option_unat [simp]:
  "map_option (\<lambda>n. show_nat (unat n)) x = map_option (\<lambda>n. show_nat (unat n)) y \<longleftrightarrow> x = y"
  by (cases x; cases y) simp_all

text \<open>What is signed of the parameters: nested messages only by their number, and no more.\<close>

definition signed_params :: "('op, 'u) params \<Rightarrow> (unit, unit) params" where
  "signed_params = map_params (\<lambda>_. ()) (\<lambda>_. ())"

lemmas canonical_defs = canonical_params_pay_fee_def
  canonical_params_propose_dvp_def
  canonical_params_accept_dvp_def
  canonical_params_allocate_def
  canonical_params_cancel_dvp_proposal_def
  canonical_params_reject_dvp_proposal_def
  canonical_params_transfer_cc_def
  canonical_params_prepay_traffic_def
  canonical_params_request_preapproval_def
  canonical_params_request_recurring_prepaid_def
  canonical_params_request_recurring_payasyougo_def
  canonical_params_request_user_service_def
  canonical_params_transfer_cip56_def
  canonical_params_accept_cip56_def
  canonical_params_split_cc_def
  canonical_params_execute_multicall_def
  canonical_params_lock_holdings_def
  canonical_params_process_lock_unlock_requests_def
  canonical_params_resize_lock_def
  canonical_params_terminate_lock_def

lemma params_determine:
  assumes "params_ok p" and "params_ok q"
    and "fields_of (params_canonical p) = fields_of (params_canonical q)"
  shows "signed_params p = signed_params q"
  using assms unfolding signed_params_def
  by (cases p; cases q) (simp_all add: canonical_defs commas_inject split: option.splits if_splits)

lemma params_only: "signed_params p = signed_params q \<Longrightarrow> params_canonical p = params_canonical q"
  unfolding signed_params_def by (cases p; cases q) simp_all

interpretation params_text: signed_text params_canonical params_ok signed_params
  by unfold_locales (rule params_determine params_only; assumption)+

text \<open>
  C37: For values without newlines (and list items without commas), two prepare requests
  have the same signed text exactly when they agree on the operation and on everything of
  the parameters that is signed. The rest of the message, the input contracts, the fee
  parties and amounts, the nested operations of a multicall, is not bound by the signature.
\<close>

theorem prepare_request_binding:
  fixes p q :: "('op, 'u) params"
  assumes "params_ok p" and "params_ok q"
  shows "canonical_prepare_request op (params_canonical p) = canonical_prepare_request op' (params_canonical q)
     \<longleftrightarrow> op = op' \<and> signed_params p = signed_params q"
proof -
  let ?h = "\<lambda>op. [(''msg_type'', ''PrepareTransactionRequest''), (''operation'', show_int (sint op))]"
  have "render (?h op) @ params_canonical p = render (?h op') @ params_canonical q
    \<longleftrightarrow> ?h op = ?h op' \<and> signed_params p = signed_params q"
    by (rule params_text.headed_text_iff [OF assms]) simp_all
  then show ?thesis by (simp add: canonical_prepare_request_def)
qed

definition sample_transfer :: "string option \<Rightarrow> string list \<Rightarrow> (string, string list) params" where
  "sample_transfer description amulets = TransferCcP ''r'' ''1'' description ''c'' None amulets"

theorem prepare_request_binding_witness:
  "canonical_prepare_request 4 (params_canonical (sample_transfer None [''a'']))
     = canonical_prepare_request 4 (params_canonical (sample_transfer None [''b'']))
   \<and> canonical_prepare_request 4 (params_canonical (sample_transfer None [''a'']))
     \<noteq> canonical_prepare_request 4 (params_canonical (sample_transfer (Some ''c'') [''a'']))"
proof -
  have ok: "params_ok (sample_transfer d u)" if "opt_ok d" for d u
    using that by (simp add: sample_transfer_def value_ok_def opt_ok_def)
  have o: "opt_ok None" "opt_ok (Some ''c'')" by (simp_all add: opt_ok_def value_ok_def)
  have s: "signed_params (sample_transfer None [''a'']) = signed_params (sample_transfer None [''b''])"
    "signed_params (sample_transfer None [''a'']) \<noteq> signed_params (sample_transfer (Some ''c'') [''a''])"
    by (simp_all add: signed_params_def sample_transfer_def)
  from prepare_request_binding [OF ok [OF o(1)] ok [OF o(1)], of 4 "[''a'']" 4 "[''b'']"]
    prepare_request_binding [OF ok [OF o(1)] ok [OF o(2)], of 4 "[''a'']" 4 "[''a'']"]
  show ?thesis using s by blast
qed

text \<open>
  A newline in a value shifts the boundary between two signed fields: without the check
  on newlines, different fee payments have the same signed text.
\<close>

theorem newline_shifts_fields:
  "canonical_params_pay_fee (a @ [newline] @ ''fee_type='' @ b) c =
   canonical_params_pay_fee a (b @ [newline] @ ''fee_type='' @ c)"
  by (simp add: canonical_params_pay_fee_def line_def)

end
