(* ===== verification/Atomic_Signing.thy ===== *)
theory Atomic_Signing
  imports Message_Signing
begin

text \<open>
  The payload builders for the atomic (RFQ V2) requests of
  \<open>crates/message-signing/src/lib.rs\<close>, and \<open>build_canonical_from_prepare_atomic_request\<close> of
  \<open>ledger_client.rs\<close>. As in \<open>Message_Signing\<close>, the fields that no builder reads are of a
  type variable \<open>'u\<close>.
\<close>

section \<open>The settlement\<close>

record atomic_lp_fee =
  lf_receiver :: string
  lf_instrument_admin :: string
  lf_instrument_id :: string
  lf_amount :: string

definition fee_key :: "nat \<Rightarrow> string \<Rightarrow> string" where
  "fee_key i field = ''fee_'' @ show_nat i @ field"

fun fee_lines :: "nat \<Rightarrow> atomic_lp_fee list \<Rightarrow> (string \<times> string) list" where
  "fee_lines i [] = []"
| "fee_lines i (f # fs) =
     [(fee_key i ''_receiver'', lf_receiver f),
      (fee_key i ''_admin'', lf_instrument_admin f),
      (fee_key i ''_id'', lf_instrument_id f),
      (fee_key i ''_amount'', lf_amount f)] @ fee_lines (Suc i) fs"

definition fee_block :: "atomic_lp_fee list \<Rightarrow> string" where
  "fee_block fees = (if fees = [] then []
     else render [(''fee_count'', show_nat (length fees))] @ render (fee_lines 0 fees))"

record atomic_quote =
  aq_quote_id :: string
  aq_ticket_id :: string
  aq_user :: string
  aq_side :: string
  aq_base_amount :: string
  aq_quote_amount :: string
  aq_created_at_micros :: "64 word"
  aq_valid_until_micros :: "64 word"

definition canonical_params_atomic_dvp_settle ::
  "string \<Rightarrow> atomic_quote \<Rightarrow> string \<Rightarrow> string option \<Rightarrow> string list \<Rightarrow> string list
   \<Rightarrow> atomic_lp_fee list \<Rightarrow> string" where
  "canonical_params_atomic_dvp_settle venue_cid q signature ticket_cid lp_cids user_cids lp_fees =
     render [(''param_type'', ''AtomicDvpSettle''), (''venue_cid'', venue_cid),
       (''quote_id'', aq_quote_id q), (''ticket_id'', aq_ticket_id q), (''user'', aq_user q),
       (''side'', aq_side q), (''base_amount'', aq_base_amount q), (''quote_amount'', aq_quote_amount q),
       (''created_at_micros'', show_int (sint (aq_created_at_micros q))),
       (''valid_until_micros'', show_int (sint (aq_valid_until_micros q))),
       (''quote_signature'', signature)]
     @ opt_line ''ticket_cid'' ticket_cid
     @ render [(''lp_input_holding_cids'', commas lp_cids), (''user_input_holding_cids'', commas user_cids)]
     @ fee_block lp_fees"

section \<open>The liquidity provider's operations\<close>

definition split_item :: "string \<times> u32 \<Rightarrow> string" where
  "split_item s = fst s @ ''x'' @ show_nat (unat (snd s))"

definition canonical_params_issue_tickets :: "string list \<Rightarrow> string" where
  "canonical_params_issue_tickets ticket_ids =
     render [(''param_type'', ''IssueTickets''), (''ticket_ids'', commas ticket_ids)]"

definition canonical_params_split_holdings :: "string \<Rightarrow> string \<Rightarrow> (string \<times> u32) list \<Rightarrow> string list \<Rightarrow> string" where
  "canonical_params_split_holdings instrument_id instrument_admin splits input_holding_cids =
     render [(''param_type'', ''SplitHoldings''),
       (''instrument_id'', instrument_id),
       (''instrument_admin'', instrument_admin),
       (''splits'', commas (map split_item splits)),
       (''input_holding_cids'', commas input_holding_cids)]"

definition canonical_params_create_atomic_dvp_venue :: "string \<Rightarrow> string \<Rightarrow> string \<Rightarrow> string \<Rightarrow> string \<Rightarrow> string \<Rightarrow> string" where
  "canonical_params_create_atomic_dvp_venue pair_name base_instrument_id base_instrument_admin quote_instrument_id quote_instrument_admin quote_public_key_spki_hex =
     render [(''param_type'', ''CreateAtomicDvpVenue''),
       (''pair_name'', pair_name),
       (''base_instrument_id'', base_instrument_id),
       (''base_instrument_admin'', base_instrument_admin),
       (''quote_instrument_id'', quote_instrument_id),
       (''quote_instrument_admin'', quote_instrument_admin),
       (''quote_public_key'', quote_public_key_spki_hex)]"

definition canonical_params_update_venue_key :: "string \<Rightarrow> string \<Rightarrow> string" where
  "canonical_params_update_venue_key venue_cid new_quote_public_key_spki_hex =
     render [(''param_type'', ''UpdateVenueKey''),
       (''venue_cid'', venue_cid),
       (''new_quote_public_key'', new_quote_public_key_spki_hex)]"

definition canonical_params_retire_venue :: "string \<Rightarrow> string" where
  "canonical_params_retire_venue venue_cid =
     render [(''param_type'', ''RetireVenue''), (''venue_cid'', venue_cid)]"

definition canonical_params_cancel_tickets :: "string list \<Rightarrow> string" where
  "canonical_params_cancel_tickets ticket_cids =
     render [(''param_type'', ''CancelTickets''), (''ticket_cids'', commas ticket_cids)]"

section \<open>The request\<close>

datatype 'u atomic_params =
    AtomicDvpSettleA string "atomic_quote option" string "string option" "string list" "string list"
      "atomic_lp_fee list" 'u
  | IssueTicketsA "string list" 'u
  | SplitHoldingsA string string "(string \<times> u32) list" "string list" 'u
  | CreateAtomicDvpVenueA string string string string string string 'u
  | UpdateVenueKeyA string string 'u
  | RetireVenueA string 'u
  | CancelTicketsA "string list" 'u

fun atomic_canonical :: "'u atomic_params \<Rightarrow> string result" where
  "atomic_canonical (AtomicDvpSettleA v quote sig t lp us fees u) =
     try_bind (with_ctx quote ''AtomicDvpSettleParams missing quote'') (\<lambda>q.
     Inr (canonical_params_atomic_dvp_settle v q sig t lp us fees))"
| "atomic_canonical (IssueTicketsA ids u) = Inr (canonical_params_issue_tickets ids)"
| "atomic_canonical (SplitHoldingsA i a ss cids u) = Inr (canonical_params_split_holdings i a ss cids)"
| "atomic_canonical (CreateAtomicDvpVenueA p bi ba qi qa k u) =
     Inr (canonical_params_create_atomic_dvp_venue p bi ba qi qa k)"
| "atomic_canonical (UpdateVenueKeyA v k u) = Inr (canonical_params_update_venue_key v k)"
| "atomic_canonical (RetireVenueA v u) = Inr (canonical_params_retire_venue v)"
| "atomic_canonical (CancelTicketsA cids u) = Inr (canonical_params_cancel_tickets cids)"

definition canonical_prepare_atomic_request :: "string \<Rightarrow> string" where
  "canonical_prepare_atomic_request params_text =
     render [(''msg_type'', ''PrepareAtomicTransactionRequest'')] @ params_text"

definition build_canonical_from_prepare_atomic_request :: "'u atomic_params option \<Rightarrow> string result" where
  "build_canonical_from_prepare_atomic_request params =
     try_bind (with_ctx params ''PrepareAtomicTransactionRequest missing params'') (\<lambda>p.
     try_bind (atomic_canonical p) (\<lambda>txt'.
     Inr (canonical_prepare_atomic_request txt')))"

section \<open>What the text determines\<close>

definition fee_ok :: "atomic_lp_fee \<Rightarrow> bool" where
  "fee_ok f \<longleftrightarrow> value_ok (lf_receiver f) \<and> value_ok (lf_instrument_admin f)
     \<and> value_ok (lf_instrument_id f) \<and> value_ok (lf_amount f)"

definition quote_ok :: "atomic_quote \<Rightarrow> bool" where
  "quote_ok q \<longleftrightarrow> value_ok (aq_quote_id q) \<and> value_ok (aq_ticket_id q) \<and> value_ok (aq_user q)
     \<and> value_ok (aq_side q) \<and> value_ok (aq_base_amount q) \<and> value_ok (aq_quote_amount q)"

definition split_ok :: "string \<times> u32 \<Rightarrow> bool" where
  "split_ok s \<longleftrightarrow> CHR '','' \<notin> set (fst s) \<and> newline \<notin> set (fst s)"

fun atomic_ok :: "'u atomic_params \<Rightarrow> bool" where
  "atomic_ok (AtomicDvpSettleA v quote sig t lp us fees u) \<longleftrightarrow>
     value_ok v \<and> (case quote of None \<Rightarrow> False | Some q \<Rightarrow> quote_ok q) \<and> value_ok sig \<and> opt_ok t
     \<and> items_ok lp \<and> items_ok us \<and> (\<forall>f \<in> set fees. fee_ok f)"
| "atomic_ok (IssueTicketsA ids u) \<longleftrightarrow> items_ok ids"
| "atomic_ok (SplitHoldingsA i a ss cids u) \<longleftrightarrow>
     value_ok i \<and> value_ok a \<and> (\<forall>s \<in> set ss. split_ok s) \<and> items_ok cids"
| "atomic_ok (CreateAtomicDvpVenueA p bi ba qi qa k u) \<longleftrightarrow>
     value_ok p \<and> value_ok bi \<and> value_ok ba \<and> value_ok qi \<and> value_ok qa \<and> value_ok k"
| "atomic_ok (UpdateVenueKeyA v k u) \<longleftrightarrow> value_ok v \<and> value_ok k"
| "atomic_ok (RetireVenueA v u) \<longleftrightarrow> value_ok v"
| "atomic_ok (CancelTicketsA cids u) \<longleftrightarrow> items_ok cids"

definition signed_atomic :: "'u atomic_params \<Rightarrow> unit atomic_params" where
  "signed_atomic = map_atomic_params (\<lambda>_. ())"

lemma key_ok_fee [simp]: "key_ok (fee_key i field) \<longleftrightarrow> key_ok field"
  using show_nat_no_char [of newline i] show_nat_no_char [of "CHR ''=''" i]
  by (auto simp: key_ok_def digit_val_def fee_key_def)

lemma key_ok_more [simp]:
  "key_ok ''_receiver''" "key_ok ''_admin''" "key_ok ''_id''" "key_ok ''_amount''"
  "key_ok ''fee_count''" "key_ok ''quote_id''" "key_ok ''ticket_id''" "key_ok ''user''" "key_ok ''side''"
  "key_ok ''base_amount''" "key_ok ''quote_amount''" "key_ok ''created_at_micros''"
  "key_ok ''valid_until_micros''" "key_ok ''quote_signature''" "key_ok ''ticket_cid''"
  "key_ok ''lp_input_holding_cids''" "key_ok ''user_input_holding_cids''"
  by code_simp+

lemma fee_lines_ok:
  "\<forall>f \<in> set fees. fee_ok f \<Longrightarrow> \<forall>(k, v) \<in> set (fee_lines i fees). key_ok k \<and> value_ok v"
  by (induction i fees rule: fee_lines.induct) (auto simp: fee_ok_def)

lemma fee_eq_iff: "f = g \<longleftrightarrow> lf_receiver f = lf_receiver g \<and> lf_instrument_admin f = lf_instrument_admin g
    \<and> lf_instrument_id f = lf_instrument_id g \<and> lf_amount f = lf_amount g" for f g :: atomic_lp_fee
  by (cases f; cases g) simp

lemma quote_eq_iff: "q = r \<longleftrightarrow> aq_quote_id q = aq_quote_id r \<and> aq_ticket_id q = aq_ticket_id r
    \<and> aq_user q = aq_user r \<and> aq_side q = aq_side r \<and> aq_base_amount q = aq_base_amount r
    \<and> aq_quote_amount q = aq_quote_amount r \<and> aq_created_at_micros q = aq_created_at_micros r
    \<and> aq_valid_until_micros q = aq_valid_until_micros r" for q r :: atomic_quote
  by (cases q; cases r) simp

lemma fee_lines_inject: "fee_lines i fs = fee_lines i gs \<Longrightarrow> fs = gs"
proof (induction fs arbitrary: i gs)
  case Nil
  then show ?case by (cases gs) simp_all
next
  case (Cons f fs)
  obtain g gs' where gs: "gs = g # gs'"
    using Cons.prems by (cases gs) simp_all
  then have "fee_lines (Suc i) fs = fee_lines (Suc i) gs'" and "f = g"
    using Cons.prems by (simp_all add: fee_eq_iff)
  with Cons.IH gs show ?case by blast
qed

lemma fields_of_fee_block:
  "\<forall>f \<in> set fees. fee_ok f \<Longrightarrow> fields_of (fee_block fees) =
   (if fees = [] then [] else (''fee_count'', show_nat (length fees)) # fee_lines 0 fees)"
  using fields_of_render [OF fee_lines_ok, of fees 0 "[]"]
  by (simp add: fee_block_def)

lemma split_item_inject: "split_item s = split_item t \<longleftrightarrow> s = t"
  using last_sep_inject [of "CHR ''x''" "show_nat (unat (snd s))" "show_nat (unat (snd t))" "fst s" "fst t"]
    show_nat_no_char [of "CHR ''x''"]
  by (cases s; cases t) (simp add: split_item_def digit_val_def)

lemma split_items_ok: "\<forall>s \<in> set ss. split_ok s \<Longrightarrow> items_ok (map split_item ss)"
  using show_nat_no_char [of newline] show_nat_no_char [of "CHR '',''"]
  by (fastforce simp: items_ok_def split_ok_def split_item_def digit_val_def)

lemma map_split_item_inject: "map split_item ss = map split_item ts \<longleftrightarrow> ss = ts"
  by (simp add: inj_map_eq_map inj_def split_item_inject)

lemmas atomic_defs = canonical_params_atomic_dvp_settle_def canonical_params_issue_tickets_def
  canonical_params_split_holdings_def canonical_params_create_atomic_dvp_venue_def
  canonical_params_update_venue_key_def canonical_params_retire_venue_def
  canonical_params_cancel_tickets_def

text \<open>The text of parameters that have one.\<close>

definition atomic_text :: "'u atomic_params \<Rightarrow> string" where
  "atomic_text p = (case atomic_canonical p of Inl e \<Rightarrow> [] | Inr s \<Rightarrow> s)"

lemma settle_determine:
  assumes "atomic_ok (AtomicDvpSettleA v (Some q) sig t lp us fees u)"
    and "atomic_ok (AtomicDvpSettleA v' (Some q') sig' t' lp' us' fees' u')"
    and "fields_of (canonical_params_atomic_dvp_settle v q sig t lp us fees) =
      fields_of (canonical_params_atomic_dvp_settle v' q' sig' t' lp' us' fees')"
  shows "v = v' \<and> q = q' \<and> sig = sig' \<and> t = t' \<and> lp = lp' \<and> us = us' \<and> fees = fees'"
  using assms
  by (auto simp: canonical_params_atomic_dvp_settle_def quote_ok_def commas_inject quote_eq_iff
      fields_of_fee_block dest: fee_lines_inject split: option.splits if_splits)

lemma atomic_text_simps [simp]:
  "atomic_text (AtomicDvpSettleA v (Some q) sig t lp us fees u) =
     canonical_params_atomic_dvp_settle v q sig t lp us fees"
  "atomic_text (IssueTicketsA ids u) = canonical_params_issue_tickets ids"
  "atomic_text (SplitHoldingsA i a ss cids u) = canonical_params_split_holdings i a ss cids"
  "atomic_text (CreateAtomicDvpVenueA p bi ba qi qa k u) =
     canonical_params_create_atomic_dvp_venue p bi ba qi qa k"
  "atomic_text (UpdateVenueKeyA v k u) = canonical_params_update_venue_key v k"
  "atomic_text (RetireVenueA v u) = canonical_params_retire_venue v"
  "atomic_text (CancelTicketsA cids u) = canonical_params_cancel_tickets cids"
  by (simp_all add: atomic_text_def)

lemma settle_text_head: "\<exists>s. canonical_params_atomic_dvp_settle v q sig t lp us fees =
    line (''param_type'', ''AtomicDvpSettle'') @ s"
  by (simp add: canonical_params_atomic_dvp_settle_def)

lemma atomic_determine:
  fixes p q :: "'u atomic_params"
  assumes "atomic_ok p" and "atomic_ok q" and "fields_of (atomic_text p) = fields_of (atomic_text q)"
  shows "signed_atomic p = signed_atomic q"
proof (cases "(\<exists>v x sig t lp us fees u. p = AtomicDvpSettleA v x sig t lp us fees u)
    \<or> (\<exists>v x sig t lp us fees u. q = AtomicDvpSettleA v x sig t lp us fees u)")
  case False
  then show ?thesis
    using assms unfolding signed_atomic_def
    by (cases p; cases q) (simp_all add: atomic_defs commas_inject split_items_ok map_split_item_inject)
next
  case True
  define tag where "tag s = (case fields_of s of kv # kvs \<Rightarrow> snd kv | [] \<Rightarrow> [])" for s
  have settle: "tag (atomic_text (AtomicDvpSettleA v x sig t lp us fees u)) = ''AtomicDvpSettle''"
    if "atomic_ok (AtomicDvpSettleA v x sig t lp us fees u)"
    for v x sig t lp us fees and u :: 'u
    using that by (cases x) (auto simp: tag_def canonical_params_atomic_dvp_settle_def)
  have other: "tag (atomic_text r) \<noteq> ''AtomicDvpSettle''" if "atomic_ok r"
    "\<nexists>v x sig t lp us fees u. r = AtomicDvpSettleA v x sig t lp us fees u" for r :: "'u atomic_params"
    using that by (cases r) (auto simp: tag_def atomic_defs split_items_ok)
  have eq: "tag (atomic_text p) = tag (atomic_text q)" using assms(3) by (simp add: tag_def)
  define settles where "settles r \<longleftrightarrow> (\<exists>v x sig t lp us fees u. r = AtomicDvpSettleA v x sig t lp us fees u)"
    for r :: "'u atomic_params"
  have iff: "settles r \<longleftrightarrow> tag (atomic_text r) = ''AtomicDvpSettle''" if "atomic_ok r" for r
    using settle other [OF that] that unfolding settles_def by blast
  have "settles p" "settles q"
    using True iff [OF assms(1)] iff [OF assms(2)] eq by (auto simp: settles_def)
  then obtain v x sig t lp us fees u v' x' sig' t' lp' us' fees' u'
    where pq: "p = AtomicDvpSettleA v x sig t lp us fees u" "q = AtomicDvpSettleA v' x' sig' t' lp' us' fees' u'"
    unfolding settles_def by blast
  obtain y y' where xy: "x = Some y" "x' = Some y'"
    using assms(1,2) pq by (cases x; cases x') simp_all
  show ?thesis
    using settle_determine [OF assms(1,2) [unfolded pq xy]] assms(3) by (simp add: pq xy signed_atomic_def)
qed

lemma atomic_only: "signed_atomic p = signed_atomic q \<Longrightarrow> atomic_text p = atomic_text q"
  unfolding signed_atomic_def by (cases p; cases q) (simp_all add: atomic_text_def)

interpretation atomic_text: signed_text atomic_text atomic_ok signed_atomic
  by unfold_locales (rule atomic_determine atomic_only; assumption)+

text \<open>
  Two atomic requests with values free of newlines have the same signed text exactly
  when they agree on every signed field: for a settlement the venue, the whole quote, its
  signature, the ticket, the input contracts of both sides in order, and the fees.
\<close>

theorem atomic_request_binding:
  fixes p q :: "'u atomic_params"
  assumes "atomic_ok p" and "atomic_ok q"
  shows "build_canonical_from_prepare_atomic_request (Some p) =
      build_canonical_from_prepare_atomic_request (Some q) \<longleftrightarrow> signed_atomic p = signed_atomic q"
proof -
  have body: "build_canonical_from_prepare_atomic_request (Some r) =
      Inr (render [(''msg_type'', ''PrepareAtomicTransactionRequest'')] @ atomic_text r)"
    if "atomic_ok r" for r :: "'u atomic_params"
    using that by (cases r)
      (auto simp: build_canonical_from_prepare_atomic_request_def canonical_prepare_atomic_request_def
        split: option.splits)
  have "render [(''msg_type'', ''PrepareAtomicTransactionRequest'')] @ atomic_text p =
      render [(''msg_type'', ''PrepareAtomicTransactionRequest'')] @ atomic_text q \<longleftrightarrow>
      [(''msg_type'', ''PrepareAtomicTransactionRequest'')] = [(''msg_type'', ''PrepareAtomicTransactionRequest'')]
      \<and> signed_atomic p = signed_atomic q"
    by (rule atomic_text.headed_text_iff [OF assms]) simp_all
  then show ?thesis using body assms by simp
qed

definition sample_settle :: "string list \<Rightarrow> string atomic_params" where
  "sample_settle cids = AtomicDvpSettleA ''v''
     (Some \<lparr>aq_quote_id = ''q'', aq_ticket_id = [], aq_user = ''u'', aq_side = ''Buy'',
       aq_base_amount = ''1.0'', aq_quote_amount = ''2.5'', aq_created_at_micros = 1,
       aq_valid_until_micros = 9\<rparr>)
     ''30'' None [''a''] cids [] ''more''"

theorem atomic_request_binding_witness:
  "build_canonical_from_prepare_atomic_request (Some (sample_settle [''x'', ''y''])) \<noteq>
   build_canonical_from_prepare_atomic_request (Some (sample_settle [''y'', ''x'']))"
proof -
  have "atomic_ok (sample_settle [''x'', ''y''])" "atomic_ok (sample_settle [''y'', ''x''])"
    by code_simp+
  from atomic_request_binding [OF this] show ?thesis
    by (simp add: signed_atomic_def sample_settle_def)
qed

end
