(* ===== verification/Fees_Json.thy ===== *)
theory Fees_Json
  imports Prelude "HOL-Library.Product_Lexorder"
begin

text \<open>
  \<open>serialize_fees_canonical\<close> and \<open>json_escape_into\<close> of \<open>crates/message-signing/src/lib.rs\<close>:
  the fee schedule as sorted JSON. The fields of a fee are those of the \<open>AsCanonicalFee\<close>
  trait; tuples of strings are compared byte by byte, as Rust does.
\<close>

section \<open>Escaping\<close>

abbreviation quote :: char where
  "quote \<equiv> CHR 0x22"

abbreviation backslash :: char where
  "backslash \<equiv> CHR 0x5C"

definition hex_digit :: "nat \<Rightarrow> char" where
  "hex_digit d = (if d < 10 then char_of (48 + d) else char_of (87 + d))"

definition escape_char :: "char \<Rightarrow> string" where
  "escape_char c =
     (if c = quote then [backslash, quote]
      else if c = backslash then [backslash, backslash]
      else if c = CHR 0x0A then [backslash, CHR ''n'']
      else if c = CHR 0x0D then [backslash, CHR ''r'']
      else if c = CHR 0x09 then [backslash, CHR ''t'']
      else let n = (of_char c :: nat) in
        if n < 32 then [backslash, CHR ''u'', CHR ''0'', CHR ''0'', hex_digit (n div 16), hex_digit (n mod 16)]
        else [c])"

definition json_escape :: "string \<Rightarrow> string" where
  "json_escape s = concat (map escape_char s)"

text \<open>Reading one escaped character back.\<close>

definition hex_value :: "char \<Rightarrow> nat" where
  "hex_value c = (let n = (of_char c :: nat) in if n < 58 then n - 48 else n - 87)"

fun unescape_char :: "string \<Rightarrow> (char \<times> string) option" where
  "unescape_char [] = None"
| "unescape_char (c # s) =
     (if c = quote then None
      else if c \<noteq> backslash then Some (c, s)
      else case s of
        [] \<Rightarrow> None
      | d # s' \<Rightarrow>
          if d = CHR ''n'' then Some (CHR 0x0A, s')
          else if d = CHR ''r'' then Some (CHR 0x0D, s')
          else if d = CHR ''t'' then Some (CHR 0x09, s')
          else if d = CHR ''u''
          then Some (char_of (16 * hex_value (s' ! 2) + hex_value (s' ! 3)), drop 4 s')
          else Some (d, s'))"

lemma hex_value_digit [simp]: "d < 16 \<Longrightarrow> hex_value (hex_digit d) = d"
  by (simp add: hex_value_def hex_digit_def)

lemma unescape_escape [simp]: "unescape_char (escape_char c @ s) = Some (c, s)"
proof (cases "c = quote \<or> c = backslash \<or> c = CHR 0x0A \<or> c = CHR 0x0D \<or> c = CHR 0x09")
  case True
  then show ?thesis by (elim disjE) (simp_all add: escape_char_def)
next
  case False
  define n where "n = (of_char c :: nat)"
  have "c = char_of (16 * (n div 16) + n mod 16)" by (simp add: n_def)
  moreover have "n < 32 \<Longrightarrow> n div 16 < 16" by simp
  ultimately show ?thesis using False
    by (auto simp: escape_char_def Let_def numeral_2_eq_2 numeral_3_eq_3 simp flip: n_def)
qed

lemma unescape_quote [simp]: "unescape_char (quote # s) = None"
  by simp

lemma json_escape_prefix:
  "json_escape s @ quote # x = json_escape t @ quote # y \<longleftrightarrow> s = t \<and> x = y"
proof (induction s arbitrary: t)
  case Nil
  show ?case
  proof (cases t)
    case (Cons c cs)
    have "quote # x \<noteq> escape_char c @ json_escape cs @ quote # y"
      using unescape_escape [of c "json_escape cs @ quote # y"] unescape_quote [of x] by (metis option.distinct(1))
    then show ?thesis using Cons by (simp add: json_escape_def)
  qed (simp add: json_escape_def)
next
  case (Cons d ds)
  have unfold: "json_escape (d # ds) @ quote # x = escape_char d @ json_escape ds @ quote # x"
    by (simp add: json_escape_def)
  show ?case
  proof (cases t)
    case Nil
    have "escape_char d @ json_escape ds @ quote # x \<noteq> quote # y"
      using unescape_escape [of d "json_escape ds @ quote # x"] unescape_quote [of y] by (metis option.distinct(1))
    then show ?thesis using Nil by (simp add: json_escape_def)
  next
    case (Cons e es)
    have "escape_char d @ a = escape_char e @ b \<longleftrightarrow> d = e \<and> a = b" for a b
      by (metis unescape_escape option.inject prod.inject)
    then show ?thesis using Cons.IH [of es] unfolding unfold Cons by (auto simp: json_escape_def)
  qed
qed

section \<open>The fee schedule\<close>

type_synonym fee = "string \<times> string \<times> string"

definition fee_object :: "fee \<Rightarrow> string" where
  "fee_object f = (case f of (entry_type, description, amount) \<Rightarrow>
     [CHR ''{'', quote] @ ''type'' @ [quote, CHR '':'', quote] @ json_escape entry_type
     @ [quote, CHR '','', quote] @ ''desc'' @ [quote, CHR '':'', quote] @ json_escape description
     @ [quote, CHR '','', quote] @ ''amount'' @ [quote, CHR '':'', quote] @ json_escape amount
     @ [quote, CHR ''}''])"

fun fee_objects :: "nat \<Rightarrow> fee list \<Rightarrow> string" where
  "fee_objects i [] = []"
| "fee_objects i (f # fs) = (if 0 < i then '','' else []) @ fee_object f @ fee_objects (Suc i) fs"

definition serialize_fees_canonical :: "fee list \<Rightarrow> string" where
  "serialize_fees_canonical fees = ''['' @ fee_objects 0 (sort fees) @ '']''"

lemma fee_object_prefix: "fee_object f @ x = fee_object g @ y \<longleftrightarrow> f = g \<and> x = y"
  by (cases f; cases g) (auto simp: fee_object_def json_escape_prefix)

lemma fee_objects_inject:
  "fee_objects i fs @ '']'' = fee_objects i gs @ '']'' \<longleftrightarrow> fs = gs"
proof (induction fs arbitrary: i gs)
  case Nil
  show ?case by (cases gs) (auto simp: fee_object_def)
next
  case (Cons f fs)
  show ?case
  proof (cases gs)
    case Nil
    then show ?thesis by (cases f) (auto simp: fee_object_def)
  next
    case (Cons g gs')
    then show ?thesis using Cons.IH [of "Suc i" gs'] by (auto simp: fee_object_prefix)
  qed
qed

text \<open>
  Two fee schedules have the same canonical JSON exactly when they are the same
  multiset of fees: the order does not matter, and nothing else is lost, whatever quotes,
  backslashes or control characters the descriptions hold.
\<close>

theorem fees_json_canonical:
  "serialize_fees_canonical fs = serialize_fees_canonical gs \<longleftrightarrow> mset fs = mset gs"
proof -
  have "serialize_fees_canonical fs = serialize_fees_canonical gs \<longleftrightarrow> sort fs = sort gs"
    using fee_objects_inject [of 0 "sort fs" "sort gs"] by (simp add: serialize_fees_canonical_def)
  also have "\<dots> \<longleftrightarrow> mset fs = mset gs"
    by (rule sort_eq_iff_mset)
  finally show ?thesis .
qed

end
