(* ===== verification/Signed_Messages.thy ===== *)
theory Signed_Messages
  imports Message_Signing
begin

text \<open>
  The standalone messages of \<open>crates/message-signing/src/lib.rs\<close> (onboarding, fees, execute
  and the prepare response), \<open>sign_canonical\<close>, \<open>verify_canonical\<close> and
  \<open>verify_persisted_fee_authorization\<close>, and the checks that \<open>prepare_transaction\<close> of
  \<open>ledger_client.rs\<close> makes on a response. SHA-256, Ed25519 and base64 are third-party
  code: the record \<open>crypto\<close> holds them as parameters, with an error as its text.
\<close>

section \<open>The messages\<close>

definition canonical_register_agent :: "string \<Rightarrow> string option \<Rightarrow> string" where
  "canonical_register_agent public_key invite_code =
     render [(''msg_type'', ''RegisterAgent''), (''public_key'', public_key)]
     @ opt_line ''invite_code'' invite_code"

definition canonical_get_onboarding_status :: "string \<Rightarrow> string" where
  "canonical_get_onboarding_status public_key =
     render [(''msg_type'', ''GetOnboardingStatus''), (''public_key'', public_key)]"

definition canonical_submit_onboarding_signature :: "string \<Rightarrow> string \<Rightarrow> string" where
  "canonical_submit_onboarding_signature public_key multihash_signature =
     render [(''msg_type'', ''SubmitOnboardingSignature''),
       (''public_key'', public_key),
       (''multihash_signature'', multihash_signature)]"

definition canonical_prepare_pay_fee_request :: "string \<Rightarrow> string \<Rightarrow> string" where
  "canonical_prepare_pay_fee_request proposal_id fee_type =
     render [(''msg_type'', ''PreparePayFeeRequest''),
       (''proposal_id'', proposal_id),
       (''fee_type'', fee_type)]"

definition canonical_prepare_pay_fee_response :: "string \<Rightarrow> string \<Rightarrow> string \<Rightarrow> string \<Rightarrow> string" where
  "canonical_prepare_pay_fee_response proposal_id fee_type fees_json session_id =
     render [(''msg_type'', ''PreparePayFeeResponse''),
       (''proposal_id'', proposal_id),
       (''fee_type'', fee_type),
       (''fees_json'', fees_json),
       (''session_id'', session_id)]"

definition canonical_execute_pay_fee_request :: "string \<Rightarrow> string \<Rightarrow> string \<Rightarrow> string \<Rightarrow> string" where
  "canonical_execute_pay_fee_request proposal_id fee_type fees_json session_id =
     render [(''msg_type'', ''ExecutePayFeeRequest''),
       (''proposal_id'', proposal_id),
       (''fee_type'', fee_type),
       (''fees_json'', fees_json),
       (''session_id'', session_id)]"

definition canonical_execute_pay_fee_response :: "bool \<Rightarrow> string option \<Rightarrow> string" where
  "canonical_execute_pay_fee_response success error_message =
     render [(''msg_type'', ''ExecutePayFeeResponse''), (''success'', show_bool success)]
     @ opt_line ''error_message'' error_message"

definition canonical_tx_fees_authorization :: "string \<Rightarrow> string \<Rightarrow> string \<Rightarrow> string" where
  "canonical_tx_fees_authorization party_id transaction_id fees_json =
     render [(''msg_type'', ''TxFeesAuthorization''),
       (''party_id'', party_id),
       (''transaction_id'', transaction_id),
       (''fees_json'', fees_json)]"

definition canonical_pay_fee_authorization :: "string \<Rightarrow> string \<Rightarrow> string \<Rightarrow> string \<Rightarrow> string \<Rightarrow> string" where
  "canonical_pay_fee_authorization party_id session_id proposal_id fee_type fees_json =
     render [(''msg_type'', ''PayFeeAuthorization''),
       (''party_id'', party_id),
       (''session_id'', session_id),
       (''proposal_id'', proposal_id),
       (''fee_type'', fee_type),
       (''fees_json'', fees_json)]"

definition canonical_off_chain_authorization :: "string \<Rightarrow> string \<Rightarrow> string \<Rightarrow> string \<Rightarrow> string \<Rightarrow> string" where
  "canonical_off_chain_authorization party_id nonce source_kind external_id fees_json =
     render [(''msg_type'', ''OffChainAuthorization''),
       (''party_id'', party_id),
       (''nonce'', nonce),
       (''source_kind'', source_kind),
       (''external_id'', external_id),
       (''fees_json'', fees_json)]"

definition canonical_execute_request :: "string \<Rightarrow> string \<Rightarrow> string" where
  "canonical_execute_request transaction_id signature =
     render [(''msg_type'', ''ExecuteTransactionRequest''),
       (''transaction_id'', transaction_id),
       (''signature'', signature)]"

definition canonical_execute_response :: "bool \<Rightarrow> string \<Rightarrow> string option \<Rightarrow> string option \<Rightarrow> string option \<Rightarrow> u64 option \<Rightarrow> string" where
  "canonical_execute_response success update_id contract_id error_message rewards_amount rewards_round =
     render [(''msg_type'', ''ExecuteTransactionResponse''),
       (''success'', show_bool success),
       (''update_id'', update_id)]
     @ opt_line ''contract_id'' contract_id
     @ opt_line ''error_message'' error_message
     @ opt_line ''rewards_amount'' rewards_amount
     @ opt_line ''rewards_round'' (map_option (\<lambda>n. show_nat (unat n)) rewards_round)"

text \<open>
  The arguments follow the source, which passes the encoded transaction in the place of
  \<open>command_id\<close> and the command id in that of \<open>prepared_transaction\<close>.
\<close>

definition canonical_prepare_response ::
  "(bytes \<Rightarrow> string) \<Rightarrow> string \<Rightarrow> string \<Rightarrow> string \<Rightarrow> bytes \<Rightarrow> string \<Rightarrow> string" where
  "canonical_prepare_response b64 transaction_id prepared_transaction_hash command_id
       prepared_transaction hashing_scheme_version =
     render [(''msg_type'', ''PrepareTransactionResponse''), (''transaction_id'', transaction_id),
       (''prepared_transaction_hash'', prepared_transaction_hash),
       (''command_id'', b64 prepared_transaction),
       (''prepared_transaction'', command_id),
       (''hashing_scheme_version'', hashing_scheme_version)]"

datatype signed_message =
    RegisterAgentM string "string option"
  | GetOnboardingStatusM string
  | SubmitOnboardingSignatureM string string
  | PreparePayFeeRequestM string string
  | PreparePayFeeResponseM string string string string
  | ExecutePayFeeRequestM string string string string
  | ExecutePayFeeResponseM bool "string option"
  | TxFeesAuthorizationM string string string
  | PayFeeAuthorizationM string string string string string
  | OffChainAuthorizationM string string string string string
  | ExecuteTransactionRequestM string string
  | ExecuteTransactionResponseM bool string "string option" "string option" "string option" "u64 option"
  | PrepareTransactionRequestM "32 word" string
  | PrepareAtomicTransactionRequestM string
  | PrepareTransactionResponseM string string string string string

fun canonical_of :: "signed_message \<Rightarrow> string" where
  "canonical_of (RegisterAgentM public_key invite_code) = canonical_register_agent public_key invite_code"
| "canonical_of (GetOnboardingStatusM public_key) = canonical_get_onboarding_status public_key"
| "canonical_of (SubmitOnboardingSignatureM public_key multihash_signature) = canonical_submit_onboarding_signature public_key multihash_signature"
| "canonical_of (PreparePayFeeRequestM proposal_id fee_type) = canonical_prepare_pay_fee_request proposal_id fee_type"
| "canonical_of (PreparePayFeeResponseM proposal_id fee_type fees_json session_id) = canonical_prepare_pay_fee_response proposal_id fee_type fees_json session_id"
| "canonical_of (ExecutePayFeeRequestM proposal_id fee_type fees_json session_id) = canonical_execute_pay_fee_request proposal_id fee_type fees_json session_id"
| "canonical_of (ExecutePayFeeResponseM success error_message) = canonical_execute_pay_fee_response success error_message"
| "canonical_of (TxFeesAuthorizationM party_id transaction_id fees_json) = canonical_tx_fees_authorization party_id transaction_id fees_json"
| "canonical_of (PayFeeAuthorizationM party_id session_id proposal_id fee_type fees_json) = canonical_pay_fee_authorization party_id session_id proposal_id fee_type fees_json"
| "canonical_of (OffChainAuthorizationM party_id nonce source_kind external_id fees_json) = canonical_off_chain_authorization party_id nonce source_kind external_id fees_json"
| "canonical_of (ExecuteTransactionRequestM transaction_id signature) = canonical_execute_request transaction_id signature"
| "canonical_of (ExecuteTransactionResponseM success update_id contract_id error_message rewards_amount rewards_round) = canonical_execute_response success update_id contract_id error_message rewards_amount rewards_round"
| "canonical_of (PrepareTransactionRequestM op params) = canonical_prepare_request op params"
| "canonical_of (PrepareAtomicTransactionRequestM params) =
     render [(''msg_type'', ''PrepareAtomicTransactionRequest'')] @ params"
| "canonical_of (PrepareTransactionResponseM t h c p v) =
     canonical_prepare_response (\<lambda>b. p) t h c [] v"

fun message_ok :: "signed_message \<Rightarrow> bool" where
  "message_ok (RegisterAgentM public_key invite_code) \<longleftrightarrow> value_ok public_key \<and> opt_ok invite_code"
| "message_ok (GetOnboardingStatusM public_key) \<longleftrightarrow> value_ok public_key"
| "message_ok (SubmitOnboardingSignatureM public_key multihash_signature) \<longleftrightarrow> value_ok public_key \<and> value_ok multihash_signature"
| "message_ok (PreparePayFeeRequestM proposal_id fee_type) \<longleftrightarrow> value_ok proposal_id \<and> value_ok fee_type"
| "message_ok (PreparePayFeeResponseM proposal_id fee_type fees_json session_id) \<longleftrightarrow> value_ok proposal_id \<and> value_ok fee_type \<and> value_ok fees_json \<and> value_ok session_id"
| "message_ok (ExecutePayFeeRequestM proposal_id fee_type fees_json session_id) \<longleftrightarrow> value_ok proposal_id \<and> value_ok fee_type \<and> value_ok fees_json \<and> value_ok session_id"
| "message_ok (ExecutePayFeeResponseM success error_message) \<longleftrightarrow> opt_ok error_message"
| "message_ok (TxFeesAuthorizationM party_id transaction_id fees_json) \<longleftrightarrow> value_ok party_id \<and> value_ok transaction_id \<and> value_ok fees_json"
| "message_ok (PayFeeAuthorizationM party_id session_id proposal_id fee_type fees_json) \<longleftrightarrow> value_ok party_id \<and> value_ok session_id \<and> value_ok proposal_id \<and> value_ok fee_type \<and> value_ok fees_json"
| "message_ok (OffChainAuthorizationM party_id nonce source_kind external_id fees_json) \<longleftrightarrow> value_ok party_id \<and> value_ok nonce \<and> value_ok source_kind \<and> value_ok external_id \<and> value_ok fees_json"
| "message_ok (ExecuteTransactionRequestM transaction_id signature) \<longleftrightarrow> value_ok transaction_id \<and> value_ok signature"
| "message_ok (ExecuteTransactionResponseM success update_id contract_id error_message rewards_amount rewards_round) \<longleftrightarrow> value_ok update_id \<and> opt_ok contract_id \<and> opt_ok error_message \<and> opt_ok rewards_amount"
| "message_ok (PrepareTransactionRequestM op params) \<longleftrightarrow> False"
| "message_ok (PrepareAtomicTransactionRequestM params) \<longleftrightarrow> False"
| "message_ok (PrepareTransactionResponseM t h c p v) \<longleftrightarrow>
     value_ok t \<and> value_ok h \<and> value_ok c \<and> value_ok p \<and> value_ok v"

fun msg_type :: "signed_message \<Rightarrow> string" where
  "msg_type (RegisterAgentM x0 x1) = ''RegisterAgent''"
| "msg_type (GetOnboardingStatusM x0) = ''GetOnboardingStatus''"
| "msg_type (SubmitOnboardingSignatureM x0 x1) = ''SubmitOnboardingSignature''"
| "msg_type (PreparePayFeeRequestM x0 x1) = ''PreparePayFeeRequest''"
| "msg_type (PreparePayFeeResponseM x0 x1 x2 x3) = ''PreparePayFeeResponse''"
| "msg_type (ExecutePayFeeRequestM x0 x1 x2 x3) = ''ExecutePayFeeRequest''"
| "msg_type (ExecutePayFeeResponseM x0 x1) = ''ExecutePayFeeResponse''"
| "msg_type (TxFeesAuthorizationM x0 x1 x2) = ''TxFeesAuthorization''"
| "msg_type (PayFeeAuthorizationM x0 x1 x2 x3 x4) = ''PayFeeAuthorization''"
| "msg_type (OffChainAuthorizationM x0 x1 x2 x3 x4) = ''OffChainAuthorization''"
| "msg_type (ExecuteTransactionRequestM x0 x1) = ''ExecuteTransactionRequest''"
| "msg_type (ExecuteTransactionResponseM x0 x1 x2 x3 x4 x5) = ''ExecuteTransactionResponse''"
| "msg_type (PrepareTransactionRequestM x0 x1) = ''PrepareTransactionRequest''"
| "msg_type (PrepareAtomicTransactionRequestM x0) = ''PrepareAtomicTransactionRequest''"
| "msg_type (PrepareTransactionResponseM x0 x1 x2 x3 x4) = ''PrepareTransactionResponse''"

lemmas message_defs = canonical_register_agent_def
  canonical_get_onboarding_status_def
  canonical_submit_onboarding_signature_def
  canonical_prepare_pay_fee_request_def
  canonical_prepare_pay_fee_response_def
  canonical_execute_pay_fee_request_def
  canonical_execute_pay_fee_response_def
  canonical_tx_fees_authorization_def
  canonical_pay_fee_authorization_def
  canonical_off_chain_authorization_def
  canonical_execute_request_def
  canonical_execute_response_def
  canonical_prepare_request_def canonical_prepare_response_def

lemma key_ok_response [simp]:
  "key_ok ''command_id''" "key_ok ''prepared_transaction_hash''" "key_ok ''prepared_transaction''"
  "key_ok ''hashing_scheme_version''" "key_ok ''transaction_id''"
  by code_simp+

lemma canonical_of_head: "\<exists>s. canonical_of m = line (''msg_type'', msg_type m) @ s"
  by (cases m) (simp_all add: message_defs)

lemma value_ok_msg_type [simp]: "value_ok (msg_type m)"
  by (cases m) simp_all

text \<open>
  Messages of different types never have the same signed text, whatever their fields
  hold, newlines included: a signature over one cannot be replayed as one over the other.
\<close>

theorem message_domains_separated:
  assumes "msg_type m \<noteq> msg_type m'"
  shows "canonical_of m \<noteq> canonical_of m'"
proof
  assume eq: "canonical_of m = canonical_of m'"
  obtain s s' where "canonical_of m = line (''msg_type'', msg_type m) @ s"
    "canonical_of m' = line (''msg_type'', msg_type m') @ s'"
    using canonical_of_head by blast
  then have "fields_of (line (''msg_type'', msg_type m) @ s) = fields_of (line (''msg_type'', msg_type m') @ s')"
    using eq by simp
  then show False using assms by simp
qed

theorem message_domains_separated_witness:
  "canonical_of (TxFeesAuthorizationM ''p'' ''t'' ''[]'') \<noteq>
   canonical_of (PayFeeAuthorizationM ''p'' (''s'' @ [newline] @ ''transaction_id=t'') ''i'' ''dvp'' ''[]'')"
  by (rule message_domains_separated) simp

text \<open>The texts of well-formed standalone messages determine them.\<close>

lemma response_inject:
  "value_ok t \<Longrightarrow> value_ok h \<Longrightarrow> value_ok c \<Longrightarrow> value_ok p \<Longrightarrow> value_ok v \<Longrightarrow>
   fields_of (canonical_prepare_response (\<lambda>b. p) t h c [] v) =
     [(''msg_type'', ''PrepareTransactionResponse''), (''transaction_id'', t),
      (''prepared_transaction_hash'', h), (''command_id'', p), (''prepared_transaction'', c),
      (''hashing_scheme_version'', v)]"
  by (simp add: canonical_prepare_response_def)

lemma messages_determine:
  assumes "message_ok m" and "message_ok m'" and "fields_of (canonical_of m) = fields_of (canonical_of m')"
  shows "m = m'"
  using assms by (cases m; cases m') (simp_all add: message_defs split: option.splits)

interpretation messages: signed_text canonical_of message_ok id
  by unfold_locales (simp_all add: messages_determine)

section \<open>Signing and verifying\<close>

record crypto =
  cr_sha256 :: "bytes \<Rightarrow> bytes"
  cr_sign :: "bytes \<Rightarrow> bytes \<Rightarrow> bytes"
  cr_public :: "bytes \<Rightarrow> bytes"
  cr_key_error :: "bytes \<Rightarrow> string option"
  cr_verify :: "bytes \<Rightarrow> bytes \<Rightarrow> bytes \<Rightarrow> bool"
  cr_b64 :: "bytes \<Rightarrow> string"
  cr_unb64 :: "string \<Rightarrow> string + bytes"
  cr_b64url :: "bytes \<Rightarrow> string"
  cr_unb64url :: "string \<Rightarrow> string + bytes"

definition SIGNING_SCHEME :: string where
  "SIGNING_SCHEME = ''ed25519-sha256-v1''"

record message_signature =
  ms_signature :: string
  ms_public_key :: string
  ms_scheme :: string

definition sign_canonical :: "crypto \<Rightarrow> bytes \<Rightarrow> string \<Rightarrow> message_signature" where
  "sign_canonical cr private_key canonical =
     (let hash = cr_sha256 cr (str_bytes canonical)
      in \<lparr>ms_signature = cr_b64 cr (cr_sign cr private_key hash),
          ms_public_key = cr_b64url cr (cr_public cr private_key),
          ms_scheme = SIGNING_SCHEME\<rparr>)"

definition verify_canonical :: "crypto \<Rightarrow> bytes \<Rightarrow> string \<Rightarrow> string \<Rightarrow> string \<Rightarrow> unit result" where
  "verify_canonical cr public_key canonical sig_b64 scheme =
     (if scheme \<noteq> SIGNING_SCHEME
      then Inl [Lit (''Unsupported signing scheme '' @ [CHR 0x27]), Arg scheme,
             Lit ([CHR 0x27] @ '', expected '' @ [CHR 0x27]), Arg SIGNING_SCHEME, Lit [CHR 0x27]]
      else case cr_key_error cr public_key of
        Some e \<Rightarrow> Inl [Lit ''Invalid public key: '', Arg e]
      | None \<Rightarrow> (case cr_unb64 cr sig_b64 of
          Inl e \<Rightarrow> Inl [Lit ''Invalid signature base64: '', Arg e]
        | Inr sig \<Rightarrow>
            if length sig \<noteq> 64
            then Inl [Lit ''Invalid signature length: expected 64 bytes, got '', Num (int (length sig))]
            else if cr_verify cr public_key (cr_sha256 cr (str_bytes canonical)) sig then Inr ()
            else Inl [Lit ''Message signature verification failed'']))"

definition parse_public_key :: "crypto \<Rightarrow> string \<Rightarrow> bytes result" where
  "parse_public_key cr s =
     (case cr_unb64url cr s of
        Inl e \<Rightarrow> Inl [Lit ''Invalid public key base64url: '', Arg e]
      | Inr b \<Rightarrow>
          if length b = 32 then Inr b
          else Inl [Lit ''Invalid public key length: expected 32 bytes, got '', Num (int (length b))])"

lemma verify_canonical_iff:
  "verify_canonical cr pk canonical sig_b64 scheme = Inr () \<longleftrightarrow>
   scheme = SIGNING_SCHEME \<and> cr_key_error cr pk = None
   \<and> (\<exists>sig. cr_unb64 cr sig_b64 = Inr sig \<and> length sig = 64
        \<and> cr_verify cr pk (cr_sha256 cr (str_bytes canonical)) sig)"
  by (auto simp: verify_canonical_def split: option.splits sum.splits)

lemma parse_public_key_iff:
  "parse_public_key cr s = Inr k \<longleftrightarrow> cr_unb64url cr s = Inr k \<and> length k = 32"
  by (auto simp: parse_public_key_def split: sum.splits)

text \<open>What the libraries document: signatures verify, and decoding inverts encoding.\<close>

definition crypto_laws :: "crypto \<Rightarrow> bytes \<Rightarrow> bool" where
  "crypto_laws cr sk \<longleftrightarrow>
     (\<forall>h. length (cr_sign cr sk h) = 64 \<and> cr_verify cr (cr_public cr sk) h (cr_sign cr sk h))
     \<and> length (cr_public cr sk) = 32 \<and> cr_key_error cr (cr_public cr sk) = None
     \<and> (\<forall>b. cr_unb64 cr (cr_b64 cr b) = Inr b) \<and> (\<forall>b. cr_unb64url cr (cr_b64url cr b) = Inr b)"

text \<open>
  A signature made with a private key verifies: the public key it carries parses to the
  key's own, and with it the text and the scheme are accepted.
\<close>

theorem sign_verify_roundtrip:
  assumes "crypto_laws cr sk" and "s = sign_canonical cr sk canonical"
  shows "parse_public_key cr (ms_public_key s) = Inr (cr_public cr sk)
    \<and> verify_canonical cr (cr_public cr sk) canonical (ms_signature s) (ms_scheme s) = Inr ()"
  using assms by (simp add: crypto_laws_def sign_canonical_def Let_def verify_canonical_iff parse_public_key_iff)

text \<open>An instance of the laws.\<close>

definition sample_crypto :: crypto where
  "sample_crypto = \<lparr>cr_sha256 = (\<lambda>b. b), cr_sign = (\<lambda>sk h. take 64 (h @ replicate 64 0)),
     cr_public = (\<lambda>sk. take 32 (sk @ replicate 32 0)), cr_key_error = (\<lambda>k. None),
     cr_verify = (\<lambda>k h s. s = take 64 (h @ replicate 64 0)),
     cr_b64 = map (\<lambda>w. char_of (unat w)), cr_unb64 = (\<lambda>s. Inr (str_bytes s)),
     cr_b64url = map (\<lambda>w. char_of (unat w)), cr_unb64url = (\<lambda>s. Inr (str_bytes s))\<rparr>"

lemma char_byte_char_of [simp]: "char_byte (char_of (unat w)) = w" for w :: u8
proof -
  have "unat w < 256" using unsigned_less [of w, where 'a = nat] by simp
  then show ?thesis by (simp add: char_byte_def take_bit_nat_eq_self)
qed

lemma str_bytes_chars [simp]: "str_bytes (map (\<lambda>w. char_of (unat w)) b) = b" for b :: bytes
  by (simp add: str_bytes_def o_def)

lemma sample_crypto_laws: "crypto_laws sample_crypto sk"
  by (auto simp: crypto_laws_def sample_crypto_def min_def)

theorem sign_verify_roundtrip_witness:
  "verify_canonical sample_crypto (cr_public sample_crypto [1]) ''a=b''
     (ms_signature (sign_canonical sample_crypto [1] ''a=b''))
     (ms_scheme (sign_canonical sample_crypto [1] ''a=b'')) = Inr ()"
  using sign_verify_roundtrip [OF sample_crypto_laws [of "[1]"] refl, of "''a=b''"] by blast

end
