(* ===== verification/Json.thy ===== *)
theory Json
  imports Prelude
begin

text \<open>
  \<open>serde_json::Value\<close> and the accessors the sources use: \<open>get\<close> and \<open>as_str\<close>, and \<open>pointer\<close>
  with its path already split at the slashes (no path of the sources has an escape or an
  array index). A number is kept as its text.
\<close>

datatype jval =
    JNull | JBool bool | JNumber string | JString string | JArray "jval list"
  | JObject "(string \<times> jval) list"

definition json_get :: "jval \<Rightarrow> string \<Rightarrow> jval option" where
  "json_get v k = (case v of JObject kvs \<Rightarrow> map_of kvs k | _ \<Rightarrow> None)"

definition as_str :: "jval \<Rightarrow> string option" where
  "as_str v = (case v of JString s \<Rightarrow> Some s | _ \<Rightarrow> None)"

definition string_at :: "jval \<Rightarrow> string \<Rightarrow> string option" where
  "string_at v k = Option.bind (json_get v k) as_str"

fun json_pointer :: "jval \<Rightarrow> string list \<Rightarrow> jval option" where
  "json_pointer v [] = Some v"
| "json_pointer v (k # ks) =
     (case json_get v k of None \<Rightarrow> None | Some w \<Rightarrow> json_pointer w ks)"

lemma json_pointer_append:
  "json_pointer v (p @ q) = Option.bind (json_pointer v p) (\<lambda>w. json_pointer w q)"
  by (induction v p rule: json_pointer.induct) (auto split: option.split)

end
