(* ===== verification/Authorization.thy ===== *)
theory Authorization
  imports Signed_Messages Json
begin

text \<open>
  Where signed texts are checked: \<open>verify_persisted_fee_authorization\<close> of
  \<open>crates/message-signing/src/lib.rs\<close>, which rebuilds the text of a stored authorization,
  and the checks of \<open>DAppProviderClient::prepare_transaction\<close> and \<open>verify_server_key\<close> of
  \<open>ledger_client.rs\<close> on the response of the ledger service.
\<close>

section \<open>Stored authorizations\<close>

record persisted_authorization =
  pa_nonce :: string
  pa_msg_type :: string
  pa_context :: "jval option"
  pa_party_id :: string
  pa_fees_json :: string
  pa_signature :: string
  pa_public_key :: string
  pa_scheme :: string

definition context_string :: "jval \<Rightarrow> string \<Rightarrow> string result" where
  "context_string ctx k =
     ok_or (string_at ctx k) [Lit (''context_json.'' @ k @ '' missing or not a string'')]"

definition persisted_canonical :: "persisted_authorization \<Rightarrow> string result" where
  "persisted_canonical row =
     (if pa_msg_type row = ''TxFeesAuthorization''
      then Inr (canonical_tx_fees_authorization (pa_party_id row) (pa_nonce row) (pa_fees_json row))
      else if pa_msg_type row = ''PayFeeAuthorization''
      then try_bind (with_ctx (pa_context row)
             ''PayFeeAuthorization row missing context_json (need proposal_id + fee_type)'') (\<lambda>ctx.
           try_bind (context_string ctx ''proposal_id'') (\<lambda>proposal_id.
           try_bind (context_string ctx ''fee_type'') (\<lambda>fee_type.
           Inr (canonical_pay_fee_authorization (pa_party_id row) (pa_nonce row) proposal_id fee_type
                  (pa_fees_json row)))))
      else if pa_msg_type row = ''OffChainAuthorization''
      then try_bind (with_ctx (pa_context row)
             ''OffChainAuthorization row missing context_json (need source_kind + external_id)'') (\<lambda>ctx.
           try_bind (context_string ctx ''source_kind'') (\<lambda>source_kind.
           try_bind (context_string ctx ''external_id'') (\<lambda>external_id.
           Inr (canonical_off_chain_authorization (pa_party_id row) (pa_nonce row) source_kind external_id
                  (pa_fees_json row)))))
      else Inl [Lit (''Unknown msg_type '' @ [CHR 0x27]), Arg (pa_msg_type row), Lit [CHR 0x27]])"

definition verify_persisted_fee_authorization :: "crypto \<Rightarrow> persisted_authorization \<Rightarrow> unit result" where
  "verify_persisted_fee_authorization cr row =
     (if pa_nonce row = []
      then Inl [Lit ''Cannot verify pre-046 auth row: `nonce` is empty (the binding evidence was not persisted)'']
      else try_bind (persisted_canonical row) (\<lambda>canonical.
           try_bind (case parse_public_key cr (pa_public_key row) of
               Inl e \<Rightarrow> Inl ([Lit ''Invalid public_key: ''] @ e) | Inr k \<Rightarrow> Inr k) (\<lambda>key.
           verify_canonical cr key canonical (pa_signature row) (pa_scheme row))))"

text \<open>The authorization that a row stands for.\<close>

definition row_message :: "persisted_authorization \<Rightarrow> signed_message option" where
  "row_message row =
     (if pa_msg_type row = ''TxFeesAuthorization''
      then Some (TxFeesAuthorizationM (pa_party_id row) (pa_nonce row) (pa_fees_json row))
      else if pa_msg_type row = ''PayFeeAuthorization''
      then Option.bind (pa_context row) (\<lambda>ctx. Option.bind (string_at ctx ''proposal_id'') (\<lambda>i.
           map_option (\<lambda>t. PayFeeAuthorizationM (pa_party_id row) (pa_nonce row) i t (pa_fees_json row))
             (string_at ctx ''fee_type'')))
      else if pa_msg_type row = ''OffChainAuthorization''
      then Option.bind (pa_context row) (\<lambda>ctx. Option.bind (string_at ctx ''source_kind'') (\<lambda>k.
           map_option (\<lambda>x. OffChainAuthorizationM (pa_party_id row) (pa_nonce row) k x (pa_fees_json row))
             (string_at ctx ''external_id'')))
      else None)"

lemma bind_eq_Some [simp]: "Option.bind x f = Some y \<longleftrightarrow> (\<exists>v. x = Some v \<and> f v = Some y)"
  by (cases x) auto

lemma persisted_canonical_Inr:
  "persisted_canonical row = Inr c \<longleftrightarrow> (\<exists>m. row_message row = Some m \<and> c = canonical_of m)"
proof -
  have "string_at ctx k = Some s \<longleftrightarrow> context_string ctx k = Inr s" for ctx k s
    by (simp add: context_string_def result_simps)
  then show ?thesis
    by (auto simp: persisted_canonical_def row_message_def result_simps)
qed

text \<open>
  A stored authorization is certified exactly when its nonce is there, its type is known
  with the context that the type needs, its key parses, its scheme is the current one, and
  its signature verifies over the text of the very authorization the row stands for.
\<close>

theorem persisted_verification:
  "verify_persisted_fee_authorization cr row = Inr () \<longleftrightarrow>
   pa_nonce row \<noteq> [] \<and> pa_scheme row = SIGNING_SCHEME
   \<and> (\<exists>m key sig. row_message row = Some m
        \<and> cr_unb64url cr (pa_public_key row) = Inr key \<and> length key = 32 \<and> cr_key_error cr key = None
        \<and> cr_unb64 cr (pa_signature row) = Inr sig \<and> length sig = 64
        \<and> cr_verify cr key (cr_sha256 cr (str_bytes (canonical_of m))) sig)"
proof -
  have key: "(case x of Inl e \<Rightarrow> Inl ([Lit ''Invalid public_key: ''] @ e) | Inr k \<Rightarrow> Inr k) = Inr k
    \<longleftrightarrow> x = Inr k" for x :: "bytes result" and k
    by (cases x) simp_all
  show ?thesis
    unfolding verify_persisted_fee_authorization_def
    by (auto simp: result_simps key persisted_canonical_Inr parse_public_key_iff verify_canonical_iff
        split: if_splits)
qed

lemma row_message_ok_type: "row_message row = Some m \<Longrightarrow> msg_type m = pa_msg_type row"
  by (auto simp: row_message_def split: if_splits)

text \<open>
  Stored rows with well-formed values have the same signed text only when they are the
  same authorization: same type, party, nonce, fees and context, so that no signature can be
  moved to another party, session, schedule or source.
\<close>

theorem persisted_rows_bound:
  assumes "row_message row = Some m" and "message_ok m"
    and "row_message row' = Some m'" and "message_ok m'"
    and "persisted_canonical row = persisted_canonical row'"
  shows "m = m' \<and> pa_msg_type row = pa_msg_type row'"
proof -
  have "persisted_canonical row = Inr (canonical_of m)" "persisted_canonical row' = Inr (canonical_of m')"
    using assms(1,3) by (auto simp: persisted_canonical_Inr)
  then have "m = m'" using assms(2,4,5) messages.text_iff by simp
  with row_message_ok_type [OF assms(1)] row_message_ok_type [OF assms(3)] show ?thesis by simp
qed

definition sample_row :: "jval \<Rightarrow> string \<Rightarrow> persisted_authorization" where
  "sample_row ctx sig = \<lparr>pa_nonce = ''n'', pa_msg_type = ''OffChainAuthorization'', pa_context = Some ctx,
     pa_party_id = ''p'', pa_fees_json = ''[]'', pa_signature = sig, pa_public_key = ''k'',
     pa_scheme = SIGNING_SCHEME\<rparr>"

theorem persisted_rows_bound_witness:
  "row_message (sample_row (JObject [(''source_kind'', JString ''s''), (''external_id'', JString ''1'')]) ''x'')
   = row_message (sample_row (JObject [(''external_id'', JString ''1''), (''source_kind'', JString ''s'')]) ''y'')"
proof -
  let ?m = "OffChainAuthorizationM ''p'' ''n'' ''s'' ''1'' ''[]''"
  let ?a = "sample_row (JObject [(''source_kind'', JString ''s''), (''external_id'', JString ''1'')]) ''x''"
  let ?b = "sample_row (JObject [(''external_id'', JString ''1''), (''source_kind'', JString ''s'')]) ''y''"
  have a: "row_message ?a = Some ?m" "row_message ?b = Some ?m" "message_ok ?m"
    by code_simp+
  have "persisted_canonical ?a = persisted_canonical ?b" by code_simp
  from persisted_rows_bound [OF a(1,3) a(2,3) this] a show ?thesis by simp
qed

section \<open>The response to a prepare request\<close>

record prepare_response =
  rs_transaction_id :: string
  rs_hash :: string
  rs_command_id :: string
  rs_prepared :: bytes
  rs_version :: string
  rs_fees_json :: string
  rs_response_signature :: "message_signature option"
  rs_fees_signature :: "message_signature option"

record ledger_client =
  lc_party_id :: string
  lc_server_key :: bytes

definition context_of :: "string \<Rightarrow> 'a result \<Rightarrow> 'a result" where
  "context_of s m = (case m of Inl e \<Rightarrow> Inl ([Lit s, Lit '': ''] @ e) | Inr x \<Rightarrow> Inr x)"

definition verify_server_key :: "crypto \<Rightarrow> ledger_client \<Rightarrow> string \<Rightarrow> unit result" where
  "verify_server_key cr lc public_key =
     try_bind (context_of ''Failed to parse ledger service public key from response''
       (parse_public_key cr public_key)) (\<lambda>key.
     if key \<noteq> lc_server_key lc
     then Inl [Lit (''Ledger service public key mismatch '' @ [CHR 0xE2, CHR 0x80, CHR 0x94]
            @ '' response key does not match configured LEDGER_SERVICE_PUBLIC_KEY'')]
     else Inr ())"

definition check_prepare_response :: "crypto \<Rightarrow> ledger_client \<Rightarrow> prepare_response \<Rightarrow> unit result" where
  "check_prepare_response cr lc r =
     try_bind (with_ctx (rs_response_signature r) ''Missing response_signature from ledger service'') (\<lambda>resp_sig.
     try_bind (verify_server_key cr lc (ms_public_key resp_sig)) (\<lambda>_.
     let canonical_resp = canonical_prepare_response (cr_b64 cr) (rs_transaction_id r) (rs_hash r)
           (rs_command_id r) (rs_prepared r) (rs_version r) in
     try_bind (context_of ''PrepareTransaction response signature verification failed''
       (verify_canonical cr (lc_server_key lc) canonical_resp (ms_signature resp_sig) (ms_scheme resp_sig))) (\<lambda>_.
     try_bind (with_ctx (rs_fees_signature r) ''Missing fees_signature from ledger service'') (\<lambda>fees_sig.
     try_bind (verify_server_key cr lc (ms_public_key fees_sig)) (\<lambda>_.
     let fees_canonical = canonical_tx_fees_authorization (lc_party_id lc) (rs_transaction_id r)
           (rs_fees_json r) in
     context_of ''PrepareTransaction fees_signature verification failed''
       (verify_canonical cr (lc_server_key lc) fees_canonical (ms_signature fees_sig) (ms_scheme fees_sig)))))))"

lemma context_of_Inr [result_simps]: "context_of s m = Inr x \<longleftrightarrow> m = Inr x"
  by (cases m) (simp_all add: context_of_def)

text \<open>The two messages that the client takes a response for.\<close>

definition response_message :: "crypto \<Rightarrow> prepare_response \<Rightarrow> signed_message" where
  "response_message cr r = PrepareTransactionResponseM (rs_transaction_id r) (rs_hash r)
     (rs_command_id r) (cr_b64 cr (rs_prepared r)) (rs_version r)"

definition fees_message :: "ledger_client \<Rightarrow> prepare_response \<Rightarrow> signed_message" where
  "fees_message lc r =
     TxFeesAuthorizationM (lc_party_id lc) (rs_transaction_id r) (rs_fees_json r)"

lemma response_canonical:
  "canonical_prepare_response (cr_b64 cr) (rs_transaction_id r) (rs_hash r) (rs_command_id r)
     (rs_prepared r) (rs_version r) = canonical_of (response_message cr r)"
  by (simp add: response_message_def canonical_prepare_response_def)

lemma check_prepare_response_verified:
  assumes "check_prepare_response cr lc r = Inr ()"
  shows "\<exists>s t. cr_verify cr (lc_server_key lc) (cr_sha256 cr (str_bytes (canonical_of (response_message cr r)))) s
     \<and> cr_verify cr (lc_server_key lc) (cr_sha256 cr (str_bytes (canonical_of (fees_message lc r)))) t"
  using assms
  by (auto simp: check_prepare_response_def Let_def result_simps verify_canonical_iff
      response_canonical fees_message_def)

text \<open>
  C38: If the server's key verifies nothing but the texts of the well-formed messages that
  the server signed, then every response the client accepts was signed by the server as
  such: its transaction id, hash, command id, transaction bytes and version as a prepare
  response, and its fees for this party and this transaction id.
\<close>

theorem response_authentic:
  assumes "check_prepare_response cr lc r = Inr ()"
    and "\<forall>t s. cr_verify cr (lc_server_key lc) (cr_sha256 cr (str_bytes t)) s \<longrightarrow>
           (\<exists>m \<in> sent. message_ok m \<and> t = canonical_of m)"
    and "message_ok (response_message cr r)" and "message_ok (fees_message lc r)"
  shows "response_message cr r \<in> sent \<and> fees_message lc r \<in> sent"
proof -
  obtain s t where
    "cr_verify cr (lc_server_key lc) (cr_sha256 cr (str_bytes (canonical_of (response_message cr r)))) s"
    "cr_verify cr (lc_server_key lc) (cr_sha256 cr (str_bytes (canonical_of (fees_message lc r)))) t"
    using check_prepare_response_verified [OF assms(1)] by blast
  then obtain m m' where "m \<in> sent" "message_ok m" "canonical_of (response_message cr r) = canonical_of m"
    "m' \<in> sent" "message_ok m'" "canonical_of (fees_message lc r) = canonical_of m'"
    using assms(2) by meson
  then show ?thesis
    using messages.text_iff [OF assms(3)] messages.text_iff [OF assms(4)] by simp
qed

definition sample_signature :: message_signature where
  "sample_signature = \<lparr>ms_signature = replicate 64 (CHR ''s''), ms_public_key = replicate 32 (CHR ''k''),
     ms_scheme = SIGNING_SCHEME\<rparr>"

definition sample_response :: prepare_response where
  "sample_response = \<lparr>rs_transaction_id = ''t'', rs_hash = ''h'', rs_command_id = ''c'',
     rs_prepared = [65, 66], rs_version = ''V2'', rs_fees_json = ''[]'',
     rs_response_signature = Some sample_signature, rs_fees_signature = Some sample_signature\<rparr>"

definition sample_client :: ledger_client where
  "sample_client = \<lparr>lc_party_id = ''p'', lc_server_key = replicate 32 (char_byte (CHR ''k''))\<rparr>"

definition sample_sent :: "signed_message list" where
  "sample_sent = [PrepareTransactionResponseM ''t'' ''h'' ''c'' ''AB'' ''V2'', TxFeesAuthorizationM ''p'' ''t'' ''[]'']"

definition server_crypto :: crypto where
  "server_crypto = sample_crypto\<lparr>cr_verify :=
     (\<lambda>k h s. list_ex (\<lambda>m. h = str_bytes (canonical_of m)) sample_sent)\<rparr>"

lemma sample_response_accepted: "check_prepare_response server_crypto sample_client sample_response = Inr ()"
  by code_simp

theorem response_authentic_witness:
  "response_message server_crypto sample_response \<in> set sample_sent
   \<and> fees_message sample_client sample_response \<in> set sample_sent"
proof (rule response_authentic [OF sample_response_accepted])
  have "\<forall>m \<in> set sample_sent. message_ok m" by code_simp
  then show "\<forall>t s. cr_verify server_crypto (lc_server_key sample_client)
      (cr_sha256 server_crypto (str_bytes t)) s \<longrightarrow> (\<exists>m \<in> set sample_sent. message_ok m \<and> t = canonical_of m)"
    by (auto simp: server_crypto_def sample_crypto_def list_ex_iff)
qed code_simp+

text \<open>
  Read back, the signed text of a prepare response holds the transaction under
  \<open>command_id\<close> and the command id under \<open>prepared_transaction\<close>: the two values are swapped.
\<close>

theorem prepare_response_labels_swapped:
  assumes "message_ok (response_message cr r)"
  shows "map_of (fields_of (canonical_of (response_message cr r))) ''command_id'' = Some (cr_b64 cr (rs_prepared r))
    \<and> map_of (fields_of (canonical_of (response_message cr r))) ''prepared_transaction'' = Some (rs_command_id r)"
  using assms by (simp add: response_message_def response_inject)

theorem prepare_response_labels_swapped_witness:
  "map_of (fields_of (canonical_of (response_message server_crypto sample_response))) ''command_id'' = Some ''AB''"
proof -
  have "message_ok (response_message server_crypto sample_response)"
    "cr_b64 server_crypto (rs_prepared sample_response) = ''AB''" by code_simp+
  with prepare_response_labels_swapped show ?thesis by metis
qed

end
