(* ===== verification/Atomic_Quote.thy ===== *)
theory Atomic_Quote
  imports Canonical
begin

text \<open>
  \<open>crates/atomic-quote/src/lib.rs\<close>: the canonical quote message that the venue's key signs
  and its signature. \<open>rust_decimal\<close>, secp256k1, SHA-256, hex and Unicode lower-casing are
  third-party or table-driven code: the records \<open>decimal_ops\<close> and \<open>quote_crypto\<close> hold
  them as parameters.
\<close>

section \<open>Decimals\<close>

text \<open>The operations of \<open>Decimal\<close> that the crate calls, and the number a value stands for.\<close>

record 'd decimal_ops =
  d_normalize :: "'d \<Rightarrow> 'd"
  d_scale :: "'d \<Rightarrow> nat"
  d_is_zero :: "'d \<Rightarrow> bool"
  d_to_string :: "'d \<Rightarrow> string"
  d_from_str :: "string \<Rightarrow> string + 'd"
  d_value :: "'d \<Rightarrow> rat"

definition render_decimal :: "'d decimal_ops \<Rightarrow> 'd \<Rightarrow> string result" where
  "render_decimal D v =
     (let n = d_normalize D v in
      if d_scale D n > 10
      then Inl [Lit ''amount has more than 10 decimal places: '', Arg (d_to_string D v)]
      else if d_is_zero D n then Inr ''0.0''
      else let s = d_to_string D n in
        Inr (if CHR ''.'' \<in> set s then s else s @ ''.0''))"

text \<open>
  What \<open>rust_decimal\<close> documents: a normalized value prints as a plain number, without
  trailing fractional zeros, that determines its value.
\<close>

definition decimal_laws :: "'d decimal_ops \<Rightarrow> bool" where
  "decimal_laws D \<longleftrightarrow>
     (\<forall>v w. d_to_string D (d_normalize D v) = d_to_string D (d_normalize D w)
        \<longleftrightarrow> d_value D v = d_value D w)
     \<and> (\<forall>v. newline \<notin> set (d_to_string D v))
     \<and> (\<forall>v. CHR ''.'' \<in> set (d_to_string D (d_normalize D v)) \<longrightarrow>
          last (d_to_string D (d_normalize D v)) \<noteq> CHR ''0'')
     \<and> (\<forall>v. d_is_zero D (d_normalize D v) \<longleftrightarrow> d_value D v = 0)
     \<and> (\<forall>v. d_value D v \<noteq> 0 \<longrightarrow> d_to_string D (d_normalize D v) \<noteq> ''0'')"

lemma decimal_lawsD:
  assumes "decimal_laws D"
  shows "d_to_string D (d_normalize D v) = d_to_string D (d_normalize D w) \<longleftrightarrow> d_value D v = d_value D w"
    and "newline \<notin> set (d_to_string D v)"
    and "CHR ''.'' \<in> set (d_to_string D (d_normalize D v)) \<Longrightarrow>
          last (d_to_string D (d_normalize D v)) \<noteq> CHR ''0''"
    and "d_is_zero D (d_normalize D v) \<longleftrightarrow> d_value D v = 0"
    and "d_value D v \<noteq> 0 \<Longrightarrow> d_to_string D (d_normalize D v) \<noteq> ''0''"
  using assms unfolding decimal_laws_def by blast+

lemma render_decimal_value_ok:
  "decimal_laws D \<Longrightarrow> render_decimal D v = Inr s \<Longrightarrow> value_ok s"
  using decimal_lawsD(2) [of D]
  by (auto simp: render_decimal_def value_ok_def Let_def split: if_splits)

lemma render_decimal_inject:
  assumes laws: "decimal_laws D" and v: "render_decimal D v = Inr s" and w: "render_decimal D w = Inr s"
  shows "d_value D v = d_value D w"
proof -
  let ?t = "\<lambda>v. d_to_string D (d_normalize D v)"
  define u where "u v = (if CHR ''.'' \<in> set (?t v) then ?t v else ?t v @ ''.0'')" for v
  have zero: "d_is_zero D (d_normalize D x) \<longleftrightarrow> d_value D x = 0" for x
    by (rule decimal_lawsD(4) [OF laws])
  have dot: "CHR ''.'' \<in> set (?t x) \<Longrightarrow> last (?t x) \<noteq> CHR ''0''" for x
    by (rule decimal_lawsD(3) [OF laws])
  have nz: "u x \<noteq> ''0.0''" if "d_value D x \<noteq> 0" for x
  proof
    assume eq: "u x = ''0.0''"
    show False
    proof (cases "CHR ''.'' \<in> set (?t x)")
      case True
      with eq dot [of x] show False by (simp add: u_def)
    next
      case False
      then have "?t x @ ''.0'' = ''0'' @ ''.0''" using eq by (simp add: u_def)
      then have "?t x = ''0''" by (simp only: append_same_eq)
      with decimal_lawsD(5) [OF laws that] show False by blast
    qed
  qed
  have "?t x = ?t y" if eq: "u x = u y" for x y
  proof (cases "CHR ''.'' \<in> set (?t x) \<longleftrightarrow> CHR ''.'' \<in> set (?t y)")
    case True
    with eq show ?thesis by (auto simp: u_def split: if_splits)
  next
    case False
    with eq dot [of x] dot [of y] show ?thesis
      by (auto simp: u_def split: if_splits) (metis last.simps last_appendR list.discI)+
  qed
  then have same: "d_value D x = d_value D y" if "u x = u y" for x y
    using decimal_lawsD(1) [OF laws] that by blast
  have "s = (if d_value D v = 0 then ''0.0'' else u v)" "s = (if d_value D w = 0 then ''0.0'' else u w)"
    using v w unfolding render_decimal_def Let_def zero u_def by (auto split: if_splits)
  then show ?thesis using nz [of v] nz [of w] same [of v w]
    by (cases "d_value D v = 0"; cases "d_value D w = 0") simp_all
qed

section \<open>The canonical message\<close>

definition MSG_TYPE :: string where
  "MSG_TYPE = ''silvana.atomic-dvp.quote.v3''"

definition MSG_TYPE_V4 :: string where
  "MSG_TYPE_V4 = ''silvana.atomic-dvp.quote.v4''"

datatype quote_side = Buy | Sell

fun side_canonical :: "quote_side \<Rightarrow> string" where
  "side_canonical Buy = ''BUY''"
| "side_canonical Sell = ''SELL''"

fun side_daml :: "quote_side \<Rightarrow> string" where
  "side_daml Buy = ''Buy''"
| "side_daml Sell = ''Sell''"

definition parse_side :: "string \<Rightarrow> quote_side result" where
  "parse_side s =
     (if s \<in> {''Buy'', ''buy'', ''BUY''} then Inr Buy
      else if s \<in> {''Sell'', ''sell'', ''SELL''} then Inr Sell
      else Inl [Lit ''invalid side: '', Arg s, Lit '' (expected buy|sell)''])"

lemma parse_side_daml [simp]:
  "parse_side (side_daml x) = Inr x" "parse_side (side_canonical x) = Inr x"
  by (cases x; simp add: parse_side_def)+

record 'd lp_fee_spec =
  fs_receiver :: string
  fs_admin :: string
  fs_id :: string
  fs_amount :: 'd

record 'd quote_fields =
  qf_lp :: string
  qf_provider :: string
  qf_pair :: string
  qf_base_admin :: string
  qf_base_id :: string
  qf_quote_admin :: string
  qf_quote_instr_id :: string
  qf_user :: string
  qf_side :: quote_side
  qf_base_amount :: 'd
  qf_quote_amount :: 'd
  qf_quote_nonce :: string
  qf_created_at_micros :: int
  qf_valid_until_micros :: int
  qf_ticket_id :: string
  qf_lp_fees :: "'d lp_fee_spec list option"

definition quote_fee_key :: "nat \<Rightarrow> string \<Rightarrow> string" where
  "quote_fee_key i s = ''fee_'' @ show_nat i @ s"

fun quote_fee_lines :: "'d decimal_ops \<Rightarrow> nat \<Rightarrow> 'd lp_fee_spec list \<Rightarrow> (string \<times> string) list result" where
  "quote_fee_lines D i [] = Inr []"
| "quote_fee_lines D i (f # fs) =
     try_bind (render_decimal D (fs_amount f)) (\<lambda>a.
     try_bind (quote_fee_lines D (Suc i) fs) (\<lambda>ls.
     Inr ([(quote_fee_key i ''_receiver'', fs_receiver f), (quote_fee_key i ''_admin'', fs_admin f),
           (quote_fee_key i ''_id'', fs_id f), (quote_fee_key i ''_amount'', a)] @ ls)))"

definition quote_lines :: "'d decimal_ops \<Rightarrow> 'd quote_fields \<Rightarrow> (string \<times> string) list result" where
  "quote_lines D f =
     try_bind (render_decimal D (qf_base_amount f)) (\<lambda>base_amount.
     try_bind (render_decimal D (qf_quote_amount f)) (\<lambda>quote_amount.
     try_bind (case qf_lp_fees f of
         None \<Rightarrow> Inr MSG_TYPE
       | Some fees \<Rightarrow> if fees = []
           then Inl [Lit ''lp_fees must be non-empty when present (Some [] has no canonical encoding)'']
           else Inr MSG_TYPE_V4) (\<lambda>msg_type.
     let ls = [(''msg_type'', msg_type), (''lp'', qf_lp f), (''provider'', qf_provider f),
       (''pair'', qf_pair f), (''base_admin'', qf_base_admin f), (''base_id'', qf_base_id f),
       (''quote_admin'', qf_quote_admin f), (''quote_id'', qf_quote_instr_id f), (''user'', qf_user f),
       (''side'', side_canonical (qf_side f)), (''base_amount'', base_amount),
       (''quote_amount'', quote_amount), (''quote_nonce'', qf_quote_nonce f),
       (''created_at_micros'', show_int (qf_created_at_micros f)),
       (''valid_until_micros'', show_int (qf_valid_until_micros f)), (''ticket_id'', qf_ticket_id f)] in
     case qf_lp_fees f of
       None \<Rightarrow> Inr ls
     | Some fees \<Rightarrow> try_bind (quote_fee_lines D 0 fees) (\<lambda>fls.
         Inr (ls @ [(''fee_count'', show_nat (length fees))] @ fls)))))"

fun render_checked :: "(string \<times> string) list \<Rightarrow> string result" where
  "render_checked [] = Inr []"
| "render_checked ((k, v) # ls) =
     (if newline \<in> set v then Inl [Lit ''newline in canonical field '', Arg k]
      else try_bind (render_checked ls) (\<lambda>out. Inr (k @ ''='' @ v @ [newline] @ out)))"

definition build_canonical_message :: "'d decimal_ops \<Rightarrow> 'd quote_fields \<Rightarrow> string result" where
  "build_canonical_message D f = try_bind (quote_lines D f) render_checked"

section \<open>What the message determines\<close>

text \<open>The fields with every amount read as a number.\<close>

definition fee_terms :: "'d decimal_ops \<Rightarrow> 'd lp_fee_spec \<Rightarrow> rat lp_fee_spec" where
  "fee_terms D f = \<lparr>fs_receiver = fs_receiver f, fs_admin = fs_admin f, fs_id = fs_id f,
     fs_amount = d_value D (fs_amount f)\<rparr>"

definition quote_terms :: "'d decimal_ops \<Rightarrow> 'd quote_fields \<Rightarrow> rat quote_fields" where
  "quote_terms D f = \<lparr>qf_lp = qf_lp f, qf_provider = qf_provider f, qf_pair = qf_pair f,
     qf_base_admin = qf_base_admin f, qf_base_id = qf_base_id f, qf_quote_admin = qf_quote_admin f,
     qf_quote_instr_id = qf_quote_instr_id f, qf_user = qf_user f, qf_side = qf_side f,
     qf_base_amount = d_value D (qf_base_amount f), qf_quote_amount = d_value D (qf_quote_amount f),
     qf_quote_nonce = qf_quote_nonce f, qf_created_at_micros = qf_created_at_micros f,
     qf_valid_until_micros = qf_valid_until_micros f, qf_ticket_id = qf_ticket_id f,
     qf_lp_fees = map_option (map (fee_terms D)) (qf_lp_fees f)\<rparr>"

lemma render_checked_Inr:
  "render_checked ls = Inr s \<longleftrightarrow> (\<forall>kv \<in> set ls. value_ok (snd kv)) \<and> s = render ls"
proof (induction ls arbitrary: s)
  case (Cons kv ls)
  then show ?case
    by (cases kv) (auto simp: result_simps value_ok_def line_def)
qed auto

lemma key_ok_quote_fee [simp]: "key_ok (quote_fee_key i s) \<longleftrightarrow> key_ok s"
  using show_nat_no_char [of newline i] show_nat_no_char [of "CHR ''=''" i]
  by (auto simp: key_ok_def digit_val_def quote_fee_key_def)

lemma key_ok_suffix [simp]:
  "key_ok ''_receiver''" "key_ok ''_admin''" "key_ok ''_id''" "key_ok ''_amount''"
  by code_simp+

lemma quote_fee_lines_keys:
  "quote_fee_lines D i fs = Inr ls \<Longrightarrow> \<forall>kv \<in> set ls. key_ok (fst kv)"
  by (induction fs arbitrary: i ls) (fastforce simp: result_simps)+

lemma quote_fee_lines_inject:
  assumes laws: "decimal_laws D"
  shows "quote_fee_lines D i fs = Inr ls \<Longrightarrow> quote_fee_lines D i gs = Inr ls \<Longrightarrow>
    map (fee_terms D) fs = map (fee_terms D) gs"
proof (induction fs arbitrary: i gs ls)
  case Nil
  then show ?case by (cases gs) (auto simp: result_simps)
next
  case (Cons f fs)
  obtain g gs' where gs: "gs = g # gs'"
    using Cons.prems by (cases gs) (auto simp: result_simps)
  from Cons.prems gs obtain a ls' where
    a: "render_decimal D (fs_amount f) = Inr a" "render_decimal D (fs_amount g) = Inr a"
    and ls': "quote_fee_lines D (Suc i) fs = Inr ls'" "quote_fee_lines D (Suc i) gs' = Inr ls'"
    and eq: "fs_receiver f = fs_receiver g" "fs_admin f = fs_admin g" "fs_id f = fs_id g"
    by (auto simp: result_simps)
  have "fee_terms D f = fee_terms D g"
    using eq render_decimal_inject [OF laws a] by (simp add: fee_terms_def)
  with Cons.IH [OF ls'] gs show ?case by simp
qed

definition base_lines :: "string \<Rightarrow> string \<Rightarrow> string \<Rightarrow> 'd quote_fields \<Rightarrow> (string \<times> string) list" where
  "base_lines mt a q f = [(''msg_type'', mt), (''lp'', qf_lp f), (''provider'', qf_provider f),
     (''pair'', qf_pair f), (''base_admin'', qf_base_admin f), (''base_id'', qf_base_id f),
     (''quote_admin'', qf_quote_admin f), (''quote_id'', qf_quote_instr_id f), (''user'', qf_user f),
     (''side'', side_canonical (qf_side f)), (''base_amount'', a), (''quote_amount'', q),
     (''quote_nonce'', qf_quote_nonce f), (''created_at_micros'', show_int (qf_created_at_micros f)),
     (''valid_until_micros'', show_int (qf_valid_until_micros f)), (''ticket_id'', qf_ticket_id f)]"

lemma quote_lines_Inr:
  "quote_lines D f = Inr ls \<longleftrightarrow>
   (\<exists>a q. render_decimal D (qf_base_amount f) = Inr a \<and> render_decimal D (qf_quote_amount f) = Inr q
      \<and> (case qf_lp_fees f of
           None \<Rightarrow> ls = base_lines MSG_TYPE a q f
         | Some fees \<Rightarrow> fees \<noteq> [] \<and> (\<exists>fls. quote_fee_lines D 0 fees = Inr fls
             \<and> ls = base_lines MSG_TYPE_V4 a q f @ [(''fee_count'', show_nat (length fees))] @ fls)))"
  by (cases "qf_lp_fees f") (auto simp: quote_lines_def result_simps Let_def base_lines_def)

lemma base_lines_keys: "kv \<in> set (base_lines mt a q f) \<Longrightarrow> key_ok (fst kv)"
  by (auto simp: base_lines_def key_ok_def)

definition fee_part :: "'d decimal_ops \<Rightarrow> 'd quote_fields \<Rightarrow> (string \<times> string) list \<Rightarrow> bool" where
  "fee_part D f r \<longleftrightarrow> (case qf_lp_fees f of
     None \<Rightarrow> r = []
   | Some fees \<Rightarrow> \<exists>fls. quote_fee_lines D 0 fees = Inr fls \<and> r = (''fee_count'', show_nat (length fees)) # fls)"

definition mt_of :: "'d quote_fields \<Rightarrow> string" where
  "mt_of f = (if qf_lp_fees f = None then MSG_TYPE else MSG_TYPE_V4)"

lemma quote_lines_shape:
  assumes "quote_lines D f = Inr ls"
  obtains a q r where "render_decimal D (qf_base_amount f) = Inr a"
    and "render_decimal D (qf_quote_amount f) = Inr q" and "ls = base_lines (mt_of f) a q f @ r"
    and "fee_part D f r"
proof (cases "qf_lp_fees f")
  case None
  with assms that [of _ _ "[]"] show ?thesis by (auto simp: quote_lines_Inr fee_part_def mt_of_def)
next
  case (Some fees)
  with assms that show ?thesis by (fastforce simp: quote_lines_Inr fee_part_def mt_of_def)
qed

lemma quote_lines_keys:
  assumes "quote_lines D f = Inr ls"
  shows "\<forall>kv \<in> set ls. key_ok (fst kv)"
proof -
  obtain a q r where "ls = base_lines (mt_of f) a q f @ r" "fee_part D f r"
    using assms by (rule quote_lines_shape)
  moreover have "key_ok ''fee_count''" by code_simp
  ultimately show ?thesis
    by (auto simp: fee_part_def dest: base_lines_keys quote_fee_lines_keys [THEN bspec] split: option.splits)
qed

lemma side_canonical_inject [simp]: "side_canonical x = side_canonical y \<longleftrightarrow> x = y"
  by (cases x; cases y) simp_all

lemma base_lines_inject:
  "base_lines mt a q f @ r = base_lines mt' a' q' g @ r' \<longleftrightarrow> mt = mt' \<and> a = a' \<and> q = q' \<and> r = r'
     \<and> qf_lp f = qf_lp g \<and> qf_provider f = qf_provider g \<and> qf_pair f = qf_pair g
     \<and> qf_base_admin f = qf_base_admin g \<and> qf_base_id f = qf_base_id g
     \<and> qf_quote_admin f = qf_quote_admin g \<and> qf_quote_instr_id f = qf_quote_instr_id g
     \<and> qf_user f = qf_user g \<and> qf_side f = qf_side g \<and> qf_quote_nonce f = qf_quote_nonce g
     \<and> qf_created_at_micros f = qf_created_at_micros g
     \<and> qf_valid_until_micros f = qf_valid_until_micros g \<and> qf_ticket_id f = qf_ticket_id g"
  by (auto simp: base_lines_def)

lemma msg_types_differ: "MSG_TYPE \<noteq> MSG_TYPE_V4"
  by (simp add: MSG_TYPE_def MSG_TYPE_V4_def)

lemma quote_lines_inject:
  assumes laws: "decimal_laws D" and f: "quote_lines D f = Inr ls" and g: "quote_lines D g = Inr ls"
  shows "quote_terms D f = quote_terms D g"
proof -
  obtain a q r where a: "render_decimal D (qf_base_amount f) = Inr a" "render_decimal D (qf_quote_amount f) = Inr q"
    and fr: "ls = base_lines (mt_of f) a q f @ r" "fee_part D f r"
    using f by (rule quote_lines_shape)
  obtain a' q' r' where a': "render_decimal D (qf_base_amount g) = Inr a'" "render_decimal D (qf_quote_amount g) = Inr q'"
    and gr: "ls = base_lines (mt_of g) a' q' g @ r'" "fee_part D g r'"
    using g by (rule quote_lines_shape)
  note eq = trans [OF fr(1) [symmetric] gr(1), unfolded base_lines_inject]
  have "qf_lp_fees f = None \<longleftrightarrow> qf_lp_fees g = None"
    using eq msg_types_differ by (auto simp: mt_of_def split: if_splits)
  then have "map_option (map (fee_terms D)) (qf_lp_fees f) = map_option (map (fee_terms D)) (qf_lp_fees g)"
    using eq fr(2) gr(2)
    by (auto simp: fee_part_def split: option.splits dest: quote_fee_lines_inject [OF laws])
  moreover have "d_value D (qf_base_amount f) = d_value D (qf_base_amount g)"
    "d_value D (qf_quote_amount f) = d_value D (qf_quote_amount g)"
    using render_decimal_inject [OF laws a(1)] render_decimal_inject [OF laws a(2)] a' eq by blast+
  ultimately show ?thesis using eq by (simp add: quote_terms_def)
qed

text \<open>An instance of the laws, the decimals without a fraction.\<close>

definition nat_decimals :: "nat decimal_ops" where
  "nat_decimals = \<lparr>d_normalize = (\<lambda>n. n), d_scale = (\<lambda>n. 0), d_is_zero = (\<lambda>n. n = 0),
     d_to_string = show_nat,
     d_from_str = (\<lambda>s. case digits_val 0 s of None \<Rightarrow> Inl ''invalid'' | Some n \<Rightarrow> Inr (nat n)),
     d_value = of_nat\<rparr>"

lemma nat_decimal_laws: "decimal_laws nat_decimals"
proof -
  have "show_nat n = ''0'' \<Longrightarrow> n = 0" for n
    using digits_val_show_nat [of n] by (simp add: digit_val_def)
  then show ?thesis
    using show_nat_no_char [of newline] show_nat_no_char [of "CHR ''.''"]
    by (auto simp: decimal_laws_def nat_decimals_def digit_val_def)
qed

definition sample_quote :: "nat \<Rightarrow> string \<Rightarrow> nat lp_fee_spec list option \<Rightarrow> nat quote_fields" where
  "sample_quote amount ticket fees = \<lparr>qf_lp = ''l'', qf_provider = ''p'', qf_pair = ''A-B'',
     qf_base_admin = ''a'', qf_base_id = ''A'', qf_quote_admin = ''b'', qf_quote_instr_id = ''B'',
     qf_user = ''u'', qf_side = Buy, qf_base_amount = amount, qf_quote_amount = 5, qf_quote_nonce = ''q'',
     qf_created_at_micros = 1, qf_valid_until_micros = 9, qf_ticket_id = ticket, qf_lp_fees = fees\<rparr>"

lemma build_canonical_message_inject:
  assumes "decimal_laws D"
    and "build_canonical_message D f = Inr s" and "build_canonical_message D g = Inr s"
  shows "quote_terms D f = quote_terms D g"
proof -
  obtain ls ls' where ls: "quote_lines D f = Inr ls" "\<forall>kv \<in> set ls. value_ok (snd kv)" "s = render ls"
    "quote_lines D g = Inr ls'" "\<forall>kv \<in> set ls'. value_ok (snd kv)" "s = render ls'"
    using assms(2,3) by (auto simp: build_canonical_message_def result_simps render_checked_Inr)
  have "fields_of (render ls) = ls" "fields_of (render ls') = ls'"
    using fields_of_render [of ls "[]"] fields_of_render [of ls' "[]"] ls(2,5)
      quote_lines_keys [OF ls(1)] quote_lines_keys [OF ls(4)] by (auto simp: case_prod_unfold)
  with ls(3,6) have "ls = ls'" by simp
  with quote_lines_inject [OF assms(1) ls(1)] ls(4) show ?thesis by blast
qed

text \<open>
  A canonical quote message determines the quote: two field sets with the same message
  agree on parties, instruments, side, nonce, times, ticket and fees, and on every amount as
  a number; a message with fees (v4) is never one without (v3). Unlike in the request texts,
  no well-formedness is assumed, as the builder rejects newlines itself.
\<close>

theorem quote_message_binding:
  assumes "decimal_laws D"
    and "build_canonical_message D f = Inr s" and "build_canonical_message D g = Inr s"
  shows "quote_terms D f = quote_terms D g"
  using assms by (rule build_canonical_message_inject)

theorem quote_message_binding_witness:
  "\<exists>s. build_canonical_message nat_decimals (sample_quote 7 [] None) = Inr s
     \<and> build_canonical_message nat_decimals (sample_quote 8 [] None) \<noteq> Inr s"
proof -
  have "\<not> isl (build_canonical_message nat_decimals (sample_quote 7 [] None))" by code_simp
  then obtain s where s: "build_canonical_message nat_decimals (sample_quote 7 [] None) = Inr s"
    by (cases "build_canonical_message nat_decimals (sample_quote 7 [] None)") auto
  have "quote_terms nat_decimals (sample_quote 7 [] None) \<noteq> quote_terms nat_decimals (sample_quote 8 [] None)"
    by (simp add: quote_terms_def sample_quote_def nat_decimals_def)
  with s quote_message_binding [OF nat_decimal_laws s] show ?thesis by blast
qed

definition quote_amounts :: "'d quote_fields \<Rightarrow> 'd list" where
  "quote_amounts f = [qf_base_amount f, qf_quote_amount f]
     @ (case qf_lp_fees f of None \<Rightarrow> [] | Some fees \<Rightarrow> map fs_amount fees)"

definition quote_texts :: "'d quote_fields \<Rightarrow> string list" where
  "quote_texts f = [qf_lp f, qf_provider f, qf_pair f, qf_base_admin f, qf_base_id f, qf_quote_admin f,
       qf_quote_instr_id f, qf_user f, qf_quote_nonce f, qf_ticket_id f]
     @ (case qf_lp_fees f of None \<Rightarrow> []
        | Some fees \<Rightarrow> concat (map (\<lambda>x. [fs_receiver x, fs_admin x, fs_id x]) fees))"

lemma render_decimal_total:
  "(\<exists>s. render_decimal D v = Inr s) \<longleftrightarrow> d_scale D (d_normalize D v) \<le> 10"
  by (auto simp: render_decimal_def Let_def)

lemma quote_fee_lines_total:
  "(\<exists>ls. quote_fee_lines D i fs = Inr ls) \<longleftrightarrow> (\<forall>f \<in> set fs. d_scale D (d_normalize D (fs_amount f)) \<le> 10)"
  by (induction fs arbitrary: i) (auto simp: result_simps simp flip: render_decimal_total)

lemma quote_fee_lines_values:
  assumes laws: "decimal_laws D"
  shows "quote_fee_lines D i fs = Inr ls \<Longrightarrow>
    (\<forall>kv \<in> set ls. value_ok (snd kv)) \<longleftrightarrow>
    (\<forall>f \<in> set fs. value_ok (fs_receiver f) \<and> value_ok (fs_admin f) \<and> value_ok (fs_id f))"
proof (induction fs arbitrary: i ls)
  case (Cons f fs)
  then obtain a ls' where a: "render_decimal D (fs_amount f) = Inr a"
    and ls': "quote_fee_lines D (Suc i) fs = Inr ls'"
    and ls: "ls = [(quote_fee_key i ''_receiver'', fs_receiver f), (quote_fee_key i ''_admin'', fs_admin f),
       (quote_fee_key i ''_id'', fs_id f), (quote_fee_key i ''_amount'', a)] @ ls'"
    by (auto simp: result_simps)
  show ?case using Cons.IH [OF ls'] render_decimal_value_ok [OF laws a] by (simp add: ls)
qed simp

lemma value_ok_side [simp]: "value_ok (side_canonical x)" "value_ok MSG_TYPE" "value_ok MSG_TYPE_V4"
  by (cases x; simp add: value_ok_def MSG_TYPE_def MSG_TYPE_V4_def)+

lemma quote_lines_total:
  "(\<exists>ls. quote_lines D f = Inr ls) \<longleftrightarrow>
   (\<forall>a \<in> set (quote_amounts f). d_scale D (d_normalize D a) \<le> 10) \<and> qf_lp_fees f \<noteq> Some []"
proof (cases "qf_lp_fees f")
  case None
  then show ?thesis
    by (simp add: quote_lines_Inr quote_amounts_def render_decimal_total [symmetric]) blast
next
  case (Some fees)
  then show ?thesis
    using quote_fee_lines_total [of D 0 fees]
    by (auto simp: quote_lines_Inr quote_amounts_def simp flip: render_decimal_total)
qed

lemma quote_lines_values:
  assumes laws: "decimal_laws D" and f: "quote_lines D f = Inr ls"
  shows "(\<forall>kv \<in> set ls. value_ok (snd kv)) \<longleftrightarrow> (\<forall>v \<in> set (quote_texts f). value_ok v)"
proof -
  obtain a q r where a: "render_decimal D (qf_base_amount f) = Inr a" "render_decimal D (qf_quote_amount f) = Inr q"
    and ls: "ls = base_lines (mt_of f) a q f @ r" "fee_part D f r"
    using f by (rule quote_lines_shape)
  have "value_ok a" "value_ok q" "value_ok (mt_of f)"
    using a render_decimal_value_ok [OF laws] by (auto simp: mt_of_def)
  then have "(\<forall>kv \<in> set ls. value_ok (snd kv)) \<longleftrightarrow>
      (\<forall>v \<in> set [qf_lp f, qf_provider f, qf_pair f, qf_base_admin f, qf_base_id f, qf_quote_admin f,
        qf_quote_instr_id f, qf_user f, qf_quote_nonce f, qf_ticket_id f]. value_ok v)
      \<and> (\<forall>kv \<in> set r. value_ok (snd kv))"
    by (auto simp: ls(1) base_lines_def)
  also have "(\<forall>kv \<in> set r. value_ok (snd kv)) \<longleftrightarrow>
      (\<forall>v \<in> set (case qf_lp_fees f of None \<Rightarrow> []
        | Some fees \<Rightarrow> concat (map (\<lambda>x. [fs_receiver x, fs_admin x, fs_id x]) fees)). value_ok v)"
  proof (cases "qf_lp_fees f")
    case (Some fees)
    then obtain fls where "quote_fee_lines D 0 fees = Inr fls"
      and r: "r = (''fee_count'', show_nat (length fees)) # fls"
      using ls(2) by (auto simp: fee_part_def)
    from quote_fee_lines_values [OF laws this(1)] Some show ?thesis by (simp add: r)
  qed (use ls(2) in \<open>simp add: fee_part_def\<close>)
  finally show ?thesis by (auto simp: quote_texts_def)
qed

text \<open>
  The message is built exactly when no amount has more than ten decimal places, a fee
  list is not empty, and no text of the quote holds a newline; otherwise it is an error.
\<close>

theorem quote_message_built:
  assumes "decimal_laws D"
  shows "(\<exists>s. build_canonical_message D f = Inr s) \<longleftrightarrow>
    (\<forall>a \<in> set (quote_amounts f). d_scale D (d_normalize D a) \<le> 10) \<and> qf_lp_fees f \<noteq> Some []
    \<and> (\<forall>v \<in> set (quote_texts f). newline \<notin> set v)"
proof -
  have "(\<exists>s. build_canonical_message D f = Inr s) \<longleftrightarrow>
      (\<exists>ls. quote_lines D f = Inr ls \<and> (\<forall>kv \<in> set ls. value_ok (snd kv)))"
    by (auto simp: build_canonical_message_def result_simps render_checked_Inr)
  also have "\<dots> \<longleftrightarrow> (\<exists>ls. quote_lines D f = Inr ls) \<and> (\<forall>v \<in> set (quote_texts f). value_ok v)"
    using quote_lines_values [OF assms] by blast
  finally show ?thesis by (simp add: quote_lines_total value_ok_def)
qed

theorem quote_message_built_witness:
  "\<nexists>s. build_canonical_message nat_decimals (sample_quote 7 (''t'' @ [newline]) None) = Inr s"
  using quote_message_built [OF nat_decimal_laws, of "sample_quote 7 (''t'' @ [newline]) None"]
  by (simp add: quote_texts_def sample_quote_def)

section \<open>Signatures and keys\<close>

text \<open>
  Hex, secp256k1 and SHA-256: a key or signature value is a string of bytes here; \<open>q_key\<close>
  is \<open>SigningKey::from_slice\<close>, \<open>q_point\<close> the uncompressed public point of a key,
  \<open>q_der\<close> and \<open>q_sec1\<close> parse a signature and a public point, \<open>q_low_s\<close> is \<open>normalize_s\<close>.
\<close>

record quote_crypto =
  q_unhex :: "string \<Rightarrow> string + bytes"
  q_hex :: "bytes \<Rightarrow> string"
  q_lowercase :: "string \<Rightarrow> string"
  q_sha256 :: "bytes \<Rightarrow> bytes"
  q_key :: "bytes \<Rightarrow> string + bytes"
  q_sign :: "bytes \<Rightarrow> bytes \<Rightarrow> string + bytes"
  q_to_der :: "bytes \<Rightarrow> bytes"
  q_point :: "bytes \<Rightarrow> bytes"
  q_der :: "bytes \<Rightarrow> bytes option"
  q_low_s :: "bytes \<Rightarrow> bytes"
  q_sec1 :: "bytes \<Rightarrow> bytes option"
  q_verify :: "bytes \<Rightarrow> bytes \<Rightarrow> bytes \<Rightarrow> bool"

definition SPKI_PREFIX :: string where
  "SPKI_PREFIX = ''3056301006072a8648ce3d020106052b8104000a034200''"

definition map_err :: "string \<Rightarrow> string + 'a \<Rightarrow> 'a result" where
  "map_err s m = (case m of Inl e \<Rightarrow> Inl [Lit s, Arg e] | Inr x \<Rightarrow> Inr x)"

definition sign_quote_scalar :: "quote_crypto \<Rightarrow> bytes \<Rightarrow> string \<Rightarrow> string result" where
  "sign_quote_scalar qc scalar msg =
     try_bind (map_err ''invalid secp256k1 private key: '' (q_key qc scalar)) (\<lambda>key.
     let digest = q_sha256 qc (str_bytes msg) in
     try_bind (map_err ''signing failed: '' (q_sign qc key digest)) (\<lambda>sig.
     Inr (q_hex qc (q_to_der qc sig))))"

definition sign_quote :: "quote_crypto \<Rightarrow> string \<Rightarrow> string \<Rightarrow> string result" where
  "sign_quote qc priv_scalar_hex msg =
     try_bind (map_err ''invalid private scalar hex: '' (q_unhex qc priv_scalar_hex)) (\<lambda>scalar.
     try_bind (map_err ''invalid secp256k1 private key: '' (q_key qc scalar)) (\<lambda>key.
     sign_quote_scalar qc key msg))"

definition spki_from_point :: "string \<Rightarrow> string result" where
  "spki_from_point point =
     (if length point \<noteq> 130 \<or> \<not> starts_with point ''04''
      then Inl [Lit ''expected lowercase uncompressed 65-byte point hex'']
      else Inr (SPKI_PREFIX @ point))"

definition point_from_spki :: "quote_crypto \<Rightarrow> string \<Rightarrow> string result" where
  "point_from_spki qc spki_hex =
     (let spki = q_lowercase qc spki_hex in
      if \<not> starts_with spki SPKI_PREFIX
      then Inl [Lit ''not an uncompressed secp256k1 SPKI public key'']
      else let point = drop (length SPKI_PREFIX) spki in
        if length point \<noteq> 130 \<or> \<not> starts_with point ''04'' then Inl [Lit ''malformed point in SPKI'']
        else Inr point)"

definition verify_quote :: "quote_crypto \<Rightarrow> string \<Rightarrow> string \<Rightarrow> string \<Rightarrow> bool" where
  "verify_quote qc sig_der_hex msg pub_spki_hex =
     (case q_unhex qc sig_der_hex of
        Inl e \<Rightarrow> False
      | Inr der \<Rightarrow> (case q_der qc der of
          None \<Rightarrow> False
        | Some sig0 \<Rightarrow>
            let sig = q_low_s qc sig0 in
            (case point_from_spki qc pub_spki_hex of
               Inl e \<Rightarrow> False
             | Inr point_hex \<Rightarrow> (case q_unhex qc point_hex of
                 Inl e \<Rightarrow> False
               | Inr point \<Rightarrow> (case q_sec1 qc point of
                   None \<Rightarrow> False
                 | Some vk \<Rightarrow> q_verify qc vk (q_sha256 qc (str_bytes msg)) sig)))))"

text \<open>
  The attempts of \<open>gen_keypair_with\<close>; \<open>draw i\<close> is what the random source gives at the
  \<open>i\<close>-th call.
\<close>

definition KEYGEN_ATTEMPTS :: nat where
  "KEYGEN_ATTEMPTS = 8"

fun keygen_attempts :: "quote_crypto \<Rightarrow> (nat \<Rightarrow> string + bytes) \<Rightarrow> nat \<Rightarrow> nat \<Rightarrow> (string \<times> string) result" where
  "keygen_attempts qc draw i 0 =
     Inl [Lit ''could not draw a valid secp256k1 scalar in '', Num (int KEYGEN_ATTEMPTS), Lit '' attempts'']"
| "keygen_attempts qc draw i (Suc n) =
     try_bind (map_err ''random source failed: '' (draw i)) (\<lambda>seed.
     case q_key qc seed of
       Inr key \<Rightarrow> try_bind (spki_from_point (q_hex qc (q_point qc key))) (\<lambda>spki.
         Inr (q_hex qc key, spki))
     | Inl e \<Rightarrow> keygen_attempts qc draw (Suc i) n)"

definition gen_keypair_with :: "quote_crypto \<Rightarrow> (nat \<Rightarrow> string + bytes) \<Rightarrow> (string \<times> string) result" where
  "gen_keypair_with qc draw = keygen_attempts qc draw 0 KEYGEN_ATTEMPTS"

definition keyfile_from_scalar :: "quote_crypto \<Rightarrow> string \<Rightarrow> (string \<times> string) result" where
  "keyfile_from_scalar qc priv_scalar_hex =
     try_bind (map_err [] (q_unhex qc priv_scalar_hex)) (\<lambda>scalar.
     try_bind (map_err ''invalid secp256k1 private key: '' (q_key qc scalar)) (\<lambda>key.
     try_bind (spki_from_point (q_hex qc (q_point qc key))) (\<lambda>spki.
     Inr (q_hex qc key, spki))))"

text \<open>\<open>str::trim\<close> and \<open>resolve_keyfile_path\<close>, with the environment variable as an argument.\<close>

definition resolve_keyfile_path :: "(string \<Rightarrow> string) \<Rightarrow> string option \<Rightarrow> string option \<Rightarrow> string" where
  "resolve_keyfile_path trim env flag =
     (case flag of
        Some p \<Rightarrow> p
      | None \<Rightarrow> (case env of
          Some p \<Rightarrow> if trim p \<noteq> [] then trim p else ''atomic-quote-key.json''
        | None \<Rightarrow> ''atomic-quote-key.json''))"

section \<open>A key verifies its own signatures\<close>

text \<open>
  What the libraries document: hex decoding inverts encoding and hex is lower case, the
  bytes of a key read back to it, a signature reads back from DER, and a signature of a key
  verifies under its point, low-s or not.
\<close>

definition quote_crypto_laws :: "quote_crypto \<Rightarrow> bool" where
  "quote_crypto_laws qc \<longleftrightarrow>
     (\<forall>b. q_unhex qc (q_hex qc b) = Inr b \<and> q_lowercase qc (SPKI_PREFIX @ q_hex qc b) = SPKI_PREFIX @ q_hex qc b)
     \<and> (\<forall>b k. q_key qc b = Inr k \<longrightarrow> q_key qc k = Inr k)
     \<and> (\<forall>s. q_der qc (q_to_der qc s) = Some s)
     \<and> (\<forall>b k h s. q_key qc b = Inr k \<longrightarrow> q_sign qc k h = Inr s \<longrightarrow>
          (\<exists>v. q_sec1 qc (q_point qc k) = Some v \<and> q_verify qc v h (q_low_s qc s)))"

lemma map_err_Inr [result_simps]: "map_err s m = Inr x \<longleftrightarrow> m = Inr x"
  by (cases m) (simp_all add: map_err_def)

lemma starts_with_append [simp]: "starts_with (p @ s) p"
  by (simp add: starts_with_def)

lemma spki_point_roundtrip:
  assumes "spki_from_point p = Inr s" and "q_lowercase qc s = s"
  shows "point_from_spki qc s = Inr p"
  using assms by (auto simp: spki_from_point_def point_from_spki_def Let_def split: if_splits)

lemma keygen_attempts_Inr:
  "keygen_attempts qc draw i n = Inr (priv, spki) \<Longrightarrow>
   \<exists>j < n. \<exists>seed key. draw (i + j) = Inr seed \<and> q_key qc seed = Inr key
     \<and> priv = q_hex qc key \<and> spki_from_point (q_hex qc (q_point qc key)) = Inr spki"
proof (induction n arbitrary: i)
  case (Suc n)
  from Suc.prems obtain seed where seed: "draw i = Inr seed" by (auto simp: result_simps)
  show ?case
  proof (cases "q_key qc seed")
    case (Inr key)
    with Suc.prems seed show ?thesis by (intro exI [of _ 0]) (auto simp: result_simps)
  next
    case (Inl e)
    with Suc.prems seed have "keygen_attempts qc draw (Suc i) n = Inr (priv, spki)"
      by (simp add: result_simps)
    from Suc.IH [OF this] obtain j where "j < n" "\<exists>seed key. draw (Suc i + j) = Inr seed
      \<and> q_key qc seed = Inr key \<and> priv = q_hex qc key
      \<and> spki_from_point (q_hex qc (q_point qc key)) = Inr spki" by blast
    then show ?thesis by (intro exI [of _ "Suc j"]) simp
  qed
qed simp

lemma key_signature_verifies:
  assumes laws: "quote_crypto_laws qc" and key: "q_key qc seed = Inr key"
    and spki: "spki_from_point (q_hex qc (q_point qc key)) = Inr spki"
    and sig: "sign_quote qc (q_hex qc key) msg = Inr sig"
  shows "verify_quote qc sig msg spki"
proof -
  have unhex: "q_unhex qc (q_hex qc b) = Inr b" for b
    using laws by (simp add: quote_crypto_laws_def)
  have "q_key qc key = Inr key"
    using laws key unfolding quote_crypto_laws_def by blast
  with sig obtain s where s: "q_sign qc key (q_sha256 qc (str_bytes msg)) = Inr s"
    and sig': "sig = q_hex qc (q_to_der qc s)"
    by (auto simp: sign_quote_def sign_quote_scalar_def Let_def result_simps unhex)
  obtain v where v: "q_sec1 qc (q_point qc key) = Some v" "q_verify qc v (q_sha256 qc (str_bytes msg)) (q_low_s qc s)"
    using laws key s unfolding quote_crypto_laws_def by blast
  have "q_lowercase qc spki = spki"
    using spki laws by (auto simp: spki_from_point_def quote_crypto_laws_def split: if_splits)
  then have "point_from_spki qc spki = Inr (q_hex qc (q_point qc key))"
    using spki_point_roundtrip [OF spki] by blast
  moreover have "q_der qc (q_to_der qc s) = Some s"
    using laws by (simp add: quote_crypto_laws_def)
  ultimately show ?thesis
    using v by (simp add: verify_quote_def sig' unhex Let_def)
qed

text \<open>
  A generated quote key works: whatever a generated private key signs verifies under the
  public key generated with it, and it comes from one of the first eight draws.
\<close>

theorem generated_key_verifies:
  assumes "quote_crypto_laws qc" and "gen_keypair_with qc draw = Inr (priv, spki)"
    and "sign_quote qc priv msg = Inr sig"
  shows "verify_quote qc sig msg spki \<and> (\<exists>j < 8. \<exists>seed. draw j = Inr seed \<and> \<not> isl (q_key qc seed))"
proof -
  obtain j seed key where j: "j < 8" "draw j = Inr seed" and key: "q_key qc seed = Inr key" "priv = q_hex qc key"
    "spki_from_point (q_hex qc (q_point qc key)) = Inr spki"
    using keygen_attempts_Inr [OF assms(2) [unfolded gen_keypair_with_def]]
    by (auto simp: KEYGEN_ATTEMPTS_def)
  then show ?thesis
    using key_signature_verifies [OF assms(1) key(1,3)] assms(3) by auto
qed

definition char_chars :: "bytes \<Rightarrow> string" where
  "char_chars b = map (\<lambda>w. char_of (unat w)) b"

text \<open>
  An instance: \<open>hex\<close> writes bytes as characters, keys are the seeds of 130 bytes that begin
  with 04, points the keys, and a signature is the digest.
\<close>

definition sample_qc :: quote_crypto where
  "sample_qc = \<lparr>q_unhex = (\<lambda>s. Inr (str_bytes s)), q_hex = char_chars, q_lowercase = (\<lambda>s. s),
     q_sha256 = (\<lambda>b. b),
     q_key = (\<lambda>b. if length b = 130 \<and> take 2 b = [48, 52] then Inr b else Inl ''bad''),
     q_sign = (\<lambda>k h. Inr h), q_to_der = (\<lambda>b. b), q_point = (\<lambda>k. k), q_der = Some, q_low_s = (\<lambda>s. s),
     q_sec1 = Some, q_verify = (\<lambda>k h s. h = s)\<rparr>"

definition sample_draw :: "nat \<Rightarrow> string + bytes" where
  "sample_draw i = Inr (if i = 0 then [] else [48, 52] @ replicate 128 48)"

lemma str_bytes_char_chars [simp]: "str_bytes (char_chars b) = b"
proof -
  have "char_byte (char_of (unat w)) = w" for w :: u8
  proof -
    have "unat w < 256" using unsigned_less [of w, where 'a = nat] by simp
    then show ?thesis by (simp add: char_byte_def take_bit_nat_eq_self)
  qed
  then show ?thesis by (simp add: char_chars_def str_bytes_def o_def)
qed

lemma sample_qc_laws: "quote_crypto_laws sample_qc"
  by (simp add: quote_crypto_laws_def sample_qc_def)

theorem generated_key_verifies_witness:
  "\<exists>priv spki sig. gen_keypair_with sample_qc sample_draw = Inr (priv, spki)
     \<and> sign_quote sample_qc priv ''m'' = Inr sig \<and> verify_quote sample_qc sig ''m'' spki"
proof -
  have "\<not> isl (gen_keypair_with sample_qc sample_draw)"
    "\<not> isl (try_bind (gen_keypair_with sample_qc sample_draw) (\<lambda>(priv, spki). sign_quote sample_qc priv ''m''))"
    by code_simp+
  then obtain priv spki where key: "gen_keypair_with sample_qc sample_draw = Inr (priv, spki)"
    and signed: "\<not> isl (sign_quote sample_qc priv ''m'')"
    by (cases "gen_keypair_with sample_qc sample_draw") auto
  from signed obtain sig where sig: "sign_quote sample_qc priv ''m'' = Inr sig"
    by (cases "sign_quote sample_qc priv ''m''") auto
  have "verify_quote sample_qc sig ''m'' spki"
    by (rule conjunct1 [OF generated_key_verifies [OF sample_qc_laws key sig]])
  with key sig show ?thesis by blast
qed

end
