(* ===== verification/Envelope.thy ===== *)
theory Envelope
  imports Atomic_Quote Json
begin

text \<open>
  \<open>crates/atomic-quote/src/envelope.rs\<close>: the quote envelope and the check a client makes of it
  before it submits anything. Integers of type \<open>i64\<close> are \<open>int\<close> with the range written out
  where the source checks it; the text of a \<open>ParseIntError\<close> is not distinguished.
\<close>

section \<open>The envelope\<close>

record acs_contract =
  ac_contract_id :: string
  ac_template_id :: string
  ac_created_event_blob :: string
  ac_payload :: jval

record lp_fee_json =
  lj_receiver :: string
  lj_admin :: string
  lj_id :: string
  lj_amount :: string

record quote_json =
  qj_quote_id :: string
  qj_ticket_id :: string
  qj_user :: string
  qj_side :: string
  qj_base_amount :: string
  qj_quote_amount :: string
  qj_created_at_micros :: string
  qj_valid_until_micros :: string
  qj_lp_fees :: "lp_fee_json list option"

record quote_envelope =
  qe_version :: string
  qe_synchronizer_id :: string
  qe_dvp :: acs_contract
  qe_quote :: quote_json
  qe_canonical_message :: string
  qe_quote_signature :: string
  qe_ticket :: "acs_contract option"
  qe_lp_input_holding_cids :: "string list"
  qe_disclosed :: "jval list"

definition ENVELOPE_VERSION :: string where
  "ENVELOPE_VERSION = ''silvana.atomic-dvp.envelope.v1''"

section \<open>The message rebuilt from the contract payload\<close>

definition payload_string :: "jval \<Rightarrow> string list \<Rightarrow> string result" where
  "payload_string v ks = ok_or (Option.bind (json_pointer v ks) as_str)
     [Lit (''AtomicDVP payload missing '' @ concat (map (\<lambda>k. ''/'' @ k) ks))]"

definition parse_decimal :: "'d decimal_ops \<Rightarrow> string \<Rightarrow> 'd result" where
  "parse_decimal D s = map_err [] (d_from_str D s)"

definition parse_micros :: "string \<Rightarrow> int result" where
  "parse_micros s = ok_or (parse_i64 s) [Lit ''ParseIntError'']"

fun fee_specs :: "'d decimal_ops \<Rightarrow> lp_fee_json list \<Rightarrow> 'd lp_fee_spec list result" where
  "fee_specs D [] = Inr []"
| "fee_specs D (f # fs) =
     try_bind (parse_decimal D (lj_amount f)) (\<lambda>a.
     try_bind (fee_specs D fs) (\<lambda>gs.
     Inr (\<lparr>fs_receiver = lj_receiver f, fs_admin = lj_admin f, fs_id = lj_id f, fs_amount = a\<rparr> # gs)))"

definition quote_fields_of :: "'d decimal_ops \<Rightarrow> jval \<Rightarrow> quote_json \<Rightarrow> 'd quote_fields result" where
  "quote_fields_of D payload q =
     try_bind (case qj_lp_fees q of None \<Rightarrow> Inr None
               | Some fs \<Rightarrow> try_bind (fee_specs D fs) (\<lambda>gs. Inr (Some gs))) (\<lambda>lp_fees.
     try_bind (payload_string payload [''lp'']) (\<lambda>lp.
     try_bind (payload_string payload [''provider'']) (\<lambda>provider.
     try_bind (payload_string payload [''pairName'']) (\<lambda>pair.
     try_bind (payload_string payload [''baseInstrumentId'', ''admin'']) (\<lambda>base_admin.
     try_bind (payload_string payload [''baseInstrumentId'', ''id'']) (\<lambda>base_id.
     try_bind (payload_string payload [''quoteInstrumentId'', ''admin'']) (\<lambda>quote_admin.
     try_bind (payload_string payload [''quoteInstrumentId'', ''id'']) (\<lambda>quote_instr_id.
     try_bind (parse_side (qj_side q)) (\<lambda>side.
     try_bind (parse_decimal D (qj_base_amount q)) (\<lambda>base_amount.
     try_bind (parse_decimal D (qj_quote_amount q)) (\<lambda>quote_amount.
     try_bind (parse_micros (qj_created_at_micros q)) (\<lambda>created_at.
     try_bind (parse_micros (qj_valid_until_micros q)) (\<lambda>valid_until.
     Inr \<lparr>qf_lp = lp, qf_provider = provider, qf_pair = pair, qf_base_admin = base_admin,
       qf_base_id = base_id, qf_quote_admin = quote_admin, qf_quote_instr_id = quote_instr_id,
       qf_user = qj_user q, qf_side = side, qf_base_amount = base_amount, qf_quote_amount = quote_amount,
       qf_quote_nonce = qj_quote_id q, qf_created_at_micros = created_at,
       qf_valid_until_micros = valid_until, qf_ticket_id = qj_ticket_id q, qf_lp_fees = lp_fees\<rparr>)))))))))))))"

definition canonical_from_dvp :: "'d decimal_ops \<Rightarrow> jval \<Rightarrow> quote_json \<Rightarrow> string result" where
  "canonical_from_dvp D payload q = try_bind (quote_fields_of D payload q) (build_canonical_message D)"

section \<open>The check before submission\<close>

text \<open>\<open>bail!\<close> under a condition.\<close>

definition bail_if :: "bool \<Rightarrow> message \<Rightarrow> unit result" where
  "bail_if b m = (if b then Inl m else Inr ())"

definition checked_add_i64 :: "int \<Rightarrow> int \<Rightarrow> int option" where
  "checked_add_i64 a b = (if - (2 ^ 63) \<le> a + b \<and> a + b < 2 ^ 63 then Some (a + b) else None)"

definition check_validity :: "int \<Rightarrow> int \<Rightarrow> int \<Rightarrow> unit result" where
  "check_validity now_micros min_validity valid_until =
     (case checked_add_i64 now_micros min_validity of
        None \<Rightarrow> Inl [Lit ''quote validity margin overflows (now '', Num now_micros,
          Lit '' micros, required margin '', Num min_validity, Lit '' micros)'']
      | Some required_until \<Rightarrow> bail_if (required_until \<ge> valid_until)
          [Lit ''quote expires at '', Num valid_until, Lit '' micros (now '', Num now_micros,
           Lit '' micros, required margin '', Num min_validity, Lit '' micros)''])"

definition check_ticket :: "acs_contract option \<Rightarrow> string \<Rightarrow> unit result" where
  "check_ticket ticket ticket_id =
     (case ticket of
        Some t \<Rightarrow> if ticket_id = [] then Inl [Lit ''H14: ticketless quote must not carry a ticket'']
          else bail_if (string_at (ac_payload t) ''ticketId'' \<noteq> Some ticket_id)
            [Lit ''H14: ticket contract does not match the signed ticketId'']
      | None \<Rightarrow> bail_if (ticket_id \<noteq> []) [Lit ''H14: ticketed quote without its ticket contract''])"

definition disclosed_cids :: "jval list \<Rightarrow> string list" where
  "disclosed_cids ds = List.map_filter (\<lambda>d. string_at d ''contractId'') ds"

fun check_holdings :: "string list \<Rightarrow> string list \<Rightarrow> unit result" where
  "check_holdings cids [] = Inr ()"
| "check_holdings cids (c # cs) =
     (if c \<notin> set cids
      then Inl [Lit ''H14: LP input holding '', Arg c, Lit '' is not in the disclosure package'']
      else check_holdings cids cs)"

definition check_disclosures :: "quote_envelope \<Rightarrow> unit result" where
  "check_disclosures e =
     (let cids = disclosed_cids (qe_disclosed e) in
      try_bind (check_holdings cids (qe_lp_input_holding_cids e)) (\<lambda>_.
      try_bind (case qe_ticket e of None \<Rightarrow> Inr ()
                | Some t \<Rightarrow> bail_if (ac_contract_id t \<notin> set cids)
                    [Lit ''H14: the ticket is not in the disclosure package'']) (\<lambda>_.
      bail_if (ac_contract_id (qe_dvp e) \<notin> set cids)
        [Lit ''H14: the AtomicDVP venue is not in the disclosure package''])))"

definition pre_submit_check ::
  "'d decimal_ops \<Rightarrow> quote_crypto \<Rightarrow> quote_envelope \<Rightarrow> string \<Rightarrow> string \<Rightarrow> int \<Rightarrow> int \<Rightarrow> unit result" where
  "pre_submit_check D qc e expected_user expected_synchronizer_id now_micros min_validity_micros =
     try_bind (bail_if (qe_version e \<noteq> ENVELOPE_VERSION)
       [Lit ''unsupported envelope version: '', Arg (qe_version e)]) (\<lambda>_.
     try_bind (bail_if (qe_synchronizer_id e \<noteq> expected_synchronizer_id)
       [Lit ''envelope synchronizer '', Arg (qe_synchronizer_id e), Lit '' != expected '',
        Arg expected_synchronizer_id]) (\<lambda>_.
     try_bind (canonical_from_dvp D (ac_payload (qe_dvp e)) (qe_quote e)) (\<lambda>rebuilt.
     try_bind (bail_if (rebuilt \<noteq> qe_canonical_message e)
       [Lit ''H14: canonical message mismatch (envelope tampered or malformed)'']) (\<lambda>_.
     try_bind (ok_or (string_at (ac_payload (qe_dvp e)) ''quotePublicKey'')
       [Lit ''AtomicDVP payload missing quotePublicKey'']) (\<lambda>venue_key.
     try_bind (bail_if (\<not> verify_quote qc (qe_quote_signature e) rebuilt venue_key)
       [Lit ''H14: quote signature does not verify against the venue key'']) (\<lambda>_.
     try_bind (bail_if (qj_user (qe_quote e) \<noteq> expected_user)
       [Lit ''H14: quote is for '', Arg (qj_user (qe_quote e)), Lit '' not '', Arg expected_user]) (\<lambda>_.
     try_bind (parse_micros (qj_valid_until_micros (qe_quote e))) (\<lambda>valid_until.
     try_bind (check_validity now_micros min_validity_micros valid_until) (\<lambda>_.
     try_bind (check_ticket (qe_ticket e) (qj_ticket_id (qe_quote e))) (\<lambda>_.
     check_disclosures e))))))))))"

section \<open>What it accepts\<close>

lemma bail_if_Inr [result_simps]: "bail_if b m = Inr u \<longleftrightarrow> \<not> b"
  by (simp add: bail_if_def)

lemma check_validity_Inr [result_simps]:
  "check_validity n m v = Inr u \<longleftrightarrow> - (2 ^ 63) \<le> n + m \<and> n + m < 2 ^ 63 \<and> n + m < v"
  by (auto simp: check_validity_def checked_add_i64_def result_simps)

lemma check_ticket_Inr [result_simps]:
  "check_ticket t i = Inr u \<longleftrightarrow>
     (if i = [] then t = None else \<exists>c. t = Some c \<and> string_at (ac_payload c) ''ticketId'' = Some i)"
  by (auto simp: check_ticket_def result_simps split: option.splits)

lemma check_holdings_Inr [result_simps]: "check_holdings cids cs = Inr u \<longleftrightarrow> set cs \<subseteq> set cids"
  by (induction cids cs rule: check_holdings.induct) auto

lemma check_disclosures_Inr [result_simps]:
  "check_disclosures e = Inr u \<longleftrightarrow>
     set (qe_lp_input_holding_cids e) \<union> ac_contract_id ` set_option (qe_ticket e)
       \<union> {ac_contract_id (qe_dvp e)} \<subseteq> set (disclosed_cids (qe_disclosed e))"
  by (auto simp: check_disclosures_def Let_def result_simps split: option.splits)

lemma set_disclosed_cids: "c \<in> set (disclosed_cids ds) \<longleftrightarrow> (\<exists>d \<in> set ds. string_at d ''contractId'' = Some c)"
  by (force simp: disclosed_cids_def map_filter_def)

lemma quote_fields_of_quote:
  "quote_fields_of D payload q = Inr f \<Longrightarrow>
     parse_micros (qj_valid_until_micros q) = Inr (qf_valid_until_micros f) \<and> qf_user f = qj_user q
     \<and> qf_ticket_id f = qj_ticket_id q \<and> qf_quote_nonce f = qj_quote_id q"
  by (auto simp: quote_fields_of_def result_simps)

lemma pre_submit_fields:
  "pre_submit_check D qc e user sync now margin = Inr () \<Longrightarrow>
   \<exists>f. quote_fields_of D (ac_payload (qe_dvp e)) (qe_quote e) = Inr f
     \<and> build_canonical_message D f = Inr (qe_canonical_message e) \<and> qf_user f = user"
  by (auto simp: pre_submit_check_def canonical_from_dvp_def result_simps dest: quote_fields_of_quote)

text \<open>
  C36: The check before submission passes exactly when the envelope has the known version and
  the expected synchronizer; its message is the one rebuilt from the venue contract and the
  quote, and is signed under the venue's key; the quote is for the expected user and outlives
  now by more than the margin, without overflow; it carries a ticket contract exactly when it
  names a ticket, the one it names; and the venue, the ticket and every LP input holding are
  disclosed.
\<close>

theorem pre_submit_accepts:
  "pre_submit_check D qc e user sync now margin = Inr () \<longleftrightarrow>
   qe_version e = ENVELOPE_VERSION \<and> qe_synchronizer_id e = sync
   \<and> (\<exists>f key. quote_fields_of D (ac_payload (qe_dvp e)) (qe_quote e) = Inr f
        \<and> build_canonical_message D f = Inr (qe_canonical_message e)
        \<and> string_at (ac_payload (qe_dvp e)) ''quotePublicKey'' = Some key
        \<and> verify_quote qc (qe_quote_signature e) (qe_canonical_message e) key
        \<and> qf_user f = user \<and> now + margin < qf_valid_until_micros f
        \<and> - (2 ^ 63) \<le> now + margin \<and> now + margin < 2 ^ 63
        \<and> (if qf_ticket_id f = [] then qe_ticket e = None
           else \<exists>t. qe_ticket e = Some t \<and> string_at (ac_payload t) ''ticketId'' = Some (qf_ticket_id f)))
   \<and> set (qe_lp_input_holding_cids e) \<union> ac_contract_id ` set_option (qe_ticket e)
       \<union> {ac_contract_id (qe_dvp e)}
     \<subseteq> {c. \<exists>d. d \<in> set (qe_disclosed e) \<and> string_at d ''contractId'' = Some c}"
proof -
  have cids: "{c. \<exists>d. d \<in> set (qe_disclosed e) \<and> string_at d ''contractId'' = Some c}
      = set (disclosed_cids (qe_disclosed e))"
    by (auto simp: set_disclosed_cids)
  show ?thesis
  proof (cases "quote_fields_of D (ac_payload (qe_dvp e)) (qe_quote e)")
    case (Inl err)
    then show ?thesis by (simp add: pre_submit_check_def canonical_from_dvp_def result_simps)
  next
    case (Inr f)
    with quote_fields_of_quote [OF this] show ?thesis
      unfolding cids pre_submit_check_def canonical_from_dvp_def try_bind_Inr_iff check_disclosures_Inr
        bail_if_Inr check_validity_Inr check_ticket_Inr ok_or_Inr_iff
      by auto
  qed
qed


text \<open>
  An envelope cannot be altered under its message: if two envelopes with one canonical
  message pass the check (under any clocks), they carry the same parties, instruments, nonce,
  times, ticket and fees, and the same amounts as numbers, for a user who is then the same.
\<close>

theorem envelope_terms_fixed:
  assumes "decimal_laws D"
    and "pre_submit_check D qc e user sync now margin = Inr ()"
    and "pre_submit_check D qc' e' user' sync' now' margin' = Inr ()"
    and "qe_canonical_message e = qe_canonical_message e'"
  shows "user = user' \<and> (\<exists>f f'. quote_fields_of D (ac_payload (qe_dvp e)) (qe_quote e) = Inr f
    \<and> quote_fields_of D (ac_payload (qe_dvp e')) (qe_quote e') = Inr f'
    \<and> quote_terms D f = quote_terms D f')"
proof -
  obtain f f' where f: "quote_fields_of D (ac_payload (qe_dvp e)) (qe_quote e) = Inr f"
      "build_canonical_message D f = Inr (qe_canonical_message e)" "qf_user f = user"
    and f': "quote_fields_of D (ac_payload (qe_dvp e')) (qe_quote e') = Inr f'"
      "build_canonical_message D f' = Inr (qe_canonical_message e)" "qf_user f' = user'"
    using pre_submit_fields [OF assms(2)] pre_submit_fields [OF assms(3)] assms(4) by auto
  have "quote_terms D f = quote_terms D f'"
    by (rule build_canonical_message_inject [OF assms(1) f(2) f'(2)])
  moreover from this have "qf_user f = qf_user f'"
    by (simp add: quote_terms_def)
  ultimately show ?thesis using f(1,3) f'(1,3) by blast
qed

definition sample_venue :: "string \<Rightarrow> acs_contract" where
  "sample_venue name = \<lparr>ac_contract_id = ''v'', ac_template_id = ''t'', ac_created_event_blob = name,
     ac_payload = JObject [(''lp'', JString ''l''), (''provider'', JString ''p''),
       (''pairName'', JString ''A-B''),
       (''baseInstrumentId'', JObject [(''admin'', JString ''a''), (''id'', JString ''A'')]),
       (''quoteInstrumentId'', JObject [(''admin'', JString ''b''), (''id'', JString ''B'')]),
       (''quotePublicKey'', JString (SPKI_PREFIX @ ''04'' @ replicate 128 CHR ''0''))]\<rparr>"

definition sample_envelope :: "string \<Rightarrow> quote_envelope" where
  "sample_envelope base = \<lparr>qe_version = ENVELOPE_VERSION, qe_synchronizer_id = ''s'', qe_dvp = sample_venue base,
     qe_quote = \<lparr>qj_quote_id = ''q'', qj_ticket_id = [], qj_user = ''u'', qj_side = ''Buy'',
       qj_base_amount = base, qj_quote_amount = ''5'', qj_created_at_micros = ''1'',
       qj_valid_until_micros = ''90'', qj_lp_fees = None\<rparr>,
     qe_canonical_message = (case canonical_from_dvp nat_decimals (ac_payload (sample_venue []))
         \<lparr>qj_quote_id = ''q'', qj_ticket_id = [], qj_user = ''u'', qj_side = ''BUY'',
           qj_base_amount = ''7'', qj_quote_amount = ''5'', qj_created_at_micros = ''1'',
           qj_valid_until_micros = ''90'', qj_lp_fees = None\<rparr> of Inl e \<Rightarrow> [] | Inr m \<Rightarrow> m),
     qe_quote_signature = (case canonical_from_dvp nat_decimals (ac_payload (sample_venue []))
         \<lparr>qj_quote_id = ''q'', qj_ticket_id = [], qj_user = ''u'', qj_side = ''BUY'',
           qj_base_amount = ''7'', qj_quote_amount = ''5'', qj_created_at_micros = ''1'',
           qj_valid_until_micros = ''90'', qj_lp_fees = None\<rparr> of Inl e \<Rightarrow> [] | Inr m \<Rightarrow> m),
     qe_ticket = None, qe_lp_input_holding_cids = [],
     qe_disclosed = [JNull, JObject [(''contractId'', JString ''v'')]]\<rparr>"

text \<open>The amount written \<open>07\<close> is the same amount, and the envelope passes as well.\<close>

theorem envelope_terms_fixed_witness:
  "\<exists>f f'. quote_fields_of nat_decimals (ac_payload (qe_dvp (sample_envelope ''7''))) (qe_quote (sample_envelope ''7'')) = Inr f
    \<and> quote_fields_of nat_decimals (ac_payload (qe_dvp (sample_envelope ''07''))) (qe_quote (sample_envelope ''07'')) = Inr f'
    \<and> quote_terms nat_decimals f = quote_terms nat_decimals f'"
proof -
  have "pre_submit_check nat_decimals sample_qc (sample_envelope ''7'') ''u'' ''s'' 50 10 = Inr ()"
    "pre_submit_check nat_decimals sample_qc (sample_envelope ''07'') ''u'' ''s'' 60 20 = Inr ()"
    "qe_canonical_message (sample_envelope ''7'') = qe_canonical_message (sample_envelope ''07'')"
    by code_simp+
  from conjunct2 [OF envelope_terms_fixed [OF nat_decimal_laws this]] show ?thesis .
qed

end
