(* ===== verification/Machine.thy ===== *)
theory Machine
  imports Prelude
begin

text \<open>
  Components with state are step functions over events. The locale below is the interface
  the safety properties use: a predicate that every admitted event keeps holds after every
  run of admitted events.
\<close>

definition run :: "('s \<Rightarrow> 'e \<Rightarrow> 's) \<Rightarrow> 's \<Rightarrow> 'e list \<Rightarrow> 's" where
  "run step s es = foldl step s es"

lemma run_simps [simp]:
  "run step s [] = s"
  "run step s (e # es) = run step (step s e) es"
  "run step s (es @ fs) = run step (run step s es) fs"
  by (simp_all add: run_def)

locale kept =
  fixes step :: "'s \<Rightarrow> 'e \<Rightarrow> 's" and holds :: "'s \<Rightarrow> bool" and admitted :: "'e \<Rightarrow> bool"
  assumes keeps: "holds s \<Longrightarrow> admitted e \<Longrightarrow> holds (step s e)"
begin

lemma run_keeps: "holds s \<Longrightarrow> list_all admitted es \<Longrightarrow> holds (run step s es)"
  by (induction es arbitrary: s) (simp_all add: keeps)

lemma always: "holds s \<Longrightarrow> list_all admitted (es @ fs) \<Longrightarrow> holds (run step s es)"
  by (simp add: run_keeps)

end

text \<open>
  The same where an event is admitted depending on the state: what the environment promises
  of the next event may speak of what the component holds.
\<close>

fun enabled_run :: "('s \<Rightarrow> 'e \<Rightarrow> 's) \<Rightarrow> ('s \<Rightarrow> 'e \<Rightarrow> bool) \<Rightarrow> 's \<Rightarrow> 'e list \<Rightarrow> bool" where
  "enabled_run step enabled s [] \<longleftrightarrow> True"
| "enabled_run step enabled s (e # es) \<longleftrightarrow> enabled s e \<and> enabled_run step enabled (step s e) es"

locale guarded =
  fixes step :: "'s \<Rightarrow> 'e \<Rightarrow> 's" and holds :: "'s \<Rightarrow> bool" and enabled :: "'s \<Rightarrow> 'e \<Rightarrow> bool"
  assumes guarded_keeps: "holds s \<Longrightarrow> enabled s e \<Longrightarrow> holds (step s e)"
begin

lemma guarded_run: "holds s \<Longrightarrow> enabled_run step enabled s es \<Longrightarrow> holds (run step s es)"
  by (induction es arbitrary: s) (simp_all add: guarded_keeps)

end

sublocale kept \<subseteq> guarded step holds "\<lambda>s. admitted"
  by unfold_locales (rule keeps)

text \<open>Saturating arithmetic of \<open>u64\<close>, on naturals.\<close>

definition u64_max :: nat where
  "u64_max = 2 ^ 64 - 1"

definition sat_add :: "nat \<Rightarrow> nat \<Rightarrow> nat" where
  "sat_add a b = min (a + b) u64_max"

definition sat_mul :: "nat \<Rightarrow> nat \<Rightarrow> nat" where
  "sat_mul a b = min (a * b) u64_max"

lemma sat_bounds [simp]: "sat_add a b \<le> u64_max" "sat_mul a b \<le> u64_max"
  by (simp_all add: sat_add_def sat_mul_def)

lemma sat_add_mono: "a \<le> a' \<Longrightarrow> b \<le> b' \<Longrightarrow> sat_add a b \<le> sat_add a' b'"
  by (auto simp: sat_add_def)

lemma le_sat_add: "a \<le> u64_max \<Longrightarrow> a \<le> sat_add a b"
  by (simp add: sat_add_def)

end
