(* ===== verification/Ticket_Pool.thy ===== *)
theory Ticket_Pool
  imports Machine
begin

text \<open>
  \<open>crates/cloud-agent/src/ticket_pool.rs\<close>: the pool of settlement tickets. A pool is the map of
  the source; the order in which a \<open>HashMap\<close> is walked is not determined by its content, so
  the operations whose result depends on it take the order as an argument, a list of the keys.
  An \<open>Instant\<close> is a number of nanoseconds; the two clocks are arguments.
\<close>

section \<open>State\<close>

datatype ticket_status = Free | Assigned string nat | Spent

record ticket_entry =
  te_ticket_id :: string
  te_contract_id :: string
  te_template_id :: "string option"
  te_created_event_blob :: "string option"
  te_payload_json :: "string option"
  te_status :: ticket_status

definition is_disclosable :: "ticket_entry \<Rightarrow> bool" where
  "is_disclosable e \<longleftrightarrow> te_template_id e \<noteq> None \<and> te_created_event_blob e \<noteq> None \<and> te_payload_json e \<noteq> None"

record ticket_acs_info =
  ta_ticket_id :: string
  ta_contract_id :: string
  ta_template_id :: "string option"
  ta_created_event_blob :: "string option"
  ta_payload_json :: "string option"

record saved_ticket =
  st_ticket_id :: string
  st_contract_id :: string
  st_status :: string
  st_quote_id :: "string option"
  st_expires_at_ms :: "nat option"

type_synonym pool = "string \<Rightarrow> ticket_entry option"

text \<open>The walk of a \<open>HashMap\<close>: each key once.\<close>

definition walk_order :: "string list \<Rightarrow> (string \<Rightarrow> 'v option) \<Rightarrow> bool" where
  "walk_order ks m \<longleftrightarrow> distinct ks \<and> set ks = dom m"

definition set_status :: "ticket_status \<Rightarrow> ticket_entry \<Rightarrow> ticket_entry" where
  "set_status s e = e\<lparr>te_status := s\<rparr>"

text \<open>A loop over \<open>values_mut\<close> that changes the status of the entries of a kind.\<close>

definition update_where :: "(ticket_entry \<Rightarrow> bool) \<Rightarrow> ticket_status \<Rightarrow> pool \<Rightarrow> pool" where
  "update_where P s m = (\<lambda>k. map_option (\<lambda>e. if P e then set_status s e else e) (m k))"

section \<open>Operations\<close>

definition assignable :: "ticket_entry \<Rightarrow> bool" where
  "assignable e \<longleftrightarrow> te_status e = Free \<and> is_disclosable e"

definition first_assignable :: "string list \<Rightarrow> pool \<Rightarrow> string option" where
  "first_assignable ks m = find (\<lambda>k. case m k of None \<Rightarrow> False | Some e \<Rightarrow> assignable e) ks"

definition assign :: "string list \<Rightarrow> string \<Rightarrow> nat \<Rightarrow> pool \<Rightarrow> (string \<times> ticket_entry) option \<times> pool" where
  "assign ks quote_id expires_at m =
     (case first_assignable ks m of
        None \<Rightarrow> (None, m)
      | Some k \<Rightarrow> (case m k of
          None \<Rightarrow> (None, m)
        | Some e \<Rightarrow> let e' = set_status (Assigned quote_id expires_at) e
            in (Some (te_ticket_id e', e'), m(k \<mapsto> e'))))"

definition assigned_to :: "string \<Rightarrow> ticket_entry \<Rightarrow> bool" where
  "assigned_to quote_id e = (case te_status e of Assigned q _ \<Rightarrow> q = quote_id | _ \<Rightarrow> False)"

definition unassign :: "string \<Rightarrow> pool \<Rightarrow> pool" where
  "unassign quote_id = update_where (assigned_to quote_id) Free"

definition on_archived :: "string \<Rightarrow> pool \<Rightarrow> pool" where
  "on_archived contract_id = update_where (\<lambda>e. te_contract_id e = contract_id) Spent"

definition mark_spent :: "string \<Rightarrow> pool \<Rightarrow> pool" where
  "mark_spent quote_id = update_where (assigned_to quote_id) Spent"

definition free_count :: "string list \<Rightarrow> pool \<Rightarrow> nat" where
  "free_count ks m = length (filter (\<lambda>k. case m k of None \<Rightarrow> False | Some e \<Rightarrow> assignable e) ks)"

definition backfill :: "ticket_acs_info \<Rightarrow> ticket_entry \<Rightarrow> ticket_entry" where
  "backfill t e = (let e = e\<lparr>te_contract_id := ta_contract_id t\<rparr>;
     e = (if ta_template_id t \<noteq> None then e\<lparr>te_template_id := ta_template_id t\<rparr> else e);
     e = (if ta_created_event_blob t \<noteq> None then e\<lparr>te_created_event_blob := ta_created_event_blob t\<rparr> else e)
     in if ta_payload_json t \<noteq> None then e\<lparr>te_payload_json := ta_payload_json t\<rparr> else e)"

definition adopt :: "pool \<Rightarrow> ticket_acs_info \<Rightarrow> pool" where
  "adopt m t = (case m (ta_ticket_id t) of
     Some e \<Rightarrow> m(ta_ticket_id t \<mapsto> backfill t e)
   | None \<Rightarrow> m(ta_ticket_id t \<mapsto> \<lparr>te_ticket_id = ta_ticket_id t, te_contract_id = ta_contract_id t,
       te_template_id = ta_template_id t, te_created_event_blob = ta_created_event_blob t,
       te_payload_json = ta_payload_json t, te_status = Free\<rparr>))"

definition reconcile_from_acs :: "ticket_acs_info list \<Rightarrow> pool \<Rightarrow> pool" where
  "reconcile_from_acs on_ledger m =
     foldl adopt (\<lambda>k. if k \<in> set (map ta_ticket_id on_ledger) then m k else None) on_ledger"

definition expired :: "nat \<Rightarrow> ticket_entry \<Rightarrow> bool" where
  "expired now e = (case te_status e of Assigned _ expires_at \<Rightarrow> now \<ge> expires_at | _ \<Rightarrow> False)"

definition expire_assignments :: "nat \<Rightarrow> pool \<Rightarrow> pool" where
  "expire_assignments now = update_where (expired now) Free"

section \<open>Saving and restoring\<close>

text \<open>\<open>saturating_duration_since(..).as_millis()\<close>, cut to \<open>u64\<close>.\<close>

definition remaining_millis :: "nat \<Rightarrow> nat \<Rightarrow> nat" where
  "remaining_millis expires_at now = min ((expires_at - now) div 1000000) u64_max"

definition save_ticket :: "nat \<Rightarrow> nat \<Rightarrow> ticket_entry \<Rightarrow> saved_ticket" where
  "save_ticket now_instant now_ms e =
     (let (status, quote_id, expires_at_ms) = (case te_status e of
        Free \<Rightarrow> (''free'', None, None)
      | Assigned q x \<Rightarrow> (''assigned'', Some q, Some (sat_add now_ms (remaining_millis x now_instant)))
      | Spent \<Rightarrow> (''spent'', None, None))
      in \<lparr>st_ticket_id = te_ticket_id e, st_contract_id = te_contract_id e, st_status = status,
          st_quote_id = quote_id, st_expires_at_ms = expires_at_ms\<rparr>)"

definition snapshot :: "string list \<Rightarrow> nat \<Rightarrow> nat \<Rightarrow> pool \<Rightarrow> saved_ticket list" where
  "snapshot ks now_instant now_ms m =
     List.map_filter (\<lambda>k. map_option (save_ticket now_instant now_ms) (m k)) ks"

text \<open>\<open>Instant::checked_add\<close>: seconds are an \<open>i64\<close>.\<close>

definition instant_add :: "nat \<Rightarrow> nat \<Rightarrow> nat option" where
  "instant_add t d = (if t + d < 2 ^ 63 * 10 ^ 9 then Some (t + d) else None)"

definition restored_status :: "nat \<Rightarrow> nat \<Rightarrow> nat \<Rightarrow> saved_ticket \<Rightarrow> ticket_status" where
  "restored_status now_instant now_ms max_ttl t =
     (if st_status t = ''assigned'' then (case (st_quote_id t, st_expires_at_ms t) of
        (Some q, Some x) \<Rightarrow>
          if x > now_ms then
            (let ttl = min ((x - now_ms) * 1000000) max_ttl in
             Assigned q (case instant_add now_instant ttl of Some i \<Rightarrow> i | None \<Rightarrow> now_instant))
          else Free
      | _ \<Rightarrow> Free)
      else if st_status t = ''spent'' then Spent else Free)"

definition restore_ticket :: "nat \<Rightarrow> nat \<Rightarrow> nat \<Rightarrow> pool \<Rightarrow> saved_ticket \<Rightarrow> pool" where
  "restore_ticket now_instant now_ms max_ttl m t = m(st_ticket_id t \<mapsto>
     \<lparr>te_ticket_id = st_ticket_id t, te_contract_id = st_contract_id t, te_template_id = None,
      te_created_event_blob = None, te_payload_json = None,
      te_status = restored_status now_instant now_ms max_ttl t\<rparr>)"

definition restore :: "nat \<Rightarrow> nat \<Rightarrow> nat \<Rightarrow> saved_ticket list \<Rightarrow> pool \<Rightarrow> pool" where
  "restore now_instant now_ms max_ttl saved m =
     foldl (restore_ticket now_instant now_ms max_ttl) m saved"

section \<open>The pool as a machine\<close>

datatype pool_event =
    Assign "string list" string nat
  | Unassign string
  | Archived string
  | Mark_Spent string
  | Reconcile "ticket_acs_info list"
  | Expire nat
  | Restore nat nat nat "saved_ticket list"

fun pool_step :: "pool \<Rightarrow> pool_event \<Rightarrow> pool" where
  "pool_step m (Assign ks q x) = snd (assign ks q x m)"
| "pool_step m (Unassign q) = unassign q m"
| "pool_step m (Archived c) = on_archived c m"
| "pool_step m (Mark_Spent q) = mark_spent q m"
| "pool_step m (Reconcile ts) = reconcile_from_acs ts m"
| "pool_step m (Expire now) = expire_assignments now m"
| "pool_step m (Restore i ms ttl ts) = restore i ms ttl ts m"

definition status_of :: "pool \<Rightarrow> string \<Rightarrow> ticket_status option" where
  "status_of m k = map_option te_status (m k)"

lemma set_status_simps [simp]:
  "te_status (set_status s e) = s" "te_ticket_id (set_status s e) = te_ticket_id e"
  "is_disclosable (set_status s e) = is_disclosable e"
  by (simp_all add: set_status_def is_disclosable_def)

lemma backfill_simps [simp]:
  "te_status (backfill t e) = te_status e" "te_ticket_id (backfill t e) = te_ticket_id e"
  by (simp_all add: backfill_def Let_def)

text \<open>Every entry stands under its own ticket id.\<close>

definition pool_inv :: "pool \<Rightarrow> bool" where
  "pool_inv m \<longleftrightarrow> (\<forall>k e. m k = Some e \<longrightarrow> te_ticket_id e = k)"

lemma pool_inv_update_where: "pool_inv m \<Longrightarrow> pool_inv (update_where P s m)"
  by (auto simp: pool_inv_def update_where_def)

lemma pool_inv_assign: "pool_inv m \<Longrightarrow> pool_inv (snd (assign ks q x m))"
  by (auto simp: pool_inv_def assign_def Let_def split: option.splits)

lemma pool_inv_adopt: "pool_inv m \<Longrightarrow> pool_inv (adopt m t)"
  by (auto simp: pool_inv_def adopt_def split: option.splits)

lemma pool_inv_foldl:
  "(\<And>m t. pool_inv m \<Longrightarrow> pool_inv (f m t)) \<Longrightarrow> pool_inv m \<Longrightarrow> pool_inv (foldl f m ts)"
  by (induction ts arbitrary: m) auto

lemma pool_inv_reconcile: "pool_inv m \<Longrightarrow> pool_inv (reconcile_from_acs ts m)"
  unfolding reconcile_from_acs_def
  by (rule pool_inv_foldl [OF pool_inv_adopt]) (auto simp: pool_inv_def split: if_splits)

lemma pool_inv_restore: "pool_inv m \<Longrightarrow> pool_inv (restore i ms ttl ts m)"
  unfolding restore_def
  by (rule pool_inv_foldl) (auto simp: pool_inv_def restore_ticket_def)

interpretation pool_well_formed: kept pool_step pool_inv "\<lambda>e. True"
proof
  fix m e
  assume "pool_inv m"
  then show "pool_inv (pool_step m e)"
    by (cases e) (auto simp: unassign_def on_archived_def mark_spent_def expire_assignments_def
        intro: pool_inv_update_where pool_inv_assign pool_inv_reconcile pool_inv_restore)
qed


section \<open>A ticket serves one quote at a time\<close>

text \<open>The events that may end the assignment of ticket \<open>t\<close> to quote \<open>q\<close> until \<open>x\<close>, or its spending, are left out.\<close>

fun keeps_ticket :: "string \<Rightarrow> pool_event \<Rightarrow> bool" where
  "keeps_ticket t (Reconcile ts) = (t \<in> set (map ta_ticket_id ts))"
| "keeps_ticket t (Restore i ms ttl ts) = (t \<notin> set (map st_ticket_id ts))"
| "keeps_ticket t e = True"

fun keeps_assignment :: "string \<Rightarrow> nat \<Rightarrow> pool_event \<Rightarrow> bool" where
  "keeps_assignment q x (Unassign q') = (q' \<noteq> q)"
| "keeps_assignment q x (Expire now) = (now < x)"
| "keeps_assignment q x e = True"

lemma status_update_where:
  "status_of (update_where P s m) k = (case m k of None \<Rightarrow> None | Some e \<Rightarrow> Some (if P e then s else te_status e))"
  by (auto simp: status_of_def update_where_def split: option.split)

lemma status_of_Some: "status_of m k = Some s \<longleftrightarrow> (\<exists>e. m k = Some e \<and> te_status e = s)"
  by (auto simp: status_of_def)

lemma first_assignable_Some:
  "first_assignable ks m = Some k \<Longrightarrow> \<exists>e. m k = Some e \<and> assignable e \<and> k \<in> set ks"
  by (auto simp: first_assignable_def find_Some_iff split: option.splits)

lemma assign_cases:
  obtains "first_assignable ks m = None" "assign ks q x m = (None, m)"
  | k e where "first_assignable ks m = Some k" "m k = Some e" "te_status e = Free" "is_disclosable e"
      "k \<in> set ks"
      "assign ks q x m = (Some (te_ticket_id e, set_status (Assigned q x) e),
         m(k \<mapsto> set_status (Assigned q x) e))"
  using first_assignable_Some [of ks m]
  by (cases "first_assignable ks m") (auto simp: assign_def assignable_def Let_def)

lemma status_assign:
  "status_of m t = Some s \<Longrightarrow> s \<noteq> Free \<Longrightarrow> status_of (snd (assign ks q x m)) t = Some s"
  by (rule assign_cases [of ks m q x]) (auto simp: status_of_def)

lemma status_adopt:
  "status_of (adopt m i) t = (if t = ta_ticket_id i \<and> m t = None then Some Free else status_of m t)"
  by (auto simp: adopt_def status_of_def split: option.splits)

lemma dom_adopt: "adopt m i t = None \<longleftrightarrow> m t = None \<and> t \<noteq> ta_ticket_id i"
  by (auto simp: adopt_def split: option.splits)

lemma status_foldl_adopt:
  "status_of (foldl adopt m ts) t =
     (if m t = None \<and> t \<in> set (map ta_ticket_id ts) then Some Free else status_of m t)"
proof (induction ts arbitrary: m)
  case (Cons i ts)
  then show ?case by (cases "m t = None") (auto simp: status_adopt dom_adopt)
qed simp

lemma status_reconcile:
  "status_of (reconcile_from_acs ts m) t =
     (if t \<notin> set (map ta_ticket_id ts) then None
      else Some (case m t of None \<Rightarrow> Free | Some e \<Rightarrow> te_status e))"
  unfolding reconcile_from_acs_def status_foldl_adopt
  by (auto simp: status_of_def split: option.split)

lemma restore_other: "t \<notin> set (map st_ticket_id ts) \<Longrightarrow> restore i ms ttl ts m t = m t"
  unfolding restore_def by (induction ts arbitrary: m) (auto simp: restore_ticket_def)

lemmas pool_updates = unassign_def on_archived_def mark_spent_def expire_assignments_def
  assigned_to_def expired_def

interpretation spent_ticket: kept pool_step "\<lambda>m. status_of m t = Some Spent" "keeps_ticket t" for t
proof
  fix m e
  assume "status_of m t = Some Spent" and "keeps_ticket t e"
  then show "status_of (pool_step m e) t = Some Spent"
    by (cases e) (auto simp: pool_updates status_update_where status_assign status_reconcile
        status_of_Some restore_other)
qed

interpretation held_ticket: kept pool_step
  "\<lambda>m. status_of m t \<in> {Some (Assigned q x), Some Spent}"
  "\<lambda>e. keeps_ticket t e \<and> keeps_assignment q x e" for t q x
proof
  fix m e
  assume old: "status_of m t \<in> {Some (Assigned q x), Some Spent}"
    and e: "keeps_ticket t e \<and> keeps_assignment q x e"
  show "status_of (pool_step m e) t \<in> {Some (Assigned q x), Some Spent}"
  proof (cases "status_of m t = Some Spent")
    case True
    with e spent_ticket.keeps show ?thesis by auto
  next
    case False
    with old have "status_of m t = Some (Assigned q x)" by simp
    with e show ?thesis
      by (cases e) (auto simp: pool_updates status_update_where status_assign [where s = "Assigned q x"]
          status_reconcile status_of_Some restore_other)
  qed
qed

lemma assign_Some:
  "fst (assign ks q x m) = Some (t, e) \<Longrightarrow> pool_inv m \<Longrightarrow>
     status_of m t = Some Free \<and> status_of (snd (assign ks q x m)) t = Some (Assigned q x)"
  by (rule assign_cases [of ks m q x]) (auto simp: status_of_def pool_inv_def)

text \<open>
  C39: A ticket serves one quote at a time. Once it is assigned to a quote, no later call of
  \<open>assign\<close> gives it out again, whatever happens in between, unless that quote is unassigned,
  an expiry sweep runs at or after the expiry of the assignment, a reconciliation finds the
  ticket gone from the ledger, or a saved state with the ticket is restored.
\<close>

theorem ticket_not_reissued:
  assumes "pool_inv m" and "fst (assign ks q x m) = Some (t, e)"
    and "list_all (\<lambda>e. keeps_ticket t e \<and> keeps_assignment q x e) es"
  shows "\<nexists>ks' q' x' e'. fst (assign ks' q' x' (run pool_step (snd (assign ks q x m)) es)) = Some (t, e')"
proof
  let ?m = "run pool_step (snd (assign ks q x m)) es"
  assume "\<exists>ks' q' x' e'. fst (assign ks' q' x' ?m) = Some (t, e')"
  moreover have "pool_inv ?m"
    by (rule pool_well_formed.run_keeps) (auto simp: assms(1) pool_inv_assign list_all_iff)
  moreover have "status_of ?m t \<in> {Some (Assigned q x), Some Spent}"
    using held_ticket.run_keeps assign_Some [OF assms(2,1)] assms(3) by blast
  ultimately show False using assign_Some by fastforce
qed

definition sample_info :: "string \<Rightarrow> ticket_acs_info" where
  "sample_info t = \<lparr>ta_ticket_id = t, ta_contract_id = ''00'' @ t, ta_template_id = Some ''T'',
     ta_created_event_blob = Some ''b'', ta_payload_json = Some ''p''\<rparr>"

definition sample_pool :: pool where
  "sample_pool = reconcile_from_acs [sample_info ''t1'', sample_info ''t2''] Map.empty"

lemma sample_pool_inv: "pool_inv sample_pool"
  unfolding sample_pool_def by (rule pool_inv_reconcile) (simp add: pool_inv_def)

theorem ticket_not_reissued_witness:
  "\<nexists>ks' q' x' e'. fst (assign ks' q' x' (run pool_step
     (snd (assign [''t1'', ''t2''] ''q'' 50 sample_pool))
     [Expire 40, Unassign ''r'', Reconcile [sample_info ''t1''], Assign [''t1''] ''r'' 60]))
     = Some (''t1'', e')"
proof -
  have "map_option fst (fst (assign [''t1'', ''t2''] ''q'' 50 sample_pool)) = Some ''t1''" by code_simp
  then obtain e where "fst (assign [''t1'', ''t2''] ''q'' 50 sample_pool) = Some (''t1'', e)" by auto
  then show ?thesis
    by (rule ticket_not_reissued [OF sample_pool_inv]) (simp add: sample_info_def)
qed

text \<open>
  A spent ticket never returns: it stays spent and is never assigned, until it is gone
  from the ledger or a saved state with it is restored.
\<close>

theorem spent_ticket_final:
  assumes "pool_inv m" and "status_of m t = Some Spent" and "list_all (keeps_ticket t) es"
  shows "status_of (run pool_step m es) t = Some Spent
    \<and> (\<nexists>ks q x e. fst (assign ks q x (run pool_step m es)) = Some (t, e))"
proof -
  have "pool_inv (run pool_step m es)"
    by (rule pool_well_formed.run_keeps) (auto simp: assms(1) list_all_iff)
  moreover have "status_of (run pool_step m es) t = Some Spent"
    using assms(2,3) by (rule spent_ticket.run_keeps)
  ultimately show ?thesis using assign_Some by fastforce
qed

theorem spent_ticket_final_witness:
  "status_of (run pool_step (on_archived ''00t1'' sample_pool) [Unassign ''q'', Expire 90]) ''t1'' = Some Spent"
proof -
  have "status_of (on_archived ''00t1'' sample_pool) ''t1'' = Some Spent" by code_simp
  moreover have "pool_inv (on_archived ''00t1'' sample_pool)"
    by (simp add: on_archived_def pool_inv_update_where sample_pool_inv)
  ultimately show ?thesis
    using spent_ticket_final [of "on_archived ''00t1'' sample_pool" "''t1''" "[Unassign ''q'', Expire 90]"]
    by simp
qed


section \<open>Assigning\<close>

lemma free_count_card:
  "distinct ks \<Longrightarrow> free_count ks m = card {k \<in> set ks. \<exists>e. m k = Some e \<and> assignable e}"
  unfolding free_count_def
  by (subst distinct_length_filter) (auto intro!: arg_cong [where f = card] split: option.splits)

text \<open>
  \<open>assign\<close> gives out a ticket exactly when the count of free tickets is not zero; the
  ticket was free, it is now assigned to the quote until the given time, the count drops by
  one and no other entry changes.
\<close>

theorem assign_takes_free_ticket:
  assumes "pool_inv m" and "walk_order ks m"
  shows "case assign ks q x m of
      (None, m') \<Rightarrow> free_count ks m = 0 \<and> m' = m
    | (Some (t, e), m') \<Rightarrow> status_of m t = Some Free \<and> te_status e = Assigned q x \<and> m' = m(t \<mapsto> e)
        \<and> Suc (free_count ks m') = free_count ks m"
proof (rule assign_cases [of ks m q x])
  assume none: "first_assignable ks m = None" and res: "assign ks q x m = (None, m)"
  from none have "\<forall>k \<in> set ks. \<nexists>e. m k = Some e \<and> assignable e"
    by (auto simp: first_assignable_def find_None_iff split: option.splits)
  then have "free_count ks m = 0"
    by (auto simp: free_count_def filter_empty_conv split: option.splits)
  with res show ?thesis by simp
next
  fix k e
  assume k: "m k = Some e" "te_status e = Free" "is_disclosable e" "k \<in> set ks"
    and res: "assign ks q x m = (Some (te_ticket_id e, set_status (Assigned q x) e),
         m(k \<mapsto> set_status (Assigned q x) e))"
  let ?m = "m(k \<mapsto> set_status (Assigned q x) e)"
  let ?F = "\<lambda>m. {j \<in> set ks. \<exists>e. m j = Some e \<and> assignable e}"
  have "?F m = insert k (?F ?m)" "k \<notin> ?F ?m"
    using k by (auto simp: assignable_def)
  then have "Suc (card (?F ?m)) = card (?F m)" by simp
  moreover have "distinct ks" using assms(2) by (simp add: walk_order_def)
  moreover have "te_ticket_id e = k" using assms(1) k(1) by (simp add: pool_inv_def)
  ultimately show ?thesis using res k by (simp add: free_count_card status_of_def)
qed

theorem assign_takes_free_ticket_witness:
  "Suc (free_count [''t1'', ''t2''] (snd (assign [''t1'', ''t2''] ''q'' 50 sample_pool)))
     = free_count [''t1'', ''t2''] sample_pool"
proof -
  have "dom sample_pool = set [''t1'', ''t2'']"
    by (auto simp: sample_pool_def reconcile_from_acs_def adopt_def sample_info_def split: if_splits)
  then have "walk_order [''t1'', ''t2''] sample_pool" by (simp add: walk_order_def)
  moreover have "fst (assign [''t1'', ''t2''] ''q'' 50 sample_pool) \<noteq> None" by code_simp
  ultimately show ?thesis
    using assign_takes_free_ticket [OF sample_pool_inv, of "[''t1'', ''t2'']" "''q''" 50]
    by (auto split: prod.splits option.splits)
qed

section \<open>A saved pool comes back\<close>

lemma map_filter_simps [simp]:
  "List.map_filter f [] = []"
  "List.map_filter f (x # xs) = (case f x of None \<Rightarrow> List.map_filter f xs | Some y \<Rightarrow> y # List.map_filter f xs)"
  by (simp_all add: List.map_filter_def split: option.split)

lemma snapshot_ids:
  "pool_inv m \<Longrightarrow> t \<notin> set ks \<Longrightarrow> t \<notin> set (map st_ticket_id (snapshot ks i ms m))"
  by (induction ks) (auto simp: snapshot_def pool_inv_def save_ticket_def case_prod_unfold Let_def split: option.splits)

lemma restore_Cons: "restore i ms ttl (t # ts) m = restore i ms ttl ts (restore_ticket i ms ttl m t)"
  by (simp add: restore_def)

lemma restore_snapshot:
  assumes "pool_inv m"
  shows "distinct ks \<Longrightarrow> status_of (restore i1 ms1 ttl (snapshot ks i0 ms0 m) m0) t =
    (if t \<in> set ks \<and> m t \<noteq> None
     then map_option (\<lambda>e. restored_status i1 ms1 ttl (save_ticket i0 ms0 e)) (m t) else status_of m0 t)"
proof (induction ks arbitrary: m0)
  case Nil
  then show ?case by (simp add: snapshot_def restore_def)
next
  case (Cons k ks)
  show ?case
  proof (cases "m k")
    case None
    then have "snapshot (k # ks) i0 ms0 m = snapshot ks i0 ms0 m" by (simp add: snapshot_def)
    with Cons None show ?thesis by auto
  next
    case (Some e)
    then have snap: "snapshot (k # ks) i0 ms0 m = save_ticket i0 ms0 e # snapshot ks i0 ms0 m"
      by (simp add: snapshot_def)
    have id: "st_ticket_id (save_ticket i0 ms0 e) = k"
      using assms Some by (simp add: pool_inv_def save_ticket_def case_prod_unfold Let_def)
    show ?thesis
      unfolding snap restore_Cons using Cons Some
      by (auto simp: restore_ticket_def id status_of_def)
  qed
qed

definition MS :: nat where
  "MS = 1000000"

text \<open>What a restart may do to a status: a live assignment keeps its quote and ends at most a millisecond earlier, or at the cap.\<close>

definition survives :: "nat \<Rightarrow> nat \<Rightarrow> ticket_status \<Rightarrow> ticket_status \<Rightarrow> bool" where
  "survives i1 ttl s s' = (case s of
      Assigned q x \<Rightarrow> (s' = Free \<and> x < i1 + MS)
        \<or> (\<exists>y. s' = Assigned q y \<and> y \<le> x \<and> (x < y + MS \<or> y = i1 + ttl))
    | _ \<Rightarrow> s' = s)"

lemma survives_restart:
  assumes i1: "i1 = i0 + (ms1 - ms0) * MS" and "ms0 \<le> ms1" "ms1 < 2 ^ 62"
    and x: "\<And>q x. te_status e = Assigned q x \<Longrightarrow> x < 2 ^ 62 * MS"
  shows "survives i1 ttl (te_status e) (restored_status i1 ms1 ttl (save_ticket i0 ms0 e))"
proof (cases "te_status e")
  case (Assigned q x)
  define r where "r = (x - i0) div MS"
  have x62: "x < 2 ^ 62 * MS" by (rule assms(4) [OF Assigned])
  then have r62: "r < 2 ^ 62" unfolding r_def MS_def by (simp add: less_mult_imp_div_less)
  have rem: "remaining_millis x i0 = r"
    using r62 by (simp add: remaining_millis_def r_def u64_max_def MS_def)
  have sat: "sat_add ms0 r = ms0 + r"
    using r62 assms(2,3) by (simp add: sat_add_def u64_max_def)
  have lower: "r * MS \<le> x - i0" unfolding r_def by simp
  have upper: "x - i0 < r * MS + MS"
    unfolding r_def using div_mult_mod_eq [of "x - i0" MS] mod_less_divisor [of MS "x - i0"]
    by (simp add: MS_def)
  have saved: "restored_status i1 ms1 ttl (save_ticket i0 ms0 e) =
      (if ms0 + r > ms1 then let ttl' = min ((ms0 + r - ms1) * MS) ttl in
         Assigned q (case instant_add i1 ttl' of Some i \<Rightarrow> i | None \<Rightarrow> i1) else Free)"
    by (simp add: save_ticket_def Assigned restored_status_def rem sat MS_def)
  show ?thesis
  proof (cases "ms0 + r > ms1")
    case False
    then have "r * MS \<le> (ms1 - ms0) * MS" by (intro mult_right_mono) auto
    with upper i1 have "x < i1 + MS" by linarith
    with False show ?thesis by (simp add: saved Assigned survives_def)
  next
    case True
    define left where "left = (ms0 + r - ms1) * MS"
    have "left + (ms1 - ms0) * MS = r * MS"
      unfolding left_def using True assms(2) by (simp flip: add_mult_distrib)
    moreover have "0 < r * MS" using True assms(2) by (simp add: MS_def)
    ultimately have ends: "i1 + left \<le> x" "x < i1 + left + MS"
      using lower upper i1 by linarith+
    then have "i1 + min left ttl < 2 ^ 63 * 10 ^ 9" using x62 by (simp add: MS_def)
    then have "restored_status i1 ms1 ttl (save_ticket i0 ms0 e) = Assigned q (i1 + min left ttl)"
      using True by (simp add: saved left_def instant_add_def Let_def)
    with ends show ?thesis by (auto simp: Assigned survives_def min_def)
  qed
qed (simp_all add: survives_def save_ticket_def restored_status_def)

text \<open>
  A pool that is saved and restored after a restart, with clocks that went on together,
  has the same tickets with the same statuses, save that an assignment may end up to a
  millisecond earlier (or at the cap \<open>max_ttl\<close>), and one that is over, or in its last
  millisecond, comes back free.
\<close>

theorem snapshot_restore_roundtrip:
  assumes "pool_inv m" and "walk_order ks m"
    and "i1 = i0 + (ms1 - ms0) * MS" and "ms0 \<le> ms1" and "ms1 < 2 ^ 62"
    and "\<And>t q x. status_of m t = Some (Assigned q x) \<Longrightarrow> x < 2 ^ 62 * MS"
  shows "rel_option (survives i1 ttl) (status_of m t)
    (status_of (restore i1 ms1 ttl (snapshot ks i0 ms0 m) Map.empty) t)"
proof (cases "m t")
  case None
  then have "status_of (restore i1 ms1 ttl (snapshot ks i0 ms0 m) Map.empty) t = None"
    using assms(2) restore_snapshot [OF assms(1), of ks i1 ms1 ttl i0 ms0 Map.empty t]
    by (simp add: walk_order_def status_of_def)
  with None show ?thesis by (simp add: status_of_def)
next
  case (Some e)
  then have "t \<in> set ks" using assms(2) by (auto simp: walk_order_def)
  then have "status_of (restore i1 ms1 ttl (snapshot ks i0 ms0 m) Map.empty) t
      = Some (restored_status i1 ms1 ttl (save_ticket i0 ms0 e))"
    using assms(2) Some by (simp add: restore_snapshot [OF assms(1)] walk_order_def)
  moreover have "survives i1 ttl (te_status e) (restored_status i1 ms1 ttl (save_ticket i0 ms0 e))"
    using Some assms(6) by (intro survives_restart [OF assms(3-5)]) (auto simp: status_of_def)
  moreover have "status_of m t = Some (te_status e)" using Some by (simp add: status_of_def)
  ultimately show ?thesis by simp
qed

theorem snapshot_restore_roundtrip_witness:
  "\<exists>s. status_of (restore 3000000 5 (60 * MS) (snapshot [''t1''] 1000000 3
      [''t1'' \<mapsto> \<lparr>te_ticket_id = ''t1'', te_contract_id = ''c'', te_template_id = None,
        te_created_event_blob = None, te_payload_json = None, te_status = Assigned ''q'' 9500000\<rparr>])
      Map.empty) ''t1'' = Some s
    \<and> survives 3000000 (60 * MS) (Assigned ''q'' 9500000) s"
proof -
  define e where "e = \<lparr>te_ticket_id = ''t1'', te_contract_id = ''c'', te_template_id = None,
    te_created_event_blob = None, te_payload_json = None, te_status = Assigned ''q'' 9500000\<rparr>"
  have "rel_option (survives 3000000 (60 * MS)) (status_of [''t1'' \<mapsto> e] ''t1'')
      (status_of (restore 3000000 5 (60 * MS) (snapshot [''t1''] 1000000 3 [''t1'' \<mapsto> e]) Map.empty) ''t1'')"
    by (rule snapshot_restore_roundtrip)
      (auto simp: pool_inv_def walk_order_def status_of_def e_def MS_def split: if_splits)
  then show ?thesis
    unfolding e_def [symmetric] by (auto simp: status_of_def e_def option_rel_Some1)
qed

end
