(* ===== verification/Ledger_Health.thy ===== *)
theory Ledger_Health
  imports Machine
begin

text \<open>
  \<open>crates/agent-logic/src/ledger_health.rs\<close>: the circuit breaker on ledger submissions. The
  three process-global atomics are the record \<open>breaker\<close>; each call of \<open>now_ms\<close> is an argument,
  in the order of the calls, and each operation is one step. The two settings read from the
  environment are the record \<open>breaker_config\<close>.
\<close>

section \<open>Settings\<close>

definition DEFAULT_COOLDOWN_SECS :: nat where "DEFAULT_COOLDOWN_SECS = 60"

definition MAX_COOLDOWN_SECS :: nat where "MAX_COOLDOWN_SECS = 86400"

definition COOLDOWN_ENV :: string where "COOLDOWN_ENV = ''LEDGER_UNHEALTHY_COOLDOWN_SECS''"

text \<open>\<open>str::parse::<u64>\<close>: digits after an optional plus sign.\<close>

definition parse_u64 :: "string \<Rightarrow> nat option" where
  "parse_u64 s =
     (let ds = (case s of c # cs \<Rightarrow> if c = CHR ''+'' then cs else s | [] \<Rightarrow> []) in
      if ds = [] then None
      else (case digits_val 0 ds of None \<Rightarrow> None
            | Some n \<Rightarrow> if n < 2 ^ 64 then Some (nat n) else None))"

definition parse_cooldown_secs :: "(string \<Rightarrow> string) \<Rightarrow> string option \<Rightarrow> nat result" where
  "parse_cooldown_secs trim raw =
     (case raw of None \<Rightarrow> Inr DEFAULT_COOLDOWN_SECS
      | Some r0 \<Rightarrow> let r = trim r0 in
          if r = [] then Inr DEFAULT_COOLDOWN_SECS
          else (case parse_u64 r of
              None \<Rightarrow> Inl [Lit COOLDOWN_ENV, Lit ''='', Arg r, Lit '' is not a whole number of seconds'']
            | Some secs \<Rightarrow> if secs > MAX_COOLDOWN_SECS
                then Inl [Lit COOLDOWN_ENV, Lit ''='', Num (int secs), Lit '' is outside 0..='',
                  Num (int MAX_COOLDOWN_SECS)]
                else Inr secs))"

section \<open>The breaker\<close>

record breaker_config =
  bc_threshold :: nat
  bc_cooldown_secs :: nat

record breaker =
  b_failures :: nat
  b_until_ms :: nat
  b_since_ms :: nat

definition closed_breaker :: breaker where
  "closed_breaker = \<lparr>b_failures = 0, b_until_ms = 0, b_since_ms = 0\<rparr>"

definition resume_at_ms :: "nat \<Rightarrow> nat \<Rightarrow> nat" where
  "resume_at_ms now_ms cooldown_secs = sat_add now_ms (sat_mul cooldown_secs 1000)"

definition record_submit_failure :: "breaker_config \<Rightarrow> nat \<Rightarrow> nat \<Rightarrow> nat \<Rightarrow> breaker \<Rightarrow> breaker" where
  "record_submit_failure c now1 now2 now3 b =
     (let failures = sat_add (b_failures b) 1;
          b1 = b\<lparr>b_failures := (b_failures b + 1) mod 2 ^ 64\<rparr>
      in if failures < bc_threshold c then b1
         else let was_healthy = b_until_ms b1 \<le> now1;
                  b2 = b1\<lparr>b_until_ms := max (b_until_ms b1) (resume_at_ms now2 (bc_cooldown_secs c))\<rparr>
              in if was_healthy then b2\<lparr>b_since_ms := now3\<rparr> else b2)"

definition record_submit_success :: "breaker \<Rightarrow> breaker" where
  "record_submit_success b = \<lparr>b_failures = 0, b_until_ms = 0, b_since_ms = 0\<rparr>"

definition is_unhealthy :: "nat \<Rightarrow> breaker \<Rightarrow> bool" where
  "is_unhealthy now b \<longleftrightarrow> now < b_until_ms b"

definition unhealthy_since_ms :: "nat \<Rightarrow> breaker \<Rightarrow> nat option" where
  "unhealthy_since_ms now b =
     (if \<not> is_unhealthy now b then None
      else if b_since_ms b = 0 then None else Some (b_since_ms b))"

definition unhealthy_duration_ms :: "nat \<Rightarrow> nat \<Rightarrow> breaker \<Rightarrow> nat" where
  "unhealthy_duration_ms now1 now2 b =
     (case unhealthy_since_ms now1 b of None \<Rightarrow> 0 | Some since \<Rightarrow> now2 - since)"

section \<open>Which failures count\<close>

definition is_sequencer_unreachable :: "string \<Rightarrow> bool" where
  "is_sequencer_unreachable msg =
     (let lower = map ascii_lower msg in
      if list_ex (\<lambda>r. str_contains lower r) [''inactive_contracts'', ''precondition_failed'', ''duplicate_command'']
      then False
      else list_ex (\<lambda>s. str_contains lower s)
        [''sequencer_request_failed'', ''failed to send command'', ''unavailable'', ''transport error''])"

section \<open>Runs\<close>

datatype submission = Failure nat nat nat | Success

fun breaker_step :: "breaker_config \<Rightarrow> breaker \<Rightarrow> submission \<Rightarrow> breaker" where
  "breaker_step c b (Failure n1 n2 n3) = record_submit_failure c n1 n2 n3 b"
| "breaker_step c b Success = record_submit_success b"

text \<open>The failures since the last success, and those of them that reach the threshold.\<close>

fun is_failure :: "submission \<Rightarrow> bool" where
  "is_failure (Failure n1 n2 n3) = True"
| "is_failure Success = False"

definition recent_failures :: "submission list \<Rightarrow> submission list" where
  "recent_failures es = rev (takeWhile is_failure (rev es))"

definition tripping :: "breaker_config \<Rightarrow> submission list \<Rightarrow> submission list" where
  "tripping c es = drop (bc_threshold c - 1) (recent_failures es)"

fun resume_of :: "breaker_config \<Rightarrow> submission \<Rightarrow> nat" where
  "resume_of c (Failure n1 n2 n3) = resume_at_ms n2 (bc_cooldown_secs c)"
| "resume_of c Success = 0"

lemma recent_failures_snoc:
  "recent_failures [] = []"
  "recent_failures (es @ [e]) = (if is_failure e then recent_failures es @ [e] else [])"
  by (simp_all add: recent_failures_def)

lemma length_recent: "length (recent_failures es) \<le> length es"
  unfolding recent_failures_def by (metis length_rev length_takeWhile_le)

lemma tripping_snoc:
  "tripping c (es @ [e]) = (if \<not> is_failure e then []
     else if Suc (length (recent_failures es)) < bc_threshold c then []
     else tripping c es @ [e])"
  by (auto simp: tripping_def recent_failures_snoc)

lemma tripping_short: "length (recent_failures es) < bc_threshold c \<Longrightarrow> tripping c es = []"
  by (simp add: tripping_def)

lemma less_foldl_max: "(n :: nat) < foldl max m xs \<longleftrightarrow> n < m \<or> (\<exists>x \<in> set xs. n < x)"
  by (induction xs arbitrary: m) (auto simp: less_max_iff_disj)

lemma breaker_run:
  assumes "length es < 2 ^ 64 - 1"
  shows "b_failures (run (breaker_step c) closed_breaker es) = length (recent_failures es)
    \<and> b_until_ms (run (breaker_step c) closed_breaker es) = foldl max 0 (map (resume_of c) (tripping c es))"
  using assms
proof (induction es rule: rev_induct)
  case Nil
  show ?case by (simp add: closed_breaker_def recent_failures_def tripping_def)
next
  case (snoc e es)
  let ?b = "run (breaker_step c) closed_breaker es"
  have IH: "b_failures ?b = length (recent_failures es)"
    "b_until_ms ?b = foldl max 0 (map (resume_of c) (tripping c es))"
    using snoc by simp_all
  show ?case
  proof (cases e)
    case Success
    then show ?thesis
      by (simp add: record_submit_success_def recent_failures_snoc tripping_snoc)
  next
    case (Failure n1 n2 n3)
    have small: "Suc (length (recent_failures es)) < 2 ^ 64"
      using length_recent [of es] snoc.prems by simp
    then have sat: "sat_add (length (recent_failures es)) (Suc 0) = Suc (length (recent_failures es))"
      by (simp add: sat_add_def u64_max_def)
    show ?thesis
    proof (cases "Suc (length (recent_failures es)) < bc_threshold c")
      case True
      then show ?thesis using Failure small IH
        by (simp add: record_submit_failure_def sat recent_failures_snoc tripping_snoc tripping_short Let_def)
    next
      case False
      then show ?thesis using Failure small IH
        by (simp add: record_submit_failure_def sat recent_failures_snoc tripping_snoc Let_def)
    qed
  qed
qed

text \<open>
  After any sequence of submissions the breaker is open at a time exactly when, among the
  failures since the last success, one from the threshold on is less than a cooldown old. So
  fewer failures in a row than the threshold never open it, a success closes it at once, and
  without further failures it closes by itself.
\<close>

theorem breaker_open_iff:
  assumes "length es < 2 ^ 64 - 1"
  shows "is_unhealthy now (run (breaker_step c) closed_breaker es) \<longleftrightarrow>
    (\<exists>n1 n2 n3. Failure n1 n2 n3 \<in> set (drop (bc_threshold c - 1) (recent_failures es))
       \<and> now < resume_at_ms n2 (bc_cooldown_secs c))"
proof -
  have fails: "\<forall>f \<in> set (tripping c es). is_failure f"
    by (auto simp: tripping_def recent_failures_def dest!: in_set_dropD set_takeWhileD)
  have "is_unhealthy now (run (breaker_step c) closed_breaker es)
      \<longleftrightarrow> (\<exists>f \<in> set (tripping c es). now < resume_of c f)"
    using breaker_run [OF assms] by (auto simp: is_unhealthy_def less_foldl_max)
  also have "\<dots> \<longleftrightarrow> (\<exists>n1 n2 n3. Failure n1 n2 n3 \<in> set (tripping c es)
       \<and> now < resume_at_ms n2 (bc_cooldown_secs c))"
    using fails by (metis is_failure.elims(2) resume_of.simps(1))
  finally show ?thesis by (simp only: tripping_def)
qed

theorem breaker_open_iff_witness:
  "is_unhealthy 5000 (run (breaker_step \<lparr>bc_threshold = 3, bc_cooldown_secs = 60\<rparr>) closed_breaker
       [Success, Failure 1 1 1, Failure 2 2 2, Failure 3 3 3])
   \<and> \<not> is_unhealthy 60003 (run (breaker_step \<lparr>bc_threshold = 3, bc_cooldown_secs = 60\<rparr>) closed_breaker
       [Success, Failure 1 1 1, Failure 2 2 2, Failure 3 3 3])"
  by (subst (1 2) breaker_open_iff)
    (auto simp: recent_failures_def resume_at_ms_def sat_add_def sat_mul_def u64_max_def)

text \<open>
  A message that names a business rejection, in whatever case its letters are, never
  counts as an unreachable ledger, whatever else it says.
\<close>

theorem business_rejection_not_counted:
  assumes "r \<in> {''inactive_contracts'', ''precondition_failed'', ''duplicate_command''}"
    and "map ascii_lower s = r"
  shows "\<not> is_sequencer_unreachable (p @ s @ q)"
proof -
  have "str_contains (map ascii_lower (p @ s @ q)) r"
    using assms(2) by (auto simp: str_contains_iff)
  with assms(1) have "list_ex (\<lambda>r. str_contains (map ascii_lower (p @ s @ q)) r)
      [''inactive_contracts'', ''precondition_failed'', ''duplicate_command'']"
    by (simp only: list_ex_iff) auto
  then show ?thesis by (simp only: is_sequencer_unreachable_def Let_def if_True not_False_eq_True)
qed

theorem business_rejection_not_counted_witness:
  "\<not> is_sequencer_unreachable ''UNAVAILABLE: INACTIVE_CONTRACTS (transport error)''"
proof -
  have "map ascii_lower ''INACTIVE_CONTRACTS'' = ''inactive_contracts''" by code_simp
  then show ?thesis
    using business_rejection_not_counted [of "''inactive_contracts''" "''INACTIVE_CONTRACTS''"
        "''UNAVAILABLE: ''" "'' (transport error)''"] by simp
qed

end
