(* ===== verification/Decimal.thy ===== *)
theory Decimal
  imports Machine
begin

text \<open>
  Decimal amounts. \<open>rust_decimal\<close> is third-party code: a \<open>Decimal\<close> is the rational it stands
  for (its order and equality are those of the number), and its checked arithmetic is the
  parameter record \<open>dec_arith\<close>. The sums of \<open>crates/agent-logic/src/num.rs\<close> are modelled over it.
\<close>

record dec_arith =
  d_add :: "rat \<Rightarrow> rat \<Rightarrow> rat option"
  d_sub :: "rat \<Rightarrow> rat \<Rightarrow> rat option"
  d_mul :: "rat \<Rightarrow> rat \<Rightarrow> rat option"
  d_max :: rat

fun dec_sum_from :: "dec_arith \<Rightarrow> rat \<Rightarrow> rat list \<Rightarrow> rat option" where
  "dec_sum_from A acc [] = Some acc"
| "dec_sum_from A acc (x # xs) =
     (case d_add A acc x of None \<Rightarrow> None | Some s \<Rightarrow> dec_sum_from A s xs)"

definition dec_sum :: "dec_arith \<Rightarrow> rat list \<Rightarrow> rat option" where
  "dec_sum A xs = dec_sum_from A 0 xs"

text \<open>
  What the library documents, for the amounts of the ledger (\<open>Numeric 10\<close>): a mantissa of 96
  bits holds a sum or difference with ten decimals exactly when it is small enough.
\<close>

definition ledger_amount :: "rat \<Rightarrow> bool" where
  "ledger_amount r \<longleftrightarrow> r * 10 ^ 10 \<in> \<int>"

definition in_range :: "rat \<Rightarrow> bool" where
  "in_range r \<longleftrightarrow> \<bar>r\<bar> * 10 ^ 10 < 2 ^ 96"

definition dec_laws :: "dec_arith \<Rightarrow> bool" where
  "dec_laws A \<longleftrightarrow> (\<forall>a b. ledger_amount a \<longrightarrow> ledger_amount b \<longrightarrow>
     (in_range (a + b) \<longrightarrow> d_add A a b = Some (a + b)) \<and> (in_range (a - b) \<longrightarrow> d_sub A a b = Some (a - b)))"

lemma dec_lawsD:
  assumes "dec_laws A" and "ledger_amount a" and "ledger_amount b"
  shows "in_range (a + b) \<Longrightarrow> d_add A a b = Some (a + b)"
    and "in_range (a - b) \<Longrightarrow> d_sub A a b = Some (a - b)"
  using assms by (simp_all add: dec_laws_def)

lemma ledger_amount_simps [simp]: "ledger_amount 0"
  by (simp add: ledger_amount_def)

lemma ledger_amount_arith:
  "ledger_amount a \<Longrightarrow> ledger_amount b \<Longrightarrow> ledger_amount (a + b)"
  "ledger_amount a \<Longrightarrow> ledger_amount b \<Longrightarrow> ledger_amount (a - b)"
  by (simp_all add: ledger_amount_def algebra_simps)

lemma in_range_le: "in_range b \<Longrightarrow> \<bar>a\<bar> \<le> \<bar>b\<bar> \<Longrightarrow> in_range a"
  unfolding in_range_def by (meson le_less_trans mult_right_mono zero_le_numeral zero_le_power)

lemma dec_sum_from_exact:
  assumes "dec_laws A"
  shows "ledger_amount acc \<Longrightarrow> 0 \<le> acc \<Longrightarrow> \<forall>x \<in> set xs. ledger_amount x \<and> 0 \<le> x \<Longrightarrow>
    in_range (acc + sum_list xs) \<Longrightarrow> dec_sum_from A acc xs = Some (acc + sum_list xs)"
proof (induction xs arbitrary: acc)
  case (Cons x xs)
  have "0 \<le> sum_list xs" using Cons.prems by (intro sum_list_nonneg) auto
  then have "in_range (acc + x)"
    using Cons.prems by (intro in_range_le [OF Cons.prems(4)]) auto
  then have "d_add A acc x = Some (acc + x)"
    using Cons.prems by (intro dec_lawsD [OF assms]) auto
  with Cons show ?case by (simp add: ledger_amount_arith add.assoc)
qed simp

text \<open>An instance: exact arithmetic with the range of the mantissa.\<close>

definition exact_arith :: dec_arith where
  "exact_arith = \<lparr>d_add = (\<lambda>a b. if in_range (a + b) then Some (a + b) else None),
     d_sub = (\<lambda>a b. if in_range (a - b) then Some (a - b) else None),
     d_mul = (\<lambda>a b. if in_range (a * b) then Some (a * b) else None), d_max = 2 ^ 96 - 1\<rparr>"

lemma exact_arith_laws: "dec_laws exact_arith"
  by (simp add: dec_laws_def exact_arith_def)

end
