(* ===== verification/Coin_Selection.thy ===== *)
theory Coin_Selection
  imports Decimal
begin

text \<open>
  \<open>select_from\<close> of \<open>crates/cloud-agent/src/holdings_cache.rs\<close>: the choice of holdings that
  cover a target. The input is sorted by amount, smallest first.
\<close>

record cached_holding =
  h_contract_id :: string
  h_template_id :: string
  h_instrument :: string
  h_amount :: rat
  h_created_event_blob :: "string option"
  h_synchronizer_id :: string
  h_discovered_at :: nat

text \<open>The loop over the holdings, largest first: the picks and their total.\<close>

fun greedy :: "dec_arith \<Rightarrow> rat \<Rightarrow> nat \<Rightarrow> cached_holding list \<Rightarrow> cached_holding list \<Rightarrow> rat \<Rightarrow>
    (cached_holding list \<times> rat) option" where
  "greedy A target n [] picks tot = Some (picks, tot)"
| "greedy A target n (h # hs) picks tot =
     (if length picks \<ge> n then Some (picks, tot)
      else (case d_add A tot (h_amount h) of
          None \<Rightarrow> None
        | Some t \<Rightarrow> if t \<ge> target then Some (picks @ [h], t)
            else greedy A target n hs (picks @ [h]) t))"

definition replacement :: "dec_arith \<Rightarrow> cached_holding list \<Rightarrow> rat \<Rightarrow> cached_holding list \<Rightarrow> rat \<Rightarrow>
    cached_holding option" where
  "replacement A selectable target picks tot =
     (if picks = [] \<or> butlast picks = [] then None
      else Option.bind (d_sub A tot (h_amount (last picks))) (\<lambda>others.
        Option.bind (d_sub A target others) (\<lambda>residual.
        find (\<lambda>h. h_amount h \<ge> residual \<and> h_contract_id h \<notin> h_contract_id ` set (butlast picks))
          selectable)))"

definition select_from :: "dec_arith \<Rightarrow> cached_holding list \<Rightarrow> rat \<Rightarrow> nat \<Rightarrow> cached_holding list option" where
  "select_from A selectable target n =
     (case find (\<lambda>h. h_amount h \<ge> target) selectable of
        Some h \<Rightarrow> Some [h]
      | None \<Rightarrow> (case greedy A target n (rev selectable) [] 0 of
          None \<Rightarrow> None
        | Some (picks, tot) \<Rightarrow>
            if tot < target then None
            else (case replacement A selectable target picks tot of
                Some r \<Rightarrow> Some (butlast picks @ [r])
              | None \<Rightarrow> Some picks)))"

section \<open>What a selection is\<close>

abbreviation amounts :: "cached_holding list \<Rightarrow> rat list" where
  "amounts hs \<equiv> map h_amount hs"

definition total_of :: "cached_holding list \<Rightarrow> rat" where
  "total_of hs = sum_list (amounts hs)"

text \<open>Holdings as the cache keeps them: sorted, one per contract, with ledger amounts whose sum is in range.\<close>

definition selectable_ok :: "cached_holding list \<Rightarrow> bool" where
  "selectable_ok hs \<longleftrightarrow> sorted (amounts hs) \<and> distinct (map h_contract_id hs)
     \<and> (\<forall>h \<in> set hs. ledger_amount (h_amount h) \<and> 0 \<le> h_amount h) \<and> in_range (total_of hs)"

text \<open>A choice of holdings that covers the target.\<close>

definition covers :: "cached_holding list \<Rightarrow> rat \<Rightarrow> nat \<Rightarrow> cached_holding list \<Rightarrow> bool" where
  "covers selectable target n picks \<longleftrightarrow> set picks \<subseteq> set selectable
     \<and> distinct (map h_contract_id picks) \<and> length picks \<le> n \<and> target \<le> total_of picks"

lemma total_of_simps [simp]:
  "total_of [] = 0" "total_of (h # hs) = h_amount h + total_of hs"
  "total_of (hs @ hs') = total_of hs + total_of hs'" "total_of (rev hs) = total_of hs"
  by (simp_all add: total_of_def rev_map [symmetric] sum_list_rev)

lemma total_of_nonneg: "\<forall>h \<in> set hs. 0 \<le> h_amount h \<Longrightarrow> 0 \<le> total_of hs"
  by (induction hs) auto

lemma total_take_le: "\<forall>h \<in> set hs. 0 \<le> h_amount h \<Longrightarrow> total_of (take k hs) \<le> total_of hs"
  using total_of_nonneg [of "drop k hs"] set_drop_subset [of k hs]
    total_of_simps(3) [of "take k hs" "drop k hs"] by auto

lemma greedy_total:
  assumes "dec_laws A" and "\<forall>h \<in> set hs. ledger_amount (h_amount h) \<and> 0 \<le> h_amount h"
    and "ledger_amount tot" and "0 \<le> tot" and "in_range (tot + total_of hs)"
    and "length picks \<le> n" and "tot < target"
  shows "\<exists>k. k \<le> n - length picks \<and> greedy A target n hs picks tot =
      Some (picks @ take k hs, tot + total_of (take k hs))
    \<and> (target \<le> tot + total_of (take k hs) \<longleftrightarrow> target \<le> tot + total_of (take (n - length picks) hs))
    \<and> (target \<le> tot + total_of (take k hs) \<longrightarrow> 0 < k \<and> tot + total_of (take (k - 1) hs) < target)"
  using assms(2-)
proof (induction hs arbitrary: picks tot)
  case Nil
  then show ?case by (intro exI [of _ 0]) auto
next
  case (Cons h hs)
  show ?case
  proof (cases "length picks \<ge> n")
    case True
    with Cons.prems show ?thesis by (intro exI [of _ 0]) auto
  next
    case False
    define t where "t = tot + h_amount h"
    have nonneg: "0 \<le> total_of hs" using Cons.prems(1) by (intro total_of_nonneg) auto
    have "in_range t"
      using Cons.prems(1,3) nonneg unfolding t_def by (intro in_range_le [OF Cons.prems(4)]) auto
    then have add: "d_add A tot (h_amount h) = Some t"
      using Cons.prems(1,2) unfolding t_def by (intro dec_lawsD [OF assms(1)]) auto
    have t: "ledger_amount t" "0 \<le> t" "in_range (t + total_of hs)"
      using Cons.prems by (auto simp: t_def ledger_amount_arith add.assoc)
    have rest: "\<forall>g \<in> set hs. 0 \<le> h_amount g" using Cons.prems(1) by auto
    show ?thesis
    proof (cases "t \<ge> target")
      case True
      have "n - length picks = Suc (n - length picks - 1)" using False by simp
      then have "total_of (take (n - length picks) (h # hs)) = h_amount h + total_of (take (n - length picks - 1) hs)"
        by (metis take_Suc_Cons total_of_simps(2))
      moreover have "0 \<le> total_of (take (n - length picks - 1) hs)"
        using rest set_take_subset [of _ hs] by (intro total_of_nonneg) auto
      ultimately show ?thesis
        using True False add Cons.prems(6) by (intro exI [of _ 1]) (auto simp: t_def)
    next
      case less: False
      obtain k where k: "k \<le> n - length (picks @ [h])"
        "greedy A target n hs (picks @ [h]) t = Some ((picks @ [h]) @ take k hs, t + total_of (take k hs))"
        "target \<le> t + total_of (take k hs) \<longleftrightarrow> target \<le> t + total_of (take (n - length (picks @ [h])) hs)"
        "target \<le> t + total_of (take k hs) \<longrightarrow> 0 < k \<and> t + total_of (take (k - 1) hs) < target"
        using Cons.IH [of t "picks @ [h]"] Cons.prems(1) t False less by auto
      have "n - length picks = Suc (n - length (picks @ [h]))" using False by simp
      then have split: "total_of (take (n - length picks) (h # hs)) =
          h_amount h + total_of (take (n - length (picks @ [h])) hs)"
        by (metis take_Suc_Cons total_of_simps(2))
      have "0 < k \<Longrightarrow> take k (h # hs) = h # take (k - 1) hs" by (cases k) auto
      then show ?thesis
        using k False less add split
        by (intro exI [of _ "Suc k"]) (auto simp: t_def add.assoc)
    qed
  qed
qed


section \<open>Soundness and completeness\<close>

text \<open>No choice of \<open>n\<close> holdings is worth more than the \<open>n\<close> largest.\<close>

lemma top_total:
  assumes "sorted_wrt (\<ge>) (amounts ds)" and "\<forall>h \<in> set ds. 0 \<le> h_amount h"
    and "distinct ds" and "S \<subseteq> set ds" and "card S \<le> n"
  shows "sum h_amount S \<le> total_of (take n ds)"
  using assms
proof (induction ds arbitrary: n S)
  case (Cons d ds)
  have fin: "finite S" using Cons.prems(4) finite_subset by blast
  show ?case
  proof (cases "S = {}")
    case True
    then show ?thesis
      using Cons.prems(2) set_take_subset [of n "d # ds"] by (auto intro!: total_of_nonneg)
  next
    case False
    with fin Cons.prems(5) obtain m where n: "n = Suc m" by (cases n) auto
    obtain s where s: "s \<in> S" "d \<in> S \<Longrightarrow> s = d" using False by auto
    have "h_amount s \<le> h_amount d" using s(1) Cons.prems(1,4) by auto
    moreover have "sum h_amount (S - {s}) \<le> total_of (take m ds)"
      using Cons.prems s fin n by (intro Cons.IH) (auto simp: card_Diff_singleton)
    moreover have "sum h_amount S = h_amount s + sum h_amount (S - {s})"
      using fin s(1) by (rule sum.remove)
    ultimately show ?thesis by (simp add: n)
  qed
qed simp

lemma total_of_set: "distinct hs \<Longrightarrow> total_of hs = sum h_amount (set hs)"
  by (simp add: total_of_def sum_list_distinct_conv_sum_set)

lemma covers_top:
  assumes "selectable_ok hs" and "covers hs target n picks"
  shows "target \<le> total_of (take n (rev hs))"
proof -
  have "distinct picks" "distinct hs" using assms by (auto simp: covers_def selectable_ok_def distinct_map)
  then have "total_of picks \<le> total_of (take n (rev hs))"
    using assms distinct_card [of picks]
    by (subst total_of_set) (auto intro!: top_total simp: covers_def selectable_ok_def rev_map [symmetric] sorted_wrt_rev)
  with assms(2) show ?thesis by (simp add: covers_def)
qed

lemma covers_take:
  assumes "selectable_ok hs" and "k \<le> n" and "target \<le> total_of (take k (rev hs))"
  shows "covers hs target n (take k (rev hs))"
  using assms set_take_subset [of k "rev hs"]
  by (auto simp: covers_def selectable_ok_def take_map [symmetric] rev_map [symmetric] intro: distinct_take)

lemma covers_replace:
  assumes "covers hs target n (ps @ [p])" and "r \<in> set hs" and "h_contract_id r \<notin> h_contract_id ` set ps"
    and "target - total_of ps \<le> h_amount r"
  shows "covers hs target n (ps @ [r])"
  using assms by (auto simp: covers_def)

text \<open>The picks of the greedy loop, and the arithmetic of the tightening step.\<close>

lemma greedy_picks:
  assumes "dec_laws A" and "selectable_ok hs" and "0 < target"
  obtains k where "k \<le> n"
    and "greedy A target n (rev hs) [] 0 = Some (take k (rev hs), total_of (take k (rev hs)))"
    and "target \<le> total_of (take k (rev hs)) \<longleftrightarrow> target \<le> total_of (take n (rev hs))"
    and "target \<le> total_of (take k (rev hs)) \<Longrightarrow> 0 < k \<and> total_of (take (k - 1) (rev hs)) < target"
  using greedy_total [OF assms(1), of "rev hs" 0 "[]" n target] assms(2,3)
  by (auto simp: selectable_ok_def)

lemma replacement_Some:
  assumes "dec_laws A" and "selectable_ok hs" and "ledger_amount target" and "in_range target" and "0 < target"
    and picks: "covers hs target n (ps @ [p])" and "total_of ps < target"
    and "replacement A hs target (ps @ [p]) (total_of (ps @ [p])) = Some r"
  shows "covers hs target n (ps @ [r])"
proof -
  have ledger: "\<forall>h \<in> set hs. ledger_amount (h_amount h) \<and> 0 \<le> h_amount h"
    using assms(2) by (simp add: selectable_ok_def)
  have sub: "set ps \<subseteq> set hs" "p \<in> set hs" using picks by (auto simp: covers_def)
  have nonneg: "0 \<le> total_of ps" using sub ledger by (intro total_of_nonneg) auto
  have lps: "ledger_amount (total_of ps)"
    using sub(1) ledger by (induction ps) (auto simp: ledger_amount_arith)
  have "in_range (total_of ps)" using nonneg assms(5,7) by (intro in_range_le [OF assms(4)]) auto
  then have "d_sub A (total_of ps + h_amount p) (h_amount p) = Some (total_of ps)"
    using dec_lawsD(2) [OF assms(1), of "total_of ps + h_amount p" "h_amount p"] sub(2) ledger lps
    by (simp add: ledger_amount_arith)
  moreover have "in_range (target - total_of ps)"
    using nonneg assms(7) by (intro in_range_le [OF assms(4)]) auto
  then have "d_sub A target (total_of ps) = Some (target - total_of ps)"
    by (rule dec_lawsD(2) [OF assms(1,3) lps])
  ultimately have "r \<in> set hs" "h_contract_id r \<notin> h_contract_id ` set ps" "target - total_of ps \<le> h_amount r"
    using assms(8) by (auto simp: replacement_def find_Some_iff split: if_splits)
  with picks show ?thesis by (intro covers_replace [OF picks])
qed

lemma find_first_sorted:
  assumes "sorted (amounts hs)" and "find (\<lambda>h. target \<le> h_amount h) hs = Some h"
  shows "h \<in> set hs \<and> target \<le> h_amount h \<and> (\<forall>g \<in> set hs. target \<le> h_amount g \<longrightarrow> h_amount h \<le> h_amount g)"
  using assms by (induction hs) (auto split: if_splits)

lemma select_from_spec:
  assumes "dec_laws A" and "selectable_ok hs" and "1 \<le> n"
    and "ledger_amount target" and "in_range target" and "0 < target"
  shows "case select_from A hs target n of
      None \<Rightarrow> \<nexists>picks. covers hs target n picks
    | Some picks \<Rightarrow> covers hs target n picks
        \<and> ((\<exists>h \<in> set hs. target \<le> h_amount h) \<longrightarrow>
            (\<exists>h. picks = [h] \<and> (\<forall>g \<in> set hs. target \<le> h_amount g \<longrightarrow> h_amount h \<le> h_amount g)))"
proof (cases "find (\<lambda>h. target \<le> h_amount h) hs")
  case (Some h)
  have "sorted (amounts hs)" using assms(2) by (simp add: selectable_ok_def)
  from find_first_sorted [OF this Some] show ?thesis
    using Some assms(3) by (auto simp: select_from_def covers_def)
next
  case None
  then have single: "\<not> (\<exists>h \<in> set hs. target \<le> h_amount h)" by (simp add: find_None_iff)
  obtain k where k: "k \<le> n"
    "greedy A target n (rev hs) [] 0 = Some (take k (rev hs), total_of (take k (rev hs)))"
    "target \<le> total_of (take k (rev hs)) \<longleftrightarrow> target \<le> total_of (take n (rev hs))"
    "target \<le> total_of (take k (rev hs)) \<Longrightarrow> 0 < k \<and> total_of (take (k - 1) (rev hs)) < target"
    using greedy_picks [OF assms(1,2,6), of n] by blast
  let ?p = "take k (rev hs)"
  show ?thesis
  proof (cases "target \<le> total_of ?p")
    case False
    with k(3) covers_top [OF assms(2)] have "\<nexists>picks. covers hs target n picks" by blast
    then show ?thesis using None k(2) False by (simp add: select_from_def)
  next
    case True
    have c: "covers hs target n ?p" by (rule covers_take [OF assms(2) k(1) True])
    have "?p \<noteq> []"
    proof
      assume "?p = []"
      with True assms(6) show False by simp
    qed
    then have split: "?p = butlast ?p @ [last ?p]" by simp
    have "total_of (butlast ?p) < target"
      using k(4) [OF True] True by (cases "k \<le> length hs") (auto simp: butlast_take)
    then have "covers hs target n (butlast ?p @ [r])"
      if "replacement A hs target ?p (total_of ?p) = Some r" for r
      using replacement_Some [OF assms(1,2,4-6), of n "butlast ?p" "last ?p" r] c that split by metis
    then show ?thesis
      using None k(2) True single c by (simp add: select_from_def split: option.split)
  qed
qed

text \<open>
  The selection of holdings is sound and complete: it returns distinct holdings, at most as
  many as allowed, that cover the target, and it returns nothing only if no such choice exists;
  and when one holding alone covers the target, the choice is a single holding, of the least
  amount that does.
\<close>

theorem select_from_correct:
  assumes "dec_laws A" and "selectable_ok hs" and "1 \<le> n"
    and "ledger_amount target" and "in_range target" and "0 < target"
  shows "case select_from A hs target n of
      None \<Rightarrow> \<nexists>picks. covers hs target n picks
    | Some picks \<Rightarrow> covers hs target n picks
        \<and> ((\<exists>h \<in> set hs. target \<le> h_amount h) \<longrightarrow>
            (\<exists>h. picks = [h] \<and> (\<forall>g \<in> set hs. target \<le> h_amount g \<longrightarrow> h_amount h \<le> h_amount g)))"
  using assms by (rule select_from_spec)

definition sample_holding :: "string \<Rightarrow> rat \<Rightarrow> cached_holding" where
  "sample_holding c a = \<lparr>h_contract_id = c, h_template_id = ''T'', h_instrument = ''CC'', h_amount = a,
     h_created_event_blob = Some ''b'', h_synchronizer_id = ''s'', h_discovered_at = 0\<rparr>"

theorem select_from_correct_witness:
  "covers [sample_holding ''a'' 1, sample_holding ''b'' 3, sample_holding ''c'' 5] 6 2
     [sample_holding ''c'' 5, sample_holding ''a'' 1]"
proof -
  let ?hs = "[sample_holding ''a'' 1, sample_holding ''b'' 3, sample_holding ''c'' 5]"
  have "selectable_ok ?hs"
    by (simp add: selectable_ok_def sample_holding_def ledger_amount_def in_range_def total_of_def)
  moreover have "ledger_amount 6" "in_range 6" by (simp_all add: ledger_amount_def in_range_def)
  moreover have "select_from exact_arith ?hs 6 2 = Some [sample_holding ''c'' 5, sample_holding ''a'' 1]"
    by (simp add: select_from_def replacement_def exact_arith_def sample_holding_def in_range_def)
  ultimately show ?thesis
    using select_from_correct [OF exact_arith_laws, of ?hs 2 6] by simp
qed

end
