(* ===== verification/Holdings_Cache.thy ===== *)
theory Holdings_Cache
  imports Coin_Selection
begin

text \<open>
  \<open>crates/cloud-agent/src/holdings_cache.rs\<close>: the cache of holdings with its pools of available,
  consumed and reserved contracts. Each method takes its locks before it acts, so it is one
  step of the state. \<open>Instant\<close>s are nanoseconds, and the time an operation reads is an argument;
  so is the order in which the map of available holdings is walked (a list of its keys), where
  the result can depend on it. Rust's unstable sorts are stable ones here: with the walk order
  left open they have the same possible results.
\<close>

section \<open>State\<close>

definition AVAILABLE_TTL_SECS :: nat where "AVAILABLE_TTL_SECS = 180"
definition V1_RESERVATION_TTL_SECS :: nat where "V1_RESERVATION_TTL_SECS = 60"
definition SPLIT_RESERVATION_TTL_SECS :: nat where "SPLIT_RESERVATION_TTL_SECS = 300"
definition PENDING_SPLIT_TTL_SECS :: nat where "PENDING_SPLIT_TTL_SECS = 300"
definition SPLIT_OP_WINDOW_SECS :: nat where "SPLIT_OP_WINDOW_SECS = 3600"
definition DUST_MERGE_MAX_INPUTS :: nat where "DUST_MERGE_MAX_INPUTS = 5"
definition CC_INSTRUMENT :: string where "CC_INSTRUMENT = ''CC''"
definition TEMPLATE_AMULET :: string where "TEMPLATE_AMULET = ''#splice-amulet:Splice.Amulet:Amulet''"

definition instrument_key :: "string \<Rightarrow> string \<Rightarrow> string" where
  "instrument_key admin i = admin @ ''::'' @ i"

datatype reservation_kind = V1Payment string | V2Quote string nat | Split string

record consumed_entry =
  ce_reason :: string
  ce_consumed_at :: nat

record reserved_entry =
  re_kind :: reservation_kind
  re_reserved_at :: nat

record pending_split =
  ps_instrument :: string
  ps_denom :: rat
  ps_count :: nat
  ps_recorded_at :: nat

record holdings_cache =
  hc_available :: "string \<Rightarrow> cached_holding option"
  hc_consumed :: "string \<Rightarrow> consumed_entry option"
  hc_reserved :: "string \<Rightarrow> reserved_entry option"
  hc_splitter_reserve_enabled :: bool
  hc_dust_below :: "string \<Rightarrow> rat option"
  hc_pending_splits :: "pending_split list"
  hc_split_op_times :: "string \<Rightarrow> nat list option"

definition empty_cache :: "bool \<Rightarrow> holdings_cache" where
  "empty_cache splitter_reserve_enabled = \<lparr>hc_available = Map.empty, hc_consumed = Map.empty,
     hc_reserved = Map.empty, hc_splitter_reserve_enabled = splitter_reserve_enabled,
     hc_dust_below = Map.empty, hc_pending_splits = [], hc_split_op_times = Map.empty\<rparr>"

text \<open>\<open>saturating_duration_since(..).as_secs()\<close>.\<close>

definition secs_since :: "nat \<Rightarrow> nat \<Rightarrow> nat" where
  "secs_since now t = (now - t) div 1000000000"

definition pending_expired :: "nat \<Rightarrow> pending_split \<Rightarrow> bool" where
  "pending_expired now p \<longleftrightarrow> secs_since now (ps_recorded_at p) > PENDING_SPLIT_TTL_SECS"

definition reservation_expired :: "nat \<Rightarrow> reserved_entry \<Rightarrow> bool" where
  "reservation_expired now e = (case re_kind e of
     V1Payment _ \<Rightarrow> secs_since now (re_reserved_at e) > V1_RESERVATION_TTL_SECS
   | V2Quote _ expires_at \<Rightarrow> now \<ge> expires_at
   | Split _ \<Rightarrow> secs_since now (re_reserved_at e) > SPLIT_RESERVATION_TTL_SECS)"

section \<open>Reading\<close>

definition is_consumed :: "holdings_cache \<Rightarrow> string \<Rightarrow> bool" where
  "is_consumed c cid \<longleftrightarrow> hc_consumed c cid \<noteq> None"

definition is_reserved :: "holdings_cache \<Rightarrow> nat \<Rightarrow> string \<Rightarrow> bool" where
  "is_reserved c now cid =
     (case hc_reserved c cid of Some e \<Rightarrow> \<not> reservation_expired now e | None \<Rightarrow> False)"

definition is_fresh :: "nat \<Rightarrow> cached_holding \<Rightarrow> bool" where
  "is_fresh now h \<longleftrightarrow> secs_since now (h_discovered_at h) \<le> AVAILABLE_TTL_SECS"

text \<open>\<open>available.values()\<close> in the order of the walk, with the filter on the instrument.\<close>

definition holdings_of :: "string list \<Rightarrow> holdings_cache \<Rightarrow> string \<Rightarrow> cached_holding list" where
  "holdings_of ks c instrument =
     filter (\<lambda>h. h_instrument h = instrument) (List.map_filter (hc_available c) ks)"

definition holding_le :: "cached_holding \<Rightarrow> cached_holding \<Rightarrow> bool" where
  "holding_le a b \<longleftrightarrow> h_amount a < h_amount b
     \<or> h_amount a = h_amount b \<and> h_contract_id a \<le> h_contract_id b"

fun max_holding :: "cached_holding option \<Rightarrow> cached_holding list \<Rightarrow> cached_holding option" where
  "max_holding best [] = best"
| "max_holding None (h # hs) = max_holding (Some h) hs"
| "max_holding (Some b) (h # hs) = max_holding (Some (if holding_le b h then h else b)) hs"

definition splitter_reserve_cid :: "string list \<Rightarrow> holdings_cache \<Rightarrow> nat \<Rightarrow> string \<Rightarrow> string option" where
  "splitter_reserve_cid ks c now instrument = map_option h_contract_id (max_holding None
     (filter (is_fresh now) (filter (\<lambda>h. \<not> is_consumed c (h_contract_id h)) (holdings_of ks c instrument))))"

definition splitter_reserve :: "string list \<Rightarrow> holdings_cache \<Rightarrow> nat \<Rightarrow> string \<Rightarrow> cached_holding option" where
  "splitter_reserve ks c now instrument =
     (if \<not> hc_splitter_reserve_enabled c then None
      else Option.bind (splitter_reserve_cid ks c now instrument) (hc_available c))"

definition excluded_cid :: "string list \<Rightarrow> holdings_cache \<Rightarrow> nat \<Rightarrow> string \<Rightarrow> bool \<Rightarrow> string option" where
  "excluded_cid ks c now instrument exclude =
     (if exclude \<and> hc_splitter_reserve_enabled c then splitter_reserve_cid ks c now instrument else None)"

definition selectable_holding :: "holdings_cache \<Rightarrow> nat \<Rightarrow> string option \<Rightarrow> cached_holding \<Rightarrow> bool" where
  "selectable_holding c now splitter h \<longleftrightarrow> is_fresh now h \<and> \<not> is_consumed c (h_contract_id h)
     \<and> \<not> is_reserved c now (h_contract_id h) \<and> Some (h_contract_id h) \<noteq> splitter"

definition get_selectable :: "string list \<Rightarrow> holdings_cache \<Rightarrow> nat \<Rightarrow> string \<Rightarrow> bool \<Rightarrow> cached_holding list" where
  "get_selectable ks c now instrument exclude = sort_key h_amount
     (filter (selectable_holding c now (excluded_cid ks c now instrument exclude)) (holdings_of ks c instrument))"

definition u32_max :: nat where "u32_max = 2 ^ 32 - 1"

definition count_in_band :: "string list \<Rightarrow> holdings_cache \<Rightarrow> nat \<Rightarrow> string \<Rightarrow> rat \<Rightarrow> rat \<Rightarrow> nat" where
  "count_in_band ks c now instrument lo hi =
     (let splitter = excluded_cid ks c now instrument True;
          existing = min u32_max (length (filter (\<lambda>h. \<not> is_consumed c (h_contract_id h)
            \<and> Some (h_contract_id h) \<noteq> splitter \<and> lo \<le> h_amount h \<and> h_amount h < hi)
            (holdings_of ks c instrument)));
          pending = foldl (\<lambda>acc p. min u32_max (acc + ps_count p)) 0
            (filter (\<lambda>p. lo \<le> ps_denom p \<and> ps_denom p < hi)
              (filter (\<lambda>p. ps_instrument p = instrument \<and> \<not> pending_expired now p) (hc_pending_splits c)))
      in min u32_max (existing + pending))"

definition split_ops :: "holdings_cache \<Rightarrow> nat \<Rightarrow> string \<Rightarrow> nat list" where
  "split_ops c now instrument = (case hc_split_op_times c instrument of None \<Rightarrow> []
     | Some ops \<Rightarrow> filter (\<lambda>t. secs_since now t < SPLIT_OP_WINDOW_SECS) ops)"

definition v2_reservation_quote :: "holdings_cache \<Rightarrow> nat \<Rightarrow> string \<Rightarrow> string option" where
  "v2_reservation_quote c now cid = (case hc_reserved c cid of
     Some e \<Rightarrow> if \<not> reservation_expired now e then (case re_kind e of V2Quote q _ \<Rightarrow> Some q | _ \<Rightarrow> None) else None
   | None \<Rightarrow> None)"

definition is_v2_reserved :: "holdings_cache \<Rightarrow> nat \<Rightarrow> string \<Rightarrow> bool" where
  "is_v2_reserved c now cid \<longleftrightarrow> v2_reservation_quote c now cid \<noteq> None"

definition total_or_max :: "dec_arith \<Rightarrow> rat list \<Rightarrow> rat" where
  "total_or_max A xs = (case dec_sum A xs of None \<Rightarrow> d_max A | Some s \<Rightarrow> s)"

definition total_available_amount :: "dec_arith \<Rightarrow> string list \<Rightarrow> holdings_cache \<Rightarrow> nat \<Rightarrow> string \<Rightarrow> rat" where
  "total_available_amount A ks c now instrument = total_or_max A (map h_amount
     (filter (\<lambda>h. \<not> is_consumed c (h_contract_id h) \<and> \<not> is_v2_reserved c now (h_contract_id h))
       (holdings_of ks c instrument)))"

definition selectable_blob_ready_total ::
  "dec_arith \<Rightarrow> string list \<Rightarrow> holdings_cache \<Rightarrow> nat \<Rightarrow> string \<Rightarrow> nat \<Rightarrow> bool \<Rightarrow> rat" where
  "selectable_blob_ready_total A ks c now instrument max_inputs include_reserve =
     total_or_max A (take max_inputs (rev (sort (map h_amount
       (filter (\<lambda>h. selectable_holding c now (excluded_cid ks c now instrument (\<not> include_reserve)) h
           \<and> h_created_event_blob h \<noteq> None)
         (holdings_of ks c instrument))))))"

definition blob_pending_cids :: "string list \<Rightarrow> holdings_cache \<Rightarrow> nat \<Rightarrow> string \<Rightarrow> bool \<Rightarrow> string list" where
  "blob_pending_cids ks c now instrument include_reserve =
     map h_contract_id (take 100 (sort_key (\<lambda>h. - h_amount h)
       (filter (\<lambda>h. selectable_holding c now (excluded_cid ks c now instrument (\<not> include_reserve)) h
           \<and> h_created_event_blob h = None)
         (holdings_of ks c instrument))))"

definition holdings_for_instrument ::
  "string list \<Rightarrow> holdings_cache \<Rightarrow> nat \<Rightarrow> string \<Rightarrow> nat \<times> nat \<times> (rat \<times> bool) list" where
  "holdings_for_instrument ks c now instrument =
     (let out = map (\<lambda>h. (h_amount h, is_reserved c now (h_contract_id h)))
        (filter (\<lambda>h. \<not> is_consumed c (h_contract_id h)) (holdings_of ks c instrument))
      in (length out, length (filter snd out), out))"

section \<open>Choosing what to disclose\<close>

definition selection_target :: "dec_arith \<Rightarrow> rat \<Rightarrow> bool \<Rightarrow> rat option" where
  "selection_target A amount is_cc =
     (if is_cc then Option.bind (d_mul A amount (102 / 100)) (\<lambda>m. d_add A m 1) else Some amount)"

definition dust_sweep :: "rat \<Rightarrow> nat \<Rightarrow> cached_holding list \<Rightarrow> cached_holding list \<Rightarrow> cached_holding list" where
  "dust_sweep threshold max_inputs selectable picks =
     take (min (DUST_MERGE_MAX_INPUTS - length (filter (\<lambda>h. h_amount h < threshold) picks))
               (max_inputs - length picks))
       (filter (\<lambda>h. h_amount h < threshold \<and> h_contract_id h \<notin> h_contract_id ` set picks) selectable)"

definition disclosure_picks ::
  "dec_arith \<Rightarrow> rat option \<Rightarrow> rat \<Rightarrow> nat \<Rightarrow> cached_holding list \<Rightarrow> cached_holding list option" where
  "disclosure_picks A dust_below target max_inputs selectable =
     (case Option.bind dust_below (\<lambda>threshold.
         select_from A (filter (\<lambda>h. h_amount h < threshold) selectable) target (min DUST_MERGE_MAX_INPUTS max_inputs)) of
        Some picks \<Rightarrow> Some picks
      | None \<Rightarrow> (case select_from A selectable target max_inputs of
            None \<Rightarrow> None
          | Some picks \<Rightarrow> Some (case dust_below of None \<Rightarrow> picks
              | Some threshold \<Rightarrow> picks @ dust_sweep threshold max_inputs selectable picks)))"

definition select_for_disclosure_with ::
  "dec_arith \<Rightarrow> string list \<Rightarrow> holdings_cache \<Rightarrow> nat \<Rightarrow> string \<Rightarrow> rat \<Rightarrow> nat \<Rightarrow> bool \<Rightarrow> bool
    \<Rightarrow> cached_holding list option" where
  "select_for_disclosure_with A ks c now instrument amount max_inputs is_cc include_reserve =
     (if amount \<le> 0 \<or> max_inputs = 0 then None
      else Option.bind (selection_target A amount is_cc) (\<lambda>target.
        disclosure_picks A (hc_dust_below c instrument) target max_inputs
          (filter (\<lambda>h. h_created_event_blob h \<noteq> None)
            (get_selectable ks c now instrument (\<not> include_reserve)))))"

section \<open>Changing\<close>

definition set_dust_thresholds :: "(string \<Rightarrow> rat option) \<Rightarrow> holdings_cache \<Rightarrow> holdings_cache" where
  "set_dust_thresholds thresholds c = c\<lparr>hc_dust_below := thresholds\<rparr>"

definition by_contract :: "cached_holding list \<Rightarrow> string \<Rightarrow> cached_holding option" where
  "by_contract hs = map_of (rev (map (\<lambda>h. (h_contract_id h, h)) hs))"

definition refresh_from_acs_snapshot :: "cached_holding list \<Rightarrow> nat \<Rightarrow> holdings_cache \<Rightarrow> holdings_cache" where
  "refresh_from_acs_snapshot holdings snapshot_start c =
     (let new_available = by_contract holdings in
      c\<lparr>hc_consumed := (\<lambda>cid. if new_available cid \<noteq> None then hc_consumed c cid else None),
        hc_available := (\<lambda>cid. case hc_available c cid of
            Some h \<Rightarrow> if h_discovered_at h > snapshot_start then Some h else None
          | None \<Rightarrow> None) ++ new_available\<rparr>)"

definition record_pending_split :: "nat \<Rightarrow> string \<Rightarrow> (rat \<times> nat) list \<Rightarrow> holdings_cache \<Rightarrow> holdings_cache" where
  "record_pending_split now instrument splits c = c\<lparr>hc_pending_splits :=
     filter (\<lambda>p. \<not> pending_expired now p) (hc_pending_splits c)
       @ map (\<lambda>(denom, count). \<lparr>ps_instrument = instrument, ps_denom = denom, ps_count = count,
           ps_recorded_at = now\<rparr>) splits\<rparr>"

definition clear_pending_splits_before :: "nat \<Rightarrow> holdings_cache \<Rightarrow> holdings_cache" where
  "clear_pending_splits_before snapshot_start c = c\<lparr>hc_pending_splits :=
     filter (\<lambda>p. ps_recorded_at p \<ge> snapshot_start) (hc_pending_splits c)\<rparr>"

definition record_split_op :: "nat \<Rightarrow> string \<Rightarrow> holdings_cache \<Rightarrow> holdings_cache" where
  "record_split_op now instrument c =
     (let old = (case hc_split_op_times c instrument of None \<Rightarrow> [] | Some ts \<Rightarrow> ts) in
      c\<lparr>hc_split_op_times := (hc_split_op_times c)(instrument \<mapsto>
        filter (\<lambda>t. secs_since now t < SPLIT_OP_WINDOW_SECS) old @ [now])\<rparr>)"

fun put_reserved :: "reserved_entry \<Rightarrow> string list \<Rightarrow> (string \<Rightarrow> reserved_entry option) \<Rightarrow>
    (string \<Rightarrow> reserved_entry option)" where
  "put_reserved e [] m = m"
| "put_reserved e (cid # cids) m = put_reserved e cids (m(cid \<mapsto> e))"

definition reserve_with_kind ::
  "nat \<Rightarrow> string list \<Rightarrow> reservation_kind \<Rightarrow> holdings_cache \<Rightarrow> bool \<times> holdings_cache" where
  "reserve_with_kind now cids kind c =
     (if list_ex (\<lambda>cid. is_consumed c cid \<or> is_reserved c now cid) cids then (False, c)
      else (True, c\<lparr>hc_reserved :=
        put_reserved \<lparr>re_kind = kind, re_reserved_at = now\<rparr> cids (hc_reserved c)\<rparr>))"

definition reserve_v2 :: "nat \<Rightarrow> string list \<Rightarrow> string \<Rightarrow> nat \<Rightarrow> holdings_cache \<Rightarrow> bool \<times> holdings_cache" where
  "reserve_v2 now cids quote_id expires_at = reserve_with_kind now cids (V2Quote quote_id expires_at)"

definition reserve_split :: "nat \<Rightarrow> string list \<Rightarrow> string \<Rightarrow> holdings_cache \<Rightarrow> bool \<times> holdings_cache" where
  "reserve_split now cids job_id = reserve_with_kind now cids (Split job_id)"

definition restore_v2_reservation :: "nat \<Rightarrow> string list \<Rightarrow> string \<Rightarrow> nat \<Rightarrow> holdings_cache \<Rightarrow> holdings_cache" where
  "restore_v2_reservation now cids quote_id expires_at c = c\<lparr>hc_reserved :=
     put_reserved \<lparr>re_kind = V2Quote quote_id expires_at, re_reserved_at = now\<rparr> cids (hc_reserved c)\<rparr>"

fun consume_one :: "consumed_entry \<Rightarrow> holdings_cache \<Rightarrow> string \<Rightarrow> holdings_cache" where
  "consume_one e c cid = c\<lparr>hc_reserved := (hc_reserved c)(cid := None),
     hc_consumed := (hc_consumed c)(cid \<mapsto> e)\<rparr>"

definition mark_consumed :: "nat \<Rightarrow> string list \<Rightarrow> string \<Rightarrow> holdings_cache \<Rightarrow> holdings_cache" where
  "mark_consumed now cids reason c = foldl (consume_one \<lparr>ce_reason = reason, ce_consumed_at = now\<rparr>) c cids"

definition release_reservations :: "string list \<Rightarrow> holdings_cache \<Rightarrow> holdings_cache" where
  "release_reservations cids c = foldl (\<lambda>c cid. c\<lparr>hc_reserved := (hc_reserved c)(cid := None)\<rparr>) c cids"

definition add_created :: "cached_holding list \<Rightarrow> holdings_cache \<Rightarrow> holdings_cache" where
  "add_created holdings c = c\<lparr>hc_available := hc_available c ++ by_contract holdings\<rparr>"

definition cleanup_expired_reservations :: "nat \<Rightarrow> holdings_cache \<Rightarrow> holdings_cache" where
  "cleanup_expired_reservations now c = c\<lparr>hc_reserved := (\<lambda>cid. case hc_reserved c cid of
     Some e \<Rightarrow> if reservation_expired now e then None else Some e | None \<Rightarrow> None)\<rparr>"

text \<open>The CC-only refresh of the legacy view, with the instants of its two clock readings.\<close>

definition amulet_to_holding :: "string \<Rightarrow> rat \<Rightarrow> nat \<Rightarrow> cached_holding" where
  "amulet_to_holding cid amount t = \<lparr>h_contract_id = cid, h_template_id = TEMPLATE_AMULET,
     h_instrument = CC_INSTRUMENT, h_amount = amount, h_created_event_blob = None,
     h_synchronizer_id = [], h_discovered_at = t\<rparr>"

definition refresh_from_acs :: "string list \<Rightarrow> nat \<Rightarrow> nat \<Rightarrow> (string \<times> rat) list \<Rightarrow> holdings_cache \<Rightarrow> holdings_cache" where
  "refresh_from_acs ks snapshot_start now amulets c =
     refresh_from_acs_snapshot (map (\<lambda>(cid, amount). amulet_to_holding cid amount now) amulets
        @ filter (\<lambda>h. h_instrument h \<noteq> CC_INSTRUMENT) (List.map_filter (hc_available c) ks)) snapshot_start c"

section \<open>The cache as a machine\<close>

datatype cache_event =
    Refresh "cached_holding list" nat
  | Reserve nat "string list" reservation_kind
  | Restore_V2 nat "string list" string nat
  | Consume nat "string list" string
  | Release "string list"
  | Add_Created "cached_holding list"
  | Cleanup nat
  | Pending_Split nat string "(rat \<times> nat) list"
  | Clear_Pending nat
  | Split_Op nat string
  | Dust_Thresholds "string \<Rightarrow> rat option"

fun cache_step :: "holdings_cache \<Rightarrow> cache_event \<Rightarrow> holdings_cache" where
  "cache_step c (Refresh hs t) = refresh_from_acs_snapshot hs t c"
| "cache_step c (Reserve now cids k) = snd (reserve_with_kind now cids k c)"
| "cache_step c (Restore_V2 now cids q x) = restore_v2_reservation now cids q x c"
| "cache_step c (Consume now cids r) = mark_consumed now cids r c"
| "cache_step c (Release cids) = release_reservations cids c"
| "cache_step c (Add_Created hs) = add_created hs c"
| "cache_step c (Cleanup now) = cleanup_expired_reservations now c"
| "cache_step c (Pending_Split now i ss) = record_pending_split now i ss c"
| "cache_step c (Clear_Pending t) = clear_pending_splits_before t c"
| "cache_step c (Split_Op now i) = record_split_op now i c"
| "cache_step c (Dust_Thresholds m) = set_dust_thresholds m c"

end
