(* ===== verification/Holdings_Safety.thy ===== *)
theory Holdings_Safety
  imports Holdings_Cache
begin

text \<open>
  The properties of the holdings cache: the well-formedness every operation keeps, exclusive
  reservations, consumed holdings, and the selections made for disclosure.
\<close>

section \<open>What the operations do to one contract\<close>

lemma by_contract_Some: "by_contract hs k = Some h \<Longrightarrow> h \<in> set hs \<and> h_contract_id h = k"
  by (auto simp: by_contract_def dest!: map_of_SomeD)

lemma by_contract_None: "by_contract hs k = None \<longleftrightarrow> k \<notin> h_contract_id ` set hs"
  by (force simp: by_contract_def map_of_eq_None_iff)

lemma put_reserved_apply [simp]:
  "put_reserved e cids m k = (if k \<in> set cids then Some e else m k)"
  by (induction cids arbitrary: m) auto

lemma mark_consumed_simps [simp]:
  "hc_consumed (mark_consumed now cids r c) k =
     (if k \<in> set cids then Some \<lparr>ce_reason = r, ce_consumed_at = now\<rparr> else hc_consumed c k)"
  "hc_reserved (mark_consumed now cids r c) k = (if k \<in> set cids then None else hc_reserved c k)"
  "hc_available (mark_consumed now cids r c) = hc_available c"
  unfolding mark_consumed_def by (induction cids arbitrary: c) auto

lemma release_simps [simp]:
  "hc_reserved (release_reservations cids c) k = (if k \<in> set cids then None else hc_reserved c k)"
  "hc_consumed (release_reservations cids c) = hc_consumed c"
  "hc_available (release_reservations cids c) = hc_available c"
  unfolding release_reservations_def by (induction cids arbitrary: c) auto

lemmas cache_updates = refresh_from_acs_snapshot_def reserve_with_kind_def restore_v2_reservation_def
  add_created_def cleanup_expired_reservations_def record_pending_split_def
  clear_pending_splits_before_def record_split_op_def set_dust_thresholds_def Let_def

section \<open>Well-formedness\<close>

text \<open>Every available holding stands under its own contract id.\<close>

definition cache_inv :: "holdings_cache \<Rightarrow> bool" where
  "cache_inv c \<longleftrightarrow> (\<forall>k h. hc_available c k = Some h \<longrightarrow> h_contract_id h = k)"

interpretation cache_well_formed: kept cache_step cache_inv "\<lambda>e. True"
proof
  fix c :: holdings_cache and e
  assume "cache_inv c"
  then show "cache_inv (cache_step c e)"
    by (cases e) (auto simp: cache_inv_def cache_updates map_add_def dest: by_contract_Some
        split: option.splits if_splits)
qed

lemma cache_inv_empty: "cache_inv (empty_cache b)"
  by (simp add: cache_inv_def empty_cache_def)

lemma holdings_of_id:
  "cache_inv c \<Longrightarrow> h \<in> set (holdings_of ks c i) \<Longrightarrow> hc_available c (h_contract_id h) = Some h"
  by (force simp: holdings_of_def cache_inv_def map_filter_def)

lemma map_filter_Cons:
  "List.map_filter f (x # xs) = (case f x of None \<Rightarrow> List.map_filter f xs | Some y \<Rightarrow> y # List.map_filter f xs)"
  by (simp add: List.map_filter_def split: option.split)

lemma holdings_of_distinct:
  assumes "cache_inv c" and "distinct ks"
  shows "distinct (map h_contract_id (holdings_of ks c i))"
proof -
  have "distinct (map h_contract_id (List.map_filter (hc_available c) ks))
      \<and> h_contract_id ` set (List.map_filter (hc_available c) ks) \<subseteq> set ks"
    using assms(2)
  proof (induction ks)
    case (Cons k ks)
    then show ?case using assms(1)
      by (auto simp: map_filter_Cons cache_inv_def split: option.split)
  qed (simp add: List.map_filter_def)
  then show ?thesis by (simp add: holdings_of_def distinct_map_filter)
qed

section \<open>Reservations\<close>

text \<open>
  A reservation is all or nothing: it succeeds exactly when none of the holdings is
  consumed or under an unexpired reservation, and then reserves all of them for the caller;
  otherwise nothing changes.
\<close>

theorem reserve_all_or_nothing:
  "reserve_with_kind now cids kind c =
     (if set cids \<inter> {cid. is_consumed c cid \<or> is_reserved c now cid} = {}
      then (True, c\<lparr>hc_reserved := (\<lambda>cid. if cid \<in> set cids
              then Some \<lparr>re_kind = kind, re_reserved_at = now\<rparr> else hc_reserved c cid)\<rparr>)
      else (False, c))"
  by (auto simp: reserve_with_kind_def list_ex_iff fun_eq_iff)

fun leaves_reserved :: "string \<Rightarrow> reserved_entry \<Rightarrow> cache_event \<Rightarrow> bool" where
  "leaves_reserved cid e (Release cids) = (cid \<notin> set cids)"
| "leaves_reserved cid e (Consume now cids r) = (cid \<notin> set cids)"
| "leaves_reserved cid e (Restore_V2 now cids q x) = (cid \<notin> set cids)"
| "leaves_reserved cid e (Cleanup now) = (\<not> reservation_expired now e)"
| "leaves_reserved cid e (Reserve now cids k) = (\<not> reservation_expired now e)"
| "leaves_reserved cid e ev = True"

interpretation held_reservation: kept cache_step "\<lambda>c. hc_reserved c cid = Some e" "leaves_reserved cid e" for cid e
proof
  fix c :: holdings_cache and ev
  assume "hc_reserved c cid = Some e" and "leaves_reserved cid e ev"
  then show "hc_reserved (cache_step c ev) cid = Some e"
    by (cases ev) (auto simp: cache_updates is_reserved_def list_ex_iff)
qed

lemma not_selectable:
  "is_consumed c cid \<or> is_reserved c now cid \<Longrightarrow> cid \<notin> h_contract_id ` set (get_selectable ks c now i x)"
  by (auto simp: get_selectable_def selectable_holding_def)

text \<open>
  C31: A holding is reserved for one purpose at a time: while a reservation stands (no release,
  consumption or restore of the holding, no operation at a time when it has expired), every
  other attempt to reserve the holding fails and no selection offers it, however the other
  operations are interleaved.
\<close>

theorem reservation_exclusive:
  assumes "fst (reserve_with_kind t cids kind c)" and "cid \<in> set cids"
    and "list_all (leaves_reserved cid \<lparr>re_kind = kind, re_reserved_at = t\<rparr>) es"
    and "\<not> reservation_expired now \<lparr>re_kind = kind, re_reserved_at = t\<rparr>"
    and "c' = run cache_step (snd (reserve_with_kind t cids kind c)) es"
  shows "(cid \<in> set cids' \<longrightarrow> \<not> fst (reserve_with_kind now cids' kind' c'))
    \<and> cid \<notin> h_contract_id ` set (get_selectable ks c' now i x)"
proof -
  have "hc_reserved (snd (reserve_with_kind t cids kind c)) cid = Some \<lparr>re_kind = kind, re_reserved_at = t\<rparr>"
    using assms(1,2) by (auto simp: reserve_with_kind_def split: if_splits)
  then have "hc_reserved c' cid = Some \<lparr>re_kind = kind, re_reserved_at = t\<rparr>"
    unfolding assms(5) using assms(3) by (rule held_reservation.run_keeps)
  with assms(4) have "is_reserved c' now cid" by (simp add: is_reserved_def)
  then show ?thesis using not_selectable by (auto simp: reserve_with_kind_def list_ex_iff)
qed

theorem reservation_exclusive_witness:
  "\<not> fst (reserve_with_kind 7 [''b'', ''a''] (Split ''j'') (run cache_step
     (snd (reserve_with_kind 5 [''a''] (V2Quote ''q'' 9) (empty_cache True)))
     [Release [''b''], Cleanup 8, Add_Created [sample_holding ''a'' 1]]))"
proof -
  have "fst (reserve_with_kind 5 [''a''] (V2Quote ''q'' 9) (empty_cache True))"
    by (simp add: reserve_with_kind_def empty_cache_def is_consumed_def is_reserved_def)
  then show ?thesis
    using reservation_exclusive [of 5 "[''a'']" "V2Quote ''q'' 9" "empty_cache True" "''a''"
        "[Release [''b''], Cleanup 8, Add_Created [sample_holding ''a'' 1]]" 7 _ "[''b'', ''a'']"]
    by (simp add: reservation_expired_def)
qed

section \<open>Consumed holdings\<close>

fun leaves_consumed :: "string \<Rightarrow> cache_event \<Rightarrow> bool" where
  "leaves_consumed cid (Refresh hs t) = (cid \<in> h_contract_id ` set hs)"
| "leaves_consumed cid ev = True"

interpretation spent_holding: kept cache_step "\<lambda>c. is_consumed c cid" "leaves_consumed cid" for cid
proof
  fix c :: holdings_cache and ev
  assume "is_consumed c cid" and "leaves_consumed cid ev"
  then show "is_consumed (cache_step c ev) cid"
    by (cases ev) (auto simp: cache_updates is_consumed_def by_contract_None)
qed

text \<open>
  A consumed holding is neither offered nor reserved again, whatever operations follow, as
  long as every refresh still finds it on the ledger.
\<close>

theorem consumed_not_reused:
  assumes "cid \<in> set cids" and "list_all (leaves_consumed cid) es"
    and "c' = run cache_step (mark_consumed t cids r c) es"
  shows "(cid \<in> set cids' \<longrightarrow> \<not> fst (reserve_with_kind now cids' kind' c'))
    \<and> cid \<notin> h_contract_id ` set (get_selectable ks c' now i x)"
proof -
  have "is_consumed (mark_consumed t cids r c) cid" using assms(1) by (simp add: is_consumed_def)
  then have "is_consumed c' cid" unfolding assms(3) using assms(2) by (rule spent_holding.run_keeps)
  then show ?thesis using not_selectable by (auto simp: reserve_with_kind_def list_ex_iff)
qed

theorem consumed_not_reused_witness:
  "''a'' \<notin> h_contract_id ` set (get_selectable [''a''] (run cache_step
     (mark_consumed 3 [''a''] ''settled'' (empty_cache False))
     [Add_Created [sample_holding ''a'' 1], Refresh [sample_holding ''a'' 1] 4]) 7 ''CC'' False)"
  using consumed_not_reused [of "''a''" "[''a'']"
      "[Add_Created [sample_holding ''a'' 1], Refresh [sample_holding ''a'' 1] 4]" _ 3 "''settled''" "empty_cache False"]
  by (simp add: sample_holding_def)

text \<open>
  A refresh forgets the consumption of a holding that was discovered after the snapshot was
  started and is not in it, and keeps the holding itself: if it is fresh, unreserved and not the
  splitter reserve it is offered again although it was consumed.
\<close>

theorem refresh_forgets_consumption:
  assumes "hc_available c cid = Some h" and "h_discovered_at h > snapshot_start"
    and "cid \<notin> h_contract_id ` set snapshot" and "h_contract_id h = cid"
    and "cid \<in> set ks" and "is_fresh now h" and "\<not> is_reserved c now cid"
    and "c' = refresh_from_acs_snapshot snapshot snapshot_start c"
  shows "\<not> is_consumed c' cid \<and> h \<in> set (get_selectable ks c' now (h_instrument h) False)"
proof -
  have none: "by_contract snapshot cid = None" using assms(3) by (simp add: by_contract_None)
  then have consumed: "\<not> is_consumed c' cid" by (simp add: assms(8) cache_updates is_consumed_def)
  have "hc_available c' cid = Some h"
    using assms(1,2) none by (simp add: assms(8) cache_updates map_add_def)
  with assms(5) have "h \<in> set (holdings_of ks c' (h_instrument h))"
    by (force simp: holdings_of_def map_filter_def)
  moreover have "\<not> is_reserved c' now cid"
    using assms(7) by (simp add: assms(8) cache_updates is_reserved_def)
  ultimately show ?thesis
    using consumed assms(4,6) by (simp add: get_selectable_def selectable_holding_def excluded_cid_def)
qed

text \<open>The holding is created at 5 and spent at 6, the snapshot was started at 4.\<close>

theorem refresh_forgets_consumption_witness:
  "(sample_holding ''a'' 1)\<lparr>h_discovered_at := 5\<rparr> \<in> set (get_selectable [''a'']
     (refresh_from_acs_snapshot [] 4 (mark_consumed 6 [''a''] ''settled''
       (add_created [(sample_holding ''a'' 1)\<lparr>h_discovered_at := 5\<rparr>] (empty_cache False)))) 7 ''CC'' False)"
proof -
  let ?h = "(sample_holding ''a'' 1)\<lparr>h_discovered_at := 5\<rparr>"
  let ?c = "mark_consumed 6 [''a''] ''settled'' (add_created [?h] (empty_cache False))"
  have "hc_available ?c ''a'' = Some ?h" "h_instrument ?h = ''CC''" "\<not> is_reserved ?c 7 ''a''"
    by (simp_all add: add_created_def by_contract_def sample_holding_def is_reserved_def)
  then show ?thesis
    using refresh_forgets_consumption [of ?c "''a''" ?h 4 "[]" "[''a'']" 7, OF _ _ _ _ _ _ _ refl]
    by (simp add: sample_holding_def is_fresh_def secs_since_def AVAILABLE_TTL_SECS_def)
qed


section \<open>Selections for disclosure\<close>

lemma total_filter_le: "\<forall>h \<in> set hs. 0 \<le> h_amount h \<Longrightarrow> total_of (filter P hs) \<le> total_of hs"
  by (induction hs) auto

lemma selectable_ok_filter: "selectable_ok hs \<Longrightarrow> selectable_ok (filter P hs)"
  using total_filter_le [of hs P] total_of_nonneg [of "filter P hs"]
  by (auto simp: selectable_ok_def distinct_map_filter sorted_filter intro: in_range_le)

lemma covers_filter: "covers (filter P hs) target m picks \<Longrightarrow> m \<le> n \<Longrightarrow> covers hs target n picks"
  by (auto simp: covers_def)

lemma covers_sweep:
  assumes "covers hs target n picks" and "distinct (map h_contract_id hs)" and "\<forall>h \<in> set hs. 0 \<le> h_amount h"
  shows "covers hs target n (picks @ dust_sweep threshold n hs picks)"
proof -
  let ?P = "\<lambda>h. h_amount h < threshold \<and> h_contract_id h \<notin> h_contract_id ` set picks"
  have sub: "set (dust_sweep threshold n hs picks) \<subseteq> set (filter ?P hs)"
    unfolding dust_sweep_def by (rule set_take_subset)
  have "distinct (map h_contract_id (dust_sweep threshold n hs picks))"
    unfolding dust_sweep_def by (simp add: take_map [symmetric] distinct_map_filter assms(2))
  moreover have "0 \<le> total_of (dust_sweep threshold n hs picks)"
    using sub assms(3) by (intro total_of_nonneg) auto
  moreover have "length (dust_sweep threshold n hs picks) \<le> n - length picks"
    by (simp add: dust_sweep_def)
  moreover have "h_contract_id ` set picks \<inter> h_contract_id ` set (dust_sweep threshold n hs picks) = {}"
    by (auto dest!: subsetD [OF sub]) (metis imageI)
  ultimately show ?thesis using assms(1) sub by (auto simp: covers_def)
qed

lemma disclosure_picks_spec:
  assumes "dec_laws A" and "selectable_ok hs" and "1 \<le> n"
    and "ledger_amount target" and "in_range target" and "0 < target"
  shows "case disclosure_picks A dust target n hs of
      None \<Rightarrow> \<nexists>picks. covers hs target n picks | Some picks \<Rightarrow> covers hs target n picks"
proof -
  have all: "case select_from A hs target n of
      None \<Rightarrow> \<nexists>picks. covers hs target n picks | Some picks \<Rightarrow> covers hs target n picks"
    using select_from_spec [OF assms] by (auto split: option.splits)
  have dusty: "covers hs target n picks"
    if "select_from A (filter (\<lambda>h. h_amount h < t) hs) target (min DUST_MERGE_MAX_INPUTS n) = Some picks" for t picks
  proof -
    have "1 \<le> min DUST_MERGE_MAX_INPUTS n" using assms(3) by (simp add: DUST_MERGE_MAX_INPUTS_def)
    from select_from_spec [OF assms(1) selectable_ok_filter [OF assms(2)] this assms(4-6), of "\<lambda>h. h_amount h < t"] that
    have "covers (filter (\<lambda>h. h_amount h < t) hs) target (min DUST_MERGE_MAX_INPUTS n) picks" by simp
    then show ?thesis by (rule covers_filter) simp
  qed
  have "distinct (map h_contract_id hs)" "\<forall>h \<in> set hs. 0 \<le> h_amount h"
    using assms(2) by (auto simp: selectable_ok_def)
  with all dusty show ?thesis
    by (auto simp: disclosure_picks_def bind_eq_Some_conv intro: covers_sweep split: option.splits)
qed

text \<open>The holdings a disclosure may use.\<close>

definition disclosable :: "string list \<Rightarrow> holdings_cache \<Rightarrow> nat \<Rightarrow> string \<Rightarrow> bool \<Rightarrow> cached_holding list" where
  "disclosable ks c now i include_reserve =
     filter (\<lambda>h. h_created_event_blob h \<noteq> None) (get_selectable ks c now i (\<not> include_reserve))"

definition amounts_ok :: "string list \<Rightarrow> holdings_cache \<Rightarrow> string \<Rightarrow> bool" where
  "amounts_ok ks c i \<longleftrightarrow> (\<forall>h \<in> set (holdings_of ks c i). ledger_amount (h_amount h) \<and> 0 \<le> h_amount h)
     \<and> in_range (total_of (holdings_of ks c i))"

lemma total_of_sort: "total_of (sort_key f hs) = total_of hs"
  unfolding total_of_def by (metis mset_map mset_sort sum_mset_sum_list)

lemma get_selectable_ok:
  assumes "cache_inv c" and "distinct ks" and "amounts_ok ks c i"
  shows "selectable_ok (get_selectable ks c now i x)"
proof -
  let ?P = "selectable_holding c now (excluded_cid ks c now i x)"
  have nonneg: "\<forall>h \<in> set (holdings_of ks c i). 0 \<le> h_amount h" using assms(3) by (auto simp: amounts_ok_def)
  have "distinct (map h_contract_id (sort_key h_amount (filter ?P (holdings_of ks c i))))"
    using distinct_map_filter [OF holdings_of_distinct [OF assms(1,2)], of ?P i]
    by (simp add: distinct_map)
  moreover have "in_range (total_of (filter ?P (holdings_of ks c i)))"
    using total_filter_le [OF nonneg, of ?P] total_of_nonneg [of "filter ?P (holdings_of ks c i)"]
      nonneg assms(3) by (auto simp: amounts_ok_def intro!: in_range_le [of "total_of (holdings_of ks c i)"])
  ultimately show ?thesis
    using assms(3) by (simp add: selectable_ok_def get_selectable_def total_of_sort amounts_ok_def)
qed

lemma disclosable_ok:
  "cache_inv c \<Longrightarrow> distinct ks \<Longrightarrow> amounts_ok ks c i \<Longrightarrow> selectable_ok (disclosable ks c now i b)"
  unfolding disclosable_def by (intro selectable_ok_filter get_selectable_ok)

text \<open>
  C30: The selection for disclosure is sound and complete. What it returns are distinct holdings
  of the instrument with their blob, fresh, neither consumed nor reserved, never the splitter
  reserve unless asked for, at most as many as allowed, whose amounts cover the target, dust
  sweeps included; and it returns nothing only when no such choice covers the target.
\<close>

theorem disclosure_selection:
  assumes "dec_laws A" and "cache_inv c" and "distinct ks" and "amounts_ok ks c i"
    and "0 < amount" and "1 \<le> n" and "selection_target A amount is_cc = Some target"
    and "ledger_amount target" and "in_range target" and "0 < target"
  shows "case select_for_disclosure_with A ks c now i amount n is_cc b of
      None \<Rightarrow> \<nexists>picks. covers (disclosable ks c now i b) target n picks
    | Some picks \<Rightarrow> covers (disclosable ks c now i b) target n picks
        \<and> (\<forall>h \<in> set picks. h_instrument h = i \<and> h_created_event_blob h \<noteq> None \<and> is_fresh now h
            \<and> \<not> is_consumed c (h_contract_id h) \<and> \<not> is_reserved c now (h_contract_id h)
            \<and> (b \<or> splitter_reserve ks c now i \<noteq> Some h))"
proof -
  let ?ds = "disclosable ks c now i b"
  have eq: "select_for_disclosure_with A ks c now i amount n is_cc b =
      disclosure_picks A (hc_dust_below c i) target n ?ds"
    using assms(5-7) by (simp add: select_for_disclosure_with_def disclosable_def)
  have each: "h_instrument h = i \<and> h_created_event_blob h \<noteq> None \<and> is_fresh now h
      \<and> \<not> is_consumed c (h_contract_id h) \<and> \<not> is_reserved c now (h_contract_id h)
      \<and> (b \<or> splitter_reserve ks c now i \<noteq> Some h)" if "h \<in> set ?ds" for h
    using that assms(2)
    by (auto simp: disclosable_def get_selectable_def selectable_holding_def holdings_of_def
        excluded_cid_def splitter_reserve_def cache_inv_def bind_eq_Some_conv)
  have "covers ?ds target n picks \<Longrightarrow> set picks \<subseteq> set ?ds" for picks by (simp add: covers_def)
  then show ?thesis
    using disclosure_picks_spec [where dust = "hc_dust_below c i" and hs = ?ds,
        OF assms(1) disclosable_ok [OF assms(2-4)] assms(6,8-10)] each
    unfolding eq by (auto split: option.splits)
qed

definition sample_cache :: holdings_cache where
  "sample_cache = add_created [sample_holding ''a'' 1, sample_holding ''b'' 3, sample_holding ''c'' 9] (empty_cache True)"

theorem disclosure_selection_witness:
  "\<nexists>picks. covers (disclosable [''a'', ''b'', ''c''] sample_cache 7 ''CC'' False) 5 2 picks"
proof -
  have avail: "hc_available sample_cache = [''a'' \<mapsto> sample_holding ''a'' 1, ''b'' \<mapsto> sample_holding ''b'' 3,
      ''c'' \<mapsto> sample_holding ''c'' 9]"
    by (auto simp: sample_cache_def add_created_def by_contract_def empty_cache_def sample_holding_def)
  have inv: "cache_inv sample_cache" by (auto simp: cache_inv_def avail sample_holding_def split: if_splits)
  have held: "holdings_of [''a'', ''b'', ''c''] sample_cache ''CC'' =
      [sample_holding ''a'' 1, sample_holding ''b'' 3, sample_holding ''c'' 9]"
    by (simp add: holdings_of_def avail map_filter_Cons) (simp add: List.map_filter_def sample_holding_def)
  then have ok: "amounts_ok [''a'', ''b'', ''c''] sample_cache ''CC''"
    by (simp add: amounts_ok_def sample_holding_def ledger_amount_def in_range_def)
  have fields: "hc_splitter_reserve_enabled sample_cache" "hc_dust_below sample_cache x = None"
    "\<not> is_consumed sample_cache x" "\<not> is_reserved sample_cache 7 x" for x
    by (simp_all add: sample_cache_def add_created_def empty_cache_def is_consumed_def is_reserved_def)
  have "splitter_reserve_cid [''a'', ''b'', ''c''] sample_cache 7 ''CC'' = Some ''c''"
    by (simp add: splitter_reserve_cid_def held fields is_fresh_def secs_since_def sample_holding_def holding_le_def)
  then have "get_selectable [''a'', ''b'', ''c''] sample_cache 7 ''CC'' True = [sample_holding ''a'' 1, sample_holding ''b'' 3]"
    by (simp add: get_selectable_def excluded_cid_def held fields selectable_holding_def is_fresh_def
        secs_since_def sample_holding_def)
  then have none: "select_for_disclosure_with exact_arith [''a'', ''b'', ''c''] sample_cache 7 ''CC'' 5 2 False False = None"
    by (simp add: select_for_disclosure_with_def selection_target_def disclosure_picks_def fields
        select_from_def exact_arith_def in_range_def sample_holding_def)
  show ?thesis
    using disclosure_selection [OF exact_arith_laws inv _ ok, of 5 2 False 5 7 False] none
    by (simp add: selection_target_def ledger_amount_def in_range_def)
qed

end
