(* ===== verification/Liquidity.thy ===== *)
theory Liquidity
  imports Decimal F64_Arith "HOL-Library.AList" "HOL-Library.Product_Lexorder"
begin

text \<open>
  \<open>crates/agent-logic/src/liquidity.rs\<close>: balances, the commitments of settlements in flight
  and the flow of each token. A \<open>HashMap\<close> is an association list with distinct keys whose
  order is the order of iteration. The \<open>RwLock\<close> makes each operation one step on
  \<open>liquidity_state\<close>; an \<open>Instant\<close> is a number of nanoseconds, and the clock reads of one
  operation are its argument \<open>now\<close>. Of \<open>rust_decimal\<close>, the checked operations, the saturating
  ones, the conversions and the display are parameters.
\<close>

section \<open>State\<close>

record liq_arith = dec_arith +
  d_sat_add :: "rat \<Rightarrow> rat \<Rightarrow> rat"
  d_sat_sub :: "rat \<Rightarrow> rat \<Rightarrow> rat"
  d_div :: "rat \<Rightarrow> rat \<Rightarrow> rat option"
  d_from_f64 :: "f64 \<Rightarrow> rat option"
  d_to_f64 :: "rat \<Rightarrow> f64 option"
  d_show4 :: "rat \<Rightarrow> string"

definition CC_TOKEN :: string where
  "CC_TOKEN = ''CC''"

definition DEFAULT_BALANCE_STALE_AFTER :: nat where
  "DEFAULT_BALANCE_STALE_AFTER = 120"

definition shown :: "rat \<Rightarrow> rat" where
  "shown amount = min (max amount (- (2 ^ 64 - 1))) (2 ^ 64 - 1)"

record token_state =
  ts_balance :: rat
  allocation_commitments :: "(string \<times> rat) list"
  last_refreshed :: "nat option"

definition new_token :: token_state where
  "new_token = \<lparr>ts_balance = 0, allocation_commitments = [], last_refreshed = None\<rparr>"

definition set_balance :: "rat \<Rightarrow> nat \<Rightarrow> token_state \<Rightarrow> token_state" where
  "set_balance balance now t = t\<lparr>ts_balance := max balance 0, last_refreshed := Some now\<rparr>"

definition sat_total :: "liq_arith \<Rightarrow> (string \<times> rat) list \<Rightarrow> rat" where
  "sat_total A m = foldl (\<lambda>acc e. d_sat_add A acc (snd e)) 0 m"

definition committed :: "liq_arith \<Rightarrow> token_state \<Rightarrow> rat" where
  "committed A t = sat_total A (allocation_commitments t)"

definition token_available :: "liq_arith \<Rightarrow> token_state \<Rightarrow> rat" where
  "token_available A t = max (d_sat_sub A (ts_balance t) (committed A t)) 0"

record token_flow =
  net_outflow_per_hour :: f64
  last_update :: nat
  pending_outflow :: f64
  pending_inflow :: f64

definition new_flow :: "nat \<Rightarrow> token_flow" where
  "new_flow now = \<lparr>net_outflow_per_hour = Fin 0, last_update = now,
     pending_outflow = Fin 0, pending_inflow = Fin 0\<rparr>"

definition flush :: "f64 \<Rightarrow> nat \<Rightarrow> token_flow \<Rightarrow> token_flow" where
  "flush alpha now fl =
     (let elapsed_secs = as_secs_f64 (now - last_update fl) in
      if f64_lt elapsed_secs (Fin 1) then fl
      else let net_outflow = f64_sub (pending_outflow fl) (pending_inflow fl);
               rate_this_period = f64_div net_outflow (f64_div elapsed_secs (Fin 3600))
           in fl\<lparr>net_outflow_per_hour := f64_add (f64_mul alpha rate_this_period)
                   (f64_mul (f64_sub (Fin 1) alpha) (net_outflow_per_hour fl)),
                 pending_outflow := Fin 0, pending_inflow := Fin 0, last_update := now\<rparr>)"

record liquidity_state =
  tokens :: "(string \<times> token_state) list"
  flows :: "(string \<times> token_flow) list"
  fee_commitments :: "(string \<times> rat) list"
  cc_usd_rate :: rat
  aliases :: "(string \<times> string) list"

record liquidity_manager =
  fee_reserve_cc :: rat
  margin :: f64
  ema_alpha :: f64
  depletion_max_hours :: f64
  depletion_min_hours :: f64
  stale_after_secs :: nat

definition new_liquidity :: liquidity_state where
  "new_liquidity = \<lparr>tokens = [], flows = [], fee_commitments = [], cc_usd_rate = 0, aliases = []\<rparr>"

definition new_manager :: "liq_arith \<Rightarrow> f64 \<Rightarrow> f64 \<Rightarrow> f64 \<Rightarrow> f64 \<Rightarrow> f64 \<Rightarrow> liquidity_manager" where
  "new_manager A reserve mgn ema_window_hours max_hours min_hours =
     \<lparr>fee_reserve_cc = (case d_from_f64 A reserve of Some r \<Rightarrow> r | None \<Rightarrow> 0), margin = mgn,
      ema_alpha = f64_div (Fin 2) (f64_add (f64_mul ema_window_hours (Fin 60)) (Fin 1)),
      depletion_max_hours = max_hours, depletion_min_hours = min_hours,
      stale_after_secs = DEFAULT_BALANCE_STALE_AFTER\<rparr>"

definition set_stale_after :: "nat \<Rightarrow> liquidity_manager \<Rightarrow> liquidity_manager" where
  "set_stale_after ns m = m\<lparr>stale_after_secs := ns div 10 ^ 9\<rparr>"

definition stale_after :: "liquidity_manager \<Rightarrow> nat" where
  "stale_after m = stale_after_secs m * 10 ^ 9"

definition is_ready :: "liquidity_state \<Rightarrow> bool" where
  "is_ready s \<longleftrightarrow> CC_TOKEN \<in> fst ` set (tokens s) \<and> (\<exists>k \<in> fst ` set (tokens s). k \<noteq> CC_TOKEN)"

section \<open>Balances\<close>

text \<open>\<open>entry(k).or_insert_with(new)\<close> followed by an update of the value.\<close>

definition entry_or :: "'v \<Rightarrow> string \<Rightarrow> ('v \<Rightarrow> 'v) \<Rightarrow> (string \<times> 'v) list \<Rightarrow> (string \<times> 'v) list" where
  "entry_or d k f m = AList.update k (f (case map_of m k of Some v \<Rightarrow> v | None \<Rightarrow> d)) m"

definition update_token_balance :: "nat \<Rightarrow> string \<Rightarrow> rat \<Rightarrow> liquidity_state \<Rightarrow> liquidity_state" where
  "update_token_balance now k unlocked s =
     s\<lparr>tokens := entry_or new_token k (set_balance unlocked now) (tokens s)\<rparr>"

definition update_cc_balance :: "nat \<Rightarrow> rat \<Rightarrow> liquidity_state \<Rightarrow> liquidity_state" where
  "update_cc_balance now selectable_cc = update_token_balance now CC_TOKEN selectable_cc"

definition update_token_balances :: "nat \<Rightarrow> (string \<times> rat) list \<Rightarrow> liquidity_state \<Rightarrow> liquidity_state" where
  "update_token_balances now updates s =
     (if updates = [] then s
      else foldl (\<lambda>s (k, unlocked). update_token_balance now k unlocked s) s updates)"

definition mark_missing_unrefreshed :: "string set \<Rightarrow> liquidity_state \<Rightarrow> liquidity_state" where
  "mark_missing_unrefreshed present s =
     s\<lparr>tokens := AList.map_ran (\<lambda>token st. if token \<noteq> CC_TOKEN \<and> token \<notin> present
         then st\<lparr>last_refreshed := None\<rparr> else st) (tokens s)\<rparr>"

definition resolve_alias :: "(string \<times> string) list \<Rightarrow> string \<Rightarrow> string" where
  "resolve_alias m token = (case map_of m token of Some k \<Rightarrow> k | None \<Rightarrow> token)"

definition stale_age :: "liquidity_state \<Rightarrow> string \<Rightarrow> nat \<Rightarrow> nat \<Rightarrow> nat option" where
  "stale_age s token now window =
     Option.bind (map_of (tokens s) (resolve_alias (aliases s) token)) (\<lambda>t.
     Option.bind (last_refreshed t) (\<lambda>refreshed.
       let age = now - refreshed in if window \<le> age then Some age else None))"

definition is_stale :: "liquidity_manager \<Rightarrow> liquidity_state \<Rightarrow> string \<Rightarrow> nat \<Rightarrow> nat option" where
  "is_stale m s token now = stale_age s token now (stale_after m)"

definition stale_tokens :: "liquidity_manager \<Rightarrow> liquidity_state \<Rightarrow> nat \<Rightarrow> (string \<times> nat) list" where
  "stale_tokens m s now = sort (List.map_filter
     (\<lambda>k. map_option (Pair k) (stale_age s k now (stale_after m))) (map fst (tokens s)))"

definition register_alias :: "string \<Rightarrow> string \<Rightarrow> liquidity_state \<Rightarrow> liquidity_state" where
  "register_alias alias canonical_key s = s\<lparr>aliases := AList.update alias canonical_key (aliases s)\<rparr>"

definition update_cc_usd_rate :: "rat \<Rightarrow> liquidity_state \<Rightarrow> liquidity_state" where
  "update_cc_usd_rate rate s = s\<lparr>cc_usd_rate := rate\<rparr>"

section \<open>Commitments\<close>

definition estimate_fee_cc :: "liq_arith \<Rightarrow> liquidity_manager \<Rightarrow> liquidity_state \<Rightarrow> rat \<Rightarrow> rat" where
  "estimate_fee_cc A m s my_fees_usd =
     (if cc_usd_rate s \<le> 0 \<or> my_fees_usd \<le> 0 then 0
      else let mgn = (case d_from_f64 A (margin m) of Some r \<Rightarrow> r | None \<Rightarrow> 1) in
        case Option.bind (d_div A my_fees_usd (cc_usd_rate s)) (\<lambda>raw. d_mul A raw mgn) of
          Some r \<Rightarrow> r
        | None \<Rightarrow> d_max A)"

definition available_of :: "liq_arith \<Rightarrow> liquidity_state \<Rightarrow> string \<Rightarrow> rat" where
  "available_of A s k = (case map_of (tokens s) k of Some t \<Rightarrow> token_available A t | None \<Rightarrow> 0)"

text \<open>\<open>saturating_sub(fee_reserve_cc).saturating_sub(fee_commitments.total())\<close>.\<close>

definition less_fees :: "liq_arith \<Rightarrow> liquidity_manager \<Rightarrow> liquidity_state \<Rightarrow> rat \<Rightarrow> rat" where
  "less_fees A m s cc = d_sat_sub A (d_sat_sub A cc (fee_reserve_cc m)) (sat_total A (fee_commitments s))"

definition check_commit ::
  "liq_arith \<Rightarrow> liquidity_manager \<Rightarrow> liquidity_state \<Rightarrow> string \<Rightarrow> rat \<Rightarrow> rat \<Rightarrow> unit result" where
  "check_commit A m s allocation_token allocation_amount fee_cc =
     (let token = resolve_alias (aliases s) allocation_token;
          token_avail = available_of A s token
      in if token_avail < allocation_amount then
           Inl [Lit ''insufficient '', Arg token, Lit '' ('', Arg (d_show4 A (shown token_avail)),
             Lit '' available, '', Arg (d_show4 A (shown allocation_amount)),
             Lit '' needed for allocation)'']
         else let cc_for_fees = less_fees A m s (available_of A s CC_TOKEN);
                  cc_after_alloc = (if token = CC_TOKEN then d_sat_sub A cc_for_fees allocation_amount
                                    else cc_for_fees)
           in if cc_after_alloc < fee_cc then
                Inl [Lit ''insufficient CC for fees ('', Arg (d_show4 A (shown (max cc_after_alloc 0))),
                  Lit '' available after allocation + reserve, '', Arg (d_show4 A (shown fee_cc)),
                  Lit '' needed)'']
              else Inr ())"

definition can_commit ::
  "liq_arith \<Rightarrow> liquidity_manager \<Rightarrow> liquidity_state \<Rightarrow> string \<Rightarrow> rat \<Rightarrow> rat \<Rightarrow> unit result" where
  "can_commit A m s allocation_token allocation_amount fee_cc =
     check_commit A m s allocation_token allocation_amount fee_cc"

definition has_commitment :: "liquidity_state \<Rightarrow> string \<Rightarrow> bool" where
  "has_commitment s proposal_id \<longleftrightarrow> proposal_id \<in> fst ` set (fee_commitments s)
     \<or> (\<exists>t \<in> snd ` set (tokens s). proposal_id \<in> fst ` set (allocation_commitments t))"

definition put_commitment :: "string \<Rightarrow> string \<Rightarrow> rat \<Rightarrow> rat \<Rightarrow> liquidity_state \<Rightarrow> liquidity_state" where
  "put_commitment proposal_id token allocation_amount fee_cc s =
     s\<lparr>tokens := entry_or new_token token (\<lambda>t. t\<lparr>allocation_commitments :=
         AList.update proposal_id allocation_amount (allocation_commitments t)\<rparr>) (tokens s),
       fee_commitments := AList.update proposal_id fee_cc (fee_commitments s)\<rparr>"

definition try_commit ::
  "liq_arith \<Rightarrow> liquidity_manager \<Rightarrow> string \<Rightarrow> string \<Rightarrow> rat \<Rightarrow> rat \<Rightarrow> liquidity_state
     \<Rightarrow> liquidity_state \<times> unit result" where
  "try_commit A m proposal_id allocation_token allocation_amount fee_cc s =
     (case check_commit A m s allocation_token allocation_amount fee_cc of
        Inl e \<Rightarrow> (s, Inl e)
      | Inr u \<Rightarrow> (put_commitment proposal_id (resolve_alias (aliases s) allocation_token)
                    allocation_amount fee_cc s, Inr ()))"

text \<open>A change of every map of commitments.\<close>

definition on_commitments ::
  "((string \<times> rat) list \<Rightarrow> (string \<times> rat) list) \<Rightarrow> liquidity_state \<Rightarrow> liquidity_state" where
  "on_commitments f s =
     s\<lparr>tokens := AList.map_ran (\<lambda>k t. t\<lparr>allocation_commitments := f (allocation_commitments t)\<rparr>) (tokens s),
       fee_commitments := f (fee_commitments s)\<rparr>"

definition release :: "string \<Rightarrow> liquidity_state \<Rightarrow> liquidity_state" where
  "release proposal_id = on_commitments (AList.delete proposal_id)"

definition kept_id :: "string set \<Rightarrow> string \<Rightarrow> bool" where
  "kept_id live_ids pid \<longleftrightarrow> pid \<in> live_ids \<or> starts_with pid ''rfqv2:''"

definition orphaned :: "string set \<Rightarrow> liquidity_state \<Rightarrow> string list" where
  "orphaned live_ids s = remdups (filter (\<lambda>pid. \<not> kept_id live_ids pid)
     (concat (map (\<lambda>(k, t). map fst (allocation_commitments t)) (tokens s)) @ map fst (fee_commitments s)))"

definition retain_commitments :: "string set \<Rightarrow> liquidity_state \<Rightarrow> liquidity_state \<times> nat" where
  "retain_commitments live_ids s =
     (on_commitments (filter (\<lambda>(pid, x). kept_id live_ids pid)) s, length (orphaned live_ids s))"

section \<open>Flows and queries\<close>

definition record_outflow :: "nat \<Rightarrow> string \<Rightarrow> f64 \<Rightarrow> liquidity_state \<Rightarrow> liquidity_state" where
  "record_outflow now token amount s = s\<lparr>flows := entry_or (new_flow now) token
     (\<lambda>fl. fl\<lparr>pending_outflow := f64_add (pending_outflow fl) amount\<rparr>) (flows s)\<rparr>"

definition record_inflow :: "nat \<Rightarrow> string \<Rightarrow> f64 \<Rightarrow> liquidity_state \<Rightarrow> liquidity_state" where
  "record_inflow now token amount s = s\<lparr>flows := entry_or (new_flow now) token
     (\<lambda>fl. fl\<lparr>pending_inflow := f64_add (pending_inflow fl) amount\<rparr>) (flows s)\<rparr>"

definition effective_available :: "liq_arith \<Rightarrow> liquidity_manager \<Rightarrow> liquidity_state \<Rightarrow> string \<Rightarrow> rat" where
  "effective_available A m s resolved =
     (let base = available_of A s resolved in
      if resolved = CC_TOKEN then max (less_fees A m s base) 0 else base)"

definition available :: "liq_arith \<Rightarrow> liquidity_manager \<Rightarrow> liquidity_state \<Rightarrow> string \<Rightarrow> rat" where
  "available A m s token = effective_available A m s (resolve_alias (aliases s) token)"

definition available_cc :: "liq_arith \<Rightarrow> liquidity_manager \<Rightarrow> liquidity_state \<Rightarrow> rat" where
  "available_cc A m s = available A m s CC_TOKEN"

definition hours_to_coefficient :: "liquidity_manager \<Rightarrow> f64 \<Rightarrow> f64" where
  "hours_to_coefficient m hours =
     (if f64_le (depletion_max_hours m) hours then Fin 0
      else if f64_le hours (depletion_min_hours m) then Fin 10
      else f64_div (f64_mul (Fin 10) (f64_sub (depletion_max_hours m) hours))
             (f64_sub (depletion_max_hours m) (depletion_min_hours m)))"

definition flushed :: "liquidity_manager \<Rightarrow> nat \<Rightarrow> string \<Rightarrow> liquidity_state \<Rightarrow> liquidity_state" where
  "flushed m now k s = s\<lparr>flows := (case map_of (flows s) k of None \<Rightarrow> flows s
     | Some fl \<Rightarrow> AList.update k (flush (ema_alpha m) now fl) (flows s))\<rparr>"

definition or_zero :: "f64 option \<Rightarrow> f64" where
  "or_zero x = (case x of Some v \<Rightarrow> v | None \<Rightarrow> Fin 0)"

definition depletion_coefficient ::
  "liq_arith \<Rightarrow> liquidity_manager \<Rightarrow> nat \<Rightarrow> string \<Rightarrow> liquidity_state \<Rightarrow> liquidity_state \<times> f64" where
  "depletion_coefficient A m now token s0 =
     (let resolved = resolve_alias (aliases s0) token;
          s = flushed m now resolved s0;
          net_outflow = (case map_of (flows s) resolved of
            Some fl \<Rightarrow> net_outflow_per_hour fl | None \<Rightarrow> Fin 0)
      in (s, if f64_le net_outflow (Fin 0) then Fin 0
             else let avail = or_zero (d_to_f64 A (effective_available A m s resolved))
               in if f64_le avail (Fin 0) then Fin 10
                  else hours_to_coefficient m (f64_div avail net_outflow)))"

section \<open>Statistics and persistence\<close>

record token_stats =
  st_token :: string
  st_balance :: rat
  st_committed :: rat
  fee_committed :: rat
  fee_reserve :: rat
  st_available :: rat
  num_commitments :: nat
  st_net_outflow :: f64
  hours_to_depletion :: f64
  depletion_coeff :: f64
  refreshed_secs_ago :: "nat option"

definition token_stat ::
  "liq_arith \<Rightarrow> liquidity_manager \<Rightarrow> nat \<Rightarrow> liquidity_state \<Rightarrow> string \<times> token_state \<Rightarrow> token_stats" where
  "token_stat A m now s = (\<lambda>(token, t).
     let fee_total = sat_total A (fee_commitments s);
         avail = (if token = CC_TOKEN then max (less_fees A m s (token_available A t)) 0
                  else token_available A t);
         (outflow, hours, coeff) = (case map_of (flows s) token of
            None \<Rightarrow> (Fin 0, Inf False, Fin 0)
          | Some fl \<Rightarrow>
             let rate = net_outflow_per_hour fl;
                 h = (if f64_lt (Fin 0) rate
                      then let a = or_zero (d_to_f64 A avail)
                           in if f64_lt (Fin 0) a then f64_div a rate else Fin 0
                      else Inf False)
             in (rate, h, hours_to_coefficient m h))
     in \<lparr>st_token = token, st_balance = ts_balance t, st_committed = committed A t,
         fee_committed = (if token = CC_TOKEN then fee_total else 0),
         fee_reserve = (if token = CC_TOKEN then fee_reserve_cc m else 0), st_available = avail,
         num_commitments = length (allocation_commitments t), st_net_outflow = outflow,
         hours_to_depletion = hours, depletion_coeff = coeff,
         refreshed_secs_ago = map_option (\<lambda>r. (now - r) div 10 ^ 9) (last_refreshed t)\<rparr>)"

definition stats_order_key :: "string \<Rightarrow> bool \<times> string" where
  "stats_order_key a = (a \<noteq> CC_TOKEN, a)"

definition stats ::
  "liq_arith \<Rightarrow> liquidity_manager \<Rightarrow> nat \<Rightarrow> liquidity_state \<Rightarrow> liquidity_state \<times> token_stats list" where
  "stats A m now s0 =
     (let s = s0\<lparr>flows := AList.map_ran (\<lambda>k. flush (ema_alpha m) now) (flows s0)\<rparr>
      in (s, sort_key (\<lambda>t. stats_order_key (st_token t)) (map (token_stat A m now s) (tokens s))))"

record saved_token_flow =
  sf_token :: string
  sf_net_outflow_per_hour :: f64

definition save_flows :: "liquidity_state \<Rightarrow> saved_token_flow list" where
  "save_flows s = map (\<lambda>(token, fl). \<lparr>sf_token = token,
     sf_net_outflow_per_hour = net_outflow_per_hour fl\<rparr>) (flows s)"

definition restore_flows :: "nat \<Rightarrow> saved_token_flow list \<Rightarrow> liquidity_state \<Rightarrow> liquidity_state" where
  "restore_flows now saved s = foldl (\<lambda>s sf. s\<lparr>flows := entry_or (new_flow now) (sf_token sf)
     (\<lambda>fl. fl\<lparr>net_outflow_per_hour := sf_net_outflow_per_hour sf\<rparr>) (flows s)\<rparr>) s saved"

end
