(* ===== verification/Liquidity_Safety.thy ===== *)
theory Liquidity_Safety
  imports Liquidity
begin

text \<open>
  What the commitments of \<open>liquidity.rs\<close> guarantee: the invariant \<open>solvent\<close>, which every
  operation but a new balance keeps, and the effect of the reconciliation. The laws assumed
  of \<open>rust_decimal\<close> are those of \<open>Decimal\<close>, and that a saturating operation agrees with the
  checked one where that succeeds.
\<close>

section \<open>Association lists of amounts\<close>

lemma map_of_entry_or [simp]:
  "map_of (entry_or d k f m) k' = (if k' = k then Some (f (case map_of m k of Some v \<Rightarrow> v | None \<Rightarrow> d))
     else map_of m k')"
  by (simp add: entry_or_def update_conv')

lemma distinct_entry_or [simp]:
  "distinct (map fst m) \<Longrightarrow> distinct (map fst (entry_or d k f m))"
  by (simp add: entry_or_def distinct_update)

definition amount_sum :: "(string \<times> rat) list \<Rightarrow> rat" where
  "amount_sum m = sum_list (map snd m)"

definition ledger_amounts :: "(string \<times> rat) list \<Rightarrow> bool" where
  "ledger_amounts m \<longleftrightarrow> (\<forall>x \<in> snd ` set m. ledger_amount x \<and> 0 \<le> x)"

lemma amount_sum_simps [simp]:
  "amount_sum [] = 0"
  "amount_sum (e # m) = snd e + amount_sum m"
  by (simp_all add: amount_sum_def)

lemma ledger_amounts_simps [simp]:
  "ledger_amounts []"
  "ledger_amounts (e # m) \<longleftrightarrow> ledger_amount (snd e) \<and> 0 \<le> snd e \<and> ledger_amounts m"
  by (auto simp: ledger_amounts_def)

lemma amount_sum_nonneg: "ledger_amounts m \<Longrightarrow> 0 \<le> amount_sum m"
  by (induction m) auto

lemma ledger_amount_sum: "ledger_amounts m \<Longrightarrow> ledger_amount (amount_sum m)"
  by (induction m) (auto intro: ledger_amount_arith)

lemma ledger_amounts_update:
  "ledger_amounts m \<Longrightarrow> ledger_amount x \<Longrightarrow> 0 \<le> x \<Longrightarrow> ledger_amounts (AList.update k x m)"
  by (induction m) auto

lemma amount_sum_update: "ledger_amounts m \<Longrightarrow> amount_sum (AList.update k x m) \<le> amount_sum m + x"
  by (induction m) auto

lemma ledger_amounts_filter: "ledger_amounts m \<Longrightarrow> ledger_amounts (filter P m)"
  by (induction m) auto

lemma amount_sum_filter: "ledger_amounts m \<Longrightarrow> amount_sum (filter P m) \<le> amount_sum m"
  by (induction m) auto

lemma distinct_map_filter: "distinct (map fst m) \<Longrightarrow> distinct (map fst (filter P m))"
  by (induction m) auto

section \<open>Exact arithmetic where the laws apply\<close>

definition sat_laws :: "liq_arith \<Rightarrow> bool" where
  "sat_laws A \<longleftrightarrow> dec_laws (dec_arith.truncate A)
     \<and> (\<forall>a b c. d_add A a b = Some c \<longrightarrow> d_sat_add A a b = c)
     \<and> (\<forall>a b c. d_sub A a b = Some c \<longrightarrow> d_sat_sub A a b = c)"

lemma sat_lawsD:
  assumes "sat_laws A" and "ledger_amount a" and "ledger_amount b"
  shows "in_range (a + b) \<Longrightarrow> d_sat_add A a b = a + b"
    and "in_range (a - b) \<Longrightarrow> d_sat_sub A a b = a - b"
  using assms dec_lawsD [of "dec_arith.truncate A" a b] by (auto simp: sat_laws_def dec_arith.defs)

lemma sat_total_exact:
  assumes "sat_laws A" and "ledger_amounts m" and "in_range (amount_sum m)"
  shows "sat_total A m = amount_sum m"
proof -
  have "ledger_amount acc \<Longrightarrow> 0 \<le> acc \<Longrightarrow> ledger_amounts m \<Longrightarrow> in_range (acc + amount_sum m) \<Longrightarrow>
      foldl (\<lambda>acc e. d_sat_add A acc (snd e)) acc m = acc + amount_sum m" for acc
  proof (induction m arbitrary: acc)
    case (Cons e m)
    have "in_range (acc + snd e)"
      using Cons.prems amount_sum_nonneg [of m] by (intro in_range_le [OF Cons.prems(4)]) auto
    then have "d_sat_add A acc (snd e) = acc + snd e"
      using Cons.prems by (intro sat_lawsD(1) [OF assms(1)]) auto
    with Cons show ?case by (simp add: ledger_amount_arith add.assoc)
  qed simp
  from this [of 0] assms show ?thesis by (simp add: sat_total_def)
qed

lemma in_range_between: "in_range a \<Longrightarrow> in_range b \<Longrightarrow> - b \<le> x \<Longrightarrow> x \<le> a \<Longrightarrow> 0 \<le> a \<Longrightarrow> 0 \<le> b \<Longrightarrow> in_range x"
  by (cases "0 \<le> x") (auto intro: in_range_le [of a x] in_range_le [of b x])

lemma in_range_leI: "0 \<le> a \<Longrightarrow> a \<le> b \<Longrightarrow> in_range b \<Longrightarrow> in_range a"
  by (rule in_range_le [of b]) auto

section \<open>Solvency\<close>

text \<open>
  A token is sound when its amounts are ledger amounts and its allocations are within its
  balance; the state is solvent when every token is, and when, as soon as a fee is
  committed, the allocations of CC, the fees and the reserve are together within the
  balance of CC.
\<close>

definition token_amounts :: "token_state \<Rightarrow> bool" where
  "token_amounts t \<longleftrightarrow> ledger_amount (ts_balance t) \<and> 0 \<le> ts_balance t \<and> in_range (ts_balance t)
     \<and> ledger_amounts (allocation_commitments t)"

definition token_solvent :: "token_state \<Rightarrow> bool" where
  "token_solvent t \<longleftrightarrow> token_amounts t \<and> amount_sum (allocation_commitments t) \<le> ts_balance t"

definition token_of :: "liquidity_state \<Rightarrow> string \<Rightarrow> token_state" where
  "token_of s k = (case map_of (tokens s) k of Some t \<Rightarrow> t | None \<Rightarrow> new_token)"

definition allocated :: "liquidity_state \<Rightarrow> string \<Rightarrow> rat" where
  "allocated s k = amount_sum (allocation_commitments (token_of s k))"

definition fees_covered :: "liquidity_manager \<Rightarrow> liquidity_state \<Rightarrow> bool" where
  "fees_covered m s \<longleftrightarrow> fee_commitments s = [] \<or>
     allocated s CC_TOKEN + fee_reserve_cc m + amount_sum (fee_commitments s) \<le> ts_balance (token_of s CC_TOKEN)"

definition solvent :: "liquidity_manager \<Rightarrow> liquidity_state \<Rightarrow> bool" where
  "solvent m s \<longleftrightarrow> (\<forall>k. token_solvent (token_of s k)) \<and> ledger_amounts (fee_commitments s) \<and> fees_covered m s"

definition reserve_ok :: "liquidity_manager \<Rightarrow> bool" where
  "reserve_ok m \<longleftrightarrow> ledger_amount (fee_reserve_cc m) \<and> 0 \<le> fee_reserve_cc m \<and> in_range (fee_reserve_cc m)"

lemma in_range_0 [simp]: "in_range 0"
  by (simp add: in_range_def)

lemma new_token_solvent [simp]: "token_solvent new_token"
  by (simp add: token_solvent_def token_amounts_def new_token_def)

lemma token_available_exact:
  assumes "sat_laws A" and "token_solvent t"
  shows "token_available A t = ts_balance t - amount_sum (allocation_commitments t)"
proof -
  have nonneg: "0 \<le> amount_sum (allocation_commitments t)"
    using assms(2) by (simp add: token_solvent_def token_amounts_def amount_sum_nonneg)
  have t: "ledger_amounts (allocation_commitments t)" "ledger_amount (ts_balance t)"
    "in_range (ts_balance t)" "amount_sum (allocation_commitments t) \<le> ts_balance t"
    using assms(2) by (simp_all add: token_solvent_def token_amounts_def)
  have "in_range (amount_sum (allocation_commitments t))"
    by (rule in_range_leI [OF nonneg t(4,3)])
  then have "committed A t = amount_sum (allocation_commitments t)"
    by (simp add: committed_def sat_total_exact assms(1) t)
  moreover have "in_range (ts_balance t - amount_sum (allocation_commitments t))"
    using nonneg t by - (rule in_range_leI [of _ "ts_balance t"], auto)
  then have "d_sat_sub A (ts_balance t) (amount_sum (allocation_commitments t))
      = ts_balance t - amount_sum (allocation_commitments t)"
    by (intro sat_lawsD(2) [OF assms(1)] ledger_amount_sum t)
  ultimately show ?thesis
    using assms(2) by (simp add: token_available_def token_solvent_def)
qed

lemma available_of_exact:
  assumes "sat_laws A" and "solvent m s"
  shows "available_of A s k = ts_balance (token_of s k) - allocated s k"
proof (cases "map_of (tokens s) k")
  case (Some t)
  moreover from assms(2) Some have "token_solvent t"
    unfolding solvent_def token_of_def by (metis option.simps(5))
  ultimately show ?thesis using token_available_exact [OF assms(1)]
    by (simp add: available_of_def token_of_def allocated_def)
qed (simp add: available_of_def token_of_def allocated_def new_token_def)

lemma less_fees_exact:
  assumes "sat_laws A" and "solvent m s" and "reserve_ok m"
    and "ledger_amount cc" and "0 \<le> cc" and "in_range cc"
  shows "less_fees A m s cc = cc - fee_reserve_cc m - amount_sum (fee_commitments s)"
    and "in_range (fee_reserve_cc m + amount_sum (fee_commitments s))"
proof -
  let ?f = "amount_sum (fee_commitments s)" and ?r = "fee_reserve_cc m"
  have ok: "ledger_amounts (fee_commitments s)" and t: "token_solvent (token_of s CC_TOKEN)"
    and alloc: "0 \<le> allocated s CC_TOKEN"
    using assms(2) by (auto simp: solvent_def allocated_def token_solvent_def token_amounts_def
        intro: amount_sum_nonneg)
  have f: "0 \<le> ?f" "ledger_amount ?f" by (simp_all add: amount_sum_nonneg ledger_amount_sum ok)
  have r: "ledger_amount ?r" "0 \<le> ?r" "in_range ?r" using assms(3) by (simp_all add: reserve_ok_def)
  show range: "in_range (?r + ?f)"
  proof (cases "fee_commitments s = []")
    case False
    then have "allocated s CC_TOKEN + ?r + ?f \<le> ts_balance (token_of s CC_TOKEN)"
      using assms(2) by (simp add: solvent_def fees_covered_def)
    then show ?thesis using t f r alloc
      by - (rule in_range_leI [of _ "ts_balance (token_of s CC_TOKEN)"],
          auto simp: token_solvent_def token_amounts_def)
  qed (simp add: r)
  have "in_range ?f" using range f r by - (rule in_range_leI [of _ "?r + ?f"], auto)
  then have "sat_total A (fee_commitments s) = ?f" by (simp add: sat_total_exact assms(1) ok)
  moreover have "in_range (cc - ?r)"
    by (rule in_range_between [OF assms(6) r(3)]) (use assms(5) r in auto)
  then have "d_sat_sub A cc ?r = cc - ?r"
    by (intro sat_lawsD(2) [OF assms(1)] assms r)
  moreover have "in_range (cc - ?r - ?f)"
    by (rule in_range_between [OF assms(6) range]) (use assms(5) r f in auto)
  then have "d_sat_sub A (cc - ?r) ?f = cc - ?r - ?f"
    by (intro sat_lawsD(2) [OF assms(1)] ledger_amount_arith assms r f)
  ultimately show "less_fees A m s cc = cc - ?r - ?f" by (simp add: less_fees_def)
qed

text \<open>What a successful check means.\<close>

lemma check_commit_sound:
  assumes "sat_laws A" and "solvent m s" and "reserve_ok m"
    and amount: "ledger_amount amount" "0 \<le> amount"
    and ok: "check_commit A m s token amount fee = Inr ()"
  defines "k \<equiv> resolve_alias (aliases s) token"
  shows "allocated s k + amount \<le> ts_balance (token_of s k)"
    and "allocated s CC_TOKEN + (if k = CC_TOKEN then amount else 0) + fee_reserve_cc m
         + amount_sum (fee_commitments s) + fee \<le> ts_balance (token_of s CC_TOKEN)"
proof -
  let ?cc = "ts_balance (token_of s CC_TOKEN) - allocated s CC_TOKEN" and ?r = "fee_reserve_cc m"
    and ?f = "amount_sum (fee_commitments s)"
  have avail: "available_of A s k' = ts_balance (token_of s k') - allocated s k'" for k'
    by (rule available_of_exact [OF assms(1,2)])
  show first: "allocated s k + amount \<le> ts_balance (token_of s k)"
    using ok by (auto simp: check_commit_def avail k_def Let_def split: if_splits)
  have t: "token_solvent (token_of s CC_TOKEN)" using assms(2) by (simp add: solvent_def)
  then have nonneg: "0 \<le> allocated s CC_TOKEN" and cc: "ledger_amount ?cc" "0 \<le> ?cc"
    by (auto simp: token_solvent_def token_amounts_def allocated_def amount_sum_nonneg ledger_amount_sum
        intro: ledger_amount_arith)
  have range: "in_range ?cc"
    using t nonneg cc
    by - (rule in_range_leI [of _ "ts_balance (token_of s CC_TOKEN)"],
        auto simp: token_solvent_def token_amounts_def)
  note fees = less_fees_exact [OF assms(1,2,3) cc range]
  have led: "ledger_amount (?cc - ?r - ?f)"
    using assms(2,3) cc by (auto simp: solvent_def reserve_ok_def intro!: ledger_amount_arith ledger_amount_sum)
  have pos: "0 \<le> ?r" "0 \<le> ?f" using assms(2,3) by (simp_all add: reserve_ok_def solvent_def amount_sum_nonneg)
  show "allocated s CC_TOKEN + (if k = CC_TOKEN then amount else 0) + ?r + ?f + fee
      \<le> ts_balance (token_of s CC_TOKEN)"
  proof (cases "k = CC_TOKEN")
    case True
    then have "in_range (?cc - ?r - ?f - amount)"
      using first pos amount cc by - (rule in_range_between [OF range fees(2)], auto)
    then have "d_sat_sub A (?cc - ?r - ?f) amount = ?cc - ?r - ?f - amount"
      using led amount by (intro sat_lawsD(2) [OF assms(1)]) auto
    with ok True show ?thesis
      by (auto simp: check_commit_def avail k_def [symmetric] fees(1) Let_def split: if_splits)
  next
    case False
    with ok show ?thesis
      by (auto simp: check_commit_def avail k_def [symmetric] fees(1) Let_def split: if_splits)
  qed
qed

section \<open>Operations keep solvency\<close>

lemma token_of_put [simp]:
  "token_of (put_commitment p k amount fee s) k' = (if k' = k
     then (token_of s k)\<lparr>allocation_commitments :=
       AList.update p amount (allocation_commitments (token_of s k))\<rparr> else token_of s k')"
  by (simp add: token_of_def put_commitment_def split: option.splits)

lemma fee_commitments_put [simp]:
  "fee_commitments (put_commitment p k amount fee s) = AList.update p fee (fee_commitments s)"
  by (simp add: put_commitment_def)

lemma token_of_on_commitments [simp]:
  "f [] = [] \<Longrightarrow> token_of (on_commitments f s) k =
     (token_of s k)\<lparr>allocation_commitments := f (allocation_commitments (token_of s k))\<rparr>"
  by (simp add: token_of_def on_commitments_def AList.map_ran_conv new_token_def split: option.splits)

lemma solvent_put:
  assumes "solvent m s" and "ledger_amount amount" and "0 \<le> amount" and "ledger_amount fee" and "0 \<le> fee"
    and "allocated s k + amount \<le> ts_balance (token_of s k)"
    and "allocated s CC_TOKEN + (if k = CC_TOKEN then amount else 0) + fee_reserve_cc m
         + amount_sum (fee_commitments s) + fee \<le> ts_balance (token_of s CC_TOKEN)"
  shows "solvent m (put_commitment p k amount fee s)"
proof -
  have ok: "ledger_amounts (allocation_commitments (token_of s k'))" "ledger_amounts (fee_commitments s)" for k'
    using assms(1) by (simp_all add: solvent_def token_solvent_def token_amounts_def)
  note grow = amount_sum_update [OF ok(1), of p amount k] amount_sum_update [OF ok(2), of p fee]
  have "token_solvent (token_of (put_commitment p k amount fee s) k')" for k'
    using assms ok grow(1) by (auto simp: solvent_def token_solvent_def token_amounts_def allocated_def
        ledger_amounts_update)
  moreover have "fees_covered m (put_commitment p k amount fee s)"
    using assms(7) grow by (auto simp: fees_covered_def allocated_def split: if_splits)
  ultimately show ?thesis
    using assms ok by (simp add: solvent_def ledger_amounts_update)
qed

lemma solvent_on_commitments:
  assumes "solvent m s" and f: "\<And>l. f l = filter P l"
  shows "solvent m (on_commitments f s)"
proof -
  have ok: "ledger_amounts (allocation_commitments (token_of s k))" "ledger_amounts (fee_commitments s)" for k
    using assms(1) by (simp_all add: solvent_def token_solvent_def token_amounts_def)
  have shrink: "amount_sum (filter P (allocation_commitments (token_of s k))) \<le> allocated s k"
    "amount_sum (filter P (fee_commitments s)) \<le> amount_sum (fee_commitments s)" for k
    by (simp_all add: allocated_def amount_sum_filter ok)
  have fees: "fee_commitments (on_commitments f s) = filter P (fee_commitments s)"
    by (simp add: on_commitments_def f)
  have "token_solvent (token_of (on_commitments f s) k)" for k
    using assms(1) shrink(1) [of k] ok(1) [of k]
    by (auto simp: f solvent_def token_solvent_def token_amounts_def allocated_def ledger_amounts_filter
        intro: order_trans)
  moreover have "fees_covered m (on_commitments f s)"
  proof (cases "fee_commitments s = []")
    case False
    then have "allocated s CC_TOKEN + fee_reserve_cc m + amount_sum (fee_commitments s)
        \<le> ts_balance (token_of s CC_TOKEN)"
      using assms(1) by (simp add: solvent_def fees_covered_def)
    then show ?thesis using shrink(1) [of CC_TOKEN] shrink(2)
      by (auto simp: fees_covered_def f fees allocated_def)
  qed (simp add: fees_covered_def fees)
  ultimately show ?thesis using ok by (simp add: solvent_def fees ledger_amounts_filter)
qed

lemma solvent_tokens:
  "(\<And>k. ts_balance (token_of s' k) = ts_balance (token_of s k)
      \<and> allocation_commitments (token_of s' k) = allocation_commitments (token_of s k)) \<Longrightarrow>
   fee_commitments s' = fee_commitments s \<Longrightarrow> solvent m s \<Longrightarrow> solvent m s'"
  by (simp add: solvent_def token_solvent_def token_amounts_def fees_covered_def allocated_def)

lemma solvent_try_commit:
  assumes "sat_laws A" and "reserve_ok m" and "solvent m s"
    and "ledger_amount amount" and "0 \<le> amount" and "ledger_amount fee" and "0 \<le> fee"
  shows "solvent m (fst (try_commit A m p token amount fee s))"
proof (cases "check_commit A m s token amount fee")
  case (Inr u)
  then have "check_commit A m s token amount fee = Inr ()" by simp
  from check_commit_sound [OF assms(1,3,2,4,5) this] show ?thesis
    using assms by (simp add: try_commit_def Inr solvent_put)
qed (simp add: try_commit_def assms)

section \<open>Runs\<close>

datatype liq_event =
    Balance nat string rat
  | Missing "string set"
  | Alias string string
  | Rate rat
  | Commit string string rat rat
  | Release string
  | Reconcile "string set"
  | Outflow nat string f64
  | Inflow nat string f64
  | Coefficient nat string
  | Stats nat
  | Restore_Flows nat "saved_token_flow list"

fun liq_step :: "liq_arith \<Rightarrow> liquidity_manager \<Rightarrow> liquidity_state \<Rightarrow> liq_event \<Rightarrow> liquidity_state" where
  "liq_step A m s (Balance now k amount) = update_token_balance now k amount s"
| "liq_step A m s (Missing present) = mark_missing_unrefreshed present s"
| "liq_step A m s (Alias short_name k) = register_alias short_name k s"
| "liq_step A m s (Rate r) = update_cc_usd_rate r s"
| "liq_step A m s (Commit p token amount fee) = fst (try_commit A m p token amount fee s)"
| "liq_step A m s (Release p) = release p s"
| "liq_step A m s (Reconcile live) = fst (retain_commitments live s)"
| "liq_step A m s (Outflow now k f) = record_outflow now k f s"
| "liq_step A m s (Inflow now k f) = record_inflow now k f s"
| "liq_step A m s (Coefficient now k) = fst (depletion_coefficient A m now k s)"
| "liq_step A m s (Stats now) = fst (stats A m now s)"
| "liq_step A m s (Restore_Flows now fs) = restore_flows now fs s"

text \<open>Commitments of non-negative ledger amounts; balances stay as they are.\<close>

fun liq_admitted :: "liq_event \<Rightarrow> bool" where
  "liq_admitted (Balance now k amount) = False"
| "liq_admitted (Commit p token amount fee) \<longleftrightarrow>
     ledger_amount amount \<and> 0 \<le> amount \<and> ledger_amount fee \<and> 0 \<le> fee"
| "liq_admitted _ = True"

lemma restore_flows_tokens [simp]:
  "tokens (restore_flows now fs s) = tokens s"
  "fee_commitments (restore_flows now fs s) = fee_commitments s"
  by (induction fs arbitrary: s) (simp_all add: restore_flows_def)

lemma token_of_missing:
  "ts_balance (token_of (mark_missing_unrefreshed present s) k) = ts_balance (token_of s k)"
  "allocation_commitments (token_of (mark_missing_unrefreshed present s) k)
     = allocation_commitments (token_of s k)"
  "fee_commitments (mark_missing_unrefreshed present s) = fee_commitments s"
  by (simp_all add: token_of_def mark_missing_unrefreshed_def AList.map_ran_conv split: option.splits)

lemma solvent_step:
  assumes "sat_laws A" and "reserve_ok m" and "solvent m s" and "liq_admitted e"
  shows "solvent m (liq_step A m s e)"
proof (cases e)
  case (Commit p token amount fee)
  with assms show ?thesis by (simp add: solvent_try_commit)
next
  case (Release p)
  then show ?thesis using assms(3)
    by (auto simp: release_def AList.delete_eq intro: solvent_on_commitments)
next
  case (Reconcile live)
  then show ?thesis using assms(3)
    by (auto simp: retain_commitments_def intro: solvent_on_commitments)
next
  case (Missing present)
  then show ?thesis by (simp add: solvent_tokens [OF _ _ assms(3)] token_of_missing)
qed (use assms in \<open>auto intro!: solvent_tokens [OF _ _ assms(3)]
    simp: token_of_def register_alias_def update_cc_usd_rate_def record_outflow_def record_inflow_def
      depletion_coefficient_def flushed_def stats_def Let_def\<close>)

interpretation solvency: kept "liq_step A m" "\<lambda>s. sat_laws A \<and> reserve_ok m \<and> solvent m s" liq_admitted
  for A m
proof
  fix s :: liquidity_state and e
  show "sat_laws A \<and> reserve_ok m \<and> solvent m s \<Longrightarrow> liq_admitted e \<Longrightarrow>
      sat_laws A \<and> reserve_ok m \<and> solvent m (liq_step A m s e)"
    by (simp add: solvent_step)
qed

lemma solventD:
  assumes "solvent m s"
  shows "allocated s k \<le> ts_balance (token_of s k)"
    and "fee_commitments s \<noteq> [] \<Longrightarrow> allocated s CC_TOKEN + fee_reserve_cc m
      + amount_sum (fee_commitments s) \<le> ts_balance (token_of s CC_TOKEN)"
  using assms by (auto simp: solvent_def token_solvent_def fees_covered_def allocated_def)

section \<open>Properties\<close>

text \<open>
  C33: However commitments, releases, reconciliations and the other operations interleave
  while the balances stand, the allocations of a token never exceed its balance; and while a
  fee is committed, the allocations of CC, the fees and the reserve together fit in the
  balance of CC (for amounts of the ledger, where the decimal arithmetic is exact).
\<close>

theorem commitments_within_balance:
  assumes "sat_laws A" and "reserve_ok m" and "solvent m s" and "list_all liq_admitted es"
  defines "s' \<equiv> run (liq_step A m) s es"
  shows "allocated s' k \<le> ts_balance (token_of s' k)
    \<and> (fee_commitments s' \<noteq> [] \<longrightarrow> allocated s' CC_TOKEN + fee_reserve_cc m
      + amount_sum (fee_commitments s') \<le> ts_balance (token_of s' CC_TOKEN))"
  using solvency.run_keeps [of A m s es] assms(1-4) solventD [of m s'] by (simp_all add: s'_def)

definition sample_arith :: liq_arith where
  "sample_arith = dec_arith.extend exact_arith \<lparr>d_sat_add = (+), d_sat_sub = (-),
     d_div = (\<lambda>a b. if b = 0 then None else Some (a / b)),
     d_from_f64 = (\<lambda>x. case x of Fin r \<Rightarrow> Some r | _ \<Rightarrow> None), d_to_f64 = (\<lambda>r. Some (round_f64 r)),
     d_show4 = (\<lambda>r. show_int \<lfloor>r\<rfloor>)\<rparr>"

definition sample_manager :: liquidity_manager where
  "sample_manager = \<lparr>fee_reserve_cc = 5, margin = Fin 1, ema_alpha = Fin (1 / 2),
     depletion_max_hours = Fin 12, depletion_min_hours = Fin 1, stale_after_secs = 120\<rparr>"

definition sample_liquidity :: liquidity_state where
  "sample_liquidity = update_token_balance 0 ''USDC'' 50 (update_cc_balance 0 100 new_liquidity)"

lemma sample_arith_laws: "sat_laws sample_arith"
  using exact_arith_laws
  by (simp add: sat_laws_def sample_arith_def dec_arith.defs dec_laws_def exact_arith_def)

lemma ledger_amount_numerals [simp]: "ledger_amount 1" "ledger_amount (numeral w)"
  by (simp_all add: ledger_amount_def)

lemma sample_solvent: "reserve_ok sample_manager" "solvent sample_manager sample_liquidity"
  by (simp_all add: reserve_ok_def sample_manager_def in_range_def solvent_def token_solvent_def
      token_amounts_def token_of_def sample_liquidity_def update_cc_balance_def
      update_token_balance_def entry_or_def set_balance_def new_liquidity_def new_token_def
      fees_covered_def CC_TOKEN_def)

theorem commitments_within_balance_witness:
  "let s' = run (liq_step sample_arith sample_manager) sample_liquidity
       [Commit ''p'' ''CC'' 60 10, Commit ''q'' ''CC'' 60 1, Commit ''q'' ''USDC'' 20 3]
   in allocated s' ''CC'' + 5 + amount_sum (fee_commitments s') \<le> ts_balance (token_of s' ''CC'')"
proof -
  let ?es = "[Commit ''p'' ''CC'' 60 10, Commit ''q'' ''CC'' 60 1, Commit ''q'' ''USDC'' 20 3]"
  have "list_all liq_admitted ?es" by simp
  note holds = commitments_within_balance [OF sample_arith_laws sample_solvent this]
  have "fee_commitments (run (liq_step sample_arith sample_manager) sample_liquidity ?es) \<noteq> []"
    by (simp add: try_commit_def check_commit_def sample_liquidity_def update_cc_balance_def
        update_token_balance_def entry_or_def set_balance_def new_liquidity_def new_token_def
        resolve_alias_def available_of_def token_available_def committed_def sat_total_def sample_arith_def
        dec_arith.defs less_fees_def sample_manager_def put_commitment_def CC_TOKEN_def Let_def)
  with holds show ?thesis
    by (simp add: Let_def CC_TOKEN_def sample_manager_def)
qed

lemma snd_map_ran: "snd ` set (AList.map_ran (\<lambda>k. g) m) = g ` snd ` set m"
  by (simp add: AList.map_ran_def image_image split_beta)

lemma has_commitment_on:
  "(\<And>l. fst ` set (f l) = fst ` set l \<inter> B) \<Longrightarrow>
   has_commitment (on_commitments f s) q \<longleftrightarrow> has_commitment s q \<and> q \<in> B"
  unfolding has_commitment_def on_commitments_def by (simp add: snd_map_ran) blast

lemma set_orphaned: "set (orphaned live s) = {p. has_commitment s p \<and> \<not> kept_id live p}"
  by (simp add: orphaned_def has_commitment_def split_beta image_Un) blast

lemma distinct_orphaned: "distinct (orphaned live s)"
  by (simp add: orphaned_def)

lemma has_commitment_put:
  "has_commitment (put_commitment p k amount fee s) q \<longleftrightarrow> has_commitment s q \<or> q = p"
proof -
  have "(\<exists>t \<in> snd ` set (AList.update k (f (case map_of m k of Some v \<Rightarrow> v | None \<Rightarrow> new_token)) m).
      q \<in> fst ` set (allocation_commitments t)) \<longrightarrow>
      (\<exists>t \<in> snd ` set m. q \<in> fst ` set (allocation_commitments t)) \<or> q = p"
    and "(\<exists>t \<in> snd ` set m. q \<in> fst ` set (allocation_commitments t)) \<longrightarrow>
      (\<exists>t \<in> snd ` set (AList.update k (f (case map_of m k of Some v \<Rightarrow> v | None \<Rightarrow> new_token)) m).
        q \<in> fst ` set (allocation_commitments t))"
    if "\<And>t. fst ` set (allocation_commitments (f t)) = insert p (fst ` set (allocation_commitments t))" for f m
    by (induction m) (auto simp: that new_token_def)
  from this [of "\<lambda>t. t\<lparr>allocation_commitments := AList.update p amount (allocation_commitments t)\<rparr>" "tokens s"]
  show ?thesis
    by (auto simp: has_commitment_def put_commitment_def entry_or_def dom_update)
qed

text \<open>
  A commitment is recorded exactly when the advisory check passes, a release drops
  exactly the commitments of its proposal, and the reconciliation drops exactly those of the
  proposals that are neither live nor held for an RFQ quote, and reports how many there were.
\<close>

theorem commitments_released_exactly:
  "(has_commitment (fst (try_commit A m p token amount fee s)) q \<longleftrightarrow>
     has_commitment s q \<or> q = p \<and> can_commit A m s token amount fee = Inr ())
   \<and> (has_commitment (release p s) q \<longleftrightarrow> has_commitment s q \<and> q \<noteq> p)
   \<and> (has_commitment (fst (retain_commitments live s)) q \<longleftrightarrow> has_commitment s q \<and> kept_id live q)
   \<and> snd (retain_commitments live s) = card {p. has_commitment s p \<and> \<not> kept_id live p}"
proof -
  have "has_commitment (fst (try_commit A m p token amount fee s)) q \<longleftrightarrow>
     has_commitment s q \<or> q = p \<and> can_commit A m s token amount fee = Inr ()"
    by (auto simp: try_commit_def can_commit_def has_commitment_put split: sum.splits)
  moreover have "has_commitment (release p s) q \<longleftrightarrow> has_commitment s q \<and> q \<noteq> p"
    unfolding release_def by (subst has_commitment_on [where B = "- {p}"]) (auto simp: AList.delete_eq)
  moreover have "has_commitment (fst (retain_commitments live s)) q \<longleftrightarrow> has_commitment s q \<and> kept_id live q"
    unfolding retain_commitments_def fst_conv
    by (subst has_commitment_on [where B = "Collect (kept_id live)"]) force+
  moreover have "snd (retain_commitments live s) = card {p. has_commitment s p \<and> \<not> kept_id live p}"
    unfolding set_orphaned [symmetric] retain_commitments_def
    by (simp add: distinct_card distinct_orphaned)
  ultimately show ?thesis by simp
qed

end
