(* ===== verification/Order_Tracker.thy ===== *)
theory Order_Tracker
  imports Liquidity Signed_Messages
begin

text \<open>
  \<open>crates/agent-logic/src/order_tracker.rs\<close>: the orders the agent placed or imported, their
  quantity accounting, and the verification of settlement proposals against them. The
  methods are steps on \<open>order_tracker\<close>, as the tracker is only used under its lock. Of the
  protobuf messages the fields that are read are kept. Parsing and printing of decimals are
  \<open>d_parse\<close> and \<open>d_text\<close>; the signing key is what \<open>Secret::expose\<close> returns; Ed25519 and
  base64 are the record \<open>crypto\<close>; \<open>js\<close> is the text of a JSON string.
\<close>

record settle_arith = liq_arith +
  d_parse :: "string \<Rightarrow> rat option"
  d_text :: "rat \<Rightarrow> string"

text \<open>\<open>Decimal::from_str(s).unwrap_or_default()\<close>.\<close>

definition parse_or_zero :: "settle_arith \<Rightarrow> string \<Rightarrow> rat" where
  "parse_or_zero A s = (case d_parse A s of Some r \<Rightarrow> r | None \<Rightarrow> 0)"

section \<open>Data\<close>

record tracked_order =
  to_order_id :: nat
  to_market_id :: string
  to_order_type :: int
  to_price :: rat
  to_quantity :: rat
  settled_quantity :: rat
  pending_quantity :: rat
  to_nonce :: nat
  to_signature :: string
  to_signed_data :: bytes
  placed_by :: string
  is_active :: bool

record server_order =
  so_order_id :: nat
  so_market_id :: string
  so_order_type :: int
  so_price :: string
  so_quantity :: string
  so_filled_quantity :: string
  so_pending_quantity :: string
  so_nonce :: nat
  so_signature :: "string option"
  so_signed_data :: bytes

record order_match =
  bid_order_id :: nat
  offer_order_id :: nat

record settlement_proposal =
  sp_proposal_id :: string
  sp_market_id :: string
  sp_buyer :: string
  sp_seller :: string
  sp_base_instrument :: string
  sp_quote_instrument :: string
  sp_base_quantity :: string
  sp_quote_quantity :: string
  sp_settlement_price :: string
  sp_dvp_fee_buyer :: string
  sp_dvp_fee_seller :: string
  sp_alloc_fee_buyer :: string
  sp_alloc_fee_seller :: string
  sp_status :: int
  sp_created_secs :: "int option"
  sp_settled_secs :: "int option"
  sp_order_match :: "order_match option"
  sp_origin :: string

datatype verify_result =
    Accepted nat
  | Rejected message
  | NeedServerLookup nat
  | PlacementInFlight nat

record failed_submit =
  fs_market_id :: string
  fs_order_type :: int
  fs_price :: string
  fs_quantity :: string
  fs_nonce :: nat
  fs_signature :: string
  fs_signed_data :: bytes

record settlement_entry =
  se_order_id :: nat
  se_quantity :: rat
  se_reserved :: bool

record order_tracker =
  start_time_ms :: nat
  private_key :: "string + bytes"
  orders :: "(nat \<times> tracked_order) list"
  settlement_orders :: "(string \<times> settlement_entry) list"
  placing :: "(string \<times> nat) list"
  submit_failed_at :: "(string \<times> nat) list"
  failed_submits :: "(nat \<times> failed_submit) list"

definition SUBMIT_FAILED_HOLD :: nat where "SUBMIT_FAILED_HOLD = 60 * 10 ^ 9"

definition FAILED_SUBMIT_ADOPT :: nat where "FAILED_SUBMIT_ADOPT = 3600 * 10 ^ 9"

definition FAILED_SUBMIT_MAX :: nat where "FAILED_SUBMIT_MAX = 256"

definition new_tracker :: "nat \<Rightarrow> string + bytes \<Rightarrow> order_tracker" where
  "new_tracker start key = \<lparr>start_time_ms = start, private_key = key, orders = [],
     settlement_orders = [], placing = [], submit_failed_at = [], failed_submits = []\<rparr>"

section \<open>Placements in flight\<close>

definition begin_placement :: "string \<Rightarrow> order_tracker \<Rightarrow> order_tracker" where
  "begin_placement market t = t\<lparr>placing := AList.update market
     (sat_add (case map_of (placing t) market of Some n \<Rightarrow> n | None \<Rightarrow> 0) 1) (placing t)\<rparr>"

text \<open>\<open>Drop\<close> of a \<open>PlacementGuard\<close>.\<close>

definition drop_placement :: "string \<Rightarrow> order_tracker \<Rightarrow> order_tracker" where
  "drop_placement market t = t\<lparr>placing := (case map_of (placing t) market of
       None \<Rightarrow> placing t
     | Some n \<Rightarrow> if n - 1 = 0 then AList.delete market (placing t)
                 else AList.update market (n - 1) (placing t))\<rparr>"

definition placement_in_flight :: "order_tracker \<Rightarrow> string \<Rightarrow> bool" where
  "placement_in_flight t market = (case map_of (placing t) market of Some n \<Rightarrow> 0 < n | None \<Rightarrow> False)"

definition prune_failed_submits :: "nat \<Rightarrow> order_tracker \<Rightarrow> order_tracker" where
  "prune_failed_submits now t =
     t\<lparr>failed_submits := filter (\<lambda>(since, s). now - since < FAILED_SUBMIT_ADOPT) (failed_submits t)\<rparr>"

function pop_excess :: "'a list \<Rightarrow> 'a list" where
  "pop_excess q = (if FAILED_SUBMIT_MAX \<le> length q then pop_excess (tl q) else q)"
  by auto
termination by (relation "measure length") (auto simp: FAILED_SUBMIT_MAX_def)

declare pop_excess.simps [simp del]

definition note_submit_failed :: "failed_submit \<Rightarrow> nat \<Rightarrow> order_tracker \<Rightarrow> order_tracker" where
  "note_submit_failed submit now t =
     (let t = t\<lparr>submit_failed_at := AList.update (fs_market_id submit) now
            (filter (\<lambda>(m, since). now - since < SUBMIT_FAILED_HOLD) (submit_failed_at t))\<rparr>;
          t = prune_failed_submits now t
      in t\<lparr>failed_submits := pop_excess (failed_submits t) @ [(now, submit)]\<rparr>)"

definition submit_failed_recently :: "order_tracker \<Rightarrow> string \<Rightarrow> nat \<Rightarrow> bool" where
  "submit_failed_recently t market now =
     (case map_of (submit_failed_at t) market of Some since \<Rightarrow> now - since < SUBMIT_FAILED_HOLD | None \<Rightarrow> False)"

section \<open>Signing and tracking\<close>

definition sign_order_data :: "crypto \<Rightarrow> bytes \<Rightarrow> bytes \<Rightarrow> string" where
  "sign_order_data cr key data = cr_b64 cr (cr_sign cr key data)"

definition verify_order_signature :: "crypto \<Rightarrow> bytes \<Rightarrow> bytes \<Rightarrow> string \<Rightarrow> bool" where
  "verify_order_signature cr key data sig_b64 =
     (case cr_unb64 cr sig_b64 of
        Inl e \<Rightarrow> False
      | Inr sig \<Rightarrow> length sig = 64 \<and> cr_verify cr (cr_public cr key) data sig)"

definition order_json :: "(string \<Rightarrow> string) \<Rightarrow> string \<Rightarrow> string \<Rightarrow> string \<Rightarrow> string \<Rightarrow> nat \<Rightarrow> string" where
  "order_json js market_id order_type price quantity nonce =
     ''{'' @ js ''market_id'' @ '':'' @ js market_id @ '','' @ js ''nonce'' @ '':'' @ show_nat nonce
     @ '','' @ js ''order_type'' @ '':'' @ js order_type @ '','' @ js ''placed_by'' @ '':'' @ js ''agent''
     @ '','' @ js ''price'' @ '':'' @ js price @ '','' @ js ''quantity'' @ '':'' @ js quantity @ ''}''"

definition sign_order ::
  "crypto \<Rightarrow> (string \<Rightarrow> string) \<Rightarrow> nat \<Rightarrow> order_tracker \<Rightarrow> string \<Rightarrow> string \<Rightarrow> string \<Rightarrow> string
     \<Rightarrow> (string \<times> bytes \<times> nat) result" where
  "sign_order cr js now_millis t market_id order_type price quantity =
     (let data = str_bytes (order_json js market_id order_type price quantity now_millis)
      in case private_key t of
           Inl e \<Rightarrow> Inl [Arg e]
         | Inr key \<Rightarrow> Inr (sign_order_data cr key data, data, now_millis))"

definition track_order ::
  "settle_arith \<Rightarrow> nat \<Rightarrow> string \<Rightarrow> int \<Rightarrow> string \<Rightarrow> string \<Rightarrow> nat \<Rightarrow> string \<Rightarrow> bytes \<Rightarrow> order_tracker
     \<Rightarrow> order_tracker" where
  "track_order A order_id market_id order_type price quantity nonce signature data t =
     t\<lparr>orders := AList.update order_id
        \<lparr>to_order_id = order_id, to_market_id = market_id, to_order_type = order_type,
         to_price = parse_or_zero A price, to_quantity = parse_or_zero A quantity,
         settled_quantity = 0, pending_quantity = 0, to_nonce = nonce, to_signature = signature,
         to_signed_data = data, placed_by = ''agent'', is_active = True\<rparr> (orders t)\<rparr>"

definition adopts :: "server_order \<Rightarrow> nat \<times> failed_submit \<Rightarrow> bool" where
  "adopts order = (\<lambda>(since, s). fs_nonce s = so_nonce order \<and> fs_market_id s = so_market_id order
     \<and> so_signature order = Some (fs_signature s) \<and> fs_signed_data s = so_signed_data order)"

text \<open>\<open>VecDeque::remove(position(..))\<close>: the first match and the rest.\<close>

fun take_first :: "('a \<Rightarrow> bool) \<Rightarrow> 'a list \<Rightarrow> ('a \<times> 'a list) option" where
  "take_first P [] = None"
| "take_first P (x # xs) = (if P x then Some (x, xs) else map_option (\<lambda>(y, ys). (y, x # ys)) (take_first P xs))"

definition adopt_failed_submit :: "settle_arith \<Rightarrow> server_order \<Rightarrow> nat \<Rightarrow> order_tracker \<Rightarrow> order_tracker \<times> bool" where
  "adopt_failed_submit A order now t0 =
     (let t = prune_failed_submits now t0 in
      if so_order_id order \<in> fst ` set (orders t) then (t, False)
      else case take_first (adopts order) (failed_submits t) of
        None \<Rightarrow> (t, False)
      | Some ((since, s), rest) \<Rightarrow>
          (track_order A (so_order_id order) (fs_market_id s) (fs_order_type s) (fs_price s)
             (fs_quantity s) (fs_nonce s) (fs_signature s) (fs_signed_data s)
             (t\<lparr>failed_submits := rest\<rparr>), True))"

fun adopt_each :: "settle_arith \<Rightarrow> server_order list \<Rightarrow> nat \<Rightarrow> order_tracker \<Rightarrow> order_tracker \<times> nat" where
  "adopt_each A [] now t = (t, 0)"
| "adopt_each A (r # rs) now t =
     (case adopt_failed_submit A r now t of (t', adopted) \<Rightarrow>
      case adopt_each A rs now t' of (t'', n) \<Rightarrow> (t'', (if adopted then 1 else 0) + n))"

definition adopt_listed :: "settle_arith \<Rightarrow> server_order list \<Rightarrow> nat \<Rightarrow> order_tracker \<Rightarrow> order_tracker \<times> nat" where
  "adopt_listed A rs now t = (if failed_submits t = [] then (t, 0) else adopt_each A rs now t)"

definition import_order_from_server :: "settle_arith \<Rightarrow> server_order \<Rightarrow> order_tracker \<Rightarrow> order_tracker" where
  "import_order_from_server A r t =
     (if so_order_id r \<in> fst ` set (orders t) then t
      else t\<lparr>orders := AList.update (so_order_id r)
        \<lparr>to_order_id = so_order_id r, to_market_id = so_market_id r, to_order_type = so_order_type r,
         to_price = parse_or_zero A (so_price r), to_quantity = parse_or_zero A (so_quantity r),
         settled_quantity = parse_or_zero A (so_filled_quantity r),
         pending_quantity = parse_or_zero A (so_pending_quantity r), to_nonce = so_nonce r,
         to_signature = (case so_signature r of Some s \<Rightarrow> s | None \<Rightarrow> []),
         to_signed_data = so_signed_data r, placed_by = ''user'', is_active = True\<rparr> (orders t)\<rparr>)"

section \<open>Verification of a proposal\<close>

definition remaining_capacity :: "settle_arith \<Rightarrow> tracked_order \<Rightarrow> rat option" where
  "remaining_capacity A r = Option.bind (d_sub A (to_quantity r) (settled_quantity r))
     (\<lambda>x. d_sub A x (pending_quantity r))"

definition check_capacity :: "settle_arith \<Rightarrow> tracked_order \<Rightarrow> nat \<Rightarrow> string \<Rightarrow> verify_result" where
  "check_capacity A r order_id requested =
     (let base_quantity = parse_or_zero A requested in
      if base_quantity \<le> 0 then
        Rejected [Lit ''Order '', Num (int order_id), Lit '' invalid requested quantity '', Dbg [requested]]
      else case remaining_capacity A r of
        None \<Rightarrow> Rejected [Lit ''Order '', Num (int order_id), Lit '' capacity arithmetic overflow'']
      | Some remaining \<Rightarrow>
          if remaining < base_quantity then
            Rejected [Lit ''Order '', Num (int order_id), Lit '' insufficient capacity: remaining='',
              Arg (d_text A remaining), Lit '', requested='', Arg (d_text A base_quantity)]
          else Accepted order_id)"

definition check_signed ::
  "crypto \<Rightarrow> order_tracker \<Rightarrow> nat \<Rightarrow> bytes \<Rightarrow> string \<Rightarrow> nat \<Rightarrow> string \<Rightarrow> string \<Rightarrow> message option" where
  "check_signed cr t order_id data signature nonce bad_signature stale =
     (case private_key t of
        Inl e \<Rightarrow> Some [Lit ''Order '', Num (int order_id), Lit '': signing key unavailable: '', Arg e]
      | Inr key \<Rightarrow>
          if \<not> verify_order_signature cr key data signature then
            Some [Lit ''Order '', Num (int order_id), Lit bad_signature]
          else if nonce \<le> start_time_ms t then
            Some [Lit ''Order '', Num (int order_id), Lit '' nonce '', Num (int nonce),
              Lit '' <= start_time '', Num (int (start_time_ms t)), Lit stale]
          else None)"

definition verify_tracked_order ::
  "settle_arith \<Rightarrow> crypto \<Rightarrow> order_tracker \<Rightarrow> tracked_order \<Rightarrow> settlement_proposal \<Rightarrow> nat \<Rightarrow> verify_result" where
  "verify_tracked_order A cr t tracked proposal order_id =
     (case check_signed cr t order_id (to_signed_data tracked) (to_signature tracked) (to_nonce tracked)
             '' has invalid signature'' [] of
        Some reason \<Rightarrow> Rejected reason
      | None \<Rightarrow> check_capacity A tracked order_id (sp_base_quantity proposal))"

definition our_order_id :: "settlement_proposal \<Rightarrow> string \<Rightarrow> order_match \<Rightarrow> nat" where
  "our_order_id proposal our_party om =
     (if sp_buyer proposal = our_party then bid_order_id om else offer_order_id om)"

definition verify_settlement ::
  "settle_arith \<Rightarrow> crypto \<Rightarrow> nat \<Rightarrow> order_tracker \<Rightarrow> settlement_proposal \<Rightarrow> string \<Rightarrow> verify_result" where
  "verify_settlement A cr now t proposal our_party =
     (case sp_order_match proposal of
        None \<Rightarrow> Rejected [Lit ''No order_match data in proposal'']
      | Some om \<Rightarrow>
          let order_id = our_order_id proposal our_party om in
          case map_of (orders t) order_id of
            Some tracked \<Rightarrow> verify_tracked_order A cr t tracked proposal order_id
          | None \<Rightarrow>
              if placement_in_flight t (sp_market_id proposal)
                 \<or> submit_failed_recently t (sp_market_id proposal) now
              then PlacementInFlight order_id else NeedServerLookup order_id)"

definition negative_amount :: "settle_arith \<Rightarrow> string \<Rightarrow> bool" where
  "negative_amount A raw = (case d_parse A raw of Some v \<Rightarrow> v < 0 | None \<Rightarrow> False)"

definition verify_and_import_order ::
  "settle_arith \<Rightarrow> crypto \<Rightarrow> server_order \<Rightarrow> settlement_proposal \<Rightarrow> order_tracker
     \<Rightarrow> order_tracker \<times> verify_result" where
  "verify_and_import_order A cr r proposal t =
     (let order_id = so_order_id r in
      case so_signature r of
        None \<Rightarrow> (t, Rejected [Lit ''Order '', Num (int order_id), Lit '' has no signature''])
      | Some signature \<Rightarrow>
          if signature = [] then
            (t, Rejected [Lit ''Order '', Num (int order_id), Lit '' has no signature''])
          else case check_signed cr t order_id (so_signed_data r) signature (so_nonce r)
                 '' signature verification failed (not signed by our key)'' '' (stale order)'' of
            Some reason \<Rightarrow> (t, Rejected reason)
          | None \<Rightarrow>
              if list_ex (negative_amount A) [so_quantity r, so_filled_quantity r, so_pending_quantity r]
              then (t, Rejected [Lit ''Order '', Num (int order_id), Lit '' has a negative quantity''])
              else let t' = import_order_from_server A r t in
                (t', case map_of (orders t') order_id of
                   Some tracked \<Rightarrow> check_capacity A tracked order_id (sp_base_quantity proposal)
                 | None \<Rightarrow> Accepted order_id))"

section \<open>Quantity accounting\<close>

definition record_settlement_order :: "string \<Rightarrow> nat \<Rightarrow> rat \<Rightarrow> order_tracker \<Rightarrow> order_tracker" where
  "record_settlement_order proposal_id order_id quantity t =
     (if proposal_id \<in> fst ` set (settlement_orders t) then t
      else t\<lparr>settlement_orders := AList.update proposal_id
        \<lparr>se_order_id = order_id, se_quantity = quantity, se_reserved = False\<rparr> (settlement_orders t)\<rparr>)"

text \<open>\<open>if let Some(order) = orders.get_mut(&id)\<close>.\<close>

definition modify_order :: "nat \<Rightarrow> (tracked_order \<Rightarrow> tracked_order) \<Rightarrow> order_tracker \<Rightarrow> order_tracker" where
  "modify_order order_id f t =
     (case map_of (orders t) order_id of None \<Rightarrow> t
      | Some r \<Rightarrow> t\<lparr>orders := AList.update order_id (f r) (orders t)\<rparr>)"

definition reservation_error :: "settle_arith \<Rightarrow> order_tracker \<Rightarrow> settlement_entry \<Rightarrow> message option" where
  "reservation_error A t entry =
     (if se_order_id entry = 0 then None
      else case map_of (orders t) (se_order_id entry) of
        None \<Rightarrow> None
      | Some r \<Rightarrow> (case remaining_capacity A r of
          None \<Rightarrow> Some [Lit ''order '', Num (int (se_order_id entry)),
            Lit '' capacity arithmetic overflow at reservation'']
        | Some remaining \<Rightarrow>
            if remaining < se_quantity entry then
              Some [Lit ''order '', Num (int (se_order_id entry)),
                Lit '' insufficient capacity at reservation: remaining='', Arg (d_text A remaining),
                Lit '', requested='', Arg (d_text A (se_quantity entry))]
            else None))"

definition try_reserve_pending :: "settle_arith \<Rightarrow> string \<Rightarrow> order_tracker \<Rightarrow> order_tracker \<times> bool result" where
  "try_reserve_pending A proposal_id t =
     (case map_of (settlement_orders t) proposal_id of
        None \<Rightarrow> (t, Inl [Lit ''settlement not adopted (no local settlement order record)''])
      | Some entry \<Rightarrow>
          if se_reserved entry then (t, Inr False)
          else case reservation_error A t entry of
            Some e \<Rightarrow> (t, Inl e)
          | None \<Rightarrow>
              (modify_order (se_order_id entry)
                 (\<lambda>r. r\<lparr>pending_quantity := d_sat_add A (pending_quantity r) (se_quantity entry)\<rparr>)
                 (t\<lparr>settlement_orders := AList.update proposal_id (entry\<lparr>se_reserved := True\<rparr>)
                      (settlement_orders t)\<rparr>), Inr True))"

definition release_pending :: "settle_arith \<Rightarrow> rat \<Rightarrow> tracked_order \<Rightarrow> tracked_order" where
  "release_pending A quantity r =
     r\<lparr>pending_quantity := max (d_sat_sub A (pending_quantity r) quantity) 0\<rparr>"

definition close_settlement ::
  "(settlement_entry \<Rightarrow> tracked_order \<Rightarrow> tracked_order) \<Rightarrow> string \<Rightarrow> order_tracker \<Rightarrow> order_tracker" where
  "close_settlement f proposal_id t =
     (case map_of (settlement_orders t) proposal_id of
        None \<Rightarrow> t
      | Some entry \<Rightarrow>
          let t = t\<lparr>settlement_orders := AList.delete proposal_id (settlement_orders t)\<rparr>
          in if \<not> se_reserved entry then t else modify_order (se_order_id entry) (f entry) t)"

definition mark_settled :: "settle_arith \<Rightarrow> string \<Rightarrow> order_tracker \<Rightarrow> order_tracker" where
  "mark_settled A = close_settlement (\<lambda>entry r. (release_pending A (se_quantity entry) r)
     \<lparr>settled_quantity := d_sat_add A (settled_quantity r) (se_quantity entry)\<rparr>)"

definition mark_failed :: "settle_arith \<Rightarrow> string \<Rightarrow> order_tracker \<Rightarrow> order_tracker" where
  "mark_failed A = close_settlement (\<lambda>entry. release_pending A (se_quantity entry))"

definition has_settlement_order :: "order_tracker \<Rightarrow> string \<Rightarrow> bool" where
  "has_settlement_order t proposal_id \<longleftrightarrow> proposal_id \<in> fst ` set (settlement_orders t)"

definition cancel_order :: "nat \<Rightarrow> order_tracker \<Rightarrow> order_tracker" where
  "cancel_order order_id = modify_order order_id (\<lambda>r. r\<lparr>is_active := False\<rparr>)"

definition cancel_all :: "order_tracker \<Rightarrow> order_tracker" where
  "cancel_all t = t\<lparr>orders := AList.map_ran (\<lambda>k r. r\<lparr>is_active := False\<rparr>) (orders t)\<rparr>"

section \<open>Persistence\<close>

record saved_tracked_order =
  sto_order_id :: nat
  sto_market_id :: string
  sto_order_type :: int
  sto_price :: string
  sto_quantity :: string
  sto_settled_quantity :: string
  sto_pending_quantity :: string
  sto_nonce :: nat
  sto_signature :: string
  sto_signed_data :: string
  sto_placed_by :: string
  sto_is_active :: bool

record saved_settlement_order =
  sso_proposal_id :: string
  sso_order_id :: nat
  sso_quantity :: string
  sso_reserved :: bool

definition save_order :: "settle_arith \<Rightarrow> crypto \<Rightarrow> tracked_order \<Rightarrow> saved_tracked_order" where
  "save_order A cr r = \<lparr>sto_order_id = to_order_id r, sto_market_id = to_market_id r,
     sto_order_type = to_order_type r, sto_price = d_text A (to_price r),
     sto_quantity = d_text A (to_quantity r), sto_settled_quantity = d_text A (settled_quantity r),
     sto_pending_quantity = d_text A (pending_quantity r), sto_nonce = to_nonce r,
     sto_signature = to_signature r, sto_signed_data = cr_b64 cr (to_signed_data r),
     sto_placed_by = placed_by r, sto_is_active = is_active r\<rparr>"

definition save_entry :: "settle_arith \<Rightarrow> string \<times> settlement_entry \<Rightarrow> saved_settlement_order" where
  "save_entry A = (\<lambda>(proposal_id, entry). \<lparr>sso_proposal_id = proposal_id,
     sso_order_id = se_order_id entry, sso_quantity = d_text A (se_quantity entry),
     sso_reserved = se_reserved entry\<rparr>)"

definition export_state ::
  "settle_arith \<Rightarrow> crypto \<Rightarrow> order_tracker \<Rightarrow> nat \<times> saved_tracked_order list \<times> saved_settlement_order list" where
  "export_state A cr t = (start_time_ms t, map (\<lambda>(k, r). save_order A cr r) (orders t),
     map (save_entry A) (settlement_orders t))"

definition load_order :: "settle_arith \<Rightarrow> crypto \<Rightarrow> saved_tracked_order \<Rightarrow> tracked_order" where
  "load_order A cr s = \<lparr>to_order_id = sto_order_id s, to_market_id = sto_market_id s,
     to_order_type = sto_order_type s, to_price = parse_or_zero A (sto_price s),
     to_quantity = parse_or_zero A (sto_quantity s),
     settled_quantity = parse_or_zero A (sto_settled_quantity s),
     pending_quantity = parse_or_zero A (sto_pending_quantity s), to_nonce = sto_nonce s,
     to_signature = sto_signature s,
     to_signed_data = (case cr_unb64 cr (sto_signed_data s) of Inr b \<Rightarrow> b | Inl e \<Rightarrow> []),
     placed_by = sto_placed_by s, is_active = sto_is_active s\<rparr>"

definition load_entry :: "settle_arith \<Rightarrow> saved_settlement_order \<Rightarrow> settlement_entry" where
  "load_entry A s = \<lparr>se_order_id = sso_order_id s, se_quantity = parse_or_zero A (sso_quantity s),
     se_reserved = sso_reserved s\<rparr>"

definition import_state ::
  "settle_arith \<Rightarrow> crypto \<Rightarrow> saved_tracked_order list \<Rightarrow> saved_settlement_order list \<Rightarrow> order_tracker
     \<Rightarrow> order_tracker" where
  "import_state A cr saved_orders saved_entries t =
     t\<lparr>orders := foldl (\<lambda>m s. AList.update (sto_order_id s) (load_order A cr s) m) (orders t) saved_orders,
       settlement_orders := foldl (\<lambda>m s. AList.update (sso_proposal_id s) (load_entry A s) m)
         (settlement_orders t) saved_entries\<rparr>"

end
