(* ===== verification/Instruments.thy ===== *)
theory Instruments
  imports Prelude "HOL-Library.AList"
begin

text \<open>
  The instrument registry of \<open>BaseConfig\<close> in \<open>crates/agent-logic/src/config.rs\<close>: which party
  administers an instrument, and under which id it is known on the ledger. The maps are
  association lists with distinct keys; \<open>str::trim\<close> is the parameter \<open>trim\<close>.
\<close>

record instrument =
  in_instrument_id :: string
  in_instrument_type :: string
  in_symbol :: string
  in_registry :: "string option"

record instrument_config =
  cc_token_id :: "string option"
  dso_party :: string
  instrument_registries :: "(string \<times> string) list"
  instrument_wire_ids :: "(string \<times> string) list"
  onboarded_registries :: "string set"

definition UNRESOLVED_INSTRUMENT :: string where
  "UNRESOLVED_INSTRUMENT = ''unresolved-instrument''"

record populate_state =
  ps_registries :: "(string \<times> string) list"
  ps_wire_ids :: "(string \<times> string) list"
  ps_cc :: "string option"
  ps_first_token :: "string option"
  ps_onboarded :: "string set"

definition or_first :: "'a option \<Rightarrow> bool \<Rightarrow> 'a \<Rightarrow> 'a option" where
  "or_first x b v = (if b \<and> x = None then Some v else x)"

definition populate_one :: "string \<Rightarrow> instrument \<Rightarrow> populate_state \<Rightarrow> populate_state" where
  "populate_one dso inst s =
     (let registry = (case in_registry inst of Some r \<Rightarrow> r | None \<Rightarrow> []);
          i = in_instrument_id inst
      in \<lparr>ps_registries = (if registry \<noteq> [] then AList.update i registry (ps_registries s) else ps_registries s),
          ps_wire_ids = AList.update i (if in_symbol inst = [] then i else in_symbol inst) (ps_wire_ids s),
          ps_cc = or_first (ps_cc s) (dso \<noteq> [] \<and> registry = dso) i,
          ps_first_token = or_first (ps_first_token s) (in_instrument_type inst = ''token'') i,
          ps_onboarded = (if registry \<noteq> [] then insert registry (ps_onboarded s) else ps_onboarded s)\<rparr>)"

definition populate_instruments_from_rpc :: "instrument list \<Rightarrow> instrument_config \<Rightarrow> instrument_config" where
  "populate_instruments_from_rpc insts c =
     (let s = foldl (\<lambda>s inst. populate_one (dso_party c) inst s)
            \<lparr>ps_registries = [], ps_wire_ids = [], ps_cc = None, ps_first_token = None, ps_onboarded = {}\<rparr> insts
      in c\<lparr>cc_token_id := (if ps_cc s = None then ps_first_token s else ps_cc s),
           instrument_registries := ps_registries s, instrument_wire_ids := ps_wire_ids s,
           onboarded_registries := ps_onboarded s\<rparr>)"

definition internal_id_for_wire :: "instrument_config \<Rightarrow> string \<Rightarrow> string option" where
  "internal_id_for_wire c wire_id =
     map_option fst (List.find (\<lambda>(internal, wire). wire = wire_id \<and> internal \<noteq> wire_id) (instrument_wire_ids c))"

definition or_else :: "'a option \<Rightarrow> 'a \<Rightarrow> 'a" where
  "or_else x d = (case x of Some v \<Rightarrow> v | None \<Rightarrow> d)"

definition resolve_instrument :: "instrument_config \<Rightarrow> string \<Rightarrow> string \<times> string" where
  "resolve_instrument c i =
     (if Some i = cc_token_id c then ''Amulet'' else or_else (map_of (instrument_wire_ids c) i) i,
      or_else (map_of (instrument_registries c) i) [])"

definition try_resolve_instrument ::
  "(string \<Rightarrow> string) \<Rightarrow> instrument_config \<Rightarrow> string \<Rightarrow> string + (string \<times> string)" where
  "try_resolve_instrument trim c i =
     (let recorded = (case map_of (instrument_registries c) i of
            Some r \<Rightarrow> if trim r \<noteq> [] then Some r else None | None \<Rightarrow> None)
      in case recorded of
           Some registry \<Rightarrow> Inr (fst (resolve_instrument c i), registry)
         | None \<Rightarrow>
             if Some i = cc_token_id c \<and> trim (dso_party c) \<noteq> [] then
               Inr (fst (resolve_instrument c i), dso_party c)
             else Inl (UNRESOLVED_INSTRUMENT @ '': instrument '' @ [CHR 0x27] @ i @ [CHR 0x27]
               @ '' has no registry admin among the '' @ show_nat (length (instrument_wire_ids c))
               @ '' loaded instruments (delisted, not visible to this party, or the registry did not load)''))"

definition validate_instrument_registry :: "(string \<Rightarrow> string) \<Rightarrow> instrument_config \<Rightarrow> string + unit" where
  "validate_instrument_registry trim c =
     (if instrument_wire_ids c = [] then Inl ''orderbook-rpc listed no instruments''
      else if \<not> list_ex (\<lambda>(k, r). trim r \<noteq> []) (instrument_registries c) then
        Inl (''none of the '' @ show_nat (length (instrument_wire_ids c))
          @ '' listed instruments carries a registry party'')
      else case cc_token_id c of
        None \<Rightarrow> Inl (''no Canton Coin instrument: none is registered under the DSO party and none ''
          @ ''has type '' @ [CHR 0x27] @ ''token'' @ [CHR 0x27])
      | Some cc \<Rightarrow> (case try_resolve_instrument trim c cc of Inl e \<Rightarrow> Inl e | Inr x \<Rightarrow> Inr ()))"

record resolved_instrument =
  ri_wire_id :: "string option"
  ri_registry :: "string option"

definition resolve_instrument_or_wire :: "instrument_config \<Rightarrow> string \<Rightarrow> resolved_instrument" where
  "resolve_instrument_or_wire c input =
     (if Some input = cc_token_id c then
        \<lparr>ri_wire_id = Some ''Amulet'', ri_registry = map_of (instrument_registries c) input\<rparr>
      else case map_of (instrument_wire_ids c) input of
        Some wire \<Rightarrow> \<lparr>ri_wire_id = Some wire, ri_registry = map_of (instrument_registries c) input\<rparr>
      | None \<Rightarrow> (case List.find (\<lambda>(internal, wire). wire = input) (instrument_wire_ids c) of
          Some (internal, wire) \<Rightarrow>
            \<lparr>ri_wire_id = Some input, ri_registry = map_of (instrument_registries c) internal\<rparr>
        | None \<Rightarrow> \<lparr>ri_wire_id = None, ri_registry = None\<rparr>))"

section \<open>What a resolved instrument is\<close>

lemma try_resolve_Inr:
  "try_resolve_instrument trim c i = Inr (wire, admin) \<Longrightarrow>
   admin = snd (resolve_instrument c i) \<and> trim admin \<noteq> []
   \<or> Some i = cc_token_id c \<and> admin = dso_party c \<and> trim admin \<noteq> []"
  by (auto simp: try_resolve_instrument_def resolve_instrument_def or_else_def Let_def
      split: option.splits if_splits)

lemma try_resolve_Inl: "try_resolve_instrument trim c i = Inl e \<Longrightarrow> starts_with e UNRESOLVED_INSTRUMENT"
  by (auto simp: try_resolve_instrument_def Let_def starts_with_def split: option.splits if_splits)

end
