(* ===== verification/Settlement_Types.thy ===== *)
theory Settlement_Types
  imports Order_Tracker Instruments
begin

text \<open>
  \<open>crates/agent-logic/src/types.rs\<close> and the free functions of \<open>settlement.rs\<close>: the stages of
  a settlement, the results of a step, the retry and deadline arithmetic, and what a side has
  to reserve. An \<open>i64\<close> or \<open>i32\<close> is an \<open>int\<close> in its range, an \<open>Instant\<close> a number of nanoseconds;
  an error is its text.
\<close>

section \<open>Stages and states\<close>

datatype settlement_stage =
    ProposalReceived | DvpFeePaid | DvpProposed | DvpAccepted | AllocationFeePaid
  | Allocated | AwaitingSettlement | SettledStage | FailedStage | CancelledStage

record settlement_state =
  ss_proposal :: settlement_proposal
  ss_is_buyer :: bool
  ss_stage :: settlement_stage
  dvp_proposal_cid :: "string option"
  dvp_cid :: "string option"
  allocation_cid :: "string option"
  pending_traffic :: nat

definition new_settlement :: "settlement_proposal \<Rightarrow> bool \<Rightarrow> settlement_state" where
  "new_settlement proposal buyer = \<lparr>ss_proposal = proposal, ss_is_buyer = buyer, ss_stage = ProposalReceived,
     dvp_proposal_cid = None, dvp_cid = None, allocation_cid = None, pending_traffic = 0\<rparr>"

datatype advance_result =
    StepCompleted string settlement_stage "string option" "string option" "string option" nat
  | Preconfirmed string
  | RejectedResult string
  | Terminal string
  | Wait string
  | ErrorResult string string
  | Timeout string
  | NeedsAllocate string string "rat option" bool

fun result_id :: "advance_result \<Rightarrow> string" where
  "result_id (StepCompleted p st a b c n) = p"
| "result_id (Preconfirmed p) = p"
| "result_id (RejectedResult p) = p"
| "result_id (Terminal p) = p"
| "result_id (Wait p) = p"
| "result_id (ErrorResult p e) = p"
| "result_id (Timeout p) = p"
| "result_id (NeedsAllocate p d a b) = p"

definition should_readvance :: "advance_result \<Rightarrow> bool" where
  "should_readvance r = (case r of StepCompleted p st a b c n \<Rightarrow> True | Preconfirmed p \<Rightarrow> True | _ \<Rightarrow> False)"

definition or_keep :: "'a option \<Rightarrow> 'a option \<Rightarrow> 'a option" where
  "or_keep a b = (case a of Some v \<Rightarrow> Some v | None \<Rightarrow> b)"

definition apply_to_state :: "advance_result \<Rightarrow> settlement_state \<Rightarrow> settlement_state" where
  "apply_to_state r s = (case r of
       StepCompleted p st a b c n \<Rightarrow> s\<lparr>ss_stage := st, dvp_proposal_cid := or_keep a (dvp_proposal_cid s),
         dvp_cid := or_keep b (dvp_cid s), allocation_cid := or_keep c (allocation_cid s), pending_traffic := n\<rparr>
     | _ \<Rightarrow> s)"

datatype cid_waiting_type = DvpProposalCid | DvpContractCid

record failed_settlement =
  retry_count :: nat
  wait_count :: nat
  next_retry :: nat
  first_transient_at :: "nat option"
  cid_waiting :: "cid_waiting_type option"

definition retry_delay :: "nat \<Rightarrow> nat" where
  "retry_delay n = (if n = 0 then 0 else if n = 1 then 10 else if n = 2 then 30 else 60) * 10 ^ 9"

definition wait_delay :: "nat \<Rightarrow> nat" where
  "wait_delay n = min (30 * 2 ^ min (n - 1) 5) 600 * 10 ^ 9"

definition is_exhausted :: "nat \<Rightarrow> failed_settlement \<Rightarrow> bool" where
  "is_exhausted max_retries f \<longleftrightarrow> max_retries \<le> retry_count f"

definition is_pre_allocation_stage :: "settlement_stage \<Rightarrow> bool" where
  "is_pre_allocation_stage st \<longleftrightarrow>
     st \<in> {ProposalReceived, DvpFeePaid, DvpProposed, DvpAccepted, AllocationFeePaid}"

definition cid_since_found :: "advance_result \<Rightarrow> bool \<Rightarrow> bool \<Rightarrow> bool" where
  "cid_since_found r gained_proposal_cid gained_dvp_cid = (case r of
       ErrorResult p e \<Rightarrow> gained_proposal_cid \<and> str_contains e ''No DvpProposal CID found''
         \<or> gained_dvp_cid \<and> str_contains e ''No Dvp contract ID found''
     | _ \<Rightarrow> False)"

section \<open>Server status\<close>

datatype next_action =
    ActNone | Preconfirm | PayDvpFee | CreateDvp | AcceptDvpAct | PayAllocFee | AllocateAct | WaitAct
  | MulticallAccept

text \<open>\<open>NextAction::try_from(i32).unwrap_or(None)\<close>.\<close>

definition next_action_of :: "int \<Rightarrow> next_action" where
  "next_action_of i = (if i = 1 then Preconfirm else if i = 2 then PayDvpFee else if i = 3 then CreateDvp
     else if i = 4 then AcceptDvpAct else if i = 5 then PayAllocFee else if i = 6 then AllocateAct
     else if i = 7 then WaitAct else if i = 8 then MulticallAccept else ActNone)"

definition show_action :: "next_action \<Rightarrow> string" where
  "show_action a = (case a of ActNone \<Rightarrow> ''None'' | Preconfirm \<Rightarrow> ''Preconfirm'' | PayDvpFee \<Rightarrow> ''PayDvpFee''
     | CreateDvp \<Rightarrow> ''CreateDvp'' | AcceptDvpAct \<Rightarrow> ''AcceptDvp'' | PayAllocFee \<Rightarrow> ''PayAllocFee''
     | AllocateAct \<Rightarrow> ''Allocate'' | WaitAct \<Rightarrow> ''Wait'' | MulticallAccept \<Rightarrow> ''MulticallAccept'')"

record settlement_status =
  st_stage :: int
  buyer_next_action :: int
  seller_next_action :: int
  fee_buyer :: "int option"
  fee_seller :: "int option"
  alloc_fee_buyer :: "int option"
  alloc_fee_seller :: "int option"
  allocation_buyer :: "int option"
  allocation_seller :: "int option"
  settlement_step :: "int option"

definition at_least_submitted :: "int option \<Rightarrow> bool" where
  "at_least_submitted step \<longleftrightarrow> step \<in> {Some 2, Some 3, Some 4}"

definition v1_settlement_leave_alone :: "settlement_status \<Rightarrow> bool \<Rightarrow> bool" where
  "v1_settlement_leave_alone status is_buyer \<longleftrightarrow>
     at_least_submitted (if is_buyer then allocation_buyer status else allocation_seller status)
     \<or> at_least_submitted (settlement_step status) \<or> 10 \<le> st_stage status"

section \<open>Deadlines\<close>

definition age_secs :: "int \<Rightarrow> int \<Rightarrow> int" where
  "age_secs now created = max (- (2 ^ 63)) (min (now - created) (2 ^ 63 - 1))"

text \<open>\<open>as i64\<close> of a \<open>u64\<close>.\<close>

definition as_i64 :: "nat \<Rightarrow> int" where
  "as_i64 n = (if n < 2 ^ 63 then int n else int n - 2 ^ 64)"

definition ORDERBOOK_ALLOCATE_BEFORE_SECS :: nat where "ORDERBOOK_ALLOCATE_BEFORE_SECS = 21600"

definition ORDERBOOK_SETTLE_BEFORE_SECS :: nat where "ORDERBOOK_SETTLE_BEFORE_SECS = 43200"

definition expiry_windows :: "string \<Rightarrow> nat \<Rightarrow> nat \<Rightarrow> nat \<times> nat" where
  "expiry_windows origin rfq_allocate_secs rfq_settle_secs =
     (if origin = ''rfq'' then (rfq_allocate_secs, rfq_settle_secs)
      else (ORDERBOOK_ALLOCATE_BEFORE_SECS, ORDERBOOK_SETTLE_BEFORE_SECS))"

definition deadline_expiry_error :: "int \<Rightarrow> int \<Rightarrow> next_action \<Rightarrow> nat \<Rightarrow> nat \<Rightarrow> string option" where
  "deadline_expiry_error created_at now my_action allocate_before settle_before =
     (if my_action = ActNone then None
      else let age = age_secs now created_at in
        if as_i64 settle_before < age then
          Some (''Settlement expired: deadline-exceeded (created '' @ show_int age @ ''s ago, max ''
            @ show_nat settle_before @ ''s)'')
        else if my_action \<noteq> WaitAct \<and> as_i64 allocate_before < age then
          Some (''Settlement expired: deadline-exceeded (allocation window: created '' @ show_int age
            @ ''s ago, max '' @ show_nat allocate_before @ ''s, pending action '' @ show_action my_action @ '')'')
        else None)"

section \<open>Amounts of a proposal\<close>

definition reservation_inputs ::
  "settle_arith \<Rightarrow> settlement_proposal \<Rightarrow> bool \<Rightarrow> string option \<Rightarrow> string \<times> rat \<times> rat" where
  "reservation_inputs A proposal is_buyer cc =
     (let my_instrument = (if is_buyer then sp_quote_instrument proposal else sp_base_instrument proposal);
          allocation_amount = (case d_parse A (if is_buyer then sp_quote_quantity proposal
             else sp_base_quantity proposal) of Some r \<Rightarrow> r | None \<Rightarrow> 1);
          allocation_token = (if cc = Some my_instrument then CC_TOKEN else my_instrument);
          (dvp_fee, allocation_fee) = (if is_buyer then (sp_dvp_fee_buyer proposal, sp_alloc_fee_buyer proposal)
             else (sp_dvp_fee_seller proposal, sp_alloc_fee_seller proposal));
          my_fees_usd = (case d_add A (parse_or_zero A dvp_fee) (parse_or_zero A allocation_fee) of
             Some r \<Rightarrow> r | None \<Rightarrow> d_max A)
      in (allocation_token, allocation_amount, my_fees_usd))"

definition MAX_PROPOSAL_AMOUNT :: nat where "MAX_PROPOSAL_AMOUNT = 10 ^ 18"

definition implausible_amount :: "settle_arith \<Rightarrow> settlement_proposal \<Rightarrow> (string \<times> string) option" where
  "implausible_amount A p = List.find
     (\<lambda>(field, raw). case d_parse A raw of Some v \<Rightarrow> v < 0 \<or> of_nat MAX_PROPOSAL_AMOUNT < v | None \<Rightarrow> False)
     [(''base_quantity'', sp_base_quantity p), (''quote_quantity'', sp_quote_quantity p),
      (''dvp_processing_fee_buyer'', sp_dvp_fee_buyer p), (''dvp_processing_fee_seller'', sp_dvp_fee_seller p),
      (''allocation_processing_fee_buyer'', sp_alloc_fee_buyer p),
      (''allocation_processing_fee_seller'', sp_alloc_fee_seller p)]"

section \<open>Legs\<close>

datatype leg_check_verdict = LegPass | LegWarn string | LegRefuse string

definition unresolved_leg :: "(string \<Rightarrow> string) \<Rightarrow> instrument_config \<Rightarrow> settlement_proposal \<Rightarrow> string option" where
  "unresolved_leg trim c p =
     (case try_resolve_instrument trim c (sp_base_instrument p) of
        Inl e \<Rightarrow> Some e
      | Inr x \<Rightarrow> (case try_resolve_instrument trim c (sp_quote_instrument p) of Inl e \<Rightarrow> Some e | Inr y \<Rightarrow> None))"

definition leg_check ::
  "(string \<Rightarrow> string) \<Rightarrow> instrument_config \<Rightarrow> settlement_proposal \<Rightarrow> next_action \<Rightarrow> leg_check_verdict" where
  "leg_check trim c p action =
     (if action \<in> {Preconfirm, PayDvpFee, CreateDvp, AcceptDvpAct} then
        (case unresolved_leg trim c p of Some e \<Rightarrow> LegRefuse e | None \<Rightarrow> LegPass)
      else if action \<in> {PayAllocFee, AllocateAct} then
        (case unresolved_leg trim c p of Some e \<Rightarrow> LegWarn e | None \<Rightarrow> LegPass)
      else LegPass)"

text \<open>\<open>affects_grid\<close>, on the event type (1 created, 3 settled, 4 failed, 5 cancelled).\<close>

datatype event_type = EvUnspecified | EvProposalCreated | EvStatusChanged | EvSettled | EvFailed | EvCancelled

definition affects_grid :: "event_type \<Rightarrow> settlement_proposal option \<Rightarrow> bool" where
  "affects_grid ev p \<longleftrightarrow> ev \<in> {EvSettled, EvFailed, EvCancelled}
     \<or> ev = EvProposalCreated \<and> (case p of Some q \<Rightarrow> sp_order_match q \<noteq> None | None \<Rightarrow> False)"

text \<open>The 48-bit timestamp at the start of a UUID v7.\<close>

definition hex_value :: "char \<Rightarrow> nat option" where
  "hex_value c = (let n = (of_char c :: nat) in
     if 48 \<le> n \<and> n < 58 then Some (n - 48) else if 97 \<le> n \<and> n < 103 then Some (n - 87)
     else if 65 \<le> n \<and> n < 71 then Some (n - 55) else None)"

fun hex_digits :: "nat \<Rightarrow> string \<Rightarrow> nat option" where
  "hex_digits acc [] = Some acc"
| "hex_digits acc (c # cs) = (case hex_value c of None \<Rightarrow> None | Some d \<Rightarrow> hex_digits (16 * acc + d) cs)"

definition uuid_v7_ms :: "string \<Rightarrow> nat" where
  "uuid_v7_ms i =
     (let hex = take 12 (filter (\<lambda>c. c \<noteq> CHR ''-'') i) in
      if length hex < 12 then 0
      else case hex_digits 0 (if hd hex = CHR ''+'' then tl hex else hex) of Some n \<Rightarrow> n | None \<Rightarrow> 0)"

end
