(* ===== verification/Settlement_Step.thy ===== *)
theory Settlement_Step
  imports Settlement_Types
begin

text \<open>
  One step of a settlement: \<open>ensure_reserved\<close> and \<open>advance_single\<close> of
  \<open>crates/agent-logic/src/settlement.rs\<close>. The liquidity manager (when there is one) and the
  order tracker are threaded through; what the server and the backend answer is the
  argument \<open>step_env\<close>, and every call that leaves the agent is recorded in a list, in order.
\<close>

record step_config =
  sc_cc_token_id :: "string option"
  sc_allocate_before_secs :: nat
  sc_settle_before_secs :: nat
  sc_instruments :: instrument_config

type_synonym liquidity = "(liquidity_manager \<times> liquidity_state) option"

section \<open>Reservation\<close>

text \<open>The commitment half: skipped when there is no manager or the proposal has a commitment.\<close>

definition commit_reserved ::
  "settle_arith \<Rightarrow> settlement_state \<Rightarrow> step_config \<Rightarrow> string \<Rightarrow> liquidity \<Rightarrow> liquidity \<times> unit result" where
  "commit_reserved A state c proposal_id lm =
     (case lm of
        None \<Rightarrow> (None, Inr ())
      | Some (m, s) \<Rightarrow>
          if has_commitment s proposal_id then (Some (m, s), Inr ())
          else let (token, amount, fees) = reservation_inputs A (ss_proposal state) (ss_is_buyer state) (sc_cc_token_id c);
                   fee_cc = estimate_fee_cc (liq_arith.truncate A) m s fees;
                   (s', r) = try_commit (liq_arith.truncate A) m proposal_id token amount fee_cc s
               in (Some (m, s'), r))"

definition book_outflow ::
  "settle_arith \<Rightarrow> nat \<Rightarrow> settlement_state \<Rightarrow> step_config \<Rightarrow> liquidity \<Rightarrow> liquidity" where
  "book_outflow A now state c lm = map_option (\<lambda>(m, s).
     let (token, amount, fees) = reservation_inputs A (ss_proposal state) (ss_is_buyer state) (sc_cc_token_id c)
     in (m, record_outflow now token (or_zero (d_to_f64 A amount)) s)) lm"

definition ensure_reserved ::
  "settle_arith \<Rightarrow> nat \<Rightarrow> settlement_state \<Rightarrow> step_config \<Rightarrow> string \<Rightarrow> liquidity \<times> order_tracker
     \<Rightarrow> (liquidity \<times> order_tracker) \<times> unit result" where
  "ensure_reserved A now state c proposal_id = (\<lambda>(lm, t).
     case commit_reserved A state c proposal_id lm of
       (lm', Inl e) \<Rightarrow> ((lm', t), Inl e)
     | (lm', Inr u) \<Rightarrow>
         (case try_reserve_pending A proposal_id t of
            (t', Inl e) \<Rightarrow> ((lm', t'), Inl e)
          | (t', Inr newly_reserved) \<Rightarrow>
              ((if newly_reserved then book_outflow A now state c lm' else lm', t'), Inr ())))"

section \<open>Calls and answers\<close>

record step_answer =
  sa_contract_id :: string
  sa_update_id :: string

datatype server_call =
    Submit_Preconfirmation bool
  | Record_Submitted string
  | Record_Completed string string string
  | Pay_Fee string
  | Propose_Dvp
  | Accept_Dvp string string string string string
  | Allocate_Dvp string "rat option"

record step_env =
  se_jwt :: "string option"
  se_connect :: "string option"
  se_status :: "string + settlement_status"
  se_preconfirm :: "string option"
  se_propose :: "string + step_answer"
  se_accept :: "string + step_answer"
  se_unix_now :: int
  se_now :: nat

definition CONFIRMED :: int where "CONFIRMED = 4"

text \<open>The counterparty's fees and allocation, as the status reports them.\<close>

definition counterparty_witnessed :: "settlement_status \<Rightarrow> bool \<Rightarrow> bool" where
  "counterparty_witnessed st is_buyer =
     (let (dvp, fee, alloc) = (if is_buyer then (fee_seller st, alloc_fee_seller st, allocation_seller st)
            else (fee_buyer st, alloc_fee_buyer st, allocation_buyer st))
      in or_else dvp 0 = CONFIRMED \<and> or_else fee 0 = CONFIRMED \<and> or_else alloc 0 = CONFIRMED)"

definition allocation_cc_of :: "settle_arith \<Rightarrow> step_config \<Rightarrow> settlement_state \<Rightarrow> rat option" where
  "allocation_cc_of A c state =
     (let p = ss_proposal state;
          my_instrument = (if ss_is_buyer state then sp_quote_instrument p else sp_base_instrument p)
      in if sc_cc_token_id c = Some my_instrument then
           Some (case d_parse A (if ss_is_buyer state then sp_quote_quantity p else sp_base_quantity p) of
             Some r \<Rightarrow> r | None \<Rightarrow> 1)
         else None)"

text \<open>What a step does once its deadline, its legs and its reservation are settled.\<close>

definition perform ::
  "settle_arith \<Rightarrow> step_config \<Rightarrow> bool \<Rightarrow> step_env \<Rightarrow> settlement_status \<Rightarrow> next_action \<Rightarrow> string
     \<Rightarrow> settlement_state \<Rightarrow> order_tracker \<Rightarrow> order_tracker \<times> server_call list \<times> advance_result" where
  "perform A c shutting_down env status action p state t = (case action of
       Preconfirm \<Rightarrow>
         if shutting_down then (mark_failed A p t, [Submit_Preconfirmation False], RejectedResult p)
         else (t, [Submit_Preconfirmation True],
               case se_preconfirm env of None \<Rightarrow> Preconfirmed p
               | Some e \<Rightarrow> ErrorResult p (''Preconfirmation failed: '' @ e))
     | PayDvpFee \<Rightarrow>
         (t, [Record_Submitted (if ss_is_buyer state then ''DvpProcessingFeeBuyerSubmitted''
                else ''DvpProcessingFeeSellerSubmitted''), Pay_Fee ''dvp''],
          StepCompleted p DvpFeePaid None None None 0)
     | CreateDvp \<Rightarrow>
         (case se_propose env of
            Inl e \<Rightarrow> (t, [Propose_Dvp], ErrorResult p (''CreateDvp failed: '' @ e))
          | Inr r \<Rightarrow> (t, [Propose_Dvp, Record_Completed ''DvpRequestCompleted'' (sa_update_id r) (sa_contract_id r)],
              StepCompleted p DvpProposed (Some (sa_contract_id r)) None None 0))
     | AcceptDvpAct \<Rightarrow>
         (case dvp_proposal_cid state of
            None \<Rightarrow> (t, [], ErrorResult p ''No DvpProposal CID found (not yet proposed?)'')
          | Some cid \<Rightarrow>
              let pr = ss_proposal state;
                  call = Accept_Dvp cid (sp_base_quantity pr) (sp_quote_quantity pr)
                    (sp_base_instrument pr) (sp_quote_instrument pr)
              in (case se_accept env of
                    Inl e \<Rightarrow> (t, [call], ErrorResult p (''AcceptDvp failed: '' @ e))
                  | Inr r \<Rightarrow> (t, [call, Record_Completed ''DvpAcceptCompleted'' (sa_update_id r) (sa_contract_id r)],
                      StepCompleted p DvpAccepted None (Some (sa_contract_id r)) None 0)))
     | PayAllocFee \<Rightarrow>
         (t, [Record_Submitted (if ss_is_buyer state then ''AllocationProcessingFeeBuyerSubmitted''
                else ''AllocationProcessingFeeSellerSubmitted''), Pay_Fee ''allocate''],
          StepCompleted p AllocationFeePaid None None None 0)
     | AllocateAct \<Rightarrow>
         if \<not> counterparty_witnessed status (ss_is_buyer state) then (t, [], Wait p)
         else (case dvp_cid state of
            None \<Rightarrow> (t, [], ErrorResult p ''No Dvp contract ID found (not yet accepted?)'')
          | Some cid \<Rightarrow> (t, [], NeedsAllocate p cid (allocation_cc_of A c state) (ss_is_buyer state)))
     | WaitAct \<Rightarrow> (t, [], Wait p)
     | MulticallAccept \<Rightarrow> (t, [], Wait p)
     | ActNone \<Rightarrow> ((if st_stage status = 11 then mark_settled A p t else mark_failed A p t), [], Terminal p))"

definition needs_reservation :: "next_action \<Rightarrow> bool" where
  "needs_reservation a \<longleftrightarrow> a \<notin> {Preconfirm, WaitAct, ActNone}"

definition my_action :: "settlement_status \<Rightarrow> bool \<Rightarrow> next_action" where
  "my_action status is_buyer = next_action_of (if is_buyer then buyer_next_action status else seller_next_action status)"

definition expired_error :: "step_config \<Rightarrow> int \<Rightarrow> settlement_proposal \<Rightarrow> next_action \<Rightarrow> string option" where
  "expired_error c unix_now p action =
     (case sp_created_secs p of
        None \<Rightarrow> None
      | Some created \<Rightarrow>
          (case expiry_windows (sp_origin p) (sc_allocate_before_secs c) (sc_settle_before_secs c) of
             (allocate_window, settle_window) \<Rightarrow>
               deadline_expiry_error created unix_now action allocate_window settle_window))"

text \<open>The text of an error: \<open>format!("reservation failed: {}", e)\<close> and the like.\<close>

definition flat :: "message \<Rightarrow> string" where
  "flat msg = concat (map (\<lambda>f. case f of Lit s \<Rightarrow> s | Arg s \<Rightarrow> s | Dbg ss \<Rightarrow> concat ss | Num i \<Rightarrow> show_int i) msg)"

definition advance_single ::
  "settle_arith \<Rightarrow> (string \<Rightarrow> string) \<Rightarrow> step_config \<Rightarrow> bool \<Rightarrow> step_env \<Rightarrow> string \<Rightarrow> settlement_state
     \<Rightarrow> liquidity \<times> order_tracker \<Rightarrow> (liquidity \<times> order_tracker) \<times> server_call list \<times> advance_result" where
  "advance_single A trim c shutting_down env p state w =
     (case se_jwt env of
        Some e \<Rightarrow> (w, [], ErrorResult p (''JWT generation failed: '' @ e))
      | None \<Rightarrow> (case se_connect env of
        Some e \<Rightarrow> (w, [], ErrorResult p (''RPC connect failed: '' @ e))
      | None \<Rightarrow> (case se_status env of
        Inl e \<Rightarrow> (w, [], ErrorResult p (''GetSettlementStatus failed: '' @ e))
      | Inr status \<Rightarrow>
          let action = my_action status (ss_is_buyer state) in
          case expired_error c (se_unix_now env) (ss_proposal state) action of
            Some e \<Rightarrow> (w, [], ErrorResult p e)
          | None \<Rightarrow>
              (case leg_check trim (sc_instruments c) (ss_proposal state) action of
                 LegRefuse e \<Rightarrow> (w, [], ErrorResult p e)
               | _ \<Rightarrow>
                  (case (if needs_reservation action then ensure_reserved A (se_now env) state c p w
                         else (w, Inr ())) of
                     (w', Inl e) \<Rightarrow> (w', [], ErrorResult p (''reservation failed: '' @ flat e))
                   | ((lm, t), Inr u) \<Rightarrow>
                       (case perform A c shutting_down env status action p state t of
                          (t', calls, r) \<Rightarrow> ((lm, t'), calls, r)))))))"

section \<open>A task: steps until one does not re-advance\<close>

text \<open>
  \<open>step_until_done\<close>, over the answers each step will get and the shutdown flag as it reads
  before and after the step; \<open>None\<close> when the answers are used up first.
\<close>

fun step_until_done ::
  "settle_arith \<Rightarrow> (string \<Rightarrow> string) \<Rightarrow> step_config \<Rightarrow> (bool \<times> step_env \<times> bool) list \<Rightarrow> string
     \<Rightarrow> settlement_state \<Rightarrow> liquidity \<times> order_tracker
     \<Rightarrow> (liquidity \<times> order_tracker) \<times> server_call list \<times> (advance_result \<times> settlement_state) option" where
  "step_until_done A trim c [] p state w = (w, [], None)"
| "step_until_done A trim c ((before, env, after) # envs) p state w =
     (case advance_single A trim c before env p state w of
        (w', calls, r) \<Rightarrow>
          if should_readvance r \<and> \<not> after then
            (case step_until_done A trim c envs p (apply_to_state r state) w' of
               (w'', calls', out) \<Rightarrow> (w'', calls @ calls', out))
          else (w', calls, Some (r, state)))"

text \<open>
  The end of the task: an allocation that is due is handed to the payment queue, whose answer
  (or its timeout) becomes the result; it is recorded when a client can be had.
\<close>

definition finish_task ::
  "bool \<Rightarrow> string + step_answer \<Rightarrow> advance_result \<Rightarrow> server_call list \<times> advance_result" where
  "finish_task can_record answer r = (case r of
       NeedsAllocate p cid cc is_buyer \<Rightarrow>
         (case answer of
            Inl e \<Rightarrow> ([Allocate_Dvp cid cc], ErrorResult p (''Allocate failed: '' @ e))
          | Inr a \<Rightarrow>
              (Allocate_Dvp cid cc # (if can_record then [Record_Completed
                 (if is_buyer then ''AllocationBuyerCompleted'' else ''AllocationSellerCompleted'')
                 (sa_update_id a) (sa_contract_id a)] else []),
               StepCompleted p Allocated None None (Some (sa_contract_id a)) 0))
     | _ \<Rightarrow> ([], r))"

end
