(* ===== verification/Settlement_Executor.thy ===== *)
theory Settlement_Executor
  imports Settlement_Step
begin

text \<open>
  The settlement executor of \<open>crates/agent-logic/src/settlement.rs\<close>: which proposals it
  adopts, how updates of the server and results of the tasks change its state, and which
  settlements it advances next. The methods take \<open>&mut self\<close>, so each is one step on
  \<open>executor\<close>. What the agent leaves to a background task (a release, an inflow, a cancel on
  the server) is appended to \<open>jobs\<close> and runs later, by \<open>run_job\<close>. Answers of the server are
  arguments. Logging and the error reports are left out.
\<close>

section \<open>State\<close>

record accepted_trade =
  at_market_id :: string
  at_price :: string
  at_base_quantity :: string
  at_quote_quantity :: string

record exec_config = step_config +
  party_id :: string
  rfq_v2_only :: bool
  auto_settle :: bool
  max_pending_per_counterparty :: nat
  settlement_thread_count :: nat
  max_retries :: nat

datatype job =
    Release_Job string
  | Inflow_Job string f64
  | Cancel_Job string string
  | Report_Job string string

record executor =
  ex_config :: exec_config
  active :: "(string \<times> settlement_state) list"
  rejected_proposals :: "string set"
  completed_proposals :: "string set"
  shutting_down :: bool
  ex_tracker :: order_tracker
  ex_lm :: liquidity
  in_progress :: "(string \<times> nat) list"
  failed :: "(string \<times> failed_settlement) list"
  pending_results :: "string list"
  needs_readvance :: "string list"
  rearm_on_result :: "string set"
  actionable_count :: nat
  accepted_rfq_trades :: "(string \<times> accepted_trade) list option"
  rejected_rfq_trades :: "string set option"
  quoted_rfq_trades :: "accepted_trade list option"
  no_reject :: bool
  held_until :: "(string \<times> nat \<times> nat) list"
  last_sync :: "nat option"
  jobs :: "job list"

definition HOLD_INITIAL :: nat where "HOLD_INITIAL = 30 * 10 ^ 9"

definition HOLD_MAX :: nat where "HOLD_MAX = 300 * 10 ^ 9"

definition EXPIRED_RETRY_SECS :: nat where "EXPIRED_RETRY_SECS = 30"

definition MAX_ADVANCE_SPAWNS_PER_CYCLE :: nat where "MAX_ADVANCE_SPAWNS_PER_CYCLE = 50"

definition SYNC_MIN_INTERVAL :: nat where "SYNC_MIN_INTERVAL = 15 * 10 ^ 9"

definition new_executor :: "exec_config \<Rightarrow> order_tracker \<Rightarrow> executor" where
  "new_executor c t = \<lparr>ex_config = c, active = [], rejected_proposals = {}, completed_proposals = {},
     shutting_down = False, ex_tracker = t, ex_lm = None, in_progress = [], failed = [],
     pending_results = [], needs_readvance = [], rearm_on_result = {}, actionable_count = 0,
     accepted_rfq_trades = None, rejected_rfq_trades = None, quoted_rfq_trades = None,
     no_reject = False, held_until = [], last_sync = None, jobs = []\<rparr>"

definition is_active_id :: "executor \<Rightarrow> string \<Rightarrow> bool" where
  "is_active_id ex p \<longleftrightarrow> map_of (active ex) p \<noteq> None"

text \<open>Insertion into a \<open>HashSet\<close> that is drained in some order.\<close>

definition add_once :: "string \<Rightarrow> string list \<Rightarrow> string list" where
  "add_once p ps = (if p \<in> set ps then ps else ps @ [p])"

section \<open>Background jobs\<close>

definition add_job :: "job \<Rightarrow> executor \<Rightarrow> executor" where
  "add_job j ex = ex\<lparr>jobs := jobs ex @ [j]\<rparr>"

definition release_commitment :: "string \<Rightarrow> executor \<Rightarrow> executor" where
  "release_commitment p ex = (if ex_lm ex = None then ex else add_job (Release_Job p) ex)"

definition notify_server_cancel :: "string \<Rightarrow> string \<Rightarrow> executor \<Rightarrow> executor" where
  "notify_server_cancel p reason = add_job (Cancel_Job p reason)"

definition received_token :: "executor \<Rightarrow> settlement_state \<Rightarrow> string" where
  "received_token ex s =
     (let received = (if ss_is_buyer s then sp_base_instrument (ss_proposal s)
            else sp_quote_instrument (ss_proposal s))
      in if sc_cc_token_id (ex_config ex) = Some received then CC_TOKEN else received)"

definition record_settlement_inflow :: "string \<Rightarrow> executor \<Rightarrow> executor" where
  "record_settlement_inflow p ex =
     (case (ex_lm ex, map_of (active ex) p) of
        (Some lm, Some s) \<Rightarrow>
          (case parse_f64 (if ss_is_buyer s then sp_base_quantity (ss_proposal s)
              else sp_quote_quantity (ss_proposal s)) of
             Some amount \<Rightarrow> add_job (Inflow_Job (received_token ex s) amount) ex
           | None \<Rightarrow> ex)
      | _ \<Rightarrow> ex)"

definition run_job :: "nat \<Rightarrow> job \<Rightarrow> executor \<Rightarrow> executor" where
  "run_job now j ex = (case j of
       Release_Job p \<Rightarrow> ex\<lparr>ex_lm := map_option (\<lambda>(m, s). (m, release p s)) (ex_lm ex)\<rparr>
     | Inflow_Job k amount \<Rightarrow> ex\<lparr>ex_lm := map_option (\<lambda>(m, s). (m, record_inflow now k amount s)) (ex_lm ex)\<rparr>
     | _ \<Rightarrow> ex)"

definition run_jobs :: "nat \<Rightarrow> executor \<Rightarrow> executor" where
  "run_jobs now ex = foldl (\<lambda>ex j. run_job now j ex) (ex\<lparr>jobs := []\<rparr>) (jobs ex)"

section \<open>Small operations\<close>

definition is_pre_allocation :: "executor \<Rightarrow> string \<Rightarrow> bool" where
  "is_pre_allocation ex p = (case map_of (active ex) p of
     Some s \<Rightarrow> is_pre_allocation_stage (ss_stage s) | None \<Rightarrow> False)"

definition past_deadline :: "executor \<Rightarrow> int \<Rightarrow> string \<Rightarrow> bool" where
  "past_deadline ex unix_now p =
     (case map_of (active ex) p of
        None \<Rightarrow> False
      | Some s \<Rightarrow> (case sp_created_secs (ss_proposal s) of
          None \<Rightarrow> False
        | Some created \<Rightarrow>
            (case expiry_windows (sp_origin (ss_proposal s)) (sc_allocate_before_secs (ex_config ex))
               (sc_settle_before_secs (ex_config ex)) of
              (allocate_window, settle_window) \<Rightarrow>
                let age = age_secs unix_now created
                in as_i64 settle_window < age
                   \<or> is_pre_allocation_stage (ss_stage s) \<and> as_i64 allocate_window < age)))"

definition count_actionable :: "executor \<Rightarrow> nat" where
  "count_actionable ex = length (filter (\<lambda>(p, s). ss_stage s \<notin>
     {AwaitingSettlement, SettledStage, FailedStage, CancelledStage}) (active ex))"

definition update_actionable_count :: "executor \<Rightarrow> executor" where
  "update_actionable_count ex = ex\<lparr>actionable_count := count_actionable ex\<rparr>"

definition on_tracker :: "(order_tracker \<Rightarrow> order_tracker) \<Rightarrow> executor \<Rightarrow> executor" where
  "on_tracker f ex = ex\<lparr>ex_tracker := f (ex_tracker ex)\<rparr>"

definition reject_proposal :: "bool \<Rightarrow> string \<Rightarrow> executor \<Rightarrow> executor" where
  "reject_proposal rpc_ok p ex = (if rpc_ok then
     ex\<lparr>rejected_proposals := insert p (rejected_proposals ex), active := AList.delete p (active ex)\<rparr> else ex)"

definition mark_rejected_rfq :: "string \<Rightarrow> executor \<Rightarrow> executor" where
  "mark_rejected_rfq p ex = ex\<lparr>rejected_rfq_trades := map_option (insert p) (rejected_rfq_trades ex)\<rparr>"

definition hold :: "nat \<Rightarrow> string \<Rightarrow> nat option \<Rightarrow> executor \<Rightarrow> executor" where
  "hold now p prior ex =
     (let delay = (case prior of None \<Rightarrow> HOLD_INITIAL | Some d \<Rightarrow> min (d * 2) HOLD_MAX)
      in ex\<lparr>held_until := AList.update p (now + delay, delay) (held_until ex)\<rparr>)"

definition forget_hold :: "string \<Rightarrow> executor \<Rightarrow> executor" where
  "forget_hold p ex = ex\<lparr>held_until := AList.delete p (held_until ex)\<rparr>"

definition make_active :: "settlement_proposal \<Rightarrow> bool \<Rightarrow> executor \<Rightarrow> executor" where
  "make_active proposal is_buyer ex =
     (let p = sp_proposal_id proposal in
      ex\<lparr>active := AList.update p (new_settlement proposal is_buyer) (active ex),
         needs_readvance := (if auto_settle (ex_config ex) then add_once p (needs_readvance ex)
           else needs_readvance ex)\<rparr>)"

definition reject_unconfirmed :: "(string \<Rightarrow> bool) \<Rightarrow> settle_arith \<Rightarrow> executor \<Rightarrow> executor" where
  "reject_unconfirmed rpc_ok A ex = update_actionable_count (foldl (\<lambda>ex p.
     (reject_proposal (rpc_ok p) p (on_tracker (mark_failed A p) (release_commitment p ex)))
       \<lparr>active := AList.delete p (active ex)\<rparr>) ex
     (map fst (filter (\<lambda>(p, s). ss_stage s = ProposalReceived) (active ex))))"

definition cancel_settlement :: "bool \<Rightarrow> string \<Rightarrow> executor \<Rightarrow> executor" where
  "cancel_settlement success p ex0 =
     (if success then
        let ex = release_commitment p ex0 in
        ex\<lparr>active := AList.delete p (active ex), in_progress := AList.delete p (in_progress ex),
           rearm_on_result := rearm_on_result ex - {p}\<rparr>
      else ex0)"

section \<open>Adoption of a proposal\<close>

definition swap_remove :: "'a list \<Rightarrow> nat \<Rightarrow> 'a list" where
  "swap_remove xs i = butlast (xs[i := last xs])"

definition trade_matches :: "settlement_proposal \<Rightarrow> accepted_trade \<Rightarrow> bool" where
  "trade_matches p tr \<longleftrightarrow> at_market_id tr = sp_market_id p \<and> at_price tr = sp_settlement_price p
     \<and> at_base_quantity tr = sp_base_quantity p \<and> at_quote_quantity tr = sp_quote_quantity p"

fun position :: "('a \<Rightarrow> bool) \<Rightarrow> 'a list \<Rightarrow> nat option" where
  "position P [] = None"
| "position P (x # xs) = (if P x then Some 0 else map_option Suc (position P xs))"

definition verify_quoted :: "settlement_proposal \<Rightarrow> executor \<Rightarrow> executor \<times> bool" where
  "verify_quoted proposal ex = (case quoted_rfq_trades ex of
       None \<Rightarrow> (ex, False)
     | Some trades \<Rightarrow> (case position (trade_matches proposal) trades of
         None \<Rightarrow> (ex, False)
       | Some i \<Rightarrow> (ex\<lparr>quoted_rfq_trades := Some (swap_remove trades i)\<rparr>, True)))"

definition verify_rfq_proposal :: "settlement_proposal \<Rightarrow> executor \<Rightarrow> executor \<times> bool" where
  "verify_rfq_proposal proposal ex =
     (case accepted_rfq_trades ex of
        None \<Rightarrow> verify_quoted proposal ex
      | Some m \<Rightarrow> (case map_of m (sp_proposal_id proposal) of
          None \<Rightarrow> verify_quoted proposal ex
        | Some tr \<Rightarrow>
            (ex\<lparr>accepted_rfq_trades := Some (AList.delete (sp_proposal_id proposal) m)\<rparr>,
             trade_matches proposal tr)))"

record exec_env =
  ee_now :: nat
  ee_unix_now :: int
  ee_reject_ok :: bool
  ee_lookup :: "server_order list option"
  ee_v1_status :: "settlement_status option"
  ee_v1_cancel :: "bool option"

definition abort_v1_settlement :: "settle_arith \<Rightarrow> exec_env \<Rightarrow> settlement_proposal \<Rightarrow> bool \<Rightarrow> executor \<Rightarrow> executor" where
  "abort_v1_settlement A env proposal is_buyer ex =
     (let p = sp_proposal_id proposal in
      case ee_v1_status env of
        None \<Rightarrow> ex
      | Some status \<Rightarrow>
          if v1_settlement_leave_alone status is_buyer then
            ex\<lparr>rejected_proposals := insert p (rejected_proposals ex)\<rparr>
          else if ee_v1_cancel env = Some True then
            (let ex = mark_rejected_rfq p (on_tracker (mark_failed A p) ex)
             in ex\<lparr>rejected_proposals := insert p (rejected_proposals ex)\<rparr>)
          else ex)"

datatype user_order_verdict = Verified nat | UserRejected message | LookupFailed

definition verify_user_order ::
  "settle_arith \<Rightarrow> crypto \<Rightarrow> exec_env \<Rightarrow> settlement_proposal \<Rightarrow> nat \<Rightarrow> executor \<Rightarrow> executor \<times> user_order_verdict" where
  "verify_user_order A cr env proposal order_id ex =
     (case ee_lookup env of
        None \<Rightarrow> (ex, LookupFailed)
      | Some found \<Rightarrow> (case List.find (\<lambda>r. so_order_id r = order_id) found of
          None \<Rightarrow> (ex, UserRejected [Lit ''Order '', Num (int order_id), Lit '' not found on server''])
        | Some r \<Rightarrow>
            (case adopt_failed_submit A r (ee_now env) (ex_tracker ex) of
               (t, True) \<Rightarrow>
                 (ex\<lparr>ex_tracker := t\<rparr>,
                  case verify_settlement A cr (ee_now env) t proposal (party_id (ex_config ex)) of
                    Accepted i \<Rightarrow> Verified i | Rejected e \<Rightarrow> UserRejected e | _ \<Rightarrow> LookupFailed)
             | (t, False) \<Rightarrow>
                 (case verify_and_import_order A cr r proposal t of
                    (t', v) \<Rightarrow> (ex\<lparr>ex_tracker := t'\<rparr>,
                      case v of Accepted i \<Rightarrow> Verified i | Rejected e \<Rightarrow> UserRejected e
                      | NeedServerLookup i \<Rightarrow> UserRejected [Lit ''Unexpected NeedServerLookup'']
                      | PlacementInFlight i \<Rightarrow> LookupFailed)))))"

definition record_adoption :: "settle_arith \<Rightarrow> nat \<Rightarrow> settlement_proposal \<Rightarrow> executor \<Rightarrow> executor" where
  "record_adoption A order_id proposal = on_tracker
     (record_settlement_order (sp_proposal_id proposal) order_id (parse_or_zero A (sp_base_quantity proposal)))"

definition refuse :: "exec_env \<Rightarrow> string \<Rightarrow> executor \<Rightarrow> executor" where
  "refuse env p ex = mark_rejected_rfq p (reject_proposal (ee_reject_ok env) p ex)"

text \<open>The liquidity gate: hold while balances are unknown or stale, refuse when they do not suffice.\<close>

datatype gate = Gate_Open | Gate_Hold | Gate_Refuse

definition liquidity_gate :: "settle_arith \<Rightarrow> exec_env \<Rightarrow> settlement_proposal \<Rightarrow> bool \<Rightarrow> executor \<Rightarrow> gate" where
  "liquidity_gate A env proposal is_buyer ex =
     (case ex_lm ex of
        None \<Rightarrow> Gate_Open
      | Some (m, s) \<Rightarrow>
          if \<not> is_ready s then Gate_Hold
          else let (token, amount, fees) = reservation_inputs A proposal is_buyer (sc_cc_token_id (ex_config ex)) in
            if is_stale m s token (ee_now env) \<noteq> None then Gate_Hold
            else case can_commit (liq_arith.truncate A) m s token amount
                   (estimate_fee_cc (liq_arith.truncate A) m s fees) of
              Inl e \<Rightarrow> Gate_Refuse | Inr u \<Rightarrow> Gate_Open)"

definition verify_new ::
  "settle_arith \<Rightarrow> crypto \<Rightarrow> exec_env \<Rightarrow> settlement_proposal \<Rightarrow> bool \<Rightarrow> nat option \<Rightarrow> executor \<Rightarrow> executor" where
  "verify_new A cr env proposal is_buyer prior_hold ex =
     (let p = sp_proposal_id proposal in
      if sp_order_match proposal = None then
        (case verify_rfq_proposal proposal ex of
           (ex', False) \<Rightarrow> refuse env p ex'
         | (ex', True) \<Rightarrow> update_actionable_count (make_active proposal is_buyer (record_adoption A 0 proposal ex')))
      else case verify_settlement A cr (ee_now env) (ex_tracker ex) proposal (party_id (ex_config ex)) of
        Accepted i \<Rightarrow> make_active proposal is_buyer (record_adoption A i proposal ex)
      | Rejected e \<Rightarrow> reject_proposal (ee_reject_ok env) p ex
      | PlacementInFlight i \<Rightarrow> ex
      | NeedServerLookup i \<Rightarrow>
          (case verify_user_order A cr env proposal i (hold (ee_now env) p prior_hold ex) of
             (ex', Verified j) \<Rightarrow> make_active proposal is_buyer (record_adoption A j proposal (forget_hold p ex'))
           | (ex', UserRejected e) \<Rightarrow> reject_proposal (ee_reject_ok env) p (forget_hold p ex')
           | (ex', LookupFailed) \<Rightarrow> ex'))"

definition counterparty_pending :: "executor \<Rightarrow> string \<Rightarrow> nat" where
  "counterparty_pending ex counterparty = length (filter (\<lambda>(p, s).
     (if ss_is_buyer s then sp_seller (ss_proposal s) else sp_buyer (ss_proposal s)) = counterparty) (active ex))"

definition our_order_of :: "settlement_proposal \<Rightarrow> bool \<Rightarrow> nat" where
  "our_order_of proposal is_buyer = (case sp_order_match proposal of None \<Rightarrow> 0
     | Some om \<Rightarrow> if is_buyer then bid_order_id om else offer_order_id om)"

definition past_settle_deadline :: "exec_env \<Rightarrow> settlement_proposal \<Rightarrow> executor \<Rightarrow> bool" where
  "past_settle_deadline env proposal ex = (case sp_created_secs proposal of
       None \<Rightarrow> False
     | Some created \<Rightarrow> as_i64 (snd (expiry_windows (sp_origin proposal)
           (sc_allocate_before_secs (ex_config ex)) (sc_settle_before_secs (ex_config ex))))
         < age_secs (ee_unix_now env) created)"

definition adopt_ours ::
  "settle_arith \<Rightarrow> crypto \<Rightarrow> exec_env \<Rightarrow> settlement_proposal \<Rightarrow> bool \<Rightarrow> nat option \<Rightarrow> executor \<Rightarrow> executor" where
  "adopt_ours A cr env proposal is_buyer prior_hold ex =
     (let p = sp_proposal_id proposal in
      if implausible_amount A proposal \<noteq> None then
        refuse env p (release_commitment p (on_tracker (mark_failed A p) ex))
      else if rfq_v2_only (ex_config ex) then abort_v1_settlement A env proposal is_buyer ex
      else if has_settlement_order (ex_tracker ex) p then
        if past_settle_deadline env proposal ex then
          (let ex = on_tracker (mark_failed A p) ex in
           update_actionable_count (notify_server_cancel p ''agent abandoned on restart: past settle deadline''
             (ex\<lparr>rejected_proposals := insert p (rejected_proposals ex)\<rparr>)))
        else update_actionable_count (make_active proposal is_buyer ex)
      else if no_reject ex then
        update_actionable_count (make_active proposal is_buyer
          (record_adoption A (our_order_of proposal is_buyer) proposal ex))
      else if shutting_down ex then reject_proposal (ee_reject_ok env) p ex
      else if max_pending_per_counterparty (ex_config ex)
          \<le> counterparty_pending ex (if is_buyer then sp_seller proposal else sp_buyer proposal) then
        refuse env p ex
      else case liquidity_gate A env proposal is_buyer ex of
        Gate_Hold \<Rightarrow> hold (ee_now env) p prior_hold ex
      | Gate_Refuse \<Rightarrow> refuse env p ex
      | Gate_Open \<Rightarrow> verify_new A cr env proposal is_buyer prior_hold ex)"

definition handle_proposal_created ::
  "settle_arith \<Rightarrow> crypto \<Rightarrow> exec_env \<Rightarrow> settlement_proposal \<Rightarrow> executor \<Rightarrow> executor" where
  "handle_proposal_created A cr env proposal ex0 =
     (let p = sp_proposal_id proposal;
          prior_hold = map_option snd (map_of (held_until ex0) p);
          ex = forget_hold p ex0;
          is_buyer = (sp_buyer proposal = party_id (ex_config ex));
          is_seller = (sp_seller proposal = party_id (ex_config ex))
      in if is_active_id ex p \<or> p \<in> completed_proposals ex \<or> p \<in> rejected_proposals ex then ex
         else if sp_settled_secs proposal \<noteq> None then
           ex\<lparr>completed_proposals := insert p (completed_proposals ex)\<rparr>
         else if \<not> is_buyer \<and> \<not> is_seller then ex
         else adopt_ours A cr env proposal is_buyer prior_hold ex)"

section \<open>Updates of the server\<close>

definition handle_status_changed :: "settlement_proposal \<Rightarrow> executor \<Rightarrow> executor" where
  "handle_status_changed proposal ex = (case map_of (active ex) (sp_proposal_id proposal) of
       None \<Rightarrow> ex
     | Some s \<Rightarrow> if sp_status (ss_proposal s) = sp_status proposal then ex
         else ex\<lparr>needs_readvance := add_once (sp_proposal_id proposal) (needs_readvance ex)\<rparr>)"

definition drop_settlement :: "string \<Rightarrow> executor \<Rightarrow> executor" where
  "drop_settlement p ex = ex\<lparr>active := AList.delete p (active ex), in_progress := AList.delete p (in_progress ex),
     failed := AList.delete p (failed ex), rearm_on_result := rearm_on_result ex - {p},
     held_until := AList.delete p (held_until ex)\<rparr>"

definition handle_settled :: "settle_arith \<Rightarrow> string \<Rightarrow> executor \<Rightarrow> executor" where
  "handle_settled A p ex0 =
     (let ex = release_commitment p (record_settlement_inflow p (on_tracker (mark_settled A p) ex0))
      in drop_settlement p (ex\<lparr>completed_proposals := insert p (completed_proposals ex)\<rparr>))"

definition handle_ended :: "settle_arith \<Rightarrow> string \<Rightarrow> executor \<Rightarrow> executor" where
  "handle_ended A p ex0 =
     (let ex = release_commitment p (on_tracker (mark_failed A p) ex0)
      in drop_settlement p (ex\<lparr>rejected_proposals := insert p (rejected_proposals ex)\<rparr>))"

definition handle_settlement_update ::
  "settle_arith \<Rightarrow> crypto \<Rightarrow> exec_env \<Rightarrow> event_type \<Rightarrow> settlement_proposal option \<Rightarrow> executor \<Rightarrow> executor" where
  "handle_settlement_update A cr env ev update ex = update_actionable_count
     (case update of
        None \<Rightarrow> ex
      | Some proposal \<Rightarrow> (case ev of
          EvProposalCreated \<Rightarrow> handle_proposal_created A cr env proposal ex
        | EvStatusChanged \<Rightarrow> handle_status_changed proposal ex
        | EvSettled \<Rightarrow> handle_settled A (sp_proposal_id proposal) ex
        | EvFailed \<Rightarrow> handle_ended A (sp_proposal_id proposal) ex
        | EvCancelled \<Rightarrow> handle_ended A (sp_proposal_id proposal) ex
        | EvUnspecified \<Rightarrow> ex))"

text \<open>\<open>feed_polled_proposals\<close>: each proposal with the answers it will get.\<close>

definition skip_polled :: "exec_env \<Rightarrow> settlement_proposal \<Rightarrow> executor \<Rightarrow> bool" where
  "skip_polled env proposal ex =
     (let p = sp_proposal_id proposal in
      is_active_id ex p \<or> p \<in> rejected_proposals ex \<or> p \<in> completed_proposals ex
      \<or> (case map_of (held_until ex) p of Some (until, d) \<Rightarrow> ee_now env < until | None \<Rightarrow> False))"

definition feed_polled_proposals ::
  "settle_arith \<Rightarrow> crypto \<Rightarrow> (settlement_proposal \<times> exec_env) list \<Rightarrow> executor \<Rightarrow> executor" where
  "feed_polled_proposals A cr polled ex0 =
     (let returned = (\<lambda>(q, env). sp_proposal_id q) ` set polled;
          ex = ex0\<lparr>held_until := filter (\<lambda>(p, h). p \<in> returned) (held_until ex0)\<rparr>
      in foldl (\<lambda>ex (q, env). if skip_polled env q ex then ex
           else handle_settlement_update A cr env EvProposalCreated (Some q) ex) ex polled)"

end
