(* ===== verification/Settlement_Results.thy ===== *)
theory Settlement_Results
  imports Settlement_Executor
begin

text \<open>
  The second half of the executor of \<open>settlement.rs\<close>: applying the result of a step
  (\<open>apply_result\<close>), collecting the tasks (\<open>collect_results\<close>), choosing what to advance
  (\<open>advance_all_settlements\<close>, \<open>advance_proposals\<close>) and merging the contracts found on the
  ledger (\<open>sync_on_chain_contracts\<close>). A sum of an instant and a delay does not overflow here.
\<close>

section \<open>Applying a result\<close>

definition fresh_failure :: "nat \<Rightarrow> failed_settlement" where
  "fresh_failure now = \<lparr>retry_count = 0, wait_count = 0, next_retry = now, first_transient_at = None,
     cid_waiting = None\<rparr>"

definition failure_of :: "executor \<Rightarrow> nat \<Rightarrow> string \<Rightarrow> failed_settlement" where
  "failure_of ex now p = or_else (map_of (failed ex) p) (fresh_failure now)"

definition set_failure :: "string \<Rightarrow> failed_settlement \<Rightarrow> executor \<Rightarrow> executor" where
  "set_failure p f ex = ex\<lparr>failed := AList.update p f (failed ex)\<rparr>"

definition clear_failure :: "string \<Rightarrow> executor \<Rightarrow> executor" where
  "clear_failure p ex = ex\<lparr>failed := AList.delete p (failed ex)\<rparr>"

definition on_active :: "string \<Rightarrow> (settlement_state \<Rightarrow> settlement_state) \<Rightarrow> executor \<Rightarrow> executor" where
  "on_active p f ex = (case map_of (active ex) p of None \<Rightarrow> ex
     | Some s \<Rightarrow> ex\<lparr>active := AList.update p (f s) (active ex)\<rparr>)"

definition remove_settlement :: "string \<Rightarrow> executor \<Rightarrow> executor" where
  "remove_settlement p ex = ex\<lparr>active := AList.delete p (active ex), failed := AList.delete p (failed ex),
     needs_readvance := removeAll p (needs_readvance ex)\<rparr>"

definition add_rejected :: "string \<Rightarrow> executor \<Rightarrow> executor" where
  "add_rejected p ex = ex\<lparr>rejected_proposals := insert p (rejected_proposals ex)\<rparr>"

text \<open>\<open>saturating_add(1)\<close> on a \<open>u32\<close>.\<close>

definition sat_inc :: "nat \<Rightarrow> nat" where
  "sat_inc n = min (n + 1) (2 ^ 32 - 1)"

definition is_permanent :: "string \<Rightarrow> bool" where
  "is_permanent e \<longleftrightarrow> str_contains e UNRESOLVED_INSTRUMENT \<or> str_contains e ''deadline-exceeded''
     \<or> str_contains e ''DA.Exception.PreconditionFailed'' \<or> str_contains e ''PreconditionFailed''
     \<or> str_contains e ''PRECONDITION_FAILED''"

definition is_cid_waiting :: "string \<Rightarrow> bool" where
  "is_cid_waiting e \<longleftrightarrow> str_contains e ''No Dvp contract ID found''
     \<or> str_contains e ''No DvpProposal CID found''"

definition is_transient :: "string \<Rightarrow> bool" where
  "is_transient e \<longleftrightarrow> \<not> is_permanent e \<and> (str_contains e ''INACTIVE_CONTRACTS'' \<or> is_cid_waiting e)"

definition cap_expired :: "bool \<Rightarrow> nat \<Rightarrow> nat" where
  "cap_expired expired delay = (if expired then min delay (EXPIRED_RETRY_SECS * 10 ^ 9) else delay)"

definition abandon :: "settle_arith \<Rightarrow> string \<Rightarrow> string \<Rightarrow> executor \<Rightarrow> executor" where
  "abandon A p reason ex0 =
     (let ex = (if is_pre_allocation ex0 p then notify_server_cancel p reason ex0 else ex0);
          ex = on_tracker (mark_failed A p) (release_commitment p ex)
      in update_actionable_count (remove_settlement p (add_rejected p ex)))"

definition abandon_reason :: "string \<Rightarrow> string" where
  "abandon_reason e = (if str_contains e UNRESOLVED_INSTRUMENT
     then ''agent abandoned: an instrument has no registry admin''
     else ''agent abandoned: deadline/error exhausted'')"

definition abandon_error :: "settle_arith \<Rightarrow> string \<Rightarrow> string \<Rightarrow> executor \<Rightarrow> executor" where
  "abandon_error A p e ex0 =
     (let ex = (if is_pre_allocation ex0 p then notify_server_cancel p (abandon_reason e) ex0 else ex0);
          ex = (if str_contains e UNRESOLVED_INSTRUMENT then add_job (Report_Job p e) ex else ex);
          ex = on_tracker (mark_failed A p) (release_commitment p ex)
      in update_actionable_count (remove_settlement p (add_rejected p ex)))"

definition counted_error :: "nat \<Rightarrow> string \<Rightarrow> failed_settlement \<Rightarrow> failed_settlement" where
  "counted_error retries e f = (if is_permanent e then f\<lparr>retry_count := retries\<rparr>
     else if is_transient e then f else f\<lparr>retry_count := sat_inc (retry_count f)\<rparr>)"

definition delayed_error :: "nat \<Rightarrow> bool \<Rightarrow> string \<Rightarrow> failed_settlement \<Rightarrow> failed_settlement" where
  "delayed_error now expired e f =
     (let delay = cap_expired expired (if is_transient e then 10 * 10 ^ 9 else retry_delay (retry_count f));
          f = f\<lparr>next_retry := now + delay\<rparr>
      in if is_transient e \<and> is_cid_waiting e then
           f\<lparr>first_transient_at := (if first_transient_at f = None then Some now else first_transient_at f),
             cid_waiting := Some (if str_contains e ''No DvpProposal CID found'' then DvpProposalCid
               else DvpContractCid)\<rparr>
         else f\<lparr>cid_waiting := None\<rparr>)"

definition apply_error :: "settle_arith \<Rightarrow> nat \<Rightarrow> int \<Rightarrow> string \<Rightarrow> string \<Rightarrow> executor \<Rightarrow> executor" where
  "apply_error A now unix_now p e ex =
     (let retries = max_retries (ex_config ex);
          expired = past_deadline ex unix_now p;
          f = counted_error retries e (failure_of ex now p)
      in if is_exhausted retries f then abandon_error A p e ex
         else update_actionable_count (set_failure p (delayed_error now expired e f) ex))"

definition apply_wait :: "nat \<Rightarrow> int \<Rightarrow> string \<Rightarrow> executor \<Rightarrow> executor" where
  "apply_wait now unix_now p ex =
     (let expired = past_deadline ex unix_now p;
          f = failure_of ex now p;
          f = f\<lparr>retry_count := 0, wait_count := sat_inc (wait_count f)\<rparr>
      in set_failure p (f\<lparr>next_retry := now + cap_expired expired (wait_delay (wait_count f)),
           cid_waiting := None\<rparr>) ex)"

definition apply_timeout :: "settle_arith \<Rightarrow> nat \<Rightarrow> string \<Rightarrow> executor \<Rightarrow> executor" where
  "apply_timeout A now p ex =
     (let f = failure_of ex now p; f = f\<lparr>retry_count := sat_inc (retry_count f)\<rparr>
      in if is_exhausted (max_retries (ex_config ex)) f then
           abandon A p ''agent abandoned: settlement timed out'' ex
         else update_actionable_count (set_failure p (f\<lparr>next_retry := now + 10 * 10 ^ 9\<rparr>) ex))"

definition apply_terminal :: "string \<Rightarrow> executor \<Rightarrow> executor" where
  "apply_terminal p ex0 =
     (let ex = release_commitment p (record_settlement_inflow p ex0)
      in remove_settlement p (ex\<lparr>completed_proposals := insert p (completed_proposals ex)\<rparr>))"

definition apply_result :: "settle_arith \<Rightarrow> nat \<Rightarrow> int \<Rightarrow> advance_result \<Rightarrow> executor \<Rightarrow> executor" where
  "apply_result A now unix_now r ex = (case r of
       StepCompleted p st a b c n \<Rightarrow> update_actionable_count (clear_failure p (on_active p (apply_to_state r) ex))
     | Preconfirmed p \<Rightarrow> update_actionable_count (clear_failure p
         (on_active p (\<lambda>s. s\<lparr>ss_stage := ProposalReceived\<rparr>) ex))
     | RejectedResult p \<Rightarrow> update_actionable_count (remove_settlement p (add_rejected p (release_commitment p ex)))
     | Terminal p \<Rightarrow> update_actionable_count (apply_terminal p ex)
     | Wait p \<Rightarrow> update_actionable_count (apply_wait now unix_now p ex)
     | ErrorResult p e \<Rightarrow> apply_error A now unix_now p e ex
     | Timeout p \<Rightarrow> apply_timeout A now p ex
     | NeedsAllocate p cid cc b \<Rightarrow> update_actionable_count ex)"

section \<open>Collecting the tasks\<close>

datatype task_outcome = Running | Sent advance_result settlement_state | Dropped

text \<open>CIDs that the sync found while the task was in flight are kept.\<close>

definition merge_state :: "settlement_state \<Rightarrow> settlement_state \<Rightarrow> settlement_state" where
  "merge_state final state = final\<lparr>dvp_proposal_cid := or_keep (dvp_proposal_cid final) (dvp_proposal_cid state),
     dvp_cid := or_keep (dvp_cid final) (dvp_cid state),
     allocation_cid := or_keep (allocation_cid final) (allocation_cid state)\<rparr>"

record collected =
  co_completed :: "(advance_result \<times> bool \<times> bool) list"
  co_orphaned :: "string list"
  co_pending :: "string list"

definition collect_one :: "string \<times> task_outcome \<Rightarrow> executor \<times> collected \<Rightarrow> executor \<times> collected" where
  "collect_one = (\<lambda>(p, out) (ex, c). case out of
       Running \<Rightarrow> (ex, c\<lparr>co_pending := co_pending c @ [p]\<rparr>)
     | Dropped \<Rightarrow> (ex\<lparr>in_progress := AList.delete p (in_progress ex), rearm_on_result := rearm_on_result ex - {p}\<rparr>, c)
     | Sent r final \<Rightarrow>
         (let ex = ex\<lparr>in_progress := AList.delete p (in_progress ex)\<rparr> in
          case map_of (active ex) p of
            Some state \<Rightarrow>
              (ex\<lparr>active := AList.update p (merge_state final state) (active ex)\<rparr>,
               c\<lparr>co_completed := co_completed c @ [(r,
                   dvp_proposal_cid final = None \<and> dvp_proposal_cid state \<noteq> None,
                   dvp_cid final = None \<and> dvp_cid state \<noteq> None)]\<rparr>)
          | None \<Rightarrow>
              (ex, c\<lparr>co_orphaned := co_orphaned c @ [p], co_completed := co_completed c @ [(r, False, False)]\<rparr>)))"

definition release_orphans :: "settle_arith \<Rightarrow> string list \<Rightarrow> executor \<Rightarrow> executor" where
  "release_orphans A ps ex = foldl (\<lambda>ex p. release_commitment p (on_tracker (mark_failed A p) ex)) ex ps"

definition apply_completed ::
  "settle_arith \<Rightarrow> nat \<Rightarrow> int \<Rightarrow> advance_result \<times> bool \<times> bool \<Rightarrow> executor \<times> string list \<Rightarrow> executor \<times> string list" where
  "apply_completed A now unix_now = (\<lambda>(r, gained_proposal_cid, gained_dvp_cid) (ex0, readvance).
     let p = result_id r;
         is_wait = (case r of Wait q \<Rightarrow> True | _ \<Rightarrow> False);
         readvance = (if should_readvance r then readvance @ [p] else readvance);
         ex1 = apply_result A now unix_now r ex0;
         rearm = p \<in> rearm_on_result ex1;
         ex2 = ex1\<lparr>rearm_on_result := rearm_on_result ex1 - {p}\<rparr>
     in if rearm \<and> is_wait \<and> is_active_id ex2 p then (clear_failure p ex2, readvance @ [p])
        else if cid_since_found r gained_proposal_cid gained_dvp_cid \<and> is_active_id ex2 p then
          (clear_failure p ex2, readvance @ [p])
        else (ex2, readvance))"

definition collect_results ::
  "settle_arith \<Rightarrow> nat \<Rightarrow> int \<Rightarrow> task_outcome list \<Rightarrow> executor \<Rightarrow> executor \<times> string list" where
  "collect_results A now unix_now outs ex0 =
     (case fold collect_one (zip (pending_results ex0) outs)
        (ex0, \<lparr>co_completed = [], co_orphaned = [], co_pending = []\<rparr>) of
        (ex, c) \<Rightarrow>
          fold (apply_completed A now unix_now) (co_completed c)
            (release_orphans A (co_orphaned c) (ex\<lparr>pending_results := co_pending c\<rparr>), []))"

section \<open>Choosing what to advance\<close>

definition spawn_settlement_task :: "nat \<Rightarrow> string \<Rightarrow> executor \<Rightarrow> executor \<times> bool" where
  "spawn_settlement_task now p ex =
     (if is_active_id ex p then (ex\<lparr>in_progress := AList.update p now (in_progress ex),
        pending_results := pending_results ex @ [p]\<rparr>, True)
      else (ex, False))"

definition newest_first :: "string list \<Rightarrow> string list" where
  "newest_first ps = sort_key (\<lambda>p. - int (uuid_v7_ms p)) ps"

definition spawn_order :: "executor \<Rightarrow> string list" where
  "spawn_order ex =
     (let priority = newest_first (filter (is_active_id ex) (needs_readvance ex))
      in priority @ newest_first (filter (\<lambda>p. p \<notin> set priority) (map fst (active ex))))"

definition in_backoff :: "nat \<Rightarrow> int \<Rightarrow> executor \<Rightarrow> string \<Rightarrow> bool" where
  "in_backoff now unix_now ex p = (case map_of (failed ex) p of
       None \<Rightarrow> False
     | Some f \<Rightarrow> now < next_retry f
         \<and> \<not> (now + EXPIRED_RETRY_SECS * 10 ^ 9 < next_retry f \<and> past_deadline ex unix_now p))"

text \<open>The loop over the candidates, with the free permits and the ids spawned so far.\<close>

fun spawn_loop ::
  "nat \<Rightarrow> int \<Rightarrow> string list \<Rightarrow> nat \<Rightarrow> executor \<Rightarrow> string list \<Rightarrow> executor \<times> string list" where
  "spawn_loop now unix_now [] permits ex spawned = (ex, spawned)"
| "spawn_loop now unix_now (p # ps) permits ex spawned =
     (if p \<in> fst ` set (in_progress ex) then spawn_loop now unix_now ps permits ex spawned
      else if in_backoff now unix_now ex p then spawn_loop now unix_now ps permits ex spawned
      else if MAX_ADVANCE_SPAWNS_PER_CYCLE \<le> length spawned then (ex, spawned)
      else if permits = 0 then (ex, spawned)
      else (case spawn_settlement_task now p ex of
              (ex', ok) \<Rightarrow>
                let spawned' = (if ok then spawned @ [p] else spawned);
                    permits' = (if ok then permits - 1 else permits)
                in if shutting_down ex' then (ex', spawned')
                   else spawn_loop now unix_now ps permits' ex' spawned'))"

definition advance_all_settlements ::
  "settle_arith \<Rightarrow> nat \<Rightarrow> int \<Rightarrow> task_outcome list \<Rightarrow> nat \<Rightarrow> executor \<Rightarrow> executor \<times> string list" where
  "advance_all_settlements A now unix_now outs permits ex0 =
     (case collect_results A now unix_now outs ex0 of
        (ex1, readvance) \<Rightarrow>
          let ex2 = ex1\<lparr>needs_readvance := foldl (\<lambda>ps p. add_once p ps) (needs_readvance ex1) readvance\<rparr>;
              candidates = spawn_order ex2;
              priority = filter (is_active_id ex2) (needs_readvance ex2);
              ex3 = ex2\<lparr>needs_readvance := [], failed := filter (\<lambda>(p, f). p \<notin> set priority) (failed ex2)\<rparr>
          in spawn_loop now unix_now candidates permits ex3 [])"

definition collect_and_readvance ::
  "settle_arith \<Rightarrow> nat \<Rightarrow> int \<Rightarrow> task_outcome list \<Rightarrow> task_outcome list \<Rightarrow> nat \<Rightarrow> executor \<Rightarrow> executor \<times> string list" where
  "collect_and_readvance A now unix_now outs outs' permits ex0 =
     (case collect_results A now unix_now outs ex0 of
        (ex1, readvance) \<Rightarrow> advance_all_settlements A now unix_now outs' permits
          (ex1\<lparr>needs_readvance := foldl (\<lambda>ps p. add_once p ps) (needs_readvance ex1) readvance\<rparr>))"

fun advance_each :: "nat \<Rightarrow> string list \<Rightarrow> nat \<Rightarrow> executor \<Rightarrow> nat \<Rightarrow> executor \<times> nat" where
  "advance_each now [] permits ex spawned = (ex, spawned)"
| "advance_each now (p # ps) permits ex spawned =
     (if \<not> is_active_id ex p then advance_each now ps permits ex spawned
      else if p \<in> fst ` set (in_progress ex) then
        advance_each now ps permits (ex\<lparr>rearm_on_result := insert p (rearm_on_result ex)\<rparr>) spawned
      else
        let ex1 = (clear_failure p ex)\<lparr>needs_readvance := removeAll p (needs_readvance ex)\<rparr> in
        if MAX_ADVANCE_SPAWNS_PER_CYCLE \<le> spawned \<or> shutting_down ex1 \<or> permits = 0 then
          advance_each now ps permits (ex1\<lparr>needs_readvance := add_once p (needs_readvance ex1)\<rparr>) spawned
        else (case spawn_settlement_task now p ex1 of
          (ex2, ok) \<Rightarrow> advance_each now ps (if ok then permits - 1 else permits) ex2
            (if ok then spawned + 1 else spawned)))"

definition advance_proposals ::
  "settle_arith \<Rightarrow> nat \<Rightarrow> int \<Rightarrow> task_outcome list \<Rightarrow> string list \<Rightarrow> nat \<Rightarrow> executor \<Rightarrow> executor \<times> nat" where
  "advance_proposals A now unix_now outs ps permits ex0 =
     (case collect_results A now unix_now outs ex0 of
        (ex1, readvance) \<Rightarrow> advance_each now ps permits
          (ex1\<lparr>needs_readvance := foldl (\<lambda>ps p. add_once p ps) (needs_readvance ex1) readvance\<rparr>) 0)"

definition reset_failed_backoffs :: "nat \<Rightarrow> executor \<Rightarrow> executor" where
  "reset_failed_backoffs now ex = ex\<lparr>failed := AList.map_ran (\<lambda>p f. f\<lparr>next_retry := now\<rparr>) (failed ex)\<rparr>"

definition thread_utilization :: "nat \<Rightarrow> executor \<Rightarrow> nat \<times> nat \<times> nat \<times> nat" where
  "thread_utilization now ex =
     (let running = length (in_progress ex);
          backoff = length (filter (\<lambda>(p, f). now < next_retry f \<and> is_active_id ex p
            \<and> p \<notin> fst ` set (in_progress ex)) (failed ex))
      in (running, settlement_thread_count (ex_config ex), backoff, length (active ex) - running - backoff))"

section \<open>Contracts found on the ledger\<close>

definition sync_due :: "nat \<Rightarrow> executor \<Rightarrow> bool" where
  "sync_due now ex \<longleftrightarrow>
     list_ex (\<lambda>(p, f). cid_waiting f \<noteq> None \<and> is_active_id ex p) (failed ex)
     \<or> list_ex (\<lambda>(p, s). is_pre_allocation_stage (ss_stage s) \<and> dvp_cid s = None) (active ex)
       \<and> (case last_sync ex of None \<Rightarrow> True | Some t \<Rightarrow> SYNC_MIN_INTERVAL \<le> now - t)"

record discovered_contract =
  dc_settlement_id :: string
  dc_contract_id :: string
  dc_contract_type :: string

definition merge_contract :: "discovered_contract \<Rightarrow> executor \<Rightarrow> executor" where
  "merge_contract dc ex =
     (let p = dc_settlement_id dc; cid = Some (dc_contract_id dc) in
      case map_of (active ex) p of
        None \<Rightarrow> ex
      | Some s \<Rightarrow>
          if dc_contract_type dc = ''DvpProposal'' \<and> dvp_proposal_cid s = None then
            clear_failure p (ex\<lparr>active := AList.update p (s\<lparr>dvp_proposal_cid := cid\<rparr>) (active ex)\<rparr>)
          else if dc_contract_type dc = ''Dvp'' \<and> dvp_cid s = None then
            clear_failure p (ex\<lparr>active := AList.update p (s\<lparr>dvp_cid := cid\<rparr>) (active ex)\<rparr>)
          else if dc_contract_type dc = ''Allocation'' \<and> allocation_cid s = None then
            clear_failure p (ex\<lparr>active := AList.update p (s\<lparr>allocation_cid := cid\<rparr>) (active ex)\<rparr>)
          else ex)"

definition sync_on_chain_contracts :: "nat \<Rightarrow> discovered_contract list option \<Rightarrow> executor \<Rightarrow> executor" where
  "sync_on_chain_contracts now found ex0 =
     (if active ex0 = [] \<or> \<not> sync_due now ex0 then ex0
      else let ex = ex0\<lparr>last_sync := Some now\<rparr> in
        case found of None \<Rightarrow> ex | Some cs \<Rightarrow> foldl (\<lambda>ex dc. merge_contract dc ex) ex cs)"

section \<open>A batch of stream updates\<close>

record batch_outcome =
  bo_handled :: nat
  bo_affects_grid :: bool
  bo_touched :: "string list"

text \<open>
  \<open>apply_stream_batch\<close>, for updates that finish within their time: each comes with the
  answers it will get and whether the budget is still open when its turn comes.
\<close>

fun handle_batch ::
  "settle_arith \<Rightarrow> crypto \<Rightarrow> (event_type \<times> settlement_proposal option \<times> exec_env \<times> bool) list
     \<Rightarrow> executor \<Rightarrow> batch_outcome \<Rightarrow> executor \<times> batch_outcome \<times> nat" where
  "handle_batch A cr [] ex out = (ex, out, 0)"
| "handle_batch A cr ((ev, update, env, in_budget) # us) ex out =
     (if shutting_down ex \<or> 0 < bo_handled out \<and> \<not> in_budget then (ex, out, Suc (length us))
      else handle_batch A cr us (handle_settlement_update A cr env ev update ex)
        (out\<lparr>bo_handled := bo_handled out + 1,
             bo_affects_grid := bo_affects_grid out \<or> affects_grid ev update,
             bo_touched := (case update of Some q \<Rightarrow> add_once (sp_proposal_id q) (bo_touched out)
               | None \<Rightarrow> bo_touched out)\<rparr>))"

definition apply_stream_batch ::
  "settle_arith \<Rightarrow> crypto \<Rightarrow> nat \<Rightarrow> int \<Rightarrow> task_outcome list \<Rightarrow> nat
     \<Rightarrow> (event_type \<times> settlement_proposal option \<times> exec_env \<times> bool) list \<Rightarrow> executor
     \<Rightarrow> executor \<times> batch_outcome \<times> nat" where
  "apply_stream_batch A cr now unix_now outs permits us ex0 =
     (case handle_batch A cr us ex0 \<lparr>bo_handled = 0, bo_affects_grid = False, bo_touched = []\<rparr> of
        (ex1, out, left) \<Rightarrow>
          (case advance_proposals A now unix_now outs (bo_touched out) permits ex1 of
             (ex2, spawned) \<Rightarrow> (ex2, out, spawned)))"

end
