(* ===== verification/Tracker_Safety.thy ===== *)
theory Tracker_Safety
  imports Order_Tracker Liquidity_Safety
begin

text \<open>
  What the quantity accounting of \<open>order_tracker.rs\<close> guarantees, when a proposal is accepted,
  and that a saved tracker is restored.
\<close>

section \<open>Exact arithmetic on amounts\<close>

definition amount_ok :: "rat \<Rightarrow> bool" where
  "amount_ok x \<longleftrightarrow> ledger_amount x \<and> 0 \<le> x \<and> in_range x"

definition settle_laws :: "settle_arith \<Rightarrow> bool" where
  "settle_laws A \<longleftrightarrow> sat_laws (liq_arith.truncate A)"

lemma settle_lawsD:
  assumes "settle_laws A" and "ledger_amount a" and "ledger_amount b"
  shows "in_range (a + b) \<Longrightarrow> d_sat_add A a b = a + b"
    and "in_range (a - b) \<Longrightarrow> d_sat_sub A a b = a - b"
    and "in_range (a - b) \<Longrightarrow> d_sub A a b = Some (a - b)"
  using sat_lawsD [of "liq_arith.truncate A" a b] dec_lawsD [of "dec_arith.truncate A" a b] assms
  by (simp_all add: settle_laws_def sat_laws_def liq_arith.defs dec_arith.defs)

lemma amount_ok_le: "amount_ok b \<Longrightarrow> ledger_amount a \<Longrightarrow> 0 \<le> a \<Longrightarrow> a \<le> b \<Longrightarrow> amount_ok a"
  unfolding amount_ok_def using in_range_leI by blast

lemma amount_ok_diff: "amount_ok a \<Longrightarrow> amount_ok b \<Longrightarrow> b \<le> a \<Longrightarrow> amount_ok (a - b)"
  by (rule amount_ok_le [of a]) (auto simp: amount_ok_def intro: ledger_amount_arith)

lemma amount_ok_sum:
  "amount_ok c \<Longrightarrow> ledger_amount a \<Longrightarrow> ledger_amount b \<Longrightarrow> 0 \<le> a \<Longrightarrow> 0 \<le> b \<Longrightarrow> a + b \<le> c \<Longrightarrow> amount_ok (a + b)"
  by (rule amount_ok_le [of c]) (auto intro: ledger_amount_arith)

lemma amount_okD: "amount_ok a \<Longrightarrow> ledger_amount a" "amount_ok a \<Longrightarrow> 0 \<le> a" "amount_ok a \<Longrightarrow> in_range a"
  by (simp_all add: amount_ok_def)

lemma amount_ok_0 [simp]: "amount_ok 0"
  by (simp add: amount_ok_def)

section \<open>The invariant\<close>

definition reserved_share :: "nat \<Rightarrow> settlement_entry \<Rightarrow> rat" where
  "reserved_share order_id entry =
     (if se_reserved entry \<and> se_order_id entry = order_id then se_quantity entry else 0)"

definition reserved_for :: "order_tracker \<Rightarrow> nat \<Rightarrow> rat" where
  "reserved_for t order_id = sum_list (map (\<lambda>e. reserved_share order_id (snd e)) (settlement_orders t))"

definition order_sound :: "order_tracker \<Rightarrow> nat \<Rightarrow> tracked_order \<Rightarrow> bool" where
  "order_sound t order_id r \<longleftrightarrow> amount_ok (to_quantity r) \<and> amount_ok (settled_quantity r)
     \<and> amount_ok (pending_quantity r) \<and> settled_quantity r + pending_quantity r \<le> to_quantity r
     \<and> reserved_for t order_id \<le> pending_quantity r"

definition entry_sound :: "settlement_entry \<Rightarrow> bool" where
  "entry_sound entry \<longleftrightarrow> ledger_amount (se_quantity entry) \<and> 0 \<le> se_quantity entry"

definition tracker_inv :: "settle_arith \<Rightarrow> order_tracker \<Rightarrow> bool" where
  "tracker_inv A t \<longleftrightarrow> distinct (map fst (settlement_orders t))
     \<and> (\<forall>e \<in> set (settlement_orders t). entry_sound (snd e))
     \<and> map_of (orders t) 0 = None
     \<and> (\<forall>k r. map_of (orders t) k = Some r \<longrightarrow> order_sound t k r)
     \<and> (\<forall>f \<in> set (failed_submits t). amount_ok (parse_or_zero A (fs_quantity (snd f))))"

lemma new_tracker_inv: "tracker_inv A (new_tracker start key)"
  by (simp add: tracker_inv_def new_tracker_def)

text \<open>Sums over an association list with distinct keys.\<close>

definition share_sum :: "('v \<Rightarrow> rat) \<Rightarrow> ('k \<times> 'v) list \<Rightarrow> rat" where
  "share_sum f m = sum_list (map (\<lambda>e. f (snd e)) m)"

lemma share_sum_simps [simp]:
  "share_sum f [] = 0"
  "share_sum f (e # m) = f (snd e) + share_sum f m"
  by (simp_all add: share_sum_def)

lemma share_sum_update:
  "share_sum f (AList.update k v m) = share_sum f m + f v
     - (case map_of m k of None \<Rightarrow> 0 | Some w \<Rightarrow> f w)"
  by (induction m) (auto split: option.splits)

lemma share_sum_delete:
  "distinct (map fst m) \<Longrightarrow> share_sum f (AList.delete k m) = share_sum f m
     - (case map_of m k of None \<Rightarrow> 0 | Some w \<Rightarrow> f w)"
proof (induction m)
  case (Cons e m)
  then have "map_of m (fst e) = None" by (simp add: map_of_eq_None_iff)
  with Cons show ?case by (cases e) (auto split: option.splits)
qed simp

lemma share_sum_ge:
  "(\<And>e. e \<in> set m \<Longrightarrow> 0 \<le> f (snd e)) \<Longrightarrow> map_of m k = Some w \<Longrightarrow> f w \<le> share_sum f m"
proof (induction m)
  case (Cons e m)
  have "0 \<le> share_sum f m"
    using Cons.prems(1) unfolding share_sum_def by (intro sum_list_nonneg) auto
  with Cons show ?case by (cases e) (fastforce split: if_splits)
qed simp

lemma reserved_for_alt: "reserved_for t k = share_sum (reserved_share k) (settlement_orders t)"
  by (simp add: reserved_for_def share_sum_def)

lemma reserved_share_nonneg: "entry_sound e \<Longrightarrow> 0 \<le> reserved_share k e"
  by (simp add: reserved_share_def entry_sound_def)

lemma tracker_invD:
  assumes "tracker_inv A t"
  shows "map_of (settlement_orders t) p = Some e \<Longrightarrow> entry_sound e"
    and "map_of (orders t) k = Some r \<Longrightarrow> order_sound t k r"
    and "map_of (orders t) 0 = None"
    and "distinct (map fst (settlement_orders t))"
  using assms by (force simp: tracker_inv_def dest: map_of_SomeD)+

lemma set_update_sound:
  "(\<forall>e \<in> set m. P (snd e)) \<Longrightarrow> P v \<Longrightarrow> \<forall>e \<in> set (AList.update k v m). P (snd e)"
  by (induction m) auto

text \<open>The order of a closed or reserved settlement changes together with the reserved sum.\<close>

lemma tracker_inv_change:
  assumes inv: "tracker_inv A t"
    and keys: "distinct (map fst es)" and sound: "\<forall>e \<in> set es. entry_sound (snd e)"
    and other: "\<And>k. k \<noteq> i \<Longrightarrow> share_sum (reserved_share k) es = reserved_for t k"
    and order: "\<And>r. map_of (orders t) i = Some r \<Longrightarrow>
      order_sound (t\<lparr>settlement_orders := es\<rparr>) i (f r)"
  shows "tracker_inv A (modify_order i f (t\<lparr>settlement_orders := es\<rparr>))"
proof -
  let ?t = "modify_order i f (t\<lparr>settlement_orders := es\<rparr>)"
  have same: "settlement_orders ?t = es" "failed_submits ?t = failed_submits t"
    by (simp_all add: modify_order_def split: option.splits)
  then have shift: "order_sound ?t k r \<longleftrightarrow> order_sound (t\<lparr>settlement_orders := es\<rparr>) k r" for k r
    by (simp add: order_sound_def reserved_for_alt)
  have lookup: "map_of (orders ?t) k = (if k = i then map_option f (map_of (orders t) i) else map_of (orders t) k)"
    for k by (simp add: modify_order_def update_conv' split: option.splits)
  have "order_sound ?t k r" if "map_of (orders ?t) k = Some r" for k r
  proof (cases "k = i")
    case False
    with that have "order_sound t k r" by (simp add: lookup tracker_invD(2) [OF inv])
    with False show ?thesis
      unfolding shift by (simp add: order_sound_def reserved_for_alt other)
  qed (use that order in \<open>auto simp: lookup shift\<close>)
  moreover have "map_of (orders ?t) 0 = None"
    using tracker_invD(3) [OF inv] by (simp add: lookup)
  ultimately show ?thesis
    using inv keys sound by (simp add: tracker_inv_def same)
qed

lemma remaining_exact:
  assumes "settle_laws A" and "order_sound t k r"
  shows "remaining_capacity A r = Some (to_quantity r - settled_quantity r - pending_quantity r)"
proof -
  have a: "amount_ok (to_quantity r)" "amount_ok (settled_quantity r)" "amount_ok (pending_quantity r)"
    "settled_quantity r + pending_quantity r \<le> to_quantity r"
    using assms(2) by (simp_all add: order_sound_def)
  have "amount_ok (to_quantity r - settled_quantity r)"
    "amount_ok (to_quantity r - settled_quantity r - pending_quantity r)"
    using a amount_okD(2) [OF a(3)] by (auto intro!: amount_ok_diff)
  then show ?thesis
    using a settle_lawsD(3) [OF assms(1)] by (simp add: remaining_capacity_def amount_okD)
qed

section \<open>Steps\<close>

lemma try_reserve_inv:
  assumes laws: "settle_laws A" and inv: "tracker_inv A t"
  shows "tracker_inv A (fst (try_reserve_pending A p t))"
proof (cases "map_of (settlement_orders t) p")
  case (Some e)
  let ?i = "se_order_id e" and ?q = "se_quantity e"
  let ?es = "AList.update p (e\<lparr>se_reserved := True\<rparr>) (settlement_orders t)"
  have e: "entry_sound e" by (rule tracker_invD(1) [OF inv Some])
  have sum: "share_sum (reserved_share k) ?es = reserved_for t k + reserved_share k (e\<lparr>se_reserved := True\<rparr>)"
    if "\<not> se_reserved e" for k
    using that by (simp add: share_sum_update Some reserved_for_alt) (simp add: reserved_share_def)
  show ?thesis
  proof (cases "se_reserved e \<or> reservation_error A t e \<noteq> None")
    case False
    have "tracker_inv A (modify_order ?i
        (\<lambda>r. r\<lparr>pending_quantity := d_sat_add A (pending_quantity r) ?q\<rparr>) (t\<lparr>settlement_orders := ?es\<rparr>))"
    proof (rule tracker_inv_change [OF inv])
      fix r assume r: "map_of (orders t) ?i = Some r"
      then have s: "order_sound t ?i r" by (rule tracker_invD(2) [OF inv])
      then have a: "amount_ok (to_quantity r)" "amount_ok (settled_quantity r)"
        "amount_ok (pending_quantity r)" by (simp_all add: order_sound_def)
      have "?q \<le> to_quantity r - settled_quantity r - pending_quantity r"
        using False r tracker_invD(3) [OF inv] remaining_exact [OF laws s]
        by (auto simp: reservation_error_def split: if_splits)
      moreover from this have "pending_quantity r + ?q \<le> to_quantity r"
        using amount_okD(2) [OF a(2)] by linarith
      then have "amount_ok (pending_quantity r + ?q)"
        using e by (intro amount_ok_sum [OF a(1)]) (simp_all add: entry_sound_def amount_okD a)
      ultimately show "order_sound (t\<lparr>settlement_orders := ?es\<rparr>) ?i
          (r\<lparr>pending_quantity := d_sat_add A (pending_quantity r) ?q\<rparr>)"
        using s e a False settle_lawsD(1) [OF laws, of "pending_quantity r" ?q]
        by (simp add: order_sound_def reserved_for_alt [of "t\<lparr>settlement_orders := ?es\<rparr>"] sum
            reserved_share_def entry_sound_def amount_ok_def)
    next
      show "\<forall>x \<in> set ?es. entry_sound (snd x)"
        using inv e by (intro set_update_sound) (simp_all add: tracker_inv_def entry_sound_def)
    next
      show "distinct (map fst ?es)" by (simp add: distinct_update tracker_invD(4) [OF inv])
    qed (use False in \<open>simp add: sum, simp add: reserved_share_def\<close>)
    with False Some show ?thesis by (auto simp: try_reserve_pending_def)
  qed (use inv Some in \<open>auto simp: try_reserve_pending_def\<close>)
qed (simp add: try_reserve_pending_def inv)

lemma close_settlement_inv:
  assumes inv: "tracker_inv A t"
    and close: "\<And>e r. entry_sound e \<Longrightarrow> se_reserved e \<Longrightarrow> order_sound t (se_order_id e) r \<Longrightarrow>
      se_quantity e \<le> reserved_for t (se_order_id e) \<Longrightarrow>
      amount_ok (to_quantity (f e r)) \<and> amount_ok (settled_quantity (f e r))
      \<and> amount_ok (pending_quantity (f e r))
      \<and> settled_quantity (f e r) + pending_quantity (f e r) \<le> to_quantity (f e r)
      \<and> pending_quantity (f e r) = pending_quantity r - se_quantity e"
  shows "tracker_inv A (close_settlement f p t)"
proof (cases "map_of (settlement_orders t) p")
  case (Some e)
  let ?i = "se_order_id e" and ?es = "AList.delete p (settlement_orders t)"
  have e: "entry_sound e" by (rule tracker_invD(1) [OF inv Some])
  have keys: "distinct (map fst ?es)" and sound: "\<forall>x \<in> set ?es. entry_sound (snd x)"
    using inv by (simp_all add: tracker_inv_def distinct_delete) (auto simp: AList.delete_eq)
  have sum: "share_sum (reserved_share k) ?es = reserved_for t k - reserved_share k e" for k
    by (simp add: share_sum_delete tracker_invD(4) [OF inv] Some reserved_for_alt)
  have le: "reserved_share ?i e \<le> reserved_for t ?i"
    unfolding reserved_for_alt using inv
    by (intro share_sum_ge [OF _ Some] reserved_share_nonneg) (simp add: tracker_inv_def)
  show ?thesis
  proof (cases "se_reserved e")
    case True
    have "tracker_inv A (modify_order ?i (f e) (t\<lparr>settlement_orders := ?es\<rparr>))"
    proof (rule tracker_inv_change [OF inv keys sound])
      fix r assume "map_of (orders t) ?i = Some r"
      then have r: "order_sound t ?i r" by (rule tracker_invD(2) [OF inv])
      then have "reserved_for t ?i \<le> pending_quantity r" by (simp add: order_sound_def)
      then show "order_sound (t\<lparr>settlement_orders := ?es\<rparr>) ?i (f e r)"
        using close [OF e True r] le True unfolding order_sound_def
        by (simp add: reserved_for_alt [of "t\<lparr>settlement_orders := ?es\<rparr>"] sum reserved_share_def) metis
    qed (simp add: sum, simp add: reserved_share_def)
    with True Some show ?thesis by (simp add: close_settlement_def Let_def)
  next
    case False
    then have "order_sound (t\<lparr>settlement_orders := ?es\<rparr>) k r \<longleftrightarrow> order_sound t k r" for k r
      by (simp add: order_sound_def reserved_for_alt [of "t\<lparr>settlement_orders := ?es\<rparr>"] sum reserved_share_def)
    with False Some inv keys sound show ?thesis
      by (simp add: close_settlement_def Let_def tracker_inv_def)
  qed
qed (simp add: close_settlement_def inv)

lemma release_exact:
  assumes "settle_laws A" and "entry_sound e" and "order_sound t i r" and "se_quantity e \<le> reserved_for t i"
  shows "pending_quantity (release_pending A (se_quantity e) r) = pending_quantity r - se_quantity e"
    and "amount_ok (se_quantity e)" and "amount_ok (pending_quantity r - se_quantity e)"
proof -
  have p: "amount_ok (pending_quantity r)" and le: "se_quantity e \<le> pending_quantity r"
    using assms(3,4) by (simp_all add: order_sound_def)
  show q: "amount_ok (se_quantity e)"
    by (rule amount_ok_le [OF p]) (use assms(2) le in \<open>simp_all add: entry_sound_def\<close>)
  show d: "amount_ok (pending_quantity r - se_quantity e)" by (rule amount_ok_diff [OF p q le])
  show "pending_quantity (release_pending A (se_quantity e) r) = pending_quantity r - se_quantity e"
    using settle_lawsD(2) [OF assms(1) amount_okD(1) [OF p] amount_okD(1) [OF q] amount_okD(3) [OF d]] le
    by (simp add: release_pending_def)
qed

lemma mark_failed_inv:
  assumes "settle_laws A" and "tracker_inv A t"
  shows "tracker_inv A (mark_failed A p t)"
  unfolding mark_failed_def
proof (rule close_settlement_inv [OF assms(2)])
  fix e r assume "entry_sound e" "order_sound t (se_order_id e) r" "se_quantity e \<le> reserved_for t (se_order_id e)"
  note x = release_exact [OF assms(1) this] and s = this
  show "amount_ok (to_quantity (release_pending A (se_quantity e) r))
      \<and> amount_ok (settled_quantity (release_pending A (se_quantity e) r))
      \<and> amount_ok (pending_quantity (release_pending A (se_quantity e) r))
      \<and> settled_quantity (release_pending A (se_quantity e) r)
          + pending_quantity (release_pending A (se_quantity e) r)
        \<le> to_quantity (release_pending A (se_quantity e) r)
      \<and> pending_quantity (release_pending A (se_quantity e) r) = pending_quantity r - se_quantity e"
    using x s by (simp only: x(1)) (auto simp: release_pending_def order_sound_def entry_sound_def)
qed

lemma mark_settled_inv:
  assumes "settle_laws A" and "tracker_inv A t"
  shows "tracker_inv A (mark_settled A p t)"
  unfolding mark_settled_def
proof (rule close_settlement_inv [OF assms(2)])
  fix e r assume "entry_sound e" "order_sound t (se_order_id e) r" "se_quantity e \<le> reserved_for t (se_order_id e)"
  note x = release_exact [OF assms(1) this] and s = this
  let ?r = "(release_pending A (se_quantity e) r)
    \<lparr>settled_quantity := d_sat_add A (settled_quantity r) (se_quantity e)\<rparr>"
  have o: "amount_ok (to_quantity r)" "amount_ok (settled_quantity r)"
    "settled_quantity r + pending_quantity r \<le> to_quantity r"
    using s(2) by (simp_all add: order_sound_def)
  have "settled_quantity r + se_quantity e \<le> to_quantity r"
    using o(3) amount_okD(2) [OF x(3)] by simp
  then have sum: "amount_ok (settled_quantity r + se_quantity e)"
    by (intro amount_ok_sum [OF o(1)]) (simp_all add: amount_okD o x(2))
  then have "settled_quantity ?r = settled_quantity r + se_quantity e"
    using settle_lawsD(1) [OF assms(1)] o(2) x(2) by (simp add: amount_okD)
  moreover have "to_quantity ?r = to_quantity r" "pending_quantity ?r = pending_quantity r - se_quantity e"
    using x(1) by (simp_all add: release_pending_def)
  ultimately show "amount_ok (to_quantity ?r) \<and> amount_ok (settled_quantity ?r)
      \<and> amount_ok (pending_quantity ?r) \<and> settled_quantity ?r + pending_quantity ?r \<le> to_quantity ?r
      \<and> pending_quantity ?r = pending_quantity r - se_quantity e"
    using o sum x(3) by simp
qed

section \<open>Runs\<close>

datatype tracker_event =
    Begin string
  | Drop_Guard string
  | Note_Failed failed_submit nat
  | Track nat string int string string nat string bytes
  | Adopt_Failed server_order nat
  | Import_Order server_order settlement_proposal
  | Record_Adoption string nat rat
  | Reserve string
  | Settled string
  | Failed string
  | Cancel nat
  | Cancel_All

fun tracker_step :: "settle_arith \<Rightarrow> crypto \<Rightarrow> order_tracker \<Rightarrow> tracker_event \<Rightarrow> order_tracker" where
  "tracker_step A cr t (Begin m) = begin_placement m t"
| "tracker_step A cr t (Drop_Guard m) = drop_placement m t"
| "tracker_step A cr t (Note_Failed s now) = note_submit_failed s now t"
| "tracker_step A cr t (Track i m ty price quantity nonce sig data) =
     track_order A i m ty price quantity nonce sig data t"
| "tracker_step A cr t (Adopt_Failed r now) = fst (adopt_failed_submit A r now t)"
| "tracker_step A cr t (Import_Order r proposal) = fst (verify_and_import_order A cr r proposal t)"
| "tracker_step A cr t (Record_Adoption p i quantity) = record_settlement_order p i quantity t"
| "tracker_step A cr t (Reserve p) = fst (try_reserve_pending A p t)"
| "tracker_step A cr t (Settled p) = mark_settled A p t"
| "tracker_step A cr t (Failed p) = mark_failed A p t"
| "tracker_step A cr t (Cancel i) = cancel_order i t"
| "tracker_step A cr t Cancel_All = cancel_all t"

text \<open>
  What is expected of the server and of the callers: a new order comes with a fresh id that
  no settlement refers to, amounts are ledger amounts, and a server order is not already
  over-filled. An id is tracked at most once.
\<close>

definition fresh_id :: "order_tracker \<Rightarrow> nat \<Rightarrow> bool" where
  "fresh_id t i \<longleftrightarrow> i \<noteq> 0 \<and> map_of (orders t) i = None
     \<and> (\<forall>e \<in> set (settlement_orders t). se_order_id (snd e) \<noteq> i)"

fun tracker_enabled :: "settle_arith \<Rightarrow> order_tracker \<Rightarrow> tracker_event \<Rightarrow> bool" where
  "tracker_enabled A t (Note_Failed s now) \<longleftrightarrow> amount_ok (parse_or_zero A (fs_quantity s))"
| "tracker_enabled A t (Track i m ty price quantity nonce sig data) \<longleftrightarrow>
     fresh_id t i \<and> amount_ok (parse_or_zero A quantity)"
| "tracker_enabled A t (Adopt_Failed r now) \<longleftrightarrow>
     map_of (orders t) (so_order_id r) \<noteq> None \<or> fresh_id t (so_order_id r)"
| "tracker_enabled A t (Import_Order r proposal) \<longleftrightarrow>
     map_of (orders t) (so_order_id r) \<noteq> None \<or> fresh_id t (so_order_id r)
       \<and> amount_ok (parse_or_zero A (so_quantity r)) \<and> amount_ok (parse_or_zero A (so_filled_quantity r))
       \<and> amount_ok (parse_or_zero A (so_pending_quantity r))
       \<and> parse_or_zero A (so_filled_quantity r) + parse_or_zero A (so_pending_quantity r)
         \<le> parse_or_zero A (so_quantity r)"
| "tracker_enabled A t (Record_Adoption p i quantity) \<longleftrightarrow> ledger_amount quantity \<and> 0 \<le> quantity"
| "tracker_enabled A t _ \<longleftrightarrow> True"

lemma fresh_not_reserved: "fresh_id t i \<Longrightarrow> reserved_for t i = 0"
  unfolding reserved_for_def
  by (subst sum_list_nonneg_eq_0_iff) (auto simp: fresh_id_def reserved_share_def)

lemma tracker_inv_new_order:
  assumes "tracker_inv A t" and "fresh_id t i" and "amount_ok (to_quantity r)"
    and "amount_ok (settled_quantity r)" and "amount_ok (pending_quantity r)"
    and "settled_quantity r + pending_quantity r \<le> to_quantity r"
  shows "tracker_inv A (t\<lparr>orders := AList.update i r (orders t)\<rparr>)"
  using assms fresh_not_reserved [OF assms(2)]
  by (auto simp: tracker_inv_def update_conv' order_sound_def reserved_for_def fresh_id_def amount_okD
      split: if_splits)

lemma tracker_inv_frame:
  "tracker_inv A t \<Longrightarrow> orders t' = orders t \<Longrightarrow> settlement_orders t' = settlement_orders t \<Longrightarrow>
   set (failed_submits t') \<subseteq> set (failed_submits t) \<Longrightarrow> tracker_inv A t'"
  by (auto simp: tracker_inv_def order_sound_def reserved_for_def)

lemma set_pop_excess: "set (pop_excess q) \<subseteq> set q"
proof (induction q rule: pop_excess.induct)
  case (1 q)
  have "set (tl q) \<subseteq> set q" by (cases q) auto
  with 1 show ?case by (subst pop_excess.simps) auto
qed

lemma take_firstD: "take_first P xs = Some (x, ys) \<Longrightarrow> P x \<and> x \<in> set xs \<and> set ys \<subseteq> set xs"
  by (induction xs arbitrary: ys) (auto split: if_splits)

lemma track_order_inv:
  assumes "tracker_inv A t" and "fresh_id t i" and "amount_ok (parse_or_zero A quantity)"
  shows "tracker_inv A (track_order A i m ty price quantity nonce sig data t)"
  unfolding track_order_def by (rule tracker_inv_new_order [OF assms(1,2)]) (simp_all add: assms amount_okD)

lemma note_submit_failed_inv:
  assumes "tracker_inv A t" and "amount_ok (parse_or_zero A (fs_quantity s))"
  shows "tracker_inv A (note_submit_failed s now t)"
  using assms set_pop_excess
  by (fastforce simp: tracker_inv_def note_submit_failed_def prune_failed_submits_def Let_def
      order_sound_def reserved_for_def)

lemma adopt_failed_inv:
  assumes inv: "tracker_inv A t" and "map_of (orders t) (so_order_id r) \<noteq> None \<or> fresh_id t (so_order_id r)"
  shows "tracker_inv A (fst (adopt_failed_submit A r now t))"
proof -
  let ?t = "prune_failed_submits now t"
  have t: "tracker_inv A ?t" "fresh_id ?t i \<longleftrightarrow> fresh_id t i" for i
    using inv by (auto simp: prune_failed_submits_def fresh_id_def intro: tracker_inv_frame)
  show ?thesis
  proof (cases "so_order_id r \<notin> fst ` set (orders ?t) \<and> take_first (adopts r) (failed_submits ?t) \<noteq> None")
    case True
    then obtain x s rest where x: "take_first (adopts r) (failed_submits ?t) = Some ((x, s), rest)" by auto
    note in_queue = take_firstD [OF x]
    have "tracker_inv A (?t\<lparr>failed_submits := rest\<rparr>)"
      by (rule tracker_inv_frame [OF t(1)]) (use in_queue in auto)
    moreover have "fresh_id (?t\<lparr>failed_submits := rest\<rparr>) (so_order_id r)"
      using True assms(2) by (auto simp: fresh_id_def prune_failed_submits_def map_of_eq_None_iff)
    moreover have "amount_ok (parse_or_zero A (fs_quantity s))"
      using t(1) in_queue by (auto simp: tracker_inv_def)
    ultimately show ?thesis
      using True x by (simp add: adopt_failed_submit_def Let_def track_order_inv)
  next
    case False
    then have "so_order_id r \<in> fst ` set (orders ?t) \<or> take_first (adopts r) (failed_submits ?t) = None"
      by blast
    with t(1) show ?thesis by (auto simp: adopt_failed_submit_def Let_def)
  qed
qed

lemma import_inv:
  assumes "tracker_inv A t" and "tracker_enabled A t (Import_Order r proposal)"
  shows "tracker_inv A (fst (verify_and_import_order A cr r proposal t))"
proof -
  have "tracker_inv A (import_order_from_server A r t)"
  proof (cases "so_order_id r \<in> fst ` set (orders t)")
    case False
    then have "map_of (orders t) (so_order_id r) = None" by (simp add: map_of_eq_None_iff)
    with assms show ?thesis
      by (simp add: import_order_from_server_def False tracker_inv_new_order)
  qed (simp add: import_order_from_server_def assms)
  with assms(1) show ?thesis
    by (simp add: verify_and_import_order_def Let_def split: option.splits)
qed

lemma record_inv:
  assumes "tracker_inv A t" and "ledger_amount quantity" and "0 \<le> quantity"
  shows "tracker_inv A (record_settlement_order p i quantity t)"
proof (cases "p \<in> fst ` set (settlement_orders t)")
  case False
  let ?e = "\<lparr>se_order_id = i, se_quantity = quantity, se_reserved = False\<rparr>"
  have none: "map_of (settlement_orders t) p = None" using False by (simp add: map_of_eq_None_iff)
  have "share_sum (reserved_share k) (AList.update p ?e (settlement_orders t)) = reserved_for t k" for k
    by (simp add: share_sum_update none reserved_for_alt reserved_share_def)
  moreover have "\<forall>x \<in> set (AList.update p ?e (settlement_orders t)). entry_sound (snd x)"
    using assms by (intro set_update_sound) (simp_all add: tracker_inv_def entry_sound_def)
  ultimately show ?thesis
    using False assms(1)
    by (simp add: record_settlement_order_def tracker_inv_def order_sound_def distinct_update
        reserved_for_alt)
qed (simp add: record_settlement_order_def assms)

lemma tracker_step_inv:
  assumes "settle_laws A" and "tracker_inv A t" and "tracker_enabled A t e"
  shows "tracker_inv A (tracker_step A cr t e)"
proof (cases e)
  case (Cancel i)
  with assms(2) show ?thesis
    by (auto simp: cancel_order_def modify_order_def tracker_inv_def update_conv' order_sound_def
        reserved_for_def split: option.splits if_splits)
next
  case Cancel_All
  with assms(2) show ?thesis
    by (auto simp: cancel_all_def tracker_inv_def AList.map_ran_conv order_sound_def reserved_for_def)
qed (use assms in \<open>auto simp: begin_placement_def drop_placement_def note_submit_failed_inv
    track_order_inv adopt_failed_inv import_inv record_inv try_reserve_inv mark_settled_inv mark_failed_inv
    intro: tracker_inv_frame split: option.splits\<close>)

interpretation accounting: guarded "tracker_step A cr" "\<lambda>t. settle_laws A \<and> tracker_inv A t" "tracker_enabled A"
  for A cr
proof
  fix t :: order_tracker and e
  show "settle_laws A \<and> tracker_inv A t \<Longrightarrow> tracker_enabled A t e \<Longrightarrow>
      settle_laws A \<and> tracker_inv A (tracker_step A cr t e)"
    by (simp add: tracker_step_inv)
qed

section \<open>Properties\<close>


text \<open>
  C32: A proposal is accepted exactly when it names a tracked order of ours whose stored data
  carries a signature by our key, whose nonce is later than the start, and whose remaining
  quantity covers the positive base quantity asked for; an order is looked up on the server
  only while no placement of its market is unconfirmed. Price, quote quantity, instruments
  and fees play no part in the verdict.
\<close>

theorem settlement_verdict:
  "(verify_settlement A cr now t proposal our_party = Accepted i \<longleftrightarrow>
     (\<exists>om r key remaining. sp_order_match proposal = Some om \<and> i = our_order_id proposal our_party om
        \<and> map_of (orders t) i = Some r \<and> private_key t = Inr key
        \<and> verify_order_signature cr key (to_signed_data r) (to_signature r)
        \<and> start_time_ms t < to_nonce r \<and> 0 < parse_or_zero A (sp_base_quantity proposal)
        \<and> remaining_capacity A r = Some remaining
        \<and> parse_or_zero A (sp_base_quantity proposal) \<le> remaining))
   \<and> (verify_settlement A cr now t proposal our_party = NeedServerLookup i \<longleftrightarrow>
     (\<exists>om. sp_order_match proposal = Some om \<and> i = our_order_id proposal our_party om
        \<and> map_of (orders t) i = None \<and> \<not> placement_in_flight t (sp_market_id proposal)
        \<and> \<not> submit_failed_recently t (sp_market_id proposal) now))
   \<and> verify_settlement A cr now t (proposal\<lparr>sp_settlement_price := price, sp_quote_quantity := quote,
       sp_base_instrument := b, sp_quote_instrument := q, sp_dvp_fee_buyer := f1, sp_dvp_fee_seller := f2,
       sp_alloc_fee_buyer := f3, sp_alloc_fee_seller := f4\<rparr>) our_party
     = verify_settlement A cr now t proposal our_party"
proof -
  note defs = verify_settlement_def verify_tracked_order_def check_signed_def check_capacity_def Let_def
  have "verify_settlement A cr now t proposal our_party = Accepted i \<longleftrightarrow>
     (\<exists>om r key remaining. sp_order_match proposal = Some om \<and> i = our_order_id proposal our_party om
        \<and> map_of (orders t) i = Some r \<and> private_key t = Inr key
        \<and> verify_order_signature cr key (to_signed_data r) (to_signature r)
        \<and> start_time_ms t < to_nonce r \<and> 0 < parse_or_zero A (sp_base_quantity proposal)
        \<and> remaining_capacity A r = Some remaining
        \<and> parse_or_zero A (sp_base_quantity proposal) \<le> remaining)"
    by (cases "private_key t") (auto simp: defs not_less not_le split: option.splits)
  moreover have "verify_settlement A cr now t proposal our_party = NeedServerLookup i \<longleftrightarrow>
     (\<exists>om. sp_order_match proposal = Some om \<and> i = our_order_id proposal our_party om
        \<and> map_of (orders t) i = None \<and> \<not> placement_in_flight t (sp_market_id proposal)
        \<and> \<not> submit_failed_recently t (sp_market_id proposal) now)"
    by (cases "private_key t") (auto simp: defs split: option.splits)
  moreover have "verify_settlement A cr now t (proposal\<lparr>sp_settlement_price := price, sp_quote_quantity := quote,
       sp_base_instrument := b, sp_quote_instrument := q, sp_dvp_fee_buyer := f1, sp_dvp_fee_seller := f2,
       sp_alloc_fee_buyer := f3, sp_alloc_fee_seller := f4\<rparr>) our_party
     = verify_settlement A cr now t proposal our_party"
    by (simp add: verify_settlement_def verify_tracked_order_def our_order_id_def Let_def
        split: option.split)
  ultimately show ?thesis by simp
qed

definition is_decimal :: "rat \<Rightarrow> bool" where
  "is_decimal r \<longleftrightarrow> (\<exists>k \<le> 28. r * 10 ^ k \<in> \<int> \<and> \<bar>r\<bar> * 10 ^ k < 2 ^ 96)"

definition text_laws :: "settle_arith \<Rightarrow> crypto \<Rightarrow> bool" where
  "text_laws A cr \<longleftrightarrow> (\<forall>r. is_decimal r \<longrightarrow> d_parse A (d_text A r) = Some r)
     \<and> (\<forall>b. cr_unb64 cr (cr_b64 cr b) = Inr b)"

definition order_decimals :: "tracked_order \<Rightarrow> bool" where
  "order_decimals r \<longleftrightarrow> is_decimal (to_price r) \<and> is_decimal (to_quantity r)
     \<and> is_decimal (settled_quantity r) \<and> is_decimal (pending_quantity r)"

lemma saved_ids [simp]:
  "sto_order_id (save_order A cr r) = to_order_id r"
  "sso_proposal_id (save_entry A x) = fst x"
  by (simp_all add: save_order_def save_entry_def split_beta)

lemma load_save_order: "text_laws A cr \<Longrightarrow> order_decimals r \<Longrightarrow> load_order A cr (save_order A cr r) = r"
  by (simp add: text_laws_def order_decimals_def load_order_def save_order_def parse_or_zero_def)

lemma load_save_entry:
  "text_laws A cr \<Longrightarrow> is_decimal (se_quantity e) \<Longrightarrow> load_entry A (save_entry A (p, e)) = e"
  by (simp add: text_laws_def load_entry_def save_entry_def parse_or_zero_def)

lemma update_new: "k \<notin> fst ` set m \<Longrightarrow> AList.update k v m = m @ [(k, v)]"
  by (induction m) auto

lemma foldl_update_new:
  "distinct (map fst m @ map f xs) \<Longrightarrow>
   foldl (\<lambda>m x. AList.update (f x) (g x) m) m xs = m @ map (\<lambda>x. (f x, g x)) xs"
  by (induction xs arbitrary: m) (auto simp: update_new)

text \<open>
  A tracker restored from its export holds the same orders and settlement records, up to
  the placements in flight and the failed submits, which are not saved (for a decimal text
  and a base64 that read back as they were written).
\<close>

theorem tracker_restored:
  assumes "text_laws A cr" and "distinct (map fst (orders t))" and "distinct (map fst (settlement_orders t))"
    and "\<forall>(k, r) \<in> set (orders t). to_order_id r = k \<and> order_decimals r"
    and "\<forall>(p, e) \<in> set (settlement_orders t). is_decimal (se_quantity e)"
  defines "saved \<equiv> export_state A cr t"
  shows "import_state A cr (fst (snd saved)) (snd (snd saved)) (new_tracker (fst saved) (private_key t))
    = t\<lparr>placing := [], submit_failed_at := [], failed_submits := []\<rparr>"
proof -
  have o: "map (\<lambda>s. (sto_order_id s, load_order A cr s)) (map (\<lambda>(k, r). save_order A cr r) (orders t)) = orders t"
    using assms(4)
    by (auto simp: load_save_order [OF assms(1)] intro!: map_idI)
  have e: "map (\<lambda>s. (sso_proposal_id s, load_entry A s)) (map (save_entry A) (settlement_orders t))
      = settlement_orders t"
    using assms(5)
    by (auto simp: load_save_entry [OF assms(1)] intro!: map_idI)
  have "map sto_order_id (map (\<lambda>(k, r). save_order A cr r) (orders t)) = map fst (orders t)"
    using arg_cong [OF o, of "map fst"] by (simp add: comp_def)
  then have "foldl (\<lambda>m s. AList.update (sto_order_id s) (load_order A cr s) m) []
      (map (\<lambda>(k, r). save_order A cr r) (orders t)) = orders t"
    using assms(2) o by (subst foldl_update_new) (simp_all del: map_map map_eq_conv)
  moreover have "map sso_proposal_id (map (save_entry A) (settlement_orders t)) = map fst (settlement_orders t)"
    using arg_cong [OF e, of "map fst"] by (simp add: comp_def)
  then have "foldl (\<lambda>m s. AList.update (sso_proposal_id s) (load_entry A s) m) []
      (map (save_entry A) (settlement_orders t)) = settlement_orders t"
    using assms(3) e by (subst foldl_update_new) (simp_all del: map_map map_eq_conv)
  ultimately show ?thesis
    by (simp add: saved_def import_state_def export_state_def new_tracker_def)
qed

section \<open>Witnesses\<close>

definition parse_int :: "string \<Rightarrow> int option" where
  "parse_int s = (case s of c # cs \<Rightarrow> if c = CHR ''-'' then map_option uminus (digits_val 0 cs)
     else digits_val 0 s | [] \<Rightarrow> None)"

lemma parse_int_show [simp]: "parse_int (show_int i) = Some i"
proof (cases "i < 0")
  case False
  obtain c cs where c: "show_nat (nat i) = c # cs" by (cases "show_nat (nat i)") auto
  then have "c \<noteq> CHR ''-''" using show_nat_no_char [of "CHR ''-''" "nat i"] by auto
  with c False digits_val_show_nat [of "nat i"] show ?thesis by (simp add: parse_int_def show_int_def)
qed (simp add: parse_int_def show_int_def)

definition sample_text :: "rat \<Rightarrow> string" where
  "sample_text r = (case quotient_of r of (n, d) \<Rightarrow> show_int n @ CHR ''/'' # show_int d)"

definition sample_read :: "string \<Rightarrow> rat option" where
  "sample_read s = (case split_on CHR ''/'' s of
       [a] \<Rightarrow> map_option of_int (parse_int a)
     | [a, b] \<Rightarrow> (case (parse_int a, parse_int b) of (Some n, Some d) \<Rightarrow> Some (of_int n / of_int d) | _ \<Rightarrow> None)
     | _ \<Rightarrow> None)"

lemma sample_read_text: "sample_read (sample_text r) = Some r"
proof -
  obtain n d where q: "quotient_of r = (n, d)" by (cases "quotient_of r") auto
  have slash: "CHR ''/'' \<notin> set (show_int i)" for i
    by (rule show_int_no_char) (simp_all add: digit_val_def)
  have "r = of_int n / of_int d" by (rule quotient_of_div [OF q])
  with q show ?thesis
    by (simp add: sample_read_def sample_text_def split_on_append split_on_sep_free slash)
qed

definition settle_sample :: settle_arith where
  "settle_sample = liq_arith.extend sample_arith \<lparr>d_parse = sample_read, d_text = sample_text\<rparr>"

lemma settle_sample_laws: "settle_laws settle_sample"
  using sample_arith_laws
  by (simp add: settle_laws_def settle_sample_def sample_arith_def liq_arith.defs dec_arith.defs
      sat_laws_def exact_arith_def)

lemma sample_text_laws: "text_laws settle_sample sample_crypto"
  by (simp add: text_laws_def settle_sample_def sample_read_text sample_crypto_def liq_arith.defs)

definition tracker_events :: "tracker_event list" where
  "tracker_events = [Track 7 ''m'' 1 ''2'' ''10'' 5 ''s'' [], Record_Adoption ''p'' 7 4,
     Record_Adoption ''q'' 7 8, Reserve ''p'', Reserve ''q'', Settled ''p'']"

definition sample_tracked :: "rat \<Rightarrow> tracked_order" where
  "sample_tracked settled = \<lparr>to_order_id = 7, to_market_id = ''m'', to_order_type = 1, to_price = 2,
     to_quantity = 10, settled_quantity = settled, pending_quantity = 0, to_nonce = 5,
     to_signature = ''s'', to_signed_data = [], placed_by = ''agent'', is_active = True\<rparr>"

lemma sample_reads [simp]: "parse_or_zero settle_sample ''2'' = 2" "parse_or_zero settle_sample ''10'' = 10"
  by (simp_all add: parse_or_zero_def settle_sample_def liq_arith.defs sample_read_def parse_int_def
      digit_val_def)

lemma settle_sample_ops [simp]:
  "d_sat_add settle_sample = (+)" "d_sat_sub settle_sample = (-)"
  "d_sub settle_sample a b = (if in_range (a - b) then Some (a - b) else None)"
  by (simp_all add: settle_sample_def sample_arith_def liq_arith.defs dec_arith.defs exact_arith_def)

lemma tracker_events_run:
  "run (tracker_step settle_sample sample_crypto) (new_tracker 0 (Inr [1])) tracker_events =
     (new_tracker 0 (Inr [1]))\<lparr>orders := [(7, sample_tracked 4)],
       settlement_orders := [(''q'', \<lparr>se_order_id = 7, se_quantity = 8, se_reserved = False\<rparr>)]\<rparr>"
  by (simp add: tracker_events_def new_tracker_def track_order_def record_settlement_order_def
      try_reserve_pending_def reservation_error_def remaining_capacity_def modify_order_def
      mark_settled_def close_settlement_def release_pending_def sample_tracked_def in_range_def Let_def)

lemma ledger_in_range: "amount_ok 2" "amount_ok 4" "amount_ok 8" "amount_ok 10"
  by (simp_all add: amount_ok_def in_range_def)

lemma tracker_events_enabled:
  "enabled_run (tracker_step settle_sample sample_crypto) (tracker_enabled settle_sample)
     (new_tracker 0 (Inr [1])) tracker_events"
  by (simp add: tracker_events_def new_tracker_def fresh_id_def ledger_in_range)


theorem tracker_restored_witness:
  "let t = run (tracker_step settle_sample sample_crypto) (new_tracker 0 (Inr [1])) tracker_events;
       saved = export_state settle_sample sample_crypto t
   in import_state settle_sample sample_crypto (fst (snd saved)) (snd (snd saved))
        (new_tracker (fst saved) (private_key t)) = t"
proof -
  let ?t = "run (tracker_step settle_sample sample_crypto) (new_tracker 0 (Inr [1])) tracker_events"
  have decimals: "is_decimal 0" "is_decimal 2" "is_decimal 4" "is_decimal 8" "is_decimal 10"
    unfolding is_decimal_def by (rule exI [of _ 0], simp)+
  have "distinct (map fst (orders ?t))" "distinct (map fst (settlement_orders ?t))"
    "\<forall>(k, r) \<in> set (orders ?t). to_order_id r = k \<and> order_decimals r"
    "\<forall>(p, e) \<in> set (settlement_orders ?t). is_decimal (se_quantity e)"
    by (simp_all add: tracker_events_run sample_tracked_def order_decimals_def decimals)
  note restored = tracker_restored [OF sample_text_laws this]
  have "?t\<lparr>placing := [], submit_failed_at := [], failed_submits := []\<rparr> = ?t"
    unfolding tracker_events_run by (simp add: new_tracker_def)
  then show ?thesis using restored unfolding Let_def by (rule subst)
qed

end
