(* ===== verification/Step_Safety.thy ===== *)
theory Step_Safety
  imports Settlement_Step Tracker_Safety
begin

text \<open>
  What a step of a settlement guarantees: a reservation is made once and covers every step
  that moves funds, nothing is half-recorded when it fails, and no step goes past its
  deadline or over a leg that does not resolve.
\<close>

section \<open>The reservation\<close>

definition reserved_in :: "order_tracker \<Rightarrow> string \<Rightarrow> bool" where
  "reserved_in t p = (case map_of (settlement_orders t) p of Some e \<Rightarrow> se_reserved e | None \<Rightarrow> False)"

definition committed_in :: "liquidity \<Rightarrow> string \<Rightarrow> bool" where
  "committed_in lm p = (case lm of Some (m, s) \<Rightarrow> has_commitment s p | None \<Rightarrow> True)"

definition flows_of :: "liquidity \<Rightarrow> (string \<times> token_flow) list option" where
  "flows_of lm = map_option (\<lambda>(m, s). flows s) lm"

lemma commit_reserved_ok:
  "commit_reserved A state c p lm = (lm', Inr u) \<Longrightarrow> committed_in lm' p"
  using has_commitment_put
  by (auto simp: commit_reserved_def committed_in_def try_commit_def Let_def
      split: option.splits prod.splits sum.splits if_splits)

lemma commit_reserved_done: "committed_in lm p \<Longrightarrow> commit_reserved A state c p lm = (lm, Inr ())"
  by (auto simp: commit_reserved_def committed_in_def split: option.splits prod.splits)

lemma commit_reserved_flows: "commit_reserved A state c p lm = (lm', r) \<Longrightarrow> flows_of lm' = flows_of lm"
  by (auto simp: commit_reserved_def flows_of_def try_commit_def put_commitment_def Let_def
      split: option.splits prod.splits sum.splits if_splits)

lemma book_outflow_committed [simp]: "committed_in (book_outflow A now state c lm) p = committed_in lm p"
  by (auto simp: book_outflow_def committed_in_def has_commitment_def record_outflow_def Let_def
      split: option.splits prod.splits)

lemma modify_order_entries [simp]: "settlement_orders (modify_order i f t) = settlement_orders t"
  by (simp add: modify_order_def split: option.splits)

lemma try_reserve_ok: "try_reserve_pending A p t = (t', Inr b) \<Longrightarrow> reserved_in t' p"
  by (auto simp: try_reserve_pending_def reserved_in_def update_conv' split: option.splits if_splits)

lemma try_reserve_done: "reserved_in t p \<Longrightarrow> try_reserve_pending A p t = (t, Inr False)"
  by (auto simp: try_reserve_pending_def reserved_in_def split: option.splits)

lemma try_reserve_failed: "try_reserve_pending A p t = (t', Inl e) \<Longrightarrow> t' = t"
  by (auto simp: try_reserve_pending_def split: option.splits if_splits)

lemma ensure_reserved_done:
  "reserved_in t p \<Longrightarrow> committed_in lm p \<Longrightarrow> ensure_reserved A now state c p (lm, t) = ((lm, t), Inr ())"
  by (simp add: ensure_reserved_def commit_reserved_done try_reserve_done)

lemma ensure_reserved_ok:
  "ensure_reserved A now state c p w = ((lm, t), Inr u) \<Longrightarrow> reserved_in t p \<and> committed_in lm p"
  by (cases w) (auto simp: ensure_reserved_def split: prod.splits sum.splits if_splits
      dest: commit_reserved_ok try_reserve_ok)

text \<open>
  A reservation that succeeds is made once: repeated, it changes nothing, so the outflow
  is booked a single time. One that fails leaves the order tracker and the flows as they
  were, and at most the commitment is kept for the retry.
\<close>

theorem reservation_made_once:
  "case ensure_reserved A now state c p (lm, t) of
     (w', Inr u) \<Rightarrow> ensure_reserved A now' state' c' p w' = (w', Inr ())
   | ((lm', t'), Inl e) \<Rightarrow> t' = t \<and> flows_of lm' = flows_of lm"
proof (cases "ensure_reserved A now state c p (lm, t)")
  case (Pair w' r)
  obtain lm' t' where w: "w' = (lm', t')" by (cases w')
  show ?thesis
  proof (cases r)
    case (Inr u)
    with Pair w have "reserved_in t' p" "committed_in lm' p" using ensure_reserved_ok by blast+
    then show ?thesis unfolding Pair w Inr by (simp add: ensure_reserved_done)
  next
    case (Inl e)
    with Pair w show ?thesis
      by (auto simp: ensure_reserved_def split: prod.splits sum.splits if_splits
          dest: commit_reserved_flows try_reserve_failed)
  qed
qed

section \<open>What a step may do\<close>

definition moves_funds :: "server_call list \<Rightarrow> advance_result \<Rightarrow> bool" where
  "moves_funds calls r \<longleftrightarrow>
     list_ex (\<lambda>x. case x of Submit_Preconfirmation b \<Rightarrow> False | _ \<Rightarrow> True) calls
     \<or> (case r of NeedsAllocate p cid cc b \<Rightarrow> True | _ \<Rightarrow> False)"

lemma perform_reserved:
  "perform A c sd env status action p state t = (t', calls, r) \<Longrightarrow> moves_funds calls r \<Longrightarrow>
   needs_reservation action \<and> t' = t"
  by (cases action) (auto simp: perform_def moves_funds_def needs_reservation_def Let_def
      split: option.splits sum.splits if_splits)

lemma perform_allocate:
  "perform A c sd env status action p state t = (t', calls, NeedsAllocate q cid cc b) \<Longrightarrow>
   action = AllocateAct \<and> counterparty_witnessed status (ss_is_buyer state) \<and> dvp_cid state = Some cid \<and> q = p"
  by (cases action) (auto simp: perform_def Let_def split: option.splits sum.splits if_splits)

lemma perform_legs:
  "perform A c sd env status action p state t = (t', calls, r) \<Longrightarrow>
   x \<in> set calls \<Longrightarrow> x \<in> {Submit_Preconfirmation b, Propose_Dvp, Accept_Dvp i j k l m, Pay_Fee ''dvp''} \<Longrightarrow>
   action \<in> {Preconfirm, PayDvpFee, CreateDvp, AcceptDvpAct}"
  by (cases action) (auto simp: perform_def Let_def split: option.splits sum.splits if_splits)

lemma advance_performed:
  assumes "advance_single A trim c sd env p state w = ((lm', t'), calls, r)"
    and "calls \<noteq> [] \<or> (\<exists>q cid cc b. r = NeedsAllocate q cid cc b)"
  obtains status t where "se_status env = Inr status"
    and "expired_error c (se_unix_now env) (ss_proposal state) (my_action status (ss_is_buyer state)) = None"
    and "\<forall>e. leg_check trim (sc_instruments c) (ss_proposal state) (my_action status (ss_is_buyer state)) \<noteq> LegRefuse e"
    and "(if needs_reservation (my_action status (ss_is_buyer state))
          then ensure_reserved A (se_now env) state c p w else (w, Inr ())) = ((lm', t), Inr ())"
    and "perform A c sd env status (my_action status (ss_is_buyer state)) p state t = (t', calls, r)"
proof -
  obtain status where status: "se_status env = Inr status" "se_jwt env = None" "se_connect env = None"
    using assms by (auto simp: advance_single_def split: option.splits sum.splits)
  let ?a = "my_action status (ss_is_buyer state)"
  have expired: "expired_error c (se_unix_now env) (ss_proposal state) ?a = None"
    using assms status by (auto simp: advance_single_def Let_def split: option.splits)
  have legs: "\<forall>e. leg_check trim (sc_instruments c) (ss_proposal state) ?a \<noteq> LegRefuse e"
    using assms status expired by (auto simp: advance_single_def Let_def)
  let ?m = "if needs_reservation ?a then ensure_reserved A (se_now env) state c p w else (w, Inr ())"
  obtain lm t q where m: "?m = ((lm, t), q)" by (metis surj_pair)
  have step: "advance_single A trim c sd env p state w = (case ?m of
       (w', Inl e) \<Rightarrow> (w', [], ErrorResult p (''reservation failed: '' @ flat e))
     | ((lm, t), Inr u) \<Rightarrow> (case perform A c sd env status ?a p state t of (t', calls, r) \<Rightarrow> ((lm, t'), calls, r)))"
    using status expired legs
    by (cases "leg_check trim (sc_instruments c) (ss_proposal state) ?a") (auto simp: advance_single_def Let_def)
  show thesis
  proof (cases q)
    case (Inr u)
    have "perform A c sd env status ?a p state t = (t', calls, r)" "lm = lm'"
      using step assms(1) unfolding m Inr by (auto split: prod.splits)
    with status expired legs m Inr show thesis by (intro that) simp_all
  qed (use step assms in \<open>auto simp: m\<close>)
qed

text \<open>
  C3: A step that pays a fee, proposes or accepts a trade, records progress or asks for an
  allocation does so only before the deadline, with the order capacity reserved and the
  balance committed for the proposal; an allocation is asked for only once the
  counterparty's fees and allocation are confirmed.
\<close>

theorem step_spends_only_reserved:
  assumes "advance_single A trim c sd env p state w = ((lm', t'), calls, r)" and "moves_funds calls r"
  shows "reserved_in t' p \<and> committed_in lm' p \<and> (\<exists>status. se_status env = Inr status
      \<and> expired_error c (se_unix_now env) (ss_proposal state) (my_action status (ss_is_buyer state)) = None
      \<and> (case r of NeedsAllocate q cid cc b \<Rightarrow>
           counterparty_witnessed status (ss_is_buyer state) \<and> dvp_cid state = Some cid | _ \<Rightarrow> True))"
proof -
  have some: "calls \<noteq> [] \<or> (\<exists>q cid cc b. r = NeedsAllocate q cid cc b)"
    using assms(2) by (auto simp: moves_funds_def split: advance_result.splits)
  obtain status t where s: "se_status env = Inr status"
    "expired_error c (se_unix_now env) (ss_proposal state) (my_action status (ss_is_buyer state)) = None"
    and reserved: "(if needs_reservation (my_action status (ss_is_buyer state))
      then ensure_reserved A (se_now env) state c p w else (w, Inr ())) = ((lm', t), Inr ())"
    and ran: "perform A c sd env status (my_action status (ss_is_buyer state)) p state t = (t', calls, r)"
    by (rule advance_performed [OF assms(1) some])
  from perform_reserved [OF ran assms(2)] reserved
  have "ensure_reserved A (se_now env) state c p w = ((lm', t), Inr ())" and same: "t' = t" by simp_all
  from ensure_reserved_ok [OF this(1)] same
  have "reserved_in t' p" and "committed_in lm' p" by simp_all
  moreover have "\<exists>status. se_status env = Inr status
      \<and> expired_error c (se_unix_now env) (ss_proposal state) (my_action status (ss_is_buyer state)) = None
      \<and> (case r of NeedsAllocate q cid cc b \<Rightarrow>
           counterparty_witnessed status (ss_is_buyer state) \<and> dvp_cid state = Some cid | _ \<Rightarrow> True)"
    using s ran by (auto split: advance_result.splits dest: perform_allocate)
  ultimately show ?thesis by blast
qed

definition sample_sale :: settlement_proposal where
  "sample_sale = \<lparr>sp_proposal_id = ''p'', sp_market_id = ''m'', sp_buyer = ''b'', sp_seller = ''a'',
     sp_base_instrument = ''X'', sp_quote_instrument = ''Y'', sp_base_quantity = ''4'',
     sp_quote_quantity = ''8'', sp_settlement_price = ''2'', sp_dvp_fee_buyer = ''0'',
     sp_dvp_fee_seller = ''0'', sp_alloc_fee_buyer = ''0'', sp_alloc_fee_seller = ''0'', sp_status = 1,
     sp_created_secs = Some 100, sp_settled_secs = None,
     sp_order_match = Some \<lparr>bid_order_id = 3, offer_order_id = 7\<rparr>, sp_origin = ''orderbook''\<rparr>"

definition sample_step_config :: step_config where
  "sample_step_config = \<lparr>sc_cc_token_id = None, sc_allocate_before_secs = 60, sc_settle_before_secs = 90,
     sc_instruments = \<lparr>cc_token_id = None, dso_party = ''d'',
       instrument_registries = [(''X'', ''r''), (''Y'', ''r'')],
       instrument_wire_ids = [(''X'', ''X''), (''Y'', ''Y'')], onboarded_registries = {''r''}\<rparr>\<rparr>"

definition sample_step_env :: step_env where
  "sample_step_env = \<lparr>se_jwt = None, se_connect = None, se_status = Inr \<lparr>st_stage = 3, buyer_next_action = 7,
       seller_next_action = 2, fee_buyer = None, fee_seller = None, alloc_fee_buyer = None,
       alloc_fee_seller = None, allocation_buyer = None, allocation_seller = None, settlement_step = None\<rparr>,
     se_preconfirm = None, se_propose = Inl ''e'', se_accept = Inl ''e'', se_unix_now = 200, se_now = 0\<rparr>"

definition adopted_tracker :: order_tracker where
  "adopted_tracker = (new_tracker 0 (Inr [1]))\<lparr>orders := [(7, sample_tracked 4)],
     settlement_orders := [(''p'', \<lparr>se_order_id = 7, se_quantity = 4, se_reserved = False\<rparr>)]\<rparr>"

lemma sample_step_run:
  "advance_single settle_sample id sample_step_config False sample_step_env ''p'' (new_settlement sample_sale False)
     (None, adopted_tracker) = ((None, adopted_tracker\<lparr>
       orders := [(7, (sample_tracked 4)\<lparr>pending_quantity := 4\<rparr>)],
       settlement_orders := [(''p'', \<lparr>se_order_id = 7, se_quantity = 4, se_reserved = True\<rparr>)]\<rparr>),
     [Record_Submitted ''DvpProcessingFeeSellerSubmitted'', Pay_Fee ''dvp''],
     StepCompleted ''p'' DvpFeePaid None None None 0)"
  by (simp add: advance_single_def sample_step_env_def new_settlement_def sample_sale_def my_action_def
      next_action_of_def expired_error_def expiry_windows_def deadline_expiry_error_def age_secs_def as_i64_def
      ORDERBOOK_ALLOCATE_BEFORE_SECS_def ORDERBOOK_SETTLE_BEFORE_SECS_def leg_check_def unresolved_leg_def
      sample_step_config_def try_resolve_instrument_def needs_reservation_def ensure_reserved_def
      commit_reserved_def try_reserve_pending_def adopted_tracker_def reservation_error_def
      remaining_capacity_def sample_tracked_def in_range_def modify_order_def book_outflow_def perform_def Let_def)

theorem step_spends_only_reserved_witness:
  "reserved_in (adopted_tracker\<lparr>orders := [(7, (sample_tracked 4)\<lparr>pending_quantity := 4\<rparr>)],
     settlement_orders := [(''p'', \<lparr>se_order_id = 7, se_quantity = 4, se_reserved = True\<rparr>)]\<rparr>) ''p''"
  using step_spends_only_reserved [OF sample_step_run] by (simp add: moves_funds_def)

end
