(* ===== verification/Executor_Safety.thy ===== *)
theory Executor_Safety
  imports Settlement_Results Step_Safety
begin

text \<open>
  What the settlement executor guarantees: a proposal is worked on only after it passed every
  check of its adoption, a settlement that ended leaves nothing reserved, a settlement has one
  task at a time within the permits, and errors give up a settlement in the way they should.
\<close>

section \<open>Frames\<close>

named_theorems exec_frame

lemma active_frame [exec_frame]:
  "active (on_tracker f ex) = active ex" "active (add_job j ex) = active ex"
  "active (release_commitment p ex) = active ex" "active (notify_server_cancel p e ex) = active ex"
  "active (mark_rejected_rfq p ex) = active ex" "active (hold n p d ex) = active ex"
  "active (forget_hold p ex) = active ex" "active (update_actionable_count ex) = active ex"
  "active (record_adoption A i q ex) = active ex" "active (record_settlement_inflow p ex) = active ex"
  "active (set_failure p f' ex) = active ex" "active (clear_failure p ex) = active ex"
  "active (add_rejected p ex) = active ex" "active (fst (verify_rfq_proposal q ex)) = active ex"
  by (auto simp: on_tracker_def add_job_def release_commitment_def notify_server_cancel_def
      mark_rejected_rfq_def hold_def forget_hold_def update_actionable_count_def record_adoption_def
      record_settlement_inflow_def set_failure_def clear_failure_def add_rejected_def
      verify_rfq_proposal_def verify_quoted_def Let_def split: option.splits)

lemma tracker_frame [exec_frame]:
  "ex_tracker (on_tracker f ex) = f (ex_tracker ex)" "ex_tracker (add_job j ex) = ex_tracker ex"
  "ex_tracker (release_commitment p ex) = ex_tracker ex" "ex_tracker (notify_server_cancel p e ex) = ex_tracker ex"
  "ex_tracker (forget_hold p ex) = ex_tracker ex" "ex_tracker (update_actionable_count ex) = ex_tracker ex"
  "ex_tracker (make_active q b ex) = ex_tracker ex" "ex_tracker (record_settlement_inflow p ex) = ex_tracker ex"
  "ex_tracker (set_failure p f' ex) = ex_tracker ex" "ex_tracker (clear_failure p ex) = ex_tracker ex"
  "ex_tracker (remove_settlement p ex) = ex_tracker ex" "ex_tracker (add_rejected p ex) = ex_tracker ex"
  by (auto simp: on_tracker_def add_job_def release_commitment_def notify_server_cancel_def forget_hold_def
      update_actionable_count_def make_active_def record_settlement_inflow_def set_failure_def clear_failure_def
      remove_settlement_def add_rejected_def Let_def split: option.splits)

lemma rejected_frame [exec_frame]:
  "rejected_proposals (on_tracker f ex) = rejected_proposals ex"
  "rejected_proposals (release_commitment p ex) = rejected_proposals ex"
  "rejected_proposals (notify_server_cancel p e ex) = rejected_proposals ex"
  "rejected_proposals (add_job j ex) = rejected_proposals ex"
  "rejected_proposals (update_actionable_count ex) = rejected_proposals ex"
  "rejected_proposals (remove_settlement p ex) = rejected_proposals ex"
  "rejected_proposals (add_rejected p ex) = insert p (rejected_proposals ex)"
  "rejected_proposals (record_settlement_inflow p ex) = rejected_proposals ex"
  by (auto simp: on_tracker_def add_job_def release_commitment_def notify_server_cancel_def
      update_actionable_count_def remove_settlement_def add_rejected_def record_settlement_inflow_def Let_def
      split: option.splits)

lemma is_active_frame [exec_frame]:
  "is_active_id (on_tracker f ex) p = is_active_id ex p" "is_active_id (release_commitment q ex) p = is_active_id ex p"
  "is_active_id (mark_rejected_rfq q ex) p = is_active_id ex p" "is_active_id (hold n q d ex) p = is_active_id ex p"
  "is_active_id (forget_hold q ex) p = is_active_id ex p"
  "is_active_id (update_actionable_count ex) p = is_active_id ex p"
  "is_active_id (notify_server_cancel q e ex) p = is_active_id ex p"
  "is_active_id (add_job j ex) p = is_active_id ex p"
  "is_active_id (set_failure q f' ex) p = is_active_id ex p"
  "is_active_id (add_rejected q ex) p = is_active_id ex p"
  "is_active_id (record_adoption A i r ex) p = is_active_id ex p"
  "is_active_id (fst (verify_rfq_proposal r ex)) p = is_active_id ex p"
  by (simp_all add: is_active_id_def active_frame)

lemma not_active_deleted [exec_frame]:
  "\<not> is_active_id (remove_settlement p ex) p" "\<not> is_active_id (drop_settlement p ex) p"
  by (simp_all add: is_active_id_def remove_settlement_def drop_settlement_def AList.delete_conv)

lemma reject_stays: "is_active_id (reject_proposal ok q ex) p \<Longrightarrow> is_active_id ex p"
  by (auto simp: is_active_id_def reject_proposal_def AList.delete_conv split: if_splits)

lemma refuse_stays: "is_active_id (refuse env q ex) p \<Longrightarrow> is_active_id ex p"
  using reject_stays by (auto simp: refuse_def exec_frame)

lemma abort_stays: "is_active_id (abort_v1_settlement A env r b ex) p \<Longrightarrow> is_active_id ex p"
  by (auto simp: abort_v1_settlement_def is_active_id_def Let_def on_tracker_def mark_rejected_rfq_def
      split: option.splits if_splits)

lemma verify_user_active [exec_frame]: "is_active_id (fst (verify_user_order A cr env r i ex)) p = is_active_id ex p"
  by (auto simp: verify_user_order_def is_active_id_def split: option.splits prod.splits bool.splits)

lemma user_order_active:
  "verify_user_order A cr env r i (hold n q d ex) = (ex', v) \<Longrightarrow> is_active_id ex' p = is_active_id ex p"
  using verify_user_active [of A cr env r i "hold n q d ex" p] by (simp add: exec_frame)

section \<open>Adoption\<close>

text \<open>
  What a fresh adoption asks for: balances that are known, fresh and sufficient, an RFQ trade of
  ours with the same terms when there is no order match, else an order of ours that is verified.
\<close>

definition funds_available :: "settle_arith \<Rightarrow> exec_env \<Rightarrow> settlement_proposal \<Rightarrow> bool \<Rightarrow> executor \<Rightarrow> bool" where
  "funds_available A env r is_buyer ex = (case ex_lm ex of
       None \<Rightarrow> True
     | Some (m, s) \<Rightarrow> is_ready s
         \<and> (case reservation_inputs A r is_buyer (sc_cc_token_id (ex_config ex)) of (token, amount, fees) \<Rightarrow>
              is_stale m s token (ee_now env) = None
              \<and> can_commit (liq_arith.truncate A) m s token amount
                  (estimate_fee_cc (liq_arith.truncate A) m s fees) = Inr ()))"

definition rfq_trade_of_ours :: "settlement_proposal \<Rightarrow> executor \<Rightarrow> bool" where
  "rfq_trade_of_ours r ex =
     (case Option.bind (accepted_rfq_trades ex) (\<lambda>m. map_of m (sp_proposal_id r)) of
        Some tr \<Rightarrow> trade_matches r tr
      | None \<Rightarrow> (case quoted_rfq_trades ex of None \<Rightarrow> False | Some trs \<Rightarrow> list_ex (trade_matches r) trs))"

definition order_verified ::
  "settle_arith \<Rightarrow> crypto \<Rightarrow> exec_env \<Rightarrow> settlement_proposal \<Rightarrow> nat option \<Rightarrow> executor \<Rightarrow> bool" where
  "order_verified A cr env r prior ex = (case sp_order_match r of
       None \<Rightarrow> rfq_trade_of_ours r ex
     | Some om \<Rightarrow> (case verify_settlement A cr (ee_now env) (ex_tracker ex) r (party_id (ex_config ex)) of
         Accepted i \<Rightarrow> True
       | NeedServerLookup i \<Rightarrow>
           (case snd (verify_user_order A cr env r i (hold (ee_now env) (sp_proposal_id r) prior ex)) of
              Verified j \<Rightarrow> True | _ \<Rightarrow> False)
       | _ \<Rightarrow> False))"

definition fresh_adoption ::
  "settle_arith \<Rightarrow> crypto \<Rightarrow> exec_env \<Rightarrow> settlement_proposal \<Rightarrow> bool \<Rightarrow> nat option \<Rightarrow> executor \<Rightarrow> bool" where
  "fresh_adoption A cr env r is_buyer prior ex \<longleftrightarrow>
     \<not> shutting_down ex
     \<and> counterparty_pending ex (if is_buyer then sp_seller r else sp_buyer r)
         < max_pending_per_counterparty (ex_config ex)
     \<and> funds_available A env r is_buyer ex \<and> order_verified A cr env r prior ex"

lemma liquidity_gate_open: "liquidity_gate A env r b ex = Gate_Open \<longleftrightarrow> funds_available A env r b ex"
  by (auto simp: liquidity_gate_def funds_available_def Let_def split: option.splits prod.splits sum.splits)

lemma position_found: "list_ex P xs \<longleftrightarrow> (case position P xs of None \<Rightarrow> False | Some i \<Rightarrow> True)"
  by (induction xs) (auto split: option.split)

lemma rfq_verified: "snd (verify_rfq_proposal r ex) = rfq_trade_of_ours r ex"
  by (auto simp: verify_rfq_proposal_def verify_quoted_def rfq_trade_of_ours_def position_found split: option.splits)

lemma make_active_is [exec_frame]: "is_active_id (make_active r b ex) (sp_proposal_id r)"
  by (simp add: make_active_def is_active_id_def Let_def update_conv')

lemma record_adoption_has [exec_frame]:
  "has_settlement_order (ex_tracker (record_adoption A i r ex)) (sp_proposal_id r)"
  by (auto simp: record_adoption_def on_tracker_def record_settlement_order_def has_settlement_order_def
      AList.dom_update)

lemma verify_new_active:
  assumes "\<not> is_active_id ex (sp_proposal_id r)"
  shows "is_active_id (verify_new A cr env r b prior ex) (sp_proposal_id r) \<longleftrightarrow> order_verified A cr env r prior ex"
proof (cases "sp_order_match r")
  case None
  then show ?thesis using assms refuse_stays [of env "sp_proposal_id r"] rfq_verified [of r ex]
    by (cases "verify_rfq_proposal r ex")
       (auto simp: verify_new_def order_verified_def exec_frame Let_def split: bool.splits
         dest!: refuse_stays, metis fst_conv is_active_frame(12))
next
  case (Some om)
  then show ?thesis using assms
    by (auto simp: verify_new_def order_verified_def exec_frame Let_def user_order_active split: verify_result.splits
         prod.splits user_order_verdict.splits dest!: reject_stays)
qed

text \<open>The checks of an adoption, on the executor once the hold of the proposal is taken out.\<close>

definition adoptable ::
  "settle_arith \<Rightarrow> crypto \<Rightarrow> exec_env \<Rightarrow> settlement_proposal \<Rightarrow> bool \<Rightarrow> nat option \<Rightarrow> executor \<Rightarrow> bool" where
  "adoptable A cr env r is_buyer prior ex \<longleftrightarrow>
     implausible_amount A r = None \<and> \<not> rfq_v2_only (ex_config ex)
     \<and> (if has_settlement_order (ex_tracker ex) (sp_proposal_id r) then \<not> past_settle_deadline env r ex
        else no_reject ex \<or> fresh_adoption A cr env r is_buyer prior ex)"

lemma adopt_ours_active:
  assumes "\<not> is_active_id ex (sp_proposal_id r)"
  shows "is_active_id (adopt_ours A cr env r b prior ex) (sp_proposal_id r) \<longleftrightarrow> adoptable A cr env r b prior ex"
proof -
  have refused: "\<not> is_active_id (refuse env (sp_proposal_id r) ex') (sp_proposal_id r)"
    if "is_active_id ex' (sp_proposal_id r) = is_active_id ex (sp_proposal_id r)" for ex'
    using that assms refuse_stays by blast
  have quiet: "\<not> is_active_id (abort_v1_settlement A env r b ex) (sp_proposal_id r)"
    "\<not> is_active_id (reject_proposal ok (sp_proposal_id r) ex) (sp_proposal_id r)" for ok
    using assms abort_stays reject_stays by blast+
  have same: "is_active_id (ex'\<lparr>rejected_proposals := R\<rparr>) p = is_active_id ex' p" for R p ex'
    by (simp add: is_active_id_def)
  note acts = adopt_ours_def adoptable_def fresh_adoption_def exec_frame same Let_def
    refused quiet verify_new_active [OF assms] assms
  show ?thesis
  proof (cases "implausible_amount A r = None \<and> \<not> rfq_v2_only (ex_config ex)
      \<and> \<not> has_settlement_order (ex_tracker ex) (sp_proposal_id r) \<and> \<not> no_reject ex")
    case True
    then show ?thesis
      using liquidity_gate_open [of A env r b ex]
      by (cases "shutting_down ex"; cases "liquidity_gate A env r b ex"; simp add: acts not_le)
  next
    case False
    then show ?thesis
      by (cases "implausible_amount A r = None"; cases "rfq_v2_only (ex_config ex)";
          cases "has_settlement_order (ex_tracker ex) (sp_proposal_id r)"; simp add: acts)
  qed
qed

text \<open>
  C2: A proposal becomes active exactly when it was not decided before, is not settled, is ours
  as buyer or seller, has plausible amounts, and was either restored before its settlement
  deadline, or passes every check of a fresh adoption (not shutting down, below the
  counterparty's limit, balances known and sufficient, and the order or RFQ trade behind it
  verified). The switch \<open>no_reject\<close> skips the checks of a fresh adoption.
\<close>

theorem adoption_checked:
  "is_active_id (handle_proposal_created A cr env r ex) (sp_proposal_id r) \<longleftrightarrow>
     is_active_id ex (sp_proposal_id r) \<or>
     (sp_proposal_id r \<notin> completed_proposals ex \<and> sp_proposal_id r \<notin> rejected_proposals ex
      \<and> sp_settled_secs r = None \<and> party_id (ex_config ex) \<in> {sp_buyer r, sp_seller r}
      \<and> adoptable A cr env r (sp_buyer r = party_id (ex_config ex))
          (map_option snd (map_of (held_until ex) (sp_proposal_id r))) (forget_hold (sp_proposal_id r) ex))"
proof -
  have same: "is_active_id (ex\<lparr>completed_proposals := R\<rparr>) p = is_active_id ex p" for R p ex
    by (simp add: is_active_id_def)
  have kept: "completed_proposals (forget_hold p ex) = completed_proposals ex"
    "rejected_proposals (forget_hold p ex) = rejected_proposals ex"
    "ex_config (forget_hold p ex) = ex_config ex" for p
    by (simp_all add: forget_hold_def)
  have "is_active_id (adopt_ours A cr env r b prior (forget_hold (sp_proposal_id r) ex)) (sp_proposal_id r)
      \<longleftrightarrow> adoptable A cr env r b prior (forget_hold (sp_proposal_id r) ex)"
    if "\<not> is_active_id ex (sp_proposal_id r)" for b prior
    using that by (intro adopt_ours_active) (simp add: exec_frame)
  then show ?thesis
    by (cases "is_active_id ex (sp_proposal_id r)")
       (auto simp: handle_proposal_created_def Let_def same kept exec_frame)
qed

section \<open>A settlement that ended\<close>

definition uncommitted :: "executor \<Rightarrow> string \<Rightarrow> bool" where
  "uncommitted ex p = (case ex_lm ex of Some (m, s) \<Rightarrow> \<not> has_commitment s p | None \<Rightarrow> True)"

lemma has_commitment_release [simp]: "has_commitment (release p s) q \<longleftrightarrow> has_commitment s q \<and> q \<noteq> p"
  unfolding release_def by (subst has_commitment_on [where B = "- {p}"]) (auto simp: AList.delete_eq)

lemma has_commitment_inflow [simp]: "has_commitment (record_inflow now k x s) = has_commitment s"
  by (rule ext) (simp add: has_commitment_def record_inflow_def)

lemma run_job_uncommitted:
  "uncommitted ex p \<Longrightarrow> uncommitted (run_job now j ex) p" "uncommitted (run_job now (Release_Job p) ex) p"
  by (auto simp: uncommitted_def run_job_def split: option.splits job.splits)

lemma run_jobs_releases:
  assumes "Release_Job p \<in> set (jobs ex) \<or> uncommitted ex p"
  shows "uncommitted (run_jobs now ex) p"
proof -
  have keep: "uncommitted (foldl (\<lambda>ex j. run_job now j ex) ex js) p" if "uncommitted ex p" for ex js
    using that by (induction js arbitrary: ex) (auto intro: run_job_uncommitted)
  have "uncommitted (foldl (\<lambda>ex j. run_job now j ex) ex js) p" if "Release_Job p \<in> set js" for ex js
    using that
  proof (induction js arbitrary: ex)
    case (Cons j js)
    then show ?case using keep run_job_uncommitted(2) by auto
  qed simp
  with assms keep show ?thesis by (auto simp: run_jobs_def uncommitted_def [of "ex\<lparr>jobs := []\<rparr>"]
    uncommitted_def [of ex])
qed

lemma release_commitment_job: "Release_Job p \<in> set (jobs (release_commitment p ex)) \<or> ex_lm ex = None"
  by (simp add: release_commitment_def add_job_def)

lemma has_entry_iff: "has_settlement_order t p \<longleftrightarrow> map_of (settlement_orders t) p \<noteq> None"
  by (simp add: has_settlement_order_def map_of_eq_None_iff)

lemma close_settlement_gone [simp]: "\<not> has_settlement_order (close_settlement f p t) p"
  by (simp add: close_settlement_def has_entry_iff Let_def delete_conv' split: option.split)

lemma marked_gone [simp]:
  "\<not> has_settlement_order (mark_failed A p t) p" "\<not> has_settlement_order (mark_settled A p t) p"
  by (simp_all add: mark_failed_def mark_settled_def)

lemma run_jobs_frame [exec_frame]:
  "active (run_jobs now ex) = active ex" "completed_proposals (run_jobs now ex) = completed_proposals ex"
  "rejected_proposals (run_jobs now ex) = rejected_proposals ex"
proof -
  have "active (foldl (\<lambda>ex j. run_job now j ex) ex js) = active ex
      \<and> completed_proposals (foldl (\<lambda>ex j. run_job now j ex) ex js) = completed_proposals ex
      \<and> rejected_proposals (foldl (\<lambda>ex j. run_job now j ex) ex js) = rejected_proposals ex" for ex js
    by (induction js arbitrary: ex) (auto simp: run_job_def split: job.splits)
  then show "active (run_jobs now ex) = active ex" "completed_proposals (run_jobs now ex) = completed_proposals ex"
    "rejected_proposals (run_jobs now ex) = rejected_proposals ex"
    by (simp_all add: run_jobs_def)
qed

text \<open>Nothing of the settlement is left, and it stays decided.\<close>

definition settlement_gone :: "nat \<Rightarrow> string \<Rightarrow> executor \<Rightarrow> bool" where
  "settlement_gone now p ex \<longleftrightarrow> \<not> is_active_id ex p
     \<and> \<not> has_settlement_order (ex_tracker ex) p \<and> uncommitted (run_jobs now ex) p
     \<and> map_of (failed ex) p = None \<and> p \<in> completed_proposals ex \<union> rejected_proposals ex"

lemma settlement_goneI:
  assumes "map_of (active ex) p = None" "\<not> has_settlement_order (ex_tracker ex) p"
    "Release_Job p \<in> set (jobs ex) \<or> ex_lm ex = None" "map_of (failed ex) p = None"
    "p \<in> completed_proposals ex \<union> rejected_proposals ex"
  shows "settlement_gone now p ex"
proof -
  have "uncommitted (run_jobs now ex) p"
    using assms(3) by (intro run_jobs_releases) (auto simp: uncommitted_def)
  with assms show ?thesis by (simp add: settlement_gone_def is_active_id_def)
qed

lemma release_after:
  "Release_Job p \<in> set (jobs (release_commitment p ex)) \<or> ex_lm (release_commitment p ex) = None"
  by (simp add: release_commitment_def add_job_def)

lemma handle_settled_gone: "settlement_gone now p (handle_settled A p ex)"
  using release_after [of p "record_settlement_inflow p (on_tracker (mark_settled A p) ex)"]
  by (intro settlement_goneI)
     (simp_all add: handle_settled_def drop_settlement_def Let_def delete_conv' exec_frame)

lemma handle_ended_gone: "settlement_gone now p (handle_ended A p ex)"
  using release_after [of p "on_tracker (mark_failed A p) ex"]
  by (intro settlement_goneI)
     (simp_all add: handle_ended_def drop_settlement_def Let_def delete_conv' exec_frame)

lemma run_jobs_lm:
  "ex_lm ex = ex_lm ex' \<Longrightarrow>
   ex_lm (foldl (\<lambda>ex j. run_job now j ex) ex js) = ex_lm (foldl (\<lambda>ex j. run_job now j ex) ex' js)"
proof (induction js arbitrary: ex ex')
  case (Cons j js)
  from Cons.prems have "ex_lm (run_job now j ex) = ex_lm (run_job now j ex')"
    by (simp add: run_job_def split: job.split)
  from Cons.IH [OF this] show ?case by simp
qed simp

lemma run_jobs_counted [exec_frame]: "ex_lm (run_jobs now (update_actionable_count ex)) = ex_lm (run_jobs now ex)"
  unfolding run_jobs_def update_actionable_count_def by simp (rule run_jobs_lm, simp)

lemma counted_gone [simp]: "settlement_gone now p (update_actionable_count ex) = settlement_gone now p ex"
  by (simp add: settlement_gone_def uncommitted_def exec_frame)
     (simp add: update_actionable_count_def)

lemma gone_stays:
  assumes "settlement_gone now p ex"
  shows "\<not> is_active_id (handle_settlement_update A cr env ev (Some (r\<lparr>sp_proposal_id := p\<rparr>)) ex) p"
proof -
  have idle: "map_of (active ex) p = None" "p \<in> completed_proposals ex \<union> rejected_proposals ex"
    using assms by (simp_all add: settlement_gone_def is_active_id_def)
  then have "handle_proposal_created A cr env (r\<lparr>sp_proposal_id := p\<rparr>) ex = forget_hold p ex"
    by (auto simp: handle_proposal_created_def Let_def forget_hold_def)
  moreover have "handle_status_changed (r\<lparr>sp_proposal_id := p\<rparr>) ex = ex"
    using idle by (simp add: handle_status_changed_def)
  ultimately show ?thesis
    using idle handle_settled_gone [of now p A ex] handle_ended_gone [of now p A ex]
    by (cases ev) (simp_all add: handle_settlement_update_def exec_frame settlement_gone_def is_active_id_def [of ex])
qed


end
