(* ===== verification/Executor_Progress.thy ===== *)
theory Executor_Progress
  imports Executor_Safety
begin

text \<open>
  How the settlement executor makes progress: which errors give a settlement up and when,
  what a terminal result records, and which settlements get a task.
\<close>

section \<open>Errors\<close>

definition counted :: "nat \<Rightarrow> string \<Rightarrow> nat \<Rightarrow> nat" where
  "counted retries e n = (if is_permanent e then retries else if is_transient e then n else sat_inc n)"

lemma counted_error_count [simp]: "retry_count (counted_error retries e f) = counted retries e (retry_count f)"
  by (simp add: counted_error_def counted_def)

lemma given_up_gone:
  "settlement_gone now p (remove_settlement p (add_rejected p (on_tracker (mark_failed A p) (release_commitment p ex))))"
  using release_after [of p ex]
  by (intro settlement_goneI; simp add: exec_frame)
     (simp_all add: remove_settlement_def add_rejected_def on_tracker_def delete_conv')

lemma abandon_error_gone: "settlement_gone now p (abandon_error A p e ex)"
  by (simp add: abandon_error_def Let_def given_up_gone)

lemma abandon_error_cancels:
  "Cancel_Job p (abandon_reason e) \<in> set (jobs (abandon_error A p e ex)) \<longleftrightarrow>
     Cancel_Job p (abandon_reason e) \<in> set (jobs ex) \<or> is_pre_allocation ex p"
  by (auto simp: abandon_error_def update_actionable_count_def remove_settlement_def add_rejected_def
      on_tracker_def release_commitment_def add_job_def notify_server_cancel_def Let_def)

lemma delayed_error_bounds:
  "retry_count (delayed_error now x e f) = retry_count f"
  "next_retry (delayed_error now x e f) \<le> now + 60 * 10 ^ 9"
  by (auto simp: delayed_error_def cap_expired_def retry_delay_def Let_def)

text \<open>
  C19: An error gives a settlement up exactly when its text is permanent or the errors that
  are neither permanent nor transient have reached the retry limit. Given up, nothing of it is
  left, and the server is told to cancel it exactly when it was not yet allocated. Otherwise it
  stays as it was, with its reservations, and is retried within a minute.
\<close>

theorem error_gives_up:
  "let retries = max_retries (ex_config ex); n = counted retries e (retry_count (failure_of ex now p));
       ex' = apply_error A now unix_now p e ex in
   if retries \<le> n then settlement_gone now p ex'
     \<and> (Cancel_Job p (abandon_reason e) \<in> set (jobs ex')) =
         (Cancel_Job p (abandon_reason e) \<in> set (jobs ex) \<or> is_pre_allocation ex p)
   else active ex' = active ex \<and> ex_tracker ex' = ex_tracker ex \<and> ex_lm ex' = ex_lm ex \<and> jobs ex' = jobs ex
     \<and> (case map_of (failed ex') p of None \<Rightarrow> False
        | Some f \<Rightarrow> retry_count f = n \<and> next_retry f \<le> now + 60 * 10 ^ 9)"
proof (cases "max_retries (ex_config ex) \<le> counted (max_retries (ex_config ex)) e (retry_count (failure_of ex now p))")
  case True
  then show ?thesis
    by (simp add: apply_error_def is_exhausted_def Let_def abandon_error_gone abandon_error_cancels)
next
  case False
  then show ?thesis
    by (simp add: apply_error_def is_exhausted_def Let_def exec_frame delayed_error_bounds)
       (simp add: update_actionable_count_def set_failure_def update_conv' delayed_error_bounds delayed_error_bounds [simplified])
qed

section \<open>Giving up in the end\<close>

lemma error_step:
  assumes "is_active_id (apply_error A now unix_now p e ex) p" and "\<not> is_permanent e" "\<not> is_transient e"
    and "max_retries (ex_config ex) < 2 ^ 32"
  shows "is_active_id ex p" and "ex_config (apply_error A now unix_now p e ex) = ex_config ex"
    and "retry_count (failure_of (apply_error A now unix_now p e ex) now' p) = retry_count (failure_of ex now p) + 1"
    and "retry_count (failure_of ex now p) + 1 < max_retries (ex_config ex)"
proof -
  let ?f = "counted_error (max_retries (ex_config ex)) e (failure_of ex now p)"
  have open_: "\<not> is_exhausted (max_retries (ex_config ex)) ?f"
    using assms(1) abandon_error_gone [of now p A e ex]
    by (auto simp: apply_error_def Let_def settlement_gone_def split: if_splits)
  then have eq: "apply_error A now unix_now p e ex =
      update_actionable_count (set_failure p (delayed_error now (past_deadline ex unix_now p) e ?f) ex)"
    by (simp add: apply_error_def Let_def)
  have less: "sat_inc (retry_count (failure_of ex now p)) < max_retries (ex_config ex)"
    using open_ assms(2,3) by (simp add: is_exhausted_def counted_def)
  with assms(4) have inc: "sat_inc (retry_count (failure_of ex now p)) = retry_count (failure_of ex now p) + 1"
    by (auto simp: sat_inc_def min_def split: if_splits)
  show "is_active_id ex p" using assms(1) unfolding eq by (simp add: exec_frame)
  show "ex_config (apply_error A now unix_now p e ex) = ex_config ex"
    unfolding eq by (simp add: update_actionable_count_def set_failure_def)
  show "retry_count (failure_of (apply_error A now unix_now p e ex) now' p) = retry_count (failure_of ex now p) + 1"
    unfolding eq using assms(2,3) inc
    by (simp add: failure_of_def [where now = now'] update_actionable_count_def set_failure_def update_conv'
        delayed_error_bounds counted_def or_else_def)
  show "retry_count (failure_of ex now p) + 1 < max_retries (ex_config ex)" using less inc by simp
qed

definition error_run :: "settle_arith \<Rightarrow> string \<Rightarrow> (nat \<times> int \<times> string) list \<Rightarrow> executor \<Rightarrow> executor" where
  "error_run A p es ex = foldl (\<lambda>ex (now, unix_now, e). apply_error A now unix_now p e ex) ex es"

lemma error_run_counts:
  assumes "\<forall>(n, u, e) \<in> set es. \<not> is_permanent e \<and> \<not> is_transient e" and "max_retries (ex_config ex) < 2 ^ 32"
    and "is_active_id (error_run A p es ex) p"
  shows "es = [] \<or> retry_count (failure_of ex 0 p) + length es < max_retries (ex_config ex)"
  using assms
proof (induction es arbitrary: ex)
  case (Cons x es)
  obtain n u e where x: "x = (n, u, e)" by (cases x)
  let ?ex = "apply_error A n u p e ex"
  have run: "error_run A p (x # es) ex = error_run A p es ?ex" by (simp add: error_run_def x)
  have stays: "is_active_id ?ex p"
  proof (rule ccontr)
    assume "\<not> is_active_id ?ex p"
    moreover have "\<not> is_active_id (error_run A p es ex) p" if "\<not> is_active_id ex p" for es ex
      using that
    proof (induction es arbitrary: ex)
      case (Cons y es)
      have "\<not> is_active_id (apply_error A n u p e ex) p" for n u e
        using Cons.prems abandon_error_gone [of n p A e ex]
        by (auto simp: apply_error_def Let_def exec_frame settlement_gone_def)
      with Cons.IH show ?case by (cases y) (simp add: error_run_def)
    qed (simp add: error_run_def)
    ultimately show False using Cons.prems(3) run by simp
  qed
  have e: "\<not> is_permanent e" "\<not> is_transient e" using Cons.prems(1) x by auto
  note step = error_step [OF stays e Cons.prems(2)]
  have count: "retry_count (failure_of ex n p) = retry_count (failure_of ex 0 p)"
    by (simp add: failure_of_def or_else_def fresh_failure_def split: option.split)
  from Cons.IH [of ?ex] Cons.prems run step count show ?case by auto
qed simp

text \<open>
  A settlement that keeps failing is given up: after as many errors in a row as the retry
  limit, neither permanent nor transient, it is no longer active.
\<close>

theorem repeated_errors_give_up:
  assumes "\<forall>(n, u, e) \<in> set es. \<not> is_permanent e \<and> \<not> is_transient e" and "max_retries (ex_config ex) < 2 ^ 32"
    and "max_retries (ex_config ex) \<le> length es" and "es \<noteq> []"
  shows "\<not> is_active_id (error_run A p es ex) p"
  using error_run_counts [OF assms(1,2), of A p] assms(3,4) by auto

definition sample_exec_config :: exec_config where
  "sample_exec_config = \<lparr>sc_cc_token_id = None, sc_allocate_before_secs = 60, sc_settle_before_secs = 90,
     sc_instruments = sc_instruments sample_step_config, party_id = ''a'', rfq_v2_only = False,
     auto_settle = True, max_pending_per_counterparty = 3, settlement_thread_count = 4, max_retries = 2\<rparr>"

definition sample_executor :: executor where
  "sample_executor = (new_executor sample_exec_config adopted_tracker)
     \<lparr>active := [(''p'', new_settlement sample_sale False)],
       ex_lm := Some (sample_manager, sample_liquidity)\<rparr>"

theorem repeated_errors_give_up_witness:
  "\<not> is_active_id (error_run settle_sample ''p'' [(1, 200, ''x''), (2, 201, ''y'')] sample_executor) ''p''"
  by (rule repeated_errors_give_up)
     (simp_all add: sample_executor_def new_executor_def sample_exec_config_def is_permanent_def
       is_transient_def is_cid_waiting_def str_contains.simps starts_with_def UNRESOLVED_INSTRUMENT_def)

section \<open>Terminal results\<close>

text \<open>
  A settlement the server reports as failed or cancelled ends as if it had settled: the
  step releases the order quantity as failed, but its result makes the executor book the
  amount it would have received as an inflow and file the proposal as completed.
\<close>

theorem failed_settlement_booked_as_inflow:
  assumes "se_jwt env = None" "se_connect env = None" "se_status env = Inr status" "st_stage status \<noteq> 11"
    and "my_action status (ss_is_buyer s) = ActNone"
    and "map_of (active ex) p = Some s" "ex_lm ex = Some lm"
    and "parse_f64 (if ss_is_buyer s then sp_base_quantity (ss_proposal s)
           else sp_quote_quantity (ss_proposal s)) = Some amount"
  shows "case advance_single A trim c sd env p s (lm', t) of
      ((lm'', t'), calls, r) \<Rightarrow> t' = mark_failed A p t \<and> p \<in> completed_proposals (apply_result A now unix_now r ex)
        \<and> Inflow_Job (received_token ex s) amount \<in> set (jobs (apply_result A now unix_now r ex))"
proof -
  have "expired_error c (se_unix_now env) (ss_proposal s) ActNone = None"
    by (simp add: expired_error_def deadline_expiry_error_def split: option.split prod.split)
  moreover have "leg_check trim (sc_instruments c) (ss_proposal s) ActNone = LegPass"
    by (simp add: leg_check_def)
  ultimately have "advance_single A trim c sd env p s (lm', t) = ((lm', mark_failed A p t), [], Terminal p)"
    using assms by (simp add: advance_single_def needs_reservation_def perform_def Let_def)
  moreover have "Inflow_Job (received_token ex s) amount \<in> set (jobs (apply_result A now unix_now (Terminal p) ex))"
    using assms(6,7,8)
    by (simp add: apply_result_def apply_terminal_def record_settlement_inflow_def update_actionable_count_def
        remove_settlement_def release_commitment_def add_job_def Let_def split: prod.split)
  moreover have "p \<in> completed_proposals (apply_result A now unix_now (Terminal p) ex)"
    by (simp add: apply_result_def apply_terminal_def update_actionable_count_def remove_settlement_def Let_def)
  ultimately show ?thesis by simp
qed

definition failed_status_env :: step_env where
  "failed_status_env = \<lparr>se_jwt = None, se_connect = None, se_status = Inr \<lparr>st_stage = 12, buyer_next_action = 0,
       seller_next_action = 0, fee_buyer = None, fee_seller = None, alloc_fee_buyer = None,
       alloc_fee_seller = None, allocation_buyer = None, allocation_seller = None, settlement_step = None\<rparr>,
     se_preconfirm = None, se_propose = Inl ''e'', se_accept = Inl ''e'', se_unix_now = 200, se_now = 0\<rparr>"

lemma eight_parses: "parse_f64 ''8'' = Some (round_f64 8)"
  by (rule parse_f64_dec_value)
     (simp add: dec_value_def split_sign_def lower_def parse_number_def is_digit_def digit_val_def parse_exp_def
       pow10_def Let_def of_char_def)

theorem failed_settlement_booked_as_inflow_witness:
  "case advance_single settle_sample id sample_step_config False failed_status_env ''p''
      (new_settlement sample_sale False) (None, adopted_tracker) of
    ((lm'', t'), calls, r) \<Rightarrow> t' = mark_failed settle_sample ''p'' adopted_tracker
      \<and> ''p'' \<in> completed_proposals (apply_result settle_sample 0 200 r sample_executor)
      \<and> Inflow_Job ''Y'' (round_f64 8) \<in> set (jobs (apply_result settle_sample 0 200 r sample_executor))"
proof -
  have token: "received_token sample_executor (new_settlement sample_sale False) = ''Y''"
    by (simp add: received_token_def new_settlement_def sample_sale_def sample_executor_def new_executor_def
        sample_exec_config_def)
  show ?thesis
    using failed_settlement_booked_as_inflow [where env = failed_status_env and s = "new_settlement sample_sale False"
        and ex = sample_executor and p = "''p''" and amount = "round_f64 8" and A = settle_sample and trim = id
        and c = sample_step_config and sd = False and lm' = None and t = adopted_tracker and now = 0
        and unix_now = 200] eight_parses
    unfolding token
    by (simp add: failed_status_env_def my_action_def next_action_of_def new_settlement_def sample_executor_def
        new_executor_def sample_sale_def)
qed

section \<open>Spawning tasks\<close>

definition busy_ids :: "executor \<Rightarrow> string set" where
  "busy_ids ex = fst ` set (in_progress ex)"

text \<open>What a spawn leaves alone.\<close>

definition same_work :: "executor \<Rightarrow> executor \<Rightarrow> bool" where
  "same_work ex ex' \<longleftrightarrow> active ex' = active ex \<and> failed ex' = failed ex \<and> ex_config ex' = ex_config ex
     \<and> shutting_down ex' = shutting_down ex"

lemma same_work_simps:
  assumes "same_work ex ex'"
  shows "in_backoff now u ex' p = in_backoff now u ex p" "is_active_id ex' p = is_active_id ex p"
    "shutting_down ex' = shutting_down ex"
proof -
  have "past_deadline ex' u q = past_deadline ex u q" for q
    using assms by (simp add: same_work_def past_deadline_def split: option.split prod.split)
  with assms show "in_backoff now u ex' p = in_backoff now u ex p" "is_active_id ex' p = is_active_id ex p"
    "shutting_down ex' = shutting_down ex"
    by (simp_all add: same_work_def in_backoff_def is_active_id_def split: option.split)
qed

lemma spawn_task:
  "spawn_settlement_task now p ex = (ex', b) \<Longrightarrow>
   same_work ex ex' \<and> b = is_active_id ex p
   \<and> busy_ids ex' = (if b then insert p (busy_ids ex) else busy_ids ex)
   \<and> pending_results ex' = pending_results ex @ (if b then [p] else [])"
  using dom_update [of p now "in_progress ex"]
  unfolding spawn_settlement_task_def same_work_def busy_ids_def
  by (cases "is_active_id ex p") (simp_all, clarify, simp)

definition may_start :: "nat \<Rightarrow> int \<Rightarrow> executor \<Rightarrow> string \<Rightarrow> bool" where
  "may_start now unix_now ex p \<longleftrightarrow> is_active_id ex p \<and> p \<notin> busy_ids ex \<and> \<not> in_backoff now unix_now ex p"

text \<open>The ids a run of the loop spawns, and when it may leave one of the candidates out.\<close>

definition spawns ::
  "nat \<Rightarrow> int \<Rightarrow> string list \<Rightarrow> nat \<Rightarrow> executor \<Rightarrow> string list \<Rightarrow> executor \<Rightarrow> string list \<Rightarrow> bool" where
  "spawns now u ps n ex sp ex' new \<longleftrightarrow> same_work ex ex' \<and> pending_results ex' = pending_results ex @ new
     \<and> distinct new \<and> busy_ids ex' = busy_ids ex \<union> set new \<and> length new \<le> n
     \<and> length (sp @ new) \<le> max (length sp) MAX_ADVANCE_SPAWNS_PER_CYCLE
     \<and> set new \<subseteq> {p. may_start now u ex p}
     \<and> (shutting_down ex \<or> n \<le> length new \<or> MAX_ADVANCE_SPAWNS_PER_CYCLE \<le> length (sp @ new)
        \<or> {p \<in> set ps. may_start now u ex p} \<subseteq> set new)"

lemma spawns_nothing:
  "shutting_down ex \<or> n = 0 \<or> MAX_ADVANCE_SPAWNS_PER_CYCLE \<le> length sp \<or> ps = [] \<Longrightarrow> spawns now u ps n ex sp ex []"
  by (auto simp: spawns_def same_work_def)

lemma spawns_skip:
  "spawns now u ps n ex sp ex' new \<Longrightarrow> \<not> may_start now u ex p \<Longrightarrow> spawns now u (p # ps) n ex sp ex' new"
  by (auto simp: spawns_def)

lemma spawns_start:
  assumes "spawn_settlement_task now p ex = (ex1, True)" and "may_start now u ex p"
    and "\<not> MAX_ADVANCE_SPAWNS_PER_CYCLE \<le> length sp" "n \<noteq> 0"
    and "spawns now u ps (n - 1) ex1 (sp @ [p]) ex' new"
  shows "spawns now u (p # ps) n ex sp ex' (p # new)"
proof -
  note t = spawn_task [OF assms(1)]
  then have same: "same_work ex ex1" by simp
  have later: "may_start now u ex1 q \<longleftrightarrow> may_start now u ex q \<and> q \<noteq> p" for q
    using t by (auto simp: may_start_def same_work_simps [OF same])
  have parts: "same_work ex1 ex'" "pending_results ex' = pending_results ex1 @ new" "distinct new"
    "busy_ids ex' = busy_ids ex1 \<union> set new" "length new \<le> n - 1"
    "length (sp @ p # new) \<le> max (length sp + 1) MAX_ADVANCE_SPAWNS_PER_CYCLE"
    "set new \<subseteq> {q. may_start now u ex q \<and> q \<noteq> p}"
    "shutting_down ex1 \<or> n - 1 \<le> length new \<or> MAX_ADVANCE_SPAWNS_PER_CYCLE \<le> length (sp @ p # new)
       \<or> {q \<in> set ps. may_start now u ex q \<and> q \<noteq> p} \<subseteq> set new"
    using assms(5) by (simp_all add: spawns_def later)
  have "same_work ex ex'" using t parts(1) by (simp add: same_work_def)
  moreover have "length (sp @ p # new) \<le> max (length sp) MAX_ADVANCE_SPAWNS_PER_CYCLE" "length (p # new) \<le> n"
    using parts(5,6) assms(3,4) by simp_all
  moreover have "shutting_down ex \<or> n \<le> length (p # new) \<or> MAX_ADVANCE_SPAWNS_PER_CYCLE \<le> length (sp @ p # new)
      \<or> {q \<in> set (p # ps). may_start now u ex q} \<subseteq> set (p # new)"
    using parts(8) assms(4) t same_work_simps(3) [of ex ex1] by fastforce
  ultimately show ?thesis
    using parts(2,3,4,7) t assms(2) unfolding spawns_def by auto
qed

lemma spawn_loop_spawns:
  "spawn_loop now u ps n ex sp = (ex', sp') \<Longrightarrow> \<exists>new. sp' = sp @ new \<and> spawns now u ps n ex sp ex' new"
proof (induction now u ps n ex sp rule: spawn_loop.induct)
  case (1 now u n ex sp)
  then show ?case by (auto intro: spawns_nothing)
next
  case (2 now u p ps n ex sp)
  consider (skip) "p \<in> busy_ids ex \<or> in_backoff now u ex p"
    | (full) "p \<notin> busy_ids ex" "\<not> in_backoff now u ex p" "MAX_ADVANCE_SPAWNS_PER_CYCLE \<le> length sp \<or> n = 0"
    | (go) "p \<notin> busy_ids ex" "\<not> in_backoff now u ex p" "\<not> MAX_ADVANCE_SPAWNS_PER_CYCLE \<le> length sp" "n \<noteq> 0"
    by blast
  then show ?case
  proof cases
    case skip
    then have "spawn_loop now u ps n ex sp = (ex', sp')"
      using "2.prems" by (auto simp: busy_ids_def split: if_splits)
    moreover have "\<not> may_start now u ex p" using skip by (auto simp: may_start_def)
    moreover obtain new where "sp' = sp @ new" "spawns now u ps n ex sp ex' new"
      using skip "2.IH"(1) "2.IH"(2) calculation(1) unfolding busy_ids_def by blast
    ultimately show ?thesis by (auto intro: spawns_skip)
  next
    case full
    then have "ex' = ex \<and> sp' = sp" using "2.prems" by (auto simp: busy_ids_def split: if_splits)
    then show ?thesis using full(3) by (auto intro: spawns_nothing)
  next
    case go
    obtain ex1 b where st: "spawn_settlement_task now p ex = (ex1, b)" by fastforce
    note t = spawn_task [OF st]
    let ?sp = "if b then sp @ [p] else sp" and ?n = "if b then n - 1 else n"
    have run: "(if shutting_down ex1 then (ex1, ?sp) else spawn_loop now u ps ?n ex1 ?sp) = (ex', sp')"
      using "2.prems" go st by (simp add: busy_ids_def Let_def)
    have "\<exists>new. sp' = ?sp @ new \<and> spawns now u ps ?n ex1 ?sp ex' new"
    proof (cases "shutting_down ex1")
      case True
      then show ?thesis using run by (auto intro: spawns_nothing)
    next
      case False
      with run have "spawn_loop now u ps ?n ex1 ?sp = (ex', sp')" by simp
      from "2.IH"(3) [OF _ _ _ _ st [symmetric] refl refl False this] go show ?thesis
        by (simp add: busy_ids_def)
    qed
    then obtain new where new: "sp' = ?sp @ new" "spawns now u ps ?n ex1 ?sp ex' new" by blast
    show ?thesis
    proof (cases b)
      case True
      with go t have "may_start now u ex p" by (simp add: may_start_def)
      with spawns_start [of now p ex ex1 u sp n ps ex' new] st go new True show ?thesis by auto
    next
      case False
      with st have "ex1 = ex" by (auto simp: spawn_settlement_task_def split: if_splits)
      with False new t spawns_skip [of now u ps n ex sp ex' new p] show ?thesis
        by (auto simp: may_start_def)
    qed
  qed
qed

lemma set_spawn_order: "set (spawn_order ex) = {p. is_active_id ex p}"
  by (auto simp: spawn_order_def newest_first_def is_active_id_def Let_def map_of_eq_None_iff)

lemma advance_all_spawns:
  assumes "advance_all_settlements A now u outs permits ex = (ex', spawned)"
  obtains ex3 ps where "spawns now u ps permits ex3 [] ex' spawned" and "set ps = {p. is_active_id ex3 p}"
    and "pending_results ex3 = pending_results (fst (collect_results A now u outs ex))"
    and "busy_ids ex3 = busy_ids (fst (collect_results A now u outs ex))"
proof -
  obtain ex1 again where c: "collect_results A now u outs ex = (ex1, again)" by fastforce
  define ex2 where "ex2 = ex1\<lparr>needs_readvance := foldl (\<lambda>ps p. add_once p ps) (needs_readvance ex1) again\<rparr>"
  define ex3 where "ex3 = ex2\<lparr>needs_readvance := [], failed := filter (\<lambda>(p, f).
    p \<notin> set (filter (is_active_id ex2) (needs_readvance ex2))) (failed ex2)\<rparr>"
  have "spawn_loop now u (spawn_order ex2) permits ex3 [] = (ex', spawned)"
    using assms c by (simp add: advance_all_settlements_def Let_def ex2_def ex3_def)
  from spawn_loop_spawns [OF this] have "spawns now u (spawn_order ex2) permits ex3 [] ex' spawned" by simp
  then show thesis
    by (rule that) (simp_all add: set_spawn_order ex3_def ex2_def is_active_id_def busy_ids_def c)
qed

text \<open>
  C20: A round of work starts a task only for active settlements that are not backing off, never
  a second one for a settlement whose task is still counted as running, never more than the
  free permits or the cap of a round; and each task started is waited for.
\<close>

theorem one_task_per_settlement:
  "case advance_all_settlements A now unix_now outs permits ex of (ex', spawned) \<Rightarrow>
     let before = fst (collect_results A now unix_now outs ex) in
     distinct spawned \<and> length spawned \<le> min permits MAX_ADVANCE_SPAWNS_PER_CYCLE
     \<and> set spawned \<inter> busy_ids before = {}
     \<and> set spawned \<subseteq> {p. is_active_id ex' p \<and> \<not> in_backoff now unix_now ex' p}
     \<and> pending_results ex' = pending_results before @ spawned
     \<and> busy_ids ex' = busy_ids before \<union> set spawned"
proof (cases "advance_all_settlements A now unix_now outs permits ex")
  case (Pair ex' spawned)
  then obtain ex3 ps where run: "spawns now unix_now ps permits ex3 [] ex' spawned"
    and "pending_results ex3 = pending_results (fst (collect_results A now unix_now outs ex))"
    "busy_ids ex3 = busy_ids (fst (collect_results A now unix_now outs ex))"
    by (rule advance_all_spawns)
  moreover have "same_work ex3 ex'" using run by (simp add: spawns_def)
  ultimately show ?thesis
    by (auto simp: Pair Let_def spawns_def may_start_def same_work_simps [of ex3 ex'])
qed

text \<open>
  No settlement is left behind: unless the agent is shutting down, a round that stays below
  the permits and the cap leaves every active settlement with a running task or backing off.
\<close>

theorem every_settlement_served:
  "case advance_all_settlements A now unix_now outs permits ex of (ex', spawned) \<Rightarrow>
     shutting_down ex' \<or> permits \<le> length spawned \<or> MAX_ADVANCE_SPAWNS_PER_CYCLE \<le> length spawned
     \<or> {p. is_active_id ex' p} \<subseteq> busy_ids ex' \<union> {p. in_backoff now unix_now ex' p}"
proof (cases "advance_all_settlements A now unix_now outs permits ex")
  case (Pair ex' spawned)
  then obtain ex3 ps where run: "spawns now unix_now ps permits ex3 [] ex' spawned"
    and ps: "set ps = {p. is_active_id ex3 p}"
    by (rule advance_all_spawns)
  moreover have "same_work ex3 ex'" using run by (simp add: spawns_def)
  ultimately show ?thesis
    by (auto simp: Pair spawns_def may_start_def same_work_simps [of ex3 ex'])
qed

end
