(* ===== verification/F64_Ops.thy ===== *)
theory F64_Ops
  imports F64_Arith
begin

text \<open>
  The functions on \<open>f64\<close> that the pricing code calls: \<open>is_finite\<close>, \<open>max\<close>, \<open>min\<close>, \<open>clamp\<close>,
  \<open>floor\<close>, \<open>ceil\<close>, the order of \<open>total_cmp\<close> on absolute values and \<open>{:.10}\<close>. As in
  \<open>F64\<close>, the sign of zero is not kept; a negative zero would print with a sign.
\<close>

definition is_finite :: "f64 \<Rightarrow> bool" where
  "is_finite x = (case x of Fin r \<Rightarrow> True | _ \<Rightarrow> False)"

definition f64_positive :: "f64 \<Rightarrow> bool" where
  "f64_positive x \<longleftrightarrow> f64_lt (Fin 0) x"

text \<open>The other operand when one is NaN.\<close>

definition f64_max :: "f64 \<Rightarrow> f64 \<Rightarrow> f64" where
  "f64_max x y = (if x = NaN then y else if y = NaN then x else if f64_lt x y then y else x)"

definition f64_min :: "f64 \<Rightarrow> f64 \<Rightarrow> f64" where
  "f64_min x y = (if x = NaN then y else if y = NaN then x else if f64_lt y x then y else x)"

text \<open>\<open>clamp\<close> for bounds in order, as every caller passes them.\<close>

definition f64_clamp :: "f64 \<Rightarrow> f64 \<Rightarrow> f64 \<Rightarrow> f64" where
  "f64_clamp lo hi x = (if f64_lt x lo then lo else if f64_lt hi x then hi else x)"

fun f64_floor :: "f64 \<Rightarrow> f64" where
  "f64_floor (Fin r) = Fin (of_int \<lfloor>r\<rfloor>)"
| "f64_floor x = x"

fun f64_ceil :: "f64 \<Rightarrow> f64" where
  "f64_ceil (Fin r) = Fin (of_int \<lceil>r\<rceil>)"
| "f64_ceil x = x"

text \<open>The key of \<open>total_cmp\<close> on non-negative values: finite ones, then infinity, then NaN.\<close>

definition total_key :: "f64 \<Rightarrow> nat \<times> rat" where
  "total_key x = (case x of Fin r \<Rightarrow> (0, r) | Inf s \<Rightarrow> (1, 0) | NaN \<Rightarrow> (2, 0))"

text \<open>\<open>format!("{:.10}", x)\<close>: the exact value rounded to ten decimals, ties to even.\<close>

definition pad_digits :: "nat \<Rightarrow> string \<Rightarrow> string" where
  "pad_digits n s = replicate (n - length s) (CHR ''0'') @ s"

definition fixed10 :: "f64 \<Rightarrow> string" where
  "fixed10 x = (case x of
       NaN \<Rightarrow> ''NaN''
     | Inf s \<Rightarrow> (if s then ''-inf'' else ''inf'')
     | Fin r \<Rightarrow> (let n = nat (round_half_even (\<bar>r\<bar> * 10 ^ 10)) in
         (if r < 0 then ''-'' else []) @ show_nat (n div 10 ^ 10) @ ''.''
         @ pad_digits 10 (show_nat (n mod 10 ^ 10))))"

definition f64_sum :: "f64 list \<Rightarrow> f64" where
  "f64_sum xs = foldl f64_add (Fin 0) xs"

definition or_parse :: "string \<Rightarrow> f64" where
  "or_parse s = (case parse_f64 s of Some v \<Rightarrow> v | None \<Rightarrow> Fin 0)"

lemma f64_max_upper:
  "x \<noteq> NaN \<Longrightarrow> y \<noteq> NaN \<Longrightarrow> f64_le x (f64_max x y) \<and> f64_le y (f64_max x y)"
  by (cases x; cases y) (auto simp: f64_max_def)

lemma f64_clamp_within:
  assumes "f64_le lo hi" "x \<noteq> NaN"
  shows "f64_le lo (f64_clamp lo hi x) \<and> f64_le (f64_clamp lo hi x) hi"
  using assms by (cases lo; cases hi; cases x) (auto simp: f64_clamp_def)

lemma f64_max_not_NaN: "y \<noteq> NaN \<Longrightarrow> f64_max x y \<noteq> NaN"
  by (simp add: f64_max_def)

end
