(* ===== verification/Pool_Impact.thy ===== *)
theory Pool_Impact
  imports F64_Ops
begin

text \<open>
  \<open>crates/agent-logic/src/pool_impact.rs\<close>: how much a trade moves a constant-product pool from
  the counterparty's trailing net, as a percentage of the price, and the bisection that turns
  a quote amount into a base amount. The protobuf message is a record, serde is left out.
\<close>

record pool_depth_message =
  pd_model :: string
  pd_base_reserve :: f64

record pool_depth =
  base_reserve :: f64

definition depth_from_proto :: "pool_depth_message \<Rightarrow> pool_depth option" where
  "depth_from_proto p =
     (if pd_model p \<noteq> ''constant_product'' then None
      else if \<not> (is_finite (pd_base_reserve p) \<and> f64_positive (pd_base_reserve p)) then None
      else Some \<lparr>base_reserve = pd_base_reserve p\<rparr>)"

datatype impact_side = UserBuys | UserSells

text \<open>The decimal literals of the source, as the doubles they denote.\<close>

definition lit :: "rat \<Rightarrow> f64" where
  "lit r = round_f64 r"

definition finite_nonneg :: "f64 \<Rightarrow> f64" where
  "finite_nonneg x = (if is_finite x then f64_max x (Fin 0) else Fin 0)"

definition markup :: "impact_side \<Rightarrow> f64 \<Rightarrow> f64 \<Rightarrow> f64 \<Rightarrow> f64" where
  "markup side reserve share x =
     (let u = f64_clamp (Fin 0) share (f64_div x reserve)
      in case side of
           UserBuys \<Rightarrow> f64_div (f64_mul (lit 100) u) (f64_sub (Fin 1) u)
         | UserSells \<Rightarrow> f64_div (f64_mul (lit 100) u) (f64_add (Fin 1) u))"

definition charged_position :: "impact_side \<Rightarrow> f64 \<Rightarrow> f64 \<Rightarrow> f64 \<Rightarrow> f64 \<times> f64" where
  "charged_position side net q fz = (case side of
       UserBuys \<Rightarrow> (f64_max (f64_sub net fz) (Fin 0), f64_max (f64_sub (f64_add net q) fz) (Fin 0))
     | UserSells \<Rightarrow> (f64_max (f64_sub (f64_neg net) fz) (Fin 0), f64_max (f64_sub (f64_sub q net) fz) (Fin 0)))"

definition marginal_impact_percent ::
  "impact_side \<Rightarrow> f64 \<Rightarrow> f64 \<Rightarrow> f64 \<Rightarrow> f64 \<Rightarrow> f64 \<Rightarrow> f64 \<Rightarrow> f64 \<Rightarrow> f64" where
  "marginal_impact_percent side quantity signed_net reserve free_zone max_fraction multiplier max_percent =
     (if \<not> (is_finite reserve \<and> f64_positive reserve) then Fin 0
      else let q = finite_nonneg quantity;
               net = (if is_finite signed_net then signed_net else Fin 0);
               fz = finite_nonneg free_zone;
               share = (if is_finite max_fraction then f64_clamp (Fin 0) (lit (99 / 100)) max_fraction
                 else lit (99 / 100));
               cap = finite_nonneg max_percent;
               mult = finite_nonneg multiplier;
               (x0, x1) = charged_position side net q fz;
               g = (\<lambda>x. f64_mul x (markup side reserve share x))
           in if f64_le q (Fin 0) then Fin 0
              else f64_clamp (Fin 0) cap
                (f64_mul (f64_max (f64_div (f64_sub (g x1) (g x0)) q) (Fin 0)) mult))"

record impact_config =
  pi_enabled :: bool
  max_impact_percent :: f64
  max_pool_fraction :: f64
  impact_multiplier :: f64
  free_zone_base :: f64
  confirm_tolerance_percent :: f64
  grid_free_zone_base :: "f64 option"
  grid_offer_scale_base :: "f64 option"
  grid_min_rung_base :: "f64 option"

definition pool_impact_percent :: "impact_side \<Rightarrow> f64 \<Rightarrow> f64 \<Rightarrow> pool_depth \<Rightarrow> impact_config \<Rightarrow> f64" where
  "pool_impact_percent side quantity signed_net depth cfg =
     marginal_impact_percent side quantity signed_net (base_reserve depth) (free_zone_base cfg)
       (max_pool_fraction cfg) (impact_multiplier cfg) (max_impact_percent cfg)"

section \<open>Bisection\<close>

definition too_wide :: "f64 \<Rightarrow> f64 \<Rightarrow> bool" where
  "too_wide lo hi \<longleftrightarrow> \<not> f64_le (f64_sub hi lo) (f64_mul (lit (1 / 10 ^ 12)) hi)"

definition midpoint :: "f64 \<Rightarrow> f64 \<Rightarrow> f64" where
  "midpoint lo hi = f64_mul (lit (1 / 2)) (f64_add lo hi)"

fun bisect :: "nat \<Rightarrow> f64 \<Rightarrow> (f64 \<Rightarrow> f64) \<Rightarrow> f64 \<Rightarrow> f64 \<Rightarrow> f64 option" where
  "bisect 0 quote price_at lo hi = Some (midpoint lo hi)"
| "bisect (Suc n) quote price_at lo hi =
     (if \<not> too_wide lo hi then Some (midpoint lo hi)
      else let mid = midpoint lo hi; h = f64_sub (f64_mul mid (price_at mid)) quote
        in if h = NaN then None
           else if f64_positive h then bisect n quote price_at lo mid
           else bisect n quote price_at mid hi)"

definition solve_base_for_quote :: "f64 \<Rightarrow> f64 \<Rightarrow> f64 \<Rightarrow> (f64 \<Rightarrow> f64) \<Rightarrow> f64 option" where
  "solve_base_for_quote quote floor_price ceil_price price_at =
     (if \<not> (is_finite quote \<and> f64_positive quote) then None
      else if \<not> (is_finite floor_price \<and> is_finite ceil_price) then None
      else if \<not> (f64_positive floor_price \<and> f64_le floor_price ceil_price) then None
      else bisect 64 quote price_at (f64_div quote ceil_price) (f64_div quote floor_price))"

end
