(* ===== verification/Order_Grid.thy ===== *)
theory Order_Grid
  imports Pool_Impact Order_Tracker "HOL-Library.Product_Lexorder"
begin

text \<open>
  The pure half of \<open>crates/agent-logic/src/order_manager.rs\<close>: whether the balances fund a side
  of the grid, what to do with each side, which orders to cancel and place and in which order,
  and how the desk's net position shapes the offers. An \<open>Instant\<close> is a number of nanoseconds.
\<close>

section \<open>Data\<close>

datatype funding = Funded | Short | Unknown

datatype unknown_why = Aged | FeeReserve

record grid_funding =
  gf_bid :: funding
  gf_offer :: funding
  gf_why :: "unknown_why option"
  cc_avail :: f64
  bid_need :: f64
  bid_avail :: f64
  offer_need :: f64
  offer_avail :: f64

record side_counts =
  n_bids :: nat
  n_offers :: nat
  bid_partial :: bool
  offer_partial :: bool

definition no_orders :: side_counts where
  "no_orders = \<lparr>n_bids = 0, n_offers = 0, bid_partial = False, offer_partial = False\<rparr>"

definition any_resting :: "side_counts \<Rightarrow> bool" where
  "any_resting c \<longleftrightarrow> 0 < n_bids c \<or> 0 < n_offers c"

datatype side_action = Keep | Replace | Cancel

record plan_input =
  pin_bid :: funding
  pin_offer :: funding
  bid_expected :: nat
  offer_expected :: nat
  resting :: side_counts
  force_bid :: bool
  force_offer :: bool
  shape_changed :: bool

record side_anchors =
  bid_anchor :: "f64 option"
  offer_anchor :: "f64 option"

datatype order_side = BidSide | OfferSide

datatype grid_op =
    CancelOp nat bool
  | PlaceOp order_side string string

record price_level =
  delta_percent :: f64
  quantity :: string

record token_balance =
  tb_instrument_id :: string
  tb_unlocked_amount :: string
  tb_is_canton_coin :: bool

record market_config =
  mc_market_id :: string
  mc_enabled :: bool
  bid_levels :: "price_level list"
  offer_levels :: "price_level list"
  price_change_threshold_percent :: f64
  mc_pool_impact :: "impact_config option"

definition UNFUNDED_PROBE :: nat where "UNFUNDED_PROBE = 60 * 10 ^ 9"

definition order_type_of :: "order_side \<Rightarrow> int" where
  "order_type_of s = (case s of BidSide \<Rightarrow> 1 | OfferSide \<Rightarrow> 2)"

definition balances_usable :: "nat option \<Rightarrow> nat \<Rightarrow> nat \<Rightarrow> bool" where
  "balances_usable set_at stale_secs now = (case set_at of
       None \<Rightarrow> False
     | Some t \<Rightarrow> stale_secs = 0 \<or> (now - t) div 10 ^ 9 < stale_secs)"

section \<open>Funding\<close>

definition unlocked_by :: "(token_balance \<Rightarrow> bool) \<Rightarrow> token_balance list \<Rightarrow> f64" where
  "unlocked_by P balances = (case List.find P balances of
       None \<Rightarrow> Fin 0 | Some b \<Rightarrow> or_parse (tb_unlocked_amount b))"

definition unlocked_cc :: "token_balance list \<Rightarrow> f64" where
  "unlocked_cc = unlocked_by tb_is_canton_coin"

definition unlocked_token :: "token_balance list \<Rightarrow> string \<Rightarrow> f64" where
  "unlocked_token balances i = unlocked_by (\<lambda>b. tb_instrument_id b = i) balances"

definition side_funding :: "f64 \<Rightarrow> f64 \<Rightarrow> funding" where
  "side_funding need avail = (if f64_positive need \<and> f64_lt avail need then Short else Funded)"

text \<open>\<open>split_once('-')\<close>, for exactly one dash.\<close>

definition base_quote :: "string \<Rightarrow> (string \<times> string) option" where
  "base_quote market_id = (case split_on (CHR ''-'') market_id of [b, q] \<Rightarrow> Some (b, q) | _ \<Rightarrow> None)"

definition unknown_funding :: grid_funding where
  "unknown_funding = \<lparr>gf_bid = Unknown, gf_offer = Unknown, gf_why = None, cc_avail = Fin 0,
     bid_need = Fin 0, bid_avail = Fin 0, offer_need = Fin 0, offer_avail = Fin 0\<rparr>"

definition after_fees :: "string \<Rightarrow> f64 \<Rightarrow> f64 \<Rightarrow> f64" where
  "after_fees token unlocked reserve = (if token = ''CC'' then f64_sub unlocked reserve else unlocked)"

definition bid_cost :: "f64 \<Rightarrow> price_level \<Rightarrow> f64" where
  "bid_cost mid l = f64_mul (f64_mul (or_parse (quantity l)) mid)
     (f64_add (Fin 1) (f64_div (delta_percent l) (Fin 100)))"

definition grid_funding_of ::
  "token_balance list \<Rightarrow> bool \<Rightarrow> market_config \<Rightarrow> f64 option \<Rightarrow> price_level list \<Rightarrow> f64 \<Rightarrow> grid_funding" where
  "grid_funding_of balances usable market mid offers reserve =
     (if \<not> usable \<or> balances = [] then unknown_funding\<lparr>gf_why := Some Aged\<rparr>
      else case base_quote (mc_market_id market) of
        None \<Rightarrow> unknown_funding\<lparr>gf_bid := Funded, gf_offer := Funded\<rparr>
      | Some (base, quote) \<Rightarrow>
          let cc = unlocked_cc balances;
              base_unlocked = (if base = ''CC'' then cc else unlocked_token balances base);
              quote_unlocked = (if quote = ''CC'' then cc else unlocked_token balances quote);
              out = unknown_funding\<lparr>cc_avail := cc\<rparr>
          in if f64_lt cc reserve then out\<lparr>gf_why := Some FeeReserve\<rparr>
             else let b_avail = after_fees quote quote_unlocked reserve;
                      o_avail = after_fees base base_unlocked reserve;
                      o_need = f64_sum (map (\<lambda>l. or_parse (quantity l)) offers);
                      out = out\<lparr>bid_avail := b_avail, offer_avail := o_avail, offer_need := o_need,
                        gf_offer := side_funding o_need o_avail\<rparr>
               in case mid of
                    None \<Rightarrow> out
                  | Some m \<Rightarrow>
                      if is_finite m \<and> f64_positive m then
                        (let need = f64_sum (map (bid_cost m) (bid_levels market))
                         in out\<lparr>bid_need := need, gf_bid := side_funding need b_avail\<rparr>)
                      else out)"

section \<open>Planning\<close>

definition partially_filled :: "server_order \<Rightarrow> bool" where
  "partially_filled r = (case parse_f64 (so_filled_quantity r) of Some f \<Rightarrow> f64_positive f | None \<Rightarrow> False)"

definition count_order :: "side_counts \<Rightarrow> server_order \<Rightarrow> side_counts" where
  "count_order c r =
     (if so_order_type r = order_type_of BidSide then
        c\<lparr>n_bids := n_bids c + 1, bid_partial := bid_partial c \<or> partially_filled r\<rparr>
      else if so_order_type r = order_type_of OfferSide then
        c\<lparr>n_offers := n_offers c + 1, offer_partial := offer_partial c \<or> partially_filled r\<rparr>
      else c)"

definition side_counts_of :: "server_order list \<Rightarrow> side_counts" where
  "side_counts_of rs = foldl count_order no_orders rs"

definition plan_side :: "funding \<Rightarrow> bool \<Rightarrow> bool \<Rightarrow> nat \<Rightarrow> side_action" where
  "plan_side fund fundable trigger rests =
     (if fund = Unknown then Keep
      else if fundable then (if trigger then Replace else Keep)
      else if 0 < rests then Cancel else Keep)"

definition plan_market :: "plan_input \<Rightarrow> side_action \<times> side_action" where
  "plan_market i =
     (let bid_fundable = (pin_bid i = Funded \<and> 0 < bid_expected i);
          offer_fundable = (pin_offer i = Funded \<and> 0 < offer_expected i);
          bid_trigger = (force_bid i \<or> n_bids (resting i) \<noteq> bid_expected i \<or> bid_partial (resting i));
          offer_trigger = (force_offer i \<or> n_offers (resting i) \<noteq> offer_expected i
            \<or> offer_partial (resting i) \<or> shape_changed i)
      in (plan_side (pin_bid i) bid_fundable bid_trigger (n_bids (resting i)),
          plan_side (pin_offer i) offer_fundable offer_trigger (n_offers (resting i))))"

definition moved_past :: "f64 option \<Rightarrow> f64 \<Rightarrow> f64 \<Rightarrow> f64 option" where
  "moved_past anchor price threshold = (case anchor of
       None \<Rightarrow> None
     | Some from_price \<Rightarrow>
         (let change = f64_mul (f64_div (f64_abs (f64_sub price from_price)) from_price) (Fin 100)
          in if f64_le threshold change then Some change else None))"

definition next_anchor :: "f64 \<Rightarrow> f64 option \<Rightarrow> side_action \<Rightarrow> nat \<Rightarrow> f64 option" where
  "next_anchor price anchor action rests = (case action of
       Replace \<Rightarrow> Some price
     | Keep \<Rightarrow> (if anchor = None \<and> 0 < rests then Some price else anchor)
     | Cancel \<Rightarrow> anchor)"

definition next_anchors ::
  "side_anchors \<Rightarrow> side_action \<times> side_action \<Rightarrow> side_counts \<Rightarrow> f64 \<Rightarrow> side_anchors" where
  "next_anchors prev plan rest price =
     \<lparr>bid_anchor = next_anchor price (bid_anchor prev) (fst plan) (n_bids rest),
      offer_anchor = next_anchor price (offer_anchor prev) (snd plan) (n_offers rest)\<rparr>"

definition unfundable :: "funding \<Rightarrow> nat \<Rightarrow> bool" where
  "unfundable f expected \<longleftrightarrow> f = Short \<or> f = Funded \<and> expected = 0"

definition can_park :: "grid_funding \<Rightarrow> nat \<Rightarrow> nat \<Rightarrow> side_counts option \<Rightarrow> nat option \<Rightarrow> bool" where
  "can_park f bid_n offer_n last_resting probe_age \<longleftrightarrow>
     (case last_resting of Some r \<Rightarrow> \<not> any_resting r | None \<Rightarrow> False)
     \<and> unfundable (gf_bid f) bid_n \<and> unfundable (gf_offer f) offer_n
     \<and> (case probe_age of Some age \<Rightarrow> age < UNFUNDED_PROBE | None \<Rightarrow> False)"

definition past_soft_deadline :: "nat \<Rightarrow> nat \<Rightarrow> nat \<Rightarrow> bool" where
  "past_soft_deadline visited now deadline \<longleftrightarrow> 0 < visited \<and> deadline \<le> now"

section \<open>Orders\<close>

definition rung_price :: "order_side \<Rightarrow> f64 \<Rightarrow> f64 \<Rightarrow> f64 \<Rightarrow> string" where
  "rung_price side mid delta tick =
     (let steps = f64_div (f64_mul mid (f64_add (Fin 1) (f64_div delta (Fin 100)))) tick
      in fixed10 (f64_mul (case side of BidSide \<Rightarrow> f64_floor steps | OfferSide \<Rightarrow> f64_ceil steps) tick))"

definition new_order :: "order_side \<Rightarrow> f64 \<Rightarrow> f64 \<Rightarrow> price_level \<Rightarrow> f64 \<times> order_side \<times> string \<times> string" where
  "new_order side mid tick l =
     (f64_abs (delta_percent l), side, rung_price side mid (delta_percent l) tick, quantity l)"

definition new_orders ::
  "price_level list \<Rightarrow> price_level list \<Rightarrow> f64 \<Rightarrow> f64 \<Rightarrow> side_action \<times> side_action
     \<Rightarrow> (f64 \<times> order_side \<times> string \<times> string) list" where
  "new_orders bid_ls offer_ls mid tick plan = sort_key (\<lambda>r. total_key (fst r))
     ((if fst plan = Replace then map (new_order BidSide mid tick) bid_ls else [])
      @ (if snd plan = Replace then map (new_order OfferSide mid tick) offer_ls else []))"

definition side_queue :: "server_order list \<Rightarrow> order_side \<Rightarrow> f64 \<Rightarrow> nat list" where
  "side_queue rs side mid = map so_order_id (sort_key
     (\<lambda>r. total_key (f64_abs (f64_sub (or_parse (so_price r)) mid)))
     (filter (\<lambda>r. so_order_type r = order_type_of side) rs))"

text \<open>Cancel one old order of the same side, place one new.\<close>

definition paired :: "nat list \<Rightarrow> grid_op list" where
  "paired old = (case old of [] \<Rightarrow> [] | i # js \<Rightarrow> [CancelOp i False])"

fun interleave ::
  "(f64 \<times> order_side \<times> string \<times> string) list \<Rightarrow> nat list \<Rightarrow> nat list \<Rightarrow> grid_op list \<times> nat list \<times> nat list" where
  "interleave [] bid_old offer_old = ([], bid_old, offer_old)"
| "interleave ((d, side, price, qty) # rs) bid_old offer_old =
     (let old = (case side of BidSide \<Rightarrow> bid_old | OfferSide \<Rightarrow> offer_old) in
      case interleave rs (case side of BidSide \<Rightarrow> tl bid_old | OfferSide \<Rightarrow> bid_old)
             (case side of BidSide \<Rightarrow> offer_old | OfferSide \<Rightarrow> tl offer_old) of
        (ops, b, f) \<Rightarrow> (paired old @ PlaceOp side price qty # ops, b, f))"

definition withdrawn :: "side_action \<Rightarrow> side_action \<Rightarrow> nat list \<Rightarrow> grid_op list" where
  "withdrawn wanted action queue = (if action = wanted then map (\<lambda>i. CancelOp i True) queue else [])"

definition grid_ops ::
  "price_level list \<Rightarrow> price_level list \<Rightarrow> f64 \<Rightarrow> f64 \<Rightarrow> server_order list \<Rightarrow> side_action \<times> side_action
     \<Rightarrow> grid_op list" where
  "grid_ops bid_ls offer_ls mid tick rs plan =
     (let bid_old = side_queue rs BidSide mid; offer_old = side_queue rs OfferSide mid;
          keep_bid = (if fst plan = Cancel then [] else bid_old);
          keep_offer = (if snd plan = Cancel then [] else offer_old)
      in case interleave (new_orders bid_ls offer_ls mid tick plan) keep_bid keep_offer of
           (ops, b, f) \<Rightarrow> withdrawn Cancel (fst plan) bid_old @ withdrawn Cancel (snd plan) offer_old
             @ ops @ withdrawn Replace (fst plan) b @ withdrawn Replace (snd plan) f)"

section \<open>Crossing\<close>

definition reduce_by :: "('a \<Rightarrow> 'a \<Rightarrow> 'a) \<Rightarrow> 'a list \<Rightarrow> 'a option" where
  "reduce_by f xs = (case xs of [] \<Rightarrow> None | x # xs \<Rightarrow> Some (foldl f x xs))"

definition best_of :: "order_side \<Rightarrow> f64 list \<Rightarrow> f64 option" where
  "best_of side xs = (case side of BidSide \<Rightarrow> reduce_by f64_max xs | OfferSide \<Rightarrow> reduce_by f64_min xs)"

definition tightest_new :: "price_level list \<Rightarrow> order_side \<Rightarrow> f64 \<Rightarrow> f64 \<Rightarrow> f64 option" where
  "tightest_new ls side mid tick =
     best_of side (List.map_filter (\<lambda>l. parse_f64 (rung_price side mid (delta_percent l) tick)) ls)"

definition best_resting :: "server_order list \<Rightarrow> order_side \<Rightarrow> f64 option" where
  "best_resting rs side = best_of side (List.map_filter (\<lambda>r. parse_f64 (so_price r))
     (filter (\<lambda>r. so_order_type r = order_type_of side) rs))"

definition reaches :: "f64 option \<Rightarrow> f64 option \<Rightarrow> bool" where
  "reaches bid offer = (case (bid, offer) of (Some b, Some f) \<Rightarrow> f64_le f b | _ \<Rightarrow> False)"

definition escalate :: "bool \<Rightarrow> side_action" where
  "escalate fundable = (if fundable then Replace else Cancel)"

definition uncross ::
  "side_action \<times> side_action \<Rightarrow> price_level list \<Rightarrow> price_level list \<Rightarrow> f64 \<Rightarrow> f64 \<Rightarrow> server_order list
     \<Rightarrow> bool \<times> bool \<Rightarrow> side_action \<times> side_action" where
  "uncross plan bid_ls offer_ls mid tick rs fundable =
     (if plan = (Replace, Keep) then
        (if reaches (tightest_new bid_ls BidSide mid tick) (best_resting rs OfferSide)
         then (Replace, escalate (snd fundable)) else plan)
      else if plan = (Keep, Replace) then
        (if reaches (best_resting rs BidSide) (tightest_new offer_ls OfferSide mid tick)
         then (escalate (fst fundable), Replace) else plan)
      else plan)"

section \<open>Shaping of the offers\<close>

definition DEFAULT_MIN_RUNG_FRACTION :: f64 where "DEFAULT_MIN_RUNG_FRACTION = lit (1 / 10)"

definition SHAPE_REFRESH_QTY_FRACTION :: f64 where "SHAPE_REFRESH_QTY_FRACTION = lit (5 / 1000)"

definition SHAPE_REFRESH_DELTA_PCT :: f64 where "SHAPE_REFRESH_DELTA_PCT = lit (1 / 100)"

record shaped_offers =
  sh_levels :: "price_level list"
  sh_factor :: f64
  sh_max_impact :: f64
  sh_dropped :: nat

definition opt_positive :: "f64 option \<Rightarrow> f64 option" where
  "opt_positive x = (case x of Some v \<Rightarrow> if is_finite v \<and> f64_positive v then Some v else None | None \<Rightarrow> None)"

definition shape_factor :: "impact_config \<Rightarrow> f64 \<Rightarrow> f64 \<Rightarrow> f64 \<Rightarrow> f64" where
  "shape_factor cfg reserve fz desk_net =
     (let excess = f64_max (f64_sub desk_net fz) (Fin 0);
          span = (case opt_positive (grid_offer_scale_base cfg) of
              Some s \<Rightarrow> s
            | None \<Rightarrow> f64_mul (f64_clamp (lit (1 / 100)) (lit (99 / 100)) (max_pool_fraction cfg)) reserve)
      in if f64_positive span then f64_clamp (Fin 0) (Fin 1) (f64_sub (Fin 1) (f64_div excess span)) else Fin 1)"

definition shape_level ::
  "impact_config \<Rightarrow> f64 \<Rightarrow> f64 \<Rightarrow> price_level \<Rightarrow> price_level option" where
  "shape_level cfg factor impact l =
     (let qty = or_parse (quantity l); scaled = f64_mul qty factor in
      if \<not> pi_enabled cfg then Some l
      else if f64_le (Fin 1) factor \<and> f64_le impact (Fin 0) then Some l
      else let min_rung = (case opt_positive (grid_min_rung_base cfg) of
             Some v \<Rightarrow> v | None \<Rightarrow> f64_mul qty DEFAULT_MIN_RUNG_FRACTION)
           in if is_finite scaled \<and> f64_le min_rung scaled then
                Some \<lparr>delta_percent = f64_add (delta_percent l) impact, quantity = fixed10 scaled\<rparr>
              else None)"

definition rung_impact :: "impact_config \<Rightarrow> f64 \<Rightarrow> f64 \<Rightarrow> f64 \<Rightarrow> f64 \<Rightarrow> price_level \<Rightarrow> f64" where
  "rung_impact cfg reserve fz desk_net factor l =
     marginal_impact_percent UserBuys (f64_max (f64_mul (or_parse (quantity l)) factor) (Fin 0)) desk_net
       reserve fz (max_pool_fraction cfg) (impact_multiplier cfg) (max_impact_percent cfg)"

definition shape_offer_levels :: "price_level list \<Rightarrow> impact_config \<Rightarrow> f64 \<Rightarrow> f64 \<Rightarrow> shaped_offers" where
  "shape_offer_levels raw cfg reserve desk_net =
     (let fz = f64_max (case grid_free_zone_base cfg of Some v \<Rightarrow> v | None \<Rightarrow> free_zone_base cfg) (Fin 0);
          factor = shape_factor cfg reserve fz desk_net;
          impact = rung_impact cfg reserve fz desk_net factor;
          shaped = map (\<lambda>l. shape_level cfg factor (impact l) l) raw
      in \<lparr>sh_levels = List.map_filter id shaped, sh_factor = factor,
          sh_max_impact = foldl f64_max (Fin 0) (map impact raw),
          sh_dropped = length (filter (\<lambda>x. x = None) shaped)\<rparr>)"

definition level_moved :: "price_level \<times> price_level \<Rightarrow> bool" where
  "level_moved = (\<lambda>(a, b).
     let qa = or_parse (quantity a); qb = or_parse (quantity b)
     in (if f64_positive qa then f64_lt SHAPE_REFRESH_QTY_FRACTION (f64_div (f64_abs (f64_sub qb qa)) qa)
         else qa = NaN \<or> qa \<noteq> qb)
        \<or> f64_lt SHAPE_REFRESH_DELTA_PCT (f64_abs (f64_sub (delta_percent a) (delta_percent b))))"

definition shaped_sets_differ_materially :: "price_level list \<Rightarrow> price_level list \<Rightarrow> bool" where
  "shaped_sets_differ_materially prev now \<longleftrightarrow>
     length prev \<noteq> length now \<or> list_ex level_moved (zip prev now)"

end
