(* ===== verification/Order_Manager.thy ===== *)
theory Order_Manager
  imports Order_Grid Instruments
begin

text \<open>
  The order manager of \<open>crates/agent-logic/src/order_manager.rs\<close>: placing and cancelling
  orders, and the grid cycle that visits each market. What the server answers and how the
  shutdown flag reads at each check are the fields of \<open>visit_env\<close>; the desk's net position is
  a function when a tracker is set. The stamps that only rate-limit warnings are left out.
\<close>

section \<open>State\<close>

record manager_config =
  om_instruments :: instrument_config
  om_markets :: "market_config list"
  om_fee_reserve_cc :: f64
  balance_stale_after_secs :: nat

record order_manager =
  om_config :: manager_config
  om_tracker :: order_tracker
  grid_anchors :: "(string \<times> side_anchors) list"
  om_balances :: "token_balance list"
  tick_sizes :: "(string \<times> f64) list"
  priceless :: "string set"
  price_fail_streak :: "(string \<times> nat) list"
  price_restore_streak :: "(string \<times> nat) list"
  desk_net :: "(string \<Rightarrow> f64) option"
  pool_depths :: "(string \<times> pool_depth) list"
  last_shaped_offers :: "(string \<times> price_level list) list"
  balances_set_at :: "nat option"
  last_seen_price :: "(string \<times> f64) list"
  last_resting :: "(string \<times> side_counts) list"
  last_probe :: "(string \<times> nat) list"
  parked :: "string set"
  short_sides :: "(string \<times> string) set"
  force_refresh :: "string set"
  resume_from :: nat
  pending_cancels :: "(string \<times> nat list) list"

definition new_order_manager :: "manager_config \<Rightarrow> order_tracker \<Rightarrow> order_manager" where
  "new_order_manager c t = \<lparr>om_config = c, om_tracker = t, grid_anchors = [], om_balances = [], tick_sizes = [],
     priceless = {}, price_fail_streak = [], price_restore_streak = [], desk_net = None, pool_depths = [],
     last_shaped_offers = [], balances_set_at = None, last_seen_price = [], last_resting = [],
     last_probe = [], parked = {}, short_sides = {}, force_refresh = {}, resume_from = 0,
     pending_cancels = []\<rparr>"

record cycle_report =
  cr_markets :: nat
  cr_no_levels :: nat
  cr_parked :: nat
  cr_held_unknown :: nat
  cr_refreshed :: nat
  cr_placed :: nat
  cr_cancelled :: nat
  cr_deferred :: nat

definition count_u32 :: "nat \<Rightarrow> nat" where
  "count_u32 n = min n (2 ^ 32 - 1)"

definition sat_u32 :: "nat \<Rightarrow> nat \<Rightarrow> nat" where
  "sat_u32 a b = min (a + b) (2 ^ 32 - 1)"

definition set_balances :: "nat \<Rightarrow> token_balance list \<Rightarrow> order_manager \<Rightarrow> order_manager" where
  "set_balances now bs m = m\<lparr>om_balances := map (\<lambda>b.
       case internal_id_for_wire (om_instruments (om_config m)) (tb_instrument_id b) of
         None \<Rightarrow> b | Some internal \<Rightarrow> b\<lparr>tb_instrument_id := internal\<rparr>) bs,
     balances_set_at := Some now\<rparr>"

section \<open>Orders\<close>

text \<open>The code of a \<open>tonic::Status\<close>, or \<open>None\<close> for any other error.\<close>

definition submit_outcome_unknown :: "string option \<Rightarrow> bool" where
  "submit_outcome_unknown code = (case code of
       None \<Rightarrow> True
     | Some c \<Rightarrow> c \<in> {''DeadlineExceeded'', ''Cancelled'', ''Unknown'', ''Internal'', ''Unavailable''})"

datatype submit_answer = Submitted nat | Refused | Submit_Error "string option"

record arith_env =
  ae_arith :: settle_arith
  ae_crypto :: crypto
  ae_json :: "string \<Rightarrow> string"

definition side_name :: "order_side \<Rightarrow> string" where
  "side_name s = (case s of BidSide \<Rightarrow> ''bid'' | OfferSide \<Rightarrow> ''offer'')"

definition place_order ::
  "arith_env \<Rightarrow> nat \<Rightarrow> nat \<Rightarrow> order_side \<Rightarrow> string \<Rightarrow> string \<Rightarrow> string \<Rightarrow> submit_answer \<Rightarrow> order_tracker
     \<Rightarrow> order_tracker \<times> nat option" where
  "place_order E now_ms now side market price qty answer t0 =
     (let t = begin_placement market t0 in
      case sign_order (ae_crypto E) (ae_json E) now_ms t market (side_name side) price qty of
        Inl e \<Rightarrow> (drop_placement market t, None)
      | Inr (sig, data, nonce) \<Rightarrow> (case answer of
          Submitted i \<Rightarrow> (drop_placement market (track_order (ae_arith E) i market (order_type_of side)
            price qty nonce sig data t), Some i)
        | Refused \<Rightarrow> (drop_placement market t, None)
        | Submit_Error code \<Rightarrow>
            (drop_placement market (if submit_outcome_unknown code then
               note_submit_failed \<lparr>fs_market_id = market, fs_order_type = order_type_of side, fs_price = price,
                 fs_quantity = qty, fs_nonce = nonce, fs_signature = sig, fs_signed_data = data\<rparr> now t
             else t), None)))"

definition on_tracker_of :: "(order_tracker \<Rightarrow> order_tracker) \<Rightarrow> order_manager \<Rightarrow> order_manager" where
  "on_tracker_of f m = m\<lparr>om_tracker := f (om_tracker m)\<rparr>"

definition cancel_resting :: "bool \<Rightarrow> nat \<Rightarrow> order_manager \<Rightarrow> order_manager" where
  "cancel_resting ok i m = (if ok then on_tracker_of (cancel_order i) m else m)"

definition get_active_orders ::
  "arith_env \<Rightarrow> nat \<Rightarrow> server_order list option \<Rightarrow> order_manager \<Rightarrow> order_manager \<times> server_order list option" where
  "get_active_orders E now answer m = (case answer of
       None \<Rightarrow> (m, None)
     | Some rs \<Rightarrow> (on_tracker_of (\<lambda>t. fst (adopt_listed (ae_arith E) rs now t)) m, Some rs))"

definition cancel_all_orders ::
  "arith_env \<Rightarrow> nat \<Rightarrow> server_order list option \<Rightarrow> (nat \<Rightarrow> bool) \<Rightarrow> order_manager \<Rightarrow> order_manager" where
  "cancel_all_orders E now answer cancelled m0 = (case get_active_orders E now answer m0 of
       (m, None) \<Rightarrow> m
     | (m, Some rs) \<Rightarrow> foldl (\<lambda>m r. cancel_resting (cancelled (so_order_id r)) (so_order_id r) m) m rs)"

section \<open>Prices\<close>

definition at_key :: "string \<Rightarrow> (string \<times> 'a) list \<Rightarrow> 'a \<Rightarrow> 'a" where
  "at_key k xs d = or_else (map_of xs k) d"

definition handle_priceless ::
  "arith_env \<Rightarrow> nat \<Rightarrow> server_order list option \<Rightarrow> (nat \<Rightarrow> bool) \<Rightarrow> string \<Rightarrow> order_manager \<Rightarrow> order_manager" where
  "handle_priceless E now answer cancelled market m = cancel_all_orders E now answer cancelled
     (m\<lparr>priceless := insert market (priceless m), grid_anchors := AList.delete market (grid_anchors m),
        last_resting := AList.delete market (last_resting m),
        pending_cancels := AList.delete market (pending_cancels m),
        pool_depths := AList.delete market (pool_depths m)\<rparr>)"

definition accept_price :: "string \<Rightarrow> f64 \<Rightarrow> order_manager \<Rightarrow> order_manager \<times> f64 option" where
  "accept_price market p m0 =
     (let m = m0\<lparr>price_fail_streak := AList.delete market (price_fail_streak m0),
            last_seen_price := AList.update market p (last_seen_price m0)\<rparr>
      in if market \<notin> priceless m then (m, Some p)
         else let streak = sat_u32 (at_key market (price_restore_streak m) 0) 1 in
           if streak < 2 then
             (m\<lparr>price_restore_streak := AList.update market streak (price_restore_streak m)\<rparr>, None)
           else
             (m\<lparr>price_restore_streak := AList.delete market (price_restore_streak m),
                priceless := priceless m - {market}, force_refresh := insert market (force_refresh m)\<rparr>, Some p))"

record price_answer =
  pa_last :: f64
  pa_depth :: "pool_depth_message option"

definition cache_depth :: "string \<Rightarrow> price_answer \<Rightarrow> order_manager \<Rightarrow> order_manager" where
  "cache_depth market a m = m\<lparr>pool_depths := (case Option.bind (pa_depth a) depth_from_proto of
       Some d \<Rightarrow> AList.update market d (pool_depths m)
     | None \<Rightarrow> AList.delete market (pool_depths m))\<rparr>"

definition price_failed ::
  "arith_env \<Rightarrow> nat \<Rightarrow> server_order list option \<Rightarrow> (nat \<Rightarrow> bool) \<Rightarrow> string \<Rightarrow> order_manager \<Rightarrow> order_manager" where
  "price_failed E now answer cancelled market m0 =
     (let streak = sat_u32 (at_key market (price_fail_streak m0) 0) 1;
          m = m0\<lparr>price_restore_streak := AList.delete market (price_restore_streak m0),
            price_fail_streak := AList.update market streak (price_fail_streak m0)\<rparr>
      in if 2 \<le> streak \<or> market \<in> priceless m then handle_priceless E now answer cancelled market m else m)"

definition fetch_grid_price ::
  "arith_env \<Rightarrow> nat \<Rightarrow> price_answer option \<Rightarrow> server_order list option \<Rightarrow> (nat \<Rightarrow> bool) \<Rightarrow> string
     \<Rightarrow> order_manager \<Rightarrow> order_manager \<times> f64 option" where
  "fetch_grid_price E now answer listed cancelled market m0 = (case answer of
       None \<Rightarrow> (price_failed E now listed cancelled market m0, None)
     | Some a \<Rightarrow>
         (let m = cache_depth market a m0 in
          if is_finite (pa_last a) \<and> f64_positive (pa_last a) then accept_price market (pa_last a) m
          else (price_failed E now listed cancelled market m, None)))"

text \<open>The markets and their tick sizes, when the server answers.\<close>

definition get_tick_size :: "(string \<times> string) list option \<Rightarrow> string \<Rightarrow> order_manager \<Rightarrow> order_manager \<times> f64" where
  "get_tick_size answer market m0 =
     (case map_of (tick_sizes m0) market of
        Some ts \<Rightarrow> (m0, ts)
      | None \<Rightarrow>
          (let m = m0\<lparr>tick_sizes := foldl (\<lambda>ts (k, raw). case parse_f64 raw of
                 Some v \<Rightarrow> if f64_positive v then AList.update k v ts else ts
               | None \<Rightarrow> ts) (tick_sizes m0) (case answer of Some ms \<Rightarrow> ms | None \<Rightarrow> [])\<rparr>
           in (m, at_key market (tick_sizes m) (lit (1 / 10 ^ 8)))))"

section \<open>Shape and funding of a market\<close>

definition offer_shape :: "market_config \<Rightarrow> order_manager \<Rightarrow> shaped_offers option" where
  "offer_shape market m =
     (case (mc_pool_impact market, map_of (pool_depths m) (mc_market_id market), desk_net m) of
        (Some cfg, Some depth, Some net) \<Rightarrow>
          Some (shape_offer_levels (offer_levels market) cfg (base_reserve depth)
            (net (hd (split_on (CHR ''-'') (mc_market_id market)))))
      | _ \<Rightarrow> None)"

definition shaped_offer_levels :: "market_config \<Rightarrow> order_manager \<Rightarrow> price_level list" where
  "shaped_offer_levels market m = (case offer_shape market m of
     Some s \<Rightarrow> sh_levels s | None \<Rightarrow> offer_levels market)"

definition shaped_offers_changed :: "market_config \<Rightarrow> order_manager \<Rightarrow> bool" where
  "shaped_offers_changed market m = (case map_of (last_shaped_offers m) (mc_market_id market) of
     None \<Rightarrow> False | Some prev \<Rightarrow> shaped_sets_differ_materially prev (shaped_offer_levels market m))"

definition check_grid_balance ::
  "nat \<Rightarrow> market_config \<Rightarrow> f64 option \<Rightarrow> price_level list \<Rightarrow> order_manager \<Rightarrow> grid_funding" where
  "check_grid_balance now market mid ls m =
     grid_funding_of (om_balances m) (balances_usable (balances_set_at m)
       (balance_stale_after_secs (om_config m)) now) market mid ls (om_fee_reserve_cc (om_config m))"

definition note_side :: "string \<Rightarrow> string \<Rightarrow> funding \<Rightarrow> order_manager \<Rightarrow> order_manager" where
  "note_side market side f m = (case f of
       Short \<Rightarrow> m\<lparr>short_sides := insert (market, side) (short_sides m)\<rparr>
     | Funded \<Rightarrow> m\<lparr>short_sides := short_sides m - {(market, side)}\<rparr>
     | Unknown \<Rightarrow> m)"

definition note_funding :: "string \<Rightarrow> grid_funding \<Rightarrow> order_manager \<Rightarrow> order_manager" where
  "note_funding market f m = note_side market ''offers'' (gf_offer f) (note_side market ''bids'' (gf_bid f) m)"

section \<open>Carrying out a plan\<close>

record visit_env =
  ve_now :: nat
  ve_price :: "price_answer option"
  ve_teardown :: "server_order list option"
  ve_teardown_cancelled :: "nat \<Rightarrow> bool"
  ve_orders :: "server_order list option"
  ve_markets :: "(string \<times> string) list option"
  ve_retry_stopped :: "nat \<Rightarrow> bool"
  ve_retried :: "nat \<Rightarrow> bool"
  ve_stopped_before_orders :: bool
  ve_stopped_before_uncross :: bool
  ve_stopped_before_plan :: bool
  ve_op_stopped :: "nat \<Rightarrow> bool"
  ve_op_cancelled :: "nat \<Rightarrow> bool"
  ve_order_ref :: "nat \<Rightarrow> bool"
  ve_submitted :: "nat \<Rightarrow> submit_answer"
  ve_now_ms :: nat

record plan_outcome =
  po_cancelled :: nat
  po_failed :: "nat list"
  po_placed :: nat
  po_offer_placed :: bool

definition execute_op ::
  "arith_env \<Rightarrow> visit_env \<Rightarrow> string \<Rightarrow> nat \<Rightarrow> grid_op \<Rightarrow> order_manager \<Rightarrow> plan_outcome
     \<Rightarrow> order_manager \<times> plan_outcome" where
  "execute_op E env market n op m out = (case op of
       CancelOp i leftover \<Rightarrow>
         (if ve_op_cancelled env i then
            (cancel_resting True i m, out\<lparr>po_cancelled := po_cancelled out + 1\<rparr>)
          else (m, out\<lparr>po_failed := po_failed out @ [i]\<rparr>))
     | PlaceOp side price qty \<Rightarrow>
         if \<not> ve_order_ref env n then (m, out)
         else (case place_order E (ve_now_ms env) (ve_now env) side market price qty (ve_submitted env n)
               (om_tracker m) of
             (t, None) \<Rightarrow> (m\<lparr>om_tracker := t\<rparr>, out)
           | (t, Some i) \<Rightarrow> (m\<lparr>om_tracker := t\<rparr>, out\<lparr>po_placed := po_placed out + 1,
               po_offer_placed := po_offer_placed out \<or> side = OfferSide\<rparr>)))"

fun execute_ops ::
  "arith_env \<Rightarrow> visit_env \<Rightarrow> string \<Rightarrow> nat \<Rightarrow> grid_op list \<Rightarrow> order_manager \<Rightarrow> plan_outcome
     \<Rightarrow> order_manager \<times> plan_outcome" where
  "execute_ops E env market n [] m out = (m, out)"
| "execute_ops E env market n (op # ops) m out =
     (if ve_op_stopped env n then (m, out)
      else case execute_op E env market n op m out of
        (m', out') \<Rightarrow> execute_ops E env market (Suc n) ops m' out')"

definition execute_plan ::
  "arith_env \<Rightarrow> visit_env \<Rightarrow> market_config \<Rightarrow> f64 \<Rightarrow> server_order list \<Rightarrow> price_level list
     \<Rightarrow> side_action \<times> side_action \<Rightarrow> order_manager \<Rightarrow> cycle_report
     \<Rightarrow> order_manager \<times> cycle_report \<times> nat list" where
  "execute_plan E env market mid rs ls plan m0 report =
     (if ve_stopped_before_plan env then (m0, report, [])
      else
        let (m1, tick) = (if fst plan = Replace \<or> snd plan = Replace
              then get_tick_size (ve_markets env) (mc_market_id market) m0 else (m0, Fin 0));
            placed_levels = (if snd plan = Replace then ls else []);
            ops = grid_ops (bid_levels market) placed_levels mid tick rs plan;
            (m2, out) = execute_ops E env (mc_market_id market) 0 ops m1
              \<lparr>po_cancelled = 0, po_failed = [], po_placed = 0, po_offer_placed = False\<rparr>;
            m3 = (if po_offer_placed out then m2\<lparr>last_shaped_offers :=
              AList.update (mc_market_id market) placed_levels (last_shaped_offers m2)\<rparr> else m2)
        in (m3, report\<lparr>cr_placed := sat_u32 (cr_placed report) (count_u32 (po_placed out)),
              cr_cancelled := sat_u32 (cr_cancelled report) (count_u32 (po_cancelled out))\<rparr>, po_failed out))"

fun retry_cancels ::
  "visit_env \<Rightarrow> string \<Rightarrow> nat \<Rightarrow> nat list \<Rightarrow> order_manager \<Rightarrow> server_order list \<Rightarrow> cycle_report
     \<Rightarrow> order_manager \<times> server_order list \<times> cycle_report" where
  "retry_cancels env market n [] m rs report = (m, rs, report)"
| "retry_cancels env market n (i # ids) m rs report =
     (if ve_retry_stopped env n then (m, rs, report)
      else if ve_retried env i then
        retry_cancels env market (Suc n) ids
          ((cancel_resting True i m)\<lparr>pending_cancels := AList.map_entry market (removeAll i) (pending_cancels m)\<rparr>)
          (filter (\<lambda>r. so_order_id r \<noteq> i) rs) (report\<lparr>cr_cancelled := sat_u32 (cr_cancelled report) 1\<rparr>)
      else retry_cancels env market (Suc n) ids m rs report)"

definition retry_failed_cancels ::
  "visit_env \<Rightarrow> string \<Rightarrow> order_manager \<Rightarrow> server_order list \<Rightarrow> cycle_report
     \<Rightarrow> order_manager \<times> server_order list \<times> cycle_report" where
  "retry_failed_cancels env market m0 rs report =
     (case map_of (pending_cancels m0) market of
        None \<Rightarrow> (m0, rs, report)
      | Some pending \<Rightarrow>
          (let ids = filter (\<lambda>i. \<exists>r \<in> set rs. so_order_id r = i) pending in
           case retry_cancels env market 0 ids
               (m0\<lparr>pending_cancels := AList.update market ids (pending_cancels m0)\<rparr>) rs report of
             (m, rs', report') \<Rightarrow>
               ((if map_of (pending_cancels m) market = Some []
                 then m\<lparr>pending_cancels := AList.delete market (pending_cancels m)\<rparr> else m), rs', report')))"

section \<open>A visit\<close>

record visit_plan =
  vp_plan :: "side_action \<times> side_action"
  vp_anchors :: side_anchors
  vp_anchored :: side_anchors

definition no_anchors :: side_anchors where
  "no_anchors = \<lparr>bid_anchor = None, offer_anchor = None\<rparr>"

definition plan_visit ::
  "market_config \<Rightarrow> f64 \<Rightarrow> grid_funding \<Rightarrow> nat \<Rightarrow> side_counts \<Rightarrow> order_manager \<Rightarrow> order_manager \<times> visit_plan" where
  "plan_visit market price f offer_n rests m0 =
     (let i = mc_market_id market;
          anchors = at_key i (grid_anchors m0) no_anchors;
          restore = (i \<in> force_refresh m0);
          m = m0\<lparr>force_refresh := force_refresh m0 - {i}\<rparr>;
          threshold = price_change_threshold_percent market;
          plan = plan_market \<lparr>pin_bid = gf_bid f, pin_offer = gf_offer f,
            bid_expected = length (bid_levels market), offer_expected = offer_n, resting = rests,
            force_bid = restore \<or> moved_past (bid_anchor anchors) price threshold \<noteq> None,
            force_offer = restore \<or> moved_past (offer_anchor anchors) price threshold \<noteq> None,
            shape_changed = shaped_offers_changed market m\<rparr>
      in (m, \<lparr>vp_plan = plan, vp_anchors = anchors, vp_anchored = next_anchors anchors plan rests price\<rparr>))"

definition stamp_anchors ::
  "string \<Rightarrow> visit_plan \<Rightarrow> side_action \<times> side_action \<Rightarrow> side_counts \<Rightarrow> f64 \<Rightarrow> order_manager \<Rightarrow> order_manager" where
  "stamp_anchors market visit plan rests price m =
     (let anchored = (if plan = vp_plan visit then vp_anchored visit
            else next_anchors (vp_anchors visit) plan rests price)
      in if anchored = vp_anchors visit then m
         else m\<lparr>grid_anchors := AList.update market anchored (grid_anchors m)\<rparr>)"

definition fundable :: "funding \<Rightarrow> nat \<Rightarrow> bool" where
  "fundable f expected \<longleftrightarrow> f = Funded \<and> 0 < expected"

fun withdraw_orders ::
  "visit_env \<Rightarrow> nat \<Rightarrow> server_order list \<Rightarrow> order_manager \<Rightarrow> cycle_report \<Rightarrow> bool
     \<Rightarrow> order_manager \<times> cycle_report \<times> bool" where
  "withdraw_orders env n [] m report all_ok = (m, report, all_ok)"
| "withdraw_orders env n (r # rs) m report all_ok =
     (if ve_op_stopped env n then (m, report, False)
      else if ve_op_cancelled env (so_order_id r) then
        withdraw_orders env (Suc n) rs (cancel_resting True (so_order_id r) m)
          (report\<lparr>cr_cancelled := sat_u32 (cr_cancelled report) 1\<rparr>) all_ok
      else withdraw_orders env (Suc n) rs m report False)"

definition withdraw_unquoted ::
  "arith_env \<Rightarrow> visit_env \<Rightarrow> string \<Rightarrow> order_manager \<Rightarrow> cycle_report \<Rightarrow> order_manager \<times> cycle_report" where
  "withdraw_unquoted E env market m0 report =
     (let m = m0\<lparr>pending_cancels := AList.delete market (pending_cancels m0)\<rparr>;
          recent = (case map_of (last_probe m) market of Some t \<Rightarrow> ve_now env - t < UNFUNDED_PROBE | None \<Rightarrow> False);
          seen_empty = (case map_of (last_resting m) market of Some r \<Rightarrow> \<not> any_resting r | None \<Rightarrow> False)
      in if seen_empty \<and> recent \<or> ve_stopped_before_orders env then (m, report)
         else case get_active_orders E (ve_now env) (ve_orders env)
                (m\<lparr>last_probe := AList.update market (ve_now env) (last_probe m)\<rparr>) of
           (m, None) \<Rightarrow> (m, report)
         | (m, Some rs) \<Rightarrow> (case withdraw_orders env 0 rs m report True of
             (m, report, True) \<Rightarrow> (m\<lparr>last_resting := AList.update market no_orders (last_resting m)\<rparr>, report)
           | (m, report, False) \<Rightarrow> (m\<lparr>last_resting := AList.delete market (last_resting m)\<rparr>, report)))"

text \<open>A side's refresh, once the plan is not to keep both.\<close>

definition carry_out ::
  "arith_env \<Rightarrow> visit_env \<Rightarrow> market_config \<Rightarrow> f64 \<Rightarrow> grid_funding \<Rightarrow> price_level list \<Rightarrow> server_order list
     \<Rightarrow> visit_plan \<Rightarrow> order_manager \<Rightarrow> cycle_report \<Rightarrow> order_manager \<times> cycle_report" where
  "carry_out E env market price f ls rs visit m0 report =
     (let i = mc_market_id market; rests = side_counts_of rs; wanted = vp_plan visit;
          (m1, plan) = (if wanted \<in> {(Replace, Keep), (Keep, Replace)} \<and> \<not> ve_stopped_before_uncross env
            then (case get_tick_size (ve_markets env) i m0 of
              (m, tick) \<Rightarrow> (m, uncross wanted (bid_levels market) ls price tick rs
                (fundable (gf_bid f) (length (bid_levels market)), fundable (gf_offer f) (length ls))))
            else (m0, wanted));
          (m2, report, failed) = execute_plan E env market price rs ls plan
            (m1\<lparr>last_resting := AList.delete i (last_resting m1)\<rparr>) report;
          m3 = (if failed = [] then m2 else m2\<lparr>pending_cancels :=
            AList.update i (remdups (at_key i (pending_cancels m2) [] @ failed)) (pending_cancels m2)\<rparr>)
      in (stamp_anchors i visit plan rests price m3,
          report\<lparr>cr_refreshed := sat_u32 (cr_refreshed report) 1\<rparr>))"

definition visit_priced ::
  "arith_env \<Rightarrow> visit_env \<Rightarrow> market_config \<Rightarrow> f64 \<Rightarrow> order_manager \<Rightarrow> cycle_report
     \<Rightarrow> order_manager \<times> cycle_report" where
  "visit_priced E env market price m0 report =
     (let i = mc_market_id market; bid_n = length (bid_levels market);
          ls = shaped_offer_levels market m0; offer_n = length ls;
          f = check_grid_balance (ve_now env) market (Some price) ls m0;
          m = note_funding i f m0;
          m = (if fundable (gf_bid f) bid_n \<or> fundable (gf_offer f) offer_n
               then m\<lparr>parked := parked m - {i}\<rparr> else m)
      in if gf_bid f = Unknown \<and> gf_offer f = Unknown then
           (m\<lparr>last_resting := AList.delete i (last_resting m)\<rparr>,
            report\<lparr>cr_held_unknown := sat_u32 (cr_held_unknown report) 1\<rparr>)
         else if ve_stopped_before_orders env then (m, report)
         else case get_active_orders E (ve_now env) (ve_orders env) m of
           (m, None) \<Rightarrow> (m, report)
         | (m, Some listed) \<Rightarrow>
             (case retry_failed_cancels env i m listed report of
                (m, rs, report) \<Rightarrow>
                  (case plan_visit market price f offer_n (side_counts_of rs) m of
                     (m, visit) \<Rightarrow>
                       if vp_plan visit = (Keep, Keep) then
                         ((stamp_anchors i visit (Keep, Keep) (side_counts_of rs) price m)
                            \<lparr>last_resting := AList.update i (side_counts_of rs) (last_resting m)\<rparr>, report)
                       else carry_out E env market price f ls rs visit m report)))"

definition visit_market ::
  "arith_env \<Rightarrow> visit_env \<Rightarrow> market_config \<Rightarrow> order_manager \<Rightarrow> cycle_report \<Rightarrow> order_manager \<times> cycle_report" where
  "visit_market E env market m report0 =
     (let i = mc_market_id market;
          report = report0\<lparr>cr_markets := sat_u32 (cr_markets report0) 1\<rparr>
      in if bid_levels market = [] \<and> offer_levels market = [] then
           withdraw_unquoted E env i m (report\<lparr>cr_no_levels := sat_u32 (cr_no_levels report) 1\<rparr>)
         else
           let ls = shaped_offer_levels market m;
               f = check_grid_balance (ve_now env) market (map_of (last_seen_price m) i) ls m;
               probe_age = map_option (\<lambda>t. ve_now env - t) (map_of (last_probe m) i)
           in if can_park f (length (bid_levels market)) (length ls) (map_of (last_resting m) i) probe_age then
                (m\<lparr>parked := insert i (parked m)\<rparr>, report\<lparr>cr_parked := sat_u32 (cr_parked report) 1\<rparr>)
              else case fetch_grid_price E (ve_now env) (ve_price env) (ve_teardown env)
                  (ve_teardown_cancelled env) i
                  (m\<lparr>last_probe := AList.update i (ve_now env) (last_probe m)\<rparr>) of
                (m, None) \<Rightarrow> (m, report)
              | (m, Some price) \<Rightarrow> visit_priced E env market price m report)"

section \<open>A cycle\<close>

text \<open>
  Each market to visit comes with its index, the shutdown flag and the clock before it, and
  the answers of its visit.
\<close>

fun visit_all ::
  "arith_env \<Rightarrow> nat \<Rightarrow> nat \<Rightarrow> (nat \<times> market_config \<times> bool \<times> nat \<times> visit_env) list \<Rightarrow> order_manager
     \<Rightarrow> cycle_report \<Rightarrow> order_manager \<times> cycle_report" where
  "visit_all E deadline visited [] m report = (m, report)"
| "visit_all E deadline visited ((index, market, stopped, now, env) # rest) m report =
     (if stopped then (m, report\<lparr>cr_deferred := count_u32 (Suc (length rest))\<rparr>)
      else if past_soft_deadline visited now deadline then
        (m\<lparr>resume_from := index\<rparr>, report\<lparr>cr_deferred := count_u32 (Suc (length rest))\<rparr>)
      else case visit_market E env market m report of
        (m', report') \<Rightarrow> visit_all E deadline (Suc visited) rest m' report')"

definition rotation :: "order_manager \<Rightarrow> (nat \<times> market_config) list" where
  "rotation m =
     (let ms = filter mc_enabled (om_markets (om_config m));
          start = (if resume_from m < length ms then resume_from m else 0)
      in rotate start (zip [0..<length ms] ms))"

definition no_report :: cycle_report where
  "no_report = \<lparr>cr_markets = 0, cr_no_levels = 0, cr_parked = 0, cr_held_unknown = 0, cr_refreshed = 0,
     cr_placed = 0, cr_cancelled = 0, cr_deferred = 0\<rparr>"

definition update_cycle ::
  "arith_env \<Rightarrow> nat \<Rightarrow> (bool \<times> nat \<times> visit_env) list \<Rightarrow> order_manager \<Rightarrow> order_manager \<times> cycle_report" where
  "update_cycle E deadline envs m =
     visit_all E deadline 0 (map (\<lambda>((i, market), e). (i, market, e)) (zip (rotation m) envs))
       (m\<lparr>resume_from := 0\<rparr>) no_report"

definition cancel_all_market_orders ::
  "arith_env \<Rightarrow> nat \<Rightarrow> (string \<Rightarrow> server_order list option) \<Rightarrow> (nat \<Rightarrow> bool) \<Rightarrow> order_manager \<Rightarrow> order_manager" where
  "cancel_all_market_orders E now answers cancelled m =
     foldl (\<lambda>m market. cancel_all_orders E now (answers (mc_market_id market)) cancelled m) m
       (filter mc_enabled (om_markets (om_config m)))"

end
