(* ===== verification/F64_Mono.thy ===== *)
theory F64_Mono
  imports F64_Ops
begin

text \<open>
  Rounding to a double is monotone and leaves doubles alone, so that the arithmetic of the
  pricing code keeps the order of its arguments: a product with a factor of at most one never
  grows, a sum with a non-negative term never shrinks.
\<close>

section \<open>Rounding is monotone\<close>

lemma round_half_even_floor: "\<lfloor>x\<rfloor> \<le> round_half_even x" "round_half_even x \<le> \<lfloor>x\<rfloor> + 1"
  by (simp_all add: round_half_even_def Let_def)

lemma round_half_even_mono:
  assumes "x \<le> y"
  shows "round_half_even x \<le> round_half_even y"
proof (cases "\<lfloor>x\<rfloor> = \<lfloor>y\<rfloor>")
  case True
  then show ?thesis using assms by (auto simp: round_half_even_def Let_def)
next
  case False
  then have "\<lfloor>x\<rfloor> + 1 \<le> \<lfloor>y\<rfloor>" using floor_mono[OF assms] by simp
  then show ?thesis using round_half_even_floor[of x] round_half_even_floor[of y] by linarith
qed

lemma round_half_even_int [simp]: "round_half_even (of_int m) = m"
  by (rule round_half_even_nearest) simp

lemma exponent_mono:
  assumes "0 < a" "a \<le> b"
  shows "exponent a \<le> exponent b"
proof -
  have "pow2 (exponent a) < pow2 (exponent b + 1)"
    using exponent_bounds[of a] exponent_bounds[of b] assms by linarith
  then show ?thesis using pow2_less_imp by fastforce
qed

lemma pow2_nonzero [simp]: "pow2 k \<noteq> 0"
  by (simp add: pow2_def)

lemma pow2_ratio: "v \<le> u \<Longrightarrow> pow2 u / pow2 v = of_int (2 ^ nat (u - v))"
proof -
  assume "v \<le> u"
  then have "pow2 u = pow2 (int (nat (u - v))) * pow2 v" by (simp flip: pow2_add)
  then show ?thesis using pow2_pos[of v] unfolding pow2_nat by (simp add: divide_eq_eq)
qed

lemma round_abs_nonneg: "0 \<le> round_abs a"
proof (cases "a \<le> 0")
  case False
  have "0 \<le> round_half_even (a / pow2 u)" for u
    using round_half_even_mono[of 0 "a / pow2 u"] round_half_even_int[of 0] False by (simp add: less_imp_le)
  then show ?thesis using False by (simp add: round_abs_def Let_def less_imp_le)
qed (simp add: round_abs_def)

lemma round_abs_mono:
  assumes "a \<le> b"
  shows "round_abs a \<le> round_abs b"
proof (cases "a \<le> 0")
  case True
  then show ?thesis using round_abs_nonneg[of b] by (simp add: round_abs_def)
next
  case False
  then have a: "0 < a" and b: "0 < b" using assms by auto
  define ua where "ua = max (exponent a - 52) (- 1074)"
  define ub where "ub = max (exponent b - 52) (- 1074)"
  have ra: "round_abs a = of_int (round_half_even (a / pow2 ua)) * pow2 ua"
    and rb: "round_abs b = of_int (round_half_even (b / pow2 ub)) * pow2 ub"
    using a b by (simp_all add: round_abs_def ua_def ub_def Let_def)
  show ?thesis
  proof (cases "ua = ub")
    case True
    have "a / pow2 ua \<le> b / pow2 ua" using assms by (simp add: divide_right_mono less_imp_le)
    then show ?thesis unfolding ra rb True[symmetric]
      by (intro mult_right_mono) (simp_all add: round_half_even_mono less_imp_le)
  next
    case False
    have mono: "exponent a \<le> exponent b" by (rule exponent_mono[OF a assms])
    then have ub: "ub = exponent b - 52" and lt: "exponent a < exponent b" and ua: "ua \<le> exponent b"
      using False by (auto simp: ua_def ub_def max_def split: if_splits)
    define k where "k = nat (exponent b - ua)"
    have scale: "pow2 (exponent b) = of_int (2 ^ k) * pow2 ua"
      using pow2_ratio[OF ua] pow2_pos[of ua] by (simp add: k_def divide_eq_eq)
    have "a \<le> pow2 (exponent b)"
      using exponent_bounds(2)[OF a] pow2_mono[of "exponent a + 1" "exponent b"] lt by linarith
    then have "a / pow2 ua \<le> of_int (2 ^ k)"
      using pow2_pos[of ua] by (simp add: scale pos_divide_le_eq del: of_int_power of_int_numeral)
    then have "round_half_even (a / pow2 ua) \<le> 2 ^ k"
      using round_half_even_mono round_half_even_int by metis
    then have "round_abs a \<le> pow2 (exponent b)"
      unfolding ra scale by (intro mult_right_mono) (simp_all only: of_int_le_iff, simp add: less_imp_le)
    moreover have "pow2 (exponent b) = of_int (2 ^ 52) * pow2 ub"
      using pow2_ratio[of ub "exponent b"] pow2_pos[of ub] by (simp add: ub divide_eq_eq)
    moreover have "of_int (2 ^ 52) \<le> b / pow2 ub"
      using exponent_bounds(1)[OF b] calculation(2) pow2_pos[of ub]
      by (simp add: pos_le_divide_eq del: of_int_power of_int_numeral)
    then have "2 ^ 52 \<le> round_half_even (b / pow2 ub)"
      using round_half_even_mono round_half_even_int by metis
    then have "of_int (2 ^ 52) * pow2 ub \<le> round_abs b"
      unfolding rb by (intro mult_right_mono) (simp_all only: of_int_le_iff, simp add: less_imp_le)
    ultimately show ?thesis by linarith
  qed
qed

lemma round_f64_mono: "p \<le> q \<Longrightarrow> f64_le (round_f64 p) (round_f64 q)"
  using round_abs_mono[of "\<bar>p\<bar>" "\<bar>q\<bar>"] round_abs_mono[of "\<bar>q\<bar>" "\<bar>p\<bar>"]
    round_abs_nonneg[of "\<bar>p\<bar>"] round_abs_nonneg[of "\<bar>q\<bar>"] pow2_pos[of 1024]
  by (auto simp: round_f64_def Let_def)

section \<open>Doubles are left alone\<close>

definition is_double :: "f64 \<Rightarrow> bool" where
  "is_double x \<longleftrightarrow> (case x of Fin r \<Rightarrow> round_f64 r = Fin r | _ \<Rightarrow> True)"

lemma round_abs_exact:
  assumes "\<bar>m\<bar> < 2 ^ 53" "- 1074 \<le> u" "0 \<le> of_int m * pow2 u"
  shows "round_abs (of_int m * pow2 u) = of_int m * pow2 u"
proof (cases "m = 0")
  case False
  let ?a = "of_int m * pow2 u"
  have m: "0 < m" using False assms(3) pow2_pos[of u] by (simp add: zero_le_mult_iff)
  then have a: "0 < ?a" by simp
  define v where "v = max (exponent ?a - 52) (- 1074)"
  have "(of_int m :: rat) < of_int (2 ^ 53)" using assms(1) m by (simp only: of_int_less_iff)
  then have "?a < pow2 (int 53) * pow2 u"
    unfolding pow2_nat by (intro mult_strict_right_mono) simp_all
  then have "pow2 (exponent ?a) < pow2 (int 53 + u)"
    using exponent_bounds(1)[OF a] unfolding pow2_add by linarith
  then have vu: "v \<le> u" using pow2_less_imp[of "exponent ?a" "int 53 + u"] assms(2) by (simp add: v_def)
  then have "?a / pow2 v = of_int (m * 2 ^ nat (u - v))"
    using pow2_ratio[OF vu] by (simp flip: times_divide_eq_right)
  then have "round_abs ?a = of_int (m * 2 ^ nat (u - v)) * pow2 v"
    using a by (simp add: round_abs_def Let_def v_def del: of_int_mult)
  also have "\<dots> = ?a" using pow2_ratio[OF vu] pow2_pos[of v] by (simp add: divide_eq_eq)
  finally show ?thesis .
qed (simp add: round_abs_def)

lemma round_int: "\<bar>n\<bar> < 2 ^ 53 \<Longrightarrow> round_f64 (of_int n) = Fin (of_int n)"
proof -
  assume n: "\<bar>n\<bar> < 2 ^ 53"
  have "round_abs (of_int \<bar>n\<bar> * pow2 0) = of_int \<bar>n\<bar> * pow2 0"
    using n by (intro round_abs_exact) (auto simp: less_imp_le)
  then have "round_abs \<bar>of_int n\<bar> = \<bar>of_int n\<bar>" by (simp add: pow2_def)
  moreover have "\<bar>of_int n\<bar> < pow2 1024"
  proof -
    have "(of_int \<bar>n\<bar> :: rat) < of_int (2 ^ 53)" using n by (simp only: of_int_less_iff)
    also have "\<dots> \<le> pow2 1024" using pow2_mono[of "int 53" 1024] unfolding pow2_nat by simp
    finally show ?thesis by simp
  qed
  ultimately show ?thesis by (simp add: round_f64_def Let_def)
qed

lemma round_numeral [simp]:
  "numeral n < (2 :: int) ^ 53 \<Longrightarrow> round_f64 (numeral n) = Fin (numeral n)"
  "round_f64 1 = Fin 1"
  using round_int[of "numeral n"] round_int[of 1] by simp_all

lemma round_abs_idem:
  assumes "0 \<le> a"
  shows "round_abs (round_abs a) = round_abs a"
proof (cases "a = 0")
  case False
  with assms have a: "0 < a" by simp
  define u where "u = max (exponent a - 52) (- 1074)"
  define m where "m = round_half_even (a / pow2 u)"
  have r: "round_abs a = of_int m * pow2 u" using a by (simp add: round_abs_def Let_def u_def m_def)
  have "a < pow2 (exponent a + 1)" by (rule exponent_bounds(2)[OF a])
  also have "\<dots> \<le> pow2 (int 53 + u)" by (rule pow2_mono) (simp add: u_def)
  finally have "a < of_int (2 ^ 53) * pow2 u" unfolding pow2_add pow2_nat by simp
  then have "a / pow2 u \<le> of_int (2 ^ 53)" using pow2_pos[of u] by (simp add: pos_divide_le_eq)
  then have "m \<le> 2 ^ 53" unfolding m_def using round_half_even_mono round_half_even_int by metis
  moreover have "0 \<le> m" using round_abs_nonneg[of a] pow2_pos[of u] unfolding r by (simp add: zero_le_mult_iff)
  ultimately consider "\<bar>m\<bar> < 2 ^ 53" | "m = 2 ^ 53" by linarith
  then show ?thesis
  proof cases
    case 1
    then show ?thesis unfolding r using round_abs_nonneg[of a, unfolded r] by (intro round_abs_exact) (simp_all add: u_def)
  next
    case 2
    have half: "of_int m * pow2 u = of_int (2 ^ 52) * pow2 (u + 1)" unfolding 2 pow2_Suc by simp
    show ?thesis unfolding r half by (rule round_abs_exact) (simp_all add: u_def less_imp_le)
  qed
qed (simp add: round_abs_def)

lemma round_f64_idem: "round_f64 q = Fin x \<Longrightarrow> round_f64 x = Fin x"
  using round_abs_idem[of "\<bar>q\<bar>"] round_abs_nonneg[of "\<bar>q\<bar>"]
  by (auto simp: round_f64_def Let_def split: if_splits)

lemma is_double_round [simp]: "is_double (round_f64 q)"
  by (auto simp: is_double_def round_f64_idem split: f64.split)

lemma is_double_simps [simp]: "is_double NaN" "is_double (Inf s)" "is_double (Fin 0)"
  by (simp_all add: is_double_def)

lemma is_double_parse: "parse_f64 s = Some v \<Longrightarrow> is_double v"
  by (auto simp: parse_f64_def Let_def split: prod.splits if_splits)

lemma is_double_or_parse [simp]: "is_double (or_parse s)"
  using is_double_parse[of s] by (auto simp: or_parse_def split: option.split)

section \<open>Order of the operations\<close>

lemma f64_mul_shrinks:
  assumes "is_double x" "f64_le (Fin 0) x" "f64_le (Fin 0) f" "f64_le f (Fin 1)" "is_finite (f64_mul x f)"
  shows "f64_le (f64_mul x f) x" and "f64_le (Fin 0) (f64_mul x f)"
proof -
  obtain a where f: "f = Fin a" "0 \<le> a" "a \<le> 1" using assms(3,4) by (cases f) auto
  have "f64_le (f64_mul x f) x \<and> f64_le (Fin 0) (f64_mul x f)"
  proof (cases x)
    case (Fin r)
    then have "0 \<le> r" "round_f64 r = Fin r" using assms(1,2) by (simp_all add: is_double_def)
    then show ?thesis
      using round_f64_mono[of "r * a" r] round_f64_mono[of 0 "r * a"] f Fin by (simp add: mult_left_le)
  qed (use assms f in \<open>auto simp: is_finite_def\<close>)
  then show "f64_le (f64_mul x f) x" "f64_le (Fin 0) (f64_mul x f)" by simp_all
qed

lemma f64_add_grows:
  assumes "is_double x" "x \<noteq> NaN" "f64_le (Fin 0) y" "y \<noteq> Inf False"
  shows "f64_le x (f64_add x y)"
proof -
  obtain b where y: "y = Fin b" "0 \<le> b" using assms(3,4) by (cases y) auto
  show ?thesis
  proof (cases x)
    case (Fin r)
    then have "round_f64 r = Fin r" using assms(1) by (simp add: is_double_def)
    then show ?thesis using round_f64_mono[of r "r + b"] Fin y by (simp add: f64_add_def)
  qed (use assms y in \<open>auto simp: f64_add_def\<close>)
qed

text \<open>What evaluates the decimal of a literal.\<close>

lemmas dec_value_simps = dec_value_def split_sign_def lower_def parse_number_def is_digit_def digit_val_def
  parse_exp_def pow10_def Let_def of_char_def

end
