(* ===== verification/Grid_Safety.thy ===== *)
theory Grid_Safety
  imports Order_Manager F64_Mono
begin

text \<open>
  What the grid promises: a refresh cancels and places exactly what its plan says without
  over-quoting or emptying a side on the way, a one-sided refresh never places into resting
  orders, parking skips only visits that would do nothing, prices tear a market down and bring
  it back after two answers in a row, and a cycle cut short resumes where it stopped.
\<close>

section \<open>The operations of a refresh\<close>

fun cancelled_ids :: "grid_op list \<Rightarrow> nat list" where
  "cancelled_ids [] = []"
| "cancelled_ids (CancelOp i leftover # ops) = i # cancelled_ids ops"
| "cancelled_ids (PlaceOp side price qty # ops) = cancelled_ids ops"

fun placements :: "grid_op list \<Rightarrow> (order_side \<times> string \<times> string) list" where
  "placements [] = []"
| "placements (CancelOp i leftover # ops) = placements ops"
| "placements (PlaceOp side price qty # ops) = (side, price, qty) # placements ops"

lemma cancelled_ids_append [simp]: "cancelled_ids (xs @ ys) = cancelled_ids xs @ cancelled_ids ys"
  by (induction xs rule: cancelled_ids.induct) simp_all

lemma placements_append [simp]: "placements (xs @ ys) = placements xs @ placements ys"
  by (induction xs rule: placements.induct) simp_all

lemma cancelled_withdrawn [simp]:
  "cancelled_ids (withdrawn wanted action queue) = (if action = wanted then queue else [])"
proof -
  have "cancelled_ids (map (\<lambda>i. CancelOp i True) queue) = queue" by (induction queue) simp_all
  then show ?thesis by (simp add: withdrawn_def)
qed

lemma placements_withdrawn [simp]: "placements (withdrawn wanted action queue) = []"
proof -
  have "placements (map (\<lambda>i. CancelOp i True) queue) = []" by (induction queue) simp_all
  then show ?thesis by (simp add: withdrawn_def)
qed

lemma paired_ids [simp]: "cancelled_ids (paired old) = take 1 old" "placements (paired old) = []"
  by (simp_all add: paired_def split: list.split)

lemma interleave_exact:
  "interleave rs bid_old offer_old = (ops, b, f) \<Longrightarrow>
     mset (cancelled_ids ops) + mset b + mset f = mset bid_old + mset offer_old
     \<and> placements ops = map snd rs
     \<and> b = drop (length (filter (\<lambda>r. fst (snd r) = BidSide) rs)) bid_old
     \<and> f = drop (length (filter (\<lambda>r. fst (snd r) = OfferSide) rs)) offer_old"
proof (induction rs bid_old offer_old arbitrary: ops b f rule: interleave.induct)
  case (2 d side price qty rs bid_old offer_old)
  have tl: "mset (take 1 xs) + mset (tl xs) = mset xs" for xs :: "nat list"
    by (cases xs) simp_all
  show ?case
  proof (cases side)
    case BidSide
    then obtain ops' where ops: "interleave rs (tl bid_old) offer_old = (ops', b, f)"
        "ops = paired bid_old @ PlaceOp side price qty # ops'"
      using "2.prems" by (auto split: prod.splits)
    then show ?thesis
      using "2.IH"[OF refl, of ops' b f] BidSide tl[of bid_old]
      by (simp add: drop_Suc union_assoc) (metis union_assoc)
  next
    case OfferSide
    then obtain ops' where ops: "interleave rs bid_old (tl offer_old) = (ops', b, f)"
        "ops = paired offer_old @ PlaceOp side price qty # ops'"
      using "2.prems" by (auto split: prod.splits)
    then show ?thesis
      using "2.IH"[OF refl, of ops' b f] OfferSide tl[of offer_old]
      by (simp add: drop_Suc union_assoc) (metis union_assoc union_commute)
  qed
qed simp

definition side_ids :: "server_order list \<Rightarrow> order_side \<Rightarrow> nat list" where
  "side_ids rs side = map so_order_id (filter (\<lambda>r. so_order_type r = order_type_of side) rs)"

lemma mset_side_queue: "mset (side_queue rs side mid) = mset (side_ids rs side)"
  by (simp add: side_queue_def side_ids_def mset_map)

lemma side_queue_facts [simp]:
  "set (side_queue rs side mid) = set (side_ids rs side)"
  "length (side_queue rs side mid) = length (side_ids rs side)"
  using mset_side_queue[of rs side mid] by (metis set_mset_mset, metis size_mset)

lemma order_types_differ [simp]: "order_type_of BidSide = 1" "order_type_of OfferSide = 2"
  by (simp_all add: order_type_of_def)

definition rungs :: "price_level list \<Rightarrow> price_level list \<Rightarrow> side_action \<times> side_action \<Rightarrow> order_side \<Rightarrow> nat" where
  "rungs bid_ls offer_ls plan side = (case side of
       BidSide \<Rightarrow> if fst plan = Replace then length bid_ls else 0
     | OfferSide \<Rightarrow> if snd plan = Replace then length offer_ls else 0)"

lemma length_filter_sort_key: "length (filter P (sort_key f xs)) = length (filter P xs)"
  by (metis mset_filter mset_sort size_mset)

lemma rungs_new_orders:
  "length (filter (\<lambda>r. fst (snd r) = side) (new_orders bid_ls offer_ls mid tick plan))
     = rungs bid_ls offer_ls plan side"
  by (cases side)
    (simp_all add: new_orders_def length_filter_sort_key rungs_def new_order_def filter_map o_def)

definition side_action_of :: "side_action \<times> side_action \<Rightarrow> order_side \<Rightarrow> side_action" where
  "side_action_of plan side = (case side of BidSide \<Rightarrow> fst plan | OfferSide \<Rightarrow> snd plan)"

text \<open>The orders a refresh leaves when every operation succeeds.\<close>

definition refreshed ::
  "side_action \<times> side_action \<Rightarrow> server_order list \<Rightarrow> nat multiset" where
  "refreshed plan rs =
     mset (if fst plan = Keep then side_ids rs BidSide else [])
     + mset (if snd plan = Keep then side_ids rs OfferSide else [])"

text \<open>How many orders rest on a side, counting from some operation on.\<close>

fun resting_change :: "nat set \<Rightarrow> order_side \<Rightarrow> grid_op \<Rightarrow> int" where
  "resting_change ids side (CancelOp i leftover) = (if i \<in> ids then -1 else 0)"
| "resting_change ids side (PlaceOp s price qty) = (if s = side then 1 else 0)"

definition resting_after :: "server_order list \<Rightarrow> order_side \<Rightarrow> grid_op list \<Rightarrow> int" where
  "resting_after rs side ops = int (length (side_ids rs side))
     + sum_list (map (resting_change (set (side_ids rs side)) side) ops)"

fun stays :: "(grid_op \<Rightarrow> int) \<Rightarrow> int \<Rightarrow> int \<Rightarrow> int \<Rightarrow> grid_op list \<Rightarrow> bool" where
  "stays chg lo hi x [] \<longleftrightarrow> lo \<le> x \<and> x \<le> hi"
| "stays chg lo hi x (op # ops) \<longleftrightarrow> lo \<le> x \<and> x \<le> hi \<and> stays chg lo hi (x + chg op) ops"

lemma stays_prefix: "stays chg lo hi x ops \<Longrightarrow>
    lo \<le> x + sum_list (map chg (take k ops)) \<and> x + sum_list (map chg (take k ops)) \<le> hi"
proof (induction ops arbitrary: k x)
  case (Cons op ops)
  then show ?case by (cases k) (auto simp: add.assoc[symmetric])
qed simp

lemma stays_append: "stays chg lo hi x (xs @ ys)
    \<longleftrightarrow> stays chg lo hi x xs \<and> stays chg lo hi (x + sum_list (map chg xs)) ys"
proof (induction xs arbitrary: x)
  case Nil
  then show ?case by (cases ys) auto
qed (auto simp: add.assoc)

lemma stays_unchanged: "(\<And>op. op \<in> set ops \<Longrightarrow> chg op = 0) \<Longrightarrow> lo \<le> x \<Longrightarrow> x \<le> hi \<Longrightarrow> stays chg lo hi x ops"
  by (induction ops) simp_all

lemma stays_withdrawing:
  "lo \<le> x - int (length ids) \<Longrightarrow> x \<le> hi \<Longrightarrow> set ids \<subseteq> S \<Longrightarrow>
     stays (resting_change S side) lo hi x (map (\<lambda>i. CancelOp i l) ids)"
  by (induction ids arbitrary: x) auto

lemma interleave_stays:
  assumes "interleave rs bid_old offer_old = (ops, b, f)"
    and "(case side of BidSide \<Rightarrow> set bid_old | OfferSide \<Rightarrow> set offer_old) \<subseteq> S"
    and "(case side of BidSide \<Rightarrow> set offer_old | OfferSide \<Rightarrow> set bid_old) \<inter> S = {}"
    and "m = (case side of BidSide \<Rightarrow> length bid_old | OfferSide \<Rightarrow> length offer_old)"
    and "n = length (filter (\<lambda>r. fst (snd r) = side) rs)"
    and "lo \<le> x" "x \<le> hi" "x + int n - int m \<le> hi" "0 < m \<and> 0 < n \<longrightarrow> lo \<le> x - 1"
  shows "stays (resting_change S side) lo hi x ops
    \<and> x + sum_list (map (resting_change S side) ops) = x + int n - int (min m n)"
  using assms
proof (induction rs bid_old offer_old arbitrary: ops b f m n x rule: interleave.induct)
  case (2 d s price qty rs bid_old offer_old)
  let ?c = "resting_change S side"
  let ?old = "case s of BidSide \<Rightarrow> bid_old | OfferSide \<Rightarrow> offer_old"
  let ?b = "case s of BidSide \<Rightarrow> tl bid_old | OfferSide \<Rightarrow> bid_old"
  let ?f = "case s of BidSide \<Rightarrow> offer_old | OfferSide \<Rightarrow> tl offer_old"
  obtain ops' where ops': "interleave rs ?b ?f = (ops', b, f)" and
    ops: "ops = paired ?old @ PlaceOp s price qty # ops'"
    using "2.prems"(1) by (cases s) (auto split: prod.splits)
  have tl: "set (tl xs) \<subseteq> set xs" for xs :: "nat list" by (cases xs) auto
  have sub: "(case side of BidSide \<Rightarrow> set ?b | OfferSide \<Rightarrow> set ?f) \<subseteq> S"
    "(case side of BidSide \<Rightarrow> set ?f | OfferSide \<Rightarrow> set ?b) \<inter> S = {}"
    using "2.prems"(2,3) tl[of bid_old] tl[of offer_old] by (cases side; cases s; auto)+
  note IH = "2.IH"[OF refl ops' sub refl refl]
  show ?case
  proof (cases "s = side")
    case True
    have m': "(case side of BidSide \<Rightarrow> length ?b | OfferSide \<Rightarrow> length ?f) = m - 1"
      using "2.prems"(4) True by (cases side) auto
    have n: "n = Suc (length (filter (\<lambda>r. fst (snd r) = side) rs))"
      using "2.prems"(5) True by simp
    show ?thesis
    proof (cases ?old)
      case Nil
      then have "m = 0" using "2.prems"(4) True by (cases side) auto
      then show ?thesis
        using IH[of "x + 1"] "2.prems"(6-9) n m' Nil True by (simp add: ops paired_def)
    next
      case (Cons i js)
      then have "0 < m" "i \<in> S" using "2.prems"(2,4) True by (cases side; auto)+
      moreover define k where "k = length (filter (\<lambda>r. fst (snd r) = side) rs)"
      moreover have "x + int k - int (m - 1) \<le> hi"
        using "2.prems"(8) n \<open>0 < m\<close> by (simp add: k_def of_nat_diff)
      ultimately have "stays ?c lo hi x ops'" "x + sum_list (map ?c ops') = x + int k - int (min (m - 1) k)"
        using IH[of x] "2.prems"(6,7,9) m' n by simp_all
      then show ?thesis
        using "2.prems"(6,7,9) n Cons True \<open>0 < m\<close> \<open>i \<in> S\<close> k_def
        by (simp add: ops paired_def)
    qed
  next
    case False
    have m': "(case side of BidSide \<Rightarrow> length ?b | OfferSide \<Rightarrow> length ?f) = m"
      using "2.prems"(4) False by (cases side; cases s) auto
    have n: "n = length (filter (\<lambda>r. fst (snd r) = side) rs)"
      using "2.prems"(5) False by simp
    have "i \<notin> S" if "?old = i # js" for i js
      using "2.prems"(3) False that by (cases side; cases s) auto
    then show ?thesis
      using IH[of x] "2.prems"(6-9) n m' False
      by (cases ?old) (simp_all add: ops paired_def)
  qed
qed auto

lemma withdrawn_stays:
  assumes "lo \<le> x - (if action = wanted \<and> mine then int (length queue) else 0)" "x \<le> hi"
    and "mine \<longrightarrow> set queue \<subseteq> S" "\<not> mine \<longrightarrow> set queue \<inter> S = {}"
  shows "stays (resting_change S side) lo hi x (withdrawn wanted action queue)"
proof (cases "action = wanted \<and> mine")
  case True
  then show ?thesis using assms stays_withdrawing[of lo x queue hi S side True] by (simp add: withdrawn_def)
next
  case False
  then have "resting_change S side op = 0" if "op \<in> set (withdrawn wanted action queue)" for op
    using that assms(4) by (auto simp: withdrawn_def split: if_splits)
  then show ?thesis using assms(1,2) False by (intro stays_unchanged) auto
qed

lemma withdrawn_change:
  assumes "mine \<longrightarrow> set queue \<subseteq> S" "\<not> mine \<longrightarrow> set queue \<inter> S = {}"
  shows "sum_list (map (resting_change S side) (withdrawn wanted action queue))
     = (if action = wanted \<and> mine then - int (length queue) else 0)"
proof -
  have "sum_list (map (resting_change S side) (map (\<lambda>i. CancelOp i True) queue))
      = (if mine then - int (length queue) else 0)"
    using assms by (induction queue) (auto simp del: map_map)
  then show ?thesis by (simp add: withdrawn_def)
qed

lemma sides_disjoint:
  assumes "distinct (map so_order_id rs)"
  shows "set (side_ids rs BidSide) \<inter> set (side_ids rs OfferSide) = {}"
proof -
  have "False" if "i \<in> set (side_ids rs BidSide)" "i \<in> set (side_ids rs OfferSide)" for i
  proof -
    obtain r r' where "r \<in> set rs" "r' \<in> set rs" "so_order_id r = i" "so_order_id r' = i"
      and types: "so_order_type r = 1" "so_order_type r' = 2"
      using \<open>i \<in> set (side_ids rs BidSide)\<close> \<open>i \<in> set (side_ids rs OfferSide)\<close>
      by (auto simp: side_ids_def)
    then have "r = r'" using assms unfolding distinct_map inj_on_def by metis
    then show False using types by simp
  qed
  then show ?thesis by blast
qed

definition lowest :: "side_action \<Rightarrow> nat \<Rightarrow> nat \<Rightarrow> int" where
  "lowest action old new = (case action of Keep \<Rightarrow> int old | Cancel \<Rightarrow> 0 | Replace \<Rightarrow> int (min old new) - 1)"

definition highest :: "side_action \<Rightarrow> nat \<Rightarrow> nat \<Rightarrow> int" where
  "highest action old new = (case action of Replace \<Rightarrow> int (max old new) | _ \<Rightarrow> int old)"

lemma grid_ops_parts:
  obtains ops b f where
    "interleave (new_orders bid_ls offer_ls mid tick plan)
       (if fst plan = Cancel then [] else side_queue rs BidSide mid)
       (if snd plan = Cancel then [] else side_queue rs OfferSide mid) = (ops, b, f)"
    "grid_ops bid_ls offer_ls mid tick rs plan = withdrawn Cancel (fst plan) (side_queue rs BidSide mid)
       @ withdrawn Cancel (snd plan) (side_queue rs OfferSide mid)
       @ ops @ withdrawn Replace (fst plan) b @ withdrawn Replace (snd plan) f"
proof -
  obtain ops b f where i: "interleave (new_orders bid_ls offer_ls mid tick plan)
       (if fst plan = Cancel then [] else side_queue rs BidSide mid)
       (if snd plan = Cancel then [] else side_queue rs OfferSide mid) = (ops, b, f)"
    by (metis prod.exhaust)
  show thesis by (rule that[OF i]) (simp only: grid_ops_def Let_def i prod.case)
qed

text \<open>
  A refresh cancels exactly the orders of the sides it does not keep, each once, and
  places exactly the rungs of the sides it replaces, nearest to the mid first.
\<close>

theorem refresh_exact:
  "mset (cancelled_ids (grid_ops bid_ls offer_ls mid tick rs plan)) + refreshed plan rs
       = mset (side_ids rs BidSide) + mset (side_ids rs OfferSide)
   \<and> placements (grid_ops bid_ls offer_ls mid tick rs plan)
       = map snd (new_orders bid_ls offer_ls mid tick plan)"
proof -
  obtain ops b f where parts: "interleave (new_orders bid_ls offer_ls mid tick plan)
       (if fst plan = Cancel then [] else side_queue rs BidSide mid)
       (if snd plan = Cancel then [] else side_queue rs OfferSide mid) = (ops, b, f)"
    "grid_ops bid_ls offer_ls mid tick rs plan = withdrawn Cancel (fst plan) (side_queue rs BidSide mid)
       @ withdrawn Cancel (snd plan) (side_queue rs OfferSide mid)
       @ ops @ withdrawn Replace (fst plan) b @ withdrawn Replace (snd plan) f"
    by (rule grid_ops_parts)
  note e = interleave_exact[OF parts(1), unfolded rungs_new_orders]
  show ?thesis
    using e unfolding parts(2)
    by (cases "fst plan"; cases "snd plan") (simp_all add: mset_side_queue refreshed_def rungs_def ac_simps)
qed

lemma grid_ops_stay:
  assumes distinct: "distinct (map so_order_id rs)"
    and "act = side_action_of plan side" "old = length (side_ids rs side)"
    and "new = rungs bid_ls offer_ls plan side"
  shows "stays (resting_change (set (side_ids rs side)) side) (lowest act old new) (highest act old new)
    (int old) (grid_ops bid_ls offer_ls mid tick rs plan)"
proof -
  let ?S = "set (side_ids rs side)" and ?lo = "lowest act old new" and ?hi = "highest act old new"
  let ?c = "resting_change ?S side"
  obtain ops b f where parts: "interleave (new_orders bid_ls offer_ls mid tick plan)
       (if fst plan = Cancel then [] else side_queue rs BidSide mid)
       (if snd plan = Cancel then [] else side_queue rs OfferSide mid) = (ops, b, f)"
    "grid_ops bid_ls offer_ls mid tick rs plan = withdrawn Cancel (fst plan) (side_queue rs BidSide mid)
       @ withdrawn Cancel (snd plan) (side_queue rs OfferSide mid)
       @ ops @ withdrawn Replace (fst plan) b @ withdrawn Replace (snd plan) f"
    by (rule grid_ops_parts)
  note exact = interleave_exact[OF parts(1), unfolded rungs_new_orders]
  have apart: "set (side_queue rs s mid) \<inter> ?S = {}" if "s \<noteq> side" for s
    using that sides_disjoint[OF distinct] by (cases s; cases side) auto
  have left: "set (if s = BidSide then b else f) \<subseteq> set (side_ids rs s)" for s
    using exact set_drop_subset[of _ "side_queue rs s mid"] by (cases s) (auto dest: in_set_dropD)
  define x1 where "x1 = (if act = Cancel then 0 else int old)"
  define m where "m = (if act = Cancel then 0 else old)"
  have new: "act = Replace \<or> new = 0" using assms(2,4) by (cases side) (auto simp: rungs_def side_action_of_def)
  have i: "stays ?c ?lo ?hi x1 ops \<and> x1 + sum_list (map ?c ops) = x1 + int new - int (min m new)"
  proof (rule interleave_stays[OF parts(1)])
    show "(case side of BidSide \<Rightarrow> set (if fst plan = Cancel then [] else side_queue rs BidSide mid)
        | OfferSide \<Rightarrow> set (if snd plan = Cancel then [] else side_queue rs OfferSide mid)) \<subseteq> ?S"
      by (cases side) auto
    show "(case side of BidSide \<Rightarrow> set (if snd plan = Cancel then [] else side_queue rs OfferSide mid)
        | OfferSide \<Rightarrow> set (if fst plan = Cancel then [] else side_queue rs BidSide mid)) \<inter> ?S = {}"
      using apart by (cases side) auto
    show "m = (case side of BidSide \<Rightarrow> length (if fst plan = Cancel then [] else side_queue rs BidSide mid)
        | OfferSide \<Rightarrow> length (if snd plan = Cancel then [] else side_queue rs OfferSide mid))"
      using assms(2,3) by (cases side) (auto simp: m_def side_action_of_def)
  qed (use assms(4) new in \<open>auto simp: rungs_new_orders x1_def m_def lowest_def highest_def split: side_action.split\<close>)
  have out: "length (if side = BidSide then b else f) = m - new" if "act = Replace"
    using that exact assms by (cases side) (auto simp: m_def side_action_of_def)
  have queues: "side = s \<longrightarrow> set (side_queue rs s mid) \<subseteq> ?S"
    "side \<noteq> s \<longrightarrow> set (side_queue rs s mid) \<inter> ?S = {}" for s
    using apart by auto
  have rest: "side = s \<longrightarrow> set (if s = BidSide then b else f) \<subseteq> ?S"
    "side \<noteq> s \<longrightarrow> set (if s = BidSide then b else f) \<inter> ?S = {}" for s
    using left[of s] apart[of s] by (blast, (cases s; cases side; fastforce))
  have first: "?lo \<le> int old - (if act = Cancel then int old else 0)" "?lo \<le> int old" "int old \<le> ?hi"
    "?lo \<le> x1" "x1 \<le> ?hi"
    using new by (auto simp: x1_def lowest_def highest_def split: side_action.split)
  define x2 where "x2 = x1 + int new - int (min m new)"
  define x3 where "x3 = x2 - (if act = Replace then int (m - new) else 0)"
  have last: "?lo \<le> x2" "x2 \<le> ?hi" "?lo \<le> x3" "x3 \<le> ?hi"
    using new by (auto simp: x1_def x2_def x3_def m_def lowest_def highest_def split: side_action.split)
  note fills = i[folded x2_def]
  have change: "sum_list (map ?c (withdrawn w a (side_queue rs s mid))) = (if a = w \<and> side = s then - int old else 0)"
    "sum_list (map ?c (withdrawn w a b)) = (if a = w \<and> side = BidSide then - int (length b) else 0)"
    "sum_list (map ?c (withdrawn w a f)) = (if a = w \<and> side = OfferSide then - int (length f) else 0)" for w a s
    using withdrawn_change[OF queues, of side w a s] withdrawn_change[OF rest, of side w a BidSide]
      withdrawn_change[OF rest, of side w a OfferSide] assms(3) by auto
  show ?thesis
  proof (cases side)
    case BidSide
    then have act: "fst plan = act" "act = Replace \<Longrightarrow> length b = m - new"
      using assms(2) out by (auto simp: side_action_of_def)
    have "stays ?c ?lo ?hi (int old) (withdrawn Cancel (fst plan) (side_queue rs BidSide mid))"
      by (rule withdrawn_stays[where mine = True]) (use BidSide act first assms(3) in \<open>auto split: if_splits\<close>)
    moreover have "stays ?c ?lo ?hi x1 (withdrawn Cancel (snd plan) (side_queue rs OfferSide mid))"
      by (rule withdrawn_stays[where mine = False]) (use BidSide first queues[of OfferSide] in auto)
    moreover have "stays ?c ?lo ?hi x2 (withdrawn Replace (fst plan) b)"
      by (rule withdrawn_stays[where mine = True])
        (use BidSide act last rest[of BidSide] in \<open>auto simp: x3_def split: if_splits\<close>)
    moreover have "stays ?c ?lo ?hi x3 (withdrawn Replace (snd plan) f)"
      by (rule withdrawn_stays[where mine = False]) (use BidSide last rest[of OfferSide] in auto)
    ultimately show ?thesis
      using fills BidSide act unfolding parts(2)
      by (cases act) (simp_all add: stays_append change[unfolded BidSide] x1_def x3_def)
  next
    case OfferSide
    then have act: "snd plan = act" "act = Replace \<Longrightarrow> length f = m - new"
      using assms(2) out by (auto simp: side_action_of_def)
    have "stays ?c ?lo ?hi (int old) (withdrawn Cancel (fst plan) (side_queue rs BidSide mid))"
      by (rule withdrawn_stays[where mine = False]) (use OfferSide first queues[of BidSide] in auto)
    moreover have "stays ?c ?lo ?hi (int old) (withdrawn Cancel (snd plan) (side_queue rs OfferSide mid))"
      by (rule withdrawn_stays[where mine = True]) (use OfferSide act first assms(3) in \<open>auto split: if_splits\<close>)
    moreover have "stays ?c ?lo ?hi x2 (withdrawn Replace (fst plan) b)"
      by (rule withdrawn_stays[where mine = False]) (use OfferSide last rest[of BidSide] in auto)
    moreover have "stays ?c ?lo ?hi x2 (withdrawn Replace (snd plan) f)"
      by (rule withdrawn_stays[where mine = True])
        (use OfferSide act last rest[of OfferSide] in \<open>auto simp: x3_def split: if_splits\<close>)
    ultimately show ?thesis
      using fills OfferSide act unfolding parts(2)
      by (cases act) (simp_all add: stays_append change[unfolded OfferSide] x1_def)
  qed
qed

text \<open>
  C21: While a refresh runs, and every operation succeeds, a side never holds more orders than
  before or after, a replaced side never misses more than one, a kept side never changes.
\<close>

theorem refresh_stays_quoted:
  assumes "distinct (map so_order_id rs)"
  shows "resting_after rs side (take k (grid_ops bid_ls offer_ls mid tick rs plan))
    \<in> {lowest (side_action_of plan side) (length (side_ids rs side)) (rungs bid_ls offer_ls plan side)
       .. highest (side_action_of plan side) (length (side_ids rs side)) (rungs bid_ls offer_ls plan side)}"
  using stays_prefix[OF grid_ops_stay[OF assms refl refl refl]] by (simp add: resting_after_def)

section \<open>Parking and crossing\<close>

text \<open>
  A visit that is skipped because the market is parked would have kept both sides,
  whatever the price and the shape.
\<close>

theorem parking_loses_nothing:
  assumes "can_park f bid_n offer_n (Some rest) probe_age"
  shows "plan_market \<lparr>pin_bid = gf_bid f, pin_offer = gf_offer f, bid_expected = bid_n,
    offer_expected = offer_n, resting = rest, force_bid = fb, force_offer = ff, shape_changed = sc\<rparr> = (Keep, Keep)"
  using assms by (auto simp: can_park_def unfundable_def any_resting_def plan_market_def plan_side_def)

lemma f64_max_above: "a \<noteq> NaN \<Longrightarrow> f64_le a (f64_max a b)" "b \<noteq> NaN \<Longrightarrow> f64_le b (f64_max a b)"
  using f64_max_upper[of a b] by (auto simp: f64_max_def f64_le_refl)

lemma f64_min_below: "a \<noteq> NaN \<Longrightarrow> f64_le (f64_min a b) a" "b \<noteq> NaN \<Longrightarrow> f64_le (f64_min a b) b"
  by (cases a; cases b; auto simp: f64_min_def)+

lemma foldl_max_start: "x \<noteq> NaN \<Longrightarrow> f64_le x (foldl f64_max x xs)"
proof (induction xs arbitrary: x)
  case (Cons a xs)
  have "f64_max x a \<noteq> NaN" using Cons.prems by (simp add: f64_max_def)
  then show ?case
    using f64_le_trans[OF f64_max_above(1)[of x a] Cons.IH] Cons.prems by simp
qed (simp add: f64_le_refl)

lemma foldl_min_start: "x \<noteq> NaN \<Longrightarrow> f64_le (foldl f64_min x xs) x"
proof (induction xs arbitrary: x)
  case (Cons a xs)
  have "f64_min x a \<noteq> NaN" using Cons.prems by (simp add: f64_min_def)
  then show ?case
    using f64_le_trans[OF Cons.IH f64_min_below(1)[of x a]] Cons.prems by simp
qed (simp add: f64_le_refl)

lemma foldl_max_above: "y \<noteq> NaN \<Longrightarrow> y \<in> set xs \<Longrightarrow> f64_le y (foldl f64_max x xs)"
proof (induction xs arbitrary: x)
  case (Cons a xs)
  have "f64_le a (foldl f64_max (f64_max x a) xs)" if "a \<noteq> NaN"
    using f64_le_trans[OF f64_max_above(2)[of a x] foldl_max_start[of "f64_max x a" xs]] that
      f64_max_not_NaN[of a x] by simp
  then show ?case using Cons by auto
qed simp

lemma foldl_min_below: "y \<noteq> NaN \<Longrightarrow> y \<in> set xs \<Longrightarrow> f64_le (foldl f64_min x xs) y"
proof (induction xs arbitrary: x)
  case (Cons a xs)
  have "f64_le (foldl f64_min (f64_min x a) xs) a" if "a \<noteq> NaN"
  proof -
    have "f64_min x a \<noteq> NaN" using that by (simp add: f64_min_def)
    then show ?thesis
      using f64_le_trans[OF foldl_min_start[of "f64_min x a" xs] f64_min_below(2)[of a x]] that by simp
  qed
  then show ?case using Cons by auto
qed simp

lemma best_bid_above: "y \<noteq> NaN \<Longrightarrow> y \<in> set xs \<Longrightarrow> best_of BidSide xs = Some b \<Longrightarrow> f64_le y b"
  by (cases xs) (auto simp: best_of_def reduce_by_def foldl_max_start foldl_max_above)

lemma best_offer_below: "y \<noteq> NaN \<Longrightarrow> y \<in> set xs \<Longrightarrow> best_of OfferSide xs = Some f \<Longrightarrow> f64_le f y"
  by (cases xs) (auto simp: best_of_def reduce_by_def foldl_min_start foldl_min_below)

lemma best_of_None [simp]: "best_of side xs = None \<longleftrightarrow> xs = []"
  by (cases side; cases xs) (simp_all add: best_of_def reduce_by_def)

lemma reaches_best:
  assumes "x \<in> set xs" "y \<in> set ys" "f64_le y x"
  shows "reaches (best_of BidSide xs) (best_of OfferSide ys)"
proof -
  obtain b f where bf: "best_of BidSide xs = Some b" "best_of OfferSide ys = Some f"
    using assms by (metis best_of_None empty_iff empty_set not_None_eq)
  have "x \<noteq> NaN" "y \<noteq> NaN" using assms(3) by (cases x; cases y; simp)+
  then have "f64_le f y" "f64_le x b"
    using best_bid_above[OF _ assms(1) bf(1)] best_offer_below[OF _ assms(2) bf(2)] by auto
  then have "f64_le f b" using assms(3) f64_le_trans by metis
  then show ?thesis by (simp add: reaches_def bf)
qed

definition new_prices :: "price_level list \<Rightarrow> order_side \<Rightarrow> f64 \<Rightarrow> f64 \<Rightarrow> f64 list" where
  "new_prices ls side mid tick =
     List.map_filter (\<lambda>l. parse_f64 (rung_price side mid (delta_percent l) tick)) ls"

definition resting_prices :: "server_order list \<Rightarrow> order_side \<Rightarrow> f64 list" where
  "resting_prices rs side = List.map_filter (\<lambda>r. parse_f64 (so_price r))
     (filter (\<lambda>r. so_order_type r = order_type_of side) rs)"

text \<open>
  When only one side is refreshed, no new order reaches a resting order of the other side:
  the match that would book is never with the agent itself.
\<close>

theorem one_sided_refresh_clear:
  assumes "plan \<in> {(Replace, Keep), (Keep, Replace)}"
    and "uncross plan bid_ls offer_ls mid tick rs able = plan"
    and "b \<in> set (if plan = (Replace, Keep) then new_prices bid_ls BidSide mid tick else resting_prices rs BidSide)"
    and "f \<in> set (if plan = (Replace, Keep) then resting_prices rs OfferSide else new_prices offer_ls OfferSide mid tick)"
  shows "\<not> f64_le f b"
  using assms reaches_best[of b _ f]
  by (fastforce simp: uncross_def tightest_new_def best_resting_def new_prices_def resting_prices_def
      escalate_def split: if_splits)

section \<open>Prices\<close>

datatype price_phase = Quoting | Wavering | Torn | Returning

definition phase_of :: "string \<Rightarrow> order_manager \<Rightarrow> price_phase" where
  "phase_of market m =
     (if market \<in> priceless m then
        (if at_key market (price_restore_streak m) 0 = 0 then Torn else Returning)
      else (if at_key market (price_fail_streak m) 0 = 0 then Quoting else Wavering))"

definition next_phase :: "bool \<Rightarrow> price_phase \<Rightarrow> price_phase" where
  "next_phase ok ph = (case ph of
       Quoting \<Rightarrow> if ok then Quoting else Wavering
     | Wavering \<Rightarrow> if ok then Quoting else Torn
     | Torn \<Rightarrow> if ok then Returning else Torn
     | Returning \<Rightarrow> if ok then Quoting else Torn)"

definition usable_price :: "price_answer option \<Rightarrow> bool" where
  "usable_price answer = (case answer of None \<Rightarrow> False
     | Some a \<Rightarrow> is_finite (pa_last a) \<and> f64_positive (pa_last a))"

text \<open>What placing and cancelling orders leaves alone.\<close>

definition only_tracker :: "order_manager \<Rightarrow> order_manager \<Rightarrow> bool" where
  "only_tracker m m' \<longleftrightarrow> m' = m\<lparr>om_tracker := om_tracker m'\<rparr>"

lemma only_tracker_refl [simp]: "only_tracker m m"
  by (simp add: only_tracker_def)

lemma only_tracker_trans: "only_tracker m m' \<Longrightarrow> only_tracker m' m'' \<Longrightarrow> only_tracker m m''"
  by (cases m; cases m'; cases m'') (simp add: only_tracker_def)

lemma only_tracker_update [simp]:
  "only_tracker m (on_tracker_of g m)" "only_tracker m (cancel_resting ok i m)"
  "only_tracker m (m\<lparr>om_tracker := t\<rparr>)"
  by (simp_all add: only_tracker_def on_tracker_of_def cancel_resting_def)

lemma only_tracker_foldl:
  "(\<And>m x. only_tracker m (g m x)) \<Longrightarrow> only_tracker m (foldl g m xs)"
  by (induction xs arbitrary: m) (auto intro: only_tracker_trans)

lemma only_tracker_listing: "only_tracker m (fst (get_active_orders E now answer m))"
  by (simp add: get_active_orders_def split: option.split)

lemma only_tracker_cancel_all: "only_tracker m (cancel_all_orders E now answer cancelled m)"
proof -
  obtain m' r where g: "get_active_orders E now answer m = (m', r)" by force
  then have "only_tracker m m'" using only_tracker_listing[of m E now answer] by simp
  moreover have "only_tracker m' (foldl (\<lambda>m r. cancel_resting (cancelled (so_order_id r)) (so_order_id r) m) m' rs)" for rs
    by (rule only_tracker_foldl) simp
  ultimately show ?thesis
    by (cases r) (auto simp: cancel_all_orders_def g intro: only_tracker_trans)
qed

lemma only_tracker_fields:
  assumes "only_tracker m m'"
  shows "priceless m' = priceless m" "price_fail_streak m' = price_fail_streak m"
    "price_restore_streak m' = price_restore_streak m" "resume_from m' = resume_from m"
    "om_config m' = om_config m"
  using assms by (cases m; cases m'; simp add: only_tracker_def)+

lemma at_key_simps [simp]:
  "at_key k (AList.update k v xs) d = v"
  "at_key k (AList.delete k xs) d = d"
  "k \<noteq> k' \<Longrightarrow> at_key k (AList.update k' v xs) d = at_key k xs d"
  "k \<noteq> k' \<Longrightarrow> at_key k (AList.delete k' xs) d = at_key k xs d"
  by (simp_all add: at_key_def or_else_def update_conv' delete_conv')

lemma sat_u32_one: "0 < sat_u32 n (Suc 0)" "2 \<le> sat_u32 n (Suc 0) \<longleftrightarrow> 0 < n" "sat_u32 n (Suc 0) < 2 \<longleftrightarrow> n = 0"
  by (auto simp: sat_u32_def)

lemma phase_of_frame:
  "phase_of k (cache_depth market a m) = phase_of k m"
  by (simp add: phase_of_def cache_depth_def split: option.split)

lemma handle_priceless_fields:
  "priceless (handle_priceless E now listed cancelled market m) = insert market (priceless m)"
  "price_fail_streak (handle_priceless E now listed cancelled market m) = price_fail_streak m"
  "price_restore_streak (handle_priceless E now listed cancelled market m) = price_restore_streak m"
  by (simp_all add: handle_priceless_def only_tracker_fields[OF only_tracker_cancel_all])

lemma phase_failed:
  "phase_of k (price_failed E now listed cancelled market m) =
     (if k = market then next_phase False (phase_of market m) else phase_of k m)"
  by (cases "market \<in> priceless m"; cases "at_key market (price_fail_streak m) 0 = 0"; cases "k = market")
    (simp_all add: price_failed_def Let_def handle_priceless_fields next_phase_def sat_u32_one phase_of_def)

lemma phase_accepted:
  "phase_of k (fst (accept_price market p m)) =
     (if k = market then next_phase True (phase_of market m) else phase_of k m)
   \<and> snd (accept_price market p m) = (if next_phase True (phase_of market m) = Quoting then Some p else None)"
  by (cases "market \<in> priceless m"; cases "at_key market (price_restore_streak m) 0 = 0"; cases "k = market")
    (simp_all add: accept_price_def Let_def next_phase_def sat_u32_one phase_of_def)

text \<open>
  C22: Whatever the answers of the price feed, a market follows the machine with four states: two
  unusable answers in a row tear it down, two usable ones bring it back, other markets are not
  touched, and a price is returned exactly when the market then quotes.
\<close>

theorem price_debounced:
  "let (m', p) = fetch_grid_price E now answer listed cancelled market m;
       after = next_phase (usable_price answer) (phase_of market m)
   in phase_of k m' = (if k = market then after else phase_of k m)
      \<and> p = (if usable_price answer \<and> after = Quoting then map_option pa_last answer else None)"
proof (cases "usable_price answer")
  case True
  then obtain a where a: "answer = Some a" "is_finite (pa_last a) \<and> f64_positive (pa_last a)"
    by (auto simp: usable_price_def split: option.splits)
  obtain m' p where acc: "accept_price market (pa_last a) (cache_depth market a m) = (m', p)" by force
  show ?thesis
    using phase_accepted[of k market "pa_last a" "cache_depth market a m"] True a
    by (auto simp: fetch_grid_price_def Let_def acc phase_of_frame)
next
  case False
  then show ?thesis
    by (auto simp: fetch_grid_price_def Let_def usable_price_def phase_failed phase_of_frame split: option.splits)
qed

lemma two_answers: "next_phase ok (next_phase ok ph) = (if ok then Quoting else Torn)"
  by (cases ph) (simp_all add: next_phase_def)

section \<open>The cycle\<close>

text \<open>What a visit leaves alone: the configuration, where to resume, and the count of visits.\<close>

named_theorems put_simps \<open>fields a visit leaves alone\<close>

lemma get_active_orders_put [put_simps]:
  "resume_from (fst (get_active_orders E now answer m)) = resume_from m"
  "om_config (fst (get_active_orders E now answer m)) = om_config m"
  by (simp_all add: only_tracker_fields[OF only_tracker_listing])

lemma cancel_all_put [put_simps]:
  "resume_from (cancel_all_orders E now answer cancelled m) = resume_from m"
  "om_config (cancel_all_orders E now answer cancelled m) = om_config m"
  by (simp_all add: only_tracker_fields[OF only_tracker_cancel_all])

lemma cancel_resting_put [put_simps]:
  "resume_from (cancel_resting ok i m) = resume_from m" "om_config (cancel_resting ok i m) = om_config m"
  by (simp_all add: cancel_resting_def on_tracker_of_def)

lemma handle_priceless_put [put_simps]:
  "resume_from (handle_priceless E now listed cancelled market m) = resume_from m"
  "om_config (handle_priceless E now listed cancelled market m) = om_config m"
  by (simp_all add: handle_priceless_def put_simps)

lemma fetch_grid_price_put [put_simps]:
  "resume_from (fst (fetch_grid_price E now answer listed cancelled market m)) = resume_from m"
  "om_config (fst (fetch_grid_price E now answer listed cancelled market m)) = om_config m"
  by (simp_all add: fetch_grid_price_def price_failed_def accept_price_def cache_depth_def Let_def put_simps
      split: option.split)

lemma get_tick_size_put [put_simps]:
  "resume_from (fst (get_tick_size answer market m)) = resume_from m"
  "om_config (fst (get_tick_size answer market m)) = om_config m"
  by (simp_all add: get_tick_size_def Let_def split: option.split)

lemma note_funding_put [put_simps]:
  "resume_from (note_funding market f m) = resume_from m" "om_config (note_funding market f m) = om_config m"
  by (simp_all add: note_funding_def note_side_def split: funding.split)

lemma execute_op_put [put_simps]:
  "resume_from (fst (execute_op E env market n op m out)) = resume_from m"
  "om_config (fst (execute_op E env market n op m out)) = om_config m"
  by (simp_all add: execute_op_def put_simps split: grid_op.split prod.split option.split)

lemma execute_ops_put [put_simps]:
  "resume_from (fst (execute_ops E env market n ops m out)) = resume_from m
   \<and> om_config (fst (execute_ops E env market n ops m out)) = om_config m"
  by (induction ops arbitrary: n m out) (simp_all add: case_prod_beta put_simps)

lemma execute_plan_put [put_simps]:
  "resume_from (fst (execute_plan E env market mid rs ls plan m report)) = resume_from m"
  "om_config (fst (execute_plan E env market mid rs ls plan m report)) = om_config m"
  "cr_markets (fst (snd (execute_plan E env market mid rs ls plan m report))) = cr_markets report"
  by (simp_all add: execute_plan_def Let_def split_beta put_simps)

lemma retry_cancels_put [put_simps]:
  "resume_from (fst (retry_cancels env market n ids m rs report)) = resume_from m"
  "om_config (fst (retry_cancels env market n ids m rs report)) = om_config m"
  "cr_markets (snd (snd (retry_cancels env market n ids m rs report))) = cr_markets report"
  by (induction ids arbitrary: n m rs report) (simp_all add: put_simps)

lemma retry_failed_cancels_put [put_simps]:
  "resume_from (fst (retry_failed_cancels env market m rs report)) = resume_from m"
  "om_config (fst (retry_failed_cancels env market m rs report)) = om_config m"
  "cr_markets (snd (snd (retry_failed_cancels env market m rs report))) = cr_markets report"
  by (simp_all add: retry_failed_cancels_def Let_def split_beta put_simps split: option.split)

lemma plan_visit_put [put_simps]:
  "resume_from (fst (plan_visit market price f n rests m)) = resume_from m"
  "om_config (fst (plan_visit market price f n rests m)) = om_config m"
  by (simp_all add: plan_visit_def Let_def)

lemma stamp_anchors_put [put_simps]:
  "resume_from (stamp_anchors market visit plan rests price m) = resume_from m"
  "om_config (stamp_anchors market visit plan rests price m) = om_config m"
  by (simp_all add: stamp_anchors_def Let_def)

lemma withdraw_orders_put [put_simps]:
  "resume_from (fst (withdraw_orders env n rs m report ok)) = resume_from m"
  "om_config (fst (withdraw_orders env n rs m report ok)) = om_config m"
  "cr_markets (fst (snd (withdraw_orders env n rs m report ok))) = cr_markets report"
  by (induction rs arbitrary: n m report ok) (simp_all add: put_simps)

lemma withdraw_unquoted_put [put_simps]:
  "resume_from (fst (withdraw_unquoted E env market m report)) = resume_from m"
  "om_config (fst (withdraw_unquoted E env market m report)) = om_config m"
  "cr_markets (snd (withdraw_unquoted E env market m report)) = cr_markets report"
  by (simp_all add: withdraw_unquoted_def Let_def case_prod_beta put_simps split: option.split bool.split)

lemma carry_out_put [put_simps]:
  "resume_from (fst (carry_out E env market price f ls rs visit m report)) = resume_from m"
  "om_config (fst (carry_out E env market price f ls rs visit m report)) = om_config m"
  "cr_markets (snd (carry_out E env market price f ls rs visit m report)) = cr_markets report"
  by (simp_all add: carry_out_def Let_def case_prod_beta put_simps)

lemma visit_priced_put [put_simps]:
  "resume_from (fst (visit_priced E env market price m report)) = resume_from m"
  "om_config (fst (visit_priced E env market price m report)) = om_config m"
  "cr_markets (snd (visit_priced E env market price m report)) = cr_markets report"
  by (simp_all add: visit_priced_def Let_def case_prod_beta put_simps split: option.split)

lemma visit_market_put:
  "resume_from (fst (visit_market E env market m report)) = resume_from m"
  "om_config (fst (visit_market E env market m report)) = om_config m"
  "cr_markets (snd (visit_market E env market m report)) = sat_u32 (cr_markets report) 1"
  by (simp_all add: visit_market_def Let_def case_prod_beta put_simps split: option.split)

text \<open>How many markets a cycle visits, from the shutdown flag and the clock before each.\<close>

fun visits :: "nat \<Rightarrow> nat \<Rightarrow> (bool \<times> nat \<times> visit_env) list \<Rightarrow> nat" where
  "visits deadline v [] = 0"
| "visits deadline v ((stopped, now, env) # es) =
     (if stopped \<or> past_soft_deadline v now deadline then 0 else Suc (visits deadline (Suc v) es))"

lemma visits_le: "visits deadline v es \<le> length es"
  by (induction deadline v es rule: visits.induct) auto

lemma visit_all_put:
  assumes "\<not> list_ex (\<lambda>(i, market, stopped, now, env). stopped) xs"
  shows "resume_from (fst (visit_all E deadline v xs m report)) =
      (if visits deadline v (map (snd \<circ> snd) xs) = length xs then resume_from m
       else fst (xs ! visits deadline v (map (snd \<circ> snd) xs)))
    \<and> om_config (fst (visit_all E deadline v xs m report)) = om_config m"
  using assms
proof (induction xs arbitrary: v m report)
  case (Cons x xs)
  obtain index market stopped now env where x: "x = (index, market, stopped, now, env)" by (cases x)
  show ?case
    using Cons.prems Cons.IH[of "Suc v" "fst (visit_market E env market m report)"
        "snd (visit_market E env market m report)"]
    by (simp add: x case_prod_beta visit_market_put)
qed simp

definition enabled_count :: "order_manager \<Rightarrow> nat" where
  "enabled_count m = length (filter mc_enabled (om_markets (om_config m)))"

definition first_index :: "order_manager \<Rightarrow> nat" where
  "first_index m = (if resume_from m < enabled_count m then resume_from m else 0)"

lemma rotation_index:
  "length (rotation m) = enabled_count m"
  "j < enabled_count m \<Longrightarrow> fst (rotation m ! j) = (first_index m + j) mod enabled_count m"
proof -
  show "length (rotation m) = enabled_count m" by (simp add: rotation_def enabled_count_def Let_def)
  assume j: "j < enabled_count m"
  then have "(first_index m + j) mod enabled_count m < enabled_count m" by simp
  then show "fst (rotation m ! j) = (first_index m + j) mod enabled_count m"
    using j unfolding first_index_def by (simp add: rotation_def enabled_count_def Let_def nth_rotate)
qed

lemma update_cycle_put:
  assumes "length envs = enabled_count m" "\<not> list_ex fst envs"
  shows "first_index (fst (update_cycle E deadline envs m)) =
      (if visits deadline 0 envs = enabled_count m then 0
       else (first_index m + visits deadline 0 envs) mod enabled_count m)"
    and "enabled_count (fst (update_cycle E deadline envs m)) = enabled_count m"
proof -
  let ?xs = "map (\<lambda>((i, market), e). (i, market, e)) (zip (rotation m) envs)"
  let ?k = "visits deadline 0 envs"
  have len: "length ?xs = enabled_count m" using assms(1) by (simp add: rotation_index(1))
  have "map (snd \<circ> snd) ?xs = map snd (zip (rotation m) envs)" by (simp add: case_prod_beta o_def)
  then have es: "map (snd \<circ> snd) ?xs = envs" using assms(1) by (simp add: rotation_index(1))
  have "\<not> list_ex (\<lambda>(i, market, stopped, now, env). stopped) ?xs"
    using assms(2) by (fastforce simp: list_ex_iff case_prod_beta dest: set_zip_rightD)
  note put = visit_all_put[OF this, of E deadline 0 "m\<lparr>resume_from := 0\<rparr>" no_report, unfolded es len]
  have idx: "fst (?xs ! ?k) = (first_index m + ?k) mod enabled_count m" if "?k \<noteq> enabled_count m"
    using that visits_le[of deadline 0 envs] assms(1)
    by (simp add: case_prod_beta rotation_index)
  show "enabled_count (fst (update_cycle E deadline envs m)) = enabled_count m"
    using put by (simp add: update_cycle_def enabled_count_def)
  then show "first_index (fst (update_cycle E deadline envs m)) =
      (if ?k = enabled_count m then 0 else (first_index m + ?k) mod enabled_count m)"
    using put idx visits_le[of deadline 0 envs] assms(1)
    by (auto simp: first_index_def[of "fst _"] update_cycle_def)
qed

text \<open>The indexes visited in a sequence of cycles.\<close>

fun visited_by :: "arith_env \<Rightarrow> (nat \<times> (bool \<times> nat \<times> visit_env) list) list \<Rightarrow> order_manager \<Rightarrow> nat set" where
  "visited_by E [] m = {}"
| "visited_by E ((deadline, envs) # cs) m =
     set (map fst (take (visits deadline 0 envs) (rotation m)))
     \<union> visited_by E cs (fst (update_cycle E deadline envs m))"

lemma visited_indexes:
  assumes "k \<le> enabled_count m"
  shows "set (map fst (take k (rotation m))) = (\<lambda>j. (first_index m + j) mod enabled_count m) ` {..<k}"
proof -
  have "map fst (take k (rotation m)) = map (\<lambda>j. (first_index m + j) mod enabled_count m) [0..<k]"
    using assms by (intro nth_equalityI) (simp_all add: rotation_index)
  then show ?thesis by (simp add: atLeast0LessThan)
qed

lemma residues:
  assumes "0 < n"
  shows "(\<lambda>j. (s + j) mod n) ` {..<n} = {..<n::nat}"
proof -
  have "i \<in> (\<lambda>j. (s + j) mod n) ` {..<n}" if "i < n" for i
  proof
    show "(i + (n - s mod n)) mod n \<in> {..<n}" using assms by simp
    have "(s + (i + (n - s mod n)) mod n) mod n = (s mod n + (i + (n - s mod n))) mod n"
      by (simp add: mod_simps)
    also have "s mod n + (i + (n - s mod n)) = i + n"
      using mod_less_divisor[OF assms, of s] by linarith
    finally show "i = (s + (i + (n - s mod n)) mod n) mod n" using that by simp
  qed
  then show ?thesis using assms by auto
qed

lemma cycles_reach:
  assumes "list_all (\<lambda>(deadline, envs). length envs = enabled_count m \<and> \<not> list_ex fst envs) cs"
    and "0 < enabled_count m"
  shows "(\<lambda>j. (first_index m + j) mod enabled_count m) ` {..<length cs} \<subseteq> visited_by E cs m"
  using assms
proof (induction cs arbitrary: m)
  case (Cons c cs)
  obtain deadline envs where c: "c = (deadline, envs)" by (cases c)
  let ?n = "enabled_count m" and ?k = "visits deadline 0 envs"
  let ?m = "fst (update_cycle E deadline envs m)"
  have envs: "length envs = ?n" "\<not> list_ex fst envs" using Cons.prems by (simp_all add: c)
  have k: "0 < ?k" "?k \<le> ?n"
    using visits_le[of deadline 0 envs] envs Cons.prems(2)
    by (cases envs; fastforce simp: past_soft_deadline_def)+
  note now = visited_indexes[OF k(2)]
  show ?case
  proof (cases "?k = ?n")
    case True
    then have "{..<?n} \<subseteq> visited_by E (c # cs) m"
      using now residues[OF Cons.prems(2), of "first_index m"] by (simp add: c)
    then show ?thesis using Cons.prems(2) by (auto simp: subset_iff)
  next
    case False
    note put = update_cycle_put[OF envs, of E deadline]
    have IH: "(\<lambda>j. (first_index m + ?k + j) mod ?n) ` {..<length cs} \<subseteq> visited_by E cs ?m"
      using Cons.IH[of ?m] Cons.prems False by (simp add: put mod_simps)
    have "(first_index m + j) mod ?n \<in> visited_by E (c # cs) m" if "j < Suc (length cs)" for j
    proof (cases "j < ?k")
      case True
      then show ?thesis using now by (auto simp: c)
    next
      case False
      then have "j = ?k + (j - ?k)" "j - ?k < length cs" using that k(1) by auto
      then have "(first_index m + ?k + (j - ?k)) mod ?n \<in> visited_by E cs ?m" using IH by blast
      then show ?thesis using \<open>j = ?k + (j - ?k)\<close> by (simp add: c add.assoc)
    qed
    then show ?thesis by auto
  qed
qed simp

text \<open>
  C23: However early the deadlines cut the cycles, as many cycles as there are enabled markets
  visit every one of them, because a cycle visits at least one and the next resumes there.
\<close>

theorem no_market_starves:
  assumes "list_all (\<lambda>(deadline, envs). length envs = enabled_count m \<and> \<not> list_ex fst envs) cs"
    and "enabled_count m \<le> length cs"
  shows "{..<enabled_count m} \<subseteq> visited_by E cs m"
proof (cases "0 < enabled_count m")
  case True
  have "{..<enabled_count m} = (\<lambda>j. (first_index m + j) mod enabled_count m) ` {..<enabled_count m}"
    using residues[OF True] by metis
  also have "\<dots> \<subseteq> (\<lambda>j. (first_index m + j) mod enabled_count m) ` {..<length cs}"
    using assms(2) by (intro image_mono) auto
  finally show ?thesis using cycles_reach[OF assms(1) True, of E] by blast
qed simp

section \<open>Failed cancels and funding\<close>

definition pending_of :: "string \<Rightarrow> order_manager \<Rightarrow> nat set" where
  "pending_of market m = set (at_key market (pending_cancels m) [])"

definition listed_ids :: "server_order list \<Rightarrow> nat set" where
  "listed_ids rs = so_order_id ` set rs"

lemma pending_cancel_resting [simp]: "pending_cancels (cancel_resting ok i m) = pending_cancels m"
  by (simp add: cancel_resting_def on_tracker_of_def)

lemma at_key_map_entry: "set (at_key k (AList.map_entry k (removeAll i) xs) []) = set (at_key k xs []) - {i}"
  by (simp add: at_key_def AList.map_of_map_entry or_else_def set_diff_eq split: option.split)

lemma retry_cancels_pending:
  "retry_cancels env market n ids m rs report = (m', rs', report') \<Longrightarrow>
     pending_of market m = P \<inter> listed_ids rs \<Longrightarrow> pending_of market m' = P \<inter> listed_ids rs'"
proof (induction ids arbitrary: n m rs report)
  case (Cons i ids)
  have "pending_of market ((cancel_resting True i m)
      \<lparr>pending_cancels := AList.map_entry market (removeAll i) (pending_cancels m)\<rparr>)
    = P \<inter> listed_ids (filter (\<lambda>r. so_order_id r \<noteq> i) rs)"
    using Cons.prems(2) by (auto simp: pending_of_def at_key_map_entry listed_ids_def)
  then show ?case using Cons.prems Cons.IH by (fastforce split: if_splits)
qed simp

text \<open>
  Retrying leaves pending exactly the failed cancels whose orders the listing it returns
  still shows: none is forgotten while its order rests, none is kept once it is gone.
\<close>

theorem failed_cancels_kept:
  "case retry_failed_cancels env market m rs report of
     (m', rs', report') \<Rightarrow> pending_of market m' = pending_of market m \<inter> listed_ids rs'"
proof (cases "map_of (pending_cancels m) market")
  case None
  then show ?thesis by (simp add: retry_failed_cancels_def pending_of_def at_key_def or_else_def)
next
  case (Some pending)
  let ?ids = "filter (\<lambda>i. \<exists>r \<in> set rs. so_order_id r = i) pending"
  let ?m = "m\<lparr>pending_cancels := AList.update market ?ids (pending_cancels m)\<rparr>"
  obtain m' rs' report' where r: "retry_cancels env market 0 ?ids ?m rs report = (m', rs', report')"
    by (rule prod_cases3)
  have "pending_of market ?m = pending_of market m \<inter> listed_ids rs"
    using Some by (auto simp: pending_of_def listed_ids_def at_key_def update_conv' or_else_def)
  then have "pending_of market m' = pending_of market m \<inter> listed_ids rs'"
    using retry_cancels_pending[OF r] by simp
  moreover have "pending_of market (m'\<lparr>pending_cancels := AList.delete market (pending_cancels m')\<rparr>) = pending_of market m'"
    if "map_of (pending_cancels m') market = Some []"
    using that by (simp add: pending_of_def) (simp add: at_key_def or_else_def)
  ultimately show ?thesis
    unfolding retry_failed_cancels_def Some option.case Let_def r prod.case by (simp split: if_split)
qed

definition covered :: "f64 \<Rightarrow> f64 \<Rightarrow> bool" where
  "covered need avail \<longleftrightarrow> \<not> (f64_positive need \<and> f64_lt avail need)"

lemma funding_covers:
  "gf_bid (grid_funding_of bs usable market mid ls reserve) = Funded \<Longrightarrow>
     covered (bid_need (grid_funding_of bs usable market mid ls reserve))
       (bid_avail (grid_funding_of bs usable market mid ls reserve))"
  "gf_offer (grid_funding_of bs usable market mid ls reserve) = Funded \<Longrightarrow>
     covered (offer_need (grid_funding_of bs usable market mid ls reserve))
       (offer_avail (grid_funding_of bs usable market mid ls reserve))"
  by (auto simp: grid_funding_of_def unknown_funding_def covered_def side_funding_def f64_positive_def Let_def
      split: option.splits if_splits)

lemma plan_side_Replace: "plan_side fund able trigger n = Replace \<Longrightarrow> able"
  by (auto simp: plan_side_def split: if_splits)

lemma plan_market_Replace:
  "fst (plan_market i) = Replace \<Longrightarrow> fundable (pin_bid i) (bid_expected i)"
  "snd (plan_market i) = Replace \<Longrightarrow> fundable (pin_offer i) (offer_expected i)"
  by (auto simp: plan_market_def fundable_def Let_def dest: plan_side_Replace)

lemma uncross_Replace:
  "fst (uncross plan bid_ls offer_ls mid tick rs able) = Replace \<Longrightarrow> fst plan = Replace \<or> fst able"
  "snd (uncross plan bid_ls offer_ls mid tick rs able) = Replace \<Longrightarrow> snd plan = Replace \<or> snd able"
  by (auto simp: uncross_def escalate_def split: if_splits)

lemma only_Replace: "(a = Replace \<Longrightarrow> P) \<Longrightarrow> (case a of Replace \<Rightarrow> P | _ \<Rightarrow> True)"
  by (cases a) simp_all

text \<open>
  Orders are placed on a side only when the balances are current and cover what the whole
  side needs after the fee reserve, also when the side is refreshed because the other one is.
\<close>

theorem quotes_only_when_funded:
  "let f = grid_funding_of bs usable market mid ls reserve;
       bid_n = length (bid_levels market); offer_n = length ls;
       plan = uncross (plan_market \<lparr>pin_bid = gf_bid f, pin_offer = gf_offer f, bid_expected = bid_n,
           offer_expected = offer_n, resting = rest, force_bid = fb, force_offer = ff, shape_changed = sc\<rparr>)
         (bid_levels market) ls price tick rs (fundable (gf_bid f) bid_n, fundable (gf_offer f) offer_n)
   in (case fst plan of Replace \<Rightarrow> usable \<and> bs \<noteq> [] \<and> 0 < bid_n \<and> covered (bid_need f) (bid_avail f) | _ \<Rightarrow> True)
    \<and> (case snd plan of Replace \<Rightarrow> usable \<and> bs \<noteq> [] \<and> 0 < offer_n \<and> covered (offer_need f) (offer_avail f) | _ \<Rightarrow> True)"
proof -
  let ?f = "grid_funding_of bs usable market mid ls reserve"
  have usable: "usable \<and> bs \<noteq> []" if "gf_bid ?f = Funded \<or> gf_offer ?f = Funded"
    using that by (auto simp: grid_funding_of_def unknown_funding_def split: if_splits)
  let ?n = "length (bid_levels market)" and ?k = "length ls"
  let ?i = "\<lparr>pin_bid = gf_bid ?f, pin_offer = gf_offer ?f, bid_expected = ?n,
    offer_expected = ?k, resting = rest, force_bid = fb, force_offer = ff, shape_changed = sc\<rparr>"
  let ?plan = "uncross (plan_market ?i) (bid_levels market) ls price tick rs
    (fundable (gf_bid ?f) ?n, fundable (gf_offer ?f) ?k)"
  have b: "fundable (gf_bid ?f) ?n" if "fst ?plan = Replace"
    using uncross_Replace(1)[OF that] plan_market_Replace(1)[of ?i] by (simp only: fst_conv plan_input.simps) blast
  have f: "fundable (gf_offer ?f) ?k" if "snd ?plan = Replace"
    using uncross_Replace(2)[OF that] plan_market_Replace(2)[of ?i] by (simp only: snd_conv plan_input.simps) blast
  show ?thesis
    unfolding Let_def
  proof (intro conjI only_Replace)
    assume "fst ?plan = Replace"
    then have "gf_bid ?f = Funded" "0 < ?n" using b by (simp_all add: fundable_def)
    then show "usable" "bs \<noteq> []" "0 < ?n" "covered (bid_need ?f) (bid_avail ?f)"
      using usable funding_covers(1) by auto
  next
    assume "snd ?plan = Replace"
    then have "gf_offer ?f = Funded" "0 < ?k" using f by (simp_all add: fundable_def)
    then show "usable" "bs \<noteq> []" "0 < ?k" "covered (offer_need ?f) (offer_avail ?f)"
      using usable funding_covers(2) by auto
  qed
qed

section \<open>Concrete inputs\<close>

definition sample_order :: "nat \<Rightarrow> order_side \<Rightarrow> string \<Rightarrow> server_order" where
  "sample_order i side price = \<lparr>so_order_id = i, so_market_id = ''A-B'', so_order_type = order_type_of side,
     so_price = price, so_quantity = ''1'', so_filled_quantity = ''0'', so_pending_quantity = ''0'',
     so_nonce = i, so_signature = None, so_signed_data = []\<rparr>"

theorem refresh_stays_quoted_witness:
  "resting_after [sample_order 1 BidSide ''9'', sample_order 2 OfferSide ''11''] BidSide
     (take 1 (grid_ops [\<lparr>delta_percent = Fin 0, quantity = ''1''\<rparr>] [] (Fin 10) (Fin 1)
       [sample_order 1 BidSide ''9'', sample_order 2 OfferSide ''11''] (Replace, Keep)))
   \<in> {lowest (side_action_of (Replace, Keep) BidSide)
        (length (side_ids [sample_order 1 BidSide ''9'', sample_order 2 OfferSide ''11''] BidSide))
        (rungs [\<lparr>delta_percent = Fin 0, quantity = ''1''\<rparr>] [] (Replace, Keep) BidSide)
      .. highest (side_action_of (Replace, Keep) BidSide)
        (length (side_ids [sample_order 1 BidSide ''9'', sample_order 2 OfferSide ''11''] BidSide))
        (rungs [\<lparr>delta_percent = Fin 0, quantity = ''1''\<rparr>] [] (Replace, Keep) BidSide)}"
  by (rule refresh_stays_quoted) (simp add: sample_order_def)

definition short_funding :: grid_funding where
  "short_funding = unknown_funding\<lparr>gf_bid := Short, gf_offer := Funded\<rparr>"

theorem parking_loses_nothing_witness:
  "plan_market \<lparr>pin_bid = gf_bid short_funding, pin_offer = gf_offer short_funding, bid_expected = 3,
     offer_expected = 0, resting = no_orders, force_bid = True, force_offer = True, shape_changed = True\<rparr>
     = (Keep, Keep)"
  by (rule parking_loses_nothing[where probe_age = "Some 5"])
    (simp add: can_park_def no_orders_def any_resting_def short_funding_def unfundable_def UNFUNDED_PROBE_def)

lemma sample_parses:
  "parse_f64 ''100.0000000000'' = Some (Fin 100)" "parse_f64 ''101'' = Some (Fin 101)"
proof -
  have "dec_value ''100.0000000000'' = Some 100" "dec_value ''101'' = Some 101" by (simp_all add: dec_value_simps)
  then show "parse_f64 ''100.0000000000'' = Some (Fin 100)" "parse_f64 ''101'' = Some (Fin 101)"
    using parse_f64_dec_value by force+
qed

lemma sample_digits: "show_nat 100 = ''100''" "show_nat 0 = ''0''" "replicate 9 CHR ''0'' = ''000000000''"
  by code_simp+

lemma sample_rung: "rung_price BidSide (Fin 100) (Fin 0) (Fin 1) = ''100.0000000000''"
proof -
  have "round_half_even 1000000000000 = 1000000000000"
    using round_half_even_int[of 1000000000000] by simp
  then have "fixed10 (Fin 100) = ''100.0000000000''"
    by (simp add: fixed10_def pad_digits_def Let_def sample_digits)
  then show ?thesis by (simp add: rung_price_def f64_add_def Let_def)
qed

theorem one_sided_refresh_clear_witness:
  "Fin 100 \<in> set (new_prices [\<lparr>delta_percent = Fin 0, quantity = ''1''\<rparr>] BidSide (Fin 100) (Fin 1))
   \<and> Fin 101 \<in> set (resting_prices [sample_order 2 OfferSide ''101''] OfferSide)
   \<and> \<not> f64_le (Fin 101) (Fin 100)"
proof -
  have new: "Fin 100 \<in> set (new_prices [\<lparr>delta_percent = Fin 0, quantity = ''1''\<rparr>] BidSide (Fin 100) (Fin 1))"
    and rest: "Fin 101 \<in> set (resting_prices [sample_order 2 OfferSide ''101''] OfferSide)"
    by (simp_all add: new_prices_def resting_prices_def sample_rung sample_parses sample_order_def List.map_filter_def)
  have "uncross (Replace, Keep) [\<lparr>delta_percent = Fin 0, quantity = ''1''\<rparr>] [] (Fin 100) (Fin 1)
      [sample_order 2 OfferSide ''101''] (True, True) = (Replace, Keep)"
    by (simp add: uncross_def tightest_new_def best_resting_def sample_rung sample_parses sample_order_def
        best_of_def reduce_by_def reaches_def List.map_filter_def)
  then have "\<not> f64_le (Fin 101) (Fin 100)"
    using one_sided_refresh_clear[of "(Replace, Keep)"] new rest by simp
  with new rest show ?thesis by blast
qed

definition sample_market :: "string \<Rightarrow> market_config" where
  "sample_market i = \<lparr>mc_market_id = i, mc_enabled = True, bid_levels = [], offer_levels = [],
     price_change_threshold_percent = Fin 1, mc_pool_impact = None\<rparr>"

definition sample_manager :: order_manager where
  "sample_manager = new_order_manager \<lparr>om_instruments = \<lparr>cc_token_id = None, dso_party = [],
     instrument_registries = [], instrument_wire_ids = [], onboarded_registries = {}\<rparr>,
     om_markets = [sample_market ''A-B'', sample_market ''C-D''], om_fee_reserve_cc = Fin 0,
     balance_stale_after_secs = 0\<rparr> (new_tracker 0 (Inl []))"

definition quiet_env :: visit_env where
  "quiet_env = \<lparr>ve_now = 0, ve_price = None, ve_teardown = None, ve_teardown_cancelled = (\<lambda>_. False),
     ve_orders = None, ve_markets = None, ve_retry_stopped = (\<lambda>_. False), ve_retried = (\<lambda>_. False),
     ve_stopped_before_orders = False, ve_stopped_before_uncross = False, ve_stopped_before_plan = False,
     ve_op_stopped = (\<lambda>_. False), ve_op_cancelled = (\<lambda>_. False), ve_order_ref = (\<lambda>_. True),
     ve_submitted = (\<lambda>_. Refused), ve_now_ms = 0\<rparr>"

theorem no_market_starves_witness:
  "\<forall>E. {..<enabled_count sample_manager}
     \<subseteq> visited_by E [(0, [(False, 1, quiet_env), (False, 1, quiet_env)]),
         (0, [(False, 1, quiet_env), (False, 1, quiet_env)])] sample_manager"
  by (rule allI, rule no_market_starves)
    (simp_all add: enabled_count_def sample_manager_def new_order_manager_def sample_market_def)

end
