(* ===== verification/Net_Position.thy ===== *)
theory Net_Position
  imports F64_Ops "HOL-Library.AList"
begin

text \<open>
  \<open>crates/agent-logic/src/net_position.rs\<close>: the trailing net of each counterparty and of the
  desk, decayed over a window, with the confirms that can still be reversed, the saved form and
  the writing of the state file. The arithmetic is a record of operations: \<open>f64_net\<close> is that of
  the code, in which \<open>exp\<close> is an argument; \<open>na_kept\<close> is the test before an entry is removed,
  \<open>na_above\<close> that of the sweep, the load and the save (they differ on a NaN). Clocks are arguments, one for each time the code
  reads them; hash maps are walked in the order of the lists that stand for them.
\<close>

section \<open>Arithmetic\<close>

record 'v net_arith =
  na_zero :: 'v
  na_add :: "'v \<Rightarrow> 'v \<Rightarrow> 'v"
  na_sub :: "'v \<Rightarrow> 'v \<Rightarrow> 'v"
  na_mul :: "'v \<Rightarrow> 'v \<Rightarrow> 'v"
  na_decay :: "'v \<Rightarrow> int \<Rightarrow> 'v"
  na_kept :: "'v \<Rightarrow> bool"
  na_above :: "'v \<Rightarrow> bool"
  na_finite :: "'v \<Rightarrow> bool"

definition EPSILON_BASE :: rat where "EPSILON_BASE = 1 / 10 ^ 9"

definition f64_net :: "(f64 \<Rightarrow> f64) \<Rightarrow> f64 net_arith" where
  "f64_net exp64 = \<lparr>na_zero = Fin 0, na_add = f64_add, na_sub = f64_sub, na_mul = f64_mul,
     na_decay = (\<lambda>w dt. exp64 (f64_div (f64_neg (f64_div (round_f64 (of_int dt)) (Fin 3600000))) w)),
     na_kept = (\<lambda>v. \<not> f64_le (f64_abs v) (round_f64 EPSILON_BASE)),
     na_above = (\<lambda>v. f64_lt (round_f64 EPSILON_BASE) (f64_abs v)), na_finite = is_finite\<rparr>"

definition i64_sub :: "int \<Rightarrow> int \<Rightarrow> int" where
  "i64_sub a b = max (- (2 ^ 63)) (min (2 ^ 63 - 1) (a - b))"

definition elapsed_ms :: "int \<Rightarrow> int \<Rightarrow> int" where
  "elapsed_ms from_ms to_ms = max (i64_sub to_ms from_ms) 0"

section \<open>State\<close>

record 'v decayed_net =
  dn_value :: 'v
  updated_at_ms :: int

record 'v pending_net =
  pn_party :: "string option"
  pn_token :: string
  pn_delta :: 'v
  pn_at_ms :: int

record 'v net_inner =
  nets :: "((string \<times> string) \<times> 'v decayed_net) list"
  desk :: "(string \<times> 'v decayed_net) list"
  net_pending :: "(string \<times> 'v pending_net) list"
  dirty :: bool
  last_checkpoint :: nat

datatype reverse_mode = Live | AfterPrune

definition CHECKPOINT_EVERY :: nat where "CHECKPOINT_EVERY = 60 * 10 ^ 9"

definition NET_STATE_VERSION :: nat where "NET_STATE_VERSION = 1"

definition millis_i64 :: "nat \<Rightarrow> int" where
  "millis_i64 ns = min (int (ns div 10 ^ 6)) (2 ^ 63 - 1)"

definition empty_net :: "nat \<Rightarrow> 'v net_inner" where
  "empty_net now = \<lparr>nets = [], desk = [], net_pending = [], dirty = False, last_checkpoint = now\<rparr>"

section \<open>Reading\<close>

definition read_entry :: "'v net_arith \<Rightarrow> 'v \<Rightarrow> 'v decayed_net option \<Rightarrow> int \<Rightarrow> 'v" where
  "read_entry A w e now = (case e of
       Some e \<Rightarrow> if na_finite A (dn_value e)
         then na_mul A (dn_value e) (na_decay A w (elapsed_ms (updated_at_ms e) now)) else na_zero A
     | None \<Rightarrow> na_zero A)"

definition party_net :: "'v net_arith \<Rightarrow> 'v \<Rightarrow> 'v net_inner \<Rightarrow> string \<Rightarrow> string \<Rightarrow> int \<Rightarrow> 'v" where
  "party_net A w s party token now = read_entry A w (map_of (nets s) (party, token)) now"

definition net_of_desk :: "'v net_arith \<Rightarrow> 'v \<Rightarrow> 'v net_inner \<Rightarrow> string \<Rightarrow> int \<Rightarrow> 'v" where
  "net_of_desk A w s token now = read_entry A w (map_of (desk s) token) now"

section \<open>Writing\<close>

text \<open>Decay to now, change by an amount, and drop what is left if it is nothing.\<close>

definition rebase ::
  "'v net_arith \<Rightarrow> 'v \<Rightarrow> int \<Rightarrow> ('v \<Rightarrow> 'v) \<Rightarrow> 'k \<Rightarrow> ('k \<times> 'v decayed_net) list \<Rightarrow> ('k \<times> 'v decayed_net) list" where
  "rebase A w now change k m =
     (let e = (case map_of m k of Some e \<Rightarrow> e | None \<Rightarrow> \<lparr>dn_value = na_zero A, updated_at_ms = now\<rparr>);
          v = change (na_mul A (dn_value e) (na_decay A w (elapsed_ms (updated_at_ms e) now)))
      in if na_kept A v then AList.update k \<lparr>dn_value = v, updated_at_ms = now\<rparr> m else AList.delete k m)"

definition apply_delta_locked ::
  "'v net_arith \<Rightarrow> 'v \<Rightarrow> int \<Rightarrow> string option \<Rightarrow> string \<Rightarrow> 'v \<Rightarrow> 'v net_inner \<Rightarrow> 'v net_inner" where
  "apply_delta_locked A w now party token delta s =
     s\<lparr>nets := (case party of
         Some p \<Rightarrow> rebase A w now (\<lambda>v. na_add A v delta) (p, token) (nets s) | None \<Rightarrow> nets s),
       desk := rebase A w now (\<lambda>v. na_add A v delta) token (desk s), dirty := True\<rparr>"

definition reverse_one ::
  "'v net_arith \<Rightarrow> 'v \<Rightarrow> int \<Rightarrow> 'v \<Rightarrow> reverse_mode \<Rightarrow> 'k \<Rightarrow> ('k \<times> 'v decayed_net) list
     \<Rightarrow> ('k \<times> 'v decayed_net) list \<times> bool" where
  "reverse_one A w now remaining mode k m =
     (if map_of m k \<noteq> None \<or> mode = Live then (rebase A w now (\<lambda>v. na_sub A v remaining) k m, True)
      else (m, False))"

definition reverse_pending_locked ::
  "'v net_arith \<Rightarrow> 'v \<Rightarrow> int \<Rightarrow> 'v pending_net \<Rightarrow> reverse_mode \<Rightarrow> 'v net_inner \<Rightarrow> 'v net_inner" where
  "reverse_pending_locked A w now p mode s =
     (let remaining = na_mul A (pn_delta p) (na_decay A w (elapsed_ms (pn_at_ms p) now));
          (ns, party_changed) = (case pn_party p of
              Some party \<Rightarrow> reverse_one A w now remaining mode (party, pn_token p) (nets s)
            | None \<Rightarrow> (nets s, False));
          (ds, desk_changed) = reverse_one A w now remaining mode (pn_token p) (desk s)
      in s\<lparr>nets := ns, desk := ds, dirty := dirty s \<or> party_changed \<or> desk_changed\<rparr>)"

definition still_counts :: "'v net_arith \<Rightarrow> 'v \<Rightarrow> int \<Rightarrow> 'v decayed_net \<Rightarrow> bool" where
  "still_counts A w now e = na_above A (na_mul A (dn_value e) (na_decay A w (elapsed_ms (updated_at_ms e) now)))"

definition sweep_decayed :: "'v net_arith \<Rightarrow> 'v \<Rightarrow> int \<Rightarrow> 'v net_inner \<Rightarrow> 'v net_inner \<times> nat" where
  "sweep_decayed A w now s =
     (let ns = filter (\<lambda>(k, e). still_counts A w now e) (nets s);
          ds = filter (\<lambda>(k, e). still_counts A w now e) (desk s);
          dropped = length (nets s) + length (desk s) - (length ns + length ds)
      in (s\<lparr>nets := ns, desk := ds, dirty := dirty s \<or> 0 < dropped\<rparr>, dropped))"

definition check_and_record ::
  "'v net_arith \<Rightarrow> 'v \<Rightarrow> int \<Rightarrow> int \<Rightarrow> string \<Rightarrow> string option \<Rightarrow> string \<Rightarrow> 'v \<Rightarrow> ('v \<Rightarrow> bool)
     \<Rightarrow> 'v net_inner \<Rightarrow> 'v net_inner \<times> bool" where
  "check_and_record A w now now' quote_id party token delta accept s =
     (let net = (case party of Some p \<Rightarrow> party_net A w s p token now | None \<Rightarrow> na_zero A)
      in if \<not> accept net then (s, False)
         else if na_finite A delta \<and> delta \<noteq> na_zero A \<and> token \<noteq> []
              \<and> map_of (net_pending s) quote_id = None then
           (apply_delta_locked A w now' party token delta (s\<lparr>net_pending := AList.update quote_id
              \<lparr>pn_party = party, pn_token = token, pn_delta = delta, pn_at_ms = now\<rparr> (net_pending s)\<rparr>), True)
         else (s, True))"

definition record_confirm ::
  "'v net_arith \<Rightarrow> 'v \<Rightarrow> int \<Rightarrow> int \<Rightarrow> string \<Rightarrow> string option \<Rightarrow> string \<Rightarrow> 'v \<Rightarrow> 'v net_inner \<Rightarrow> 'v net_inner" where
  "record_confirm A w now now' quote_id party token delta s =
     fst (check_and_record A w now now' quote_id party token delta (\<lambda>_. True) s)"

definition net_settle :: "string \<Rightarrow> 'v net_inner \<Rightarrow> 'v net_inner" where
  "net_settle quote_id s = (case map_of (net_pending s) quote_id of
       Some p \<Rightarrow> s\<lparr>net_pending := AList.delete quote_id (net_pending s), dirty := True\<rparr>
     | None \<Rightarrow> s)"

definition net_release :: "'v net_arith \<Rightarrow> 'v \<Rightarrow> int \<Rightarrow> string \<Rightarrow> 'v net_inner \<Rightarrow> 'v net_inner" where
  "net_release A w now quote_id s = (case map_of (net_pending s) quote_id of
       Some p \<Rightarrow> reverse_pending_locked A w now p Live
         (s\<lparr>net_pending := AList.delete quote_id (net_pending s)\<rparr>)
     | None \<Rightarrow> s)"

definition expire_stale_pending ::
  "'v net_arith \<Rightarrow> 'v \<Rightarrow> nat \<Rightarrow> int \<Rightarrow> int \<Rightarrow> 'v net_inner \<Rightarrow> 'v net_inner" where
  "expire_stale_pending A w stale_after now now' s =
     (let cutoff = i64_sub now (millis_i64 stale_after)
      in foldl (\<lambda>s (q, p). reverse_pending_locked A w now' p Live
           (s\<lparr>net_pending := AList.delete q (net_pending s)\<rparr>)) s
         (filter (\<lambda>(q, p). pn_at_ms p < cutoff) (net_pending s)))"

section \<open>The saved form\<close>

record 'v saved_net =
  sv_version :: nat
  sv_entries :: "((string \<times> string) \<times> 'v decayed_net) list"
  sv_desk :: "(string \<times> 'v decayed_net) list"
  sv_pending :: "(string \<times> 'v pending_net) list"

definition snapshot_locked :: "'v net_arith \<Rightarrow> 'v net_inner \<Rightarrow> 'v saved_net" where
  "snapshot_locked A s = \<lparr>sv_version = NET_STATE_VERSION,
     sv_entries = filter (\<lambda>(k, e). na_finite A (dn_value e) \<and> na_above A (dn_value e)) (nets s),
     sv_desk = filter (\<lambda>(k, e). na_finite A (dn_value e) \<and> na_above A (dn_value e)) (desk s),
     sv_pending = net_pending s\<rparr>"

definition restored ::
  "'v net_arith \<Rightarrow> int \<Rightarrow> int \<Rightarrow> ('k \<times> 'v decayed_net) list \<Rightarrow> ('k \<times> 'v decayed_net) list" where
  "restored A now max_age saved = foldl (\<lambda>m (k, e).
     if na_finite A (dn_value e) \<and> na_above A (dn_value e) \<and> i64_sub now (updated_at_ms e) \<le> max_age
     then AList.update k e m else m) [] saved"

text \<open>\<open>None\<close> when the file is missing or does not parse. The age in milliseconds of the window is an argument.\<close>

definition load_or_new ::
  "'v net_arith \<Rightarrow> 'v \<Rightarrow> int \<Rightarrow> nat \<Rightarrow> nat \<Rightarrow> int \<Rightarrow> int \<Rightarrow> 'v saved_net option \<Rightarrow> 'v net_inner" where
  "load_or_new A w window_ms stale_after started now now' file =
     (case file of None \<Rightarrow> empty_net started
      | Some saved \<Rightarrow>
          if sv_version saved \<noteq> NET_STATE_VERSION then empty_net started
          else
            let max_age = max window_ms (millis_i64 stale_after);
                finite = filter (\<lambda>(q, p). na_finite A (pn_delta p)) (sv_pending saved);
                is_dead = (\<lambda>p. i64_sub now (pn_at_ms p) > millis_i64 stale_after);
                s = (empty_net started)\<lparr>nets := restored A now max_age (sv_entries saved),
                  desk := restored A now max_age (sv_desk saved),
                  net_pending := foldl (\<lambda>m (q, p). AList.update q p m) [] (filter (\<lambda>(q, p). \<not> is_dead p) finite)\<rparr>
            in foldl (\<lambda>s (q, p). reverse_pending_locked A w now' p AfterPrune s) s
                 (filter (\<lambda>(q, p). is_dead p) finite))"

section \<open>The state file\<close>

text \<open>
  \<open>checkpoint_if_dirty\<close> takes its snapshot at once and hands the write to another thread;
  \<open>save\<close>, which runs once, at shutdown, takes its snapshot, then waits for the lock of the file.
\<close>

definition checkpoint_due :: "nat \<Rightarrow> 'v net_inner \<Rightarrow> bool" where
  "checkpoint_due now s \<longleftrightarrow> dirty s \<and> CHECKPOINT_EVERY \<le> now - last_checkpoint s"

definition checkpoint_snapshot ::
  "'v net_arith \<Rightarrow> 'v \<Rightarrow> int \<Rightarrow> nat \<Rightarrow> 'v net_inner \<Rightarrow> 'v net_inner \<times> 'v saved_net option" where
  "checkpoint_snapshot A w now_ms now s0 =
     (let s = fst (sweep_decayed A w now_ms s0)
      in if \<not> checkpoint_due now s then (s, None)
         else let s' = s\<lparr>dirty := False, last_checkpoint := now\<rparr> in (s', Some (snapshot_locked A s')))"

record 'v net_disk =
  nd_inner :: "'v net_inner"
  nd_writes :: "'v saved_net list"
  nd_saving :: "'v saved_net option"
  nd_final :: bool
  nd_file :: "'v saved_net option"

inductive net_step :: "'v net_arith \<Rightarrow> 'v \<Rightarrow> 'v net_disk \<Rightarrow> 'v net_disk \<Rightarrow> bool" for A w where
  Change: "net_step A w d (d\<lparr>nd_inner := s\<rparr>)"
| Checkpoint: "checkpoint_snapshot A w now_ms now (nd_inner d) = (s, Some snap) \<Longrightarrow>
    net_step A w d (d\<lparr>nd_inner := s, nd_writes := snap # nd_writes d\<rparr>)"
| Write: "nd_writes d = xs @ snap # ys \<Longrightarrow> \<not> nd_final d \<Longrightarrow>
    net_step A w d (d\<lparr>nd_writes := xs @ ys, nd_file := Some snap\<rparr>)"
| Write_failed: "nd_writes d = xs @ snap # ys \<Longrightarrow> \<not> nd_final d \<Longrightarrow>
    net_step A w d (d\<lparr>nd_writes := xs @ ys, nd_inner := (nd_inner d)\<lparr>dirty := True\<rparr>\<rparr>)"
| Write_late: "nd_writes d = xs @ snap # ys \<Longrightarrow> nd_final d \<Longrightarrow> net_step A w d (d\<lparr>nd_writes := xs @ ys\<rparr>)"
| Save_snapshot: "nd_saving d = None \<Longrightarrow> \<not> nd_final d \<Longrightarrow>
    net_step A w d (d\<lparr>nd_inner := (nd_inner d)\<lparr>dirty := False\<rparr>, nd_saving := Some (snapshot_locked A (nd_inner d))\<rparr>)"
| Save_write: "nd_saving d = Some snap \<Longrightarrow>
    net_step A w d (d\<lparr>nd_saving := None, nd_final := True, nd_file := Some snap\<rparr>)"
| Save_failed: "nd_saving d = Some snap \<Longrightarrow>
    net_step A w d (d\<lparr>nd_saving := None, nd_final := True\<rparr>)"

end
