(* ===== verification/Net_Safety.thy ===== *)
theory Net_Safety
  imports Net_Position
begin

text \<open>
  What the trailing net promises: a quote is counted once and only when accepted, in exact
  arithmetic the net of the desk and of each party is the decayed sum of the confirms that were
  not reversed, up to what the dropping of small values loses, and the state that shutdown
  saves is never overwritten.
\<close>

section \<open>The state file\<close>

lemma final_stays:
  assumes "(net_step A w)\<^sup>*\<^sup>* d d'" "nd_final d" "nd_saving d = None"
  shows "nd_file d' = nd_file d \<and> nd_final d' \<and> nd_saving d' = None"
  using assms
proof (induction rule: rtranclp_induct)
  case (step d' d'')
  from step.hyps(2) show ?case using step.IH step.prems by cases auto
qed simp

text \<open>
  Once shutdown has written its snapshot, the file holds it whatever happens later: a
  checkpoint whose snapshot was taken before the save and which is still to be written does
  not replace it.
\<close>

theorem shutdown_state_final:
  assumes "nd_saving d = Some snap"
    and "(net_step A w)\<^sup>*\<^sup>* (d\<lparr>nd_saving := None, nd_final := True, nd_file := Some snap\<rparr>) d'"
  shows "nd_file d' = Some snap"
  using final_stays[OF assms(2)] by simp

section \<open>Counting\<close>

definition countable :: "'v net_arith \<Rightarrow> 'v \<Rightarrow> string \<Rightarrow> 'v net_inner \<Rightarrow> string \<Rightarrow> bool" where
  "countable A delta token s q \<longleftrightarrow>
     na_finite A delta \<and> delta \<noteq> na_zero A \<and> token \<noteq> [] \<and> map_of (net_pending s) q = None"

lemma reverse_pending_pending [simp]: "net_pending (reverse_pending_locked A w now p mode s) = net_pending s"
  by (simp add: reverse_pending_locked_def Let_def split: prod.split)

lemma apply_delta_pending [simp]: "net_pending (apply_delta_locked A w now party token d s) = net_pending s"
  by (simp add: apply_delta_locked_def)

text \<open>
  A confirm is accepted exactly when the check passes the net as it stands, it changes the
  state exactly when it is also countable and not pending, and then the quote is pending, so
  that the same quote is not counted again.
\<close>

theorem confirm_counted_once:
  "let net = (case party of Some p \<Rightarrow> party_net A w s p token now | None \<Rightarrow> na_zero A);
       (s', ok) = check_and_record A w now now' q party token delta accept s
   in ok = accept net
      \<and> (if ok \<and> countable A delta token s q then
           map_of (net_pending s') q = Some \<lparr>pn_party = party, pn_token = token, pn_delta = delta, pn_at_ms = now\<rparr>
           \<and> s' = apply_delta_locked A w now' party token delta (s\<lparr>net_pending := net_pending s'\<rparr>)
           \<and> fst (check_and_record A w t t' q party' token' delta' accept' s') = s'
         else s' = s)"
  by (auto simp: check_and_record_def Let_def countable_def update_conv' split: option.split)

section \<open>Exact arithmetic\<close>

definition kept_eps :: real where "kept_eps = 1 / 10 ^ 9"

lemma kept_eps_pos: "0 < kept_eps"
  by (simp add: kept_eps_def)

definition real_net :: "real net_arith" where
  "real_net = \<lparr>na_zero = 0, na_add = (+), na_sub = (-), na_mul = (*),
     na_decay = (\<lambda>w dt. exp (- (of_int dt / 3600000) / w)), na_kept = (\<lambda>v. \<bar>v\<bar> > kept_eps),
     na_above = (\<lambda>v. kept_eps < \<bar>v\<bar>),
     na_finite = (\<lambda>_. True)\<rparr>"

lemma real_ops: "na_add real_net = (+)" "na_sub real_net = (-)"
  by (simp_all add: real_net_def)

definition decay_to :: "real \<Rightarrow> int \<Rightarrow> int \<Rightarrow> real" where
  "decay_to w u t = exp (- (of_int (t - u) / 3600000) / w)"

lemma decay_compose: "decay_to w u t * decay_to w t t' = decay_to w u t'"
proof -
  have "decay_to w a b = exp (of_int (a - b) / (3600000 * w))" for a b
    by (simp add: decay_to_def minus_divide_left)
  then show ?thesis by (simp add: exp_add[symmetric] add_divide_distrib[symmetric])
qed

lemma decay_same [simp]: "decay_to w t t = 1"
  by (simp add: decay_to_def)

lemma decay_range: "0 < w \<Longrightarrow> u \<le> t \<Longrightarrow> 0 < decay_to w u t \<and> decay_to w u t \<le> 1"
  by (simp add: decay_to_def)

lemma elapsed: "0 \<le> u \<Longrightarrow> u \<le> t \<Longrightarrow> t < 2 ^ 63 \<Longrightarrow> elapsed_ms u t = t - u"
  by (simp add: elapsed_ms_def i64_sub_def)

text \<open>The value of a key at a time, and the flows it should be the sum of.\<close>

definition value_at :: "real \<Rightarrow> ('k \<times> real decayed_net) list \<Rightarrow> 'k \<Rightarrow> int \<Rightarrow> real" where
  "value_at w m k t = (case map_of m k of None \<Rightarrow> 0 | Some e \<Rightarrow> dn_value e * decay_to w (updated_at_ms e) t)"

type_synonym flow = "string \<times> string option \<times> string \<times> real \<times> int"

definition flow_sum :: "real \<Rightarrow> int \<Rightarrow> (string option \<times> string \<Rightarrow> bool) \<Rightarrow> flow list \<Rightarrow> real" where
  "flow_sum w t P flows = sum_list (map (\<lambda>(q, party, token, d, u).
     if P (party, token) then d * decay_to w u t else 0) flows)"

definition past_entries :: "int \<Rightarrow> ('k \<times> real decayed_net) list \<Rightarrow> bool" where
  "past_entries t m \<longleftrightarrow> distinct (map fst m) \<and> (\<forall>k e. map_of m k = Some e \<longrightarrow> 0 \<le> updated_at_ms e \<and> updated_at_ms e \<le> t)"

lemma flow_sum_append: "flow_sum w t P (xs @ ys) = flow_sum w t P xs + flow_sum w t P ys"
  by (simp add: flow_sum_def)

lemma flow_sum_remove:
  "(q, party, token, d, u) \<in> set flows \<Longrightarrow> flow_sum w t P (remove1 (q, party, token, d, u) flows)
     = flow_sum w t P flows - (if P (party, token) then d * decay_to w u t else 0)"
  by (induction flows) (auto simp: flow_sum_def)

lemma flow_sum_later: "flow_sum w t' P flows = flow_sum w t P flows * decay_to w t t'"
  by (induction flows) (auto simp: flow_sum_def distrib_right decay_compose mult.assoc)

lemma value_later: "value_at w m k t' = value_at w m k t * decay_to w t t'"
  by (simp add: value_at_def decay_compose mult.assoc split: option.split)

lemma past_later: "past_entries t m \<Longrightarrow> t \<le> t' \<Longrightarrow> past_entries t' m"
  by (fastforce simp: past_entries_def)

lemma value_rebase:
  assumes "past_entries t m" "0 \<le> t" "t < 2 ^ 63"
  shows "past_entries t (rebase real_net w t change k m)"
    and "value_at w (rebase real_net w t change k m) k' t =
      (if k' = k then (if \<bar>change (value_at w m k t)\<bar> > kept_eps then change (value_at w m k t) else 0)
       else value_at w m k' t)"
proof -
  define v where "v = value_at w m k t"
  have "(case map_of m k of Some e \<Rightarrow> dn_value e * exp (- (of_int (elapsed_ms (updated_at_ms e) t) / 3600000) / w)
      | None \<Rightarrow> 0) = v"
    using assms by (auto simp: v_def value_at_def past_entries_def decay_to_def elapsed split: option.split)
  then have r: "rebase real_net w t change k m = (if \<bar>change v\<bar> > kept_eps
      then AList.update k \<lparr>dn_value = change v, updated_at_ms = t\<rparr> m else AList.delete k m)"
    by (auto simp: rebase_def Let_def real_net_def split: option.splits)
  have "distinct (map fst (rebase real_net w t change k m))"
    using assms(1) unfolding r past_entries_def by (simp add: distinct_update distinct_delete)
  moreover have "0 \<le> updated_at_ms e \<and> updated_at_ms e \<le> t"
    if "map_of (rebase real_net w t change k m) k' = Some e" for k' e
    using that conjunct2[OF assms(1)[unfolded past_entries_def]] assms(2) unfolding r
    by (auto simp: update_conv' delete_conv' split: if_splits)
  ultimately show "past_entries t (rebase real_net w t change k m)" by (simp only: past_entries_def) blast
  show "value_at w (rebase real_net w t change k m) k' t =
      (if k' = k then (if \<bar>change v\<bar> > kept_eps then change v else 0) else value_at w m k' t)"
    unfolding r by (simp add: value_at_def update_conv' delete_conv')
qed

text \<open>An aggregate follows the flows of each key up to a number of dropped remainders.\<close>

definition tracks ::
  "real \<Rightarrow> int \<Rightarrow> nat \<Rightarrow> ('k \<times> real decayed_net) list \<Rightarrow> ('k \<Rightarrow> string option \<times> string \<Rightarrow> bool) \<Rightarrow> flow list \<Rightarrow> bool" where
  "tracks w t n m P flows \<longleftrightarrow> past_entries t m
     \<and> (\<forall>k. \<bar>value_at w m k t - flow_sum w t (P k) flows\<bar> \<le> of_nat n * kept_eps)"

lemma tracks_later:
  assumes "tracks w t n m P flows" "0 < w" "t \<le> t'"
  shows "tracks w t' n m P flows"
proof -
  have "\<bar>value_at w m k t' - flow_sum w t' (P k) flows\<bar> \<le> of_nat n * kept_eps" for k
  proof -
    have d: "0 < decay_to w t t'" "decay_to w t t' \<le> 1" using decay_range[OF assms(2,3)] by simp_all
    have "\<bar>value_at w m k t' - flow_sum w t' (P k) flows\<bar>
        = \<bar>value_at w m k t - flow_sum w t (P k) flows\<bar> * decay_to w t t'"
      using d(1) by (simp add: value_later[of w m k t' t] flow_sum_later[of w t' _ flows t] abs_mult
          left_diff_distrib[symmetric])
    also have "\<dots> \<le> \<bar>value_at w m k t - flow_sum w t (P k) flows\<bar>"
      using d by (simp add: mult_left_le)
    also have "\<dots> \<le> of_nat n * kept_eps" using assms(1) by (simp add: tracks_def)
    finally show ?thesis .
  qed
  then show ?thesis using assms past_later by (auto simp: tracks_def)
qed

lemma tracks_rebase:
  assumes "tracks w t n m P flows" "0 \<le> t" "t < 2 ^ 63"
    and "\<And>v. change v = v + c"
    and "\<And>k. flow_sum w t (P k) flows' = flow_sum w t (P k) flows + (if k = k0 then c else 0)"
  shows "tracks w t (Suc n) (rebase real_net w t change k0 m) P flows'"
proof -
  have past: "past_entries t m" using assms(1) by (simp add: tracks_def)
  have "\<bar>value_at w (rebase real_net w t change k0 m) k t - flow_sum w t (P k) flows'\<bar> \<le> of_nat (Suc n) * kept_eps" for k
  proof -
    have "\<bar>value_at w m k t - flow_sum w t (P k) flows\<bar> \<le> of_nat n * kept_eps"
      using assms(1) by (simp add: tracks_def)
    then show ?thesis
      using value_rebase(2)[OF past assms(2,3), where w = w and change = change and k = k0 and k' = k]
        assms(4)[of "value_at w m k0 t"] assms(5)[of k]
        kept_eps_pos by (auto simp: distrib_right abs_le_iff not_less split: if_splits)
  qed
  then show ?thesis using value_rebase(1)[OF past assms(2,3)] by (simp add: tracks_def)
qed

lemma tracks_same:
  assumes "tracks w t n m P flows" "\<And>k. flow_sum w t (P k) flows' = flow_sum w t (P k) flows"
  shows "tracks w t (Suc n) m P flows'"
proof -
  have "of_nat n * kept_eps \<le> of_nat (Suc n) * kept_eps" using kept_eps_pos by (simp add: distrib_right)
  then show ?thesis using assms unfolding tracks_def by (metis order_trans)
qed

lemma tracks_sweep:
  assumes "tracks w t n m P flows" "0 \<le> t" "t < 2 ^ 63"
  shows "tracks w t (Suc n) (filter (\<lambda>(k, e). still_counts real_net w t e) m) P flows"
proof -
  let ?m = "filter (\<lambda>(k, e). still_counts real_net w t e) m"
  have past: "past_entries t m" and dist: "distinct (map fst m)"
    using assms(1) by (simp_all add: tracks_def past_entries_def)
  have look: "map_of ?m k = (case map_of m k of None \<Rightarrow> None
      | Some e \<Rightarrow> if still_counts real_net w t e then Some e else None)" for k
    using dist
  proof (induction m)
    case (Cons x m)
    have "map_of (filter Q m) k = None" if "k \<notin> fst ` set m" for Q
      using that by (auto simp: map_of_eq_None_iff)
    then show ?case using Cons by (auto split: option.split)
  qed simp
  have dist': "distinct (map fst ?m)" using dist by (simp add: distinct_map_filter)
  have "past_entries t ?m"
    using past dist' by (auto simp: past_entries_def look split: option.splits if_splits)
  moreover have "\<bar>value_at w ?m k t - flow_sum w t (P k) flows\<bar> \<le> of_nat (Suc n) * kept_eps" for k
  proof -
    have "\<bar>value_at w m k t - flow_sum w t (P k) flows\<bar> \<le> of_nat n * kept_eps"
      using assms(1) by (simp add: tracks_def)
    moreover have "\<bar>value_at w ?m k t - value_at w m k t\<bar> \<le> kept_eps"
    proof (cases "map_of m k")
      case (Some e)
      then have "elapsed_ms (updated_at_ms e) t = t - updated_at_ms e"
        using past assms(2,3) by (auto simp: past_entries_def intro: elapsed)
      then have "still_counts real_net w t e \<longleftrightarrow> \<bar>value_at w m k t\<bar> > kept_eps"
        using Some by (simp add: value_at_def still_counts_def real_net_def decay_to_def)
      moreover have "value_at w ?m k t = (if still_counts real_net w t e then value_at w m k t else 0)"
        using look[of k] Some by (simp add: value_at_def)
      ultimately show ?thesis using kept_eps_pos by simp
    qed (use look[of k] kept_eps_pos in \<open>simp add: value_at_def less_imp_le\<close>)
    ultimately show ?thesis using kept_eps_pos by (simp add: distrib_right abs_le_iff)
  qed
  ultimately show ?thesis by (simp add: tracks_def)
qed

section \<open>The net follows the flows\<close>

datatype net_event =
    Confirm string "string option" string real "real \<Rightarrow> bool"
  | Settle string
  | Release string
  | Sweep

definition pending_flow :: "string \<Rightarrow> real pending_net \<Rightarrow> flow" where
  "pending_flow q p = (q, pn_party p, pn_token p, pn_delta p, pn_at_ms p)"

fun net_event_step :: "real \<Rightarrow> real net_inner \<times> flow list \<Rightarrow> int \<times> net_event \<Rightarrow> real net_inner \<times> flow list" where
  "net_event_step w (s, flows) (t, Confirm q party token d accept) =
     (case check_and_record real_net w t t q party token d accept s of (s', ok) \<Rightarrow>
        (s', if ok \<and> countable real_net d token s q then flows @ [(q, party, token, d, t)] else flows))"
| "net_event_step w (s, flows) (t, Settle q) = (net_settle q s, flows)"
| "net_event_step w (s, flows) (t, Release q) = (net_release real_net w t q s,
     case map_of (net_pending s) q of Some p \<Rightarrow> remove1 (pending_flow q p) flows | None \<Rightarrow> flows)"
| "net_event_step w (s, flows) (t, Sweep) = (fst (sweep_decayed real_net w t s), flows)"

definition of_desk :: "string \<Rightarrow> string option \<times> string \<Rightarrow> bool" where
  "of_desk k f \<longleftrightarrow> snd f = k"

definition of_party :: "string \<times> string \<Rightarrow> string option \<times> string \<Rightarrow> bool" where
  "of_party k f \<longleftrightarrow> f = (Some (fst k), snd k)"

definition net_inv :: "real \<Rightarrow> int \<Rightarrow> nat \<Rightarrow> real net_inner \<times> flow list \<Rightarrow> bool" where
  "net_inv w t n = (\<lambda>(s, flows). tracks w t n (desk s) of_desk flows \<and> tracks w t n (nets s) of_party flows
     \<and> (\<forall>q p. map_of (net_pending s) q = Some p \<longrightarrow>
          pending_flow q p \<in> set flows \<and> 0 \<le> pn_at_ms p \<and> pn_at_ms p \<le> t))"

lemma flow_sum_single: "flow_sum w t P [(q, party, token, d, t)] = (if P (party, token) then d else 0)"
  by (simp add: flow_sum_def)

lemma apply_tracks:
  assumes "net_inv w t n (s, flows)" "0 \<le> t" "t < 2 ^ 63"
  shows "tracks w t (Suc n) (desk (apply_delta_locked real_net w t party token d s)) of_desk (flows @ [(q, party, token, d, t)])
    \<and> tracks w t (Suc n) (nets (apply_delta_locked real_net w t party token d s)) of_party (flows @ [(q, party, token, d, t)])"
proof
  have d: "tracks w t n (desk s) of_desk flows" and p: "tracks w t n (nets s) of_party flows"
    using assms(1) by (simp_all add: net_inv_def)
  have s': "desk (apply_delta_locked real_net w t party token d s) = rebase real_net w t (\<lambda>v. v + d) token (desk s)"
    "nets (apply_delta_locked real_net w t party token d s) = (case party of None \<Rightarrow> nets s
      | Some a \<Rightarrow> rebase real_net w t (\<lambda>v. v + d) (a, token) (nets s))"
    by (simp_all add: apply_delta_locked_def real_ops split: option.split)
  show "tracks w t (Suc n) (desk (apply_delta_locked real_net w t party token d s)) of_desk (flows @ [(q, party, token, d, t)])"
    unfolding s' by (rule tracks_rebase[OF d assms(2,3), where c = d])
      (simp_all add: flow_sum_append flow_sum_single of_desk_def)
  show "tracks w t (Suc n) (nets (apply_delta_locked real_net w t party token d s)) of_party (flows @ [(q, party, token, d, t)])"
  proof (cases party)
    case None
    then show ?thesis unfolding s'
      by (simp, intro tracks_same[OF p]) (simp add: flow_sum_append flow_sum_single of_party_def)
  next
    case (Some a)
    show ?thesis unfolding s' unfolding Some option.case
      by (rule tracks_rebase[OF p assms(2,3), where c = d])
        (auto simp: flow_sum_append flow_sum_single of_party_def)
  qed
qed

lemma reverse_tracks:
  assumes "net_inv w t n (s, flows)" "map_of (net_pending s) q = Some p" "0 \<le> t" "t < 2 ^ 63"
    and "s' = reverse_pending_locked real_net w t p Live (s\<lparr>net_pending := ps\<rparr>)"
  shows "tracks w t (Suc n) (desk s') of_desk (remove1 (pending_flow q p) flows)
    \<and> tracks w t (Suc n) (nets s') of_party (remove1 (pending_flow q p) flows)"
proof
  have d: "tracks w t n (desk s) of_desk flows" and pn: "tracks w t n (nets s) of_party flows"
    and f: "pending_flow q p \<in> set flows" and at: "0 \<le> pn_at_ms p" "pn_at_ms p \<le> t"
    using assms(1,2) by (auto simp: net_inv_def)
  define r where "r = pn_delta p * decay_to w (pn_at_ms p) t"
  have r: "na_mul real_net (pn_delta p) (na_decay real_net w (elapsed_ms (pn_at_ms p) t)) = r"
    using elapsed[OF at assms(4)] by (simp add: r_def real_net_def decay_to_def)
  have s': "desk s' = rebase real_net w t (\<lambda>v. v - r) (pn_token p) (desk s)"
    "nets s' = (case pn_party p of None \<Rightarrow> nets s
      | Some party \<Rightarrow> rebase real_net w t (\<lambda>v. v - r) (party, pn_token p) (nets s))"
    by (simp_all add: assms(5) reverse_pending_locked_def Let_def r reverse_one_def real_ops case_prod_beta
        split: option.split)
  have gone: "flow_sum w t P (remove1 (pending_flow q p) flows)
      = flow_sum w t P flows + (if P (pn_party p, pn_token p) then - r else 0)" for P
    using flow_sum_remove[OF f[unfolded pending_flow_def], of w t P] by (simp add: pending_flow_def r_def)
  show "tracks w t (Suc n) (desk s') of_desk (remove1 (pending_flow q p) flows)"
    unfolding s' by (rule tracks_rebase[OF d assms(3,4), where c = "- r"]) (simp_all add: gone of_desk_def)
  show "tracks w t (Suc n) (nets s') of_party (remove1 (pending_flow q p) flows)"
  proof (cases "pn_party p")
    case None
    then show ?thesis unfolding s' by (simp, intro tracks_same[OF pn]) (simp add: gone of_party_def)
  next
    case (Some party)
    show ?thesis unfolding s' unfolding Some option.case
      by (rule tracks_rebase[OF pn assms(3,4), where c = "- r"]) (auto simp: gone of_party_def Some)
  qed
qed

lemma pending_later:
  assumes "net_inv w t n (s, flows)" "0 < w" "t \<le> t'"
  shows "net_inv w t' n (s, flows)"
proof -
  have "tracks w t' n (desk s) of_desk flows" "tracks w t' n (nets s) of_party flows"
    using assms by (auto simp: net_inv_def intro: tracks_later)
  then show ?thesis using assms(1,3) by (fastforce simp: net_inv_def)
qed

lemma net_event_inv:
  assumes inv: "net_inv w t n (s, flows)" and t: "0 \<le> t" "t < 2 ^ 63"
  shows "net_inv w t (Suc n) (net_event_step w (s, flows) (t, ev))"
proof -
  have d: "tracks w t n (desk s) of_desk flows" and p: "tracks w t n (nets s) of_party flows"
    and pend: "\<And>q p. map_of (net_pending s) q = Some p \<Longrightarrow>
      pending_flow q p \<in> set flows \<and> 0 \<le> pn_at_ms p \<and> pn_at_ms p \<le> t"
    using inv by (simp_all add: net_inv_def)
  have same: "net_inv w t (Suc n) (s, flows)"
    using tracks_same[OF d refl] tracks_same[OF p refl] pend by (simp add: net_inv_def)
  show ?thesis
  proof (cases ev)
    case (Confirm q party token delta accept)
    show ?thesis
    proof (cases "snd (check_and_record real_net w t t q party token delta accept s) \<and> countable real_net delta token s q")
      case True
      define entry where "entry = \<lparr>pn_party = party, pn_token = token, pn_delta = delta, pn_at_ms = t\<rparr>"
      define s' where "s' = apply_delta_locked real_net w t party token delta
        (s\<lparr>net_pending := AList.update q entry (net_pending s)\<rparr>)"
      have step: "net_event_step w (s, flows) (t, ev) = (s', flows @ [pending_flow q entry])"
        using True Confirm by (auto simp: check_and_record_def Let_def countable_def s'_def entry_def pending_flow_def
            split: if_splits)
      have "desk s' = desk (apply_delta_locked real_net w t party token delta s)"
        "nets s' = nets (apply_delta_locked real_net w t party token delta s)"
        by (simp_all add: s'_def apply_delta_locked_def split: option.split)
      then have "tracks w t (Suc n) (desk s') of_desk (flows @ [pending_flow q entry])
        \<and> tracks w t (Suc n) (nets s') of_party (flows @ [pending_flow q entry])"
        using apply_tracks[OF inv t, of party token delta q] by (simp add: pending_flow_def entry_def)
      moreover have "map_of (net_pending s') q' = Some e \<Longrightarrow>
          pending_flow q' e \<in> set (flows @ [pending_flow q entry]) \<and> 0 \<le> pn_at_ms e \<and> pn_at_ms e \<le> t" for q' e
        using pend t by (auto simp: s'_def update_conv' entry_def split: if_splits)
      ultimately show ?thesis unfolding step by (simp add: net_inv_def)
    next
      case False
      then have "net_event_step w (s, flows) (t, ev) = (s, flows)"
        unfolding Confirm by (auto simp: check_and_record_def Let_def countable_def)
      then show ?thesis using same by simp
    qed
  next
    case (Settle q)
    then show ?thesis
      using same by (auto simp: net_settle_def net_inv_def delete_conv' split: option.split if_splits)
  next
    case (Release q)
    show ?thesis
    proof (cases "map_of (net_pending s) q")
      case None
      then show ?thesis using same by (simp add: Release net_release_def)
    next
      case (Some e)
      define s' where "s' = reverse_pending_locked real_net w t e Live
        (s\<lparr>net_pending := AList.delete q (net_pending s)\<rparr>)"
      have step: "net_event_step w (s, flows) (t, ev) = (s', remove1 (pending_flow q e) flows)"
        by (simp add: Release net_release_def Some s'_def)
      have "pending_flow q' e' \<in> set (remove1 (pending_flow q e) flows) \<and> 0 \<le> pn_at_ms e' \<and> pn_at_ms e' \<le> t"
        if "map_of (net_pending s') q' = Some e'" for q' e'
        using that pend[of q' e'] by (auto simp: s'_def delete_conv' pending_flow_def in_set_remove1 split: if_splits)
      then show ?thesis
        unfolding step using reverse_tracks[OF inv Some t s'_def] by (simp add: net_inv_def)
    qed
  next
    case Sweep
    then show ?thesis
      using tracks_sweep[OF d t] tracks_sweep[OF p t] pend
      by (simp add: sweep_decayed_def Let_def net_inv_def)
  qed
qed

lemma net_run_inv:
  assumes "net_inv w t0 n (s, flows)" "0 < w" "0 \<le> t0"
    and "sorted (map fst evs)" "list_all (\<lambda>(t, ev). t0 \<le> t \<and> t \<le> T) evs" "t0 \<le> T" "T < 2 ^ 63"
  shows "net_inv w T (n + length evs) (foldl (net_event_step w) (s, flows) evs)"
  using assms
proof (induction evs arbitrary: s flows t0 n)
  case Nil
  then show ?case using pending_later by simp
next
  case (Cons e evs)
  obtain t ev where e: "e = (t, ev)" by (cases e)
  obtain s' flows' where step: "net_event_step w (s, flows) (t, ev) = (s', flows')" by force
  have "net_inv w t n (s, flows)" using pending_later[OF Cons.prems(1,2)] Cons.prems(5) by (simp add: e)
  then have "net_inv w t (Suc n) (s', flows')"
    using net_event_inv[of w t n s flows ev] Cons.prems(3,5,7) step by (simp add: e)
  moreover have "list_all (\<lambda>(t', ev). t \<le> t' \<and> t' \<le> T) evs"
    using Cons.prems(4,5) by (auto simp: e list_all_iff)
  ultimately show ?case
    using Cons.IH[of t "Suc n" s' flows'] Cons.prems by (simp add: e step)
qed


text \<open>The sweep of stale confirms releases them one after the other.\<close>

lemma expire_as_releases:
  assumes "distinct (map fst (net_pending s))"
  shows "expire_stale_pending A w stale_after now t s = foldl (\<lambda>s q. net_release A w t q s) s
    (map fst (filter (\<lambda>(q, p). pn_at_ms p < i64_sub now (millis_i64 stale_after)) (net_pending s)))"
proof -
  have "foldl (\<lambda>s (q, p). reverse_pending_locked A w t p Live
        (s\<lparr>net_pending := AList.delete q (net_pending s)\<rparr>)) s xs = foldl (\<lambda>s q. net_release A w t q s) s (map fst xs)"
    if "list_all (\<lambda>(q, p). map_of (net_pending s) q = Some p) xs" "distinct (map fst xs)" for xs s
    using that
  proof (induction xs arbitrary: s)
    case (Cons x xs)
    obtain q p where x: "x = (q, p)" by (cases x)
    let ?s = "reverse_pending_locked A w t p Live (s\<lparr>net_pending := AList.delete q (net_pending s)\<rparr>)"
    have "list_all (\<lambda>(q, p). map_of (net_pending ?s) q = Some p) xs"
      using Cons.prems x by (fastforce simp: list_all_iff delete_conv' image_iff)
    then show ?case using Cons by (simp add: x net_release_def)
  qed simp
  moreover have "list_all (\<lambda>(q, p). map_of (net_pending s) q = Some p)
      (filter (\<lambda>(q, p). pn_at_ms p < c) (net_pending s))" for c
    using assms by (auto simp: list_all_iff)
  ultimately show ?thesis
    using assms by (simp add: expire_stale_pending_def distinct_map_filter)
qed

section \<open>Saving and loading\<close>

lemma map_of_updates:
  "distinct (map fst xs) \<Longrightarrow>
     map_of (foldl (\<lambda>m (k, e). if Q k e then AList.update k e m else m) m xs) k
       = (case map_of xs k of Some e \<Rightarrow> if Q k e then Some e else map_of m k | None \<Rightarrow> map_of m k)"
proof (induction xs arbitrary: m)
  case (Cons x xs)
  obtain k' e where x: "x = (k', e)" by (cases x)
  have "map_of xs k' = None" using Cons.prems by (simp add: x map_of_eq_None_iff)
  then show ?case using Cons by (auto simp: x update_conv' split: option.split)
qed simp

definition fresh_entries :: "'v net_arith \<Rightarrow> int \<Rightarrow> int \<Rightarrow> ('k \<times> 'v decayed_net) list \<Rightarrow> bool" where
  "fresh_entries A now max_age m \<longleftrightarrow> distinct (map fst m) \<and> list_all (\<lambda>(k, e). na_finite A (dn_value e)
     \<and> na_above A (dn_value e) \<and> i64_sub now (updated_at_ms e) \<le> max_age) m"

definition fresh_pending :: "'v net_arith \<Rightarrow> int \<Rightarrow> int \<Rightarrow> (string \<times> 'v pending_net) list \<Rightarrow> bool" where
  "fresh_pending A now max_age m \<longleftrightarrow> distinct (map fst m)
     \<and> list_all (\<lambda>(q, p). na_finite A (pn_delta p) \<and> i64_sub now (pn_at_ms p) \<le> max_age) m"

lemma restored_fresh: "fresh_entries A now max_age m \<Longrightarrow> map_of (restored A now max_age m) = map_of m"
  unfolding restored_def
  by (rule ext) (auto simp: map_of_updates fresh_entries_def list_all_iff split: option.split dest: map_of_SomeD)

text \<open>
  A state saved and loaded before anything in it expired has the same nets, desk and
  pending confirms.
\<close>

theorem net_state_restored:
  assumes "fresh_entries A now (max window_ms (millis_i64 stale_after)) (nets s)"
    and "fresh_entries A now (max window_ms (millis_i64 stale_after)) (desk s)"
    and "fresh_pending A now (millis_i64 stale_after) (net_pending s)"
    and "s' = load_or_new A w window_ms stale_after started now now' (Some (snapshot_locked A s))"
  shows "map_of (nets s') = map_of (nets s) \<and> map_of (desk s') = map_of (desk s)
    \<and> map_of (net_pending s') = map_of (net_pending s)"
proof -
  have all: "filter (\<lambda>(k, e). na_finite A (dn_value e) \<and> na_above A (dn_value e)) m = m"
    if "fresh_entries A now c m" for m :: "('k \<times> 'a decayed_net) list" and c
    using that by (auto simp: fresh_entries_def list_all_iff filter_id_conv)
  have finite: "filter (\<lambda>(q, p). na_finite A (pn_delta p)) (net_pending s) = net_pending s"
    and alive: "filter (\<lambda>(q, p). \<not> millis_i64 stale_after < i64_sub now (pn_at_ms p)) (net_pending s) = net_pending s"
    and none: "filter (\<lambda>(q, p). millis_i64 stale_after < i64_sub now (pn_at_ms p)) (net_pending s) = []"
    using assms(3) by (auto simp: fresh_pending_def list_all_iff filter_id_conv filter_empty_conv)
  have "map_of (foldl (\<lambda>m (q, p). AList.update q p m) [] (net_pending s)) k = map_of (net_pending s) k" for k
    using map_of_updates[of "net_pending s" "\<lambda>_ _. True" "[]" k] assms(3)
    by (simp add: fresh_pending_def split: option.split)
  then show ?thesis
    using assms(1,2) restored_fresh[OF assms(1)] restored_fresh[OF assms(2)]
    by (auto simp: assms(4) load_or_new_def snapshot_locked_def Let_def all finite alive none)
qed

section \<open>Concrete inputs\<close>

definition sample_net :: "real net_inner" where
  "sample_net = \<lparr>nets = [((''p'', ''T''), \<lparr>dn_value = 5, updated_at_ms = 100\<rparr>)],
     desk = [(''T'', \<lparr>dn_value = 5, updated_at_ms = 100\<rparr>)],
     net_pending = [(''q'', \<lparr>pn_party = Some ''p'', pn_token = ''T'', pn_delta = 5, pn_at_ms = 100\<rparr>)],
     dirty = True, last_checkpoint = 0\<rparr>"

theorem shutdown_state_final_witness:
  "(net_step real_net 24)\<^sup>*\<^sup>*
     (\<lparr>nd_inner = sample_net, nd_writes = [snapshot_locked real_net (empty_net 0)],
       nd_saving = Some (snapshot_locked real_net sample_net), nd_final = False, nd_file = None\<rparr>
       \<lparr>nd_saving := None, nd_final := True, nd_file := Some (snapshot_locked real_net sample_net)\<rparr>)
     \<lparr>nd_inner = sample_net, nd_writes = [], nd_saving = None, nd_final = True,
       nd_file = Some (snapshot_locked real_net sample_net)\<rparr>
   \<and> nd_file \<lparr>nd_inner = sample_net, nd_writes = [], nd_saving = None, nd_final = True,
       nd_file = Some (snapshot_locked real_net sample_net)\<rparr> = Some (snapshot_locked real_net sample_net)"
proof -
  let ?d = "\<lparr>nd_inner = sample_net, nd_writes = [snapshot_locked real_net (empty_net 0)],
    nd_saving = Some (snapshot_locked real_net sample_net), nd_final = False, nd_file = None\<rparr>"
  let ?d' = "\<lparr>nd_inner = sample_net, nd_writes = [], nd_saving = None, nd_final = True,
    nd_file = Some (snapshot_locked real_net sample_net)\<rparr>"
  have "net_step real_net 24
      (?d\<lparr>nd_saving := None, nd_final := True, nd_file := Some (snapshot_locked real_net sample_net)\<rparr>) ?d'"
    using net_step.Write_late[of "?d\<lparr>nd_saving := None, nd_final := True,
        nd_file := Some (snapshot_locked real_net sample_net)\<rparr>" "[]" "snapshot_locked real_net (empty_net 0)" "[]"]
    by simp
  then have steps: "(net_step real_net 24)\<^sup>*\<^sup>*
      (?d\<lparr>nd_saving := None, nd_final := True, nd_file := Some (snapshot_locked real_net sample_net)\<rparr>) ?d'"
    by (rule r_into_rtranclp)
  moreover have "nd_file ?d' = Some (snapshot_locked real_net sample_net)"
    by (rule shutdown_state_final[OF _ steps]) simp
  ultimately show ?thesis by blast
qed

definition sample_events :: "(int \<times> net_event) list" where
  "sample_events = [(0, Confirm ''q'' (Some ''p'') ''T'' 5 (\<lambda>_. True)),
     (3600000, Confirm ''r'' None ''T'' 1 (\<lambda>_. True)), (7200000, Release ''q'')]"


theorem net_state_restored_witness:
  "let s' = load_or_new real_net 24 86400000 (60 * 10 ^ 9) 0 200 200 (Some (snapshot_locked real_net sample_net))
   in map_of (nets s') = map_of (nets sample_net) \<and> map_of (desk s') = map_of (desk sample_net)
    \<and> map_of (net_pending s') = map_of (net_pending sample_net)"
  unfolding Let_def
  by (rule net_state_restored[OF _ _ _ refl])
    (simp_all add: fresh_entries_def fresh_pending_def sample_net_def real_net_def kept_eps_def i64_sub_def millis_i64_def)

end
