(* ===== verification/Rfq_State.thy ===== *)
theory Rfq_State
  imports Liquidity Holdings_Cache Ticket_Pool Envelope Net_Position Pool_Impact
begin

text \<open>
  \<open>crates/cloud-agent/src/venue_registry.rs\<close> and the state of
  \<open>crates/cloud-agent/src/rfq_v2.rs\<close>: the venues of the LP, the quotes it has given, and what
  each quote holds of the shared pools (liquidity, holdings, tickets, net positions). All that
  other tasks can change is in \<open>rfq_world\<close>; what is fixed at the start is in \<open>rfq_desk\<close>, and
  the libraries the code calls are in \<open>rfq_lib\<close>.
\<close>

section \<open>Venues\<close>

record venue_entry =
  ve_contract_id :: string
  ve_template_id :: string
  ve_created_event_blob :: string
  ve_payload :: jval
  ve_synchronizer_id :: string
  ve_provider :: string
  ve_pair_name :: string
  ve_base_admin :: string
  ve_base_id :: string
  ve_quote_admin :: string
  ve_quote_id :: string
  ve_quote_public_key :: string

record expected_venue =
  xv_base_id :: string
  xv_base_admin :: string
  xv_quote_id :: string
  xv_quote_admin :: string

record venue_registry =
  vr_party_id :: string
  vr_local_spki_hex :: string
  vr_expected :: "string \<Rightarrow> expected_venue option"

type_synonym venues = "string \<Rightarrow> venue_entry option"

text \<open>An active contract of the ledger with its create arguments as JSON.\<close>

record venue_contract =
  vc_contract_id :: string
  vc_template_id :: string
  vc_created_event_blob :: string
  vc_synchronizer_id :: string
  vc_arguments :: "jval option"

definition text_at :: "jval \<Rightarrow> string list \<Rightarrow> string option" where
  "text_at payload ks = Option.bind (json_pointer payload ks) as_str"

definition text_or_empty :: "jval \<Rightarrow> string list \<Rightarrow> string" where
  "text_or_empty payload ks = (case text_at payload ks of Some s \<Rightarrow> s | None \<Rightarrow> [])"

definition note_venue :: "venue_registry \<Rightarrow> venues \<Rightarrow> venue_contract \<Rightarrow> venues" where
  "note_venue r found c = (case vc_arguments c of None \<Rightarrow> found | Some payload \<Rightarrow>
     (case (text_at payload [''lp''], text_at payload [''pairName'']) of
        (Some lp, Some pair) \<Rightarrow> if lp \<noteq> vr_party_id r then found
          else found(pair \<mapsto> \<lparr>ve_contract_id = vc_contract_id c, ve_template_id = vc_template_id c,
            ve_created_event_blob = vc_created_event_blob c, ve_payload = payload,
            ve_synchronizer_id = vc_synchronizer_id c,
            ve_provider = text_or_empty payload [''provider''], ve_pair_name = pair,
            ve_base_admin = text_or_empty payload [''baseInstrumentId'', ''admin''],
            ve_base_id = text_or_empty payload [''baseInstrumentId'', ''id''],
            ve_quote_admin = text_or_empty payload [''quoteInstrumentId'', ''admin''],
            ve_quote_id = text_or_empty payload [''quoteInstrumentId'', ''id''],
            ve_quote_public_key = text_or_empty payload [''quotePublicKey'']\<rparr>)
      | _ \<Rightarrow> found))"

definition refresh_venues :: "venue_registry \<Rightarrow> venue_contract list \<Rightarrow> venues" where
  "refresh_venues r contracts = foldl (note_venue r) Map.empty contracts"

definition eq_ignore_ascii_case :: "string \<Rightarrow> string \<Rightarrow> bool" where
  "eq_ignore_ascii_case s t \<longleftrightarrow> map ascii_lower s = map ascii_lower t"

definition validated :: "venue_registry \<Rightarrow> venues \<Rightarrow> string \<Rightarrow> venue_entry option" where
  "validated r vs market_id =
     Option.bind (vr_expected r market_id) (\<lambda>x. Option.bind (vs market_id) (\<lambda>v.
       if ve_base_id v \<noteq> xv_base_id x \<or> ve_base_admin v \<noteq> xv_base_admin x
          \<or> ve_quote_id v \<noteq> xv_quote_id x \<or> ve_quote_admin v \<noteq> xv_quote_admin x then None
       else if ve_created_event_blob v = [] then None
       else if \<not> eq_ignore_ascii_case (ve_quote_public_key v) (vr_local_spki_hex r) then None
       else Some v))"

definition validated_market_ids :: "string list \<Rightarrow> venue_registry \<Rightarrow> venues \<Rightarrow> string list" where
  "validated_market_ids expected_keys r vs = sort (filter (\<lambda>m. validated r vs m \<noteq> None) expected_keys)"

section \<open>Quotes\<close>

record market_instruments =
  mi_base_key :: string
  mi_base_is_cc :: bool
  mi_quote_key :: string
  mi_quote_is_cc :: bool

record market_mid =
  mm_mid :: f64
  mm_pool_depth :: "pool_depth option"

record pool_snapshot =
  sn_base_reserve :: f64
  sn_net_used :: f64
  sn_impact_pct :: f64
  sn_eff_spread_base :: f64

record priced_quote =
  pq_market_id :: string
  pq_price :: rat
  pq_quantity :: rat
  pq_quote_quantity :: rat
  pq_price_str :: string
  pq_quantity_str :: string
  pq_quote_quantity_str :: string
  pq_lp_pays :: "string \<times> rat"
  pq_notional_usd :: "f64 option"
  pq_valid_for_secs :: nat
  pq_allocate_before_secs :: nat
  pq_settle_before_secs :: nat
  pq_pool_pricing :: "pool_snapshot option"

text \<open>The messages of the protocol: \<open>AtomicFeeSpec\<close> is the fee of the JSON form.\<close>

record acs_proto =
  ap_contract_id :: string
  ap_template_id :: string
  ap_created_event_blob :: string
  ap_payload_json :: string

record disclosed_proto =
  dp_contract_id :: string
  dp_template_id :: string
  dp_created_event_blob :: string
  dp_synchronizer_id :: string

record quote_proto =
  qp_quote_id :: string
  qp_ticket_id :: string
  qp_user :: string
  qp_side :: string
  qp_base_amount :: string
  qp_quote_amount :: string
  qp_created_at_micros :: int
  qp_valid_until_micros :: int
  qp_lp_fees :: "lp_fee_json list"

record envelope_proto =
  ep_version :: string
  ep_synchronizer_id :: string
  ep_dvp :: "acs_proto option"
  ep_quote :: "quote_proto option"
  ep_canonical_message :: string
  ep_quote_signature :: string
  ep_ticket :: "acs_proto option"
  ep_lp_input_holding_cids :: "string list"
  ep_disclosed :: "disclosed_proto list"
  ep_rfq_id :: string
  ep_quote_id :: string
  ep_lp_party_id :: string
  ep_market_id :: string

record indicative_quote =
  iq_market_id :: string
  iq_side :: quote_side
  iq_base_amount :: rat
  iq_quote_amount :: rat
  iq_lp_pays :: "string \<times> rat"
  iq_lp_pays_token :: string
  iq_notional_usd :: "f64 option"
  iq_valid_until :: nat
  iq_settlement_fee :: "lp_fee_json option"
  iq_user_party :: "string option"
  iq_pool_inputs :: "pool_snapshot option"

record confirmed_quote =
  cq_holding_cids :: "string list"
  cq_ticket_id :: string
  cq_ticket_cid :: "string option"
  cq_envelope :: "envelope_proto option"
  cq_valid_until_micros :: int
  cq_lp_pays_token :: string
  cq_lp_pays_amount :: rat
  cq_expires_at :: nat
  cq_market_id :: string

datatype pending_v2 = Indicative indicative_quote | Confirming nat | Confirmed confirmed_quote
  | Settled nat | Expired nat

section \<open>The desk and the world\<close>

record rfq_config =
  rc_quote_valid_secs :: nat
  rc_settle_grace_secs :: nat
  rc_ticket_threshold_usd :: "f64 option"

record rfq_lib =
  rl_arith :: liq_arith
  rl_decimals :: "rat decimal_ops"
  rl_crypto :: quote_crypto
  rl_json_text :: "jval \<Rightarrow> string"
  rl_net :: "f64 net_arith"

record rfq_desk =
  rd_party_id :: string
  rd_synchronizer_id :: string
  rd_scalar :: "bytes result"
  rd_v2 :: rfq_config
  rd_max_inputs :: "string \<Rightarrow> nat option"
  rd_instruments :: "string \<Rightarrow> market_instruments option"
  rd_registry :: venue_registry
  rd_manager :: liquidity_manager
  rd_impact :: "string \<Rightarrow> impact_config option"
  rd_ladders :: "string list"
  rd_window_hours :: f64
  rd_stale_pending_after :: nat
  rd_watches_mids :: bool

record rfq_world =
  rw_pending :: "(string \<times> pending_v2) list"
  rw_correlation :: "(string \<times> string) list"
  rw_splits :: "string list"
  rw_cache :: holdings_cache
  rw_pool :: "pool option"
  rw_liquidity :: liquidity_state
  rw_net :: "f64 net_inner option"
  rw_mids :: "string \<Rightarrow> market_mid option"
  rw_venues :: venues

definition TOMBSTONE_TTL :: nat where "TOMBSTONE_TTL = 300 * 10 ^ 9"
definition CONFIRM_SPLIT_POLL :: nat where "CONFIRM_SPLIT_POLL = 400 * 10 ^ 6"
definition CONFIRM_RESPONSE_MARGIN_MS :: int where "CONFIRM_RESPONSE_MARGIN_MS = 1200"
definition MAX_CONFIRM_SPLIT_WAIT :: nat where "MAX_CONFIRM_SPLIT_WAIT = 28 * 10 ^ 9"
definition FALLBACK_CONFIRM_SPLIT_WAIT :: nat where "FALLBACK_CONFIRM_SPLIT_WAIT = 6 * 10 ^ 9"
definition CONFIRM_ABANDONED_AFTER :: nat where "CONFIRM_ABANDONED_AFTER = 300 * 10 ^ 9"
definition RESERVE_ATTEMPTS :: nat where "RESERVE_ATTEMPTS = 3"
definition RFQ_V2_MAX_QUOTE_VALID_SECS :: nat where "RFQ_V2_MAX_QUOTE_VALID_SECS = 3600"
definition RFQ_V2_MAX_SETTLE_GRACE_SECS :: nat where "RFQ_V2_MAX_SETTLE_GRACE_SECS = 3600"

definition lm_key :: "string \<Rightarrow> string" where
  "lm_key quote_id = ''rfqv2:'' @ quote_id"

text \<open>
  What is outside a call: at each place where the code takes a lock or waits, what other tasks
  did to the world before, and the clocks and the order of the hash map it reads there.
\<close>

datatype place = At_lookup | At_count | At_counted | At_mids | At_stale | At_commit | At_venue
  | At_select | At_kick | At_deadline | At_poll nat | At_repick nat | At_reserve nat | At_reselect nat
  | At_ticket | At_sign | At_issue | At_correlate | At_record | At_recorded
  | At_release_funds | At_release_net | At_release_holdings | At_release_ticket | At_release_entry
  | At_gc | At_nth nat place

record surroundings =
  su_others :: "place \<Rightarrow> rfq_world \<Rightarrow> rfq_world"
  su_instant :: "place \<Rightarrow> nat"
  su_micros :: "place \<Rightarrow> int"
  su_millis :: "place \<Rightarrow> int"
  su_order :: "place \<Rightarrow> string list"

definition put_pending :: "string \<Rightarrow> pending_v2 \<Rightarrow> rfq_world \<Rightarrow> rfq_world" where
  "put_pending quote_id p w = w\<lparr>rw_pending := AList.update quote_id p (rw_pending w)\<rparr>"

definition select_holdings ::
  "rfq_lib \<Rightarrow> surroundings \<Rightarrow> place \<Rightarrow> string \<times> rat \<Rightarrow> nat \<Rightarrow> bool \<Rightarrow> rfq_world \<Rightarrow> cached_holding list option" where
  "select_holdings L E p leg max_inputs is_cc w =
     select_for_disclosure_with (dec_arith.truncate (rl_arith L)) (su_order E p) (rw_cache w) (su_instant E p)
       (fst leg) (snd leg) max_inputs is_cc False"

text \<open>The single-flight kick: the job itself runs as another task.\<close>

definition kick_on_demand_split :: "rfq_desk \<Rightarrow> string \<Rightarrow> rfq_world \<Rightarrow> rfq_world" where
  "kick_on_demand_split D instrument w =
     (if instrument \<in> set (rd_ladders D) \<and> instrument \<notin> set (rw_splits w)
      then w\<lparr>rw_splits := instrument # rw_splits w\<rparr> else w)"

definition split_in_flight :: "string \<Rightarrow> rfq_world \<Rightarrow> bool" where
  "split_in_flight instrument w \<longleftrightarrow> instrument \<in> set (rw_splits w)"

definition max_inputs_of :: "rfq_desk \<Rightarrow> string \<Rightarrow> nat" where
  "max_inputs_of D market_id = (case rd_max_inputs D market_id of Some n \<Rightarrow> n | None \<Rightarrow> 100)"

definition quotable :: "rfq_desk \<Rightarrow> rfq_world \<Rightarrow> string \<Rightarrow> bool" where
  "quotable D w market_id \<longleftrightarrow> rd_max_inputs D market_id \<noteq> None
     \<and> validated (rd_registry D) (rw_venues w) market_id \<noteq> None"

section \<open>Phase 1\<close>

definition pays_key :: "quote_side \<Rightarrow> market_instruments \<Rightarrow> string" where
  "pays_key side mi = (case side of Buy \<Rightarrow> mi_base_key mi | Sell \<Rightarrow> mi_quote_key mi)"

definition pays_cc :: "quote_side \<Rightarrow> market_instruments \<Rightarrow> bool" where
  "pays_cc side mi = (case side of Buy \<Rightarrow> mi_base_is_cc mi | Sell \<Rightarrow> mi_quote_is_cc mi)"

definition register_indicative ::
  "rfq_lib \<Rightarrow> rfq_desk \<Rightarrow> surroundings \<Rightarrow> string \<Rightarrow> string \<Rightarrow> quote_side \<Rightarrow> priced_quote
     \<Rightarrow> lp_fee_json option \<Rightarrow> string option \<Rightarrow> rfq_world \<Rightarrow> rfq_world \<times> unit result" where
  "register_indicative L D E quote_id market_id side priced settlement_fee user_party w =
     (case rd_instruments D market_id of
        None \<Rightarrow> (w, Inl [Lit ''market '', Arg market_id, Lit '' not configured for atomic RFQ''])
      | Some mi \<Rightarrow>
          let (token, amount) = pq_lp_pays priced;
              w = su_others E At_stale w;
              avail = available (rl_arith L) (rd_manager D) (rw_liquidity w) token
          in if avail < amount then
               (w, Inl [Lit ''insufficient '', Arg token, Lit '' ('', Arg (d_show4 (rl_arith L) avail),
                 Lit '' available, '', Arg (d_show4 (rl_arith L) amount), Lit '' needed)''])
             else (case instant_add (su_instant E At_stale) (pq_valid_for_secs priced * 10 ^ 9) of
               None \<Rightarrow> (w, Inl [Lit ''quote validity '', Num (int (pq_valid_for_secs priced)), Lit ''s out of range''])
             | Some valid_until \<Rightarrow>
                 let w = su_others E At_select w;
                     leg = (pays_key side mi, amount);
                     needs_split = (select_holdings L E At_select leg (max_inputs_of D market_id) (pays_cc side mi) w = None);
                     w = su_others E At_issue w;
                     w = put_pending quote_id (Indicative \<lparr>iq_market_id = market_id, iq_side = side,
                       iq_base_amount = pq_quantity priced, iq_quote_amount = pq_quote_quantity priced,
                       iq_lp_pays = leg, iq_lp_pays_token = token,
                       iq_notional_usd = pq_notional_usd priced, iq_valid_until = valid_until,
                       iq_settlement_fee = settlement_fee, iq_user_party = user_party,
                       iq_pool_inputs = pq_pool_pricing priced\<rparr>) w
                 in (if needs_split then kick_on_demand_split D (fst leg) (su_others E At_kick w) else w, Inr ())))"

end
