(* ===== verification/Rfq_Confirm.thy ===== *)
theory Rfq_Confirm
  imports Rfq_State
begin

text \<open>
  \<open>handle_confirm\<close> of \<open>crates/cloud-agent/src/rfq_v2.rs\<close>: the claim of an indicative quote, the
  check of its price, the commitment of funds, the reservation of holdings and of a ticket, the
  signed envelope and the issue; with the release of everything taken when a step fails. Other
  tasks may act wherever the code takes a lock (\<open>su_others\<close>).
\<close>

section \<open>Requests and rejects\<close>

datatype reject_reason = Quote_Expired | Quote_Not_Found | Insufficient_Holdings
  | No_Ticket_Available | Venue_Unavailable | Internal_Error

record confirm_request =
  cr_rfq_id :: string
  cr_quote_id :: string
  cr_user_party :: string
  cr_market_id :: string
  cr_direction :: string
  cr_quantity :: string
  cr_quote_quantity :: string
  cr_price :: string
  cr_respond_by :: "(int \<times> int) option"
  cr_settlement_fee :: "lp_fee_json option"

record confirm_reject =
  rj_rfq_id :: string
  rj_quote_id :: string
  rj_lp_party_id :: string
  rj_reason :: reject_reason
  rj_reason_detail :: message

definition reject :: "rfq_desk \<Rightarrow> confirm_request \<Rightarrow> reject_reason \<Rightarrow> message \<Rightarrow> confirm_reject" where
  "reject D req reason detail = \<lparr>rj_rfq_id = cr_rfq_id req, rj_quote_id = cr_quote_id req,
     rj_lp_party_id = rd_party_id D, rj_reason = reason, rj_reason_detail = detail\<rparr>"

definition withdrawn_quote :: string where
  "withdrawn_quote = '' '' @ [CHR 0xE2, CHR 0x80, CHR 0x94] @ '' quote withdrawn''"

section \<open>Steps that may fail\<close>

text \<open>A failure carries the reject and what the confirm had taken from the pools by then.\<close>

record failure =
  fl_reason :: reject_reason
  fl_detail :: message
  fl_cids :: "string list"
  fl_ticket :: bool

type_synonym 'a step = "rfq_world \<Rightarrow> (failure + 'a) \<times> rfq_world"

definition fail_with :: "reject_reason \<Rightarrow> message \<Rightarrow> string list \<Rightarrow> bool \<Rightarrow> 'a step" where
  "fail_with reason detail cids ticketed w =
     (Inl \<lparr>fl_reason = reason, fl_detail = detail, fl_cids = cids, fl_ticket = ticketed\<rparr>, w)"

definition and_then :: "'a step \<Rightarrow> ('a \<Rightarrow> 'b step) \<Rightarrow> 'b step" where
  "and_then m k w = (case m w of (Inl e, w') \<Rightarrow> (Inl e, w') | (Inr x, w') \<Rightarrow> k x w')"

definition release_net :: "rfq_lib \<Rightarrow> rfq_desk \<Rightarrow> int \<Rightarrow> string \<Rightarrow> rfq_world \<Rightarrow> rfq_world" where
  "release_net L D now quote_id w =
     w\<lparr>rw_net := map_option (net_release (rl_net L) (rd_window_hours D) now quote_id) (rw_net w)\<rparr>"

definition release_funds :: "string \<Rightarrow> rfq_world \<Rightarrow> rfq_world" where
  "release_funds quote_id w = w\<lparr>rw_liquidity := release (lm_key quote_id) (rw_liquidity w)\<rparr>"

definition release_holdings :: "string list \<Rightarrow> rfq_world \<Rightarrow> rfq_world" where
  "release_holdings cids w = w\<lparr>rw_cache := release_reservations cids (rw_cache w)\<rparr>"

definition release_ticket :: "string \<Rightarrow> rfq_world \<Rightarrow> rfq_world" where
  "release_ticket quote_id w = w\<lparr>rw_pool := map_option (unassign quote_id) (rw_pool w)\<rparr>"

definition drop_pending :: "string \<Rightarrow> rfq_world \<Rightarrow> rfq_world" where
  "drop_pending quote_id w = w\<lparr>rw_pending := AList.delete quote_id (rw_pending w)\<rparr>"

definition release_claims ::
  "rfq_lib \<Rightarrow> rfq_desk \<Rightarrow> surroundings \<Rightarrow> string \<Rightarrow> string list \<Rightarrow> bool \<Rightarrow> rfq_world \<Rightarrow> rfq_world" where
  "release_claims L D E quote_id cids ticketed w =
     (let w = release_funds quote_id (su_others E At_release_funds w);
          w = release_net L D (su_millis E At_release_net) quote_id (su_others E At_release_net w);
          w = (if cids = [] then w else release_holdings cids (su_others E At_release_holdings w))
      in if ticketed then release_ticket quote_id (su_others E At_release_ticket w) else w)"

definition release_on_reject ::
  "rfq_lib \<Rightarrow> rfq_desk \<Rightarrow> surroundings \<Rightarrow> string \<Rightarrow> string list \<Rightarrow> bool \<Rightarrow> rfq_world \<Rightarrow> rfq_world" where
  "release_on_reject L D E quote_id cids ticketed w =
     drop_pending quote_id (su_others E At_release_entry (release_claims L D E quote_id cids ticketed w))"

section \<open>The price\<close>

definition count_confirm ::
  "rfq_lib \<Rightarrow> rfq_desk \<Rightarrow> surroundings \<Rightarrow> string \<Rightarrow> string option \<Rightarrow> string \<Rightarrow> f64 \<Rightarrow> (f64 \<Rightarrow> bool)
     \<Rightarrow> rfq_world \<Rightarrow> bool \<times> rfq_world" where
  "count_confirm L D E quote_id user_party base_token delta accept w =
     (case rw_net w of
        None \<Rightarrow> (accept (Fin 0), w)
      | Some t \<Rightarrow>
          let (t', ok) = check_and_record (rl_net L) (rd_window_hours D) (su_millis E At_count)
                (su_millis E At_counted) quote_id user_party base_token delta accept t
          in (ok, w\<lparr>rw_net := Some t'\<rparr>))"

definition dec_f64 :: "rfq_lib \<Rightarrow> rat \<Rightarrow> f64" where
  "dec_f64 L r = (case d_to_f64 (rl_arith L) r of Some v \<Rightarrow> v | None \<Rightarrow> Fin 0)"

definition base_token_of :: "string \<Rightarrow> string" where
  "base_token_of market_id = hd (split_on CHR ''-'' market_id)"

definition confirm_delta :: "rfq_lib \<Rightarrow> indicative_quote \<Rightarrow> f64" where
  "confirm_delta L q = f64_mul (dec_f64 L (iq_base_amount q))
     (case iq_side q of Buy \<Rightarrow> Fin 1 | Sell \<Rightarrow> Fin (- 1))"

definition recheck_inputs :: "indicative_quote \<Rightarrow> pool_snapshot option" where
  "recheck_inputs q = (case iq_pool_inputs q of
       Some i \<Rightarrow> if f64_positive (sn_impact_pct i) then Some i else None | None \<Rightarrow> None)"

definition mid_ok :: "market_mid option \<Rightarrow> bool" where
  "mid_ok current = (case current of Some m \<Rightarrow> is_finite (mm_mid m) \<and> f64_positive (mm_mid m) | None \<Rightarrow> False)"

definition held_price :: "rfq_lib \<Rightarrow> indicative_quote \<Rightarrow> f64 option" where
  "held_price L q = (if 0 < iq_base_amount q
     then Option.bind (d_div (rl_arith L) (iq_quote_amount q) (iq_base_amount q)) (d_to_f64 (rl_arith L))
     else Some (Fin 0))"

definition fair_price :: "quote_side \<Rightarrow> f64 \<Rightarrow> f64 \<Rightarrow> f64 \<Rightarrow> f64" where
  "fair_price side mid_now eff_spread_base impact_now =
     f64_mul mid_now (f64_add (Fin 1) (f64_div (f64_mul (case side of Buy \<Rightarrow> Fin 1 | Sell \<Rightarrow> Fin (- 1))
       (f64_add eff_spread_base impact_now)) (Fin 100)))"

definition saturated :: "f64 \<Rightarrow> bool" where
  "saturated fair_now \<longleftrightarrow> \<not> (is_finite fair_now \<and> f64_positive fair_now)"

definition taker_favourable :: "quote_side \<Rightarrow> f64 \<Rightarrow> f64 \<Rightarrow> f64 \<Rightarrow> bool" where
  "taker_favourable side held tol fair_now \<longleftrightarrow> f64_positive held \<and> (saturated fair_now
     \<or> (case side of Buy \<Rightarrow> f64_lt held (f64_mul fair_now (f64_sub (Fin 1) tol))
         | Sell \<Rightarrow> f64_lt (f64_mul fair_now (f64_add (Fin 1) tol)) held))"

definition still_fair ::
  "rfq_lib \<Rightarrow> indicative_quote \<Rightarrow> pool_snapshot \<Rightarrow> impact_config \<Rightarrow> f64 \<Rightarrow> pool_depth \<Rightarrow> f64 \<Rightarrow> f64 \<Rightarrow> bool" where
  "still_fair L q inputs cfg mid_now depth held net_now =
     (let side = (case iq_side q of Buy \<Rightarrow> UserBuys | Sell \<Rightarrow> UserSells);
          impact_now = pool_impact_percent side (dec_f64 L (iq_base_amount q)) net_now depth cfg;
          tol = f64_div (f64_max (confirm_tolerance_percent cfg) (Fin 0)) (Fin 100)
      in \<not> taker_favourable (iq_side q) held tol
           (fair_price (iq_side q) mid_now (sn_eff_spread_base inputs) impact_now))"

definition check_price ::
  "rfq_lib \<Rightarrow> rfq_desk \<Rightarrow> surroundings \<Rightarrow> string \<Rightarrow> indicative_quote \<Rightarrow> unit step" where
  "check_price L D E quote_id q w =
     (let market_id = iq_market_id q;
          count = (\<lambda>accept w. count_confirm L D E quote_id (iq_user_party q) (base_token_of market_id)
            (confirm_delta L q) accept (su_others E At_count w));
          w = (if \<not> rd_watches_mids D \<or> recheck_inputs q = None \<or> rd_impact D market_id = None
               then snd (count (\<lambda>_. True) w) else w)
      in if \<not> rd_watches_mids D then (Inr (), w)
         else
           let w = su_others E At_mids w; current = rw_mids w market_id in
           if \<not> mid_ok current then
             fail_with Quote_Expired [Lit ''no reliable price for '', Arg market_id, Lit withdrawn_quote] [] False w
           else (case (recheck_inputs q, rd_impact D market_id) of
             (Some inputs, Some cfg) \<Rightarrow>
               (case Option.bind current mm_pool_depth of
                  None \<Rightarrow> (Inr (), snd (count (\<lambda>_. True) w))
                | Some depth \<Rightarrow> (case held_price L q of
                    None \<Rightarrow> fail_with Quote_Expired [Lit ''price out of range for '', Arg market_id, Lit withdrawn_quote] [] False w
                  | Some held \<Rightarrow>
                      let (accepted, w) = count (still_fair L q inputs cfg (mm_mid (the current)) depth held) w
                      in if accepted then (Inr (), w)
                         else fail_with Quote_Expired [Lit ''market moved since quote for '', Arg market_id, Lit withdrawn_quote] [] False w))
           | _ \<Rightarrow> (Inr (), w)))"

section \<open>Window, funds and venue\<close>

definition quote_window :: "rfq_desk \<Rightarrow> nat \<Rightarrow> int \<Rightarrow> (nat \<times> int) option" where
  "quote_window D now start_micros =
     (let valid_secs = rc_quote_valid_secs (rd_v2 D); ttl_secs = valid_secs + rc_settle_grace_secs (rd_v2 D) in
      if ttl_secs > u64_max then None
      else Option.bind (instant_add now (ttl_secs * 10 ^ 9)) (\<lambda>expires_at.
        if valid_secs \<ge> 2 ^ 63 \<or> int valid_secs * 1000000 \<ge> 2 ^ 63 then None
        else map_option (Pair expires_at) (checked_add_i64 start_micros (int valid_secs * 1000000))))"

definition open_window :: "rfq_desk \<Rightarrow> nat \<Rightarrow> int \<Rightarrow> (nat \<times> int) step" where
  "open_window D now start_micros w = (case quote_window D now start_micros of
       None \<Rightarrow> fail_with Internal_Error [Lit ''quote validity window out of range''] [] False w
     | Some window \<Rightarrow> (Inr window, w))"

definition commit_funds :: "rfq_lib \<Rightarrow> rfq_desk \<Rightarrow> surroundings \<Rightarrow> string \<Rightarrow> indicative_quote \<Rightarrow> unit step" where
  "commit_funds L D E quote_id q w =
     (let w = su_others E At_stale w in
      case is_stale (rd_manager D) (rw_liquidity w) (iq_lp_pays_token q) (su_instant E At_stale) of
        Some age \<Rightarrow> fail_with Quote_Expired
          [Lit ''balances stale for '', Num (int (age div 10 ^ 9)), Lit (''s'' @ withdrawn_quote)] [] False w
      | None \<Rightarrow>
          let w = su_others E At_commit w;
              (lm, res) = try_commit (rl_arith L) (rd_manager D) (lm_key quote_id) (iq_lp_pays_token q)
                (snd (iq_lp_pays q)) 0 (rw_liquidity w);
              w = w\<lparr>rw_liquidity := lm\<rparr>
          in case res of
               Inl e \<Rightarrow> fail_with Insufficient_Holdings (Lit ''liquidity commit failed: '' # e) [] False w
             | Inr _ \<Rightarrow> (Inr (), w))"

definition find_venue ::
  "rfq_desk \<Rightarrow> surroundings \<Rightarrow> indicative_quote \<Rightarrow> (venue_entry \<times> market_instruments) step" where
  "find_venue D E q w =
     (let w = su_others E At_venue w in
      case validated (rd_registry D) (rw_venues w) (iq_market_id q) of
        None \<Rightarrow> fail_with Venue_Unavailable [Lit ''no validated AtomicDVP venue for market''] [] False w
      | Some venue \<Rightarrow> (case rd_instruments D (iq_market_id q) of
          None \<Rightarrow> fail_with Venue_Unavailable [Lit ''market instruments unresolved''] [] False w
        | Some mi \<Rightarrow> (Inr (venue, mi), w)))"

section \<open>Holdings\<close>

definition i64_sat :: "int \<Rightarrow> int" where
  "i64_sat x = max (- (2 ^ 63)) (min (2 ^ 63 - 1) x)"

text \<open>The nanoseconds of a timestamp are divided towards zero; the wait is in nanoseconds.\<close>

definition confirm_split_wait :: "(int \<times> int) option \<Rightarrow> int \<Rightarrow> nat" where
  "confirm_split_wait respond_by now_ms = (case respond_by of
       None \<Rightarrow> FALLBACK_CONFIRM_SPLIT_WAIT
     | Some (seconds, nanos) \<Rightarrow>
         let t = i64_sat (i64_sat (seconds * 1000) + sgn nanos * (\<bar>nanos\<bar> div 1000000));
             left = i64_sat (i64_sat (t - now_ms) - CONFIRM_RESPONSE_MARGIN_MS);
             max_ms = int (MAX_CONFIRM_SPLIT_WAIT div 10 ^ 6)
         in nat (max 0 (min max_ms left)) * 10 ^ 6)"

definition confirm_split_deadline :: "surroundings \<Rightarrow> confirm_request \<Rightarrow> nat" where
  "confirm_split_deadline E req =
     (let start = su_instant E At_deadline;
          wait = confirm_split_wait (cr_respond_by req) (su_millis E At_deadline)
      in case instant_add start wait of Some t \<Rightarrow> t | None \<Rightarrow> start)"

text \<open>
  The loop of polls; the first argument bounds their number. Each sleeps \<open>CONFIRM_SPLIT_POLL\<close>,
  so a wait of at most \<open>MAX_CONFIRM_SPLIT_WAIT\<close> ends within \<open>SPLIT_POLLS\<close>.
\<close>

definition SPLIT_POLLS :: nat where "SPLIT_POLLS = MAX_CONFIRM_SPLIT_WAIT div CONFIRM_SPLIT_POLL + 1"

fun wait_for_split ::
  "nat \<Rightarrow> surroundings \<Rightarrow> (place \<Rightarrow> rfq_world \<Rightarrow> 'p option) \<Rightarrow> nat \<Rightarrow> nat \<Rightarrow> rfq_world \<Rightarrow> 'p option \<times> rfq_world" where
  "wait_for_split 0 E select deadline i w = (None, w)"
| "wait_for_split (Suc n) E select deadline i w =
     (if su_instant E (At_poll i) < deadline then
        let w = su_others E (At_repick i) w in
        case select (At_repick i) w of
          Some picks \<Rightarrow> (Some picks, w)
        | None \<Rightarrow> wait_for_split n E select deadline (Suc i) w
      else (None, w))"

definition first_picks ::
  "rfq_desk \<Rightarrow> surroundings \<Rightarrow> confirm_request \<Rightarrow> string \<Rightarrow> (place \<Rightarrow> rfq_world \<Rightarrow> 'p option) \<Rightarrow> rfq_world
     \<Rightarrow> 'p option \<times> rfq_world" where
  "first_picks D E req key select w =
     (let w = su_others E At_select w in
      case select At_select w of
        Some picks \<Rightarrow> (Some picks, w)
      | None \<Rightarrow>
          let w = su_others E At_kick w; w = kick_on_demand_split D key w in
          if split_in_flight key w
          then wait_for_split SPLIT_POLLS E select (confirm_split_deadline E req) 0 w
          else (None, w))"

fun reserve_picks ::
  "nat \<Rightarrow> surroundings \<Rightarrow> string \<Rightarrow> nat \<Rightarrow> (place \<Rightarrow> rfq_world \<Rightarrow> cached_holding list option) \<Rightarrow> nat
     \<Rightarrow> cached_holding list option \<Rightarrow> cached_holding list step" where
  "reserve_picks n E quote_id expires_at select i None w =
     fail_with Insufficient_Holdings [Lit ''insufficient disclosable holdings''] [] False w"
| "reserve_picks 0 E quote_id expires_at select i (Some picks) w =
     fail_with Insufficient_Holdings [Lit ''holdings reservation raced''] [] False w"
| "reserve_picks (Suc n) E quote_id expires_at select i (Some picks) w =
     (let w = su_others E (At_reserve i) w;
          (ok, c) = reserve_v2 (su_instant E (At_reserve i)) (map h_contract_id picks) quote_id expires_at (rw_cache w);
          w = w\<lparr>rw_cache := c\<rparr>
      in if ok then (Inr picks, w)
         else if n = 0 then
           fail_with Insufficient_Holdings [Lit ''holdings reservation raced''] [] False w
         else let w = su_others E (At_reselect i) w in
           reserve_picks n E quote_id expires_at select (Suc i) (select (At_reselect i) w) w)"

definition reserve_holdings ::
  "rfq_lib \<Rightarrow> rfq_desk \<Rightarrow> surroundings \<Rightarrow> confirm_request \<Rightarrow> indicative_quote \<Rightarrow> market_instruments \<Rightarrow> nat
     \<Rightarrow> cached_holding list step" where
  "reserve_holdings L D E req q mi expires_at w =
     (let select = (\<lambda>p. select_holdings L E p (iq_lp_pays q) (max_inputs_of D (iq_market_id q)) (pays_cc (iq_side q) mi));
          (picks, w) = first_picks D E req (fst (iq_lp_pays q)) select w
      in reserve_picks RESERVE_ATTEMPTS E (cr_quote_id req) expires_at select 0 picks w)"

section \<open>Ticket\<close>

definition needs_ticket :: "rfq_desk \<Rightarrow> f64 option \<Rightarrow> bool" where
  "needs_ticket D notional_usd = (case rc_ticket_threshold_usd (rd_v2 D) of
       None \<Rightarrow> False
     | Some threshold \<Rightarrow> (case notional_usd of None \<Rightarrow> True | Some n \<Rightarrow> f64_le threshold n))"

definition take_ticket ::
  "rfq_desk \<Rightarrow> surroundings \<Rightarrow> string \<Rightarrow> indicative_quote \<Rightarrow> nat \<Rightarrow> string list
     \<Rightarrow> (string \<times> ticket_entry) option step" where
  "take_ticket D E quote_id q expires_at cids w =
     (if \<not> needs_ticket D (iq_notional_usd q) then (Inr None, w)
      else let w = su_others E At_ticket w in
        case rw_pool w of
          None \<Rightarrow> fail_with No_Ticket_Available [Lit ''ticket pool empty''] cids False w
        | Some pool \<Rightarrow> (case assign (su_order E At_ticket) quote_id expires_at pool of
            (None, pool') \<Rightarrow> fail_with No_Ticket_Available [Lit ''ticket pool empty''] cids False (w\<lparr>rw_pool := Some pool'\<rparr>)
          | (Some t, pool') \<Rightarrow> (Inr (Some t), w\<lparr>rw_pool := Some pool'\<rparr>)))"

section \<open>The signed quote\<close>

definition fee_list :: "lp_fee_json option \<Rightarrow> lp_fee_json list" where
  "fee_list fee = (case fee of None \<Rightarrow> [] | Some f \<Rightarrow> [f])"

definition build_quote ::
  "confirm_request \<Rightarrow> quote_side \<Rightarrow> string \<Rightarrow> string \<Rightarrow> string \<Rightarrow> int \<Rightarrow> int \<Rightarrow> lp_fee_json option \<Rightarrow> quote_json" where
  "build_quote req side ticket_id base_amount quote_amount created_at valid_until fee =
     \<lparr>qj_quote_id = cr_quote_id req, qj_ticket_id = ticket_id, qj_user = cr_user_party req,
      qj_side = side_daml side, qj_base_amount = base_amount, qj_quote_amount = quote_amount,
      qj_created_at_micros = show_int created_at, qj_valid_until_micros = show_int valid_until,
      qj_lp_fees = map_option (\<lambda>f. [f]) fee\<rparr>"

text \<open>The message and its signature, checked against the key of the venue; \<open>created_at\<close> is set back by ten seconds.\<close>

definition sign_terms ::
  "rfq_lib \<Rightarrow> rfq_desk \<Rightarrow> surroundings \<Rightarrow> confirm_request \<Rightarrow> indicative_quote \<Rightarrow> venue_entry \<Rightarrow> int
     \<Rightarrow> string \<Rightarrow> string list \<Rightarrow> bool \<Rightarrow> (quote_json \<times> int \<times> string \<times> string) step" where
  "sign_terms L D E req q venue valid_until ticket_id cids ticketed w =
     (let now = su_micros E At_sign; created_at = i64_sub now 10000000 in
      if now \<ge> valid_until then
        fail_with Quote_Expired [Lit ''quote validity elapsed during confirm''] cids ticketed w
      else case (render_decimal (rl_decimals L) (iq_base_amount q), render_decimal (rl_decimals L) (iq_quote_amount q)) of
        (Inr b, Inr a) \<Rightarrow>
          let quote = build_quote req (iq_side q) ticket_id b a created_at valid_until (iq_settlement_fee q) in
          (case canonical_from_dvp (rl_decimals L) (ve_payload venue) quote of
             Inl e \<Rightarrow> fail_with Venue_Unavailable (Lit ''canonical build failed: '' # e) cids ticketed w
           | Inr canonical \<Rightarrow>
               (case try_bind (rd_scalar D) (\<lambda>k. sign_quote_scalar (rl_crypto L) k canonical) of
                  Inl e \<Rightarrow> fail_with Internal_Error (Lit ''quote signing failed: '' # e) cids ticketed w
                | Inr signature \<Rightarrow>
                    if \<not> verify_quote (rl_crypto L) signature canonical (ve_quote_public_key venue) then
                      fail_with Venue_Unavailable
                        [Lit ''quote key does not match on-ledger venue key (rotated?)''] cids ticketed w
                    else (Inr (quote, created_at, canonical, signature), w)))
      | _ \<Rightarrow> fail_with Internal_Error [Lit ''amount rendering failed''] cids ticketed w)"

section \<open>The envelope\<close>

definition or_empty :: "string option \<Rightarrow> string" where
  "or_empty x = (case x of Some s \<Rightarrow> s | None \<Rightarrow> [])"

definition venue_disclosed :: "venue_entry \<Rightarrow> disclosed_proto" where
  "venue_disclosed v = \<lparr>dp_contract_id = ve_contract_id v, dp_template_id = ve_template_id v,
     dp_created_event_blob = ve_created_event_blob v, dp_synchronizer_id = ve_synchronizer_id v\<rparr>"

definition ticket_disclosed :: "rfq_desk \<Rightarrow> ticket_entry \<Rightarrow> disclosed_proto" where
  "ticket_disclosed D t = \<lparr>dp_contract_id = te_contract_id t, dp_template_id = or_empty (te_template_id t),
     dp_created_event_blob = or_empty (te_created_event_blob t), dp_synchronizer_id = rd_synchronizer_id D\<rparr>"

definition holding_disclosed :: "cached_holding \<Rightarrow> disclosed_proto" where
  "holding_disclosed h = \<lparr>dp_contract_id = h_contract_id h, dp_template_id = h_template_id h,
     dp_created_event_blob = or_empty (h_created_event_blob h), dp_synchronizer_id = h_synchronizer_id h\<rparr>"

definition ticket_proto :: "ticket_entry \<Rightarrow> acs_proto" where
  "ticket_proto t = \<lparr>ap_contract_id = te_contract_id t, ap_template_id = or_empty (te_template_id t),
     ap_created_event_blob = or_empty (te_created_event_blob t), ap_payload_json = or_empty (te_payload_json t)\<rparr>"

definition assemble ::
  "rfq_lib \<Rightarrow> rfq_desk \<Rightarrow> confirm_request \<Rightarrow> indicative_quote \<Rightarrow> venue_entry \<Rightarrow> (string \<times> ticket_entry) option
     \<Rightarrow> cached_holding list \<Rightarrow> quote_json \<Rightarrow> int \<Rightarrow> int \<Rightarrow> string \<Rightarrow> string \<Rightarrow> envelope_proto" where
  "assemble L D req q venue ticket picks quote created_at valid_until canonical signature =
     \<lparr>ep_version = ENVELOPE_VERSION, ep_synchronizer_id = rd_synchronizer_id D,
      ep_dvp = Some \<lparr>ap_contract_id = ve_contract_id venue, ap_template_id = ve_template_id venue,
        ap_created_event_blob = ve_created_event_blob venue, ap_payload_json = rl_json_text L (ve_payload venue)\<rparr>,
      ep_quote = Some \<lparr>qp_quote_id = qj_quote_id quote, qp_ticket_id = qj_ticket_id quote, qp_user = qj_user quote,
        qp_side = qj_side quote, qp_base_amount = qj_base_amount quote, qp_quote_amount = qj_quote_amount quote,
        qp_created_at_micros = created_at, qp_valid_until_micros = valid_until,
        qp_lp_fees = fee_list (iq_settlement_fee q)\<rparr>,
      ep_canonical_message = canonical, ep_quote_signature = signature,
      ep_ticket = map_option (ticket_proto \<circ> snd) ticket,
      ep_lp_input_holding_cids = map h_contract_id picks,
      ep_disclosed = venue_disclosed venue
        # (case ticket of None \<Rightarrow> [] | Some (tid, t) \<Rightarrow> [ticket_disclosed D t]) @ map holding_disclosed picks,
      ep_rfq_id = cr_rfq_id req, ep_quote_id = cr_quote_id req, ep_lp_party_id = rd_party_id D,
      ep_market_id = iq_market_id q\<rparr>"

text \<open>What a confirm has in hand when it issues.\<close>

record secured =
  sc_picks :: "cached_holding list"
  sc_ticket :: "(string \<times> ticket_entry) option"
  sc_expires_at :: nat
  sc_valid_until :: int
  sc_envelope :: envelope_proto

definition secure ::
  "rfq_lib \<Rightarrow> rfq_desk \<Rightarrow> surroundings \<Rightarrow> confirm_request \<Rightarrow> nat \<Rightarrow> int \<Rightarrow> indicative_quote \<Rightarrow> secured step" where
  "secure L D E req now start_micros q =
     and_then (check_price L D E (cr_quote_id req) q) (\<lambda>_.
     and_then (open_window D now start_micros) (\<lambda>(expires_at, valid_until).
     and_then (commit_funds L D E (cr_quote_id req) q) (\<lambda>_.
     and_then (find_venue D E q) (\<lambda>(venue, mi).
     and_then (reserve_holdings L D E req q mi expires_at) (\<lambda>picks.
     and_then (take_ticket D E (cr_quote_id req) q expires_at (map h_contract_id picks)) (\<lambda>ticket.
     and_then (sign_terms L D E req q venue valid_until (or_empty (map_option fst ticket))
         (map h_contract_id picks) (ticket \<noteq> None)) (\<lambda>(quote, created_at, canonical, signature).
     \<lambda>w. (Inr \<lparr>sc_picks = picks, sc_ticket = ticket, sc_expires_at = expires_at, sc_valid_until = valid_until,
           sc_envelope = assemble L D req q venue ticket picks quote created_at valid_until canonical signature\<rparr>, w))))))))"

section \<open>The issue\<close>

definition is_confirming :: "pending_v2 option \<Rightarrow> bool" where
  "is_confirming p = (case p of Some (Confirming since) \<Rightarrow> True | _ \<Rightarrow> False)"

definition confirmed_entry :: "indicative_quote \<Rightarrow> secured \<Rightarrow> confirmed_quote" where
  "confirmed_entry q s = \<lparr>cq_holding_cids = map h_contract_id (sc_picks s),
     cq_ticket_id = or_empty (map_option fst (sc_ticket s)),
     cq_ticket_cid = map_option (te_contract_id \<circ> snd) (sc_ticket s), cq_envelope = Some (sc_envelope s),
     cq_valid_until_micros = sc_valid_until s, cq_lp_pays_token = iq_lp_pays_token q,
     cq_lp_pays_amount = snd (iq_lp_pays q), cq_expires_at = sc_expires_at s, cq_market_id = iq_market_id q\<rparr>"

definition correlate :: "string \<Rightarrow> string list \<Rightarrow> rfq_world \<Rightarrow> rfq_world" where
  "correlate quote_id cids w = w\<lparr>rw_correlation :=
     foldl (\<lambda>m cid. AList.update cid quote_id m) (rw_correlation w) cids\<rparr>"

definition issue ::
  "rfq_lib \<Rightarrow> rfq_desk \<Rightarrow> surroundings \<Rightarrow> confirm_request \<Rightarrow> indicative_quote \<Rightarrow> secured \<Rightarrow> rfq_world
     \<Rightarrow> (confirm_reject + envelope_proto) \<times> rfq_world" where
  "issue L D E req q s w =
     (let quote_id = cr_quote_id req; cids = map h_contract_id (sc_picks s); w = su_others E At_issue w in
      if \<not> is_confirming (map_of (rw_pending w) quote_id) then
        (Inl (reject D req Internal_Error [Lit (''confirm abandoned'' @ withdrawn_quote)]),
         release_claims L D E quote_id cids (sc_ticket s \<noteq> None) w)
      else
        let w = put_pending quote_id (Confirmed (confirmed_entry q s)) w;
            w = correlate quote_id (cids @ (case sc_ticket s of None \<Rightarrow> [] | Some (tid, t) \<Rightarrow> [te_contract_id t]))
                  (su_others E At_correlate w);
            w = su_others E At_record w;
            w = w\<lparr>rw_net := map_option (record_confirm (rl_net L) (rd_window_hours D) (su_millis E At_record)
                  (su_millis E At_recorded) quote_id (iq_user_party q) (base_token_of (iq_market_id q))
                  (confirm_delta L q)) (rw_net w)\<rparr>
        in (Inr (sc_envelope s), w))"

section \<open>The handler\<close>

datatype lookup = Not_Found | Resend envelope_proto | Restored | In_Progress | Dead
  | Expired_Indicative | Fee_Mismatch | Live indicative_quote

definition look_up :: "nat \<Rightarrow> confirm_request \<Rightarrow> pending_v2 option \<Rightarrow> lookup" where
  "look_up now req entry = (case entry of
       None \<Rightarrow> Not_Found
     | Some (Confirmed c) \<Rightarrow> (case cq_envelope c of Some env \<Rightarrow> Resend env | None \<Rightarrow> Restored)
     | Some (Confirming since) \<Rightarrow> In_Progress
     | Some (Settled since) \<Rightarrow> Dead
     | Some (Expired since) \<Rightarrow> Dead
     | Some (Indicative q) \<Rightarrow> if now \<ge> iq_valid_until q then Expired_Indicative
         else if cr_settlement_fee req \<noteq> iq_settlement_fee q then Fee_Mismatch
         else Live q)"

definition handle_live ::
  "rfq_lib \<Rightarrow> rfq_desk \<Rightarrow> surroundings \<Rightarrow> confirm_request \<Rightarrow> nat \<Rightarrow> int \<Rightarrow> indicative_quote \<Rightarrow> rfq_world
     \<Rightarrow> (confirm_reject + envelope_proto) \<times> rfq_world" where
  "handle_live L D E req now start_micros q w = (case secure L D E req now start_micros q w of
       (Inl f, w) \<Rightarrow> (Inl (reject D req (fl_reason f) (fl_detail f)),
          release_on_reject L D E (cr_quote_id req) (fl_cids f) (fl_ticket f) w)
     | (Inr s, w) \<Rightarrow> issue L D E req q s w)"

definition handle_confirm ::
  "rfq_lib \<Rightarrow> rfq_desk \<Rightarrow> surroundings \<Rightarrow> confirm_request \<Rightarrow> rfq_world
     \<Rightarrow> (confirm_reject + envelope_proto) \<times> rfq_world" where
  "handle_confirm L D E req w =
     (let quote_id = cr_quote_id req; now = su_instant E At_lookup; w = su_others E At_lookup w in
      case look_up now req (map_of (rw_pending w) quote_id) of
        Not_Found \<Rightarrow> (Inl (reject D req Quote_Not_Found [Lit ''unknown quote_id'']), w)
      | Resend env \<Rightarrow> (Inr env, w)
      | Restored \<Rightarrow> (Inl (reject D req Quote_Not_Found
          [Lit (''LP restarted '' @ [CHR 0xE2, CHR 0x80, CHR 0x94] @ '' envelope state lost'')]), w)
      | In_Progress \<Rightarrow> (Inl (reject D req Internal_Error [Lit ''confirm already in progress'']), w)
      | Fee_Mismatch \<Rightarrow> (Inl (reject D req Internal_Error
          [Lit ''confirm settlement_fee does not match the RFQ-time fee'']), w)
      | Dead \<Rightarrow> (Inl (reject D req Quote_Expired [Lit ''quote no longer live'']), w)
      | Expired_Indicative \<Rightarrow> (Inl (reject D req Quote_Expired [Lit ''indicative quote expired'']),
          release_on_reject L D E quote_id [] False w)
      | Live q \<Rightarrow> handle_live L D E req now (su_micros E At_lookup) q (put_pending quote_id (Confirming now) w))"

section \<open>What the client makes of it\<close>

text \<open>\<open>envelope_from_proto\<close> of \<open>crates/cloud-agent/src/atomic_swap.rs\<close>; the parser of JSON is an argument.\<close>

definition acs_from_proto :: "(string \<Rightarrow> jval result) \<Rightarrow> acs_proto \<Rightarrow> acs_contract result" where
  "acs_from_proto parse c = (case parse (ap_payload_json c) of
       Inl e \<Rightarrow> Inl ([Lit ''invalid payload_json on contract '', Arg (ap_contract_id c)] @ e)
     | Inr payload \<Rightarrow> Inr \<lparr>ac_contract_id = ap_contract_id c, ac_template_id = ap_template_id c,
         ac_created_event_blob = ap_created_event_blob c, ac_payload = payload\<rparr>)"

definition disclosed_json :: "disclosed_proto \<Rightarrow> jval" where
  "disclosed_json d = JObject [(''contractId'', JString (dp_contract_id d)),
     (''templateId'', JString (dp_template_id d)), (''createdEventBlob'', JString (dp_created_event_blob d)),
     (''synchronizerId'', JString (dp_synchronizer_id d))]"

definition envelope_from_proto :: "(string \<Rightarrow> jval result) \<Rightarrow> envelope_proto \<Rightarrow> quote_envelope result" where
  "envelope_from_proto parse env =
     try_bind (ok_or (ep_dvp env) [Lit ''envelope missing dvp contract'']) (\<lambda>dvp.
     try_bind (ok_or (ep_quote env) [Lit ''envelope missing quote'']) (\<lambda>quote.
     try_bind (acs_from_proto parse dvp) (\<lambda>venue.
     try_bind (case ep_ticket env of None \<Rightarrow> Inr None
               | Some t \<Rightarrow> try_bind (acs_from_proto parse t) (\<lambda>c. Inr (Some c))) (\<lambda>ticket.
     Inr \<lparr>qe_version = ep_version env, qe_synchronizer_id = ep_synchronizer_id env, qe_dvp = venue,
       qe_quote = \<lparr>qj_quote_id = qp_quote_id quote, qj_ticket_id = qp_ticket_id quote, qj_user = qp_user quote,
         qj_side = qp_side quote, qj_base_amount = qp_base_amount quote, qj_quote_amount = qp_quote_amount quote,
         qj_created_at_micros = show_int (qp_created_at_micros quote),
         qj_valid_until_micros = show_int (qp_valid_until_micros quote),
         qj_lp_fees = (if qp_lp_fees quote = [] then None else Some (qp_lp_fees quote))\<rparr>,
       qe_canonical_message = ep_canonical_message env, qe_quote_signature = ep_quote_signature env,
       qe_ticket = ticket, qe_lp_input_holding_cids = ep_lp_input_holding_cids env,
       qe_disclosed = map disclosed_json (ep_disclosed env)\<rparr>))))"

end
