(* ===== verification/Rfq_Sweep.thy ===== *)
theory Rfq_Sweep
  imports Rfq_Confirm
begin

text \<open>
  The rest of the life of a quote in \<open>crates/cloud-agent/src/rfq_v2.rs\<close>: the observed
  settlement, the sweep that expires quotes and collects tombstones, and the saved form with
  its restoration after a restart.
\<close>

section \<open>Settlement\<close>

definition handle_settle_observed ::
  "rfq_lib \<Rightarrow> surroundings \<Rightarrow> string \<Rightarrow> rfq_world \<Rightarrow> rfq_world" where
  "handle_settle_observed L E quote_id w =
     (let w = su_others E At_lookup w in
      case map_of (rw_pending w) quote_id of
        Some (Confirmed c) \<Rightarrow>
          let w = put_pending quote_id (Settled (su_instant E At_lookup)) w;
              w = (if cq_lp_pays_token c = [] then w
                   else let w = su_others E At_record w in w\<lparr>rw_liquidity := record_outflow
                     (su_instant E At_record) (cq_lp_pays_token c) (dec_f64 L (cq_lp_pays_amount c)) (rw_liquidity w)\<rparr>);
              w = (if cq_ticket_id c = [] then w
                   else let w = su_others E At_ticket w in w\<lparr>rw_pool := map_option (mark_spent quote_id) (rw_pool w)\<rparr>);
              w = release_funds quote_id (su_others E At_release_funds w);
              w = su_others E At_release_net w
          in w\<lparr>rw_net := map_option (net_settle quote_id) (rw_net w)\<rparr>
      | _ \<Rightarrow> w)"

section \<open>Sweep\<close>

record release_order =
  ro_quote_id :: string
  ro_lm :: bool
  ro_holding_cids :: "string list"
  ro_ticket :: bool

definition sweep_due :: "nat \<Rightarrow> string \<times> pending_v2 \<Rightarrow> release_order option" where
  "sweep_due now e = (case snd e of
       Indicative q \<Rightarrow> if now \<ge> iq_valid_until q
         then Some \<lparr>ro_quote_id = fst e, ro_lm = False, ro_holding_cids = [], ro_ticket = False\<rparr> else None
     | Confirmed c \<Rightarrow> if now \<ge> cq_expires_at c
         then Some \<lparr>ro_quote_id = fst e, ro_lm = True, ro_holding_cids = cq_holding_cids c,
           ro_ticket = (cq_ticket_id c \<noteq> [])\<rparr> else None
     | Confirming since \<Rightarrow> if now - since > CONFIRM_ABANDONED_AFTER
         then Some \<lparr>ro_quote_id = fst e, ro_lm = True, ro_holding_cids = [], ro_ticket = True\<rparr> else None
     | _ \<Rightarrow> None)"

definition tombstone_over :: "nat \<Rightarrow> string \<times> pending_v2 \<Rightarrow> bool" where
  "tombstone_over now e = (case snd e of
       Settled since \<Rightarrow> now - since > TOMBSTONE_TTL
     | Expired since \<Rightarrow> now - since > TOMBSTONE_TTL
     | _ \<Rightarrow> False)"

definition swept :: "nat \<Rightarrow> (string \<times> pending_v2) list \<Rightarrow> (string \<times> pending_v2) list" where
  "swept now m = map (\<lambda>e. if sweep_due now e \<noteq> None then (fst e, Expired now) else e)
     (filter (\<lambda>e. \<not> tombstone_over now e) m)"

definition carry_out_release ::
  "rfq_lib \<Rightarrow> rfq_desk \<Rightarrow> surroundings \<Rightarrow> nat \<Rightarrow> release_order \<Rightarrow> rfq_world \<Rightarrow> rfq_world" where
  "carry_out_release L D E i r w =
     (let w = (if ro_lm r then
            let w = release_funds (ro_quote_id r) (su_others E (At_nth i At_release_funds) w)
            in release_net L D (su_millis E (At_nth i At_release_net)) (ro_quote_id r)
                 (su_others E (At_nth i At_release_net) w)
          else w);
          w = (if ro_holding_cids r = [] then w
               else release_holdings (ro_holding_cids r) (su_others E (At_nth i At_release_holdings) w))
      in if ro_ticket r then release_ticket (ro_quote_id r) (su_others E (At_nth i At_release_ticket) w) else w)"

fun carry_out_releases ::
  "rfq_lib \<Rightarrow> rfq_desk \<Rightarrow> surroundings \<Rightarrow> nat \<Rightarrow> release_order list \<Rightarrow> rfq_world \<Rightarrow> rfq_world" where
  "carry_out_releases L D E i [] w = w"
| "carry_out_releases L D E i (r # rs) w =
     carry_out_releases L D E (Suc i) rs (carry_out_release L D E i r w)"

definition housekeeping :: "rfq_lib \<Rightarrow> rfq_desk \<Rightarrow> surroundings \<Rightarrow> nat \<Rightarrow> rfq_world \<Rightarrow> rfq_world" where
  "housekeeping L D E now w =
     (let w = su_others E At_ticket w;
          w = w\<lparr>rw_pool := map_option (expire_assignments now) (rw_pool w)\<rparr>;
          w = su_others E At_record w;
          w = w\<lparr>rw_net := map_option (expire_stale_pending (rl_net L) (rd_window_hours D)
                (rd_stale_pending_after D) (su_millis E At_record) (su_millis E At_recorded)) (rw_net w)\<rparr>;
          w = su_others E At_recorded w
      in w\<lparr>rw_net := map_option (\<lambda>t. fst (checkpoint_snapshot (rl_net L) (rd_window_hours D)
           (su_millis E At_issue) (su_instant E At_issue) t)) (rw_net w)\<rparr>)"

definition sweep :: "rfq_lib \<Rightarrow> rfq_desk \<Rightarrow> surroundings \<Rightarrow> nat \<Rightarrow> rfq_world \<Rightarrow> rfq_world" where
  "sweep L D E now w =
     (let w = su_others E At_lookup w; m = rw_pending w;
          releases = List.map_filter (sweep_due now) m;
          gc = map fst (filter (tombstone_over now) m);
          w = w\<lparr>rw_pending := swept now m\<rparr>;
          w = (if gc = [] then w
               else let w = su_others E At_gc w in w\<lparr>rw_correlation := filter (\<lambda>(cid, q). q \<notin> set gc) (rw_correlation w)\<rparr>)
      in housekeeping L D E now (carry_out_releases L D E 0 releases w))"

section \<open>Save and restore\<close>

record saved_pending =
  sp_quote_id :: string
  sp_market_id :: string
  sp_holding_cids :: "string list"
  sp_ticket_id :: string
  sp_valid_until_micros :: int

definition save_pending :: "string \<times> pending_v2 \<Rightarrow> saved_pending option" where
  "save_pending e = (case snd e of
       Confirmed c \<Rightarrow> Some \<lparr>sp_quote_id = fst e, sp_market_id = cq_market_id c,
         sp_holding_cids = cq_holding_cids c, sp_ticket_id = cq_ticket_id c,
         sp_valid_until_micros = cq_valid_until_micros c\<rparr>
     | _ \<Rightarrow> None)"

definition snapshot_pending :: "rfq_world \<Rightarrow> saved_pending list" where
  "snapshot_pending w = List.map_filter save_pending (rw_pending w)"

definition restore_ttl_cap :: nat where
  "restore_ttl_cap = (RFQ_V2_MAX_QUOTE_VALID_SECS + RFQ_V2_MAX_SETTLE_GRACE_SECS) * 10 ^ 9"

text \<open>The time a restored quote has left, in nanoseconds.\<close>

definition restored_ttl :: "rfq_desk \<Rightarrow> int \<Rightarrow> saved_pending \<Rightarrow> nat option" where
  "restored_ttl D now_micros p =
     (let grace = rc_settle_grace_secs (rd_v2 D);
          grace_micros = i64_sat ((if grace \<ge> 2 ^ 63 then 2 ^ 63 - 1 else int grace) * 1000000);
          remaining = i64_sub (i64_sat (sp_valid_until_micros p + grace_micros)) now_micros
      in if remaining \<le> 0 then None else Some (min (nat remaining * 1000) restore_ttl_cap))"

definition restore_quote ::
  "rfq_desk \<Rightarrow> surroundings \<Rightarrow> int \<Rightarrow> nat \<Rightarrow> saved_pending \<Rightarrow> rfq_world \<Rightarrow> rfq_world" where
  "restore_quote D E now_micros i p w =
     (case Option.bind (restored_ttl D now_micros p) (instant_add (su_instant E (At_nth i At_lookup))) of
        None \<Rightarrow> w
      | Some expires_at \<Rightarrow>
          let w = su_others E (At_nth i At_select) w;
              w = w\<lparr>rw_cache := restore_v2_reservation (su_instant E (At_nth i At_select))
                (sp_holding_cids p) (sp_quote_id p) expires_at (rw_cache w)\<rparr>;
              w = correlate (sp_quote_id p) (sp_holding_cids p) (su_others E (At_nth i At_correlate) w)
          in put_pending (sp_quote_id p) (Confirmed \<lparr>cq_holding_cids = sp_holding_cids p,
               cq_ticket_id = sp_ticket_id p, cq_ticket_cid = None, cq_envelope = None,
               cq_valid_until_micros = sp_valid_until_micros p, cq_lp_pays_token = [], cq_lp_pays_amount = 0,
               cq_expires_at = expires_at, cq_market_id = sp_market_id p\<rparr>)
               (su_others E (At_nth i At_issue) w))"

fun restore_quotes ::
  "rfq_desk \<Rightarrow> surroundings \<Rightarrow> int \<Rightarrow> nat \<Rightarrow> saved_pending list \<Rightarrow> rfq_world \<Rightarrow> rfq_world" where
  "restore_quotes D E now_micros i [] w = w"
| "restore_quotes D E now_micros i (p # ps) w =
     restore_quotes D E now_micros (Suc i) ps (restore_quote D E now_micros i p w)"

definition restore_pending :: "rfq_desk \<Rightarrow> surroundings \<Rightarrow> saved_pending list \<Rightarrow> rfq_world \<Rightarrow> rfq_world" where
  "restore_pending D E saved w = restore_quotes D E (su_micros E At_lookup) 0 saved w"

definition quote_for_cid :: "rfq_world \<Rightarrow> string \<Rightarrow> string option" where
  "quote_for_cid w cid = map_of (rw_correlation w) cid"

end
