(* ===== verification/Rfq_Safety.thy ===== *)
theory Rfq_Safety
  imports Rfq_Sweep Liquidity_Safety
begin

text \<open>
  What a quote holds of the shared pools, and that a confirm takes and gives it back as it
  should, whatever other tasks do wherever the code takes a lock.
\<close>

section \<open>What a quote holds\<close>

definition funds_held :: "string \<Rightarrow> rfq_world \<Rightarrow> bool" where
  "funds_held q w \<longleftrightarrow> has_commitment (rw_liquidity w) (lm_key q)"

definition reserved_by :: "string \<Rightarrow> rfq_world \<Rightarrow> string \<Rightarrow> bool" where
  "reserved_by q w cid \<longleftrightarrow> (\<exists>e x. hc_reserved (rw_cache w) cid = Some e \<and> re_kind e = V2Quote q x)"

definition ticket_held :: "string \<Rightarrow> rfq_world \<Rightarrow> bool" where
  "ticket_held q w \<longleftrightarrow> (\<exists>pool k e. rw_pool w = Some pool \<and> pool k = Some e \<and> assigned_to q e)"

definition counted :: "string \<Rightarrow> rfq_world \<Rightarrow> bool" where
  "counted q w \<longleftrightarrow> (\<exists>t. rw_net w = Some t \<and> map_of (net_pending t) q \<noteq> None)"

definition holds_nothing :: "string \<Rightarrow> rfq_world \<Rightarrow> bool" where
  "holds_nothing q w \<longleftrightarrow> \<not> funds_held q w \<and> (\<forall>cid. \<not> reserved_by q w cid) \<and> \<not> ticket_held q w \<and> \<not> counted q w"

text \<open>A step of other tasks that takes nothing for the quote.\<close>

definition no_gain :: "string \<Rightarrow> rfq_world \<Rightarrow> rfq_world \<Rightarrow> bool" where
  "no_gain q w w' \<longleftrightarrow> (funds_held q w' \<longrightarrow> funds_held q w) \<and> (\<forall>cid. reserved_by q w' cid \<longrightarrow> reserved_by q w cid)
     \<and> (ticket_held q w' \<longrightarrow> ticket_held q w) \<and> (counted q w' \<longrightarrow> counted q w)"

lemma no_gain_refl [simp]: "no_gain q w w"
  by (simp add: no_gain_def)

lemma no_gain_trans [trans]: "no_gain q w w' \<Longrightarrow> no_gain q w' w'' \<Longrightarrow> no_gain q w w''"
  by (simp add: no_gain_def)

lemma no_gain_nothing: "no_gain q w w' \<Longrightarrow> holds_nothing q w \<Longrightarrow> holds_nothing q w'"
  by (auto simp: no_gain_def holds_nothing_def)

text \<open>At most these holdings and, where the flag says so, a ticket.\<close>

definition limited_to :: "string \<Rightarrow> string list \<Rightarrow> bool \<Rightarrow> rfq_world \<Rightarrow> bool" where
  "limited_to q cids ticketed w \<longleftrightarrow> (\<forall>cid. reserved_by q w cid \<longrightarrow> cid \<in> set cids) \<and> (ticket_held q w \<longrightarrow> ticketed)"

lemma limited_no_gain: "limited_to q cids t w \<Longrightarrow> no_gain q w w' \<Longrightarrow> limited_to q cids t w'"
  by (auto simp: no_gain_def limited_to_def)

lemma nothing_limited: "holds_nothing q w \<Longrightarrow> limited_to q cids t w"
  by (simp add: holds_nothing_def limited_to_def)

named_theorems held_simps \<open>what an update changes of the things a quote holds\<close>

lemma held_frame [held_simps]:
  "funds_held q (w\<lparr>rw_cache := c\<rparr>) = funds_held q w" "funds_held q (w\<lparr>rw_pool := p\<rparr>) = funds_held q w"
  "funds_held q (w\<lparr>rw_net := n\<rparr>) = funds_held q w" "funds_held q (w\<lparr>rw_pending := m\<rparr>) = funds_held q w"
  "funds_held q (w\<lparr>rw_correlation := r\<rparr>) = funds_held q w" "funds_held q (w\<lparr>rw_splits := s\<rparr>) = funds_held q w"
  "reserved_by q (w\<lparr>rw_liquidity := l\<rparr>) = reserved_by q w" "reserved_by q (w\<lparr>rw_pool := p\<rparr>) = reserved_by q w"
  "reserved_by q (w\<lparr>rw_net := n\<rparr>) = reserved_by q w" "reserved_by q (w\<lparr>rw_pending := m\<rparr>) = reserved_by q w"
  "reserved_by q (w\<lparr>rw_correlation := r\<rparr>) = reserved_by q w" "reserved_by q (w\<lparr>rw_splits := s\<rparr>) = reserved_by q w"
  "ticket_held q (w\<lparr>rw_liquidity := l\<rparr>) = ticket_held q w" "ticket_held q (w\<lparr>rw_cache := c\<rparr>) = ticket_held q w"
  "ticket_held q (w\<lparr>rw_net := n\<rparr>) = ticket_held q w" "ticket_held q (w\<lparr>rw_pending := m\<rparr>) = ticket_held q w"
  "ticket_held q (w\<lparr>rw_correlation := r\<rparr>) = ticket_held q w" "ticket_held q (w\<lparr>rw_splits := s\<rparr>) = ticket_held q w"
  "counted q (w\<lparr>rw_liquidity := l\<rparr>) = counted q w" "counted q (w\<lparr>rw_cache := c\<rparr>) = counted q w"
  "counted q (w\<lparr>rw_pool := p\<rparr>) = counted q w" "counted q (w\<lparr>rw_pending := m\<rparr>) = counted q w"
  "counted q (w\<lparr>rw_correlation := r\<rparr>) = counted q w" "counted q (w\<lparr>rw_splits := s\<rparr>) = counted q w"
  by (auto simp: funds_held_def reserved_by_def ticket_held_def counted_def fun_eq_iff)

lemma lm_key_inject [simp]: "lm_key q = lm_key q' \<longleftrightarrow> q = q'"
  by (simp add: lm_key_def)

lemma has_commitment_release' : "has_commitment (release p s) q \<longleftrightarrow> has_commitment s q \<and> q \<noteq> p"
  unfolding release_def by (subst has_commitment_on [where B = "- {p}"]) (auto simp: AList.delete_eq)

lemma funds_released [held_simps]: "funds_held q (release_funds p w) \<longleftrightarrow> funds_held q w \<and> q \<noteq> p"
  by (auto simp: funds_held_def release_funds_def has_commitment_release')

lemma release_funds_frame [held_simps]:
  "reserved_by q (release_funds p w) = reserved_by q w" "ticket_held q (release_funds p w) = ticket_held q w"
  "counted q (release_funds p w) = counted q w"
  by (simp_all add: release_funds_def held_simps)

lemma net_release_pending:
  "map_of (net_pending (net_release A w now p t)) q = (if q = p then None else map_of (net_pending t) q)"
  by (auto simp: net_release_def reverse_pending_locked_def Let_def delete_conv' split: option.split prod.split)

lemma counted_released [held_simps]: "counted q (release_net L D now p w) \<longleftrightarrow> counted q w \<and> q \<noteq> p"
  by (auto simp: counted_def release_net_def net_release_pending split: if_splits)

lemma release_net_frame [held_simps]:
  "reserved_by q (release_net L D now p w) = reserved_by q w" "ticket_held q (release_net L D now p w) = ticket_held q w"
  "funds_held q (release_net L D now p w) = funds_held q w"
  by (simp_all add: release_net_def held_simps)

lemma reserved_after_release: "hc_reserved (release_reservations cids c) = (\<lambda>x. if x \<in> set cids then None else hc_reserved c x)"
  unfolding release_reservations_def by (induction cids arbitrary: c) (auto simp: fun_eq_iff)

lemma reserved_released [held_simps]:
  "reserved_by q (release_holdings cids w) cid \<longleftrightarrow> reserved_by q w cid \<and> cid \<notin> set cids"
  by (auto simp: reserved_by_def release_holdings_def reserved_after_release)

lemma release_holdings_frame [held_simps]:
  "funds_held q (release_holdings cids w) = funds_held q w" "ticket_held q (release_holdings cids w) = ticket_held q w"
  "counted q (release_holdings cids w) = counted q w"
  by (simp_all add: release_holdings_def held_simps)

lemma assigned_after_unassign: "assigned_to q (if assigned_to p e then set_status Free e else e) \<longleftrightarrow> assigned_to q e \<and> q \<noteq> p"
  by (auto simp: assigned_to_def set_status_def split: ticket_status.splits)

lemma map_option_some: "(\<exists>e. map_option f x = Some e \<and> Q e) \<longleftrightarrow> (\<exists>e. x = Some e \<and> Q (f e))"
  by (cases x) auto

lemma assigned_where: "(\<exists>k e. update_where P s m k = Some e \<and> Q e) \<longleftrightarrow>
    (\<exists>k e. m k = Some e \<and> Q (if P e then set_status s e else e))"
  unfolding update_where_def map_option_some ..

lemma ticket_released [held_simps]: "ticket_held q (release_ticket p w) \<longleftrightarrow> ticket_held q w \<and> q \<noteq> p"
proof -
  have "ticket_held q (release_ticket p w) \<longleftrightarrow>
      (\<exists>m. rw_pool w = Some m \<and> (\<exists>k e. unassign p m k = Some e \<and> assigned_to q e))"
    by (auto simp: ticket_held_def release_ticket_def)
  then show ?thesis
    unfolding unassign_def assigned_where assigned_after_unassign by (auto simp: ticket_held_def)
qed

lemma release_ticket_frame [held_simps]:
  "funds_held q (release_ticket p w) = funds_held q w" "reserved_by q (release_ticket p w) = reserved_by q w"
  "counted q (release_ticket p w) = counted q w"
  by (simp_all add: release_ticket_def held_simps)

lemma put_pending_frame [held_simps]:
  "funds_held q (put_pending p x w) = funds_held q w" "reserved_by q (put_pending p x w) = reserved_by q w"
  "ticket_held q (put_pending p x w) = ticket_held q w" "counted q (put_pending p x w) = counted q w"
  "funds_held q (drop_pending p w) = funds_held q w" "reserved_by q (drop_pending p w) = reserved_by q w"
  "ticket_held q (drop_pending p w) = ticket_held q w" "counted q (drop_pending p w) = counted q w"
  by (simp_all add: put_pending_def drop_pending_def held_simps)

lemma correlate_frame [held_simps]:
  "funds_held q (correlate p cids w) = funds_held q w" "reserved_by q (correlate p cids w) = reserved_by q w"
  "ticket_held q (correlate p cids w) = ticket_held q w" "counted q (correlate p cids w) = counted q w"
  by (simp_all add: correlate_def held_simps)

lemma kick_frame [held_simps]:
  "funds_held q (kick_on_demand_split D i w) = funds_held q w" "reserved_by q (kick_on_demand_split D i w) = reserved_by q w"
  "ticket_held q (kick_on_demand_split D i w) = ticket_held q w" "counted q (kick_on_demand_split D i w) = counted q w"
  by (simp_all add: kick_on_demand_split_def held_simps)

section \<open>Releasing\<close>

lemma release_claims_no_gain:
  assumes "\<And>p w. no_gain q w (su_others E p w)"
  shows "no_gain q w (release_claims L D E q' cids t w)"
proof -
  have others: "funds_held q (su_others E p w) \<Longrightarrow> funds_held q w" "reserved_by q (su_others E p w) cid \<Longrightarrow> reserved_by q w cid"
    "ticket_held q (su_others E p w) \<Longrightarrow> ticket_held q w" "counted q (su_others E p w) \<Longrightarrow> counted q w" for p w cid
    using assms[of w p] by (simp_all add: no_gain_def)
  show ?thesis
    unfolding no_gain_def release_claims_def Let_def
    by (auto simp: held_simps split: if_splits dest!: others)
qed

lemma release_claims_all:
  assumes "\<And>p w. no_gain q w (su_others E p w)" and "limited_to q cids t w"
  shows "holds_nothing q (release_claims L D E q cids t w)"
proof -
  have others: "funds_held q (su_others E p w) \<Longrightarrow> funds_held q w" "reserved_by q (su_others E p w) cid \<Longrightarrow> reserved_by q w cid"
    "ticket_held q (su_others E p w) \<Longrightarrow> ticket_held q w" "counted q (su_others E p w) \<Longrightarrow> counted q w" for p w cid
    using assms(1)[of w p] by (simp_all add: no_gain_def)
  show ?thesis
    using assms(2) unfolding holds_nothing_def release_claims_def Let_def limited_to_def
    by (auto simp: held_simps split: if_splits dest!: others)
qed

section \<open>Steps\<close>

text \<open>
  From \<open>P\<close>, a step that succeeds ends in \<open>Q\<close> of its value, one that fails in \<open>F\<close> of its failure.
\<close>

definition valid ::
  "(rfq_world \<Rightarrow> bool) \<Rightarrow> 'a step \<Rightarrow> ('a \<Rightarrow> rfq_world \<Rightarrow> bool) \<Rightarrow> (failure \<Rightarrow> rfq_world \<Rightarrow> bool) \<Rightarrow> bool" where
  "valid P m Q F \<longleftrightarrow> (\<forall>w. P w \<longrightarrow> (case m w of (Inl f, w') \<Rightarrow> F f w' | (Inr x, w') \<Rightarrow> Q x w'))"

lemma validI: "(\<And>w. P w \<Longrightarrow> (case m w of (Inl f, w') \<Rightarrow> F f w' | (Inr x, w') \<Rightarrow> Q x w')) \<Longrightarrow> valid P m Q F"
  by (simp add: valid_def)

lemma validD:
  "valid P m Q F \<Longrightarrow> P w \<Longrightarrow> m w = (r, w') \<Longrightarrow> case (r, w') of (Inl f, w') \<Rightarrow> F f w' | (Inr x, w') \<Rightarrow> Q x w'"
  unfolding valid_def by metis

lemma prod_valid: "(\<And>a b. x = (a, b) \<Longrightarrow> valid P (k a b) Q F) \<Longrightarrow> valid P (case x of (a, b) \<Rightarrow> k a b) Q F"
  by (cases x) simp

lemma valid_and_then:
  assumes "valid P m Q F" and "\<And>x. valid (Q x) (k x) R F"
  shows "valid P (and_then m k) R F"
proof (rule validI)
  fix w assume w: "P w"
  obtain r w' where m: "m w = (r, w')" by (cases "m w")
  show "case and_then m k w of (Inl f, w') \<Rightarrow> F f w' | (Inr x, w') \<Rightarrow> R x w'"
  proof (cases r)
    case (Inl f)
    with m w assms(1) show ?thesis by (auto simp: valid_def and_then_def)
  next
    case (Inr x)
    with m w assms(1) have "Q x w'" by (auto simp: valid_def)
    with m Inr assms(2)[of x] show ?thesis by (auto simp: valid_def and_then_def)
  qed
qed

section \<open>A confirm never holds more than it releases\<close>

lemma limited_frame [simp]:
  "limited_to q c t (w\<lparr>rw_net := n\<rparr>) = limited_to q c t w" "limited_to q c t (w\<lparr>rw_liquidity := l\<rparr>) = limited_to q c t w"
  "limited_to q c t (put_pending p x w) = limited_to q c t w" "limited_to q c t (kick_on_demand_split D i w) = limited_to q c t w"
  by (simp_all add: limited_to_def held_simps)

lemma count_confirm_world:
  "\<exists>n. snd (count_confirm L D E q p token d accept w) = w\<lparr>rw_net := n\<rparr>"
proof (cases "rw_net w")
  case None
  then have "snd (count_confirm L D E q p token d accept w) = w\<lparr>rw_net := None\<rparr>"
    by (simp add: count_confirm_def)
  then show ?thesis ..
qed (auto simp: count_confirm_def split: prod.split)

lemma limited_count [simp]:
  "limited_to q c t (snd (count_confirm L D E q' p token d accept w)) = limited_to q c t w"
  using count_confirm_world[of L D E q' p token d accept w] by auto

lemma put_reserved_eq: "put_reserved e cids m = (\<lambda>x. if x \<in> set cids then Some e else m x)"
  by (induction cids arbitrary: m) (auto simp: fun_eq_iff)

lemma reserve_v2_cases:
  obtains "reserve_v2 now cids q x c = (False, c)"
  | "reserve_v2 now cids q x c = (True, c\<lparr>hc_reserved := put_reserved
      \<lparr>re_kind = V2Quote q x, re_reserved_at = now\<rparr> cids (hc_reserved c)\<rparr>)"
  by (cases "list_ex (\<lambda>cid. is_consumed c cid \<or> is_reserved c now cid) cids")
    (simp_all add: reserve_v2_def reserve_with_kind_def)

lemma limited_reserved:
  "limited_to q [] t w \<Longrightarrow> limited_to q cids t (w\<lparr>rw_cache := (rw_cache w)\<lparr>hc_reserved :=
     put_reserved \<lparr>re_kind = V2Quote q x, re_reserved_at = now\<rparr> cids (hc_reserved (rw_cache w))\<rparr>\<rparr>)"
  by (auto simp: limited_to_def reserved_by_def ticket_held_def put_reserved_eq split: if_splits)

definition release_due :: "string \<Rightarrow> failure \<Rightarrow> rfq_world \<Rightarrow> bool" where
  "release_due q f w \<longleftrightarrow> limited_to q (fl_cids f) (fl_ticket f) w"

lemmas failing = fail_with_def release_due_def

lemma handle_confirm_live:
  "look_up (su_instant E At_lookup) req (map_of (rw_pending (su_others E At_lookup w)) (cr_quote_id req)) = Live iq \<Longrightarrow>
     handle_confirm L D E req w = handle_live L D E req (su_instant E At_lookup) (su_micros E At_lookup) iq
       (put_pending (cr_quote_id req) (Confirming (su_instant E At_lookup)) (su_others E At_lookup w))"
  by (simp add: handle_confirm_def Let_def)

text \<open>Surroundings in which nothing is taken for the quote.\<close>

locale quiet =
  fixes E :: surroundings and q :: string
  assumes others: "no_gain q w (su_others E p w)"
begin

lemma limited_others [simp]: "limited_to q c t w \<Longrightarrow> limited_to q c t (su_others E p w)"
  using others limited_no_gain by blast

lemma check_price_limited:
  "valid (limited_to q [] False) (check_price L D E q iq) (\<lambda>_. limited_to q [] False) (release_due q)"
  by (rule validI)
    (auto simp: check_price_def Let_def split_beta failing split: option.split)

lemma open_window_limited:
  "valid (limited_to q [] False) (open_window D now start) (\<lambda>_. limited_to q [] False) (release_due q)"
  by (rule validI) (auto simp: open_window_def failing split: option.split)

lemma commit_funds_limited:
  "valid (limited_to q [] False) (commit_funds L D E q iq) (\<lambda>_. limited_to q [] False) (release_due q)"
  by (rule validI) (auto simp: commit_funds_def Let_def split_beta failing split: option.split sum.split)

lemma find_venue_limited:
  "valid (limited_to q [] False) (find_venue D E iq) (\<lambda>_. limited_to q [] False) (release_due q)"
  by (rule validI) (auto simp: find_venue_def Let_def failing split: option.split)

lemma wait_limited: "limited_to q c t w \<Longrightarrow> limited_to q c t (snd (wait_for_split n E select deadline i w))"
  by (induction n arbitrary: i w) (auto simp: Let_def split: option.split)

lemma first_picks_limited: "limited_to q c t w \<Longrightarrow> limited_to q c t (snd (first_picks D E req key select w))"
  by (auto simp: first_picks_def Let_def wait_limited split: option.split)

lemma reserve_picks_limited:
  "limited_to q [] False w \<Longrightarrow> case reserve_picks n E q x select i picks w of
     (Inl f, w') \<Rightarrow> release_due q f w' | (Inr picks, w') \<Rightarrow> limited_to q (map h_contract_id picks) False w'"
proof (induction n arbitrary: i picks w)
  case 0
  then show ?case by (cases picks) (simp_all add: failing)
next
  case (Suc n)
  show ?case
  proof (cases picks)
    case None
    with Suc.prems show ?thesis by (simp add: failing)
  next
    case (Some ps)
    have w: "limited_to q [] False (su_others E (At_reserve i) w)" using Suc.prems by simp
    show ?thesis
    proof (rule reserve_v2_cases [of "su_instant E (At_reserve i)" "map h_contract_id ps" q x
          "rw_cache (su_others E (At_reserve i) w)"])
      assume "reserve_v2 (su_instant E (At_reserve i)) (map h_contract_id ps) q x
          (rw_cache (su_others E (At_reserve i) w)) = (False, rw_cache (su_others E (At_reserve i) w))"
      then show ?thesis
        using w by (simp add: Some failing Let_def Suc.IH)
    qed (use limited_reserved[OF w] Some in \<open>simp add: Let_def\<close>)
  qed
qed

lemma reserve_holdings_limited:
  assumes "cr_quote_id req = q"
  shows "valid (limited_to q [] False) (reserve_holdings L D E req iq mi x)
    (\<lambda>picks. limited_to q (map h_contract_id picks) False) (release_due q)"
proof (rule validI)
  fix w assume w: "limited_to q [] False w"
  let ?select = "\<lambda>p. select_holdings L E p (iq_lp_pays iq) (max_inputs_of D (iq_market_id iq)) (pays_cc (iq_side iq) mi)"
  obtain picks w' where p: "first_picks D E req (fst (iq_lp_pays iq)) ?select w = (picks, w')" by fastforce
  have "limited_to q [] False w'" using first_picks_limited[OF w, of D req _ ?select] p by (metis snd_conv)
  from reserve_picks_limited[OF this, of RESERVE_ATTEMPTS x ?select 0 picks]
  show "case reserve_holdings L D E req iq mi x w of (Inl f, w') \<Rightarrow> release_due q f w'
      | (Inr picks, w') \<Rightarrow> limited_to q (map h_contract_id picks) False w'"
    by (simp add: reserve_holdings_def Let_def p assms)
qed

lemma take_ticket_limited:
  "valid (limited_to q cids False) (take_ticket D E q iq x cids)
    (\<lambda>ticket. limited_to q cids (ticket \<noteq> None)) (release_due q)"
proof (rule validI)
  fix w assume w: "limited_to q cids False w"
  have pool: "limited_to q cids True (w'\<lparr>rw_pool := p\<rparr>)" if "limited_to q cids False w'" for w' p
    using that by (simp add: limited_to_def held_simps)
  have none: "m' = m" if "assign ks q x m = (None, m')" for ks m m'
    using that by (auto simp: assign_def Let_def split: option.splits)
  have same: "limited_to q cids False (w'\<lparr>rw_pool := Some m\<rparr>)"
    if "limited_to q cids False w'" "rw_pool w' = Some m" for w' m
    using that by (simp add: limited_to_def held_simps ticket_held_def)
  show "case take_ticket D E q iq x cids w of (Inl f, w') \<Rightarrow> release_due q f w'
      | (Inr t, w') \<Rightarrow> limited_to q cids (t \<noteq> None) w'"
    using w by (auto simp: take_ticket_def Let_def failing pool same dest!: none split: option.split prod.split)
qed

lemma sign_terms_limited:
  "valid (limited_to q cids t) (sign_terms L D E req iq venue v tid cids t) (\<lambda>_. limited_to q cids t) (release_due q)"
  by (rule validI) (auto simp: sign_terms_def Let_def failing split: sum.split)

lemma secure_limited:
  assumes "cr_quote_id req = q"
  shows "valid (limited_to q [] False) (secure L D E req now start iq)
    (\<lambda>s. limited_to q (map h_contract_id (sc_picks s)) (sc_ticket s \<noteq> None)) (release_due q)"
  unfolding secure_def assms
  by (intro valid_and_then [OF check_price_limited] valid_and_then [OF open_window_limited]
      valid_and_then [OF commit_funds_limited] valid_and_then [OF find_venue_limited]
      valid_and_then [OF reserve_holdings_limited [OF assms]] valid_and_then [OF take_ticket_limited]
      valid_and_then [OF sign_terms_limited] prod_valid) (simp add: valid_def)

lemma nothing_released: "limited_to q cids t w \<Longrightarrow> holds_nothing q (release_claims L D E q cids t w)"
  using others by (rule release_claims_all)

lemma nothing_others [simp]: "holds_nothing q w \<Longrightarrow> holds_nothing q (su_others E p w)"
  using others no_gain_nothing by blast

lemma nothing_dropped [simp]: "holds_nothing q (drop_pending p w) = holds_nothing q w"
  "holds_nothing q (put_pending p x w) = holds_nothing q w"
  by (simp_all add: holds_nothing_def held_simps)

lemma rejected_nothing: "limited_to q cids t w \<Longrightarrow> holds_nothing q (release_on_reject L D E q cids t w)"
  using nothing_released by (simp add: release_on_reject_def)

lemma issue_rejected:
  assumes "limited_to q (map h_contract_id (sc_picks s)) (sc_ticket s \<noteq> None) w" and "cr_quote_id req = q"
    and "issue L D E req iq s w = (Inl rej, w')"
  shows "holds_nothing q w'"
  using assms nothing_released[OF limited_others[OF assms(1)]]
  by (auto simp: issue_def Let_def split: if_splits)

lemma confirm_rejected:
  assumes "holds_nothing q w" and "cr_quote_id req = q" and "handle_confirm L D E req w = (Inl rej, w')"
  shows "holds_nothing q w'"
proof -
  let ?w = "su_others E At_lookup w"
  have w: "holds_nothing q ?w" using assms(1) by simp
  have limited: "limited_to q [] False (put_pending q (Confirming n) ?w)" for n
    using w by (intro nothing_limited) simp
  show ?thesis
  proof (cases "look_up (su_instant E At_lookup) req (map_of (rw_pending ?w) q)")
    case Expired_Indicative
    then have "w' = release_on_reject L D E q [] False ?w"
      using assms(2,3) by (simp add: handle_confirm_def Let_def)
    then show ?thesis using rejected_nothing[OF nothing_limited[OF w]] by simp
  next
    case (Live iq)
    let ?now = "su_instant E At_lookup" and ?start = "su_micros E At_lookup"
    have live: "handle_live L D E req ?now ?start iq (put_pending q (Confirming ?now) ?w) = (Inl rej, w')"
      using handle_confirm_live[of E req w iq L D] Live assms(2,3) by simp
    obtain r w1 where run: "secure L D E req ?now ?start iq (put_pending q (Confirming ?now) ?w) = (r, w1)"
      by (cases "secure L D E req ?now ?start iq (put_pending q (Confirming ?now) ?w)")
    have post: "case (r, w1) of (Inl f, w') \<Rightarrow> release_due q f w'
        | (Inr s, w') \<Rightarrow> limited_to q (map h_contract_id (sc_picks s)) (sc_ticket s \<noteq> None) w'"
      by (rule validD[OF secure_limited[OF assms(2)] limited run])
    show ?thesis
    proof (cases r)
      case (Inl f)
      then have "w' = release_on_reject L D E q (fl_cids f) (fl_ticket f) w1"
        using live run assms(2) by (simp add: handle_live_def)
      then show ?thesis using rejected_nothing post Inl by (simp add: release_due_def)
    next
      case (Inr s)
      then have "issue L D E req iq s w1 = (Inl rej, w')"
        using live run by (simp add: handle_live_def)
      then show ?thesis using issue_rejected[OF _ assms(2)] post Inr by simp
    qed
  qed (use w assms(2,3) in \<open>auto simp: handle_confirm_def Let_def\<close>)
qed

end

section \<open>Confirms of other quotes take nothing\<close>

text \<open>Surroundings in which nothing is taken for the quote, seen from the task of another quote.\<close>

locale bystander = quiet +
  fixes q' :: string
  assumes other: "q \<noteq> q'"
begin

lemma held_others:
  "funds_held q (su_others E p w) \<Longrightarrow> funds_held q w" "reserved_by q (su_others E p w) cid \<Longrightarrow> reserved_by q w cid"
  "ticket_held q (su_others E p w) \<Longrightarrow> ticket_held q w" "counted q (su_others E p w) \<Longrightarrow> counted q w"
  using others[of w p] by (simp_all add: no_gain_def)

lemma no_gain_others [simp]: "no_gain q w0 w \<Longrightarrow> no_gain q w0 (su_others E p w)"
  using others no_gain_trans by blast

lemma no_gain_updates [simp]:
  "no_gain q w0 (put_pending p x w) = no_gain q w0 w" "no_gain q w0 (drop_pending p w) = no_gain q w0 w"
  "no_gain q w0 (kick_on_demand_split D i w) = no_gain q w0 w" "no_gain q w0 (correlate p cids w) = no_gain q w0 w"
  by (simp_all add: no_gain_def held_simps)

lemma no_gain_released [simp]: "no_gain q w0 w \<Longrightarrow> no_gain q w0 (release_claims L D E p cids t w)"
  using release_claims_no_gain[OF others] no_gain_trans by blast

lemma no_gain_count [simp]:
  assumes "no_gain q w0 w"
  shows "no_gain q w0 (snd (count_confirm L D E q' party token d accept w))"
proof -
  have "map_of (net_pending (fst (check_and_record A win t t' q' party token d accept n))) q = map_of (net_pending n) q" for A win t t' n
    using other by (auto simp: check_and_record_def apply_delta_locked_def Let_def update_conv')
  then have "counted q (snd (count_confirm L D E q' party token d accept w)) \<longleftrightarrow> counted q w"
    by (auto simp: count_confirm_def counted_def split: option.split prod.split) (metis fst_conv)+
  then show ?thesis
    using assms count_confirm_world[of L D E q' party token d accept w] by (auto simp: no_gain_def held_simps)
qed

lemma no_gain_committed:
  assumes "no_gain q w0 w" and "try_commit A m (lm_key q') token amount fee (rw_liquidity w) = (lm, res)"
  shows "no_gain q w0 (w\<lparr>rw_liquidity := lm\<rparr>)"
  using assms other
  by (auto simp: no_gain_def held_simps funds_held_def try_commit_def has_commitment_put split: sum.splits)

lemma no_gain_reserved:
  assumes "no_gain q w0 w" and "reserve_v2 now cids q' x (rw_cache w) = (ok, c)"
  shows "no_gain q w0 (w\<lparr>rw_cache := c\<rparr>)"
proof -
  have "reserved_by q (w\<lparr>rw_cache := c\<rparr>) cid \<Longrightarrow> reserved_by q w cid" for cid
    using assms(2) other
    by (cases rule: reserve_v2_cases[of now cids q' x "rw_cache w"])
      (auto simp: reserved_by_def put_reserved_eq split: if_splits)
  then show ?thesis using assms(1) by (auto simp: no_gain_def held_simps)
qed

lemma no_gain_assigned:
  assumes "no_gain q w0 w" and "rw_pool w = Some m" and "assign ks q' x m = (t, m')"
  shows "no_gain q w0 (w\<lparr>rw_pool := Some m'\<rparr>)"
proof -
  have "ticket_held q (w\<lparr>rw_pool := Some m'\<rparr>) \<Longrightarrow> ticket_held q w"
    using assms(2,3) other
    by (auto simp: ticket_held_def assign_def Let_def assigned_to_def set_status_def split: option.splits if_splits)
      blast
  then show ?thesis using assms(1) by (auto simp: no_gain_def held_simps)
qed

definition harmless :: "rfq_world \<Rightarrow> 'a step \<Rightarrow> bool" where
  "harmless w0 m \<longleftrightarrow> valid (no_gain q w0) m (\<lambda>_. no_gain q w0) (\<lambda>_. no_gain q w0)"

lemma harmless_and_then: "harmless w0 m \<Longrightarrow> (\<And>x. harmless w0 (k x)) \<Longrightarrow> harmless w0 (and_then m k)"
  unfolding harmless_def by (rule valid_and_then)

lemma harmless_prod: "(\<And>a b. harmless w0 (k a b)) \<Longrightarrow> harmless w0 (case x of (a, b) \<Rightarrow> k a b)"
  by (cases x) simp

lemma harmlessI: "(\<And>w. no_gain q w0 w \<Longrightarrow> no_gain q w0 (snd (m w))) \<Longrightarrow> harmless w0 m"
  unfolding harmless_def valid_def by (auto split: prod.split sum.split) (metis snd_conv)+

lemma check_price_harmless: "harmless w0 (check_price L D E q' iq)"
  by (rule harmlessI) (auto simp: check_price_def Let_def split_beta fail_with_def split: option.split)

lemma open_window_harmless: "harmless w0 (open_window D now start)"
  by (rule harmlessI) (auto simp: open_window_def fail_with_def split: option.split)

lemma commit_funds_harmless: "harmless w0 (commit_funds L D E q' iq)"
  by (rule harmlessI)
    (auto simp: commit_funds_def Let_def fail_with_def no_gain_committed split: option.split prod.split sum.split)

lemma find_venue_harmless: "harmless w0 (find_venue D E iq)"
  by (rule harmlessI) (auto simp: find_venue_def Let_def fail_with_def split: option.split)

lemma wait_harmless: "no_gain q w0 w \<Longrightarrow> no_gain q w0 (snd (wait_for_split n E select deadline i w))"
  by (induction n arbitrary: i w) (auto simp: Let_def split: option.split)

lemma first_picks_harmless: "no_gain q w0 w \<Longrightarrow> no_gain q w0 (snd (first_picks D E req key select w))"
  by (auto simp: first_picks_def Let_def wait_harmless split: option.split)

lemma reserve_picks_harmless: "no_gain q w0 w \<Longrightarrow> no_gain q w0 (snd (reserve_picks n E q' x select i picks w))"
proof (induction n arbitrary: i picks w)
  case 0
  then show ?case by (cases picks) (simp_all add: fail_with_def)
next
  case (Suc n)
  then show ?case
    by (cases picks) (auto simp: Let_def fail_with_def no_gain_reserved split: prod.split)
qed

lemma reserve_holdings_harmless: "cr_quote_id req = q' \<Longrightarrow> harmless w0 (reserve_holdings L D E req iq mi x)"
  by (rule harmlessI) (auto simp: reserve_holdings_def Let_def split_beta reserve_picks_harmless first_picks_harmless)

lemma take_ticket_harmless: "harmless w0 (take_ticket D E q' iq x cids)"
  by (rule harmlessI)
    (auto simp: take_ticket_def Let_def fail_with_def no_gain_assigned split: option.split prod.split)

lemma sign_terms_harmless: "harmless w0 (sign_terms L D E req iq venue v tid cids t)"
  by (rule harmlessI) (auto simp: sign_terms_def Let_def fail_with_def split: sum.split)

lemma secure_harmless:
  assumes "cr_quote_id req = q'"
  shows "harmless w0 (secure L D E req now start iq)"
  unfolding secure_def assms
  by (intro harmless_and_then harmless_prod check_price_harmless open_window_harmless commit_funds_harmless
      find_venue_harmless reserve_holdings_harmless take_ticket_harmless sign_terms_harmless assms)
    (rule harmlessI, simp)

lemma record_confirm_harmless:
  "no_gain q w0 w \<Longrightarrow> no_gain q w0 (w\<lparr>rw_net := map_option (record_confirm A win t t' q' party token d) (rw_net w)\<rparr>)"
proof -
  assume w: "no_gain q w0 w"
  have "map_of (net_pending (record_confirm A win t t' q' party token d n)) q = map_of (net_pending n) q" for n
    using other by (auto simp: record_confirm_def check_and_record_def apply_delta_locked_def Let_def update_conv')
  then have "counted q (w\<lparr>rw_net := map_option (record_confirm A win t t' q' party token d) (rw_net w)\<rparr>) = counted q w"
    by (auto simp: counted_def)
  with w show ?thesis by (simp add: no_gain_def held_simps)
qed

lemma issue_harmless: "cr_quote_id req = q' \<Longrightarrow> no_gain q w0 w \<Longrightarrow> no_gain q w0 (snd (issue L D E req iq s w))"
  by (auto simp: issue_def Let_def record_confirm_harmless)

lemma handle_confirm_harmless:
  assumes "cr_quote_id req = q'"
  shows "no_gain q w (snd (handle_confirm L D E req w))"
proof -
  have live: "no_gain q w0 (snd (handle_live L D E req now start iq w))" if "no_gain q w0 w" for w0 w now start iq
  proof -
    obtain r w1 where run: "secure L D E req now start iq w = (r, w1)" by (cases "secure L D E req now start iq w")
    have "no_gain q w0 w1"
      using validD[OF secure_harmless[OF assms, unfolded harmless_def] that run] by (auto split: sum.splits)
    then show ?thesis
      using run by (cases r) (auto simp: handle_live_def release_on_reject_def issue_harmless assms)
  qed
  show ?thesis
    unfolding handle_confirm_def Let_def
    by (auto simp: live release_on_reject_def others split: lookup.split)
qed

end

end
