(* ===== verification/Rfq_Sample.thy ===== *)
theory Rfq_Sample
  imports Rfq_Safety
begin

text \<open>
  A small desk with one market, one venue and one holding, on which the properties of the
  confirm are tried.
\<close>

definition rfq_decimals :: "rat decimal_ops" where
  "rfq_decimals = \<lparr>d_normalize = (\<lambda>r. r), d_scale = (\<lambda>r. 0), d_is_zero = (\<lambda>r. r = 0),
     d_to_string = (\<lambda>r. show_int \<lfloor>r\<rfloor>),
     d_from_str = (\<lambda>s. case digits_val 0 (takeWhile (\<lambda>c. c \<noteq> CHR ''.'') s) of
       None \<Rightarrow> Inl ''invalid'' | Some n \<Rightarrow> Inr (of_int n)),
     d_value = (\<lambda>r. r)\<rparr>"

definition rfq_lib_sample :: rfq_lib where
  "rfq_lib_sample = \<lparr>rl_arith = sample_arith\<lparr>d_to_f64 := \<lambda>r. None\<rparr>, rl_decimals = rfq_decimals,
     rl_crypto = sample_qc, rl_json_text = (\<lambda>v. ''venue''), rl_net = f64_net (\<lambda>x. Fin 1)\<rparr>"

definition rfq_venue :: venue_contract where
  "rfq_venue = \<lparr>vc_contract_id = ''v'', vc_template_id = ''t'', vc_created_event_blob = ''b'',
     vc_synchronizer_id = ''s'', vc_arguments = Some (ac_payload (sample_venue []))\<rparr>"

definition rfq_key :: string where
  "rfq_key = SPKI_PREFIX @ ''04'' @ replicate 128 CHR ''0''"

definition rfq_registry :: venue_registry where
  "rfq_registry = \<lparr>vr_party_id = ''l'', vr_local_spki_hex = rfq_key,
     vr_expected = [''A-B'' \<mapsto> \<lparr>xv_base_id = ''A'', xv_base_admin = ''a'', xv_quote_id = ''B'', xv_quote_admin = ''b''\<rparr>]\<rparr>"

definition rfq_venues :: venues where
  "rfq_venues = refresh_venues rfq_registry [rfq_venue]"

definition sample_stock :: venue_entry where
  "sample_stock = the (rfq_venues ''A-B'')"

definition rfq_desk_sample :: "bool \<Rightarrow> rfq_desk" where
  "rfq_desk_sample mids = \<lparr>rd_party_id = ''l'', rd_synchronizer_id = ''s'',
     rd_scalar = Inr ([48, 52] @ replicate 128 48),
     rd_v2 = \<lparr>rc_quote_valid_secs = 60, rc_settle_grace_secs = 30, rc_ticket_threshold_usd = None\<rparr>,
     rd_max_inputs = [''A-B'' \<mapsto> 3],
     rd_instruments = [''A-B'' \<mapsto> \<lparr>mi_base_key = ''CC'', mi_base_is_cc = True, mi_quote_key = ''B'', mi_quote_is_cc = False\<rparr>],
     rd_registry = rfq_registry, rd_manager = sample_manager, rd_impact = Map.empty, rd_ladders = [],
     rd_window_hours = Fin 24, rd_stale_pending_after = 10 ^ 9, rd_watches_mids = mids\<rparr>"

definition rfq_quote :: indicative_quote where
  "rfq_quote = \<lparr>iq_market_id = ''A-B'', iq_side = Buy, iq_base_amount = 7, iq_quote_amount = 5,
     iq_lp_pays = (''CC'', 7), iq_lp_pays_token = ''CC'', iq_notional_usd = None, iq_valid_until = 10 ^ 10,
     iq_settlement_fee = None, iq_user_party = Some ''u'', iq_pool_inputs = None\<rparr>"

definition rfq_world_sample :: rfq_world where
  "rfq_world_sample = \<lparr>rw_pending = [(''q'', Indicative rfq_quote)], rw_correlation = [], rw_splits = [],
     rw_cache = (empty_cache False)\<lparr>hc_available := [''h'' \<mapsto> sample_holding ''h'' 9]\<rparr>, rw_pool = None,
     rw_liquidity = update_cc_balance 0 100 new_liquidity, rw_net = None, rw_mids = Map.empty,
     rw_venues = rfq_venues\<rparr>"

definition rfq_request :: confirm_request where
  "rfq_request = \<lparr>cr_rfq_id = ''r'', cr_quote_id = ''q'', cr_user_party = ''u'', cr_market_id = ''A-B'',
     cr_direction = ''BUY'', cr_quantity = ''7'', cr_quote_quantity = ''5'', cr_price = ''1'',
     cr_respond_by = None, cr_settlement_fee = None\<rparr>"

text \<open>
  Two surroundings: in one nothing is done by other tasks; in the other they also refresh the
  venues and drop the tickets. They do nothing to a world that is as they leave it.
\<close>

definition rfq_calm :: "bool \<Rightarrow> surroundings" where
  "rfq_calm refresh = \<lparr>su_others = \<lambda>p w. if refresh then w\<lparr>rw_venues := rfq_venues, rw_pool := None\<rparr> else w,
     su_instant = (\<lambda>p. 1000000000), su_micros = (\<lambda>p. 50000000), su_millis = (\<lambda>p. 1000), su_order = (\<lambda>p. [''h''])\<rparr>"

definition calm_world :: "rfq_world \<Rightarrow> bool" where
  "calm_world w \<longleftrightarrow> rw_venues w = rfq_venues \<and> rw_pool w = None \<and> rw_net w = None"

lemma calm_simps [simp]:
  "calm_world w \<Longrightarrow> su_others (rfq_calm b) p w = w"
  "su_instant (rfq_calm b) p = 1000000000" "su_micros (rfq_calm b) p = 50000000" "su_millis (rfq_calm b) p = 1000"
  "su_order (rfq_calm b) p = [''h'']"
  by (simp_all add: rfq_calm_def calm_world_def)

lemma calm_frame [simp]:
  "calm_world (w\<lparr>rw_liquidity := l\<rparr>) = calm_world w" "calm_world (w\<lparr>rw_cache := c\<rparr>) = calm_world w"
  "calm_world (put_pending q x w) = calm_world w" "calm_world (correlate q cids w) = calm_world w"
  "calm_world rfq_world_sample"
  by (simp_all add: calm_world_def put_pending_def correlate_def rfq_world_sample_def)

lemma request_simps [simp]: "cr_quote_id rfq_request = ''q''"
  by (simp_all add: rfq_request_def)

lemma sample_venue_payload:
  "payload_string (ac_payload (sample_venue [])) [''lp''] = Inr ''l''"
  "payload_string (ac_payload (sample_venue [])) [''provider''] = Inr ''p''"
  "payload_string (ac_payload (sample_venue [])) [''pairName''] = Inr ''A-B''"
  "payload_string (ac_payload (sample_venue [])) [''baseInstrumentId'', ''admin''] = Inr ''a''"
  "payload_string (ac_payload (sample_venue [])) [''baseInstrumentId'', ''id''] = Inr ''A''"
  "payload_string (ac_payload (sample_venue [])) [''quoteInstrumentId'', ''admin''] = Inr ''b''"
  "payload_string (ac_payload (sample_venue [])) [''quoteInstrumentId'', ''id''] = Inr ''B''"
  by code_simp+

lemma sample_amounts:
  "render_decimal rfq_decimals 7 = Inr ''7.0''" "render_decimal rfq_decimals 5 = Inr ''5.0''"
  "parse_decimal rfq_decimals ''7.0'' = Inr 7" "parse_decimal rfq_decimals ''5.0'' = Inr 5"
  by code_simp+

definition sample_terms :: "string" where
  "sample_terms = (case canonical_from_dvp rfq_decimals (ac_payload (sample_venue []))
    (build_quote rfq_request Buy [] ''7.0'' ''5.0'' 40000000 110000000 None) of Inl e \<Rightarrow> [] | Inr m \<Rightarrow> m)"

lemma sample_canonical: "canonical_from_dvp rfq_decimals (ac_payload (sample_venue []))
    (build_quote rfq_request Buy [] ''7.0'' ''5.0'' 40000000 110000000 None) = Inr sample_terms"
proof -
  have "\<not> isl (canonical_from_dvp rfq_decimals (ac_payload (sample_venue []))
    (build_quote rfq_request Buy [] ''7.0'' ''5.0'' 40000000 110000000 None))"
    by (simp add: canonical_from_dvp_def quote_fields_of_def build_quote_def sample_venue_payload sample_amounts
      parse_side_def parse_micros_def parse_i64_show_int rfq_request_def build_canonical_message_def quote_lines_def
      Let_def MSG_TYPE_def show_int_no_char[of newline] digit_val_def result_simps)
  then show ?thesis by (auto simp: sample_terms_def split: sum.split)
qed

lemma sample_signs: "\<exists>y. sign_terms rfq_lib_sample (rfq_desk_sample m) (rfq_calm b) rfq_request rfq_quote
    sample_stock 110000000 [] cids t w = (Inr y, w)"
proof -
  have v: "ve_payload sample_stock = ac_payload (sample_venue [])"
    "ve_quote_public_key sample_stock = rfq_key"
    by code_simp+
  have sign: "try_bind (rd_scalar (rfq_desk_sample m)) (\<lambda>k. sign_quote_scalar sample_qc k s) = Inr (char_chars (str_bytes s))" for s
    by (simp add: rfq_desk_sample_def sign_quote_scalar_def sample_qc_def Let_def result_simps)
  have verify: "verify_quote sample_qc (char_chars (str_bytes s)) s (rfq_key)" for s
  proof -
    have "point_from_spki sample_qc rfq_key = Inr (''04'' @ replicate 128 CHR ''0'')"
      by code_simp
    then show ?thesis by (simp add: verify_quote_def sample_qc_def Let_def)
  qed
  show ?thesis
    by (simp add: sign_terms_def Let_def v i64_sub_def rfq_lib_sample_def sample_amounts rfq_quote_def
      sample_canonical[unfolded rfq_quote_def] sign verify)
qed

lemma sample_selects: "select_holdings rfq_lib_sample (rfq_calm b) p (''CC'', 7) 3 True w = Some [sample_holding ''h'' 9]"
  if "rw_cache w = rw_cache rfq_world_sample"
  using that
  by (simp add: select_holdings_def select_for_disclosure_with_def rfq_world_sample_def empty_cache_def
    selection_target_def rfq_lib_sample_def sample_arith_def dec_arith.defs exact_arith_def in_range_def
    disclosure_picks_def get_selectable_def holdings_of_def List.map_filter_def sample_holding_def
    selectable_holding_def is_fresh_def secs_since_def AVAILABLE_TTL_SECS_def is_consumed_def is_reserved_def
    excluded_cid_def select_from_def)

lemma sample_commits: "\<exists>l. try_commit (rl_arith rfq_lib_sample) (rd_manager (rfq_desk_sample m)) (lm_key ''q'') ''CC'' 7 0
    (rw_liquidity rfq_world_sample) = (l, Inr ())"
proof -
  have "check_commit (rl_arith rfq_lib_sample) sample_manager (rw_liquidity rfq_world_sample) ''CC'' 7 0 = Inr ()"
    by (simp add: check_commit_def available_of_def rfq_world_sample_def update_cc_balance_def CC_TOKEN_def
      new_liquidity_def resolve_alias_def token_available_def committed_def sat_total_def sample_manager_def less_fees_def
      rfq_lib_sample_def sample_arith_def dec_arith.defs update_token_balance_def entry_or_def new_token_def set_balance_def Let_def)
  then show ?thesis by (simp add: try_commit_def rfq_desk_sample_def)
qed

lemma sample_validated: "validated rfq_registry rfq_venues ''A-B'' = Some sample_stock"
proof -
  have "rfq_venues ''A-B'' = Some sample_stock"
    "ve_base_id sample_stock = ''A''" "ve_base_admin sample_stock = ''a''"
    "ve_quote_id sample_stock = ''B''" "ve_quote_admin sample_stock = ''b''"
    "ve_created_event_blob sample_stock = ''b''" "ve_quote_public_key sample_stock = rfq_key"
    by (simp_all add: rfq_venues_def refresh_venues_def note_venue_def rfq_venue_def rfq_registry_def sample_venue_def text_at_def
      text_or_empty_def json_get_def as_str_def rfq_key_def sample_stock_def)
  moreover have "vr_expected rfq_registry ''A-B'' = Some \<lparr>xv_base_id = ''A'', xv_base_admin = ''a'', xv_quote_id = ''B'', xv_quote_admin = ''b''\<rparr>"
    "vr_local_spki_hex rfq_registry = rfq_key"
    by (simp_all add: rfq_registry_def)
  ultimately show ?thesis
    by (simp add: validated_def eq_ignore_ascii_case_def)
qed

abbreviation sample_market :: market_instruments where
  "sample_market \<equiv> \<lparr>mi_base_key = ''CC'', mi_base_is_cc = True, mi_quote_key = ''B'', mi_quote_is_cc = False\<rparr>"

lemma sample_steps:
  assumes "calm_world w"
  shows "check_price L (rfq_desk_sample False) (rfq_calm b) i q w = (Inr (), w)"
    and "open_window (rfq_desk_sample m) 1000000000 50000000 w = (Inr (91000000000, 110000000), w)"
    and "find_venue (rfq_desk_sample m) (rfq_calm b) rfq_quote w = (Inr (sample_stock, sample_market), w)"
    and "take_ticket (rfq_desk_sample m) E i q x cids w = (Inr None, w)"
proof -
  have "rw_net w = None" "rw_venues w = rfq_venues" using assms by (auto simp: calm_world_def)
  then show "check_price L (rfq_desk_sample False) (rfq_calm b) i q w = (Inr (), w)"
    and "find_venue (rfq_desk_sample m) (rfq_calm b) rfq_quote w = (Inr (sample_stock, sample_market), w)"
    using assms
    by (simp_all add: check_price_def count_confirm_def Let_def rfq_desk_sample_def find_venue_def sample_validated rfq_quote_def)
qed (simp_all add: open_window_def quote_window_def u64_max_def instant_add_def checked_add_i64_def take_ticket_def
    needs_ticket_def rfq_desk_sample_def Let_def)

lemma sample_funds:
  assumes "calm_world w" and "rw_liquidity w = rw_liquidity rfq_world_sample"
  shows "\<exists>l. commit_funds rfq_lib_sample (rfq_desk_sample m) (rfq_calm b) ''q'' rfq_quote w = (Inr (), w\<lparr>rw_liquidity := l\<rparr>)"
proof -
  have "is_stale (rd_manager (rfq_desk_sample m)) (rw_liquidity rfq_world_sample) ''CC'' 1000000000 = None"
    by (simp add: is_stale_def stale_age_def rfq_world_sample_def update_cc_balance_def CC_TOKEN_def new_liquidity_def
      update_token_balance_def entry_or_def new_token_def set_balance_def resolve_alias_def Let_def rfq_desk_sample_def
      sample_manager_def stale_after_def)
  then show ?thesis
    using assms sample_commits[of m] by (auto simp: commit_funds_def Let_def rfq_quote_def)
qed

lemma sample_reserves:
  assumes "calm_world w" and "rw_cache w = rw_cache rfq_world_sample"
  shows "\<exists>c. reserve_holdings rfq_lib_sample (rfq_desk_sample m) (rfq_calm b) rfq_request rfq_quote sample_market x w
    = (Inr [sample_holding ''h'' 9], w\<lparr>rw_cache := c\<rparr>)"
proof -
  have "reserve_v2 1000000000 [''h''] ''q'' x (rw_cache rfq_world_sample) = (True,
      (rw_cache rfq_world_sample)\<lparr>hc_reserved := put_reserved \<lparr>re_kind = V2Quote ''q'' x, re_reserved_at = 1000000000\<rparr> [''h'']
        (hc_reserved (rw_cache rfq_world_sample))\<rparr>)"
    by (simp add: reserve_v2_def reserve_with_kind_def rfq_world_sample_def empty_cache_def is_consumed_def is_reserved_def)
  moreover have "max_inputs_of (rfq_desk_sample m) (iq_market_id rfq_quote) = 3" "iq_lp_pays rfq_quote = (''CC'', 7)"
    "pays_cc (iq_side rfq_quote) sample_market"
    by (simp_all add: max_inputs_of_def rfq_desk_sample_def rfq_quote_def pays_cc_def)
  moreover have "h_contract_id (sample_holding ''h'' 9) = ''h''" by (simp add: sample_holding_def)
  ultimately show ?thesis
    using assms sample_selects
    by (auto simp: reserve_holdings_def first_picks_def Let_def RESERVE_ATTEMPTS_def numeral_3_eq_3 simp del: fun_upd_apply)
qed

lemma sample_secured:
  assumes "calm_world w" "rw_liquidity w = rw_liquidity rfq_world_sample" "rw_cache w = rw_cache rfq_world_sample"
  shows "\<exists>s w'. secure rfq_lib_sample (rfq_desk_sample False) (rfq_calm b) rfq_request 1000000000 50000000 rfq_quote w = (Inr s, w')
    \<and> rw_pending w' = rw_pending w \<and> calm_world w'"
proof -
  let ?D = "rfq_desk_sample False"
  obtain l where l: "commit_funds rfq_lib_sample ?D (rfq_calm b) ''q'' rfq_quote w = (Inr (), w\<lparr>rw_liquidity := l\<rparr>)"
    using sample_funds assms(1,2) by blast
  let ?w2 = "w\<lparr>rw_liquidity := l\<rparr>"
  have w2: "calm_world ?w2" using assms(1) by simp
  obtain c where c: "reserve_holdings rfq_lib_sample ?D (rfq_calm b) rfq_request rfq_quote sample_market 91000000000 ?w2
      = (Inr [sample_holding ''h'' 9], ?w2\<lparr>rw_cache := c\<rparr>)"
    using sample_reserves[OF w2, of False b 91000000000] assms(3) by auto
  let ?w3 = "?w2\<lparr>rw_cache := c\<rparr>"
  have w3: "calm_world ?w3" using assms(1) by simp
  obtain quote created_at canonical sig where y: "sign_terms rfq_lib_sample ?D (rfq_calm b) rfq_request rfq_quote sample_stock
      110000000 [] [''h''] False ?w3 = (Inr (quote, created_at, canonical, sig), ?w3)"
    using sample_signs by (metis prod_cases4)
  have "h_contract_id (sample_holding ''h'' 9) = ''h''" by (simp add: sample_holding_def)
  then show ?thesis
    using assms(1) w3 l c y unfolding secure_def and_then_def
    by (simp add: sample_steps[OF assms(1)] sample_steps[OF w2] sample_steps[OF w3] or_empty_def)
qed

lemma sample_looked_up: "look_up 1000000000 rfq_request (Some (Indicative rfq_quote)) = Live rfq_quote"
    "map_of (rw_pending rfq_world_sample) ''q'' = Some (Indicative rfq_quote)"
    "su_others (rfq_calm b) p rfq_world_sample = rfq_world_sample"
  by (simp_all add: look_up_def rfq_quote_def rfq_request_def rfq_world_sample_def[THEN arg_cong[of _ _ rw_pending]])

lemma sample_confirmed:
  obtains env w' where "handle_confirm rfq_lib_sample (rfq_desk_sample False) (rfq_calm b) rfq_request rfq_world_sample = (Inr env, w')"
proof -
  let ?w = "put_pending ''q'' (Confirming 1000000000) rfq_world_sample"
  have w: "calm_world ?w" "rw_liquidity ?w = rw_liquidity rfq_world_sample" "rw_cache ?w = rw_cache rfq_world_sample"
    by (simp, simp_all add: put_pending_def)
  obtain s w' where s: "secure rfq_lib_sample (rfq_desk_sample False) (rfq_calm b) rfq_request 1000000000 50000000 rfq_quote ?w = (Inr s, w')"
    "rw_pending w' = rw_pending ?w" "calm_world w'"
    using sample_secured[OF w] by blast
  have "map_of (rw_pending w') ''q'' = Some (Confirming 1000000000)"
    unfolding s(2) by (simp add: put_pending_def update_conv')
  then have "\<exists>env w''. issue rfq_lib_sample (rfq_desk_sample False) (rfq_calm b) rfq_request rfq_quote s w' = (Inr env, w'')"
    using s(3) by (simp add: issue_def Let_def is_confirming_def)
  then show ?thesis
    using that s(1) sample_looked_up by (auto simp: handle_confirm_def Let_def handle_live_def)
qed

lemma sample_rejected:
  obtains rej w' where "handle_confirm rfq_lib_sample (rfq_desk_sample True) (rfq_calm b) rfq_request rfq_world_sample = (Inl rej, w')"
proof -
  let ?w = "put_pending ''q'' (Confirming 1000000000) rfq_world_sample"
  have "rw_net ?w = None" "rw_mids ?w = Map.empty" by (simp_all add: put_pending_def rfq_world_sample_def)
  then have "\<exists>f w''. secure rfq_lib_sample (rfq_desk_sample True) (rfq_calm b) rfq_request 1000000000 50000000 rfq_quote ?w = (Inl f, w'')"
    by (simp add: secure_def and_then_def check_price_def count_confirm_def Let_def rfq_desk_sample_def mid_ok_def fail_with_def)
  then show ?thesis
    using that sample_looked_up by (auto simp: handle_confirm_def Let_def handle_live_def)
qed

end
