(* ===== verification/Rfq_Issue.thy ===== *)
theory Rfq_Issue
  imports Rfq_Sample
begin

text \<open>
  What an issued envelope is worth: the client's check before submission accepts it until the
  signed validity ends, and the quote holds what backs it.
\<close>

section \<open>The client accepts it\<close>

text \<open>
  A venue as \<open>refresh_venues\<close> stores it, and a ticket whose payload is that of its contract
  on the ledger.
\<close>

definition registered :: "venue_entry \<Rightarrow> bool" where
  "registered v \<longleftrightarrow> ve_quote_public_key v = text_or_empty (ve_payload v) [''quotePublicKey'']"

definition ticket_on_ledger :: "(string \<Rightarrow> jval result) \<Rightarrow> ticket_entry \<Rightarrow> bool" where
  "ticket_on_ledger parse t \<longleftrightarrow> te_ticket_id t \<noteq> [] \<and> (\<forall>s. te_payload_json t = Some s \<longrightarrow>
     (\<exists>v. parse s = Inr v \<and> string_at v ''ticketId'' = Some (te_ticket_id t)))"

lemma note_venue_registered:
  "\<forall>m v. found m = Some v \<longrightarrow> registered v \<Longrightarrow> note_venue r found c m = Some v \<Longrightarrow> registered v"
  by (auto simp: note_venue_def registered_def split: option.splits if_splits)

lemma refresh_registered: "refresh_venues r cs m = Some v \<Longrightarrow> registered v"
proof -
  have "\<forall>m v. foldl (note_venue r) found cs m = Some v \<longrightarrow> registered v"
    if "\<forall>m v. found m = Some v \<longrightarrow> registered v" for found
    using that
  proof (induction cs arbitrary: found)
    case (Cons c cs)
    then have "\<forall>m v. note_venue r found c m = Some v \<longrightarrow> registered v" using note_venue_registered by blast
    then show ?case using Cons.IH by simp
  qed simp
  from this[of Map.empty] show "refresh_venues r cs m = Some v \<Longrightarrow> registered v"
    by (simp add: refresh_venues_def)
qed

lemma validated_key:
  assumes "validated r vs m = Some v" and "\<And>v. vs m = Some v \<Longrightarrow> registered v" and "vr_local_spki_hex r \<noteq> []"
  shows "string_at (ve_payload v) ''quotePublicKey'' = Some (ve_quote_public_key v)"
proof -
  have v: "vs m = Some v" "eq_ignore_ascii_case (ve_quote_public_key v) (vr_local_spki_hex r)"
    using assms(1) by (auto simp: validated_def split: bind_splits if_splits)
  then have "ve_quote_public_key v \<noteq> []" using assms(3) by (auto simp: eq_ignore_ascii_case_def)
  moreover have "ve_quote_public_key v = text_or_empty (ve_payload v) [''quotePublicKey'']"
    using assms(2)[OF v(1)] by (simp add: registered_def)
  ultimately show ?thesis
    by (auto simp: text_or_empty_def text_at_def string_at_def split: option.splits)
qed

text \<open>What a step that fails leaves is of no interest here.\<close>

abbreviation gives :: "(rfq_world \<Rightarrow> bool) \<Rightarrow> 'a step \<Rightarrow> ('a \<Rightarrow> bool) \<Rightarrow> bool" where
  "gives P m Q \<equiv> valid P m (\<lambda>x w. Q x) (\<lambda>f w. True)"

text \<open>The terms as they are signed.\<close>

definition signed_terms ::
  "rfq_lib \<Rightarrow> confirm_request \<Rightarrow> indicative_quote \<Rightarrow> venue_entry \<Rightarrow> int \<Rightarrow> string \<Rightarrow> quote_json \<times> int \<times> string \<times> string \<Rightarrow> bool" where
  "signed_terms L req q venue valid_until tid = (\<lambda>(quote, created_at, canonical, signature).
     (\<exists>a b. quote = build_quote req (iq_side q) tid a b created_at valid_until (iq_settlement_fee q))
     \<and> canonical_from_dvp (rl_decimals L) (ve_payload venue) quote = Inr canonical
     \<and> verify_quote (rl_crypto L) signature canonical (ve_quote_public_key venue))"

lemma sign_terms_signed: "gives P (sign_terms L D E req q venue v tid cids t) (signed_terms L req q venue v tid)"
  by (rule validI) (auto simp: sign_terms_def Let_def fail_with_def signed_terms_def split: sum.split)

definition usable_ticket :: "(string \<Rightarrow> jval result) \<Rightarrow> (string \<times> ticket_entry) option \<Rightarrow> bool" where
  "usable_ticket parse ticket = (case ticket of None \<Rightarrow> True
     | Some (tid, t) \<Rightarrow> tid = te_ticket_id t \<and> is_disclosable t \<and> ticket_on_ledger parse t)"

lemma take_ticket_usable:
  assumes "\<And>w pool k t. rw_pool (su_others E At_ticket w) = Some pool \<Longrightarrow> pool k = Some t \<Longrightarrow> ticket_on_ledger parse t"
  shows "gives P (take_ticket D E q iq x cids) (usable_ticket parse)"
proof (rule validI)
  fix w
  have "usable_ticket parse (Some t)" if "rw_pool (su_others E At_ticket w) = Some m" "assign ks q x m = (Some t, m')" for m ks t m'
    using that assms[of w m]
    by (auto simp: assign_def Let_def usable_ticket_def first_assignable_def find_Some_iff assignable_def
        is_disclosable_def ticket_on_ledger_def set_status_def split: option.splits)
  then show "case take_ticket D E q iq x cids w of (Inl f, w') \<Rightarrow> True | (Inr t, w') \<Rightarrow> usable_ticket parse t"
    by (auto simp: take_ticket_def Let_def fail_with_def usable_ticket_def[of parse None] split: option.split prod.split)
qed

lemma validated_stored: "validated r vs m = Some v \<Longrightarrow> vs m = Some v"
  by (auto simp: validated_def split: bind_splits if_splits)

lemma find_venue_keyed:
  assumes "\<And>w m v. rw_venues (su_others E At_venue w) m = Some v \<Longrightarrow> registered v"
    and "\<And>w m v. rw_venues (su_others E At_venue w) m = Some v \<Longrightarrow> parse (print (ve_payload v)) = Inr (ve_payload v)"
    and "vr_local_spki_hex (rd_registry D) \<noteq> []"
  shows "gives P (find_venue D E q)
    (\<lambda>(v, mi). string_at (ve_payload v) ''quotePublicKey'' = Some (ve_quote_public_key v)
       \<and> parse (print (ve_payload v)) = Inr (ve_payload v))"
proof (rule validI)
  fix w
  let ?vs = "rw_venues (su_others E At_venue w)"
  have "string_at (ve_payload v) ''quotePublicKey'' = Some (ve_quote_public_key v) \<and> parse (print (ve_payload v)) = Inr (ve_payload v)"
    if "validated (rd_registry D) ?vs (iq_market_id q) = Some v" for v
    using validated_key[OF that assms(1,3)] assms(2)[OF validated_stored[OF that]] by simp
  then show "case find_venue D E q w of (Inl f, w') \<Rightarrow> True | (Inr x, w') \<Rightarrow> (\<lambda>(v, mi).
      string_at (ve_payload v) ''quotePublicKey'' = Some (ve_quote_public_key v)
       \<and> parse (print (ve_payload v)) = Inr (ve_payload v)) x"
    by (simp add: find_venue_def Let_def fail_with_def split: option.split)
qed

lemma window_in_range:
  "gives P (open_window D now start) (\<lambda>(x, v). - (2 ^ 63) \<le> v \<and> v < 2 ^ 63)"
  by (rule validI)
    (auto simp: open_window_def fail_with_def quote_window_def checked_add_i64_def Let_def
      split: option.splits bind_splits if_splits)

lemma disclosed_ids:
  "disclosed_cids [] = []" "disclosed_cids (disclosed_json d # ds) = dp_contract_id d # disclosed_cids ds"
  "disclosed_cids (map (disclosed_json \<circ> f) xs) = map (dp_contract_id \<circ> f) xs"
  by (simp_all add: disclosed_cids_def disclosed_json_def string_at_def json_get_def as_str_def List.map_filter_def
      comp_def)

lemma disclosed_fields: "dp_contract_id (venue_disclosed v) = ve_contract_id v"
  "dp_contract_id (ticket_disclosed D t) = te_contract_id t" "dp_contract_id \<circ> holding_disclosed = h_contract_id"
  by (auto simp: venue_disclosed_def ticket_disclosed_def holding_disclosed_def)

lemma presented:
  assumes "signed_terms L req q venue v (or_empty (map_option fst ticket)) (quote, created_at, canonical, sig)"
    and "usable_ticket parse ticket" and "parse (rl_json_text L (ve_payload venue)) = Inr (ve_payload venue)"
    and "string_at (ve_payload venue) ''quotePublicKey'' = Some (ve_quote_public_key venue)"
    and "- (2 ^ 63) \<le> v" "v < 2 ^ 63" "- (2 ^ 63) \<le> now + spare" "now + spare < v"
  shows "\<exists>e. envelope_from_proto parse (assemble L D req q venue ticket picks quote created_at v canonical sig) = Inr e
    \<and> pre_submit_check (rl_decimals L) (rl_crypto L) e (cr_user_party req) (rd_synchronizer_id D) now spare = Inr ()"
proof -
  obtain a b where quote: "quote = build_quote req (iq_side q) (or_empty (map_option fst ticket)) a b created_at v (iq_settlement_fee q)"
    and canonical: "canonical_from_dvp (rl_decimals L) (ve_payload venue) quote = Inr canonical"
    and sig: "verify_quote (rl_crypto L) sig canonical (ve_quote_public_key venue)"
    using assms(1) by (auto simp: signed_terms_def)
  have micros: "parse_micros (show_int v) = Inr v"
    using parse_i64_show_int[OF assms(5,6)] by (simp add: parse_micros_def)
  show ?thesis
  proof (cases ticket)
    case None
    with quote canonical sig assms(3-8) micros show ?thesis
      by (cases "iq_settlement_fee q") (simp_all add: fee_list_def disclosed_fields subset_insertI2 assemble_def envelope_from_proto_def acs_from_proto_def pre_submit_check_def build_quote_def
          bail_if_def check_validity_def checked_add_i64_def check_ticket_def check_disclosures_def Let_def
          disclosed_ids check_holdings_Inr or_empty_def result_simps)
  next
    case (Some tt)
    obtain tid t where tt: "tt = (tid, t)" by (cases tt)
    have t: "tid = te_ticket_id t" "te_ticket_id t \<noteq> []" "is_disclosable t" "ticket_on_ledger parse t"
      using assms(2) Some tt by (auto simp: usable_ticket_def ticket_on_ledger_def)
    then obtain s u where s: "te_payload_json t = Some s" "parse s = Inr u" "string_at u ''ticketId'' = Some tid"
      by (auto simp: is_disclosable_def ticket_on_ledger_def)
    show ?thesis
      using quote canonical sig assms(3-8) micros s t(2) Some tt t(1)
      by (cases "iq_settlement_fee q") (simp_all add: fee_list_def disclosed_fields subset_insertI2 assemble_def envelope_from_proto_def acs_from_proto_def pre_submit_check_def build_quote_def
          bail_if_def check_validity_def checked_add_i64_def check_ticket_def check_disclosures_def Let_def
          disclosed_ids check_holdings_Inr or_empty_def result_simps ticket_proto_def)
  qed
qed

definition presentable :: "(string \<Rightarrow> jval result) \<Rightarrow> rfq_lib \<Rightarrow> rfq_desk \<Rightarrow> confirm_request \<Rightarrow> envelope_proto \<Rightarrow> bool" where
  "presentable parse L D req env \<longleftrightarrow> (\<exists>q. ep_quote env = Some q \<and> (\<forall>now spare.
     - (2 ^ 63) \<le> now + spare \<and> now + spare < qp_valid_until_micros q \<longrightarrow> (\<exists>e. envelope_from_proto parse env = Inr e
       \<and> pre_submit_check (rl_decimals L) (rl_crypto L) e (cr_user_party req) (rd_synchronizer_id D) now spare = Inr ())))"

lemma and_then_Inr: "and_then m k w = (Inr y, w'') \<longleftrightarrow> (\<exists>x w'. m w = (Inr x, w') \<and> k x w' = (Inr y, w''))"
  by (auto simp: and_then_def split: prod.split sum.split)

lemma givesD: "gives P m Q \<Longrightarrow> P w \<Longrightarrow> m w = (Inr x, w') \<Longrightarrow> Q x"
  unfolding valid_def by (metis (mono_tags, lifting) case_prod_conv sum.case(2))

text \<open>The run of a confirm that gets to its issue.\<close>

lemma secure_run:
  assumes "secure L D E req now start q w = (Inr s, w')"
  obtains w1 w2 w3 w4 w5 w6 x v venue mi picks ticket quote created_at canonical sig where
    "check_price L D E (cr_quote_id req) q w = (Inr (), w1)" "open_window D now start w1 = (Inr (x, v), w2)"
    "commit_funds L D E (cr_quote_id req) q w2 = (Inr (), w3)" "find_venue D E q w3 = (Inr (venue, mi), w4)"
    "reserve_holdings L D E req q mi x w4 = (Inr picks, w5)"
    "take_ticket D E (cr_quote_id req) q x (map h_contract_id picks) w5 = (Inr ticket, w6)"
    "sign_terms L D E req q venue v (or_empty (map_option fst ticket)) (map h_contract_id picks) (ticket \<noteq> None) w6
       = (Inr (quote, created_at, canonical, sig), w')"
    "s = \<lparr>sc_picks = picks, sc_ticket = ticket, sc_expires_at = x, sc_valid_until = v,
       sc_envelope = assemble L D req q venue ticket picks quote created_at v canonical sig\<rparr>"
  using assms unfolding secure_def and_then_Inr by (auto simp: and_then_Inr split: prod.splits)

lemma secure_presentable:
  assumes "secure L D E req now start q w = (Inr s, w')"
    and "\<And>w m v. rw_venues (su_others E At_venue w) m = Some v \<Longrightarrow> registered v"
    and "\<And>w pool k t. rw_pool (su_others E At_ticket w) = Some pool \<Longrightarrow> pool k = Some t \<Longrightarrow> ticket_on_ledger parse t"
    and "vr_local_spki_hex (rd_registry D) \<noteq> []"
    and "\<And>w m v. rw_venues (su_others E At_venue w) m = Some v
      \<Longrightarrow> parse (rl_json_text L (ve_payload v)) = Inr (ve_payload v)"
  shows "presentable parse L D req (sc_envelope s)"
proof (rule secure_run[OF assms(1)])
  fix w1 w2 w3 w4 w5 w6 x v venue mi picks ticket quote created_at canonical sig
  assume run: "open_window D now start w1 = (Inr (x, v), w2)" "find_venue D E q w3 = (Inr (venue, mi), w4)"
      "take_ticket D E (cr_quote_id req) q x (map h_contract_id picks) w5 = (Inr ticket, w6)"
      "sign_terms L D E req q venue v (or_empty (map_option fst ticket)) (map h_contract_id picks) (ticket \<noteq> None) w6
         = (Inr (quote, created_at, canonical, sig), w')"
    and s: "s = \<lparr>sc_picks = picks, sc_ticket = ticket, sc_expires_at = x, sc_valid_until = v,
       sc_envelope = assemble L D req q venue ticket picks quote created_at v canonical sig\<rparr>"
  have range: "- (2 ^ 63) \<le> v" "v < 2 ^ 63" using givesD[OF window_in_range TrueI run(1)] by auto
  have key: "string_at (ve_payload venue) ''quotePublicKey'' = Some (ve_quote_public_key venue)"
      and printed: "parse (rl_json_text L (ve_payload venue)) = Inr (ve_payload venue)"
    using givesD[OF find_venue_keyed[where parse = parse and print = "rl_json_text L", OF assms(2,5,4)] TrueI run(2)]
    by auto
  have ticket: "usable_ticket parse ticket" using givesD[OF take_ticket_usable TrueI run(3)] assms(3) by auto
  have signed: "signed_terms L req q venue v (or_empty (map_option fst ticket)) (quote, created_at, canonical, sig)"
    by (rule givesD[OF sign_terms_signed TrueI run(4)])
  let ?env = "assemble L D req q venue ticket picks quote created_at v canonical sig"
  have all: "- (2 ^ 63) \<le> now + spare \<Longrightarrow> now + spare < v \<Longrightarrow> \<exists>e. envelope_from_proto parse ?env = Inr e
      \<and> pre_submit_check (rl_decimals L) (rl_crypto L) e (cr_user_party req) (rd_synchronizer_id D) now spare = Inr ()"
    for now spare
    by (rule presented[OF signed ticket printed key range])
  obtain pq where "ep_quote ?env = Some pq" "qp_valid_until_micros pq = v" by (simp add: assemble_def)
  then show ?thesis using all by (auto simp: s presentable_def)
qed

lemma confirm_run:
  assumes "map_of (rw_pending (su_others E At_lookup w)) (cr_quote_id req) = Some (Indicative q)"
    and "handle_confirm L D E req w = (Inr env, w')"
  obtains s w1 where "secure L D E req (su_instant E At_lookup) (su_micros E At_lookup) q
      (put_pending (cr_quote_id req) (Confirming (su_instant E At_lookup)) (su_others E At_lookup w)) = (Inr s, w1)"
    and "issue L D E req q s w1 = (Inr env, w')"
proof -
  have "look_up (su_instant E At_lookup) req (map_of (rw_pending (su_others E At_lookup w)) (cr_quote_id req)) = Live q"
    using assms by (auto simp: handle_confirm_def look_up_def Let_def split: if_splits)
  from handle_confirm_live[OF this, of L D] assms(2) show ?thesis
    by (auto simp: handle_live_def intro: that split: prod.splits sum.splits)
qed

text \<open>
  C7: An envelope issued for an indicative quote passes the client's check before submission, for
  the user and the synchronizer of the request, as long as the time and the margin the client
  asks for end before the signed validity does; provided that venues and tickets are as the
  ledger has them and the parser of JSON reads back what its printer wrote of a venue.
\<close>

theorem issued_envelope_accepted:
  assumes "\<And>w m v. rw_venues (su_others E At_venue w) m = Some v \<Longrightarrow> registered v"
    and "\<And>w pool k t. rw_pool (su_others E At_ticket w) = Some pool \<Longrightarrow> pool k = Some t \<Longrightarrow> ticket_on_ledger parse t"
    and "vr_local_spki_hex (rd_registry D) \<noteq> []"
    and "\<And>w m v. rw_venues (su_others E At_venue w) m = Some v
      \<Longrightarrow> parse (rl_json_text L (ve_payload v)) = Inr (ve_payload v)"
    and "map_of (rw_pending (su_others E At_lookup w)) (cr_quote_id req) = Some (Indicative q)"
    and "handle_confirm L D E req w = (Inr env, w')"
  shows "presentable parse L D req env"
proof (rule confirm_run[OF assms(5,6)])
  fix s w1
  assume run: "secure L D E req (su_instant E At_lookup) (su_micros E At_lookup) q
      (put_pending (cr_quote_id req) (Confirming (su_instant E At_lookup)) (su_others E At_lookup w)) = (Inr s, w1)"
    and "issue L D E req q s w1 = (Inr env, w')"
  then have "env = sc_envelope s" by (auto simp: issue_def Let_def split: if_splits)
  then show ?thesis using secure_presentable[OF run assms(1-4)] by simp
qed

theorem issued_envelope_accepted_witness:
  "\<exists>env. fst (handle_confirm rfq_lib_sample (rfq_desk_sample False) (rfq_calm True) rfq_request rfq_world_sample) = Inr env
    \<and> presentable (\<lambda>s. Inr (ac_payload (sample_venue []))) rfq_lib_sample (rfq_desk_sample False) rfq_request env"
proof (rule sample_confirmed[of True])
  fix env w' assume run: "handle_confirm rfq_lib_sample (rfq_desk_sample False) (rfq_calm True) rfq_request rfq_world_sample = (Inr env, w')"
  have stock: "rw_venues (su_others (rfq_calm True) p w) = rfq_venues" "rw_pool (su_others (rfq_calm True) p w) = None" for p w
    by (simp_all add: rfq_calm_def)
  have "presentable (\<lambda>s. Inr (ac_payload (sample_venue []))) rfq_lib_sample (rfq_desk_sample False) rfq_request env"
  proof (rule issued_envelope_accepted[OF _ _ _ _ _ run])
    show "registered v" if "rw_venues (su_others (rfq_calm True) At_venue w) m = Some v" for w m v
      using that refresh_registered by (simp add: stock rfq_venues_def)
    show "Inr (ac_payload (sample_venue [])) = Inr (ve_payload v)" if "rw_venues (su_others (rfq_calm True) At_venue w) m = Some v" for w m v
      using that by (auto simp: stock rfq_venues_def refresh_venues_def note_venue_def rfq_venue_def split: option.splits if_splits)
  qed (auto simp: stock sample_looked_up rfq_desk_sample_def rfq_registry_def rfq_key_def rfq_request_def[THEN arg_cong[of _ _ cr_quote_id]])
  then show ?thesis using run by auto
qed

section \<open>The quote is backed\<close>

definition funds_for :: "string \<Rightarrow> rfq_world \<Rightarrow> rat \<Rightarrow> bool" where
  "funds_for q w a \<longleftrightarrow> (\<exists>k t. map_of (tokens (rw_liquidity w)) k = Some t
     \<and> map_of (allocation_commitments t) (lm_key q) = Some a)"

definition reserved_until :: "string \<Rightarrow> rfq_world \<Rightarrow> nat \<Rightarrow> string \<Rightarrow> bool" where
  "reserved_until q w x cid \<longleftrightarrow> (\<exists>e. hc_reserved (rw_cache w) cid = Some e \<and> re_kind e = V2Quote q x)"

definition ticket_until :: "string \<Rightarrow> rfq_world \<Rightarrow> nat \<Rightarrow> string \<Rightarrow> bool" where
  "ticket_until q w x tid \<longleftrightarrow> (\<exists>m k e. rw_pool w = Some m \<and> m k = Some e \<and> te_ticket_id e = tid
     \<and> te_status e = Assigned q x)"

text \<open>A step of other tasks that takes nothing from the quote.\<close>

definition no_loss :: "string \<Rightarrow> rfq_world \<Rightarrow> rfq_world \<Rightarrow> bool" where
  "no_loss q w w' \<longleftrightarrow> (\<forall>a. funds_for q w a \<longrightarrow> funds_for q w' a)
     \<and> (\<forall>x cid. reserved_until q w x cid \<longrightarrow> reserved_until q w' x cid)
     \<and> (\<forall>x tid. ticket_until q w x tid \<longrightarrow> ticket_until q w' x tid)
     \<and> (\<forall>p. map_of (rw_pending w) q = Some p \<longrightarrow> map_of (rw_pending w') q = Some p)"

lemma backing_frame [simp]:
  "funds_for q (w\<lparr>rw_cache := c\<rparr>) = funds_for q w" "funds_for q (w\<lparr>rw_pool := p\<rparr>) = funds_for q w"
  "funds_for q (w\<lparr>rw_net := n\<rparr>) = funds_for q w" "funds_for q (put_pending i y w) = funds_for q w"
  "funds_for q (correlate i cids w) = funds_for q w" "funds_for q (kick_on_demand_split D k w) = funds_for q w"
  "reserved_until q (w\<lparr>rw_pool := p\<rparr>) = reserved_until q w" "reserved_until q (w\<lparr>rw_net := n\<rparr>) = reserved_until q w"
  "reserved_until q (put_pending i y w) = reserved_until q w" "reserved_until q (correlate i cids w) = reserved_until q w"
  "ticket_until q (w\<lparr>rw_net := n\<rparr>) = ticket_until q w" "ticket_until q (put_pending i y w) = ticket_until q w"
  "ticket_until q (correlate i cids w) = ticket_until q w"
  "rw_pending (correlate i cids w) = rw_pending w"
  by (auto simp: fun_eq_iff funds_for_def reserved_until_def ticket_until_def put_pending_def correlate_def
      kick_on_demand_split_def)

definition backs :: "string \<Rightarrow> rfq_world \<Rightarrow> indicative_quote \<Rightarrow> secured \<Rightarrow> bool" where
  "backs q w iq s \<longleftrightarrow> funds_for q w (snd (iq_lp_pays iq))
     \<and> (\<forall>h \<in> set (sc_picks s). reserved_until q w (sc_expires_at s) (h_contract_id h))
     \<and> (\<forall>tid te. sc_ticket s = Some (tid, te) \<longrightarrow> ticket_until q w (sc_expires_at s) tid)"

text \<open>Surroundings in which nothing is taken from the quote.\<close>

locale faithful =
  fixes E :: surroundings and q :: string
  assumes keep: "no_loss q w (su_others E p w)"
begin

lemma kept_others [simp]:
  "funds_for q w a \<Longrightarrow> funds_for q (su_others E p w) a"
  "reserved_until q w x cid \<Longrightarrow> reserved_until q (su_others E p w) x cid"
  "ticket_until q w x tid \<Longrightarrow> ticket_until q (su_others E p w) x tid"
  "map_of (rw_pending w) q = Some y \<Longrightarrow> map_of (rw_pending (su_others E p w)) q = Some y"
  using keep[of w p] by (auto simp: no_loss_def)

lemma commit_backed:
  "commit_funds L D E q iq w = (Inr (), w') \<Longrightarrow> funds_for q w' (snd (iq_lp_pays iq))"
  by (auto simp: commit_funds_def Let_def fail_with_def try_commit_def put_commitment_def funds_for_def
      entry_or_def update_conv' split: option.splits sum.splits prod.splits if_splits)

lemma venue_backed: "find_venue D E iq w = (Inr v, w') \<Longrightarrow> w' = su_others E At_venue w"
  by (auto simp: find_venue_def Let_def fail_with_def split: option.splits)

lemma wait_backed: "funds_for q w a \<Longrightarrow> funds_for q (snd (wait_for_split n E select deadline i w)) a"
  by (induction n arbitrary: i w) (auto simp: Let_def split: option.split)

lemma first_picks_backed: "funds_for q w a \<Longrightarrow> funds_for q (snd (first_picks D E req key select w)) a"
  by (auto simp: first_picks_def Let_def wait_backed split: option.split)

lemma reserve_picks_backed:
  assumes "reserve_picks n E q x select i picks w = (Inr found, w')" and "funds_for q w a"
  shows "funds_for q w' a \<and> (\<forall>h \<in> set found. reserved_until q w' x (h_contract_id h))"
  using assms
proof (induction n arbitrary: i picks w)
  case 0
  then show ?case by (cases picks) (simp_all add: fail_with_def)
next
  case (Suc n)
  show ?case
  proof (cases picks)
    case (Some ps)
    let ?w = "su_others E (At_reserve i) w"
    show ?thesis
      using Suc.prems Suc.IH Some
      by (cases rule: reserve_v2_cases[of "su_instant E (At_reserve i)" "map h_contract_id ps" q x "rw_cache ?w"])
        (auto simp: Let_def fail_with_def reserved_until_def put_reserved_eq split: if_splits)
  qed (use Suc.prems in \<open>simp add: fail_with_def\<close>)
qed

lemma reserve_backed:
  assumes "reserve_holdings L D E req iq mi x w = (Inr picks, w')" and "cr_quote_id req = q" and "funds_for q w a"
  shows "funds_for q w' a \<and> (\<forall>h \<in> set picks. reserved_until q w' x (h_contract_id h))"
proof -
  let ?select = "\<lambda>p. select_holdings L E p (iq_lp_pays iq) (max_inputs_of D (iq_market_id iq)) (pays_cc (iq_side iq) mi)"
  obtain ps w1 where p: "first_picks D E req (fst (iq_lp_pays iq)) ?select w = (ps, w1)" by fastforce
  have "funds_for q w1 a" using first_picks_backed[OF assms(3), of D req _ ?select] p by (metis snd_conv)
  moreover have "reserve_picks RESERVE_ATTEMPTS E q x ?select 0 ps w1 = (Inr picks, w')"
    using assms(1,2) by (simp add: reserve_holdings_def Let_def p)
  ultimately show ?thesis by (intro reserve_picks_backed) auto
qed

lemma take_ticket_backed:
  assumes "take_ticket D E q iq x cids w = (Inr t, w')"
    and "funds_for q w a" and "\<forall>cid \<in> set cids. reserved_until q w x cid"
  shows "funds_for q w' a \<and> (\<forall>cid \<in> set cids. reserved_until q w' x cid)
    \<and> (\<forall>tid te. t = Some (tid, te) \<longrightarrow> ticket_until q w' x tid)"
  using assms
  by (auto simp: take_ticket_def Let_def fail_with_def ticket_until_def assign_def set_status_def
      split: if_splits option.splits prod.splits)

lemma sign_terms_world: "sign_terms L D E' req iq venue v tid cids t w = (Inr y, w') \<Longrightarrow> w' = w"
  by (auto simp: sign_terms_def Let_def fail_with_def split: if_splits sum.splits)

lemma backs_others [simp]: "backs q w iq s \<Longrightarrow> backs q (su_others E p w) iq s"
  by (simp add: backs_def)

lemma backs_frame [simp]: "backs q (put_pending i y w) iq s = backs q w iq s" "backs q (correlate i cids w) iq s = backs q w iq s"
  "backs q (w\<lparr>rw_net := n\<rparr>) iq s = backs q w iq s"
  by (simp_all add: backs_def)

lemma secure_backed:
  assumes "secure L D E req now start iq w = (Inr s, w')" and "cr_quote_id req = q"
  shows "backs q w' iq s \<and> quote_window D now start = Some (sc_expires_at s, sc_valid_until s)
    \<and> ep_lp_input_holding_cids (sc_envelope s) = map h_contract_id (sc_picks s)
    \<and> map_option qp_valid_until_micros (ep_quote (sc_envelope s)) = Some (sc_valid_until s)
    \<and> map_option qp_ticket_id (ep_quote (sc_envelope s)) = Some (or_empty (map_option fst (sc_ticket s)))"
proof (rule secure_run[OF assms(1)])
  fix w1 w2 w3 w4 w5 w6 x v venue mi picks ticket quote created_at canonical sig
  assume run: "open_window D now start w1 = (Inr (x, v), w2)"
      "commit_funds L D E (cr_quote_id req) iq w2 = (Inr (), w3)" "find_venue D E iq w3 = (Inr (venue, mi), w4)"
      "reserve_holdings L D E req iq mi x w4 = (Inr picks, w5)"
      "take_ticket D E (cr_quote_id req) iq x (map h_contract_id picks) w5 = (Inr ticket, w6)"
      "sign_terms L D E req iq venue v (or_empty (map_option fst ticket)) (map h_contract_id picks) (ticket \<noteq> None) w6
         = (Inr (quote, created_at, canonical, sig), w')"
    and s: "s = \<lparr>sc_picks = picks, sc_ticket = ticket, sc_expires_at = x, sc_valid_until = v,
       sc_envelope = assemble L D req iq venue ticket picks quote created_at v canonical sig\<rparr>"
  have "funds_for q w4 (snd (iq_lp_pays iq))"
    using commit_backed run(2) venue_backed[OF run(3)] assms(2) by simp
  then have "funds_for q w5 (snd (iq_lp_pays iq)) \<and> (\<forall>h \<in> set picks. reserved_until q w5 x (h_contract_id h))"
    by (rule reserve_backed[OF run(4) assms(2)])
  then have "funds_for q w6 (snd (iq_lp_pays iq)) \<and> (\<forall>h \<in> set picks. reserved_until q w6 x (h_contract_id h))
      \<and> (\<forall>tid te. ticket = Some (tid, te) \<longrightarrow> ticket_until q w6 x tid)"
    using take_ticket_backed[OF run(5)[unfolded assms(2)], of "snd (iq_lp_pays iq)"] by simp
  moreover have "w' = w6" by (rule sign_terms_world[OF run(6)])
  moreover have "quote_window D now start = Some (x, v)"
    using run(1) by (auto simp: open_window_def fail_with_def split: option.splits)
  moreover have "qj_ticket_id quote = or_empty (map_option fst ticket)"
    using givesD[OF sign_terms_signed TrueI run(6)] by (auto simp: signed_terms_def build_quote_def)
  ultimately show ?thesis by (simp add: s backs_def assemble_def)
qed

lemma issue_backed:
  assumes "issue L D E req iq s w = (Inr env, w')" and "cr_quote_id req = q" and "backs q w iq s"
  shows "env = sc_envelope s \<and> backs q w' iq s \<and> map_of (rw_pending w') q = Some (Confirmed (confirmed_entry iq s))"
proof -
  have "map_of (rw_pending (put_pending q y w0)) q = Some y" for y w0
    by (simp add: put_pending_def update_conv')
  then show ?thesis
    using assms(1)[unfolded issue_def Let_def assms(2)] assms(3) by (auto split: if_splits)
qed

lemma confirm_backed:
  assumes "cr_quote_id req = q" and "map_of (rw_pending (su_others E At_lookup w)) q = Some (Indicative iq)"
    and "handle_confirm L D E req w = (Inr env, w')"
  obtains s where "env = sc_envelope s" "backs q w' iq s" "map_of (rw_pending w') q = Some (Confirmed (confirmed_entry iq s))"
    "quote_window D (su_instant E At_lookup) (su_micros E At_lookup) = Some (sc_expires_at s, sc_valid_until s)"
    "ep_lp_input_holding_cids (sc_envelope s) = map h_contract_id (sc_picks s)"
    "map_option qp_valid_until_micros (ep_quote (sc_envelope s)) = Some (sc_valid_until s)"
    "map_option qp_ticket_id (ep_quote (sc_envelope s)) = Some (or_empty (map_option fst (sc_ticket s)))"
proof -
  obtain s w1 where run: "secure L D E req (su_instant E At_lookup) (su_micros E At_lookup) iq
        (put_pending (cr_quote_id req) (Confirming (su_instant E At_lookup)) (su_others E At_lookup w)) = (Inr s, w1)"
      and issue: "issue L D E req iq s w1 = (Inr env, w')"
    using confirm_run[OF assms(2)[folded assms(1)] assms(3)] .
  show ?thesis
    using that[of s] secure_backed[OF run assms(1)] issue_backed[OF issue assms(1)] by blast
qed

end

text \<open>
  C6: When a confirm issues an envelope, then at its end the funds the LP pays are committed under
  the key of the quote, every holding in the envelope and the ticket, if any, are reserved for
  the quote until the window of the confirm ends, and the quote is recorded as confirmed with
  this envelope; provided that other tasks take nothing from the quote meanwhile.
\<close>

theorem issued_quote_backed:
  assumes "\<And>p w. no_loss (cr_quote_id req) w (su_others E p w)"
    and "map_of (rw_pending (su_others E At_lookup w)) (cr_quote_id req) = Some (Indicative iq)"
    and "handle_confirm L D E req w = (Inr env, w')"
  shows "\<exists>c quote. map_of (rw_pending w') (cr_quote_id req) = Some (Confirmed c) \<and> cq_envelope c = Some env
    \<and> ep_quote env = Some quote
    \<and> quote_window D (su_instant E At_lookup) (su_micros E At_lookup) = Some (cq_expires_at c, qp_valid_until_micros quote)
    \<and> funds_for (cr_quote_id req) w' (snd (iq_lp_pays iq))
    \<and> list_all (reserved_until (cr_quote_id req) w' (cq_expires_at c)) (ep_lp_input_holding_cids env)
    \<and> cq_holding_cids c = ep_lp_input_holding_cids env
    \<and> (qp_ticket_id quote = [] \<or> ticket_until (cr_quote_id req) w' (cq_expires_at c) (qp_ticket_id quote))"
proof -
  have "faithful E (cr_quote_id req)" using assms(1) by (rule faithful.intro)
  then show ?thesis
  proof (rule faithful.confirm_backed[OF _ refl assms(2,3)])
    fix s
    assume env: "env = sc_envelope s" and backs: "backs (cr_quote_id req) w' iq s"
      and c: "map_of (rw_pending w') (cr_quote_id req) = Some (Confirmed (confirmed_entry iq s))"
      and window: "quote_window D (su_instant E At_lookup) (su_micros E At_lookup) = Some (sc_expires_at s, sc_valid_until s)"
      and cids: "ep_lp_input_holding_cids (sc_envelope s) = map h_contract_id (sc_picks s)"
      and quote: "map_option qp_valid_until_micros (ep_quote (sc_envelope s)) = Some (sc_valid_until s)"
        "map_option qp_ticket_id (ep_quote (sc_envelope s)) = Some (or_empty (map_option fst (sc_ticket s)))"
    obtain pq where pq: "ep_quote (sc_envelope s) = Some pq" using quote(1) by auto
    show ?thesis
      by (rule exI[of _ "confirmed_entry iq s"], rule exI[of _ pq])
        (use env backs c window cids quote pq in \<open>auto simp: confirmed_entry_def backs_def list_all_iff or_empty_def
          split: option.splits\<close>)
  qed
qed

theorem issued_quote_backed_witness:
  "\<exists>w' c. snd (handle_confirm rfq_lib_sample (rfq_desk_sample False) (rfq_calm False) rfq_request rfq_world_sample) = w'
    \<and> map_of (rw_pending w') ''q'' = Some (Confirmed c) \<and> funds_for ''q'' w' 7"
proof (rule sample_confirmed[of False])
  fix env w' assume run: "handle_confirm rfq_lib_sample (rfq_desk_sample False) (rfq_calm False) rfq_request rfq_world_sample = (Inr env, w')"
  have "no_loss (cr_quote_id rfq_request) w (su_others (rfq_calm False) p w)" for p w
    by (simp add: rfq_calm_def no_loss_def)
  from issued_quote_backed[OF this _ run, of rfq_quote] show ?thesis
    using run by (auto simp: sample_looked_up rfq_quote_def)
qed

text \<open>
  Surroundings that take nothing: none at all, and the refresh of the venues with the first
  phase of another quote.
\<close>

interpretation unchanged: faithful "E\<lparr>su_others := \<lambda>p w. w\<rparr>" q for E q
  by unfold_locales (simp add: no_loss_def)

lemma register_no_loss:
  assumes "\<And>p w. no_loss q w (su_others E p w)" and "quote_id \<noteq> q"
  shows "no_loss q w (fst (register_indicative L D E quote_id market side priced fee party w))"
proof -
  have trans: "no_loss q w w' \<Longrightarrow> no_loss q w' w'' \<Longrightarrow> no_loss q w w''" for w w' w''
    by (auto simp: no_loss_def)
  have put: "no_loss q w (put_pending quote_id y w)" for y w
    using assms(2) by (auto simp: no_loss_def put_pending_def update_conv' reserved_until_def ticket_until_def funds_for_def)
  have kick: "no_loss q w (kick_on_demand_split D k w)" for k w
    by (auto simp: no_loss_def kick_on_demand_split_def reserved_until_def ticket_until_def funds_for_def)
  have refl: "no_loss q w w" for w by (simp add: no_loss_def)
  show ?thesis
    unfolding register_indicative_def Let_def
    by (auto split: option.split prod.split intro: refl assms(1) trans[OF assms(1)] trans[OF trans[OF assms(1) assms(1)]]
      trans[OF trans[OF trans[OF trans[OF assms(1) assms(1)] assms(1)] put] trans[OF assms(1) kick]]
      trans[OF trans[OF trans[OF assms(1) assms(1)] assms(1)] put])
qed

definition registering ::
  "rfq_lib \<Rightarrow> rfq_desk \<Rightarrow> surroundings \<Rightarrow> string \<Rightarrow> string \<Rightarrow> quote_side \<Rightarrow> priced_quote \<Rightarrow> surroundings" where
  "registering L D E quote_id market side priced = E\<lparr>su_others := \<lambda>p w. fst (register_indicative L D
     (E\<lparr>su_others := \<lambda>p w. w\<rparr>) quote_id market side priced None None (w\<lparr>rw_venues := rfq_venues\<rparr>))\<rparr>"

interpretation beside_register: faithful "registering L D E (CHR ''x'' # q) market side priced" q for L D E q market side priced
proof unfold_locales
  fix w p
  have trans: "no_loss q w w' \<Longrightarrow> no_loss q w' w'' \<Longrightarrow> no_loss q w w''" for w w' w'' by (auto simp: no_loss_def)
  have "no_loss q w (w\<lparr>rw_venues := rfq_venues\<rparr>)"
    by (simp add: no_loss_def funds_for_def reserved_until_def ticket_until_def)
  moreover have "no_loss q (w\<lparr>rw_venues := rfq_venues\<rparr>) (su_others (registering L D E (CHR ''x'' # q) market side priced) p w)"
    using register_no_loss[of q "E\<lparr>su_others := \<lambda>p w. w\<rparr>" "CHR ''x'' # q"]
    by (simp add: registering_def no_loss_def)
  ultimately show "no_loss q w (su_others (registering L D E (CHR ''x'' # q) market side priced) p w)"
    by (rule trans)
qed

end
