(* ===== verification/Rfq_Lifecycle.thy ===== *)
theory Rfq_Lifecycle
  imports Rfq_Issue
begin

text \<open>
  The life of a quote around its confirm: a reject gives everything back, the wait for a split
  ends, the sweep expires what is over, a settlement is booked once, and a restart keeps the
  reservations of the quotes that may still be settled.
\<close>

section \<open>Rejects\<close>


lemma sample_holds_nothing: "holds_nothing ''q'' rfq_world_sample"
  by (auto simp: holds_nothing_def funds_held_def reserved_by_def ticket_held_def counted_def rfq_world_sample_def
    empty_cache_def has_commitment_def update_cc_balance_def update_token_balance_def new_liquidity_def entry_or_def
    new_token_def set_balance_def)


section \<open>The wait for a split\<close>

lemma split_wait_bounded: "confirm_split_wait r now \<le> MAX_CONFIRM_SPLIT_WAIT"
  by (auto simp: confirm_split_wait_def MAX_CONFIRM_SPLIT_WAIT_def FALLBACK_CONFIRM_SPLIT_WAIT_def Let_def
      split: option.split)

lemma poll_times:
  assumes "\<And>i. su_instant E (At_poll i) + CONFIRM_SPLIT_POLL \<le> su_instant E (At_poll (Suc i))"
  shows "su_instant E (At_poll i) + k * CONFIRM_SPLIT_POLL \<le> su_instant E (At_poll (i + k))"
proof (induction k)
  case (Suc k)
  then show ?case using assms[of "i + k"] by simp
qed simp

lemma wait_more:
  assumes "\<And>i. su_instant E (At_poll i) + CONFIRM_SPLIT_POLL \<le> su_instant E (At_poll (Suc i))"
    and "deadline \<le> su_instant E (At_poll i) + n * CONFIRM_SPLIT_POLL"
  shows "wait_for_split (Suc (n + m)) E select deadline i w = wait_for_split (Suc n) E select deadline i w"
  using assms(2)
proof (induction n arbitrary: i w)
  case (Suc n)
  have "deadline \<le> su_instant E (At_poll (Suc i)) + n * CONFIRM_SPLIT_POLL"
    using Suc.prems assms(1)[of i] by simp
  from Suc.IH[OF this] show ?case by (simp add: Let_def split: option.split)
qed simp

text \<open>
  C8: The wait of a confirm for an on-demand split ends: when each poll sleeps its time, the bound
  on the number of polls is never what stops the loop, so that any larger bound gives the same
  picks in the same world.
\<close>

theorem split_wait_ends:
  assumes "\<And>i. su_instant E (At_poll i) + CONFIRM_SPLIT_POLL \<le> su_instant E (At_poll (Suc i))"
    and "su_instant E At_deadline \<le> su_instant E (At_poll 0)"
  shows "wait_for_split (SPLIT_POLLS + m) E select (confirm_split_deadline E req) 0 w
    = wait_for_split SPLIT_POLLS E select (confirm_split_deadline E req) 0 w"
proof -
  have "confirm_split_deadline E req \<le> su_instant E At_deadline + MAX_CONFIRM_SPLIT_WAIT"
    using split_wait_bounded[of "cr_respond_by req" "su_millis E At_deadline"]
    by (auto simp: confirm_split_deadline_def Let_def instant_add_def split: option.split)
  then have "confirm_split_deadline E req \<le> su_instant E (At_poll 0) + (SPLIT_POLLS - 1) * CONFIRM_SPLIT_POLL"
    using assms(2) by (simp add: SPLIT_POLLS_def MAX_CONFIRM_SPLIT_WAIT_def CONFIRM_SPLIT_POLL_def)
  from wait_more[OF assms(1) this, of m] show ?thesis
    by (simp add: SPLIT_POLLS_def del: wait_for_split.simps)
qed

text \<open>Polls that take their time to the nanosecond, and a selection that never succeeds.\<close>

definition rfq_polling :: surroundings where
  "rfq_polling = (rfq_calm False)\<lparr>su_instant := \<lambda>p. case p of At_poll i \<Rightarrow> i * CONFIRM_SPLIT_POLL | _ \<Rightarrow> 0\<rparr>"

theorem split_wait_ends_witness:
  "wait_for_split (SPLIT_POLLS + 5) rfq_polling (\<lambda>p w. None :: unit option) (confirm_split_deadline rfq_polling rfq_request) 0 rfq_world_sample
    = wait_for_split SPLIT_POLLS rfq_polling (\<lambda>p w. None) (confirm_split_deadline rfq_polling rfq_request) 0 rfq_world_sample"
  by (rule split_wait_ends) (simp_all add: rfq_polling_def)

section \<open>The sweep\<close>

lemma map_of_swept:
  "distinct (map fst m) \<Longrightarrow> map_of (swept now m) q = Option.bind (map_of m q) (\<lambda>p.
     if tombstone_over now (q, p) then None else if sweep_due now (q, p) \<noteq> None then Some (Expired now) else Some p)"
proof (induction m)
  case (Cons e m)
  obtain k p where e: "e = (k, p)" by (cases e)
  have "map_of m k = None" using Cons.prems e by (auto simp: map_of_eq_None_iff)
  with Cons e show ?case by (auto simp: swept_def split: if_splits)
qed (simp add: swept_def)

lemma due_releases:
  assumes "map_of m q = Some p" and "sweep_due now (q, p) = Some r"
  shows "r \<in> set (List.map_filter (sweep_due now) m)"
  using map_of_SomeD[OF assms(1)] assms(2) by (force simp: List.map_filter_def)

context quiet begin

lemma held_others':
  "funds_held q (su_others E p w) \<Longrightarrow> funds_held q w" "reserved_by q (su_others E p w) cid \<Longrightarrow> reserved_by q w cid"
  "ticket_held q (su_others E p w) \<Longrightarrow> ticket_held q w" "counted q (su_others E p w) \<Longrightarrow> counted q w"
  using others[of w p] by (simp_all add: no_gain_def)

lemma carry_out_no_gain: "no_gain q w (carry_out_release L D E i r w)"
  unfolding no_gain_def carry_out_release_def Let_def
  by (auto simp: held_simps split: if_splits dest!: held_others')

lemma carry_out_all:
  assumes "ro_quote_id r = q" "ro_lm r" "limited_to q (ro_holding_cids r) (ro_ticket r) w"
  shows "holds_nothing q (carry_out_release L D E i r w)"
  using assms(2,3) unfolding holds_nothing_def carry_out_release_def Let_def limited_to_def assms(1)
  by (auto simp: held_simps split: if_splits dest!: held_others')

lemma carry_outs_no_gain: "no_gain q w (carry_out_releases L D E i rs w)"
proof (induction rs arbitrary: i w)
  case (Cons r rs)
  then show ?case using carry_out_no_gain no_gain_trans by (simp, blast)
qed simp

lemma carry_outs_all:
  assumes "r \<in> set rs" "ro_quote_id r = q" "ro_lm r" "limited_to q (ro_holding_cids r) (ro_ticket r) w"
  shows "holds_nothing q (carry_out_releases L D E i rs w)"
  using assms
proof (induction rs arbitrary: i w)
  case (Cons r' rs)
  show ?case
  proof (cases "r = r'")
    case True
    then show ?thesis
      using Cons.prems carry_out_all no_gain_nothing[OF carry_outs_no_gain] by simp
  next
    case False
    then show ?thesis
      using Cons limited_no_gain[OF _ carry_out_no_gain] by simp
  qed
qed simp

lemma assigned_after_expiry: "assigned_to q (if expired now e then set_status Free e else e) \<Longrightarrow> assigned_to q e"
  by (auto simp: assigned_to_def set_status_def split: if_splits)

lemma expire_pending_subset:
  "map_of (net_pending (expire_stale_pending A win sa now now' t)) q = None \<or>
   map_of (net_pending (expire_stale_pending A win sa now now' t)) q = map_of (net_pending t) q"
proof -
  have "map_of (net_pending (foldl (\<lambda>s (q, p). reverse_pending_locked A win now' p reverse_mode.Live
      (s\<lparr>net_pending := AList.delete q (net_pending s)\<rparr>)) t xs)) q \<in> {None, map_of (net_pending t) q}" for xs
  proof (induction xs arbitrary: t)
    case (Cons x xs)
    obtain i p where x: "x = (i, p)" by (cases x)
    let ?t = "reverse_pending_locked A win now' p reverse_mode.Live (t\<lparr>net_pending := AList.delete i (net_pending t)\<rparr>)"
    have "net_pending ?t = AList.delete i (net_pending t)"
      by (simp add: reverse_pending_locked_def Let_def split: prod.split)
    then have "map_of (net_pending ?t) q \<in> {None, map_of (net_pending t) q}" by (simp add: delete_conv')
    then show ?case using Cons.IH[of ?t] x by auto
  qed simp
  then show ?thesis by (auto simp: expire_stale_pending_def Let_def)
qed

lemma housekeeping_no_gain: "no_gain q w (housekeeping L D E now w)"
proof -
  let ?w1 = "su_others E At_ticket w"
  let ?w2 = "?w1\<lparr>rw_pool := map_option (expire_assignments now) (rw_pool ?w1)\<rparr>"
  let ?w3 = "su_others E At_record ?w2"
  let ?w4 = "?w3\<lparr>rw_net := map_option (expire_stale_pending (rl_net L) (rd_window_hours D)
      (rd_stale_pending_after D) (su_millis E At_record) (su_millis E At_recorded)) (rw_net ?w3)\<rparr>"
  let ?w5 = "su_others E At_recorded ?w4"
  let ?check = "\<lambda>t. fst (checkpoint_snapshot (rl_net L) (rd_window_hours D) (su_millis E At_issue) (su_instant E At_issue) t)"
  have "ticket_held q ?w2 \<Longrightarrow> ticket_held q ?w1"
  proof -
    assume "ticket_held q ?w2"
    then obtain m where m: "rw_pool ?w1 = Some m" "\<exists>k e. expire_assignments now m k = Some e \<and> assigned_to q e"
      by (auto simp: ticket_held_def)
    then have "\<exists>k e. m k = Some e \<and> assigned_to q e"
      unfolding expire_assignments_def assigned_where using assigned_after_expiry by blast
    with m(1) show "ticket_held q ?w1" by (auto simp: ticket_held_def)
  qed
  then have "no_gain q ?w1 ?w2" by (simp add: no_gain_def held_simps)
  moreover have "counted q ?w4 \<Longrightarrow> counted q ?w3"
  proof -
    have "map_of (net_pending (expire_stale_pending A win sa u u' t)) q = Some y \<Longrightarrow> \<exists>y. map_of (net_pending t) q = Some y"
      for A :: "f64 net_arith" and win sa u u' t y
      using expire_pending_subset[where A = A and win = win and sa = sa and now = u and now' = u' and t = t]
      by (cases "map_of (net_pending t) q") auto
    moreover assume "counted q ?w4"
    ultimately show "counted q ?w3" unfolding counted_def by auto
  qed
  then have "no_gain q ?w3 ?w4" by (simp add: no_gain_def held_simps)
  moreover have "net_pending (?check t) = net_pending t" for t
    by (simp add: checkpoint_snapshot_def sweep_decayed_def Let_def)
  then have "no_gain q ?w5 (?w5\<lparr>rw_net := map_option ?check (rw_net ?w5)\<rparr>)"
    by (auto simp: no_gain_def held_simps counted_def)
  ultimately have "no_gain q w (?w5\<lparr>rw_net := map_option ?check (rw_net ?w5)\<rparr>)"
    using others no_gain_trans by meson
  then show ?thesis by (simp add: housekeeping_def Let_def)
qed

lemma sweep_parts:
  obtains w1 where "no_gain q (su_others E At_lookup w) w1"
    "sweep L D E now w = housekeeping L D E now (carry_out_releases L D E 0
       (List.map_filter (sweep_due now) (rw_pending (su_others E At_lookup w))) w1)"
proof -
  let ?w = "su_others E At_lookup w"
  let ?w1 = "?w\<lparr>rw_pending := swept now (rw_pending ?w)\<rparr>"
  have "no_gain q ?w ?w1" by (simp add: no_gain_def held_simps)
  moreover have "no_gain q ?w1 (let w = su_others E At_gc ?w1 in w\<lparr>rw_correlation := r w\<rparr>)" for r
    using others[of ?w1 At_gc] by (simp add: no_gain_def held_simps Let_def)
  ultimately have both: "no_gain q ?w (let w = su_others E At_gc ?w1 in w\<lparr>rw_correlation := r w\<rparr>)" for r
    using no_gain_trans by blast
  show ?thesis
  proof (cases "map fst (filter (tombstone_over now) (rw_pending ?w)) = []")
    case True
    then show ?thesis using that[OF \<open>no_gain q ?w ?w1\<close>] by (simp add: sweep_def Let_def)
  next
    case False
    then show ?thesis using that[OF both] by (simp add: sweep_def Let_def)
  qed
qed

lemma sweep_no_gain: "no_gain q w (sweep L D E now w)"
proof (rule sweep_parts)
  fix w1 assume "no_gain q (su_others E At_lookup w) w1"
    and "sweep L D E now w = housekeeping L D E now (carry_out_releases L D E 0
       (List.map_filter (sweep_due now) (rw_pending (su_others E At_lookup w))) w1)"
  then show ?thesis
    using no_gain_trans[OF no_gain_trans[OF no_gain_trans[OF others] carry_outs_no_gain] housekeeping_no_gain] by simp
qed

lemma sweep_releases:
  assumes "map_of (rw_pending (su_others E At_lookup w)) q = Some p" and "sweep_due now (q, p) = Some r" and "ro_lm r"
    and "limited_to q (ro_holding_cids r) (ro_ticket r) (su_others E At_lookup w)"
  shows "holds_nothing q (sweep L D E now w)"
proof (rule sweep_parts)
  fix w1 assume w1: "no_gain q (su_others E At_lookup w) w1"
    and sweep: "sweep L D E now w = housekeeping L D E now (carry_out_releases L D E 0
       (List.map_filter (sweep_due now) (rw_pending (su_others E At_lookup w))) w1)"
  have "ro_quote_id r = q" using assms(2) by (auto simp: sweep_due_def split: pending_v2.splits if_splits)
  then have "holds_nothing q (carry_out_releases L D E 0
       (List.map_filter (sweep_due now) (rw_pending (su_others E At_lookup w))) w1)"
    using carry_outs_all[OF due_releases[OF assms(1,2)]] assms(3) limited_no_gain[OF assms(4) w1] by blast
  then show ?thesis unfolding sweep using no_gain_nothing[OF housekeeping_no_gain] by blast
qed

end

lemma pending_release [simp]: "rw_pending (release_funds q w) = rw_pending w" "rw_pending (release_net L D n q w) = rw_pending w"
  "rw_pending (release_holdings cids w) = rw_pending w" "rw_pending (release_ticket q w) = rw_pending w"
  by (simp_all add: release_funds_def release_net_def release_holdings_def release_ticket_def)

lemma sweep_pending:
  assumes "\<And>p w. map_of (rw_pending (su_others E p w)) q = map_of (rw_pending w) q"
    and "distinct (map fst (rw_pending (su_others E At_lookup w)))"
  shows "map_of (rw_pending (sweep L D E now w)) q = Option.bind (map_of (rw_pending w) q) (\<lambda>p.
     if tombstone_over now (q, p) then None else if sweep_due now (q, p) \<noteq> None then Some (Expired now) else Some p)"
proof -
  have release: "map_of (rw_pending (carry_out_release L D E i r w)) q = map_of (rw_pending w) q" for i r w
    by (simp add: carry_out_release_def Let_def assms(1))
  have releases: "map_of (rw_pending (carry_out_releases L D E i rs w)) q = map_of (rw_pending w) q" for i rs w
    by (induction rs arbitrary: i w) (simp_all add: release)
  have "map_of (rw_pending (housekeeping L D E now w)) q = map_of (rw_pending w) q" for w
    by (simp add: housekeeping_def Let_def assms(1))
  then show ?thesis
    by (simp add: sweep_def Let_def releases map_of_swept[OF assms(2)] assms(1))
qed

text \<open>
  C9: A confirmed quote past its window is given up by the sweep: provided that it holds no more
  than its entry records, that other tasks take nothing for it and leave its entry alone, it
  holds nothing afterwards and is recorded as expired.
\<close>

theorem sweep_expires_quote:
  assumes "\<And>p w. no_gain q w (su_others E p w)"
    and "\<And>p w. map_of (rw_pending (su_others E p w)) q = map_of (rw_pending w) q"
    and "distinct (map fst (rw_pending (su_others E At_lookup w)))"
    and "map_of (rw_pending w) q = Some (Confirmed c)" and "cq_expires_at c \<le> now"
    and "limited_to q (cq_holding_cids c) (cq_ticket_id c \<noteq> []) w"
  shows "holds_nothing q (sweep L D E now w)
    \<and> map_of (rw_pending (sweep L D E now w)) q = Some (Expired now)"
proof
  have quiet: "quiet E q" using assms(1) by (rule quiet.intro)
  show "holds_nothing q (sweep L D E now w)"
    by (rule quiet.sweep_releases[OF quiet])
      (use assms(2,4-6) quiet.limited_others[OF quiet] in \<open>auto simp: sweep_due_def\<close>)
  show "map_of (rw_pending (sweep L D E now w)) q = Some (Expired now)"
    using sweep_pending[OF assms(2,3), of L D now] assms(4,5) by (simp add: sweep_due_def tombstone_over_def)
qed

definition rfq_confirmed :: confirmed_quote where
  "rfq_confirmed = \<lparr>cq_holding_cids = [''h''], cq_ticket_id = [], cq_ticket_cid = None, cq_envelope = None,
     cq_valid_until_micros = 110000000, cq_lp_pays_token = ''CC'', cq_lp_pays_amount = 7, cq_expires_at = 91000000000,
     cq_market_id = ''A-B''\<rparr>"

definition rfq_confirmed_world :: rfq_world where
  "rfq_confirmed_world = rfq_world_sample\<lparr>rw_pending := [(''q'', Confirmed rfq_confirmed)],
     rw_cache := (rw_cache rfq_world_sample)\<lparr>hc_reserved :=
       [''h'' \<mapsto> \<lparr>re_kind = V2Quote ''q'' 91000000000, re_reserved_at = 1000000000\<rparr>]\<rparr>\<rparr>"

lemma confirmed_world_limited: "limited_to ''q'' [''h''] t rfq_confirmed_world"
  using sample_holds_nothing
  by (auto simp: limited_to_def holds_nothing_def rfq_confirmed_world_def reserved_by_def held_simps split: if_splits)

theorem sweep_expires_quote_witness:
  "holds_nothing ''q'' (sweep rfq_lib_sample (rfq_desk_sample False) (rfq_calm False) 91000000000 rfq_confirmed_world)"
proof -
  have "rw_pending rfq_confirmed_world = [(''q'', Confirmed rfq_confirmed)]" by (simp add: rfq_confirmed_world_def)
  then show ?thesis
    by (intro conjunct1[OF sweep_expires_quote[where c = rfq_confirmed]])
      (simp_all add: rfq_calm_def rfq_confirmed_def confirmed_world_limited)
qed

section \<open>A reservation lost to the sweep\<close>

text \<open>Surroundings in which nothing else runs, and in which the sweep runs at every place.\<close>

definition sweeping :: "rfq_lib \<Rightarrow> rfq_desk \<Rightarrow> surroundings \<Rightarrow> nat \<Rightarrow> surroundings" where
  "sweeping L D E now = E\<lparr>su_others := \<lambda>p w. sweep L D (E\<lparr>su_others := \<lambda>p w. w\<rparr>) now w\<rparr>"

interpretation undisturbed: quiet "E\<lparr>su_others := \<lambda>p w. w\<rparr>" q for E q
  by unfold_locales simp

interpretation beside_sweep: quiet "sweeping L D E now" q for L D E now q
  by unfold_locales (simp add: sweeping_def undisturbed.sweep_no_gain)

interpretation beside_confirm: bystander "sweeping L D E now" q "CHR ''x'' # q" for L D E now q
  by unfold_locales simp

lemma carry_out_frees:
  assumes "\<And>p w. no_gain q w (su_others E p w)" and "\<not> reserved_by q w cid \<or> r \<in> set rs \<and> cid \<in> set (ro_holding_cids r)"
  shows "\<not> reserved_by q (carry_out_releases L D E i rs w) cid"
  using assms(2)
proof (induction rs arbitrary: i w)
  case (Cons r' rs)
  have quiet: "quiet E q" using assms(1) by (rule quiet.intro)
  have step: "reserved_by q (carry_out_release L D E i r' w) cid \<Longrightarrow> reserved_by q w cid"
    using quiet.carry_out_no_gain[OF quiet, of w L D i r'] by (simp add: no_gain_def)
  have freed: "\<not> reserved_by q (carry_out_release L D E i r' w) cid" if "cid \<in> set (ro_holding_cids r')"
  proof -
    have "\<not> reserved_by q (release_holdings (ro_holding_cids r') v) cid" for v using that by (simp add: held_simps)
    moreover have "ro_holding_cids r' \<noteq> []" using that by auto
    moreover have "\<not> reserved_by q v cid \<Longrightarrow> \<not> reserved_by q (su_others E p v) cid" for v p
      using quiet.held_others'(2)[OF quiet] by blast
    ultimately show ?thesis by (simp add: carry_out_release_def Let_def held_simps)
  qed
  have "\<not> reserved_by q (carry_out_release L D E i r' w) cid \<or> r \<in> set rs \<and> cid \<in> set (ro_holding_cids r)"
    using Cons.prems freed step by auto
  from Cons.IH[OF this] show ?case by simp
qed simp

text \<open>
  A reservation can be lost: once a confirmed quote is past its window and not yet swept, a
  holding it had reserved can be reserved for another quote, and the sweep then frees the
  holding under that quote, whose window has not ended.
\<close>

theorem sweep_frees_new_reservation:
  assumes "map_of (rw_pending (w :: rfq_world)) q1 = Some (Confirmed c)" and "cid \<in> set (cq_holding_cids c)"
    and "hc_reserved (rw_cache w) cid = Some e" and "re_kind e = V2Quote q1 (cq_expires_at c)"
    and "hc_consumed (rw_cache w) cid = None" and "cq_expires_at c \<le> t" and "t \<le> now"
  shows "\<exists>w'. reserve_v2 t [cid] q2 x (rw_cache w) = (True, rw_cache w') \<and> reserved_until q2 w' x cid
    \<and> \<not> reserved_by q2 (sweep L D (E\<lparr>su_others := \<lambda>p w. w\<rparr>) now w') cid"
proof -
  let ?E = "E\<lparr>su_others := \<lambda>p w. w\<rparr>"
  let ?c = "(rw_cache w)\<lparr>hc_reserved := put_reserved \<lparr>re_kind = V2Quote q2 x, re_reserved_at = t\<rparr> [cid] (hc_reserved (rw_cache w))\<rparr>"
  let ?w = "w\<lparr>rw_cache := ?c\<rparr>"
  let ?r = "\<lparr>ro_quote_id = q1, ro_lm = True, ro_holding_cids = cq_holding_cids c, ro_ticket = (cq_ticket_id c \<noteq> [])\<rparr>"
  have "reserve_v2 t [cid] q2 x (rw_cache w) = (True, rw_cache ?w)"
    using assms(3-6) by (simp add: reserve_v2_def reserve_with_kind_def is_consumed_def is_reserved_def reservation_expired_def)
  moreover have "reserved_until q2 ?w x cid" by (simp add: reserved_until_def put_reserved_eq)
  moreover have "\<not> reserved_by q2 (sweep L D ?E now ?w) cid"
  proof (rule quiet.sweep_parts[OF undisturbed.quiet_axioms])
    fix w1 assume sweep: "sweep L D ?E now ?w = housekeeping L D ?E now (carry_out_releases L D ?E 0
       (List.map_filter (sweep_due now) (rw_pending (su_others ?E At_lookup ?w))) w1)"
    have "?r \<in> set (List.map_filter (sweep_due now) (rw_pending (su_others ?E At_lookup ?w)))"
      by (rule due_releases[of _ q1 "Confirmed c"]) (use assms(1,6,7) in \<open>simp_all add: sweep_due_def\<close>)
    then have "\<not> reserved_by q2 (carry_out_releases L D ?E 0
       (List.map_filter (sweep_due now) (rw_pending (su_others ?E At_lookup ?w))) w1) cid"
      using carry_out_frees[of q2 ?E w1 cid ?r] assms(2) by simp
    then show ?thesis
      unfolding sweep using quiet.housekeeping_no_gain[OF undisturbed.quiet_axioms[of E q2]] by (auto simp: no_gain_def)
  qed
  ultimately show ?thesis by blast
qed

theorem sweep_frees_new_reservation_witness:
  "\<exists>w'. reserved_until ''r'' w' 200000000000 ''h''
    \<and> \<not> reserved_by ''r'' (sweep rfq_lib_sample (rfq_desk_sample False) ((rfq_calm False)\<lparr>su_others := \<lambda>p w. w\<rparr>) 92000000000 w') ''h''"
  using sweep_frees_new_reservation[where w = rfq_confirmed_world and c = rfq_confirmed and ?q1.0 = "''q''" and cid = "''h''"
      and t = 91000000000 and now = 92000000000 and ?q2.0 = "''r''" and x = 200000000000 and L = rfq_lib_sample
      and D = "rfq_desk_sample False" and E = "rfq_calm False"]
  by (auto simp: rfq_confirmed_world_def rfq_confirmed_def rfq_world_sample_def empty_cache_def)

section \<open>Settlement\<close>

lemma net_settle_pending: "map_of (net_pending (net_settle q t)) p = (if p = q then None else map_of (net_pending t) p)"
  by (auto simp: net_settle_def delete_conv' split: option.split)

lemma assigned_after_spent: "assigned_to q (if assigned_to p e then set_status Spent e else e) \<longleftrightarrow> assigned_to q e \<and> q \<noteq> p"
  by (auto simp: assigned_to_def set_status_def split: ticket_status.splits)

lemma ticket_after_spent:
  "ticket_held q (w\<lparr>rw_pool := map_option (mark_spent p) (rw_pool w)\<rparr>) \<longleftrightarrow> ticket_held q w \<and> q \<noteq> p"
proof -
  have "ticket_held q (w\<lparr>rw_pool := map_option (mark_spent p) (rw_pool w)\<rparr>) \<longleftrightarrow>
      (\<exists>m. rw_pool w = Some m \<and> (\<exists>k e. mark_spent p m k = Some e \<and> assigned_to q e))"
    by (auto simp: ticket_held_def)
  then show ?thesis
    unfolding mark_spent_def assigned_where assigned_after_spent by (auto simp: ticket_held_def)
qed

lemma ticket_spent: "\<not> ticket_held q (w\<lparr>rw_pool := map_option (mark_spent q) m\<rparr>)"
  using ticket_after_spent[where q = q and p = q and w = "w\<lparr>rw_pool := m\<rparr>"] by simp

lemma outflow_held [held_simps]:
  "funds_held q (w\<lparr>rw_liquidity := record_outflow now k x (rw_liquidity w)\<rparr>) = funds_held q w"
  by (simp add: funds_held_def record_outflow_def has_commitment_def)

lemma settled_net [held_simps]:
  "counted q (w\<lparr>rw_net := map_option (net_settle p) (rw_net w)\<rparr>) \<longleftrightarrow> counted q w \<and> q \<noteq> p"
  by (auto simp: counted_def net_settle_pending split: if_splits)

lemma flows_released [simp]: "flows (rw_liquidity (release_funds q w)) = flows (rw_liquidity w)"
  by (simp add: release_funds_def release_def on_commitments_def)

lemma put_pending_parts [simp]:
  "rw_liquidity (put_pending q p w) = rw_liquidity w" "rw_pool (put_pending q p w) = rw_pool w"
  "map_of (rw_pending (put_pending q p w)) q = Some p"
  by (simp_all add: put_pending_def update_conv')

text \<open>
  An observed settlement of a confirmed quote frees its committed funds, spends its ticket and
  makes its counted position final, and the quote is settled: a second observation changes
  nothing.
\<close>

theorem settlement_booked_once:
  assumes "map_of (rw_pending w) q = Some (Confirmed c)" and "cq_ticket_id c = [] \<longrightarrow> \<not> ticket_held q w"
    and "w' = handle_settle_observed L (E\<lparr>su_others := \<lambda>p w. w\<rparr>) q w"
  shows "map_of (rw_pending w') q = Some (Settled (su_instant E At_lookup))
    \<and> \<not> funds_held q w' \<and> \<not> ticket_held q w' \<and> \<not> counted q w'
    \<and> flows (rw_liquidity w') = (if cq_lp_pays_token c = [] then flows (rw_liquidity w)
        else flows (record_outflow (su_instant E At_record) (cq_lp_pays_token c) (dec_f64 L (cq_lp_pays_amount c)) (rw_liquidity w)))
    \<and> handle_settle_observed L (E\<lparr>su_others := \<lambda>p w. w\<rparr>) q w' = w'"
proof -
  have "map_of (rw_pending w') q = Some (Settled (su_instant E At_lookup))"
    by (simp add: assms(1,3) handle_settle_observed_def Let_def)
  then show ?thesis
    using assms(2)
    by (simp add: assms(1,3) handle_settle_observed_def Let_def held_simps ticket_spent)
qed

theorem settlement_booked_once_witness:
  "\<not> funds_held ''q'' (handle_settle_observed rfq_lib_sample ((rfq_calm False)\<lparr>su_others := \<lambda>p w. w\<rparr>) ''q'' rfq_confirmed_world)"
proof -
  have "map_of (rw_pending rfq_confirmed_world) ''q'' = Some (Confirmed rfq_confirmed)" "\<not> ticket_held ''q'' rfq_confirmed_world"
    by (simp_all add: rfq_confirmed_world_def ticket_held_def rfq_world_sample_def)
  with settlement_booked_once[where w = rfq_confirmed_world, OF _ _ refl] show ?thesis by blast
qed

section \<open>Restart\<close>

lemma reserved_restored:
  "hc_reserved (restore_v2_reservation now cids q x c) cid =
     (if cid \<in> set cids then Some \<lparr>re_kind = V2Quote q x, re_reserved_at = now\<rparr> else hc_reserved c cid)"
  by (simp add: restore_v2_reservation_def put_reserved_eq)

lemma correlated: "map_of (rw_correlation (correlate q cids w)) cid =
    (if cid \<in> set cids then Some q else map_of (rw_correlation w) cid)"
proof -
  have "map_of (foldl (\<lambda>m cid. AList.update cid q m) m cids) cid = (if cid \<in> set cids then Some q else map_of m cid)" for m
    by (induction cids arbitrary: m) (auto simp: update_conv')
  then show ?thesis by (simp add: correlate_def)
qed

text \<open>What a saved quote that is restored at a time comes back as.\<close>

definition restored_as :: "saved_pending \<Rightarrow> nat \<Rightarrow> rfq_world \<Rightarrow> bool" where
  "restored_as p x w \<longleftrightarrow> (\<exists>c. map_of (rw_pending w) (sp_quote_id p) = Some (Confirmed c)
       \<and> cq_holding_cids c = sp_holding_cids p \<and> cq_ticket_id c = sp_ticket_id p \<and> cq_market_id c = sp_market_id p
       \<and> cq_valid_until_micros c = sp_valid_until_micros p \<and> cq_expires_at c = x)
     \<and> (\<forall>cid \<in> set (sp_holding_cids p). reserved_until (sp_quote_id p) w x cid
          \<and> quote_for_cid w cid = Some (sp_quote_id p))"

lemma restore_quote_as:
  assumes "restored_ttl D now_micros p = Some ttl" "instant_add (su_instant E (At_nth i At_lookup)) ttl = Some x"
    and "\<And>p w. su_others E p w = w"
  shows "restored_as p x (restore_quote D E now_micros i p w)"
  by (auto simp: restore_quote_def assms Let_def restored_as_def put_pending_def update_conv' reserved_until_def
      correlated quote_for_cid_def reserved_restored)
    (auto simp: correlate_def reserved_restored)

lemma restore_quote_other:
  assumes "restored_as p x w" "sp_quote_id p' \<noteq> sp_quote_id p" "set (sp_holding_cids p') \<inter> set (sp_holding_cids p) = {}"
    and "\<And>p w. su_others E p w = w"
  shows "restored_as p x (restore_quote D E now_micros i p' w)"
proof (cases "Option.bind (restored_ttl D now_micros p') (instant_add (su_instant E (At_nth i At_lookup)))")
  case (Some x')
  have "cid \<notin> set (sp_holding_cids p')" if "cid \<in> set (sp_holding_cids p)" for cid using that assms(3) by auto
  then show ?thesis
    using Some assms(1,2,4)
    by (auto simp: restore_quote_def Let_def restored_as_def put_pending_def update_conv' reserved_until_def
        quote_for_cid_def correlate_def correlated[unfolded correlate_def, simplified] reserved_restored)
qed (use assms(1) in \<open>simp add: restore_quote_def\<close>)

lemma restore_quotes_other:
  assumes "restored_as p x w" "\<And>p'. p' \<in> set ps \<Longrightarrow> sp_quote_id p' \<noteq> sp_quote_id p \<and> set (sp_holding_cids p') \<inter> set (sp_holding_cids p) = {}"
    and "\<And>p w. su_others E p w = w"
  shows "restored_as p x (restore_quotes D E now_micros i ps w)"
  using assms(1,2)
proof (induction ps arbitrary: i w)
  case (Cons p' ps)
  then show ?case using restore_quote_other[OF Cons.prems(1) _ _ assms(3)] by simp
qed simp

lemma restore_quotes_as:
  assumes "p \<in> set ps" "distinct (map sp_quote_id ps)"
    and "\<And>p'. p' \<in> set ps \<Longrightarrow> p' \<noteq> p \<Longrightarrow> set (sp_holding_cids p') \<inter> set (sp_holding_cids p) = {}"
    and "restored_ttl D now_micros p = Some ttl" "\<And>i. su_instant E (At_nth i At_lookup) + ttl < 2 ^ 63 * 10 ^ 9"
    and "\<And>p w. su_others E p w = w"
  shows "\<exists>j. restored_as p (su_instant E (At_nth j At_lookup) + ttl) (restore_quotes D E now_micros i ps w)"
  using assms(1-3)
proof (induction ps arbitrary: i w)
  case (Cons p' ps)
  show ?case
  proof (cases "p' = p")
    case True
    have "instant_add (su_instant E (At_nth i At_lookup)) ttl = Some (su_instant E (At_nth i At_lookup) + ttl)"
      using assms(5) by (simp add: instant_add_def)
    note as = restore_quote_as[where E = E, OF assms(4) this assms(6)]
    have "restored_as p (su_instant E (At_nth i At_lookup) + ttl) (restore_quotes D E now_micros i (p' # ps) w)"
    proof -
      have "sp_quote_id p'' \<noteq> sp_quote_id p \<and> set (sp_holding_cids p'') \<inter> set (sp_holding_cids p) = {}" if "p'' \<in> set ps" for p''
      proof
        show "sp_quote_id p'' \<noteq> sp_quote_id p" using Cons.prems(2) True that by (metis distinct.simps(2) image_eqI list.set_map list.simps(9))
        then show "set (sp_holding_cids p'') \<inter> set (sp_holding_cids p) = {}" using Cons.prems(3)[of p''] that by auto
      qed
      from restore_quotes_other[OF as this assms(6)] show ?thesis using True by simp
    qed
    then show ?thesis ..
  qed (use Cons in auto)
qed simp

text \<open>The restoration commits no funds, whatever it restores.\<close>

lemma restore_commits_nothing:
  "rw_liquidity (restore_pending D (E\<lparr>su_others := \<lambda>p w. w\<rparr>) saved w) = rw_liquidity w"
proof -
  have "rw_liquidity (restore_quote D (E\<lparr>su_others := \<lambda>p w. w\<rparr>) m i p w) = rw_liquidity w" for m i p w
    by (simp add: restore_quote_def Let_def correlate_def split: option.split)
  then have "rw_liquidity (restore_quotes D (E\<lparr>su_others := \<lambda>p w. w\<rparr>) m i saved w) = rw_liquidity w" for m i
    by (induction saved arbitrary: i w) simp_all
  then show ?thesis by (simp add: restore_pending_def)
qed



end
