(* ===== verification/Payment_Queue.thy ===== *)
theory Payment_Queue
  imports Holdings_Cache
begin

text \<open>
  \<open>crates/cloud-agent/src/payment_queue.rs\<close>: the queue that runs allocations and fee payments.
  A scheduler takes payments by priority, selects and reserves amulets for them and starts
  workers within the permits of two pools; workers run beside it. The queue is a machine: its
  events are what callers do, one round or one dispatch of the scheduler, the end of a worker,
  and whatever else happens to the shared holdings cache. Clocks, the order of the hash map and
  what other tasks do to the cache between two of its locks are arguments of an event, as are
  the answers of the ledger. A worker returns its permit between two dispatches.
\<close>

section \<open>Payments\<close>

datatype payment_priority = High | Normal

text \<open>\<open>impl Ord for PaymentPriority\<close>: the lower number is the greater.\<close>

instantiation payment_priority :: linorder
begin

definition less_eq_payment_priority :: "payment_priority \<Rightarrow> payment_priority \<Rightarrow> bool" where
  "less_eq_payment_priority p q \<longleftrightarrow> p = Normal \<or> q = High"

definition less_payment_priority :: "payment_priority \<Rightarrow> payment_priority \<Rightarrow> bool" where
  "less_payment_priority p q \<longleftrightarrow> p = Normal \<and> q = High"

instance
proof
  fix p q r :: payment_priority
  show "p < q \<longleftrightarrow> p \<le> q \<and> \<not> q \<le> p" "p \<le> p" "p \<le> q \<or> q \<le> p"
    by (cases p; cases q; simp add: less_eq_payment_priority_def less_payment_priority_def)+
  show "p \<le> q \<Longrightarrow> q \<le> r \<Longrightarrow> p \<le> r" "p \<le> q \<Longrightarrow> q \<le> p \<Longrightarrow> p = q"
    by (cases p; cases q; simp add: less_eq_payment_priority_def)+
qed

end

datatype payment_request = Pay_Fee string string | Allocate string string "rat option"

record queued_payment =
  qu_priority :: payment_priority
  qu_sequence :: nat
  qu_request :: payment_request
  qu_caller :: nat

text \<open>\<open>a \<ge> b\<close> of \<open>QueuedPayment\<close>: the higher priority, then the lower sequence.\<close>

definition outranks :: "queued_payment \<Rightarrow> queued_payment \<Rightarrow> bool" where
  "outranks a b \<longleftrightarrow> qu_priority b < qu_priority a
     \<or> qu_priority a = qu_priority b \<and> qu_sequence a \<le> qu_sequence b"

text \<open>\<open>BinaryHeap::pop\<close>: the greatest item and the rest.\<close>

fun pop :: "queued_payment list \<Rightarrow> (queued_payment \<times> queued_payment list) option" where
  "pop [] = None"
| "pop (x # xs) = (case pop xs of
       None \<Rightarrow> Some (x, [])
     | Some (y, ys) \<Rightarrow> if outranks x y then Some (x, xs) else Some (y, x # ys))"

fun is_fee :: "payment_request \<Rightarrow> bool" where
  "is_fee (Pay_Fee proposal_id fee_type) \<longleftrightarrow> True"
| "is_fee (Allocate proposal_id dvp_cid allocation_cc) \<longleftrightarrow> False"

fun is_allocation :: "payment_request \<Rightarrow> bool" where
  "is_allocation (Allocate proposal_id dvp_cid (Some cc)) \<longleftrightarrow> True"
| "is_allocation request \<longleftrightarrow> False"

section \<open>Amulets\<close>

definition MAX_AMULET_INPUTS :: nat where "MAX_AMULET_INPUTS = 100"
definition AMULET_SELECTION_MARGIN :: rat where "AMULET_SELECTION_MARGIN = 1"
definition CHANNEL_REBUILD_AFTER :: nat where "CHANNEL_REBUILD_AFTER = 3"

record cached_amulet =
  am_contract_id :: string
  am_amount :: rat
  am_discovered_at :: nat

definition holding_to_amulet :: "cached_holding \<Rightarrow> cached_amulet" where
  "holding_to_amulet h = \<lparr>am_contract_id = h_contract_id h, am_amount = h_amount h, am_discovered_at = h_discovered_at h\<rparr>"

definition get_selectable_amulets :: "string list \<Rightarrow> nat \<Rightarrow> bool \<Rightarrow> holdings_cache \<Rightarrow> cached_amulet list" where
  "get_selectable_amulets ks now exclude_reserve c =
     map holding_to_amulet (get_selectable ks c now CC_INSTRUMENT exclude_reserve)"

definition with_fee_margin :: "dec_arith \<Rightarrow> rat \<Rightarrow> rat option" where
  "with_fee_margin A amount = d_mul A amount (102 / 100)"

definition payment_target :: "dec_arith \<Rightarrow> payment_request \<Rightarrow> rat option" where
  "payment_target A request =
     Option.bind (case request of
         Allocate proposal_id dvp_cid (Some cc) \<Rightarrow> d_add A cc AMULET_SELECTION_MARGIN
       | _ \<Rightarrow> Some 0) (\<lambda>target.
     Option.bind (with_fee_margin A target) (\<lambda>m. Some target))"

text \<open>The loop over the amounts, largest first, with their indices.\<close>

fun take_largest :: "dec_arith \<Rightarrow> rat \<Rightarrow> (nat \<times> rat) list \<Rightarrow> nat list \<Rightarrow> rat \<Rightarrow> nat list" where
  "take_largest A target [] selected tot = []"
| "take_largest A target ((i, amount) # rest) selected tot =
     (if length selected \<ge> MAX_AMULET_INPUTS then []
      else (case d_add A tot amount of
          None \<Rightarrow> selected @ [i]
        | Some t \<Rightarrow> if t \<ge> target then selected @ [i]
            else take_largest A target rest (selected @ [i]) t))"

definition select_amulet_indices :: "dec_arith \<Rightarrow> rat list \<Rightarrow> rat \<Rightarrow> nat list" where
  "select_amulet_indices A ascending target =
     (if target \<le> 0 then []
      else (case find (\<lambda>(i, amount). amount \<ge> target) (enumerate 0 ascending) of
          Some (i, amount) \<Rightarrow> [i]
        | None \<Rightarrow> take_largest A target (rev (enumerate 0 ascending)) [] 0))"

definition select_amulets_for_allocation :: "dec_arith \<Rightarrow> cached_amulet list \<Rightarrow> rat \<Rightarrow> cached_amulet list" where
  "select_amulets_for_allocation A selectable estimated_cc =
     (if estimated_cc \<le> 0 then []
      else (case with_fee_margin A estimated_cc of
          None \<Rightarrow> []
        | Some target \<Rightarrow> map (\<lambda>i. selectable ! i)
            (filter (\<lambda>i. i < length selectable)
              (select_amulet_indices A (map am_amount selectable) target))))"

definition selection_short :: "dec_arith \<Rightarrow> cached_amulet list \<Rightarrow> rat \<Rightarrow> bool" where
  "selection_short A selected need \<longleftrightarrow>
     (case dec_sum A (map am_amount selected) of Some s \<Rightarrow> s < need | None \<Rightarrow> False)"

section \<open>What the ledger answers\<close>

text \<open>An error is the chain of its texts, the outermost first.\<close>

type_synonym payment_error = "string list"

record payment_result =
  pr_contract_id :: string
  pr_update_id :: string
  pr_traffic_total :: nat

record created_amulet =
  ct_contract_id :: string
  ct_template_id :: string
  ct_amount :: string

record submit_response =
  sr_update_id :: string
  sr_contract_id :: "string option"
  sr_traffic :: "nat option"
  sr_created :: "created_amulet list"

record worker_flags =
  wf_dry_run :: bool
  wf_confirm :: bool

text \<open>
  What a worker meets: whether the operator refuses, whether its client can be made, the answer
  to a fee and to a submit, whether it was slow, two clock readings and what other tasks do to
  the cache between the two updates after a success.
\<close>

record worker_answer =
  wa_refusal :: "payment_error option"
  wa_client :: "payment_error option"
  wa_fee :: "payment_error option"
  wa_submit :: "payment_error + submit_response"
  wa_slow :: bool
  wa_consumed_at :: nat
  wa_created_at :: nat
  wa_others :: "holdings_cache \<Rightarrow> holdings_cache"

definition is_timeout :: "payment_error \<Rightarrow> bool" where
  "is_timeout e \<longleftrightarrow> list_ex (str_contains (join_with '': '' e)) [''client deadline'', ''Timeout expired'', ''timed out'']"

definition outer_text :: "payment_error \<Rightarrow> string" where
  "outer_text e = (case e of [] \<Rightarrow> [] | s # ss \<Rightarrow> s)"

definition created_amulets :: "(string \<Rightarrow> rat option) \<Rightarrow> nat \<Rightarrow> created_amulet list \<Rightarrow> cached_holding list" where
  "created_amulets parse now cs = List.map_filter (\<lambda>c. Option.bind (parse (ct_amount c)) (\<lambda>amount.
       if amount \<le> 0 then None else Some (amulet_to_holding (ct_contract_id c) amount now)))
     (filter (\<lambda>c. str_contains (ct_template_id c) ''Amulet'' \<and> \<not> str_contains (ct_template_id c) ''Rules'') cs)"

definition process_tx_result ::
  "(string \<Rightarrow> rat option) \<Rightarrow> worker_answer \<Rightarrow> string list \<Rightarrow> submit_response \<Rightarrow> holdings_cache \<Rightarrow> holdings_cache" where
  "process_tx_result parse a input_cids resp c =
     (let c = (if input_cids = [] then c
               else mark_consumed (wa_consumed_at a) input_cids (sr_update_id resp) c);
          new_amulets = created_amulets parse (wa_created_at a) (sr_created resp)
      in if new_amulets = [] then c else add_created new_amulets (wa_others a c))"

definition handle_inactive_contracts :: "worker_answer \<Rightarrow> string list \<Rightarrow> holdings_cache \<Rightarrow> holdings_cache" where
  "handle_inactive_contracts a input_cids c =
     (if input_cids = [] then c else mark_consumed (wa_consumed_at a) input_cids ''inactive'' c)"

section \<open>Execution\<close>

definition refused :: "worker_flags \<Rightarrow> worker_answer \<Rightarrow> payment_error option" where
  "refused fl a = (if wf_confirm fl \<and> \<not> wf_dry_run fl then wa_refusal a else None)"

definition execute_pay_fee ::
  "worker_flags \<Rightarrow> worker_answer \<Rightarrow> string \<Rightarrow> string \<Rightarrow> payment_error + payment_result" where
  "execute_pay_fee fl a proposal_id fee_type =
     (let paid = Inr \<lparr>pr_contract_id = [], pr_update_id = fee_type @ '':'' @ proposal_id, pr_traffic_total = 0\<rparr> in
      case refused fl a of
        Some e \<Rightarrow> Inl e
      | None \<Rightarrow> if wf_dry_run fl then paid
          else (case wa_client a of
              Some e \<Rightarrow> Inl e
            | None \<Rightarrow> (case wa_fee a of Some e \<Rightarrow> Inl e | None \<Rightarrow> paid)))"

text \<open>The result, the cache, and the reservation the guard releases when it is dropped.\<close>

definition execute_allocate ::
  "(string \<Rightarrow> rat option) \<Rightarrow> worker_flags \<Rightarrow> worker_answer \<Rightarrow> string list \<Rightarrow> holdings_cache
     \<Rightarrow> (payment_error + payment_result) \<times> holdings_cache \<times> string list" where
  "execute_allocate parse fl a cids c =
     (case refused fl a of
        Some e \<Rightarrow> (Inl e, c, cids)
      | None \<Rightarrow> (case wa_client a of
          Some e \<Rightarrow> (Inl e, c, cids)
        | None \<Rightarrow> (case wa_submit a of
            Inr resp \<Rightarrow> (Inr \<lparr>pr_contract_id = (case sr_contract_id resp of None \<Rightarrow> [] | Some s \<Rightarrow> s),
                pr_update_id = sr_update_id resp,
                pr_traffic_total = (case sr_traffic resp of None \<Rightarrow> 0 | Some n \<Rightarrow> n)\<rparr>,
              process_tx_result parse a cids resp c, [])
          | Inl e \<Rightarrow> (Inl e, if str_contains (outer_text e) ''INACTIVE_CONTRACTS''
                then handle_inactive_contracts a cids c else release_reservations cids c, []))))"

section \<open>The queue\<close>

text \<open>What the sender of a response comes to: a response, or it is dropped without one.\<close>

datatype payment_outcome = Responded "payment_error + payment_result" | Sender_Dropped

text \<open>\<open>await_response\<close>: \<open>None\<close> when the wait is over first.\<close>

definition await_response :: "payment_outcome option \<Rightarrow> payment_error + payment_result" where
  "await_response x = (case x of
       Some (Responded r) \<Rightarrow> r
     | Some Sender_Dropped \<Rightarrow> Inl [''Payment processor dropped without responding'']
     | None \<Rightarrow> Inl [''Payment not completed within 600s''])"

record payment_job =
  jb_item :: queued_payment
  jb_cids :: "string list"
  jb_generation :: nat

record payment_queue =
  pw_next :: nat
  pw_incoming :: "queued_payment list"
  pw_heap :: "queued_payment list"
  pw_deferred :: "queued_payment list"
  pw_in_pass :: bool
  pw_shutdown :: bool
  pw_stopped :: bool
  pw_queued_allocations :: nat
  pw_queued_fees :: nat
  pw_alloc_permits :: nat
  pw_fee_permits :: nat
  pw_payment_ids :: nat
  pw_running :: "payment_job list"
  pw_drops :: "string list list"
  pw_abandoned :: "nat list"
  pw_outcomes :: "(nat \<times> payment_outcome) list"
  pw_channel :: bool
  pw_generation :: nat
  pw_timeouts :: nat
  pw_cache :: holdings_cache

definition new_queue :: "nat \<Rightarrow> nat \<Rightarrow> holdings_cache \<Rightarrow> payment_queue" where
  "new_queue allocation_workers fee_workers c = \<lparr>pw_next = 0, pw_incoming = [], pw_heap = [], pw_deferred = [],
     pw_in_pass = False, pw_shutdown = False, pw_stopped = False, pw_queued_allocations = 0, pw_queued_fees = 0,
     pw_alloc_permits = allocation_workers, pw_fee_permits = fee_workers, pw_payment_ids = (2 ^ 64 - 1) div 2,
     pw_running = [], pw_drops = [], pw_abandoned = [], pw_outcomes = [], pw_channel = False,
     pw_generation = 0, pw_timeouts = 0, pw_cache = c\<rparr>"

definition settle_outcome :: "nat \<Rightarrow> payment_outcome \<Rightarrow> payment_queue \<Rightarrow> payment_queue" where
  "settle_outcome caller x w = w\<lparr>pw_outcomes := pw_outcomes w @ [(caller, x)]\<rparr>"

text \<open>\<open>submit_pay_fee\<close> and \<open>submit_allocate\<close>, up to the wait.\<close>

definition submit_payment :: "nat \<Rightarrow> payment_request \<Rightarrow> payment_queue \<Rightarrow> payment_queue" where
  "submit_payment caller request w =
     (if pw_stopped w then
        settle_outcome caller (Responded (Inl [''Payment queue closed'']))
          (w\<lparr>pw_next := Suc (pw_next w) mod 2 ^ 64\<rparr>)
      else w\<lparr>pw_next := Suc (pw_next w) mod 2 ^ 64,
        pw_incoming := pw_incoming w @ [\<lparr>qu_priority = (if is_fee request then Normal else High),
          qu_sequence = pw_next w, qu_request = request, qu_caller = caller\<rparr>]\<rparr>)"

text \<open>\<open>SharedChannel::get\<close>; the argument is the error of a new channel.\<close>

definition get_channel :: "payment_error option \<Rightarrow> payment_queue \<Rightarrow> payment_queue \<times> bool" where
  "get_channel failed w =
     (let w = (if pw_timeouts w \<ge> CHANNEL_REBUILD_AFTER then w\<lparr>pw_timeouts := 0, pw_channel := False\<rparr> else w) in
      if pw_channel w then (w, True)
      else if failed \<noteq> None then (w, False)
      else (w\<lparr>pw_channel := True, pw_generation := Suc (pw_generation w), pw_timeouts := 0\<rparr>, True))"

text \<open>The scheduler ends: what it owns is dropped.\<close>

definition stop_scheduler :: "payment_queue \<Rightarrow> payment_queue" where
  "stop_scheduler w = w\<lparr>pw_stopped := True, pw_heap := [], pw_incoming := [],
     pw_outcomes := pw_outcomes w @ map (\<lambda>x. (qu_caller x, Sender_Dropped)) (pw_heap w @ pw_incoming w)\<rparr>"

text \<open>The head of the loop; without any payment it waits for one.\<close>

definition begin_round :: "payment_error option \<Rightarrow> payment_queue \<Rightarrow> payment_queue" where
  "begin_round failed w =
     (if pw_stopped w \<or> pw_in_pass w then w
      else if pw_shutdown w then stop_scheduler w
      else if pw_heap w @ pw_incoming w = [] then w
      else
        let heap = pw_heap w @ pw_incoming w;
            w = w\<lparr>pw_heap := heap, pw_incoming := [],
              pw_queued_allocations := length (filter (\<lambda>x. \<not> is_fee (qu_request x)) heap),
              pw_queued_fees := length (filter (\<lambda>x. is_fee (qu_request x)) heap)\<rparr>;
            (w, ok) = get_channel failed w
        in if ok then w\<lparr>pw_in_pass := True, pw_deferred := []\<rparr> else w)"

section \<open>Dispatch\<close>

datatype pay_place = At_first | At_with_reserve | At_reserving | At_giving_back

record dispatch_env =
  de_others :: "pay_place \<Rightarrow> holdings_cache \<Rightarrow> holdings_cache"
  de_now :: "pay_place \<Rightarrow> nat"
  de_order :: "pay_place \<Rightarrow> string list"

datatype screened = Gone payment_outcome | Kept rat

definition screen :: "dec_arith \<Rightarrow> payment_queue \<Rightarrow> queued_payment \<Rightarrow> screened" where
  "screen A w item =
     (if qu_caller item \<in> set (pw_abandoned w) \<and> \<not> is_fee (qu_request item) then Gone Sender_Dropped
      else (case payment_target A (qu_request item) of
          Some target \<Rightarrow> Kept target
        | None \<Rightarrow> Gone (Responded (Inl [''allocation amount out of range'']))))"

definition other_tasks :: "dispatch_env \<Rightarrow> pay_place \<Rightarrow> payment_queue \<Rightarrow> payment_queue" where
  "other_tasks E p w = w\<lparr>pw_cache := de_others E p (pw_cache w)\<rparr>"

definition pick_amulets :: "dec_arith \<Rightarrow> dispatch_env \<Rightarrow> rat \<Rightarrow> payment_queue \<Rightarrow> cached_amulet list \<times> payment_queue" where
  "pick_amulets A E estimated_cc w =
     (let w = other_tasks E At_first w;
          sel = select_amulets_for_allocation A
            (get_selectable_amulets (de_order E At_first) (de_now E At_first) True (pw_cache w)) estimated_cc
      in if sel \<noteq> [] then (sel, w)
         else let w = other_tasks E At_with_reserve w in
           (select_amulets_for_allocation A
              (get_selectable_amulets (de_order E At_with_reserve) (de_now E At_with_reserve) False (pw_cache w)) estimated_cc, w))"

definition put_off :: "queued_payment \<Rightarrow> payment_queue \<Rightarrow> payment_queue" where
  "put_off item w = w\<lparr>pw_deferred := pw_deferred w @ [item]\<rparr>"

definition permits_for :: "payment_request \<Rightarrow> payment_queue \<Rightarrow> nat" where
  "permits_for request w = (if is_fee request then pw_fee_permits w else pw_alloc_permits w)"

definition add_permits :: "payment_request \<Rightarrow> int \<Rightarrow> payment_queue \<Rightarrow> payment_queue" where
  "add_permits request k w =
     (if is_fee request then w\<lparr>pw_fee_permits := nat (int (pw_fee_permits w) + k)\<rparr>
      else w\<lparr>pw_alloc_permits := nat (int (pw_alloc_permits w) + k)\<rparr>)"

definition start_worker :: "queued_payment \<Rightarrow> string list \<Rightarrow> payment_queue \<Rightarrow> payment_queue" where
  "start_worker item cids w = (add_permits (qu_request item) (- 1) w)\<lparr>
     pw_running := pw_running w @ [\<lparr>jb_item = item, jb_cids = cids, jb_generation = pw_generation w\<rparr>]\<rparr>"

text \<open>The permit is taken after the reservation, which is given back without one.\<close>

definition take_permit :: "dispatch_env \<Rightarrow> queued_payment \<Rightarrow> string list \<Rightarrow> payment_queue \<Rightarrow> payment_queue" where
  "take_permit E item cids w =
     (if permits_for (qu_request item) w = 0 then
        put_off item (if cids = [] then w
          else let w = other_tasks E At_giving_back w in w\<lparr>pw_cache := release_reservations cids (pw_cache w)\<rparr>)
      else start_worker item cids w)"

definition reserve_amulets :: "dispatch_env \<Rightarrow> string list \<Rightarrow> string \<Rightarrow> payment_queue \<Rightarrow> bool \<times> payment_queue" where
  "reserve_amulets E cids payment_id w =
     (if cids = [] then (True, w)
      else let w = other_tasks E At_reserving w;
               (ok, c) = reserve_with_kind (de_now E At_reserving) cids (V1Payment payment_id) (pw_cache w)
           in (ok, w\<lparr>pw_cache := c\<rparr>))"

definition dispatch_item :: "dec_arith \<Rightarrow> dispatch_env \<Rightarrow> queued_payment \<Rightarrow> payment_queue \<Rightarrow> payment_queue" where
  "dispatch_item A E item w =
     (case screen A w item of
        Gone x \<Rightarrow> settle_outcome (qu_caller item) x w
      | Kept estimated_cc \<Rightarrow>
          let (selected, w) = (if is_allocation (qu_request item) then pick_amulets A E estimated_cc w else ([], w));
              short = (is_allocation (qu_request item) \<and> selected \<noteq> [] \<and> selection_short A selected estimated_cc)
          in if (selected = [] \<or> short) \<and> estimated_cc > 0 then put_off item w
             else
               let cids = map am_contract_id selected;
                   payment_id = ''payment-'' @ show_nat (pw_payment_ids w);
                   w = w\<lparr>pw_payment_ids := Suc (pw_payment_ids w) mod 2 ^ 64\<rparr>;
                   (ok, w) = reserve_amulets E cids payment_id w
               in if ok then take_permit E item cids w else put_off item w)"

text \<open>One turn of the loop over the heap; on an empty heap the pass ends.\<close>

definition dispatch :: "dec_arith \<Rightarrow> dispatch_env \<Rightarrow> payment_queue \<Rightarrow> payment_queue" where
  "dispatch A E w =
     (if \<not> pw_in_pass w then w
      else (case pop (pw_heap w) of
          None \<Rightarrow> w\<lparr>pw_in_pass := False, pw_heap := pw_deferred w, pw_deferred := []\<rparr>
        | Some (item, rest) \<Rightarrow> dispatch_item A E item (w\<lparr>pw_heap := rest\<rparr>)))"

section \<open>Workers\<close>

definition record_timeout :: "nat \<Rightarrow> bool \<Rightarrow> payment_queue \<Rightarrow> payment_queue" where
  "record_timeout generation timed_out w =
     (if generation \<noteq> pw_generation w then w
      else w\<lparr>pw_timeouts := if timed_out then min (Suc (pw_timeouts w)) (2 ^ 32 - 1) else 0\<rparr>)"

text \<open>A worker runs to its end, answers its caller and gives its permit back.\<close>

definition run_worker ::
  "(string \<Rightarrow> rat option) \<Rightarrow> worker_flags \<Rightarrow> worker_answer \<Rightarrow> payment_job \<Rightarrow> payment_queue \<Rightarrow> payment_queue" where
  "run_worker parse fl a job w =
     (let (r, c, dropped) = (case qu_request (jb_item job) of
            Allocate proposal_id dvp_cid allocation_cc \<Rightarrow> execute_allocate parse fl a (jb_cids job) (pw_cache w)
          | Pay_Fee proposal_id fee_type \<Rightarrow> (execute_pay_fee fl a proposal_id fee_type, pw_cache w, jb_cids job));
          w = w\<lparr>pw_cache := c, pw_drops := (if dropped = [] then pw_drops w else pw_drops w @ [dropped])\<rparr>;
          w = record_timeout (jb_generation job)
            (wa_slow a \<or> (case r of Inl e \<Rightarrow> is_timeout e | Inr x \<Rightarrow> False)) w;
          w = settle_outcome (qu_caller (jb_item job)) (Responded r) w
      in (add_permits (qu_request (jb_item job)) 1 w)\<lparr>pw_running := remove1 job (pw_running w)\<rparr>)"

definition worker_ends ::
  "(string \<Rightarrow> rat option) \<Rightarrow> worker_flags \<Rightarrow> nat \<Rightarrow> worker_answer \<Rightarrow> payment_queue \<Rightarrow> payment_queue" where
  "worker_ends parse fl i a w =
     (if i < length (pw_running w) then run_worker parse fl a (pw_running w ! i) w else w)"

text \<open>The task a dropped \<open>ReservationGuard\<close> starts.\<close>

definition release_dropped :: "payment_queue \<Rightarrow> payment_queue" where
  "release_dropped w = (case pw_drops w of
       [] \<Rightarrow> w
     | cids # rest \<Rightarrow> w\<lparr>pw_drops := rest, pw_cache := release_reservations cids (pw_cache w)\<rparr>)"

section \<open>The machine\<close>

datatype payment_event =
    Submit nat payment_request
  | Give_Up nat
  | Round "payment_error option"
  | Dispatch dispatch_env
  | Worker_Ends nat worker_answer
  | Release_Dropped
  | Cache_Activity "holdings_cache \<Rightarrow> holdings_cache"
  | Shut_Down

fun payment_step ::
  "dec_arith \<Rightarrow> (string \<Rightarrow> rat option) \<Rightarrow> worker_flags \<Rightarrow> payment_queue \<Rightarrow> payment_event \<Rightarrow> payment_queue" where
  "payment_step A parse fl w (Submit caller request) = submit_payment caller request w"
| "payment_step A parse fl w (Give_Up caller) = w\<lparr>pw_abandoned := caller # pw_abandoned w\<rparr>"
| "payment_step A parse fl w (Round failed) = begin_round failed w"
| "payment_step A parse fl w (Dispatch E) = dispatch A E w"
| "payment_step A parse fl w (Worker_Ends i a) = worker_ends parse fl i a w"
| "payment_step A parse fl w Release_Dropped = release_dropped w"
| "payment_step A parse fl w (Cache_Activity f) = w\<lparr>pw_cache := f (pw_cache w)\<rparr>"
| "payment_step A parse fl w Shut_Down = w\<lparr>pw_shutdown := True\<rparr>"

end
