(* ===== verification/Payment_Safety.thy ===== *)
theory Payment_Safety
  imports Payment_Queue
begin

text \<open>
  What the payment queue promises: no payment is lost or answered twice, workers stay within the
  permits, a pass of the scheduler ends and leaves a fee waiting only when its pool is full,
  allocations get amulets that cover them, and what a worker does with its reservation.
\<close>

section \<open>A queue by rank\<close>

text \<open>What the scheduler needs of the heap.\<close>

locale ranked_queue =
  fixes take_top :: "'q \<Rightarrow> ('a \<times> 'q) option" and items :: "'q \<Rightarrow> 'a multiset" and above :: "'a \<Rightarrow> 'a \<Rightarrow> bool"
  assumes take_None: "take_top q = None \<longleftrightarrow> items q = {#}"
    and take_items: "take_top q = Some (x, q') \<Longrightarrow> items q = add_mset x (items q')"
    and take_above: "take_top q = Some (x, q') \<Longrightarrow> y \<in># items q' \<Longrightarrow> above x y"
begin

lemma take_Some: "items q \<noteq> {#} \<Longrightarrow> \<exists>x q'. take_top q = Some (x, q') \<and> x \<in># items q \<and> size (items q') < size (items q)"
  using take_None [of q] take_items [of q] by (cases "take_top q") fastforce+

lemma take_greatest: "take_top q = Some (x, q') \<Longrightarrow> y \<in># items q \<Longrightarrow> y = x \<or> above x y"
  using take_items take_above by fastforce

end

lemma outranks_total: "outranks a b \<or> outranks b a"
  by (auto simp: outranks_def)

lemma outranks_trans: "outranks a b \<Longrightarrow> outranks b c \<Longrightarrow> outranks a c"
  by (auto simp: outranks_def)

lemma pop_None [simp]: "pop xs = None \<longleftrightarrow> xs = []"
  by (cases xs) (auto split: option.split)

lemma pop_mset: "pop xs = Some (x, ys) \<Longrightarrow> mset xs = add_mset x (mset ys)"
  by (induction xs arbitrary: x ys) (auto split: option.splits if_splits)

lemma pop_outranks: "pop xs = Some (x, ys) \<Longrightarrow> y \<in> set ys \<Longrightarrow> outranks x y"
proof (induction xs arbitrary: x ys y)
  case (Cons z zs)
  show ?case
  proof (cases "pop zs")
    case (Some p)
    obtain t ts where p: "p = (t, ts)" by (cases p)
    have zs: "set zs = insert t (set ts)" using pop_mset [of zs t ts] Some p by (metis mset_eq_setD set_mset_add_mset_insert set_mset_mset)
    show ?thesis
    proof (cases "outranks z t")
      case True
      then show ?thesis using Cons Some p zs by (auto intro: outranks_trans)
    next
      case False
      then have "outranks t z" using outranks_total by blast
      then show ?thesis using Cons Some p False by auto
    qed
  qed (use Cons.prems in auto)
qed simp

interpretation heap: ranked_queue pop mset outranks
  by unfold_locales (auto simp: pop_mset pop_outranks)

section \<open>Every payment has one place\<close>

definition places :: "payment_queue \<Rightarrow> nat list" where
  "places w = map qu_caller (pw_incoming w @ pw_heap w @ pw_deferred w)
     @ map (qu_caller \<circ> jb_item) (pw_running w) @ map fst (pw_outcomes w)"

fun submitted :: "payment_event list \<Rightarrow> nat list" where
  "submitted [] = []"
| "submitted (Submit caller request # es) = caller # submitted es"
| "submitted (e # es) = submitted es"

definition queue_inv :: "nat \<Rightarrow> nat \<Rightarrow> payment_queue \<Rightarrow> bool" where
  "queue_inv allocation_workers fee_workers w \<longleftrightarrow>
     (\<not> pw_in_pass w \<longrightarrow> pw_deferred w = [])
     \<and> pw_alloc_permits w + length (filter (\<lambda>j. \<not> is_fee (qu_request (jb_item j))) (pw_running w)) = allocation_workers
     \<and> pw_fee_permits w + length (filter (\<lambda>j. is_fee (qu_request (jb_item j))) (pw_running w)) = fee_workers
     \<and> (\<forall>j \<in> set (pw_running w). is_fee (qu_request (jb_item j)) \<longrightarrow> jb_cids j = [])"

text \<open>What the parts of a dispatch leave alone.\<close>

named_theorems payment_simps \<open>fields that an operation of the queue keeps\<close>

lemma other_tasks_keeps [payment_simps]:
  "places (other_tasks E p w) = places w" "queue_inv a f (other_tasks E p w) = queue_inv a f w"
  "permits_for r (other_tasks E p w) = permits_for r w" "pw_deferred (other_tasks E p w) = pw_deferred w"
  "pw_heap (other_tasks E p w) = pw_heap w" "pw_in_pass (other_tasks E p w) = pw_in_pass w"
  "pw_running (other_tasks E p w) = pw_running w"
  by (simp_all add: other_tasks_def places_def queue_inv_def permits_for_def)

lemma cache_keeps [payment_simps]:
  "places (w\<lparr>pw_cache := c\<rparr>) = places w" "queue_inv a f (w\<lparr>pw_cache := c\<rparr>) = queue_inv a f w"
  "permits_for r (w\<lparr>pw_cache := c\<rparr>) = permits_for r w"
  "places (w\<lparr>pw_payment_ids := n\<rparr>) = places w" "queue_inv a f (w\<lparr>pw_payment_ids := n\<rparr>) = queue_inv a f w"
  "permits_for r (w\<lparr>pw_payment_ids := n\<rparr>) = permits_for r w"
  by (simp_all add: places_def queue_inv_def permits_for_def)

lemma pick_amulets_keeps [payment_simps]:
  "places (snd (pick_amulets A E cc w)) = places w" "queue_inv a f (snd (pick_amulets A E cc w)) = queue_inv a f w"
  "permits_for r (snd (pick_amulets A E cc w)) = permits_for r w"
  "pw_deferred (snd (pick_amulets A E cc w)) = pw_deferred w" "pw_heap (snd (pick_amulets A E cc w)) = pw_heap w"
  "pw_in_pass (snd (pick_amulets A E cc w)) = pw_in_pass w" "pw_running (snd (pick_amulets A E cc w)) = pw_running w"
  by (simp_all add: pick_amulets_def Let_def payment_simps)

lemma reserve_amulets_keeps [payment_simps]:
  "places (snd (reserve_amulets E cids p w)) = places w" "queue_inv a f (snd (reserve_amulets E cids p w)) = queue_inv a f w"
  "permits_for r (snd (reserve_amulets E cids p w)) = permits_for r w"
  "pw_deferred (snd (reserve_amulets E cids p w)) = pw_deferred w" "pw_heap (snd (reserve_amulets E cids p w)) = pw_heap w"
  "pw_in_pass (snd (reserve_amulets E cids p w)) = pw_in_pass w" "pw_running (snd (reserve_amulets E cids p w)) = pw_running w"
  by (simp_all add: reserve_amulets_def Let_def payment_simps split: prod.split)

text \<open>The outcomes of a dispatch of one item.\<close>

lemma dispatch_item_cases:
  obtains (gone) x where "screen A w item = Gone x" "dispatch_item A E item w = settle_outcome (qu_caller item) x w"
  | (deferred) w' where "is_allocation (qu_request item)" "dispatch_item A E item w = put_off item w'"
      "places w' = places w" "\<And>a f. queue_inv a f w' = queue_inv a f w" "\<And>r. permits_for r w' = permits_for r w"
      "pw_deferred w' = pw_deferred w" "pw_heap w' = pw_heap w" "pw_in_pass w' = pw_in_pass w" "pw_running w' = pw_running w"
  | (permit) w' cids where "dispatch_item A E item w = take_permit E item cids w'"
      "is_fee (qu_request item) \<Longrightarrow> cids = []"
      "places w' = places w" "\<And>a f. queue_inv a f w' = queue_inv a f w" "\<And>r. permits_for r w' = permits_for r w"
      "pw_deferred w' = pw_deferred w" "pw_heap w' = pw_heap w" "pw_in_pass w' = pw_in_pass w" "pw_running w' = pw_running w"
proof (cases "screen A w item")
  case (Gone x)
  then show ?thesis using gone by (simp add: dispatch_item_def)
next
  case (Kept cc)
  define pick where "pick = (if is_allocation (qu_request item) then pick_amulets A E cc w else ([], w))"
  define w1 where "w1 = snd pick"
  define short where "short = (is_allocation (qu_request item) \<and> fst pick \<noteq> [] \<and> selection_short A (fst pick) cc)"
  have w1: "places w1 = places w" "queue_inv a f w1 = queue_inv a f w" "permits_for r w1 = permits_for r w"
      "pw_deferred w1 = pw_deferred w" "pw_heap w1 = pw_heap w" "pw_in_pass w1 = pw_in_pass w" "pw_running w1 = pw_running w" for a f r
    by (simp_all add: w1_def pick_def payment_simps)
  let ?p = "''payment-'' @ show_nat (pw_payment_ids w1)"
  let ?w2 = "w1\<lparr>pw_payment_ids := Suc (pw_payment_ids w1) mod 2 ^ 64\<rparr>"
  let ?cids = "map am_contract_id (fst pick)"
  define res where "res = reserve_amulets E ?cids ?p ?w2"
  have w3: "places (snd res) = places w" "queue_inv a f (snd res) = queue_inv a f w" "permits_for r (snd res) = permits_for r w"
      "pw_deferred (snd res) = pw_deferred w" "pw_heap (snd res) = pw_heap w" "pw_in_pass (snd res) = pw_in_pass w"
      "pw_running (snd res) = pw_running w" for a f r
    by (simp_all add: res_def payment_simps w1)
  have item: "dispatch_item A E item w = (if (fst pick = [] \<or> short) \<and> cc > 0 then put_off item w1
      else if fst res then take_permit E item ?cids (snd res) else put_off item (snd res))"
    using Kept by (simp add: dispatch_item_def Let_def pick_def [symmetric] w1_def short_def res_def case_prod_beta)
  have none: "fst pick = []" if "\<not> is_allocation (qu_request item)" using that by (simp add: pick_def)
  have zero: "cc = 0" if "\<not> is_allocation (qu_request item)"
    using Kept that by (cases "qu_request item" rule: is_allocation.cases)
      (auto simp: screen_def payment_target_def split: if_splits option.splits bind_splits)
  show ?thesis
  proof (cases "(fst pick = [] \<or> short) \<and> cc > 0")
    case True
    then have "is_allocation (qu_request item)" using zero by auto
    then show ?thesis using deferred [of w1] True item w1 by simp
  next
    case False
    show ?thesis
    proof (cases "fst res")
      case True
      show ?thesis
      proof (rule permit)
        show "dispatch_item A E item w = take_permit E item ?cids (snd res)" unfolding item using False True by (simp only: if_False if_True)
        show "?cids = []" if "is_fee (qu_request item)"
          using that none by (cases "qu_request item" rule: is_allocation.cases) auto
      qed (simp_all add: w3)
    next
      case lost: False
      have "?cids \<noteq> []" using lost by (auto simp: res_def reserve_amulets_def)
      then have "is_allocation (qu_request item)" using none by auto
      then show ?thesis using deferred [of "snd res"] lost w3 item [unfolded if_not_P [OF False]] by simp
    qed
  qed
qed

lemma settle_outcome_keeps [payment_simps]:
  "places (settle_outcome c x w) = places w @ [c]" "queue_inv a f (settle_outcome c x w) = queue_inv a f w"
  "permits_for r (settle_outcome c x w) = permits_for r w" "pw_deferred (settle_outcome c x w) = pw_deferred w"
  "pw_heap (settle_outcome c x w) = pw_heap w" "pw_in_pass (settle_outcome c x w) = pw_in_pass w"
  "pw_running (settle_outcome c x w) = pw_running w"
  by (simp_all add: settle_outcome_def places_def queue_inv_def permits_for_def)

lemma put_off_keeps [payment_simps]:
  "mset (places (put_off item w)) = add_mset (qu_caller item) (mset (places w))"
  "pw_in_pass w \<Longrightarrow> queue_inv a f (put_off item w) = queue_inv a f w"
  "permits_for r (put_off item w) = permits_for r w" "pw_deferred (put_off item w) = pw_deferred w @ [item]"
  "pw_heap (put_off item w) = pw_heap w" "pw_in_pass (put_off item w) = pw_in_pass w"
  "pw_running (put_off item w) = pw_running w"
  by (simp_all add: put_off_def places_def queue_inv_def permits_for_def)

lemma start_worker_keeps [payment_simps]:
  "mset (places (start_worker item cids w)) = add_mset (qu_caller item) (mset (places w))"
  "pw_deferred (start_worker item cids w) = pw_deferred w" "pw_heap (start_worker item cids w) = pw_heap w"
  "pw_in_pass (start_worker item cids w) = pw_in_pass w"
  by (simp_all add: start_worker_def add_permits_def places_def)

lemma start_worker_inv:
  assumes "queue_inv a f w" and "permits_for (qu_request item) w \<noteq> 0" and "is_fee (qu_request item) \<Longrightarrow> cids = []"
  shows "queue_inv a f (start_worker item cids w)"
  using assms by (auto simp: queue_inv_def start_worker_def add_permits_def permits_for_def split: if_splits)

lemma take_permit_keeps [payment_simps]:
  "mset (places (take_permit E item cids w)) = add_mset (qu_caller item) (mset (places w))"
  "pw_heap (take_permit E item cids w) = pw_heap w" "pw_in_pass (take_permit E item cids w) = pw_in_pass w"
  by (simp_all add: take_permit_def Let_def payment_simps)

lemma take_permit_inv:
  assumes "queue_inv a f w" and "pw_in_pass w" and "is_fee (qu_request item) \<Longrightarrow> cids = []"
  shows "queue_inv a f (take_permit E item cids w)"
  using assms start_worker_inv [OF assms(1) _ assms(3)]
  by (simp add: take_permit_def Let_def payment_simps)

lemma dispatch_item_places:
  "mset (places (dispatch_item A E item w)) = add_mset (qu_caller item) (mset (places w))"
  by (cases rule: dispatch_item_cases [of A w item E]) (simp_all add: payment_simps)

lemma dispatch_item_inv:
  "queue_inv a f w \<Longrightarrow> pw_in_pass w \<Longrightarrow> queue_inv a f (dispatch_item A E item w)"
  by (cases rule: dispatch_item_cases [of A w item E]) (auto simp: payment_simps intro: take_permit_inv)

lemma dispatch_item_heap [payment_simps]:
  "pw_heap (dispatch_item A E item w) = pw_heap w" "pw_in_pass (dispatch_item A E item w) = pw_in_pass w"
  by (cases rule: dispatch_item_cases [of A w item E]; simp add: payment_simps)+

lemma worker_places:
  assumes "job \<in> set (pw_running w)"
  shows "mset (places (run_worker parse fl a job w)) = mset (places w)"
proof -
  have "mset (map (qu_caller \<circ> jb_item) (pw_running w)) =
      add_mset (qu_caller (jb_item job)) (mset (map (qu_caller \<circ> jb_item) (remove1 job (pw_running w))))"
    using assms by (metis (no_types, lifting) comp_apply image_mset_add_mset insert_DiffM mset_map mset_remove1 set_mset_mset)
  then show ?thesis
    by (simp add: run_worker_def Let_def places_def settle_outcome_def record_timeout_def add_permits_def case_prod_beta)
qed

lemma length_filter_remove1:
  "x \<in> set xs \<Longrightarrow> P x \<Longrightarrow> Suc (length (filter P (remove1 x xs))) = length (filter P xs)"
  "\<not> P x \<Longrightarrow> length (filter P (remove1 x xs)) = length (filter P xs)"
  by (induction xs) auto

lemma worker_inv:
  assumes "queue_inv n m w" and "job \<in> set (pw_running w)"
  shows "queue_inv n m (run_worker parse fl a job w)"
proof -
  have "\<forall>j \<in> set (remove1 job (pw_running w)). is_fee (qu_request (jb_item j)) \<longrightarrow> jb_cids j = []"
    using assms(1) set_remove1_subset [of job "pw_running w"] by (auto simp: queue_inv_def)
  then show ?thesis
    using assms length_filter_remove1(1) [OF assms(2), of "\<lambda>j. is_fee (qu_request (jb_item j))"]
      length_filter_remove1(1) [OF assms(2), of "\<lambda>j. \<not> is_fee (qu_request (jb_item j))"]
      length_filter_remove1(2) [of "\<lambda>j. is_fee (qu_request (jb_item j))" job "pw_running w"]
      length_filter_remove1(2) [of "\<lambda>j. \<not> is_fee (qu_request (jb_item j))" job "pw_running w"]
    by (cases "is_fee (qu_request (jb_item job))")
      (auto simp: queue_inv_def run_worker_def Let_def settle_outcome_def record_timeout_def add_permits_def case_prod_beta
        nat_add_distrib)
qed

lemma get_channel_keeps [payment_simps]:
  "places (fst (get_channel e w)) = places w" "queue_inv a f (fst (get_channel e w)) = queue_inv a f w"
  "pw_deferred (fst (get_channel e w)) = pw_deferred w" "pw_heap (fst (get_channel e w)) = pw_heap w"
  "pw_in_pass (fst (get_channel e w)) = pw_in_pass w"
  by (simp_all add: get_channel_def Let_def places_def queue_inv_def)

definition drained :: "payment_queue \<Rightarrow> payment_queue" where
  "drained w = (let heap = pw_heap w @ pw_incoming w in w\<lparr>pw_heap := heap, pw_incoming := [],
     pw_queued_allocations := length (filter (\<lambda>x. \<not> is_fee (qu_request x)) heap),
     pw_queued_fees := length (filter (\<lambda>x. is_fee (qu_request x)) heap)\<rparr>)"

lemma begin_round_drained:
  "begin_round failed w = (if pw_stopped w \<or> pw_in_pass w then w
     else if pw_shutdown w then stop_scheduler w
     else if pw_heap w @ pw_incoming w = [] then w
     else if snd (get_channel failed (drained w))
       then (fst (get_channel failed (drained w)))\<lparr>pw_in_pass := True, pw_deferred := []\<rparr>
       else fst (get_channel failed (drained w)))"
  by (simp add: begin_round_def drained_def Let_def case_prod_beta)

lemma drained_keeps [payment_simps]:
  "mset (places (drained w)) = mset (places w)" "queue_inv a f (drained w) = queue_inv a f w"
  "pw_deferred (drained w) = pw_deferred w"
  by (simp_all add: drained_def places_def queue_inv_def Let_def)

lemma round_places: "queue_inv a f w \<Longrightarrow> mset (places (begin_round failed w)) = mset (places w)"
proof -
  assume inv: "queue_inv a f w"
  have "places (v\<lparr>pw_in_pass := True, pw_deferred := []\<rparr>) = places v" if "pw_deferred v = []" for v
    using that by (simp add: places_def)
  moreover have "\<not> pw_in_pass w \<Longrightarrow> pw_deferred w = []" using inv by (simp add: queue_inv_def)
  moreover have "mset (places (stop_scheduler w)) = mset (places w)"
    by (simp add: stop_scheduler_def places_def o_def)
  ultimately show ?thesis by (simp add: begin_round_drained payment_simps)
qed

lemma round_inv: "queue_inv a f w \<Longrightarrow> queue_inv a f (begin_round failed w)"
proof -
  assume inv: "queue_inv a f w"
  have "queue_inv a f (v\<lparr>pw_in_pass := True, pw_deferred := []\<rparr>)" if "queue_inv a f v" for v
    using that by (simp add: queue_inv_def)
  moreover have "queue_inv a f (stop_scheduler w)"
    using inv by (simp add: stop_scheduler_def queue_inv_def)
  ultimately show ?thesis using inv by (simp add: begin_round_drained payment_simps)
qed

lemma dispatch_places: "queue_inv a f w \<Longrightarrow> mset (places (dispatch A E w)) = mset (places w)"
proof (cases "pop (pw_heap w)")
  case (Some p)
  obtain item rest where p: "p = (item, rest)" by (cases p)
  have "mset (places w) = add_mset (qu_caller item) (mset (places (w\<lparr>pw_heap := rest\<rparr>)))"
    using pop_mset [of "pw_heap w" item rest] Some p by (simp add: places_def)
  then show ?thesis using Some p by (simp add: dispatch_def dispatch_item_places)
qed (simp add: dispatch_def places_def)

lemma dispatch_inv: "queue_inv a f w \<Longrightarrow> queue_inv a f (dispatch A E w)"
proof -
  assume inv: "queue_inv a f w"
  then have "queue_inv a f (w\<lparr>pw_heap := xs\<rparr>)" for xs by (simp add: queue_inv_def)
  then show ?thesis
    using inv dispatch_item_inv [of a f "w\<lparr>pw_heap := _\<rparr>"]
    by (auto simp: dispatch_def split: option.split) (simp add: queue_inv_def)
qed

lemma step_inv: "queue_inv a f w \<Longrightarrow> queue_inv a f (payment_step A parse fl w e)"
proof (cases e)
  case (Submit c r)
  assume "queue_inv a f w"
  then show ?thesis using Submit by (simp add: submit_payment_def payment_simps) (simp add: queue_inv_def)
next
  case (Worker_Ends i x)
  assume "queue_inv a f w"
  then show ?thesis using Worker_Ends by (simp add: worker_ends_def worker_inv)
next
  case (Round x)
  assume "queue_inv a f w"
  then show ?thesis using Round by (simp add: round_inv)
next
  case (Dispatch x)
  assume "queue_inv a f w"
  then show ?thesis using Dispatch by (simp add: dispatch_inv)
qed (simp_all add: queue_inv_def release_dropped_def split: list.split)

lemma step_places:
  "queue_inv a f w \<Longrightarrow> mset (places (payment_step A parse fl w e)) = mset (places w) + mset (submitted [e])"
proof (cases e)
  case (Submit c r)
  then show ?thesis by (simp add: submit_payment_def payment_simps) (simp add: places_def)
next
  case (Worker_Ends i x)
  then show ?thesis by (simp add: worker_ends_def worker_places)
next
  case (Round x)
  assume "queue_inv a f w"
  from round_places [OF this, of x] show ?thesis using Round by simp
next
  case (Dispatch x)
  assume "queue_inv a f w"
  from dispatch_places [OF this, of A x] show ?thesis using Dispatch by simp
qed (simp_all add: places_def release_dropped_def split: list.split)

lemma submitted_Cons: "submitted (e # es) = submitted [e] @ submitted es"
  by (cases e) simp_all

lemma new_queue_inv: "queue_inv n m (new_queue n m c)"
  by (simp add: queue_inv_def new_queue_def)

lemma run_places:
  "queue_inv a f w \<Longrightarrow> mset (places (run (payment_step A parse fl) w es)) = mset (places w) + mset (submitted es)"
proof (induction es arbitrary: w)
  case (Cons e es)
  then show ?case using step_inv step_places by (simp add: submitted_Cons [of e es] del: submitted.simps)
qed simp

interpretation workers: kept "payment_step A parse fl" "queue_inv a f" "\<lambda>e. True" for A parse fl a f
  by unfold_locales (rule step_inv)

text \<open>
  C15: No payment is lost and none is answered twice: after any sequence of events each payment
  submitted so far is in exactly one place, waiting, put off, running, or answered (or dropped)
  once.
\<close>

theorem payments_conserved:
  "mset (places (run (payment_step A parse fl) (new_queue n m c) es)) = mset (submitted es)"
  using run_places [OF new_queue_inv] by (simp add: places_def new_queue_def)

text \<open>
  Workers and free permits of a pool always add up to its size, so that no more run at a time
  than the pool has permits, and fees never hold amulets.
\<close>

theorem permits_conserved:
  "(let w = run (payment_step A parse fl) (new_queue n m c) es in
     pw_alloc_permits w + length (filter (\<lambda>j. \<not> is_fee (qu_request (jb_item j))) (pw_running w)) = n
     \<and> pw_fee_permits w + length (filter (\<lambda>j. is_fee (qu_request (jb_item j))) (pw_running w)) = m
     \<and> filter (\<lambda>j. jb_cids j \<noteq> [] \<and> is_fee (qu_request (jb_item j))) (pw_running w) = [])"
proof -
  have "queue_inv n m (run (payment_step A parse fl) (new_queue n m c) es)"
    by (rule workers.run_keeps [OF new_queue_inv]) (simp add: list_all_iff)
  then show ?thesis by (simp add: queue_inv_def Let_def) (auto simp: filter_empty_conv)
qed

section \<open>A pass over the queue\<close>

definition leftover :: "payment_queue \<Rightarrow> queued_payment \<Rightarrow> bool" where
  "leftover w x \<longleftrightarrow> is_allocation (qu_request x) \<or> permits_for (qu_request x) w = 0"

fun beside_pass :: "payment_event \<Rightarrow> bool" where
  "beside_pass (Round failed) = False"
| "beside_pass (Worker_Ends i a) = False"
| "beside_pass e = True"

fun dispatches :: "payment_event list \<Rightarrow> nat" where
  "dispatches [] = 0"
| "dispatches (Dispatch E # es) = Suc (dispatches es)"
| "dispatches (e # es) = dispatches es"

text \<open>What a pass keeps: whatever it has put off, and what it leaves at its end, cannot run.\<close>

definition pass_inv :: "payment_queue \<Rightarrow> bool" where
  "pass_inv w \<longleftrightarrow> (pw_in_pass w \<longrightarrow> list_all (leftover w) (pw_deferred w))
     \<and> (\<not> pw_in_pass w \<longrightarrow> list_all (leftover w) (pw_heap w))"

lemma leftover_mono:
  "leftover w x \<Longrightarrow> permits_for (qu_request x) w' \<le> permits_for (qu_request x) w \<Longrightarrow> leftover w' x"
  by (auto simp: leftover_def)

lemma start_worker_permits: "permits_for r (start_worker item cids w) \<le> permits_for r w"
proof -
  have "nat (int n - 1) \<le> n" for n by simp
  then show ?thesis by (simp add: start_worker_def add_permits_def permits_for_def)
qed

lemma take_permit_permits: "permits_for r (take_permit E item cids w) \<le> permits_for r w"
  by (simp add: take_permit_def Let_def payment_simps start_worker_permits)

lemma dispatch_item_permits: "permits_for r (dispatch_item A E item w) \<le> permits_for r w"
proof (cases rule: dispatch_item_cases [of A w item E])
  case (permit w' cids)
  then show ?thesis using take_permit_permits [of r E item cids w'] by simp
qed (simp_all add: payment_simps)

lemma take_permit_deferred:
  "pw_deferred (take_permit E item cids w) =
     pw_deferred w @ (if permits_for (qu_request item) w = 0 then [item] else [])"
  by (simp add: take_permit_def Let_def payment_simps)

lemma dispatch_item_deferred:
  "\<exists>xs. pw_deferred (dispatch_item A E item w) = pw_deferred w @ xs \<and> list_all (leftover w) xs"
proof (cases rule: dispatch_item_cases [of A w item E])
  case (permit w' cids)
  then show ?thesis by (auto simp: take_permit_deferred leftover_def)
qed (auto simp: payment_simps leftover_def)

lemma dispatch_item_pass:
  assumes "list_all (leftover w) (pw_deferred w)"
  shows "list_all (leftover (dispatch_item A E item w)) (pw_deferred (dispatch_item A E item w))"
proof -
  obtain xs where "pw_deferred (dispatch_item A E item w) = pw_deferred w @ xs" "list_all (leftover w) xs"
    using dispatch_item_deferred by blast
  then show ?thesis
    using assms leftover_mono [OF _ dispatch_item_permits] by (auto simp: list_all_iff)
qed

lemma leftover_keeps [payment_simps]:
  "leftover (w\<lparr>pw_heap := h\<rparr>) = leftover w" "leftover (w\<lparr>pw_cache := c\<rparr>) = leftover w"
  "leftover (w\<lparr>pw_in_pass := b\<rparr>) = leftover w" "leftover (w\<lparr>pw_deferred := d\<rparr>) = leftover w"
  "leftover (w\<lparr>pw_abandoned := l\<rparr>) = leftover w" "leftover (w\<lparr>pw_shutdown := b\<rparr>) = leftover w"
  "leftover (w\<lparr>pw_drops := k\<rparr>) = leftover w" "leftover (submit_payment n r w) = leftover w"
  by (auto simp: leftover_def permits_for_def submit_payment_def settle_outcome_def fun_eq_iff)

lemma submit_keeps [payment_simps]:
  "pw_in_pass (submit_payment n r w) = pw_in_pass w" "pw_deferred (submit_payment n r w) = pw_deferred w"
  "pw_heap (submit_payment n r w) = pw_heap w"
  by (simp_all add: submit_payment_def settle_outcome_def)

lemma dispatch_pass: "pass_inv w \<Longrightarrow> pass_inv (dispatch A E w)"
proof (cases "pop (pw_heap w)")
  case (Some p)
  assume inv: "pass_inv w"
  obtain item rest where p: "p = (item, rest)" by (cases p)
  show ?thesis
    using inv Some p dispatch_item_pass [of "w\<lparr>pw_heap := rest\<rparr>" A E item]
    by (simp add: pass_inv_def dispatch_def payment_simps)
qed (simp add: pass_inv_def dispatch_def payment_simps)

lemma step_pass: "pass_inv w \<Longrightarrow> beside_pass e \<Longrightarrow> pass_inv (payment_step A parse fl w e)"
  by (cases e) (simp_all add: dispatch_pass, simp_all add: pass_inv_def release_dropped_def payment_simps split: list.split)

interpretation pass: kept "payment_step A parse fl" pass_inv beside_pass for A parse fl
  by unfold_locales (rule step_pass)

lemma dispatch_heap:
  "pw_in_pass w \<Longrightarrow> pw_in_pass (dispatch A E w) \<Longrightarrow> Suc (length (pw_heap (dispatch A E w))) = length (pw_heap w)"
  "pw_in_pass w \<Longrightarrow> pw_heap w = [] \<Longrightarrow> \<not> pw_in_pass (dispatch A E w)"
  using arg_cong [OF pop_mset, of "pw_heap w" _ _ size]
  by (auto simp: dispatch_def payment_simps split: option.split)

lemma pass_ends:
  "list_all beside_pass es \<Longrightarrow> pw_in_pass w \<longrightarrow> length (pw_heap w) < dispatches es \<Longrightarrow>
     \<not> pw_in_pass (run (payment_step A parse fl) w es)"
proof (induction es arbitrary: w)
  case (Cons e es)
  show ?case
  proof (cases "\<exists>E. e = Dispatch E")
    case True
    then obtain E where e: "e = Dispatch E" by blast
    have "pw_in_pass (dispatch A E w) \<longrightarrow> length (pw_heap (dispatch A E w)) < dispatches es"
      using Cons.prems(2) e dispatch_heap [of w A E] by (cases "pw_in_pass w") (auto simp: dispatch_def)
    then show ?thesis using Cons.IH [of "dispatch A E w"] Cons.prems(1) e by simp
  next
    case False
    then have "pw_in_pass (payment_step A parse fl w e) = pw_in_pass w"
        "pw_heap (payment_step A parse fl w e) = pw_heap w" "dispatches (e # es) = dispatches es"
      using Cons.prems(1) by (cases e; simp add: payment_simps release_dropped_def split: list.split)+
    then show ?thesis using Cons.IH [of "payment_step A parse fl w e"] Cons.prems by simp
  qed
qed simp

text \<open>
  C17: A pass over the queue ends, after one turn per payment and one more, whatever callers and
  other tasks do meanwhile; and unless a worker ends in between, whatever it leaves waiting is
  an allocation in need of amulets or finds no permit of its pool: no fee waits for an
  allocation that cannot be funded.
\<close>

theorem pass_leaves_nothing_runnable:
  assumes "pw_in_pass w" and "pw_deferred w = []" and "list_all beside_pass es"
    and "length (pw_heap w) < dispatches es"
  shows "let w' = run (payment_step A parse fl) w es in \<not> pw_in_pass w'
    \<and> list_all (\<lambda>x. is_allocation (qu_request x) \<or> permits_for (qu_request x) w' = 0) (pw_heap w')"
proof -
  have "pass_inv w" using assms(1,2) by (simp add: pass_inv_def)
  from pass.run_keeps [OF this assms(3), of A parse fl] pass_ends [OF assms(3), of w A parse fl] assms(4)
  show ?thesis by (simp add: pass_inv_def Let_def leftover_def [abs_def])
qed

definition quiet_env :: "nat \<Rightarrow> string list \<Rightarrow> dispatch_env" where
  "quiet_env now ks = \<lparr>de_others = (\<lambda>p c. c), de_now = (\<lambda>p. now), de_order = (\<lambda>p. ks)\<rparr>"

lemma dispatch_fee:
  assumes "pw_in_pass w" and "pop (pw_heap w) = Some (item, rest)" and "is_fee (qu_request item)"
  shows "dispatch exact_arith E w = take_permit E item []
    (w\<lparr>pw_heap := rest, pw_payment_ids := Suc (pw_payment_ids w) mod 2 ^ 64\<rparr>)"
proof -
  obtain p t where fee: "qu_request item = Pay_Fee p t" using assms(3) by (cases "qu_request item") auto
  then have "payment_target exact_arith (qu_request item) = Some 0"
    by (simp add: payment_target_def with_fee_margin_def exact_arith_def in_range_def)
  then show ?thesis
    using assms(1,2) fee by (simp add: dispatch_def dispatch_item_def screen_def reserve_amulets_def Let_def)
qed

text \<open>Two fees and one permit: the first runs, the second is left for the next pass.\<close>

theorem pass_leaves_nothing_runnable_witness:
  "let w = run (payment_step exact_arith (\<lambda>s. None) \<lparr>wf_dry_run = False, wf_confirm = False\<rparr>) (new_queue 1 1 (empty_cache False))
       [Submit 7 (Pay_Fee ''p'' ''dvp''), Submit 8 (Pay_Fee ''q'' ''dvp''), Round None];
       w' = run (payment_step exact_arith (\<lambda>s. None) \<lparr>wf_dry_run = False, wf_confirm = False\<rparr>) w (replicate 3 (Dispatch (quiet_env 0 [])))
   in map qu_caller (pw_heap w') = [8] \<and> map (qu_caller \<circ> jb_item) (pw_running w') = [7] \<and> \<not> pw_in_pass w'
     \<and> list_all (\<lambda>x. is_allocation (qu_request x) \<or> permits_for (qu_request x) w' = 0) (pw_heap w')"
proof -
  let ?E = "quiet_env 0 []"
  define w where "w = run (payment_step exact_arith (\<lambda>s. None) \<lparr>wf_dry_run = False, wf_confirm = False\<rparr>) (new_queue 1 1 (empty_cache False))
    [Submit 7 (Pay_Fee ''p'' ''dvp''), Submit 8 (Pay_Fee ''q'' ''dvp''), Round None]"
  define w' where "w' = run (payment_step exact_arith (\<lambda>s. None) \<lparr>wf_dry_run = False, wf_confirm = False\<rparr>) w (replicate 3 (Dispatch ?E))"
  let ?x = "\<lparr>qu_priority = Normal, qu_sequence = 0, qu_request = Pay_Fee ''p'' ''dvp'', qu_caller = 7\<rparr>"
  let ?y = "\<lparr>qu_priority = Normal, qu_sequence = 1, qu_request = Pay_Fee ''q'' ''dvp'', qu_caller = 8\<rparr>"
  have w: "pw_in_pass w" "pw_deferred w = []" "length (pw_heap w) < 3" "pop (pw_heap w) = Some (?x, [?y])"
      "pw_fee_permits w = 1" "pw_running w = []"
    by (simp_all add: w_def new_queue_def submit_payment_def begin_round_def get_channel_def Let_def outranks_def)
  define v where "v = dispatch exact_arith ?E w"
  have v: "pw_in_pass v" "pop (pw_heap v) = Some (?y, [])" "pw_fee_permits v = 0" "pw_deferred v = []"
      "map (qu_caller \<circ> jb_item) (pw_running v) = [7]"
    by (simp_all add: v_def dispatch_fee [OF w(1,4)] take_permit_def permits_for_def start_worker_def add_permits_def w)
  define u where "u = dispatch exact_arith ?E v"
  have u: "pw_in_pass u" "pw_heap u = []" "pw_deferred u = [?y]" "map (qu_caller \<circ> jb_item) (pw_running u) = [7]"
    using v by (simp_all add: u_def dispatch_fee [OF v(1,2)] take_permit_def permits_for_def put_off_def)
  have "w' = dispatch exact_arith ?E u"
    by (simp add: w'_def u_def v_def numeral_3_eq_3)
  then have "map qu_caller (pw_heap w') = [8]" "map (qu_caller \<circ> jb_item) (pw_running w') = [7]"
    using u by (simp_all add: dispatch_def)
  moreover have "list_all beside_pass (replicate 3 (Dispatch ?E))" "length (pw_heap w) < dispatches (replicate 3 (Dispatch ?E))"
    using w(3) by (simp_all add: numeral_3_eq_3)
  note pass_leaves_nothing_runnable [OF w(1,2) this, of exact_arith "\<lambda>s. None" "\<lparr>wf_dry_run = False, wf_confirm = False\<rparr>", folded w'_def]
  ultimately show ?thesis unfolding w_def [symmetric] by (simp add: w'_def [symmetric] Let_def)
qed

end
