(* ===== verification/Payment_Amulets.thy ===== *)
theory Payment_Amulets
  imports Payment_Safety
begin

text \<open>
  The amulets of an allocation: the choice among the selectable ones is sound and complete, by
  the contract of the greedy loop of the holdings cache; and what the reservation of a running
  allocation is worth.
\<close>

section \<open>The choice\<close>

lemma indexed_greedy:
  assumes "greedy A target MAX_AMULET_INPUTS (map ((!) hs) is) (map ((!) hs) sel) tot = Some (picks, t)"
    and "tot < target"
  shows "map ((!) hs) (take_largest A target (map (\<lambda>i. (i, h_amount (hs ! i))) is) sel tot) =
    (if target \<le> t then picks else [])"
  using assms
proof (induction "is" arbitrary: sel tot)
  case (Cons i "is")
  from Cons.prems Cons.IH [of "sel @ [i]"] show ?case
    by (auto split: if_splits option.splits)
qed auto

lemma indexed_subset: "set (take_largest A target ps sel tot) \<subseteq> set sel \<union> fst ` set ps"
proof (induction ps arbitrary: sel tot)
  case (Cons p ps)
  obtain i a where p: "p = (i, a)" by (cases p)
  have "set (take_largest A target ps (sel @ [i]) t) \<subseteq> set sel \<union> insert i (fst ` set ps)" for t
    using Cons.IH [of "sel @ [i]" t] by auto
  then show ?case unfolding p by (auto split: option.split)
qed simp

lemma enumerate_amounts: "enumerate 0 (amounts hs) = map (\<lambda>i. (i, h_amount (hs ! i))) [0..<length hs]"
  by (rule nth_equalityI) (simp_all add: nth_enumerate_eq)

lemma find_map: "find P (map f xs) = map_option f (find (P \<circ> f) xs)"
  by (induction xs) auto

lemma find_indexed:
  "map_option ((!) hs) (find (\<lambda>i. P (hs ! i)) [0..<length hs]) = find P hs"
  using find_map [of P "(!) hs" "[0..<length hs]"] by (simp add: map_nth o_def)

lemma select_indices_nth:
  assumes "0 < target" and "greedy A target MAX_AMULET_INPUTS (rev hs) [] 0 = Some (picks, t)"
  shows "map ((!) hs) (select_amulet_indices A (amounts hs) target) =
      (case find (\<lambda>h. target \<le> h_amount h) hs of Some h \<Rightarrow> [h] | None \<Rightarrow> if target \<le> t then picks else [])"
    and "set (select_amulet_indices A (amounts hs) target) \<subseteq> {..<length hs}"
proof -
  let ?is = "rev [0..<length hs]"
  have "rev (enumerate 0 (amounts hs)) = map (\<lambda>i. (i, h_amount (hs ! i))) ?is"
    by (simp add: enumerate_amounts rev_map)
  moreover have "map ((!) hs) ?is = rev hs" by (simp add: rev_map [symmetric] map_nth)
  ultimately have loop: "map ((!) hs) (take_largest A target (rev (enumerate 0 (amounts hs))) [] 0) =
      (if target \<le> t then picks else [])"
    using indexed_greedy [of A target hs ?is "[]" 0 picks t] assms by simp
  have single: "find (\<lambda>(i, amount). target \<le> amount) (enumerate 0 (amounts hs)) =
      map_option (\<lambda>i. (i, h_amount (hs ! i))) (find (\<lambda>i. target \<le> h_amount (hs ! i)) [0..<length hs])"
    by (simp add: enumerate_amounts find_map o_def)
  show "map ((!) hs) (select_amulet_indices A (amounts hs) target) =
      (case find (\<lambda>h. target \<le> h_amount h) hs of Some h \<Rightarrow> [h] | None \<Rightarrow> if target \<le> t then picks else [])"
  proof (cases "find (\<lambda>i. target \<le> h_amount (hs ! i)) [0..<length hs]")
    case None
    then show ?thesis
      using assms(1) loop single find_indexed [of hs "\<lambda>h. target \<le> h_amount h"]
      by (simp add: select_amulet_indices_def)
  next
    case (Some i)
    then have "find (\<lambda>h. target \<le> h_amount h) hs = Some (hs ! i)"
      using find_indexed [of hs "\<lambda>h. target \<le> h_amount h"] by simp
    then show ?thesis using assms(1) single Some by (simp add: select_amulet_indices_def)
  qed
  have "fst ` set (rev (enumerate 0 (amounts hs))) \<subseteq> {..<length hs}"
    by (auto simp: enumerate_amounts)
  then show "set (select_amulet_indices A (amounts hs) target) \<subseteq> {..<length hs}"
    using assms(1) single subset_trans [OF indexed_subset [of A target "rev (enumerate 0 (amounts hs))" "[]" 0]]
    by (auto simp: select_amulet_indices_def find_Some_iff split: option.split)
qed

lemma select_amulets_eq:
  assumes "0 < cc" and "with_fee_margin A cc = Some target" and "0 < target"
    and "greedy A target MAX_AMULET_INPUTS (rev hs) [] 0 = Some (picks, t)"
  shows "select_amulets_for_allocation A (map holding_to_amulet hs) cc = map holding_to_amulet
      (case find (\<lambda>h. target \<le> h_amount h) hs of Some h \<Rightarrow> [h] | None \<Rightarrow> if target \<le> t then picks else [])"
proof -
  let ?is = "select_amulet_indices A (amounts hs) target"
  have am: "map am_amount (map holding_to_amulet hs) = amounts hs" by (simp add: holding_to_amulet_def)
  have "filter (\<lambda>i. i < length hs) ?is = ?is"
    using select_indices_nth(2) [OF assms(3,4)] by (auto simp: filter_id_conv)
  then have "select_amulets_for_allocation A (map holding_to_amulet hs) cc =
      map (\<lambda>i. map holding_to_amulet hs ! i) ?is"
    using assms(1,2) by (simp add: select_amulets_for_allocation_def am del: map_map)
  also have "\<dots> = map holding_to_amulet (map ((!) hs) ?is)"
    using select_indices_nth(2) [OF assms(3,4)] by auto
  finally show ?thesis by (simp add: select_indices_nth(1) [OF assms(3,4)])
qed

lemma select_amulets_spec:
  assumes "dec_laws A" and "selectable_ok hs"
    and "0 < cc" and "with_fee_margin A cc = Some target" and "0 < target"
  obtains (none) "select_amulets_for_allocation A (map holding_to_amulet hs) cc = []"
      "\<nexists>picks. covers hs target MAX_AMULET_INPUTS picks"
  | (some) picks where "select_amulets_for_allocation A (map holding_to_amulet hs) cc = map holding_to_amulet picks"
      "picks \<noteq> []" "covers hs target MAX_AMULET_INPUTS picks"
proof -
  let ?n = MAX_AMULET_INPUTS
  obtain k where k: "k \<le> ?n"
    "greedy A target ?n (rev hs) [] 0 = Some (take k (rev hs), total_of (take k (rev hs)))"
    "target \<le> total_of (take k (rev hs)) \<longleftrightarrow> target \<le> total_of (take ?n (rev hs))"
    using greedy_picks [OF assms(1,2,5), of ?n] by blast
  note eq = select_amulets_eq [OF assms(3-5) k(2)]
  consider h where "find (\<lambda>h. target \<le> h_amount h) hs = Some h"
    | "find (\<lambda>h. target \<le> h_amount h) hs = None" "target \<le> total_of (take k (rev hs))"
    | "find (\<lambda>h. target \<le> h_amount h) hs = None" "\<not> target \<le> total_of (take k (rev hs))"
    by (cases "find (\<lambda>h. target \<le> h_amount h) hs") auto
  then show ?thesis
  proof cases
    case (1 h)
    then have "h \<in> set hs" "target \<le> h_amount h"
      using assms(2) find_first_sorted [of hs target h] by (simp_all add: selectable_ok_def)
    then show ?thesis using 1 eq some [of "[h]"] by (simp add: covers_def MAX_AMULET_INPUTS_def)
  next
    case 2
    have "take k (rev hs) \<noteq> []"
    proof
      assume "take k (rev hs) = []"
      with 2(2) assms(5) show False by simp
    qed
    then show ?thesis using 2 eq some [of "take k (rev hs)"] covers_take [OF assms(2) k(1) 2(2)] by simp
  next
    case 3
    then show ?thesis using eq none covers_top [OF assms(2)] k(3) by simp blast
  qed
qed

text \<open>
  C16: An allocation gets amulets exactly when it can: the choice is empty only if no hundred of the
  selectable amulets cover the estimate and its fee margin, and otherwise it is distinct
  selectable amulets, at most a hundred, that do.
\<close>

theorem amulets_cover_allocation:
  assumes "dec_laws A" and "selectable_ok hs"
    and "0 < cc" and "with_fee_margin A cc = Some target" and "0 < target"
  shows "if select_amulets_for_allocation A (map holding_to_amulet hs) cc = []
    then \<nexists>picks. covers hs target MAX_AMULET_INPUTS picks
    else \<exists>picks. select_amulets_for_allocation A (map holding_to_amulet hs) cc = map holding_to_amulet picks
      \<and> covers hs target MAX_AMULET_INPUTS picks"
  using assms by (rule select_amulets_spec) auto

theorem amulets_cover_allocation_witness:
  "\<exists>picks. map am_contract_id (select_amulets_for_allocation exact_arith
        (map holding_to_amulet [sample_holding ''a'' 40, sample_holding ''b'' 80]) 100) = [''b'', ''a'']
     \<and> select_amulets_for_allocation exact_arith
        (map holding_to_amulet [sample_holding ''a'' 40, sample_holding ''b'' 80]) 100 = map holding_to_amulet picks
     \<and> covers [sample_holding ''a'' 40, sample_holding ''b'' 80] 102 MAX_AMULET_INPUTS picks"
proof -
  let ?hs = "[sample_holding ''a'' 40, sample_holding ''b'' 80]"
  have ok: "selectable_ok ?hs"
    by (simp add: selectable_ok_def sample_holding_def ledger_amount_def in_range_def total_of_def)
  have margin: "with_fee_margin exact_arith 100 = Some 102"
    by (simp add: with_fee_margin_def exact_arith_def in_range_def)
  have "select_amulet_indices exact_arith [40, 80] 102 = [1, 0]"
    by (simp add: select_amulet_indices_def MAX_AMULET_INPUTS_def exact_arith_def in_range_def)
  then have "map am_contract_id (select_amulets_for_allocation exact_arith (map holding_to_amulet ?hs) 100) = [''b'', ''a'']"
    by (simp add: select_amulets_for_allocation_def margin holding_to_amulet_def sample_holding_def)
  then show ?thesis
    using amulets_cover_allocation [OF exact_arith_laws ok _ margin] by (auto split: if_splits)
qed

section \<open>A reservation and its time\<close>

text \<open>
  A reservation lapses after sixty seconds, a worker may run for longer, and nothing ends it:
  the amulet of a running allocation is then given to another, and both hold it.
\<close>

definition one_amulet :: "(string \<Rightarrow> reserved_entry option) \<Rightarrow> holdings_cache" where
  "one_amulet reserved = (empty_cache False)\<lparr>hc_available :=
     [''a'' \<mapsto> (sample_holding ''a'' 200)\<lparr>h_instrument := CC_INSTRUMENT\<rparr>], hc_reserved := reserved\<rparr>"

definition two_allocations :: "payment_queue" where
  "two_allocations = run (payment_step exact_arith (\<lambda>s. None) \<lparr>wf_dry_run = False, wf_confirm = False\<rparr>)
     (new_queue 2 1 (one_amulet Map.empty))
     [Submit 1 (Allocate ''p'' ''d'' (Some 100)), Submit 2 (Allocate ''q'' ''e'' (Some 100)), Round None]"

lemma one_amulet_selected:
  assumes "secs_since now 0 \<le> AVAILABLE_TTL_SECS" and "\<not> is_reserved (one_amulet m) now ''a''"
  shows "get_selectable_amulets [''a''] now b (one_amulet m) =
    [\<lparr>am_contract_id = ''a'', am_amount = 200, am_discovered_at = 0\<rparr>]"
  using assms
  by (simp add: get_selectable_amulets_def get_selectable_def selectable_holding_def excluded_cid_def holdings_of_def
      is_fresh_def is_consumed_def one_amulet_def empty_cache_def sample_holding_def List.map_filter_def holding_to_amulet_def)

lemma one_amulet_reserved:
  assumes "\<not> is_reserved (one_amulet m) now ''a''"
  shows "reserve_with_kind now [''a''] k (one_amulet m) =
    (True, one_amulet (m(''a'' \<mapsto> \<lparr>re_kind = k, re_reserved_at = now\<rparr>)))"
  using assms by (simp add: reserve_with_kind_def is_consumed_def one_amulet_def empty_cache_def)

lemma one_amulet_chosen:
  "select_amulets_for_allocation exact_arith [\<lparr>am_contract_id = ''a'', am_amount = 200, am_discovered_at = 0\<rparr>] 101 =
     [\<lparr>am_contract_id = ''a'', am_amount = 200, am_discovered_at = 0\<rparr>]"
proof -
  have "with_fee_margin exact_arith 101 = Some (10302 / 100)"
    by (simp add: with_fee_margin_def exact_arith_def in_range_def)
  then show ?thesis by (simp add: select_amulets_for_allocation_def select_amulet_indices_def)
qed

lemma one_amulet_dispatched:
  assumes "pw_in_pass w" and "pop (pw_heap w) = Some (item, rest)"
    and "qu_request item = Allocate p d (Some 100)" and "pw_abandoned w = []" and "pw_alloc_permits w \<noteq> 0"
    and "pw_cache w = one_amulet m" and "secs_since now 0 \<le> AVAILABLE_TTL_SECS" and "\<not> is_reserved (one_amulet m) now ''a''"
  defines "kind \<equiv> V1Payment (''payment-'' @ show_nat (pw_payment_ids w))"
  shows "dispatch exact_arith (quiet_env now [''a'']) w = start_worker item [''a'']
    (w\<lparr>pw_heap := rest, pw_payment_ids := Suc (pw_payment_ids w) mod 2 ^ 64,
       pw_cache := one_amulet (m(''a'' \<mapsto> \<lparr>re_kind = kind, re_reserved_at = now\<rparr>))\<rparr>)"
proof -
  let ?w = "w\<lparr>pw_heap := rest\<rparr>"
  let ?am = "[\<lparr>am_contract_id = ''a'', am_amount = 200, am_discovered_at = 0\<rparr>]"
  have "payment_target exact_arith (qu_request item) = Some 101"
    using assms(3) by (simp add: payment_target_def with_fee_margin_def AMULET_SELECTION_MARGIN_def exact_arith_def in_range_def)
  then have kept: "screen exact_arith ?w item = Kept 101" using assms(4) by (simp add: screen_def)
  have other: "other_tasks (quiet_env now [''a'']) x v = v" for x v by (simp add: other_tasks_def quiet_env_def)
  have pick: "pick_amulets exact_arith (quiet_env now [''a'']) 101 ?w = (?am, ?w)"
    using one_amulet_selected [OF assms(7,8)] one_amulet_chosen assms(6)
    by (simp add: pick_amulets_def other Let_def) (simp add: quiet_env_def)
  have enough: "\<not> selection_short exact_arith ?am 101"
    by (simp add: selection_short_def dec_sum_def exact_arith_def in_range_def)
  have now: "de_now (quiet_env now [''a'']) At_reserving = now" by (simp add: quiet_env_def)
  show ?thesis
    using assms(1-6) kept pick enough one_amulet_reserved [OF assms(8)]
    by (simp add: dispatch_def dispatch_item_def Let_def reserve_amulets_def other now take_permit_def permits_for_def kind_def)
qed

theorem running_allocation_loses_its_amulet:
  "map (\<lambda>j. (qu_caller (jb_item j), jb_cids j)) (pw_running
     (run (payment_step exact_arith (\<lambda>s. None) \<lparr>wf_dry_run = False, wf_confirm = False\<rparr>) two_allocations
       [Dispatch (quiet_env 1000000000 [''a'']), Dispatch (quiet_env 62000000000 [''a''])])) = [(1, [''a'']), (2, [''a''])]"
proof -
  let ?q = "\<lambda>n p d. \<lparr>qu_priority = High, qu_sequence = n, qu_request = Allocate p d (Some 100), qu_caller = Suc n\<rparr>"
  have w: "pw_in_pass two_allocations" "pop (pw_heap two_allocations) = Some (?q 0 ''p'' ''d'', [?q 1 ''q'' ''e''])"
      "pw_abandoned two_allocations = []" "pw_alloc_permits two_allocations = 2" "pw_running two_allocations = []"
      "pw_cache two_allocations = one_amulet Map.empty"
    by (simp_all add: two_allocations_def new_queue_def submit_payment_def begin_round_def get_channel_def Let_def outranks_def)
  have free: "\<not> is_reserved (one_amulet Map.empty) 1000000000 ''a''"
    "\<not> is_reserved (one_amulet [''a'' \<mapsto> \<lparr>re_kind = V1Payment p, re_reserved_at = 1000000000\<rparr>]) 62000000000 ''a''" for p
    by (simp_all add: is_reserved_def one_amulet_def empty_cache_def reservation_expired_def secs_since_def
        V1_RESERVATION_TTL_SECS_def)
  have fresh: "secs_since 1000000000 0 \<le> AVAILABLE_TTL_SECS" "secs_since 62000000000 0 \<le> AVAILABLE_TTL_SECS"
    by (simp_all add: secs_since_def AVAILABLE_TTL_SECS_def)
  note first = one_amulet_dispatched [OF w(1,2) _ w(3) _ w(6) fresh(1) free(1), of "''p''" "''d''", simplified w, simplified]
  define w1 where "w1 = dispatch exact_arith (quiet_env 1000000000 [''a'']) two_allocations"
  have "pw_in_pass w1" "pop (pw_heap w1) = Some (?q 1 ''q'' ''e'', [])" "pw_abandoned w1 = []" "pw_alloc_permits w1 = 1"
      "map (\<lambda>j. (qu_caller (jb_item j), jb_cids j)) (pw_running w1) = [(1, [''a''])]"
      "\<exists>p. pw_cache w1 = one_amulet [''a'' \<mapsto> \<lparr>re_kind = V1Payment p, re_reserved_at = 1000000000\<rparr>]"
    by (auto simp: w1_def first start_worker_def add_permits_def w)
  moreover from this obtain p where
    "pw_cache w1 = one_amulet [''a'' \<mapsto> \<lparr>re_kind = V1Payment p, re_reserved_at = 1000000000\<rparr>]" by blast
  ultimately show ?thesis
    using one_amulet_dispatched [of w1 "?q 1 ''q'' ''e''" "[]" "''q''" "''e''", OF _ _ _ _ _ _ fresh(2) free(2)]
    by (simp add: w1_def [symmetric] start_worker_def add_permits_def)
qed

end
