(* ===== verification/Forecast.thy ===== *)
theory Forecast
  imports Ledger_Health F64_Mono
begin

text \<open>
  \<open>crates/agent-logic/src/forecast.rs\<close>: the issuance forecast that gates requests, and its
  poller. The process-global atomics are the record \<open>forecast\<close>; the overload threshold, read
  once from the environment, and the clock are arguments. The log keeps the warnings and what
  ends them.
\<close>

section \<open>Settings\<close>

definition POLL_SECS_ENV :: string where "POLL_SECS_ENV = ''FORECAST_POLL_SECS''"
definition DEFAULT_POLL_SECS :: nat where "DEFAULT_POLL_SECS = 30"
definition MAX_POLL_SECS :: nat where "MAX_POLL_SECS = 3600"
definition POLL_FAILURES_BEFORE_WARN :: nat where "POLL_FAILURES_BEFORE_WARN = 3"
definition POLL_FAILURES_BEFORE_RECONNECT :: nat where "POLL_FAILURES_BEFORE_RECONNECT = 5"

definition parse_poll_secs :: "(string \<Rightarrow> string) \<Rightarrow> string option \<Rightarrow> nat result" where
  "parse_poll_secs trim raw =
     (case raw of None \<Rightarrow> Inr DEFAULT_POLL_SECS
      | Some r0 \<Rightarrow> let r = trim r0 in
          if r = [] then Inr DEFAULT_POLL_SECS
          else (case parse_u64 r of
              None \<Rightarrow> Inl [Lit POLL_SECS_ENV, Lit ''='', Arg r, Lit '' is not a whole number of seconds'']
            | Some secs \<Rightarrow> if secs < 1 \<or> secs > MAX_POLL_SECS
                then Inl [Lit POLL_SECS_ENV, Lit ''='', Num (int secs), Lit '' is outside 1..='',
                  Num (int MAX_POLL_SECS)]
                else Inr secs))"

definition overload_threshold :: "string option \<Rightarrow> f64" where
  "overload_threshold raw = (case Option.bind raw parse_f64 of Some t \<Rightarrow> t | None \<Rightarrow> Fin (1 / 2))"

section \<open>The forecast\<close>

datatype forecast_log = Low_on | Low_off | Overload_on | Overload_off

record forecast =
  fc_value :: int
  fc_coefficient :: "string option"
  fc_coeff :: f64
  fc_was_low :: bool
  fc_was_overloaded :: bool
  fc_last_update :: nat

definition no_forecast :: forecast where
  "no_forecast = \<lparr>fc_value = 0, fc_coefficient = None, fc_coeff = Fin 0, fc_was_low = False,
     fc_was_overloaded = False, fc_last_update = 0\<rparr>"

definition coefficient_value :: "forecast \<Rightarrow> f64" where
  "coefficient_value f = fc_coeff f"

definition is_forecast_low :: "forecast \<Rightarrow> bool" where
  "is_forecast_low f \<longleftrightarrow> fc_value f = 1"

definition below_threshold :: "f64 \<Rightarrow> f64 \<Rightarrow> bool" where
  "below_threshold threshold coeff \<longleftrightarrow> f64_positive coeff \<and> f64_lt coeff threshold"

definition is_sequencer_overloaded :: "f64 \<Rightarrow> forecast \<Rightarrow> bool" where
  "is_sequencer_overloaded threshold f \<longleftrightarrow> below_threshold threshold (coefficient_value f)"

definition is_rfq_rejected_by_overload :: "f64 \<Rightarrow> forecast \<Rightarrow> bool" where
  "is_rfq_rejected_by_overload threshold f \<longleftrightarrow>
     below_threshold (f64_sub threshold (round_f64 (1 / 10))) (coefficient_value f)"

definition forecast_label :: "forecast \<Rightarrow> string" where
  "forecast_label f = (if fc_value f = 1 then ''low'' else if fc_value f = 2 then ''medium''
     else if fc_value f = 3 then ''high'' else ''unknown'')"

definition forecast_age_secs :: "nat \<Rightarrow> forecast \<Rightarrow> nat option" where
  "forecast_age_secs now f = (if fc_last_update f = 0 then None else Some (now - fc_last_update f))"

text \<open>What is stored, and the transitions that are logged.\<close>

definition update_forecast ::
  "f64 \<Rightarrow> nat \<Rightarrow> int \<Rightarrow> string option \<Rightarrow> forecast \<Rightarrow> forecast \<times> forecast_log list" where
  "update_forecast threshold now v coefficient f =
     (let now_low = (v = 1);
          coeff = (case Option.bind coefficient parse_f64 of Some c \<Rightarrow> c | None \<Rightarrow> Fin 0);
          now_overloaded = below_threshold threshold coeff
      in (\<lparr>fc_value = v, fc_coefficient = coefficient, fc_coeff = coeff,
           fc_was_low = (if now_low \<and> \<not> fc_was_low f then True
             else if \<not> now_low \<and> fc_was_low f then False else fc_was_low f),
           fc_was_overloaded = (if now_overloaded \<and> \<not> fc_was_overloaded f then True
             else if \<not> now_overloaded \<and> fc_was_overloaded f then False else fc_was_overloaded f),
           fc_last_update = now\<rparr>,
          (if now_low \<and> \<not> fc_was_low f then [Low_on] else if \<not> now_low \<and> fc_was_low f then [Low_off] else [])
          @ (if now_overloaded \<and> \<not> fc_was_overloaded f then [Overload_on]
             else if \<not> now_overloaded \<and> fc_was_overloaded f then [Overload_off] else [])))"

section \<open>The poller\<close>

record poller =
  po_client :: bool
  po_failures :: nat
  po_warned :: bool
  po_forecast :: forecast
  po_warnings :: nat

definition new_poller :: "forecast \<Rightarrow> poller" where
  "new_poller f = \<lparr>po_client = False, po_failures = 0, po_warned = False, po_forecast = f, po_warnings = 0\<rparr>"

text \<open>The answer to one tick: no client, or what the call came to.\<close>

datatype poll_outcome = Connect_failed | Prediction int "string option" | No_prediction | Call_failed

definition note_poll_failure :: "nat \<Rightarrow> poller \<Rightarrow> poller" where
  "note_poll_failure failures p =
     (if failures \<ge> POLL_FAILURES_BEFORE_WARN \<and> \<not> po_warned p
      then p\<lparr>po_warned := True, po_warnings := Suc (po_warnings p)\<rparr> else p)"

definition count_failure :: "poller \<Rightarrow> poller" where
  "count_failure p = p\<lparr>po_failures := min (Suc (po_failures p)) (2 ^ 32 - 1)\<rparr>"

definition poll_result :: "f64 \<Rightarrow> nat \<Rightarrow> nat \<Rightarrow> poll_outcome \<Rightarrow> poller \<Rightarrow> poller" where
  "poll_result threshold period now x p = (case x of
       Prediction v c \<Rightarrow> p\<lparr>po_forecast := fst (update_forecast threshold now v c (po_forecast p)),
         po_warned := False, po_failures := 0\<rparr>
     | No_prediction \<Rightarrow>
         (let p = p\<lparr>po_failures := 0\<rparr>;
              stale = (case forecast_age_secs now (po_forecast p) of None \<Rightarrow> True
                | Some age \<Rightarrow> age > sat_mul period 10)
          in if stale \<and> \<not> po_warned p then p\<lparr>po_warned := True, po_warnings := Suc (po_warnings p)\<rparr> else p)
     | _ \<Rightarrow>
         (let p = count_failure p; p = note_poll_failure (po_failures p) p
          in if po_failures p mod POLL_FAILURES_BEFORE_RECONNECT = 0 then p\<lparr>po_client := False\<rparr> else p))"

text \<open>One tick of \<open>poll_loop\<close>: a client is made when there is none.\<close>

definition poll_tick :: "f64 \<Rightarrow> nat \<Rightarrow> poller \<Rightarrow> nat \<times> poll_outcome \<Rightarrow> poller" where
  "poll_tick threshold period p x = (case x of (now, outcome) \<Rightarrow>
     if \<not> po_client p \<and> outcome = Connect_failed then
       (let p = count_failure p in note_poll_failure (po_failures p) p)
     else poll_result threshold period now outcome (p\<lparr>po_client := True\<rparr>))"

section \<open>What the gates read\<close>

text \<open>The memory of the last transition agrees with the gates.\<close>

definition forecast_inv :: "f64 \<Rightarrow> forecast \<Rightarrow> bool" where
  "forecast_inv threshold f \<longleftrightarrow> fc_was_low f = is_forecast_low f
     \<and> fc_was_overloaded f = is_sequencer_overloaded threshold f"

lemma update_forecast_inv: "forecast_inv threshold (fst (update_forecast threshold now v c f))"
  by (simp add: forecast_inv_def update_forecast_def Let_def is_forecast_low_def is_sequencer_overloaded_def
      coefficient_value_def)

lemma no_forecast_inv: "forecast_inv threshold no_forecast"
  by (simp add: forecast_inv_def no_forecast_def is_forecast_low_def is_sequencer_overloaded_def coefficient_value_def
      below_threshold_def f64_positive_def)

text \<open>Where no request is priced, spreads are also tripled.\<close>

lemma rejected_is_overloaded:
  assumes "is_rfq_rejected_by_overload (Fin t) f" and "round_f64 t = Fin t"
  shows "is_sequencer_overloaded (Fin t) f"
proof -
  have "f64_le (f64_sub (Fin t) (round_f64 (1 / 10))) (round_f64 t)"
  proof -
    obtain d where d: "round_f64 (1 / 10) = Fin d" "0 \<le> d"
      using round_f64_mono [of 0 "1 / 10"] round_f64_finite [of "1 / 10"] by auto
    then show ?thesis using round_f64_mono [of "t - d" t] by simp
  qed
  then show ?thesis
    using assms
    by (cases "f64_sub (Fin t) (round_f64 (1 / 10))"; cases "coefficient_value f")
      (auto simp: is_rfq_rejected_by_overload_def is_sequencer_overloaded_def below_threshold_def)
qed

section \<open>One warning per outage\<close>

fun predictions :: "(nat \<times> poll_outcome) list \<Rightarrow> nat" where
  "predictions [] = 0"
| "predictions ((now, Prediction v c) # xs) = Suc (predictions xs)"
| "predictions (x # xs) = predictions xs"

lemma predictions_Cons: "predictions (x # xs) = predictions [x] + predictions xs"
  by (cases x; cases "snd x") auto

lemma poll_result_warnings:
  "po_warnings (poll_result threshold period now x p) + (if po_warned (poll_result threshold period now x p) then 0 else 1)
     \<le> po_warnings p + (if po_warned p then 0 else 1) + (case x of Prediction v c \<Rightarrow> 1 | _ \<Rightarrow> 0)"
  by (cases x) (auto simp: poll_result_def note_poll_failure_def count_failure_def Let_def split: option.split)

lemma poll_tick_warnings:
  "po_warnings (poll_tick threshold period p x) + (if po_warned (poll_tick threshold period p x) then 0 else 1)
     \<le> po_warnings p + (if po_warned p then 0 else 1) + predictions [x]"
proof -
  obtain now y where x: "x = (now, y)" by (cases x)
  have "predictions [x] = (case y of Prediction v c \<Rightarrow> 1 | _ \<Rightarrow> 0)" unfolding x by (cases y) auto
  then show ?thesis
    using poll_result_warnings [of threshold period now y "p\<lparr>po_client := True\<rparr>"]
    by (auto simp: x poll_tick_def note_poll_failure_def count_failure_def Let_def)
qed

lemma run_warnings:
  "po_warnings (run (poll_tick threshold period) p xs) + (if po_warned (run (poll_tick threshold period) p xs) then 0 else 1)
     \<le> po_warnings p + (if po_warned p then 0 else 1) + predictions xs"
proof (induction xs arbitrary: p)
  case (Cons x xs)
  show ?case
    using Cons.IH [of "poll_tick threshold period p x"] poll_tick_warnings [of threshold period p x]
      predictions_Cons [of x xs] by simp
qed simp

lemma poll_tick_inv:
  "forecast_inv threshold (po_forecast p) \<Longrightarrow> forecast_inv threshold (po_forecast (poll_tick threshold period p x))"
  by (cases "snd x")
    (auto simp: poll_tick_def poll_result_def note_poll_failure_def count_failure_def Let_def update_forecast_inv
      split: prod.split option.split)

interpretation polling: kept "poll_tick threshold period" "\<lambda>p. forecast_inv threshold (po_forecast p)" "\<lambda>x. True"
  for threshold period
  by unfold_locales (rule poll_tick_inv)

text \<open>
  However long an outage lasts, the poller warns at most once between two predictions; and what
  it remembers of the last transitions agrees at every moment with what the gates read.
\<close>

theorem one_warning_per_outage:
  "(let p = run (poll_tick threshold period) (new_poller no_forecast) xs in
     po_warnings p \<le> Suc (predictions xs) \<and> forecast_inv threshold (po_forecast p))"
  using run_warnings [of threshold period "new_poller no_forecast" xs]
    polling.run_keeps [of threshold "new_poller no_forecast" xs period] no_forecast_inv
  by (simp add: new_poller_def Let_def list_all_iff split: if_splits)

end
