(* ===== verification/Rfq_Pricing.thy ===== *)
theory Rfq_Pricing
  imports Forecast Rfq_State
begin

text \<open>
  \<open>crates/cloud-agent/src/rfq_handler.rs\<close>, the venue overlays of
  \<open>crates/agent-logic/src/config.rs\<close> it resolves, and the answer to one request of
  \<open>crates/cloud-agent/src/lp_stream.rs\<close>: a request is checked, priced, bounded and funded, and
  then registered with the desk of \<open>Rfq_State\<close>. At each await other tasks may change the world.
  The tracker, the mids and the liquidity of the world are those the handler shares with the
  desk; the text of a reject keeps the number it prints. A division by a zero price gives an
  infinity or NaN whatever the sign of the zero, and both are refused.
\<close>

section \<open>Configuration\<close>

record rfq_market_config =
  rm_enabled :: bool
  rm_min_quantity :: string
  rm_max_quantity :: string
  rm_bid_spread_percent :: f64
  rm_offer_spread_percent :: f64
  rm_disable_overload_spread_widening :: bool
  rm_disable_depletion_spread_widening :: bool
  rm_disable_offer_side :: bool
  rm_disable_bid_side :: bool
  rm_quote_valid_secs :: "nat option"
  rm_allocate_before_secs :: nat
  rm_settle_before_secs :: nat
  rm_min_notional_usd :: "f64 option"
  rm_pool_impact :: "impact_config option"

record rfq_overlay =
  ov_enabled :: "bool option"
  ov_min_quantity :: "string option"
  ov_max_quantity :: "string option"
  ov_bid_spread_percent :: "f64 option"
  ov_offer_spread_percent :: "f64 option"
  ov_disable_overload_spread_widening :: "bool option"
  ov_disable_depletion_spread_widening :: "bool option"
  ov_quote_valid_secs :: "nat option"

record venue_override =
  vo_venue :: string
  vo_branch :: "string option"
  vo_markets :: "string list option"
  vo_rfq :: rfq_overlay

record rfq_market =
  mk_market_id :: string
  mk_enabled :: bool
  mk_rfq :: "rfq_market_config option"

definition overlaid :: "'a option \<Rightarrow> 'a \<Rightarrow> 'a" where
  "overlaid o' x = (case o' of Some v \<Rightarrow> v | None \<Rightarrow> x)"

definition apply_overlay :: "rfq_overlay \<Rightarrow> rfq_market_config \<Rightarrow> rfq_market_config" where
  "apply_overlay ov cfg = cfg\<lparr>rm_enabled := overlaid (ov_enabled ov) (rm_enabled cfg),
     rm_min_quantity := overlaid (ov_min_quantity ov) (rm_min_quantity cfg),
     rm_max_quantity := overlaid (ov_max_quantity ov) (rm_max_quantity cfg),
     rm_bid_spread_percent := overlaid (ov_bid_spread_percent ov) (rm_bid_spread_percent cfg),
     rm_offer_spread_percent := overlaid (ov_offer_spread_percent ov) (rm_offer_spread_percent cfg),
     rm_disable_overload_spread_widening :=
       overlaid (ov_disable_overload_spread_widening ov) (rm_disable_overload_spread_widening cfg),
     rm_disable_depletion_spread_widening :=
       overlaid (ov_disable_depletion_spread_widening ov) (rm_disable_depletion_spread_widening cfg),
     rm_quote_valid_secs := (case ov_quote_valid_secs ov of Some v \<Rightarrow> Some v | None \<Rightarrow> rm_quote_valid_secs cfg)\<rparr>"

definition override_matches :: "string \<Rightarrow> string \<Rightarrow> string option \<Rightarrow> venue_override \<Rightarrow> bool" where
  "override_matches market_id venue branch v \<longleftrightarrow> vo_venue v = venue
     \<and> (case vo_branch v of Some b \<Rightarrow> branch = Some b | None \<Rightarrow> True)
     \<and> (case vo_markets v of Some ms \<Rightarrow> market_id \<in> set ms | None \<Rightarrow> True)"

definition specificity :: "venue_override \<Rightarrow> nat" where
  "specificity v = (if vo_branch v \<noteq> None then 1 else 0) + (if vo_markets v \<noteq> None then 1 else 0)"

definition resolve_rfq_config ::
  "rfq_market_config \<Rightarrow> venue_override list \<Rightarrow> string \<Rightarrow> string option \<Rightarrow> string option \<Rightarrow> rfq_market_config" where
  "resolve_rfq_config pair overrides market_id venue branch = (case venue of
       None \<Rightarrow> pair
     | Some v \<Rightarrow> foldl (\<lambda>cfg x. apply_overlay (vo_rfq x) cfg) pair
         (sort_key specificity (filter (override_matches market_id v branch) overrides)))"

section \<open>The handler\<close>

record rfq_handler =
  rh_name :: string
  rh_default_quote_valid_secs :: nat
  rh_min_notional_usd :: f64
  rh_markets :: "rfq_market list"
  rh_overrides :: "venue_override list"
  rh_party_id :: string
  rh_manager :: "liquidity_manager option"
  rh_window_hours :: f64
  rh_v2_only :: bool

datatype rejection_reason = Unspecified | Market_Not_Supported | Amount_Too_Small | Amount_Too_Large
  | Temporarily_Unavailable | Market_Conditions

text \<open>The text of a reject, or the bound it names.\<close>

datatype reject_detail = Detail message | Min_Quantity f64 | Max_Quantity f64 | Min_Notional f64

record reject_info =
  ri_reason :: rejection_reason
  ri_detail :: reject_detail
  ri_min_quantity :: "string option"
  ri_max_quantity :: "string option"

definition reject_with :: "rejection_reason \<Rightarrow> string \<Rightarrow> reject_info" where
  "reject_with reason s = \<lparr>ri_reason = reason, ri_detail = Detail [Lit s], ri_min_quantity = None, ri_max_quantity = None\<rparr>"

definition unsupported_market :: "string \<Rightarrow> reject_info" where
  "unsupported_market market_id = \<lparr>ri_reason = Market_Not_Supported,
     ri_detail = Detail [Lit ''Market '', Arg market_id, Lit '' not supported''], ri_min_quantity = None, ri_max_quantity = None\<rparr>"

text \<open>What surrounds one pricing: as \<open>surroundings\<close> for a confirm.\<close>

datatype price_place = At_refused | At_mid | At_widen | At_low | At_flow | At_net | At_usd | At_ready | At_age
  | At_rate | At_funds | At_fee_funds | At_cut

record price_env =
  pe_others :: "price_place \<Rightarrow> rfq_world \<Rightarrow> rfq_world"
  pe_breaker :: breaker
  pe_now_ms :: nat
  pe_threshold :: f64
  pe_forecast :: "price_place \<Rightarrow> forecast"
  pe_instant :: "price_place \<Rightarrow> nat"
  pe_millis :: int
  pe_trim :: "string \<Rightarrow> string"

definition find_rfq ::
  "rfq_handler \<Rightarrow> string \<Rightarrow> int \<Rightarrow> string option \<Rightarrow> string option \<Rightarrow> reject_info + rfq_market_config" where
  "find_rfq H market_id direction venue branch =
     (case find (\<lambda>m. mk_market_id m = market_id) (rh_markets H) of
        None \<Rightarrow> Inl (unsupported_market market_id)
      | Some m \<Rightarrow>
          if \<not> mk_enabled m then Inl (unsupported_market market_id)
          else (case mk_rfq m of
              None \<Rightarrow> Inl (reject_with Market_Not_Supported ''RFQ not enabled for this market'')
            | Some pair \<Rightarrow>
                let cfg = resolve_rfq_config pair (rh_overrides H) market_id venue branch in
                if \<not> rm_enabled cfg then
                  Inl (reject_with Market_Not_Supported (if rm_enabled pair then ''RFQ not available for this venue''
                    else ''RFQ not enabled for this market''))
                else if (if direction = 1 then rm_disable_offer_side cfg else rm_disable_bid_side cfg) then
                  Inl (reject_with Market_Not_Supported ''RFQ not available for this side'')
                else Inr cfg))"

text \<open>The quote amount asked for, or the base amount.\<close>

definition requested_size :: "price_env \<Rightarrow> string \<Rightarrow> string \<Rightarrow> reject_info + (f64 option \<times> f64)" where
  "requested_size E quantity_str quote_quantity_str =
     (if pe_trim E quote_quantity_str \<noteq> [] then
        (case parse_f64 quote_quantity_str of
           Some q \<Rightarrow> if f64_positive q \<and> is_finite q then Inr (Some q, Fin 0)
             else Inl (reject_with Unspecified ''Invalid quote_quantity'')
         | None \<Rightarrow> Inl (reject_with Unspecified ''Invalid quote_quantity''))
      else (case parse_f64 quantity_str of
           Some q \<Rightarrow> Inr (None, q)
         | None \<Rightarrow> Inl (reject_with Unspecified ''Invalid quantity'')))"

definition check_ledger :: "price_env \<Rightarrow> reject_info + unit" where
  "check_ledger E =
     (if is_unhealthy (pe_now_ms E) (pe_breaker E) then
        Inl (reject_with Temporarily_Unavailable ''Ledger temporarily unavailable'')
      else if is_rfq_rejected_by_overload (pe_threshold E) (pe_forecast E At_refused) then
        Inl (reject_with Market_Conditions ''High demand, try later'')
      else Inr ())"

definition mid_of :: "rfq_world \<Rightarrow> string \<Rightarrow> reject_info + market_mid" where
  "mid_of w market_id = (case rw_mids w market_id of
       Some m \<Rightarrow> if f64_positive (mm_mid m) then Inr m
         else Inl (reject_with Temporarily_Unavailable ''No mid-price available'')
     | None \<Rightarrow> Inl (reject_with Temporarily_Unavailable ''No mid-price available''))"

definition market_tokens :: "string \<Rightarrow> string \<times> string" where
  "market_tokens market_id = (case split_on CHR ''-'' market_id of
       [base, quote] \<Rightarrow> (base, quote) | _ \<Rightarrow> (market_id, []))"

section \<open>The price\<close>

definition spread_multiplier :: "price_env \<Rightarrow> rfq_market_config \<Rightarrow> f64" where
  "spread_multiplier E cfg =
     (if rm_disable_overload_spread_widening cfg then Fin 1
      else if is_sequencer_overloaded (pe_threshold E) (pe_forecast E At_widen) then Fin 3
      else if is_forecast_low (pe_forecast E At_low) then Fin 2
      else Fin 1)"

definition depletion_of ::
  "rfq_lib \<Rightarrow> rfq_handler \<Rightarrow> price_env \<Rightarrow> rfq_market_config \<Rightarrow> string \<Rightarrow> rfq_world \<Rightarrow> rfq_world \<times> f64" where
  "depletion_of L H E cfg token w =
     (if rm_disable_depletion_spread_widening cfg then (w, Fin 0)
      else (case rh_manager H of
          None \<Rightarrow> (w, Fin 0)
        | Some m \<Rightarrow>
            let w = pe_others E At_flow w;
                (s, c) = depletion_coefficient (rl_arith L) m (pe_instant E At_flow) token (rw_liquidity w)
            in (w\<lparr>rw_liquidity := s\<rparr>, c)))"

definition stress_coefficient :: "f64 \<Rightarrow> f64 \<Rightarrow> f64" where
  "stress_coefficient spread_percent multiplier = (if f64_le (Fin 0) spread_percent then multiplier else Fin 1)"

definition side_spread :: "int \<Rightarrow> rfq_market_config \<Rightarrow> f64" where
  "side_spread direction cfg = (if direction = 1 then rm_offer_spread_percent cfg else rm_bid_spread_percent cfg)"

definition signed_net_of ::
  "rfq_lib \<Rightarrow> rfq_handler \<Rightarrow> price_env \<Rightarrow> (impact_config \<times> pool_depth) option \<Rightarrow> string option \<Rightarrow> string \<Rightarrow> rfq_world \<Rightarrow> f64" where
  "signed_net_of L H E ctx user_party base_token w = (case (ctx, user_party, rw_net w) of
       (Some c, Some party, Some t) \<Rightarrow> party_net (rl_net L) (rh_window_hours H) t party base_token (pe_millis E)
     | _ \<Rightarrow> Fin 0)"

definition dir_price :: "int \<Rightarrow> f64 \<Rightarrow> f64 \<Rightarrow> f64" where
  "dir_price direction mid eff =
     (if direction = 1 then f64_mul mid (f64_add (Fin 1) (f64_div eff (Fin 100)))
      else f64_mul mid (f64_sub (Fin 1) (f64_div eff (Fin 100))))"

record sizing =
  sz_price :: f64
  sz_quantity :: f64
  sz_quote_quantity :: f64
  sz_impact :: f64

definition plain_size :: "int \<Rightarrow> f64 \<Rightarrow> f64 \<Rightarrow> f64 option \<Rightarrow> f64 \<Rightarrow> sizing" where
  "plain_size direction mid eff_base requested quantity =
     (let price = dir_price direction mid eff_base in case requested of
        Some q \<Rightarrow> \<lparr>sz_price = price, sz_quantity = f64_div q price, sz_quote_quantity = q, sz_impact = Fin 0\<rparr>
      | None \<Rightarrow> \<lparr>sz_price = price, sz_quantity = quantity, sz_quote_quantity = f64_mul quantity price, sz_impact = Fin 0\<rparr>)"

text \<open>With the size of the trade: the impact of a base amount, or the base amount for a quote amount.\<close>

definition impact_size ::
  "int \<Rightarrow> f64 \<Rightarrow> f64 \<Rightarrow> impact_config \<Rightarrow> pool_depth \<Rightarrow> f64 \<Rightarrow> f64 option \<Rightarrow> f64 \<Rightarrow> reject_info + sizing" where
  "impact_size direction mid eff_base cfg depth net requested quantity =
     (let side = (if direction = 1 then UserBuys else UserSells);
          impact = (\<lambda>b. pool_impact_percent side b net depth cfg);
          price_at = (\<lambda>b. dir_price direction mid (f64_add eff_base (impact b)))
      in case requested of
        None \<Rightarrow> Inr \<lparr>sz_price = price_at quantity, sz_quantity = quantity,
          sz_quote_quantity = f64_mul quantity (price_at quantity), sz_impact = impact quantity\<rparr>
      | Some q \<Rightarrow>
          let p0 = price_at (Fin 0);
              p_cap = f64_max (dir_price direction mid (f64_add eff_base (f64_max (max_impact_percent cfg) (Fin 0))))
                (f64_mul mid (lit (1 / 10 ^ 9)))
          in case solve_base_for_quote q (f64_min p0 p_cap) (f64_max p0 p_cap) price_at of
               Some b \<Rightarrow>
                 if is_finite b \<and> f64_positive b then
                   Inr \<lparr>sz_price = price_at b, sz_quantity = f64_div q (price_at b), sz_quote_quantity = q, sz_impact = impact b\<rparr>
                 else Inl (reject_with Temporarily_Unavailable ''Price computation error'')
             | None \<Rightarrow> Inl (reject_with Temporarily_Unavailable ''Price computation error''))"

definition price_size ::
  "int \<Rightarrow> f64 \<Rightarrow> f64 \<Rightarrow> (impact_config \<times> pool_depth) option \<Rightarrow> f64 \<Rightarrow> f64 option \<Rightarrow> f64 \<Rightarrow> reject_info + sizing" where
  "price_size direction mid eff_base ctx net requested quantity = (case ctx of
       Some (cfg, depth) \<Rightarrow> if pi_enabled cfg then impact_size direction mid eff_base cfg depth net requested quantity
         else Inr (plain_size direction mid eff_base requested quantity)
     | None \<Rightarrow> Inr (plain_size direction mid eff_base requested quantity))"

section \<open>Bounds\<close>

definition check_computed :: "sizing \<Rightarrow> reject_info + unit" where
  "check_computed z =
     (if \<not> is_finite (sz_price z) \<or> \<not> is_finite (sz_quote_quantity z) \<or> \<not> is_finite (sz_quantity z)
         \<or> f64_le (sz_price z) (Fin 0)
      then Inl (reject_with Temporarily_Unavailable ''Price computation error'') else Inr ())"

definition amount_bound :: "rejection_reason \<Rightarrow> reject_detail \<Rightarrow> rfq_market_config \<Rightarrow> reject_info" where
  "amount_bound reason detail cfg = \<lparr>ri_reason = reason, ri_detail = detail,
     ri_min_quantity = Some (rm_min_quantity cfg), ri_max_quantity = Some (rm_max_quantity cfg)\<rparr>"

definition check_bounds :: "rfq_market_config \<Rightarrow> f64 \<Rightarrow> reject_info + unit" where
  "check_bounds cfg quantity =
     (case parse_f64 (rm_max_quantity cfg) of
        Some max_qty \<Rightarrow>
          if \<not> (is_finite max_qty \<and> f64_positive max_qty) then
            Inl (reject_with Market_Not_Supported ''RFQ not available for this market'')
          else if f64_lt quantity (or_parse (rm_min_quantity cfg)) then
            Inl (amount_bound Amount_Too_Small (Min_Quantity (or_parse (rm_min_quantity cfg))) cfg)
          else if f64_lt max_qty quantity then Inl (amount_bound Amount_Too_Large (Max_Quantity max_qty) cfg)
          else Inr ()
      | None \<Rightarrow> Inl (reject_with Market_Not_Supported ''RFQ not available for this market''))"

definition token_usd_price :: "price_env \<Rightarrow> string \<Rightarrow> rfq_world \<Rightarrow> f64 option \<times> rfq_world" where
  "token_usd_price E token w =
     (if starts_with token ''USDC'' then (Some (Fin 1), w)
      else let w = pe_others E At_usd w in
        (case List.map_filter (\<lambda>stable. Option.bind (rw_mids w (token @ ''-'' @ stable))
             (\<lambda>m. if f64_positive (mm_mid m) then Some (mm_mid m) else None)) [''USDCx'', ''USDC''] of
           [] \<Rightarrow> None | p # ps \<Rightarrow> Some p, w))"

definition check_notional :: "rfq_handler \<Rightarrow> rfq_market_config \<Rightarrow> bool \<Rightarrow> f64 option \<Rightarrow> reject_info + unit" where
  "check_notional H cfg enforce notional =
     (let minimum = (case rm_min_notional_usd cfg of Some m \<Rightarrow> m | None \<Rightarrow> rh_min_notional_usd H) in
      if enforce \<and> f64_positive minimum then
        (case notional of
           Some v \<Rightarrow> if f64_lt v minimum then Inl \<lparr>ri_reason = Amount_Too_Small, ri_detail = Min_Notional minimum,
               ri_min_quantity = None, ri_max_quantity = None\<rparr> else Inr ()
         | None \<Rightarrow> Inr ())
      else Inr ())"

section \<open>Funds\<close>

definition v1_fee_headroom_usd :: "liq_arith \<Rightarrow> f64 option \<Rightarrow> rat option" where
  "v1_fee_headroom_usd A notional =
     Option.bind (case notional of Some n \<Rightarrow> d_from_f64 A (f64_mul n (lit (1 / 1000))) | None \<Rightarrow> Some 0) (\<lambda>alloc.
     Option.bind (d_add A (3 / 10) (max alloc (7 / 10))) (\<lambda>s. d_mul A s 4))"

definition insufficient :: reject_info where
  "insufficient = reject_with Temporarily_Unavailable ''Insufficient liquidity''"

definition fee_headroom ::
  "rfq_lib \<Rightarrow> liquidity_manager \<Rightarrow> price_env \<Rightarrow> bool \<Rightarrow> f64 option \<Rightarrow> rfq_world \<Rightarrow> (reject_info + rat) \<times> rfq_world" where
  "fee_headroom L m E enforce notional w =
     (if \<not> enforce then (Inr 0, w)
      else (case v1_fee_headroom_usd (rl_arith L) notional of
          None \<Rightarrow> (Inl (reject_with Amount_Too_Large ''Amount out of range''), w)
        | Some fee_usd \<Rightarrow> let w = pe_others E At_rate w in
            (Inr (estimate_fee_cc (rl_arith L) m (rw_liquidity w) fee_usd), w)))"

text \<open>The balances are read under two locks, the token's and that of CC.\<close>

definition enough_funds ::
  "rfq_lib \<Rightarrow> liquidity_manager \<Rightarrow> price_env \<Rightarrow> string \<Rightarrow> rat \<Rightarrow> rat \<Rightarrow> rfq_world \<Rightarrow> (reject_info + unit) \<times> rfq_world" where
  "enough_funds L m E token amount fee_cc w =
     (let A = rl_arith L; w = pe_others E At_funds w; avail = available A m (rw_liquidity w) token in
      case (if token = CC_TOKEN then d_add A amount fee_cc else Some amount) of
        None \<Rightarrow> (Inl insufficient, w)
      | Some needed \<Rightarrow>
          if token = CC_TOKEN then (if avail < needed then Inl insufficient else Inr (), w)
          else let w = pe_others E At_fee_funds w in
            (if avail < needed \<or> available_cc A m (rw_liquidity w) < fee_cc then Inl insufficient else Inr (), w))"

definition check_funds ::
  "rfq_lib \<Rightarrow> rfq_handler \<Rightarrow> price_env \<Rightarrow> bool \<Rightarrow> f64 option \<Rightarrow> string \<Rightarrow> f64 \<Rightarrow> rfq_world \<Rightarrow> (reject_info + unit) \<times> rfq_world" where
  "check_funds L H E enforce notional token amount w = (case rh_manager H of
       None \<Rightarrow> (Inr (), w)
     | Some m \<Rightarrow>
         let w = pe_others E At_ready w in
         if \<not> is_ready (rw_liquidity w) then (Inl (reject_with Temporarily_Unavailable ''Balances loading''), w)
         else let w = pe_others E At_age w in
         if is_stale m (rw_liquidity w) token (pe_instant E At_age) \<noteq> None then
           (Inl (reject_with Temporarily_Unavailable ''Balances stale''), w)
         else (case fee_headroom L m E enforce notional w of
             (Inl r, w) \<Rightarrow> (Inl r, w)
           | (Inr fee_cc, w) \<Rightarrow>
               if fee_cc = d_max (rl_arith L) then (Inl insufficient, w)
               else (case d_from_f64 (rl_arith L) amount of
                   None \<Rightarrow> (Inl insufficient, w)
                 | Some amount \<Rightarrow> enough_funds L m E token amount fee_cc w)))"

section \<open>Pricing\<close>

definition wire_amounts :: "rfq_lib \<Rightarrow> sizing \<Rightarrow> reject_info + (rat \<times> rat \<times> rat)" where
  "wire_amounts L z =
     (case (d_from_str (rl_decimals L) (fixed10 (sz_price z)), d_from_str (rl_decimals L) (fixed10 (sz_quantity z)),
        d_from_str (rl_decimals L) (fixed10 (sz_quote_quantity z))) of
        (Inr p, Inr q, Inr qq) \<Rightarrow> Inr (p, q, qq)
      | _ \<Rightarrow> Inl (reject_with Temporarily_Unavailable ''Price computation error''))"

definition alloc_leg :: "int \<Rightarrow> string \<Rightarrow> 'a \<Rightarrow> 'a \<Rightarrow> string \<times> 'a" where
  "alloc_leg direction market_id base quote =
     (if direction = 1 then (fst (market_tokens market_id), base) else (snd (market_tokens market_id), quote))"

definition priced_of ::
  "rfq_handler \<Rightarrow> string \<Rightarrow> int \<Rightarrow> rfq_market_config \<Rightarrow> (impact_config \<times> pool_depth) option \<Rightarrow> f64 \<Rightarrow> f64
     \<Rightarrow> sizing \<Rightarrow> f64 option \<Rightarrow> rat \<times> rat \<times> rat \<Rightarrow> priced_quote" where
  "priced_of H market_id direction cfg ctx net eff_base z notional wire = (case wire of (p, q, qq) \<Rightarrow>
     \<lparr>pq_market_id = market_id, pq_price = p, pq_quantity = q, pq_quote_quantity = qq,
      pq_price_str = fixed10 (sz_price z), pq_quantity_str = fixed10 (sz_quantity z),
      pq_quote_quantity_str = fixed10 (sz_quote_quantity z),
      pq_lp_pays = alloc_leg direction market_id q qq, pq_notional_usd = notional,
      pq_valid_for_secs = (case rm_quote_valid_secs cfg of Some s \<Rightarrow> s | None \<Rightarrow> rh_default_quote_valid_secs H),
      pq_allocate_before_secs = rm_allocate_before_secs cfg, pq_settle_before_secs = rm_settle_before_secs cfg,
      pq_pool_pricing = (case ctx of
          Some (c, depth) \<Rightarrow> if pi_enabled c then Some \<lparr>sn_base_reserve = base_reserve depth, sn_net_used = net,
              sn_impact_pct = sz_impact z, sn_eff_spread_base = eff_base\<rparr> else None
        | None \<Rightarrow> None)\<rparr>)"

text \<open>From the priced size to the quote: bounds, notional, funds and the texts of the wire.\<close>

definition finish_pricing ::
  "rfq_lib \<Rightarrow> rfq_handler \<Rightarrow> price_env \<Rightarrow> string \<Rightarrow> int \<Rightarrow> bool \<Rightarrow> rfq_market_config
     \<Rightarrow> (impact_config \<times> pool_depth) option \<Rightarrow> f64 \<Rightarrow> f64 \<Rightarrow> sizing \<Rightarrow> rfq_world \<Rightarrow> (reject_info + priced_quote) \<times> rfq_world" where
  "finish_pricing L H E market_id direction enforce cfg ctx net eff_base z w =
     (case try_bind (check_computed z) (\<lambda>_. check_bounds cfg (sz_quantity z)) of
        Inl r \<Rightarrow> (Inl r, w)
      | Inr _ \<Rightarrow>
          let (usd, w) = token_usd_price E (snd (market_tokens market_id)) w;
              notional = map_option (f64_mul (sz_quote_quantity z)) usd;
              (token, amount) = alloc_leg direction market_id (sz_quantity z) (sz_quote_quantity z)
          in case check_notional H cfg enforce notional of
               Inl r \<Rightarrow> (Inl r, w)
             | Inr _ \<Rightarrow> (case check_funds L H E enforce notional token amount w of
                 (Inl r, w) \<Rightarrow> (Inl r, w)
               | (Inr _, w) \<Rightarrow> (try_bind (wire_amounts L z)
                   (\<lambda>wire. Inr (priced_of H market_id direction cfg ctx net eff_base z notional wire)), w)))"

definition impact_ctx :: "rfq_market_config \<Rightarrow> market_mid \<Rightarrow> (impact_config \<times> pool_depth) option" where
  "impact_ctx cfg m = (case rm_pool_impact cfg of
       Some c \<Rightarrow> map_option (Pair c) (mm_pool_depth m) | None \<Rightarrow> None)"

definition effective_spread_base :: "price_env \<Rightarrow> rfq_market_config \<Rightarrow> int \<Rightarrow> f64 \<Rightarrow> f64" where
  "effective_spread_base E cfg direction depletion = (let spread = side_spread direction cfg in
     f64_mul spread (stress_coefficient spread (f64_add (spread_multiplier E cfg) depletion)))"

text \<open>From the mid to the price.\<close>

definition price_from_mid ::
  "rfq_lib \<Rightarrow> rfq_handler \<Rightarrow> price_env \<Rightarrow> string \<Rightarrow> int \<Rightarrow> bool \<Rightarrow> string option \<Rightarrow> rfq_market_config \<Rightarrow> f64 option \<Rightarrow> f64
     \<Rightarrow> market_mid \<Rightarrow> rfq_world \<Rightarrow> (reject_info + priced_quote) \<times> rfq_world" where
  "price_from_mid L H E market_id direction enforce user_party cfg requested quantity m w =
     (let (base_token, quote_token) = market_tokens market_id;
          (w, depletion) = depletion_of L H E cfg (if direction = 1 then base_token else quote_token) w;
          eff_base = effective_spread_base E cfg direction depletion;
          ctx = impact_ctx cfg m;
          w = pe_others E At_net w;
          net = signed_net_of L H E ctx user_party base_token w
      in case price_size direction (mm_mid m) eff_base ctx net requested quantity of
           Inl r \<Rightarrow> (Inl r, w)
         | Inr z \<Rightarrow> finish_pricing L H E market_id direction enforce cfg ctx net eff_base z w)"

definition price_rfq ::
  "rfq_lib \<Rightarrow> rfq_handler \<Rightarrow> price_env \<Rightarrow> string \<Rightarrow> int \<Rightarrow> string \<Rightarrow> string \<Rightarrow> bool \<Rightarrow> string option \<Rightarrow> string option
     \<Rightarrow> string option \<Rightarrow> rfq_world \<Rightarrow> (reject_info + priced_quote) \<times> rfq_world" where
  "price_rfq L H E market_id direction quantity_str quote_quantity_str enforce venue branch user_party w =
     (case try_bind (find_rfq H market_id direction venue branch) (\<lambda>cfg.
           try_bind (requested_size E quantity_str quote_quantity_str) (\<lambda>size.
           try_bind (check_ledger E) (\<lambda>_. Inr (cfg, size)))) of
        Inl r \<Rightarrow> (Inl r, w)
      | Inr (cfg, requested, quantity) \<Rightarrow>
          let w = pe_others E At_mid w in
          case mid_of w market_id of
            Inl r \<Rightarrow> (Inl r, w)
          | Inr m \<Rightarrow> price_from_mid L H E market_id direction enforce user_party cfg requested quantity m w)"

section \<open>RFQ V1\<close>

record v1_request =
  rq_rfq_id :: string
  rq_market_id :: string
  rq_direction :: int
  rq_quantity :: string

record v1_reject =
  rx_rfq_id :: string
  rx_lp_party_id :: string
  rx_lp_name :: string
  rx_info :: reject_info
  rx_rejected_at :: int

record v1_quote =
  qt_rfq_id :: string
  qt_quote_id :: string
  qt_market_id :: string
  qt_direction :: int
  qt_quantity :: string
  qt_price :: string
  qt_quote_quantity :: string
  qt_valid_for_secs :: nat
  qt_valid_until :: int
  qt_lp_party_id :: string
  qt_lp_name :: string
  qt_quoted_at :: int
  qt_allocate_before_secs :: nat
  qt_settle_before_secs :: nat

record quoted_trade =
  tr_market_id :: string
  tr_price :: string
  tr_base_quantity :: string
  tr_quote_quantity :: string

definition build_reject :: "rfq_handler \<Rightarrow> int \<Rightarrow> string \<Rightarrow> reject_info \<Rightarrow> v1_reject" where
  "build_reject H now rfq_id r = \<lparr>rx_rfq_id = rfq_id, rx_lp_party_id = rh_party_id H, rx_lp_name = rh_name H,
     rx_info = r, rx_rejected_at = now\<rparr>"

text \<open>The clock in seconds and the id of a new quote, if one can be drawn, are arguments.\<close>

definition handle_rfq_request ::
  "rfq_lib \<Rightarrow> rfq_handler \<Rightarrow> price_env \<Rightarrow> int \<Rightarrow> string option \<Rightarrow> v1_request \<Rightarrow> quoted_trade list \<times> rfq_world
     \<Rightarrow> (v1_reject + v1_quote) \<times> quoted_trade list \<times> rfq_world" where
  "handle_rfq_request L H E now new_id q s = (case s of (trades, w) \<Rightarrow>
     if rh_v2_only H then
       (Inl (build_reject H now (rq_rfq_id q) (reject_with Temporarily_Unavailable ''LP is RFQ V2 (AtomicDVP) only'')), s)
     else (case price_rfq L H E (rq_market_id q) (rq_direction q) (rq_quantity q) [] True None None None w of
         (Inl r, w) \<Rightarrow> (Inl (build_reject H now (rq_rfq_id q) r), trades, w)
       | (Inr p, w) \<Rightarrow> (case new_id of
             None \<Rightarrow> (Inl (build_reject H now (rq_rfq_id q)
               (reject_with Temporarily_Unavailable ''Temporarily unavailable'')), trades, w)
           | Some quote_id \<Rightarrow>
               (Inr \<lparr>qt_rfq_id = rq_rfq_id q, qt_quote_id = quote_id, qt_market_id = rq_market_id q,
                  qt_direction = rq_direction q, qt_quantity = pq_quantity_str p, qt_price = pq_price_str p,
                  qt_quote_quantity = pq_quote_quantity_str p, qt_valid_for_secs = pq_valid_for_secs p,
                  qt_valid_until = min (now + int (pq_valid_for_secs p)) (2 ^ 63 - 1),
                  qt_lp_party_id = rh_party_id H, qt_lp_name = rh_name H, qt_quoted_at = now,
                  qt_allocate_before_secs = pq_allocate_before_secs p, qt_settle_before_secs = pq_settle_before_secs p\<rparr>,
                trades @ [\<lparr>tr_market_id = rq_market_id q, tr_price = pq_price_str p,
                  tr_base_quantity = pq_quantity_str p, tr_quote_quantity = pq_quote_quantity_str p\<rparr>], w))))"

section \<open>RFQ V2\<close>

record atomic_request =
  ar_rfq_id :: string
  ar_market_id :: string
  ar_direction :: string
  ar_quantity :: string
  ar_quote_quantity :: "string option"
  ar_settlement_fee :: "lp_fee_json option"
  ar_quote_id_prefix :: "string option"
  ar_venue_name :: "string option"
  ar_venue_branch :: "string option"
  ar_user_party :: "string option"

text \<open>The reason of a reject is a text, that of the pricing or one of the stream's own.\<close>

record atomic_reject =
  ax_rfq_id :: string
  ax_market_id :: string
  ax_reason :: reject_detail
  ax_lp_party_id :: string
  ax_min_quantity :: string
  ax_max_quantity :: string

record atomic_quote =
  at_rfq_id :: string
  at_quote_id :: string
  at_market_id :: string
  at_direction :: string
  at_price :: string
  at_quantity :: string
  at_quote_quantity :: string
  at_valid_for_secs :: nat
  at_valid_until :: int
  at_lp_party_id :: string
  at_lp_name :: string
  at_quoted_at :: int
  at_settlement_fee :: "lp_fee_json option"

text \<open>What the stream's task adds to a pricing: its clock, the new id, and whether it was cut short.\<close>

record answer_env =
  ae_price :: price_env
  ae_register :: surroundings
  ae_new_id :: "string option"
  ae_now :: int
  ae_cut :: "bool option"

definition non_empty :: "string option \<Rightarrow> string option" where
  "non_empty x = (case x of Some s \<Rightarrow> if s = [] then None else Some s | None \<Rightarrow> None)"

definition refuse_atomic :: "rfq_desk \<Rightarrow> atomic_request \<Rightarrow> reject_detail \<Rightarrow> string \<Rightarrow> string \<Rightarrow> atomic_reject" where
  "refuse_atomic D q reason lo hi = \<lparr>ax_rfq_id = ar_rfq_id q, ax_market_id = ar_market_id q, ax_reason = reason,
     ax_lp_party_id = rd_party_id D, ax_min_quantity = lo, ax_max_quantity = hi\<rparr>"

definition direction_of :: "string \<Rightarrow> int option" where
  "direction_of s = (let t = map ascii_lower s in if t = ''buy'' then Some 1 else if t = ''sell'' then Some 2 else None)"

definition venue_of :: "atomic_request \<Rightarrow> string option" where
  "venue_of q = (case non_empty (ar_venue_name q) of Some s \<Rightarrow> Some s | None \<Rightarrow> non_empty (ar_quote_id_prefix q))"

definition new_quote_id :: "atomic_request \<Rightarrow> string \<Rightarrow> string" where
  "new_quote_id q uid = (case non_empty (ar_quote_id_prefix q) of Some prefix \<Rightarrow> prefix @ ''-'' @ uid | None \<Rightarrow> uid)"

definition or_nothing :: "string option \<Rightarrow> string" where
  "or_nothing x = (case x of Some s \<Rightarrow> s | None \<Rightarrow> [])"

definition price_atomic_rfq ::
  "rfq_lib \<Rightarrow> rfq_desk \<Rightarrow> rfq_handler \<Rightarrow> answer_env \<Rightarrow> atomic_request \<Rightarrow> int \<Rightarrow> rfq_world
     \<Rightarrow> (atomic_reject + atomic_quote) \<times> rfq_world" where
  "price_atomic_rfq L D H E q direction w =
     (case price_rfq L H (ae_price E) (ar_market_id q) direction (ar_quantity q) (or_nothing (ar_quote_quantity q)) False
         (venue_of q) (non_empty (ar_venue_branch q)) (non_empty (ar_user_party q)) w of
        (Inl r, w) \<Rightarrow> (Inl (refuse_atomic D q (ri_detail r) (or_nothing (ri_min_quantity r)) (or_nothing (ri_max_quantity r))), w)
      | (Inr p, w) \<Rightarrow> (case ae_new_id E of
            None \<Rightarrow> (Inl (refuse_atomic D q (Detail [Lit ''temporarily unavailable'']) [] []), w)
          | Some uid \<Rightarrow>
              let quote_id = new_quote_id q uid in
              case register_indicative L D (ae_register E) quote_id (ar_market_id q) (if direction = 1 then Buy else Sell) p
                  (ar_settlement_fee q) (non_empty (ar_user_party q)) w of
                (w, Inl e) \<Rightarrow> (Inl (refuse_atomic D q (Detail e) [] []), w)
              | (w, Inr _) \<Rightarrow>
                  (Inr \<lparr>at_rfq_id = ar_rfq_id q, at_quote_id = quote_id, at_market_id = ar_market_id q,
                     at_direction = ar_direction q, at_price = pq_price_str p, at_quantity = pq_quantity_str p,
                     at_quote_quantity = pq_quote_quantity_str p, at_valid_for_secs = pq_valid_for_secs p,
                     at_valid_until = min (ae_now E + int (pq_valid_for_secs p)) (2 ^ 63 - 1),
                     at_lp_party_id = rd_party_id D, at_lp_name = rh_name H, at_quoted_at = ae_now E,
                     at_settlement_fee = ar_settlement_fee q\<rparr>, w)))"

text \<open>
  The whole answer. A pricing that runs out of time is dropped at one of its awaits; all it may
  have changed by then is the flow of the token it was to deplete.
\<close>

definition cut_short :: "rfq_lib \<Rightarrow> rfq_handler \<Rightarrow> price_env \<Rightarrow> bool \<Rightarrow> string \<Rightarrow> rfq_world \<Rightarrow> rfq_world" where
  "cut_short L H E flowed token w =
     (let w = pe_others E At_cut w in
      if flowed then (case rh_manager H of None \<Rightarrow> w | Some m \<Rightarrow>
        w\<lparr>rw_liquidity := fst (depletion_coefficient (rl_arith L) m (pe_instant E At_flow) token (rw_liquidity w))\<rparr>)
      else w)"

definition answer_atomic_rfq ::
  "rfq_lib \<Rightarrow> rfq_desk \<Rightarrow> rfq_handler \<Rightarrow> answer_env \<Rightarrow> atomic_request \<Rightarrow> rfq_world
     \<Rightarrow> (atomic_reject + atomic_quote) \<times> rfq_world" where
  "answer_atomic_rfq L D H E q w =
     (case direction_of (ar_direction q) of
        None \<Rightarrow> (Inl (refuse_atomic D q (Detail [Lit ''invalid direction '', Lit [CHR 0x27], Arg (ar_direction q), Lit [CHR 0x27]]) [] []), w)
      | Some direction \<Rightarrow>
          if \<not> quotable D w (ar_market_id q) then
            (Inl (refuse_atomic D q (Detail [Lit ''market not available for atomic RFQ'']) [] []), w)
          else (case ae_cut E of
              None \<Rightarrow> price_atomic_rfq L D H E q direction w
            | Some flowed \<Rightarrow> (Inl (refuse_atomic D q (Detail [Lit ''temporarily unavailable'']) [] []),
                cut_short L H (ae_price E) flowed (fst (alloc_leg direction (ar_market_id q) () ())) w)))"

end
