(* ===== verification/Rfq_Quoting.thy ===== *)
theory Rfq_Quoting
  imports Rfq_Pricing Rfq_Sample
begin

text \<open>
  What a priced quote has been checked against, that neither load nor size ever moves a price in
  the taker's favour, that what the taker is told is what the desk has registered, and how the
  overlays of a venue combine.
\<close>

section \<open>Order of the operations on doubles\<close>

definition nonneg_or_nan :: "f64 \<Rightarrow> bool" where
  "nonneg_or_nan x \<longleftrightarrow> x = NaN \<or> f64_le (Fin 0) x"

named_theorems f64_order \<open>what keeps a double non-negative or a comparison\<close>

lemma round_nonneg: "0 \<le> q \<Longrightarrow> f64_le (Fin 0) (round_f64 q)"
  using round_f64_mono [of 0 q] by simp

declare f64_le_refl [simp]

lemma round_between [simp]: "f64_le (Inf True) (round_f64 r)" "f64_le (round_f64 r) (Inf False)"
  by (simp_all add: round_f64_def Let_def)

lemma NaN_right [simp]: "f64_sub x NaN = NaN" "f64_mul x NaN = NaN" "f64_div x NaN = NaN" "f64_sub NaN x = NaN"
  by (cases x; simp)+

lemma nonneg_sub [f64_order]: "f64_le y x \<Longrightarrow> nonneg_or_nan (f64_sub x y)"
  by (cases x; cases y) (auto simp: nonneg_or_nan_def intro: round_nonneg)

lemma nonneg_mul [f64_order]: "nonneg_or_nan x \<Longrightarrow> nonneg_or_nan y \<Longrightarrow> nonneg_or_nan (f64_mul x y)"
  by (cases x; cases y) (auto simp: nonneg_or_nan_def intro: round_nonneg)

lemma nonneg_div [f64_order]: "nonneg_or_nan x \<Longrightarrow> nonneg_or_nan y \<Longrightarrow> nonneg_or_nan (f64_div x y)"
  by (cases x; cases y) (auto simp: nonneg_or_nan_def intro: round_nonneg)

lemma nonneg_max [f64_order]: "nonneg_or_nan (f64_max x (Fin 0))"
  by (cases x) (auto simp: nonneg_or_nan_def f64_max_def)

lemma nonneg_finite_nonneg [f64_order]: "nonneg_or_nan (finite_nonneg x)"
  by (simp add: finite_nonneg_def f64_order) (simp add: nonneg_or_nan_def)

lemma nonneg_clamp [f64_order]:
  "nonneg_or_nan hi \<Longrightarrow> nonneg_or_nan x \<Longrightarrow> nonneg_or_nan (f64_clamp (Fin 0) hi x)"
  by (cases x; cases hi) (auto simp: nonneg_or_nan_def f64_clamp_def)

lemma f64_add_mono: "f64_le x y \<Longrightarrow> f64_le (f64_add (Fin c) x) (f64_add (Fin c) y)"
  by (cases x; cases y) (auto simp: f64_add_def intro: round_f64_mono)

lemma f64_sub_anti: "f64_le x y \<Longrightarrow> f64_le (f64_sub (Fin c) y) (f64_sub (Fin c) x)"
  by (cases x; cases y) (auto intro: round_f64_mono)

lemma f64_div_mono: "0 < c \<Longrightarrow> f64_le x y \<Longrightarrow> f64_le (f64_div x (Fin c)) (f64_div y (Fin c))"
  by (cases x; cases y) (auto intro!: round_f64_mono divide_right_mono)

lemma f64_mul_mono: "0 < c \<Longrightarrow> f64_le x y \<Longrightarrow> f64_le (f64_mul (Fin c) x) (f64_mul (Fin c) y)"
  by (cases x; cases y) (auto intro!: round_f64_mono mult_left_mono)

lemma f64_add_grows_any:
  assumes "is_double x" and "nonneg_or_nan y" and "f64_add x y \<noteq> NaN"
  shows "f64_le x (f64_add x y)"
proof (cases "y = Inf False")
  case True
  then show ?thesis using assms(3) by (cases x) (auto simp: f64_add_def)
next
  case False
  then show ?thesis
    using assms f64_add_grows [of x y] by (cases x; cases y) (auto simp: nonneg_or_nan_def f64_add_def)
qed

lemma is_double_mul [simp]: "is_double (f64_mul x y)"
  by (cases x; cases y) auto

section \<open>Stress and impact only widen\<close>

lemma depletion_nonneg: "nonneg_or_nan (snd (depletion_coefficient A m now token s))"
proof -
  have "nonneg_or_nan (hours_to_coefficient m h)" for h
  proof (cases "depletion_max_hours m = NaN \<or> depletion_min_hours m = NaN \<or> h = NaN")
    case True
    then show ?thesis by (auto simp: hours_to_coefficient_def nonneg_or_nan_def)
  next
    case False
    have "nonneg_or_nan (Fin 10)" by (simp add: nonneg_or_nan_def)
    then show ?thesis
      using False f64_le_total [of "depletion_max_hours m" h] f64_le_total [of h "depletion_min_hours m"]
        f64_le_trans [of "depletion_min_hours m" h "depletion_max_hours m"]
      by (auto simp: hours_to_coefficient_def nonneg_or_nan_def [of "Fin 0"] intro!: f64_order)
  qed
  then show ?thesis
    by (simp add: depletion_coefficient_def Let_def nonneg_or_nan_def [of "Fin 0"] nonneg_or_nan_def [of "Fin 10"])
qed

lemma depletion_of_nonneg: "nonneg_or_nan (snd (depletion_of L H E cfg token w))"
  using depletion_nonneg
  by (auto simp: depletion_of_def Let_def case_prod_beta nonneg_or_nan_def [of "Fin 0"] split: option.split)

lemma impact_nonneg: "nonneg_or_nan (pool_impact_percent side q net depth cfg)"
  unfolding pool_impact_percent_def marginal_impact_percent_def Let_def case_prod_beta
  by (simp add: nonneg_or_nan_def [of "Fin 0"]) (auto intro!: f64_order)

lemma multiplier_at_least_one: "f64_le (Fin 1) (spread_multiplier E cfg) \<and> (\<exists>c. spread_multiplier E cfg = Fin c)"
  by (simp add: spread_multiplier_def)

lemma stressed_spread:
  assumes "is_double s" and "nonneg_or_nan d" and "f64_mul s (stress_coefficient s (f64_add (spread_multiplier E cfg) d)) \<noteq> NaN"
  shows "f64_le s (f64_mul s (stress_coefficient s (f64_add (spread_multiplier E cfg) d)))"
proof (cases "f64_le (Fin 0) s")
  case True
  let ?k = "f64_add (spread_multiplier E cfg) d"
  have k: "f64_le (Fin 1) ?k" if "?k \<noteq> NaN"
  proof -
    have "is_double (spread_multiplier E cfg)"
      using round_int [of 1] by (simp add: spread_multiplier_def is_double_def)
    from f64_add_grows_any [OF this assms(2) that] show ?thesis
      using multiplier_at_least_one f64_le_trans by blast
  qed
  show ?thesis
  proof (cases s)
    case (Fin a)
    then have a: "0 \<le> a" "round_f64 a = Fin a" using True assms(1) by (simp_all add: is_double_def)
    show ?thesis
    proof (cases ?k)
      case (Fin c)
      then have "a \<le> a * c" using k a(1) by (simp add: mult_le_cancel_left1)
      then show ?thesis
        using round_f64_mono [of a "a * c"] a \<open>s = Fin a\<close> Fin True by (simp add: stress_coefficient_def)
    qed (use assms(3) True \<open>s = Fin a\<close> a k in \<open>auto simp: stress_coefficient_def split: if_splits\<close>)
  next
    case (Inf neg)
    then show ?thesis
      using True assms(3) k by (cases ?k) (auto simp: stress_coefficient_def)
  qed (use True in auto)
next
  case False
  then have "stress_coefficient s (f64_add (spread_multiplier E cfg) d) = Fin 1" by (simp add: stress_coefficient_def)
  then show ?thesis using assms(1,3) by (cases s) (auto simp: is_double_def)
qed

lemma dir_price_order:
  assumes "f64_le e e'" and "f64_positive mid" and "is_finite (dir_price direction mid e')"
  shows "if direction = 1 then f64_le (dir_price direction mid e) (dir_price direction mid e')
    else f64_le (dir_price direction mid e') (dir_price direction mid e)"
proof -
  obtain c where c: "mid = Fin c" "0 < c"
  proof (cases mid)
    case (Inf s)
    then have "is_finite (f64_mul (Inf s) x) \<Longrightarrow> False" for x by (cases x) (auto simp: is_finite_def split: if_splits)
    then show ?thesis using assms(3) Inf by (auto simp: dir_price_def split: if_splits)
  qed (use assms(2) that in \<open>auto simp: f64_positive_def\<close>)
  have "f64_le (f64_div e (Fin 100)) (f64_div e' (Fin 100))" using assms(1) by (rule f64_div_mono [rotated]) simp
  then show ?thesis
    using c by (auto simp: dir_price_def intro!: f64_mul_mono f64_add_mono f64_sub_anti)
qed

text \<open>The price of a sizing: the stressed spread and an impact on top.\<close>

lemma price_size_price:
  assumes "price_size direction mid eff_base ctx net requested quantity = Inr z"
  obtains i where "sz_price z = dir_price direction mid (f64_add eff_base i)" and "nonneg_or_nan i"
  | "sz_price z = dir_price direction mid eff_base"
  using assms impact_nonneg
  by (auto simp: price_size_def plain_size_def impact_size_def Let_def split: option.splits if_splits prod.splits)

lemma dir_price_NaN: "dir_price direction mid NaN = NaN"
  by (cases mid) (simp_all add: dir_price_def f64_add_def)

lemma sized_price_widened:
  assumes "price_size direction mid (f64_mul s (stress_coefficient s (f64_add (spread_multiplier E cfg) d))) ctx net requested quantity = Inr z"
    and "is_finite (sz_price z)" and "is_double s" and "nonneg_or_nan d" and "f64_positive mid"
  shows "if direction = 1 then f64_le (dir_price direction mid s) (sz_price z)
    else f64_le (sz_price z) (dir_price direction mid s)"
proof -
  let ?b = "f64_mul s (stress_coefficient s (f64_add (spread_multiplier E cfg) d))"
  have nan: "e \<noteq> NaN" if "sz_price z = dir_price direction mid e" for e
    using that assms(2) dir_price_NaN by (auto simp: is_finite_def)
  obtain e where e: "sz_price z = dir_price direction mid e" "f64_le ?b e"
  proof (cases rule: price_size_price [OF assms(1)])
    case (1 i)
    have "is_double ?b" by simp
    from f64_add_grows_any [OF this 1(2) nan [OF 1(1)]] show ?thesis using 1(1) that by blast
  next
    case 2
    then show ?thesis using nan [OF 2] that [of ?b] by simp
  qed
  then have "?b \<noteq> NaN" by auto
  then have "f64_le s e" using stressed_spread [OF assms(3,4)] e(2) f64_le_trans by blast
  from dir_price_order [OF this assms(5), of direction] show ?thesis using assms(2) e(1) by (cases "direction = 1") simp_all
qed

section \<open>What pricing has gone through\<close>

lemma price_from_midE:
  assumes "price_from_mid L H E market_id direction enforce user cfg requested quantity m w = (Inr q, w')"
  obtains w1 d ctx net z where "nonneg_or_nan d"
    and "price_size direction (mm_mid m) (effective_spread_base E cfg direction d) ctx net requested quantity = Inr z"
    and "finish_pricing L H E market_id direction enforce cfg ctx net (effective_spread_base E cfg direction d) z w1 = (Inr q, w')"
proof -
  obtain b t where bt: "market_tokens market_id = (b, t)" by (cases "market_tokens market_id")
  obtain w1 d where r: "depletion_of L H E cfg (if direction = 1 then b else t) w = (w1, d)"
    by (cases "depletion_of L H E cfg (if direction = 1 then b else t) w")
  have "nonneg_or_nan d" using depletion_of_nonneg [of L H E cfg "if direction = 1 then b else t" w] r by simp
  then show ?thesis
    using assms that unfolding price_from_mid_def Let_def bt prod.case r by (auto split: sum.splits)
qed

lemma price_rfqE:
  assumes "price_rfq L H E market_id direction qs qqs enforce venue branch user w = (Inr q, w')"
  obtains cfg requested quantity m where
    "find_rfq H market_id direction venue branch = Inr cfg" and "requested_size E qs qqs = Inr (requested, quantity)"
    and "check_ledger E = Inr ()" and "mid_of (pe_others E At_mid w) market_id = Inr m"
    and "price_from_mid L H E market_id direction enforce user cfg requested quantity m (pe_others E At_mid w) = (Inr q, w')"
  using assms by (auto simp: price_rfq_def Let_def result_simps split: sum.splits prod.splits)

lemma finish_pricingE:
  assumes "finish_pricing L H E market_id direction enforce cfg ctx net eff z w = (Inr q, w')"
  obtains notional w1 token amount am where "check_computed z = Inr ()" and "check_bounds cfg (sz_quantity z) = Inr ()"
    and "check_notional H cfg enforce notional = Inr ()"
    and "alloc_leg direction market_id (sz_quantity z) (sz_quote_quantity z) = (token, amount)"
    and "check_funds L H E enforce notional token amount w1 = (Inr (), w')"
    and "wire_amounts L z = Inr am"
    and "q = priced_of H market_id direction cfg ctx net eff z notional am"
proof -
  obtain usd w1 where u: "token_usd_price E (snd (market_tokens market_id)) w = (usd, w1)"
    by (cases "token_usd_price E (snd (market_tokens market_id)) w")
  obtain token amount where a: "alloc_leg direction market_id (sz_quantity z) (sz_quote_quantity z) = (token, amount)"
    by (cases "alloc_leg direction market_id (sz_quantity z) (sz_quote_quantity z)")
  show ?thesis
    using assms that a unfolding finish_pricing_def Let_def u a prod.case
    by (auto simp: result_simps split: sum.splits prod.splits)
qed

lemma check_computed_iff: "check_computed z = Inr () \<longleftrightarrow> is_finite (sz_price z) \<and> is_finite (sz_quote_quantity z)
    \<and> is_finite (sz_quantity z) \<and> \<not> f64_le (sz_price z) (Fin 0)"
  by (auto simp: check_computed_def)

lemma priced_of_simps [simp]:
  "pq_price_str (priced_of H market_id direction cfg ctx net eff z notional am) = fixed10 (sz_price z)"
  "pq_quantity_str (priced_of H market_id direction cfg ctx net eff z notional am) = fixed10 (sz_quantity z)"
  "pq_quote_quantity_str (priced_of H market_id direction cfg ctx net eff z notional am) = fixed10 (sz_quote_quantity z)"
  "pq_market_id (priced_of H market_id direction cfg ctx net eff z notional am) = market_id"
  by (simp_all add: priced_of_def split: prod.split)

text \<open>
  C11: Load, depletion and size only widen: whatever quote a request gets, its price is on the desk's
  side of the price at the raw spread, for both directions and both ways to give the size.
\<close>

theorem price_never_softened:
  assumes "price_rfq L H E market_id direction qs qqs enforce venue branch user w = (Inr q, w')"
    and "find_rfq H market_id direction venue branch = Inr cfg" and "is_double (side_spread direction cfg)"
  shows "\<exists>mid price. map_option mm_mid (rw_mids (pe_others E At_mid w) market_id) = Some mid \<and> pq_price_str q = fixed10 price
    \<and> f64_positive price \<and> (if direction = 1 then f64_le (dir_price direction mid (side_spread direction cfg)) price
        else f64_le price (dir_price direction mid (side_spread direction cfg)))"
proof -
  obtain requested quantity m where p: "mid_of (pe_others E At_mid w) market_id = Inr m"
    "price_from_mid L H E market_id direction enforce user cfg requested quantity m (pe_others E At_mid w) = (Inr q, w')"
    using assms(2) by (cases rule: price_rfqE [OF assms(1)]) auto
  obtain w1 d ctx net z where z: "nonneg_or_nan d"
    "price_size direction (mm_mid m) (effective_spread_base E cfg direction d) ctx net requested quantity = Inr z"
    "finish_pricing L H E market_id direction enforce cfg ctx net (effective_spread_base E cfg direction d) z w1 = (Inr q, w')"
    by (cases rule: price_from_midE [OF p(2)])
  obtain notional am where f: "check_computed z = Inr ()"
    "q = priced_of H market_id direction cfg ctx net (effective_spread_base E cfg direction d) z notional am"
    by (cases rule: finish_pricingE [OF z(3)])
  have mid: "rw_mids (pe_others E At_mid w) market_id = Some m" "f64_positive (mm_mid m)"
    using p(1) by (auto simp: mid_of_def split: option.splits if_splits)
  have fin: "is_finite (sz_price z)" using f(1) by (simp add: check_computed_iff)
  have "f64_positive (sz_price z)"
    using f(1) by (cases "sz_price z") (auto simp: check_computed_iff f64_positive_def is_finite_def)
  then show ?thesis
    using mid f(2) sized_price_widened [OF z(2) [unfolded effective_spread_base_def Let_def] fin assms(3) z(1) mid(2)]
    by (intro exI [of _ "mm_mid m"] exI [of _ "sz_price z"]) simp
qed

text \<open>The funds behind a quote, at the moment they were read.\<close>

lemma check_fundsE:
  assumes "check_funds L H E enforce notional token amount w = (Inr (), w')" and "rh_manager H = Some m"
  obtains v need fee where "w' = v \<or> w' = pe_others E At_fee_funds v" and "d_from_f64 (rl_arith L) amount = Some need"
    and "if token = CC_TOKEN then \<exists>s. d_add (rl_arith L) need fee = Some s \<and> s \<le> available (rl_arith L) m (rw_liquidity v) token
      else need \<le> available (rl_arith L) m (rw_liquidity v) token"
proof -
  obtain w2 fee need where e: "d_from_f64 (rl_arith L) amount = Some need"
      "enough_funds L m E token need fee w2 = (Inr (), w')"
    using assms by (auto simp: check_funds_def Let_def split: if_splits sum.splits prod.splits option.splits)
  show ?thesis
  proof (cases "token = CC_TOKEN")
    case True
    then obtain s where "d_add (rl_arith L) need fee = Some s" "w' = pe_others E At_funds w2"
        "\<not> available (rl_arith L) m (rw_liquidity w') token < s"
      using e(2) by (auto simp: enough_funds_def Let_def split: if_splits option.splits)
    then show ?thesis using that [of w' need fee] e(1) True by auto
  next
    case False
    then have "w' = pe_others E At_fee_funds (pe_others E At_funds w2)"
        "\<not> available (rl_arith L) m (rw_liquidity (pe_others E At_funds w2)) token < need"
      using e(2) by (auto simp: enough_funds_def Let_def split: if_splits)
    then show ?thesis using that [of "pe_others E At_funds w2" need fee] e(1) False by auto
  qed
qed


section \<open>The answer and the desk\<close>

lemma kick_keeps: "rw_pending (kick_on_demand_split D k w) = rw_pending w"
  by (simp add: kick_on_demand_split_def)

lemma register_indicative_entry:
  assumes "register_indicative L D R quote_id market_id side p fee user w = (w', Inr x)"
    and "\<And>v. rw_pending (su_others R At_kick v) = rw_pending v"
  shows "\<exists>mi valid_until. map_of (rw_pending w') quote_id = Some (Indicative \<lparr>iq_market_id = market_id, iq_side = side,
      iq_base_amount = pq_quantity p, iq_quote_amount = pq_quote_quantity p,
      iq_lp_pays = (pays_key side mi, snd (pq_lp_pays p)), iq_lp_pays_token = fst (pq_lp_pays p),
      iq_notional_usd = pq_notional_usd p, iq_valid_until = valid_until,
      iq_settlement_fee = fee, iq_user_party = user, iq_pool_inputs = pq_pool_pricing p\<rparr>)"
proof -
  obtain token amount where ta: "pq_lp_pays p = (token, amount)" by (cases "pq_lp_pays p")
  obtain mi where mi: "rd_instruments D market_id = Some mi"
    using assms(1) by (auto simp: register_indicative_def split: option.splits)
  obtain valid_until where v: "instant_add (su_instant R At_stale) (pq_valid_for_secs p * 10 ^ 9) = Some valid_until"
    using assms(1) by (auto simp: register_indicative_def Let_def ta mi split: option.splits if_splits)
  have "map_of (rw_pending w') quote_id = Some (Indicative \<lparr>iq_market_id = market_id, iq_side = side,
      iq_base_amount = pq_quantity p, iq_quote_amount = pq_quote_quantity p,
      iq_lp_pays = (pays_key side mi, amount), iq_lp_pays_token = token,
      iq_notional_usd = pq_notional_usd p, iq_valid_until = valid_until,
      iq_settlement_fee = fee, iq_user_party = user, iq_pool_inputs = pq_pool_pricing p\<rparr>)"
    using assms(1) unfolding register_indicative_def Let_def ta prod.case mi option.case v
    by (auto simp: put_pending_def kick_keeps assms(2) update_conv' split: if_splits)
  then show ?thesis unfolding ta by auto
qed

text \<open>
  C12: What the taker is told is what the desk holds for the confirm: the quote that answers a request
  is registered under its id with the amounts of the wire texts, the fee of the request, which it
  echoes, and on the desk's leg the amount of the side.
\<close>

theorem answered_quote_registered:
  assumes "answer_atomic_rfq L D H E q w = (Inr a, w')"
    and "\<And>v. rw_pending (su_others (ae_register E) At_kick v) = rw_pending v"
  shows "\<exists>iq. map_of (rw_pending w') (at_quote_id a) = Some (Indicative iq) \<and> iq_market_id iq = at_market_id a
    \<and> d_from_str (rl_decimals L) (at_quantity a) = Inr (iq_base_amount iq)
    \<and> d_from_str (rl_decimals L) (at_quote_quantity a) = Inr (iq_quote_amount iq)
    \<and> direction_of (at_direction a) = Some (case iq_side iq of Buy \<Rightarrow> 1 | Sell \<Rightarrow> 2)
    \<and> snd (iq_lp_pays iq) = (case iq_side iq of Buy \<Rightarrow> iq_base_amount iq | Sell \<Rightarrow> iq_quote_amount iq)
    \<and> iq_settlement_fee iq = ar_settlement_fee q \<and> at_settlement_fee a = ar_settlement_fee q"
proof -
  obtain direction where d: "direction_of (ar_direction q) = Some direction"
    "price_atomic_rfq L D H E q direction w = (Inr a, w')"
    using assms(1) by (auto simp: answer_atomic_rfq_def split: option.splits if_splits)
  have side: "direction = 1 \<or> direction = 2"
    using d(1) by (auto simp: direction_of_def Let_def split: if_splits)
  obtain p w1 uid where p: "price_rfq L H (ae_price E) (ar_market_id q) direction (ar_quantity q)
      (or_nothing (ar_quote_quantity q)) False (venue_of q) (non_empty (ar_venue_branch q)) (non_empty (ar_user_party q)) w = (Inr p, w1)"
    "register_indicative L D (ae_register E) (new_quote_id q uid) (ar_market_id q) (if direction = 1 then Buy else Sell) p
      (ar_settlement_fee q) (non_empty (ar_user_party q)) w1 = (w', Inr ())"
    "at_quote_id a = new_quote_id q uid" "at_market_id a = ar_market_id q" "at_direction a = ar_direction q"
    "at_quantity a = pq_quantity_str p" "at_quote_quantity a = pq_quote_quantity_str p" "at_settlement_fee a = ar_settlement_fee q"
    using d(2) by (auto simp: price_atomic_rfq_def Let_def split: sum.splits prod.splits option.splits)
  obtain cfg requested quantity m v where "price_from_mid L H (ae_price E) (ar_market_id q) direction False
      (non_empty (ar_user_party q)) cfg requested quantity m v = (Inr p, w1)"
    by (cases rule: price_rfqE [OF p(1)])
  then obtain w2 dep ctx net z where "finish_pricing L H (ae_price E) (ar_market_id q) direction False cfg ctx net
      (effective_spread_base (ae_price E) cfg direction dep) z w2 = (Inr p, w1)"
    by (cases rule: price_from_midE)
  then obtain notional am where f: "wire_amounts L z = Inr am"
    "p = priced_of H (ar_market_id q) direction cfg ctx net (effective_spread_base (ae_price E) cfg direction dep) z notional am"
    by (cases rule: finish_pricingE)
  have am: "d_from_str (rl_decimals L) (pq_quantity_str p) = Inr (pq_quantity p)"
    "d_from_str (rl_decimals L) (pq_quote_quantity_str p) = Inr (pq_quote_quantity p)"
    "snd (pq_lp_pays p) = (if direction = 1 then pq_quantity p else pq_quote_quantity p)"
    using f(1) by (auto simp: f(2) wire_amounts_def priced_of_def alloc_leg_def split: sum.splits prod.splits)
  from register_indicative_entry [OF p(2) assms(2)] obtain mi valid_until where
    "map_of (rw_pending w') (at_quote_id a) = Some (Indicative \<lparr>iq_market_id = ar_market_id q,
      iq_side = (if direction = 1 then Buy else Sell), iq_base_amount = pq_quantity p, iq_quote_amount = pq_quote_quantity p,
      iq_lp_pays = (pays_key (if direction = 1 then Buy else Sell) mi, snd (pq_lp_pays p)),
      iq_lp_pays_token = fst (pq_lp_pays p), iq_notional_usd = pq_notional_usd p, iq_valid_until = valid_until,
      iq_settlement_fee = ar_settlement_fee q, iq_user_party = non_empty (ar_user_party q),
      iq_pool_inputs = pq_pool_pricing p\<rparr>)" unfolding p(3) by blast
  then show ?thesis using am p side d(1) by auto
qed

section \<open>What is refused leaves no trace\<close>

lemma price_rfq_pending:
  assumes "\<And>p v. rw_pending (pe_others E p v) = rw_pending v"
  shows "rw_pending (snd (price_rfq L H E market_id direction qs qqs enforce venue branch user w)) = rw_pending w"
proof -
  have flow: "rw_pending (fst (depletion_of L H E cfg token v)) = rw_pending v" for cfg token v
    by (simp add: depletion_of_def Let_def case_prod_beta assms split: option.split)
  have usd: "rw_pending (snd (token_usd_price E token v)) = rw_pending v" for token v
    by (simp add: token_usd_price_def Let_def assms)
  have fees: "rw_pending (snd (fee_headroom L m E enforce notional v)) = rw_pending v" for m notional v
    by (simp add: fee_headroom_def Let_def assms split: option.split)
  have enough: "rw_pending (snd (enough_funds L m E token amount fee v)) = rw_pending v" for m token amount fee v
    by (simp add: enough_funds_def Let_def assms split: option.split)
  have funds: "rw_pending (snd (check_funds L H E enforce notional token amount v)) = rw_pending v" for notional token amount v
  proof (cases "rh_manager H")
    case (Some m)
    then show ?thesis
      using fees [of m notional "pe_others E At_age (pe_others E At_ready v)"] enough
      by (auto simp: check_funds_def Let_def assms split: option.split sum.split prod.split)
  qed (simp add: check_funds_def)
  have finish: "rw_pending (snd (finish_pricing L H E market_id direction enforce cfg ctx net eff z v)) = rw_pending v"
    for cfg ctx net eff z v
  proof -
    obtain u v' where u: "token_usd_price E (snd (market_tokens market_id)) v = (u, v')"
      by (cases "token_usd_price E (snd (market_tokens market_id)) v")
    obtain t a where a: "alloc_leg direction market_id (sz_quantity z) (sz_quote_quantity z) = (t, a)"
      by (cases "alloc_leg direction market_id (sz_quantity z) (sz_quote_quantity z)")
    have "rw_pending v' = rw_pending v" using usd [of "snd (market_tokens market_id)" v] u by simp
    then show ?thesis
      using funds [of "map_option (f64_mul (sz_quote_quantity z)) u" t a v'] unfolding finish_pricing_def Let_def u a prod.case
      by (auto split: sum.split prod.split)
  qed
  have mid: "rw_pending (snd (price_from_mid L H E market_id direction enforce user cfg requested quantity m v)) = rw_pending v"
    for cfg requested quantity m v
  proof -
    obtain b t where bt: "market_tokens market_id = (b, t)" by (cases "market_tokens market_id")
    obtain v' d where r: "depletion_of L H E cfg (if direction = 1 then b else t) v = (v', d)"
      by (cases "depletion_of L H E cfg (if direction = 1 then b else t) v")
    have "rw_pending v' = rw_pending v" using flow [of cfg "if direction = 1 then b else t" v] r by simp
    then show ?thesis
      unfolding price_from_mid_def Let_def bt prod.case r by (simp add: assms finish split: sum.split)
  qed
  show ?thesis by (simp add: price_rfq_def Let_def assms mid split: sum.split prod.split)
qed


section \<open>Overlays\<close>

lemma overlays_keep_sides:
  "rm_disable_offer_side (foldl (\<lambda>cfg x. apply_overlay (vo_rfq x) cfg) cfg xs) = rm_disable_offer_side cfg"
  "rm_disable_bid_side (foldl (\<lambda>cfg x. apply_overlay (vo_rfq x) cfg) cfg xs) = rm_disable_bid_side cfg"
  by (induction xs arbitrary: cfg) (simp_all add: apply_overlay_def)

lemma sort_key_greatest:
  assumes "x \<in> set xs" and "\<And>y. y \<in> set xs \<Longrightarrow> y \<noteq> x \<Longrightarrow> f y < f x"
  shows "\<exists>ys. sort_key f xs = ys @ [x]"
proof -
  have "sort_key f xs \<noteq> []" using assms(1) by (metis empty_iff empty_set set_sort)
  then obtain ys z where z: "sort_key f xs = ys @ [z]" by (metis rev_exhaust)
  have "x \<in> set (ys @ [z])" "z \<in> set xs" using assms(1) z by (metis set_sort, metis in_set_conv_decomp set_sort)
  moreover have "\<forall>y \<in> set ys. f y \<le> f z"
    using sorted_sort_key [of f xs] z by (auto simp: sorted_append)
  ultimately show ?thesis using assms(2) [of z] z by fastforce
qed

text \<open>
  An overlay never opens a side the pair has closed, and of the overlays that match a request
  the most specific one has the last word on what it sets.
\<close>

theorem specific_override_wins:
  assumes "x \<in> set (filter (override_matches market_id v branch) overrides)"
    and "\<And>y. y \<in> set (filter (override_matches market_id v branch) overrides) \<Longrightarrow> y \<noteq> x \<Longrightarrow> specificity y < specificity x"
  shows "let cfg = resolve_rfq_config pair overrides market_id (Some v) branch in
    (case ov_enabled (vo_rfq x) of Some b \<Rightarrow> rm_enabled cfg = b | None \<Rightarrow> True)
    \<and> (case ov_offer_spread_percent (vo_rfq x) of Some p \<Rightarrow> rm_offer_spread_percent cfg = p | None \<Rightarrow> True)
    \<and> (case ov_max_quantity (vo_rfq x) of Some m \<Rightarrow> rm_max_quantity cfg = m | None \<Rightarrow> True)
    \<and> rm_disable_offer_side cfg = rm_disable_offer_side pair \<and> rm_disable_bid_side cfg = rm_disable_bid_side pair"
proof -
  obtain ys where "sort_key specificity (filter (override_matches market_id v branch) overrides) = ys @ [x]"
    using sort_key_greatest [of x _ specificity] assms by blast
  moreover define base where "base = foldl (\<lambda>cfg x. apply_overlay (vo_rfq x) cfg) pair ys"
  ultimately have "resolve_rfq_config pair overrides market_id (Some v) branch = apply_overlay (vo_rfq x) base"
    by (simp add: resolve_rfq_config_def)
  moreover have "rm_disable_offer_side base = rm_disable_offer_side pair" "rm_disable_bid_side base = rm_disable_bid_side pair"
    by (simp_all add: base_def overlays_keep_sides)
  ultimately show ?thesis by (simp add: Let_def apply_overlay_def overlaid_def split: option.split)
qed

section \<open>A request on the sample desk\<close>

definition sample_rfq :: rfq_market_config where
  "sample_rfq = \<lparr>rm_enabled = True, rm_min_quantity = ''1'', rm_max_quantity = ''100'',
     rm_bid_spread_percent = Fin 50, rm_offer_spread_percent = Fin 100, rm_disable_overload_spread_widening = True,
     rm_disable_depletion_spread_widening = True, rm_disable_offer_side = False, rm_disable_bid_side = False,
     rm_quote_valid_secs = None, rm_allocate_before_secs = 900, rm_settle_before_secs = 1800,
     rm_min_notional_usd = None, rm_pool_impact = None\<rparr>"

definition sample_handler :: rfq_handler where
  "sample_handler = \<lparr>rh_name = ''lp'', rh_default_quote_valid_secs = 30, rh_min_notional_usd = Fin 0,
     rh_markets = [\<lparr>mk_market_id = ''A-B'', mk_enabled = True, mk_rfq = Some sample_rfq\<rparr>], rh_overrides = [],
     rh_party_id = ''l'', rh_manager = Some sample_manager, rh_window_hours = Fin 24, rh_v2_only = False\<rparr>"

definition sample_pricing :: price_env where
  "sample_pricing = \<lparr>pe_others = (\<lambda>p w. w), pe_breaker = closed_breaker, pe_now_ms = 0, pe_threshold = Fin (1 / 2),
     pe_forecast = (\<lambda>p. no_forecast), pe_instant = (\<lambda>p. 0), pe_millis = 0, pe_trim = (\<lambda>s. s)\<rparr>"

definition pricing_world :: rfq_world where
  "pricing_world = rfq_world_sample\<lparr>rw_mids := [''A-B'' \<mapsto> \<lparr>mm_mid = Fin 1, mm_pool_depth = None\<rparr>],
     rw_liquidity := update_token_balance 0 ''A'' 50 (update_cc_balance 0 100 new_liquidity)\<rparr>"

definition sample_priced :: priced_quote where
  "sample_priced = \<lparr>pq_market_id = ''A-B'', pq_price = 2, pq_quantity = 7, pq_quote_quantity = 14,
     pq_price_str = fixed10 (Fin 2), pq_quantity_str = fixed10 (Fin 7), pq_quote_quantity_str = fixed10 (Fin 14),
     pq_lp_pays = (''A'', 7), pq_notional_usd = None, pq_valid_for_secs = 30, pq_allocate_before_secs = 900,
     pq_settle_before_secs = 1800, pq_pool_pricing = None\<rparr>"

lemma sample_texts:
  "parse_f64 ''7'' = Some (Fin 7)" "parse_f64 ''1'' = Some (Fin 1)" "parse_f64 ''100'' = Some (Fin 100)"
  using parse_f64_dec_value [of "''7''" 7] parse_f64_dec_value [of "''1''" 1] parse_f64_dec_value [of "''100''" 100]
  by (simp_all add: dec_value_simps)

lemma sample_wire: "d_from_str rfq_decimals (fixed10 (Fin (of_nat n))) = Inr (of_nat n)"
proof -
  have r: "round_half_even (of_nat n * 10 ^ 10) = int n * 10 ^ 10"
    using round_half_even_int [of "int n * 10 ^ 10"] by simp
  then have n: "nat (round_half_even (\<bar>of_nat n\<bar> * 10 ^ 10)) = n * 10 ^ 10"
    by (simp add: nat_mult_distrib)
  have dot: "\<forall>c \<in> set (show_nat n). c \<noteq> CHR ''.''"
    using show_int_no_char [of "CHR ''.''" "int n"] by (auto simp: show_int_def digit_val_def)
  have "fixed10 (Fin (of_nat n)) = show_nat n @ ''.'' @ pad_digits 10 (show_nat 0)"
    unfolding fixed10_def f64.case Let_def n by simp
  then have "takeWhile (\<lambda>c. c \<noteq> CHR ''.'') (fixed10 (Fin (of_nat n))) = show_nat n"
    using dot by (simp add: takeWhile_append2)
  then show ?thesis by (simp add: rfq_decimals_def)
qed

lemma sample_find: "find_rfq sample_handler ''A-B'' 1 None None = Inr sample_rfq"
  by (simp add: find_rfq_def sample_handler_def resolve_rfq_config_def sample_rfq_def)

lemma sample_price:
  "price_rfq rfq_lib_sample sample_handler sample_pricing ''A-B'' 1 ''7'' [] False None None None pricing_world = (Inr sample_priced, pricing_world)"
proof -
  let ?z = "\<lparr>sz_price = Fin 2, sz_quantity = Fin 7, sz_quote_quantity = Fin 14, sz_impact = Fin 0\<rparr>"
  have others: "pe_others sample_pricing p w = w" for p w by (simp add: sample_pricing_def)
  have tokens: "market_tokens ''A-B'' = (''A'', ''B'')" by (simp add: market_tokens_def)
  have size: "requested_size sample_pricing ''7'' [] = Inr (None, Fin 7)"
    by (simp add: requested_size_def sample_pricing_def sample_texts)
  have ledger: "check_ledger sample_pricing = Inr ()"
    by (simp add: check_ledger_def sample_pricing_def is_unhealthy_def closed_breaker_def is_rfq_rejected_by_overload_def
      below_threshold_def no_forecast_def coefficient_value_def f64_positive_def)
  have mid: "mid_of pricing_world ''A-B'' = Inr \<lparr>mm_mid = Fin 1, mm_pool_depth = None\<rparr>"
    by (simp add: mid_of_def pricing_world_def f64_positive_def)
  have eff: "effective_spread_base sample_pricing sample_rfq 1 (Fin 0) = Fin 100"
    by (simp add: effective_spread_base_def side_spread_def sample_rfq_def stress_coefficient_def spread_multiplier_def
      f64_add_def Let_def)
  have flow: "depletion_of rfq_lib_sample sample_handler sample_pricing sample_rfq t w = (w, Fin 0)" for t w
    by (simp add: depletion_of_def sample_rfq_def)
  have sized: "price_size 1 (Fin 1) (Fin 100) None net None (Fin 7) = Inr ?z" for net
    by (simp add: price_size_def plain_size_def dir_price_def f64_add_def Let_def)
  have usd: "token_usd_price sample_pricing ''B'' pricing_world = (None, pricing_world)"
    by (simp add: token_usd_price_def starts_with_def others Let_def List.map_filter_def pricing_world_def)
  have bounds: "check_bounds sample_rfq (Fin 7) = Inr ()"
    by (simp add: check_bounds_def sample_rfq_def sample_texts or_parse_def is_finite_def f64_positive_def)
  have funds: "check_funds rfq_lib_sample sample_handler sample_pricing False None ''A'' (Fin 7) pricing_world = (Inr (), pricing_world)"
    by (simp add: check_funds_def sample_handler_def others is_ready_def pricing_world_def update_token_balance_def
      update_cc_balance_def new_liquidity_def entry_or_def CC_TOKEN_def is_stale_def stale_age_def resolve_alias_def
      set_balance_def new_token_def stale_after_def sample_manager_def sample_pricing_def fee_headroom_def rfq_lib_sample_def
      sample_arith_def dec_arith.defs exact_arith_def enough_funds_def available_def effective_available_def available_of_def
      token_available_def committed_def sat_total_def available_cc_def less_fees_def Let_def)
  have wire: "wire_amounts rfq_lib_sample ?z = Inr (2, 7, 14)"
    using sample_wire [of 2] sample_wire [of 7] sample_wire [of 14]
    by (simp add: wire_amounts_def rfq_lib_sample_def)
  have finish: "finish_pricing rfq_lib_sample sample_handler sample_pricing ''A-B'' 1 False sample_rfq None net (Fin 100) ?z pricing_world
      = (Inr sample_priced, pricing_world)" for net
    by (simp add: finish_pricing_def check_computed_def is_finite_def bounds tokens usd alloc_leg_def check_notional_def
      funds wire Let_def) (simp add: priced_of_def alloc_leg_def tokens sample_handler_def sample_rfq_def sample_priced_def)
  have ctx: "impact_ctx sample_rfq m = None" for m by (simp add: impact_ctx_def sample_rfq_def)
  show ?thesis
    by (simp add: price_rfq_def sample_find size ledger others mid price_from_mid_def tokens flow eff ctx sized finish Let_def)
qed

theorem price_never_softened_witness:
  "\<exists>q. price_rfq rfq_lib_sample sample_handler sample_pricing ''A-B'' 1 ''7'' [] False None None None pricing_world = (Inr q, pricing_world)
     \<and> (\<exists>price. pq_price_str q = fixed10 price \<and> f64_le (Fin 2) price)"
proof -
  have "is_double (side_spread 1 sample_rfq)" by (simp add: side_spread_def sample_rfq_def is_double_def)
  from price_never_softened [OF sample_price sample_find this] show ?thesis
    using sample_price
    by (auto simp: sample_pricing_def pricing_world_def side_spread_def sample_rfq_def dir_price_def f64_add_def)
qed


definition sample_answering :: "bool option \<Rightarrow> answer_env" where
  "sample_answering late = \<lparr>ae_price = sample_pricing, ae_register = rfq_calm False, ae_new_id = Some ''u'', ae_now = 0, ae_cut = late\<rparr>"

definition sample_request :: atomic_request where
  "sample_request = \<lparr>ar_rfq_id = ''r'', ar_market_id = ''A-B'', ar_direction = ''Buy'', ar_quantity = ''7'',
     ar_quote_quantity = None, ar_settlement_fee = None, ar_quote_id_prefix = None, ar_venue_name = None,
     ar_venue_branch = None, ar_user_party = None\<rparr>"

lemma sample_quotable: "quotable (rfq_desk_sample False) pricing_world ''A-B''"
proof -
  have "validated rfq_registry rfq_venues ''A-B'' \<noteq> None" by code_simp
  then show ?thesis by (simp add: quotable_def rfq_desk_sample_def pricing_world_def rfq_world_sample_def)
qed

lemma sample_answers:
  "\<exists>a w'. answer_atomic_rfq rfq_lib_sample (rfq_desk_sample False) sample_handler (sample_answering None) sample_request pricing_world
     = (Inr a, w') \<and> at_quote_id a = ''u''"
proof -
  have calm: "su_others (rfq_calm False) p w = w" for p w by (simp add: rfq_calm_def)
  have buy: "direction_of ''Buy'' = Some 1" by code_simp
  have enough: "\<not> available (rl_arith rfq_lib_sample) (rd_manager (rfq_desk_sample False)) (rw_liquidity pricing_world) ''A'' < 7"
    by (simp add: pricing_world_def rfq_desk_sample_def update_token_balance_def
      update_cc_balance_def new_liquidity_def entry_or_def CC_TOKEN_def resolve_alias_def
      set_balance_def new_token_def sample_manager_def rfq_lib_sample_def
      sample_arith_def dec_arith.defs exact_arith_def available_def effective_available_def available_of_def
      token_available_def committed_def sat_total_def Let_def)
  have mi: "\<exists>mi. rd_instruments (rfq_desk_sample False) ''A-B'' = Some mi" by (simp add: rfq_desk_sample_def)
  have until: "\<exists>x. instant_add 1000000000 30000000000 = Some x" by (simp add: instant_add_def)
  have reg: "\<exists>w'. register_indicative rfq_lib_sample (rfq_desk_sample False) (rfq_calm False) ''u'' ''A-B'' Buy sample_priced None None
      pricing_world = (w', Inr ())"
    using mi until enough
    by (auto simp: register_indicative_def sample_priced_def calm Let_def)
  show ?thesis
    using reg
    by (auto simp: answer_atomic_rfq_def sample_request_def buy sample_quotable sample_answering_def price_atomic_rfq_def or_nothing_def
      venue_of_def non_empty_def new_quote_id_def sample_price Let_def)
qed

theorem answered_quote_registered_witness:
  "\<exists>iq w'. snd (answer_atomic_rfq rfq_lib_sample (rfq_desk_sample False) sample_handler (sample_answering None) sample_request
       pricing_world) = w' \<and> map_of (rw_pending w') ''u'' = Some (Indicative iq) \<and> snd (iq_lp_pays iq) = iq_base_amount iq"
proof -
  obtain a w' where a: "answer_atomic_rfq rfq_lib_sample (rfq_desk_sample False) sample_handler (sample_answering None) sample_request
      pricing_world = (Inr a, w')" "at_quote_id a = ''u''" using sample_answers by blast
  have d: "at_direction a = ''Buy''"
    using a(1) by (auto simp: answer_atomic_rfq_def price_atomic_rfq_def sample_request_def Let_def
      split: option.splits if_splits sum.splits prod.splits)
  have "rw_pending (su_others (ae_register (sample_answering None)) At_kick v) = rw_pending v" for v
    by (simp add: sample_answering_def rfq_calm_def)
  from answered_quote_registered [OF a(1) this] obtain iq where iq: "map_of (rw_pending w') ''u'' = Some (Indicative iq)"
    "direction_of ''Buy'' = Some (case iq_side iq of Buy \<Rightarrow> 1 | Sell \<Rightarrow> 2)"
    "snd (iq_lp_pays iq) = (case iq_side iq of Buy \<Rightarrow> iq_base_amount iq | Sell \<Rightarrow> iq_quote_amount iq)"
    unfolding a(2) d by blast
  have "direction_of ''Buy'' = Some 1" by code_simp
  then have "iq_side iq = Buy" using iq(2) by (cases "iq_side iq") auto
  then show ?thesis using iq a(1) by auto
qed


theorem specific_override_wins_witness:
  "let ov = (\<lambda>b. \<lparr>ov_enabled = Some b, ov_min_quantity = None, ov_max_quantity = None, ov_bid_spread_percent = None,
         ov_offer_spread_percent = None, ov_disable_overload_spread_widening = None,
         ov_disable_depletion_spread_widening = None, ov_quote_valid_secs = None\<rparr>);
       one = \<lparr>vo_venue = ''v'', vo_branch = Some ''b'', vo_markets = None, vo_rfq = ov True\<rparr>;
       all = \<lparr>vo_venue = ''v'', vo_branch = None, vo_markets = None, vo_rfq = ov False\<rparr>
   in rm_enabled (resolve_rfq_config sample_rfq [one, all] ''A-B'' (Some ''v'') (Some ''b''))"
proof -
  define ov where "ov b = \<lparr>ov_enabled = Some b, ov_min_quantity = None, ov_max_quantity = None, ov_bid_spread_percent = None,
    ov_offer_spread_percent = None, ov_disable_overload_spread_widening = None,
    ov_disable_depletion_spread_widening = None, ov_quote_valid_secs = None\<rparr>" for b
  let ?one = "\<lparr>vo_venue = ''v'', vo_branch = Some ''b'', vo_markets = None, vo_rfq = ov True\<rparr>"
  let ?all = "\<lparr>vo_venue = ''v'', vo_branch = None, vo_markets = None, vo_rfq = ov False\<rparr>"
  have "?one \<in> set (filter (override_matches ''A-B'' ''v'' (Some ''b'')) [?one, ?all])"
    by (simp add: override_matches_def)
  from specific_override_wins [OF this, of sample_rfq] show ?thesis
    by (simp add: ov_def specificity_def override_matches_def Let_def)
qed

end
