(* ===== verification/Ladder.thy ===== *)
theory Ladder
  imports Holdings_Cache Ticket_Pool Json "HOL-Library.AList"
begin

text \<open>
  \<open>crates/cloud-agent/src/split_worker.rs\<close>: the ladder of denominations. An instrument the
  provider pays with is kept in holdings of fixed sizes; what is missing is split off its largest
  holding. The planning functions are total functions over the configured rungs; a split is three
  steps (plan, begin, finish) over the shared holdings cache, between which other tasks run, and
  the maintenance tick and the kicks of the quote paths are tasks of one machine. The refill of
  settlement tickets shares the tick. \<open>rust_decimal\<close> is a parameter; instants are nanoseconds.
\<close>

section \<open>The library\<close>

record split_lib =
  sl_arith :: dec_arith
  sl_div :: "rat \<Rightarrow> rat \<Rightarrow> rat option"
  sl_parse :: "string \<Rightarrow> rat option"
  sl_trim :: "string \<Rightarrow> string"

text \<open>\<open>str::parse::<u32>\<close>.\<close>

definition parse_u32 :: "string \<Rightarrow> nat option" where
  "parse_u32 s =
     (let ds = (case s of c # cs \<Rightarrow> if c = CHR ''+'' then cs else s | [] \<Rightarrow> []) in
      if ds = [] then None
      else (case digits_val 0 ds of None \<Rightarrow> None
            | Some n \<Rightarrow> if n < 2 ^ 32 then Some (nat n) else None))"

text \<open>\<open>Decimal::trunc\<close> and \<open>to_u32\<close>.\<close>

definition trunc_u32 :: "rat \<Rightarrow> nat option" where
  "trunc_u32 q = (let n = (if q < 0 then - \<lfloor>- q\<rfloor> else \<lfloor>q\<rfloor>) in
     if 0 \<le> n \<and> n \<le> int u32_max then Some (nat n) else None)"

text \<open>\<open>normalize().scale() > places\<close>.\<close>

definition more_places :: "rat \<Rightarrow> nat \<Rightarrow> bool" where
  "more_places r places \<longleftrightarrow> snd (quotient_of (r * 10 ^ places)) \<noteq> 1"

fun split_once_any :: "char list \<Rightarrow> string \<Rightarrow> (string \<times> string) option" where
  "split_once_any seps [] = None"
| "split_once_any seps (c # s) = (if c \<in> set seps then Some ([], s)
     else map_option (\<lambda>(a, b). (c # a, b)) (split_once_any seps s))"

section \<open>Specs\<close>

definition MAX_SPLIT_OUTPUTS_PER_TX :: nat where "MAX_SPLIT_OUTPUTS_PER_TX = 90"
definition SPLIT_BUDGET_WINDOW :: nat where "SPLIT_BUDGET_WINDOW = 3600 * 1000000000"
definition MAX_SPLIT_AMOUNT :: rat where "MAX_SPLIT_AMOUNT = 1000000000000000"
definition MAX_SPLIT_SCALE :: nat where "MAX_SPLIT_SCALE = 10"
definition MAX_SPLIT_COUNT :: nat where "MAX_SPLIT_COUNT = 10000"

record split_instrument =
  si_key :: string
  si_is_cc :: bool
  si_on_chain_id :: string
  si_admin :: string

definition cc_instrument :: split_instrument where
  "cc_instrument = \<lparr>si_key = CC_INSTRUMENT, si_is_cc = True, si_on_chain_id = ''Amulet'', si_admin = []\<rparr>"

record split_target =
  tg_instrument :: split_instrument
  tg_denominations :: "string list"

type_synonym rung = "rat \<times> nat"

datatype spec_fault = No_Separator | Bad_Amount | Bad_Count | Not_Positive | Amount_Too_Large
  | Too_Many_Places | Count_Too_Large

definition parse_spec :: "split_lib \<Rightarrow> string \<Rightarrow> (string \<times> spec_fault) + rung" where
  "parse_spec L s =
     try_bind (ok_or (split_once_any [CHR ''x'', CHR ''X''] s) (s, No_Separator)) (\<lambda>(amount, n).
     try_bind (ok_or (sl_parse L (sl_trim L amount)) (s, Bad_Amount)) (\<lambda>amount.
     try_bind (ok_or (parse_u32 (sl_trim L n)) (s, Bad_Count)) (\<lambda>n.
       if amount \<le> 0 \<or> n = 0 then Inl (s, Not_Positive)
       else if MAX_SPLIT_AMOUNT < amount then Inl (s, Amount_Too_Large)
       else if more_places amount MAX_SPLIT_SCALE then Inl (s, Too_Many_Places)
       else if MAX_SPLIT_COUNT < n then Inl (s, Count_Too_Large)
       else Inr (amount, n))))"

fun parse_splits :: "split_lib \<Rightarrow> string list \<Rightarrow> (string \<times> spec_fault) + rung list" where
  "parse_splits L [] = Inr []"
| "parse_splits L (s # specs) =
     try_bind (parse_spec L s) (\<lambda>r. try_bind (parse_splits L specs) (\<lambda>rs. Inr (r # rs)))"

text \<open>
  The startup derivation of \<open>lib.rs\<close>: the dust threshold of an instrument is its smallest rung.
\<close>

definition dust_thresholds :: "split_lib \<Rightarrow> split_target list \<Rightarrow> string \<Rightarrow> rat option" where
  "dust_thresholds L targets = foldl (\<lambda>m t. case parse_splits L (tg_denominations t) of
       Inr (r # rs) \<Rightarrow> m(si_key (tg_instrument t) \<mapsto> foldl min (fst r) (map fst rs))
     | _ \<Rightarrow> m) Map.empty targets"

section \<open>Planning\<close>

definition sat32_add :: "nat \<Rightarrow> nat \<Rightarrow> nat" where "sat32_add a b = min u32_max (a + b)"

text \<open>The count of a whole request.\<close>

definition count_sum :: "nat list \<Rightarrow> nat" where
  "count_sum counts = foldl sat32_add 0 counts"

fun cap_from :: "nat \<Rightarrow> nat \<Rightarrow> rung list \<Rightarrow> rung list" where
  "cap_from limit used [] = []"
| "cap_from limit used ((denom, n) # splits) =
     (if limit \<le> used then []
      else (let taken = min n (limit - used) in
        if taken = 0 then cap_from limit used splits
        else (denom, taken) # cap_from limit (sat32_add used taken) splits))"

definition cap_split_outputs :: "rung list \<Rightarrow> nat \<Rightarrow> rung list" where
  "cap_split_outputs splits limit = cap_from limit 0 splits"

definition spent_counts :: "rung list \<Rightarrow> rat \<Rightarrow> nat" where
  "spent_counts chunk = foldl (\<lambda>m (denom, n). m(denom := sat32_add (m denom) n)) (\<lambda>_. 0) chunk"

fun subtract_from :: "(rat \<Rightarrow> nat) \<Rightarrow> rung list \<Rightarrow> rung list" where
  "subtract_from avail [] = []"
| "subtract_from avail ((denom, n) # rest) =
     (let used = min n (avail denom); avail' = avail(denom := avail denom - used) in
      if used < n then (denom, n - used) # subtract_from avail' rest else subtract_from avail' rest)"

definition subtract_split_chunk :: "rung list \<Rightarrow> rung list \<Rightarrow> rung list" where
  "subtract_split_chunk remaining chunk = subtract_from (spent_counts chunk) remaining"

text \<open>The upper end of a band; the product saturates.\<close>

definition band_top :: "split_lib \<Rightarrow> rat \<Rightarrow> rat" where
  "band_top L denom = (case d_mul (sl_arith L) denom 2 of Some p \<Rightarrow> p
     | None \<Rightarrow> if denom < 0 then - d_max (sl_arith L) else d_max (sl_arith L))"

definition rung_deficits :: "split_lib \<Rightarrow> rung list \<Rightarrow> rat list \<Rightarrow> rung list" where
  "rung_deficits L rungs holding_amounts = List.map_filter (\<lambda>(denom, n).
     let have = min u32_max (length (filter (\<lambda>a. denom \<le> a \<and> a < band_top L denom) holding_amounts))
     in if have < n then Some (denom, n - have) else None) rungs"

definition low_water :: "nat \<Rightarrow> nat \<Rightarrow> nat" where
  "low_water divisor n = max 1 (n div max 1 divisor)"

definition plan_ladder_refill :: "rung list \<Rightarrow> nat list \<Rightarrow> nat \<Rightarrow> rung list" where
  "plan_ladder_refill rungs haves low_water_divisor =
     (if \<not> list_ex (\<lambda>((denom, n), have). have < low_water low_water_divisor n) (zip rungs haves) then []
      else map (\<lambda>((denom, n), have). (denom, n - have))
        (filter (\<lambda>((denom, n), have). have < n) (zip rungs haves)))"

definition ladder_overfull :: "rung list \<Rightarrow> nat list \<Rightarrow> bool" where
  "ladder_overfull rungs haves =
     (let target = count_sum (map snd rungs); have = count_sum haves
      in 0 < target \<and> min u32_max (target * 2) \<le> have)"

datatype split_verdict = Gate_Open | Gate_Cooldown nat | Budget_Exhausted nat

definition split_gate :: "nat list \<Rightarrow> nat \<Rightarrow> nat \<Rightarrow> nat \<Rightarrow> split_verdict" where
  "split_gate op_times now min_interval max_ops_per_window =
     (let ops_in_window = length (filter (\<lambda>t. now - t < SPLIT_BUDGET_WINDOW) op_times) in
      if max_ops_per_window \<le> ops_in_window then Budget_Exhausted ops_in_window
      else if op_times \<noteq> [] \<and> now - Max (set op_times) < min_interval then
        Gate_Cooldown ((now - Max (set op_times)) div 1000000000)
      else Gate_Open)"

text \<open>What the reserve can fund; about a twentieth of it stays as change.\<close>

fun fund_from :: "split_lib \<Rightarrow> rat \<Rightarrow> rung list \<Rightarrow> rung list" where
  "fund_from L budget [] = []"
| "fund_from L budget ((denom, deficit) # deficits) =
     (if denom \<le> 0 \<or> budget < denom then fund_from L budget deficits
      else (let affordable = (case Option.bind (sl_div L budget denom) trunc_u32 of None \<Rightarrow> u32_max | Some n \<Rightarrow> n);
                n = min deficit affordable in
        if n = 0 then fund_from L budget deficits
        else (case Option.bind (d_mul (sl_arith L) denom (of_nat n)) (d_sub (sl_arith L) budget) of
            None \<Rightarrow> []
          | Some rest \<Rightarrow> (denom, n) # fund_from L rest deficits)))"

definition split_budget :: "split_lib \<Rightarrow> rat \<Rightarrow> rat" where
  "split_budget L reserve_amount =
     (case d_mul (sl_arith L) reserve_amount (95 / 100) of None \<Rightarrow> reserve_amount | Some b \<Rightarrow> b)"

definition fund_splits :: "split_lib \<Rightarrow> rat \<Rightarrow> rung list \<Rightarrow> rung list" where
  "fund_splits L reserve_amount deficits = fund_from L (split_budget L reserve_amount) deficits"

section \<open>One split\<close>

record split_settings =
  v2_low_water_divisor :: nat
  v2_min_interval_secs :: nat
  v2_max_ops_per_hour :: nat

record split_plan =
  pl_instrument :: split_instrument
  pl_reserve :: string
  pl_splits :: "rung list"

datatype split_decision = Covered | Overfull | Cooling nat | Over_Budget nat | No_Reserve | Too_Small
  | Planned split_plan

text \<open>\<open>ensure_denominations\<close> up to the reservation, over what it has read.\<close>

definition decide_split ::
  "split_lib \<Rightarrow> split_settings \<Rightarrow> split_instrument \<Rightarrow> rung list \<Rightarrow> nat list \<Rightarrow> nat list \<Rightarrow> nat
    \<Rightarrow> cached_holding option \<Rightarrow> split_decision" where
  "decide_split L v2 instrument rungs haves ops now reserve =
     (let deficits = plan_ladder_refill rungs haves (v2_low_water_divisor v2) in
      if deficits = [] then Covered
      else if ladder_overfull rungs haves then Overfull
      else (case split_gate ops now (v2_min_interval_secs v2 * 1000000000) (v2_max_ops_per_hour v2) of
          Gate_Cooldown secs \<Rightarrow> Cooling secs
        | Budget_Exhausted n \<Rightarrow> Over_Budget n
        | Gate_Open \<Rightarrow> (case reserve of
            None \<Rightarrow> No_Reserve
          | Some holding \<Rightarrow>
              let funded = fund_splits L (h_amount holding) deficits;
                  splits = (if MAX_SPLIT_OUTPUTS_PER_TX < count_sum (map snd funded)
                    then cap_split_outputs funded MAX_SPLIT_OUTPUTS_PER_TX else funded)
              in if splits = [] then Too_Small
                 else Planned \<lparr>pl_instrument = instrument, pl_reserve = h_contract_id holding,
                   pl_splits = splits\<rparr>)))"

text \<open>The reads, taken in one step; \<open>ks\<close> is the order of the walk over the hash map.\<close>

definition plan_split ::
  "split_lib \<Rightarrow> string list \<Rightarrow> split_settings \<Rightarrow> split_instrument \<Rightarrow> rung list \<Rightarrow> nat \<Rightarrow> holdings_cache \<Rightarrow> split_decision" where
  "plan_split L ks v2 instrument rungs now c =
     decide_split L v2 instrument rungs
       (map (\<lambda>(denom, n). count_in_band ks c now (si_key instrument) denom (band_top L denom)) rungs)
       (split_ops c now (si_key instrument)) now (splitter_reserve ks c now (si_key instrument))"

text \<open>
  The request: a list of amounts for Canton Coin, the specs themselves for the other
  instruments. Amounts are written as the decimals they are.
\<close>

datatype split_request = Split_Cc "rat list" "string list"
  | Split_Holdings string string "string list" "rung list"

definition split_request_of :: "split_plan \<Rightarrow> split_request" where
  "split_request_of p = (let i = pl_instrument p in
     if si_is_cc i then Split_Cc (concat (map (\<lambda>(denom, n). replicate n denom) (pl_splits p))) [pl_reserve p]
     else Split_Holdings (si_on_chain_id i) (si_admin i) [pl_reserve p] (pl_splits p))"

text \<open>
  Reserving the input and recording the attempt, with the instants of both. \<open>None\<close>: nothing is
  submitted, because the id could not be made or the input is busy.
\<close>

definition begin_split :: "string option \<Rightarrow> nat \<Rightarrow> nat \<Rightarrow> split_plan \<Rightarrow> holdings_cache \<Rightarrow>
    split_request option \<times> holdings_cache" where
  "begin_split job reserved_at recorded_at p c = (case job of None \<Rightarrow> (None, c)
     | Some uuid \<Rightarrow> (case reserve_split reserved_at [pl_reserve p] (''split-'' @ uuid) c of
           (False, c') \<Rightarrow> (None, c')
         | (True, c') \<Rightarrow> (Some (split_request_of p), record_split_op recorded_at (si_key (pl_instrument p)) c')))"

text \<open>The answer of the ledger: the id of the update, or an error (\<open>None\<close>).\<close>

definition finish_split :: "string option \<Rightarrow> nat \<Rightarrow> nat \<Rightarrow> split_plan \<Rightarrow> holdings_cache \<Rightarrow> holdings_cache" where
  "finish_split answer consumed_at pending_at p c = (case answer of
       Some update_id \<Rightarrow> record_pending_split pending_at (si_key (pl_instrument p)) (pl_splits p)
         (mark_consumed consumed_at [pl_reserve p] update_id c)
     | None \<Rightarrow> release_reservations [pl_reserve p] c)"

section \<open>The tasks that split\<close>

text \<open>
  Tasks are numbered; \<open>sk_attempts\<close> is the history of submissions, newest first, and
  \<open>sk_clock\<close> the latest instant read.
\<close>

record split_tasks =
  sk_cache :: holdings_cache
  sk_planned :: "(nat \<times> split_plan) list"
  sk_running :: "(nat \<times> split_plan) list"
  sk_attempts :: "(string \<times> nat) list"
  sk_clock :: nat

datatype split_event =
    Plan nat split_instrument "rung list" "string list" nat
  | Begin nat "string option" nat nat
  | Finish nat "string option" nat nat
  | Cache_Event cache_event

definition plan_task ::
  "split_lib \<Rightarrow> split_settings \<Rightarrow> nat \<Rightarrow> split_instrument \<Rightarrow> rung list \<Rightarrow> string list \<Rightarrow> nat \<Rightarrow> split_tasks \<Rightarrow> split_tasks" where
  "plan_task L v2 task instrument rungs ks now s =
     (case plan_split L ks v2 instrument rungs now (sk_cache s) of
        Planned p \<Rightarrow> s\<lparr>sk_planned := (task, p) # sk_planned s, sk_clock := max now (sk_clock s)\<rparr>
      | _ \<Rightarrow> s\<lparr>sk_clock := max now (sk_clock s)\<rparr>)"

definition begin_task :: "nat \<Rightarrow> string option \<Rightarrow> nat \<Rightarrow> nat \<Rightarrow> split_tasks \<Rightarrow> split_tasks" where
  "begin_task task job reserved_at recorded_at s = (case map_of (sk_planned s) task of
       None \<Rightarrow> s
     | Some p \<Rightarrow> (case begin_split job reserved_at recorded_at p (sk_cache s) of
           (None, c) \<Rightarrow> s\<lparr>sk_cache := c, sk_planned := AList.delete task (sk_planned s)\<rparr>
         | (Some request, c) \<Rightarrow> s\<lparr>sk_cache := c, sk_planned := AList.delete task (sk_planned s),
             sk_running := (task, p) # sk_running s,
             sk_attempts := (si_key (pl_instrument p), recorded_at) # sk_attempts s,
             sk_clock := max recorded_at (sk_clock s)\<rparr>))"

definition end_task :: "nat \<Rightarrow> string option \<Rightarrow> nat \<Rightarrow> nat \<Rightarrow> split_tasks \<Rightarrow> split_tasks" where
  "end_task task answer consumed_at pending_at s = (case map_of (sk_running s) task of
       None \<Rightarrow> s
     | Some p \<Rightarrow> s\<lparr>sk_cache := finish_split answer consumed_at pending_at p (sk_cache s),
         sk_running := AList.delete task (sk_running s)\<rparr>)"

fun split_step :: "split_lib \<Rightarrow> split_settings \<Rightarrow> split_tasks \<Rightarrow> split_event \<Rightarrow> split_tasks" where
  "split_step L v2 s (Plan task instrument rungs ks now) = plan_task L v2 task instrument rungs ks now s"
| "split_step L v2 s (Begin task job reserved_at recorded_at) = begin_task task job reserved_at recorded_at s"
| "split_step L v2 s (Finish task answer consumed_at pending_at) = end_task task answer consumed_at pending_at s"
| "split_step L v2 s (Cache_Event e) = s\<lparr>sk_cache := cache_step (sk_cache s) e\<rparr>"

definition no_tasks :: "holdings_cache \<Rightarrow> split_tasks" where
  "no_tasks c = \<lparr>sk_cache = c, sk_planned = [], sk_running = [], sk_attempts = [], sk_clock = 0\<rparr>"

section \<open>The tickets of the tick\<close>

record atomic_contract =
  ac_contract_id :: string
  ac_template_id :: string
  ac_payload_json :: string
  ac_created_event_blob :: string

text \<open>\<open>reconcile_tickets\<close> after the query; \<open>parse\<close> is \<open>serde_json\<close>.\<close>

definition ticket_info :: "(string \<Rightarrow> jval option) \<Rightarrow> string \<Rightarrow> atomic_contract \<Rightarrow> ticket_acs_info option" where
  "ticket_info parse party_id c =
     (if \<not> str_contains (ac_template_id c) ''AtomicDVP:SettlementTicket'' then None
      else Option.bind (parse (ac_payload_json c)) (\<lambda>payload.
        let lp = string_at payload ''lp'' in
        if lp \<noteq> None \<and> lp \<noteq> Some party_id then None
        else map_option (\<lambda>ticket_id. \<lparr>ta_ticket_id = ticket_id, ta_contract_id = ac_contract_id c,
            ta_template_id = Some (ac_template_id c),
            ta_created_event_blob = (if ac_created_event_blob c = [] then None else Some (ac_created_event_blob c)),
            ta_payload_json = Some (ac_payload_json c)\<rparr>) (string_at payload ''ticketId'')))"

definition reconcile_tickets :: "(string \<Rightarrow> jval option) \<Rightarrow> string \<Rightarrow> atomic_contract list \<Rightarrow> pool \<Rightarrow> pool" where
  "reconcile_tickets parse party_id contracts m =
     reconcile_from_acs (List.map_filter (ticket_info parse party_id) contracts) m"

text \<open>How many tickets a tick issues.\<close>

definition ticket_refill :: "string list \<Rightarrow> nat \<Rightarrow> nat \<Rightarrow> pool \<Rightarrow> nat option" where
  "ticket_refill ks ticket_low_water ticket_batch_size m =
     (if free_count ks m < ticket_low_water then Some ticket_batch_size else None)"

end
