(* ===== verification/Ladder_Safety.thy ===== *)
theory Ladder_Safety
  imports Ladder Holdings_Safety
begin

text \<open>
  What the splits promise: a plan completes the ladder it found wanting and never asks for more
  than its holding can fund; chunks of a request add up to it; and the attempts of an instrument
  keep within the budget of an hour as long as its callers take turns.
\<close>

section \<open>Plans\<close>

definition topped_up :: "rung list \<Rightarrow> nat list \<Rightarrow> nat list" where
  "topped_up rungs haves = map (\<lambda>((denom, n), held). max n held) (zip rungs haves)"

lemma refill_met:
  assumes "\<forall>((denom, n), held) \<in> set (zip rungs haves). n \<le> held \<and> 1 \<le> held"
  shows "plan_ladder_refill rungs haves d = []"
proof -
  have low: "low_water d n \<le> max 1 n" for n
    unfolding low_water_def by (intro max.mono order_refl div_le_dividend)
  have "\<not> held < low_water d n" if "((denom, n), held) \<in> set (zip rungs haves)" for denom n held
    using low [of n] bspec [OF assms that] by (simp add: max_def split: if_splits)
  then show ?thesis by (auto simp: plan_ladder_refill_def list_ex_iff)
qed

text \<open>What a refill asks for is, rung by rung, what the ladder lacks.\<close>

lemma refill_exact:
  assumes "plan_ladder_refill rungs haves d \<noteq> []"
  shows "plan_ladder_refill rungs haves d =
    map (\<lambda>((denom, n), held). (denom, n - held)) (filter (\<lambda>((denom, n), held). held < n) (zip rungs haves))"
  using assms by (simp add: plan_ladder_refill_def split: if_splits)

lemma refill_positive: "(denom, n) \<in> set (plan_ladder_refill rungs haves d) \<Longrightarrow> 0 < n \<and> denom \<in> fst ` set rungs"
  by (auto simp: plan_ladder_refill_def split: if_splits dest!: set_zip_leftD) (metis fst_conv image_eqI set_zip_leftD)

lemma zip_topped_up: "zip rungs (topped_up rungs haves) = map (\<lambda>((denom, n), held). ((denom, n), max n held)) (zip rungs haves)"
  unfolding topped_up_def
proof (induction rungs arbitrary: haves)
  case (Cons r rungs)
  then show ?case by (cases haves; cases r) auto
qed simp

theorem refill_completes_ladder:
  assumes "\<forall>(denom, n) \<in> set rungs. 0 < n"
  shows "plan_ladder_refill rungs (topped_up rungs haves) d = []
    \<and> plan_ladder_refill rungs haves d \<in> {[], map (\<lambda>((denom, n), held). (denom, n - held))
        (filter (\<lambda>((denom, n), held). held < n) (zip rungs haves))}"
proof
  show "plan_ladder_refill rungs (topped_up rungs haves) d = []"
    using assms by (intro refill_met) (fastforce simp: zip_topped_up dest: set_zip_leftD)
qed (use refill_exact in blast)

section \<open>Funds\<close>

text \<open>
  What \<open>rust_decimal\<close> documents for numbers of at most twelve decimals and 28 digits: products and
  differences of this form are exact, and a quotient is right in its first 28 digits.
\<close>

definition fits :: "rat \<Rightarrow> bool" where
  "fits r \<longleftrightarrow> r * 10 ^ 12 \<in> \<int> \<and> \<bar>r\<bar> * 10 ^ 12 < 10 ^ 28"

definition split_laws :: "split_lib \<Rightarrow> bool" where
  "split_laws L \<longleftrightarrow> (\<forall>a b.
     (fits (a * b) \<longrightarrow> d_mul (sl_arith L) a b = Some (a * b))
   \<and> (fits (a - b) \<longrightarrow> d_sub (sl_arith L) a b = Some (a - b))
   \<and> (fits a \<longrightarrow> ledger_amount b \<longrightarrow> 0 < b \<longrightarrow> b \<le> a \<longrightarrow>
        (\<exists>q. sl_div L a b = Some q \<and> \<bar>q - a / b\<bar> * 10 ^ 28 \<le> a / b)))"

definition cost :: "rung list \<Rightarrow> rat" where
  "cost splits = sum_list (map (\<lambda>(denom, n). denom * of_nat n) splits)"

lemma trunc_u32_le: "0 \<le> q \<Longrightarrow> trunc_u32 q = Some n \<Longrightarrow> of_nat n \<le> q"
  by (auto simp: trunc_u32_def Let_def split: if_splits)

lemma trunc_u32_above: "0 \<le> q \<Longrightarrow> trunc_u32 q = None \<Longrightarrow> of_nat u32_max \<le> q"
proof -
  assume "0 \<le> q" "trunc_u32 q = None"
  then have "int u32_max \<le> \<lfloor>q\<rfloor>" by (auto simp: trunc_u32_def Let_def split: if_splits)
  then show ?thesis by (simp add: le_floor_iff)
qed

text \<open>The rounding of the quotient never buys a holding that the budget does not pay.\<close>

lemma affordable_pays:
  assumes B: "fits B" and d: "ledger_amount d" "0 < d" "d \<le> B"
    and q: "\<bar>q - B / d\<bar> * 10 ^ 28 \<le> B / d" and n: "of_nat n \<le> q"
  shows "d * of_nat n \<le> B"
proof -
  have "(q - B / d) * 10 ^ 28 \<le> B / d" using q by (meson abs_ge_self mult_right_mono order_trans zero_le_numeral zero_le_power)
  then have "(q * d - B) * 10 ^ 28 \<le> B" using d(2) by (simp add: field_simps)
  moreover have "d * of_nat n \<le> q * d" using n d(2) by (simp add: mult.commute)
  ultimately have "(d * of_nat n - B) * 10 ^ 28 \<le> B" by (smt (verit) mult_right_mono zero_le_numeral zero_le_power diff_right_mono order_trans)
  then have lt: "d * of_nat n * 10 ^ 12 - B * 10 ^ 12 < 1"
    using B d by (simp add: fits_def field_simps)
  have "d * 10 ^ 10 * (of_nat (n * 100)) \<in> \<int>"
    using d(1) unfolding ledger_amount_def by (rule Ints_mult [OF _ Ints_of_nat])
  then obtain k m where k: "d * of_nat n * 10 ^ 12 = of_int k" and m: "B * 10 ^ 12 = of_int m"
    using B by (auto simp: fits_def algebra_simps elim!: Ints_cases)
  have "k \<le> m" using lt unfolding k m by linarith
  then have "d * of_nat n * 10 ^ 12 \<le> B * 10 ^ 12" unfolding k m by simp
  then show ?thesis by simp
qed

text \<open>The plan of the spending: what is bought, in order, and what is left.\<close>

lemma fits_le: "fits b \<Longrightarrow> 0 \<le> a \<Longrightarrow> a \<le> b \<Longrightarrow> a * 10 ^ 12 \<in> \<int> \<Longrightarrow> fits a"
  unfolding fits_def by (smt (verit, best) abs_of_nonneg mult_right_mono order_le_less_trans order_trans zero_le_numeral zero_le_power)

lemma near_positive: "1 \<le> x \<Longrightarrow> \<bar>q - x\<bar> * 10 ^ 28 \<le> (x :: rat) \<Longrightarrow> 0 \<le> q"
  by (cases "x \<le> q") auto

lemma fund_from_pays:
  assumes L: "split_laws L"
  shows "fits B \<Longrightarrow> 0 \<le> B \<Longrightarrow> \<forall>r \<in> set ds. ledger_amount (fst r) \<Longrightarrow>
    cost (fund_from L B ds) \<le> B \<and> (\<forall>r \<in> set (fund_from L B ds). 0 < fst r \<and> 0 < snd r
      \<and> (\<exists>m. (fst r, m) \<in> set ds \<and> snd r \<le> m))"
proof (induction ds arbitrary: B)
  case (Cons r ds)
  obtain d m where r: "r = (d, m)" by (cases r)
  define k where "k = min m (case Option.bind (sl_div L B d) trunc_u32 of None \<Rightarrow> u32_max | Some n \<Rightarrow> n)"
  show ?case
  proof (cases "d \<le> 0 \<or> B < d \<or> k = 0")
    case True
    then have "fund_from L B (r # ds) = fund_from L B ds" by (auto simp: k_def r Let_def)
    then show ?thesis using Cons.IH [OF Cons.prems(1,2)] Cons.prems(3) by auto
  next
    case False
    then have d: "0 < d" "d \<le> B" "0 < k" by auto
    have la: "ledger_amount d" using Cons.prems(3) by (simp add: r)
    obtain q where q: "sl_div L B d = Some q" "\<bar>q - B / d\<bar> * 10 ^ 28 \<le> B / d"
      using L Cons.prems(1) la d unfolding split_laws_def by blast
    have "1 \<le> B / d" using d by simp
    then have "0 \<le> q" using near_positive q(2) by blast
    then have "of_nat k \<le> q"
      using trunc_u32_le [of q] trunc_u32_above [of q] unfolding k_def q(1)
      by (cases "trunc_u32 q") (simp_all add: of_nat_min min.coboundedI2)
    then have pays: "d * of_nat k \<le> B" by (rule affordable_pays [OF Cons.prems(1) la d(1,2) q(2)])
    have "d * 10 ^ 10 * of_nat (k * 100) \<in> \<int>"
      using la unfolding ledger_amount_def by (rule Ints_mult [OF _ Ints_of_nat])
    then have ints: "d * of_nat k * 10 ^ 12 \<in> \<int>" by (simp add: algebra_simps)
    have "fits (d * of_nat k)" by (rule fits_le [OF Cons.prems(1) _ pays ints]) (use d in simp)
    then have mul: "d_mul (sl_arith L) d (of_nat k) = Some (d * of_nat k)" using L by (simp add: split_laws_def)
    have "(B - d * of_nat k) * 10 ^ 12 \<in> \<int>"
      using Ints_diff [OF _ ints, of "B * 10 ^ 12"] Cons.prems(1) by (simp add: fits_def left_diff_distrib)
    then have rest: "fits (B - d * of_nat k)"
      by (intro fits_le [OF Cons.prems(1)]) (use pays d in simp_all)
    then have "fund_from L B (r # ds) = (d, k) # fund_from L (B - d * of_nat k) ds"
      using d mul L by (simp add: r k_def [symmetric] Let_def split_laws_def)
    moreover have "cost (fund_from L (B - d * of_nat k) ds) \<le> B - d * of_nat k"
      and "\<forall>r \<in> set (fund_from L (B - d * of_nat k) ds). 0 < fst r \<and> 0 < snd r \<and> (\<exists>m. (fst r, m) \<in> set ds \<and> snd r \<le> m)"
      using Cons.IH [OF rest] Cons.prems(3) pays by auto
    moreover have "k \<le> m" by (simp add: k_def)
    ultimately show ?thesis using d by (auto simp: cost_def r)
  qed
qed (simp add: cost_def)

text \<open>
  C25: A plan spends at most 95 per cent of the holding it is split off, on denominations that
  lack holdings and never on more than they lack, whatever way the quotient was rounded.
\<close>

theorem splits_within_reserve:
  assumes "split_laws L" and "ledger_amount reserve" and "0 \<le> reserve" and "reserve < 10 ^ 16"
    and "\<forall>r \<in> set deficits. ledger_amount (fst r)"
  shows "cost (fund_splits L reserve deficits) \<le> reserve * 95 / 100
    \<and> (\<forall>(d, n) \<in> set (fund_splits L reserve deficits). 0 < d \<and> 0 < n \<and> (\<exists>m. (d, m) \<in> set deficits \<and> n \<le> m))"
proof -
  let ?B = "reserve * (95 / 100)"
  have "reserve * 10 ^ 10 * of_nat 95 \<in> \<int>"
    using assms(2) unfolding ledger_amount_def by (rule Ints_mult [OF _ Ints_of_nat])
  then have "?B * 10 ^ 12 \<in> \<int>" by (simp add: algebra_simps)
  with assms(3,4) have B: "fits ?B" by (simp add: fits_def)
  have "d_mul (sl_arith L) reserve (95 / 100) = Some ?B"
    using assms(1) B unfolding split_laws_def by blast
  then have "fund_splits L reserve deficits = fund_from L ?B deficits"
    by (simp only: fund_splits_def split_budget_def option.case)
  with fund_from_pays [OF assms(1) B _ assms(5)] assms(3) show ?thesis
    by (simp add: case_prod_beta mult.commute)
qed

text \<open>An instance: exact arithmetic.\<close>

definition exact_split :: split_lib where
  "exact_split = \<lparr>sl_arith = exact_arith, sl_div = (\<lambda>a b. Some (a / b)), sl_parse = (\<lambda>_. None), sl_trim = id\<rparr>"

lemma exact_split_laws: "split_laws exact_split"
proof -
  have "in_range r" if "fits r" for r
  proof -
    have "\<bar>r\<bar> * 10 ^ 10 \<le> \<bar>r\<bar> * 10 ^ 12" by (intro mult_left_mono) auto
    moreover have "(10 :: rat) ^ 28 \<le> 2 ^ 96" by simp
    ultimately show ?thesis using that unfolding fits_def in_range_def by linarith
  qed
  then show ?thesis by (simp add: split_laws_def exact_split_def exact_arith_def)
qed

theorem splits_within_reserve_witness:
  "fund_splits exact_split 100 [(30, 5), (10, 3)] = [(30, 3)]
    \<and> cost (fund_splits exact_split 100 [(30, 5), (10, 3)]) \<le> 100 * 95 / 100"
proof -
  have "fund_splits exact_split 100 [(30, 5), (10, 3)] = [(30, 3)]"
  proof -
    have "split_budget exact_split 100 = 95"
      by (simp add: split_budget_def exact_split_def exact_arith_def in_range_def)
    moreover have "\<lfloor>19 / 6 :: rat\<rfloor> = 3" by (rule floor_unique) simp_all
    then have "trunc_u32 (95 / 30) = Some 3"
      by (simp add: trunc_u32_def u32_max_def Let_def)
    moreover have "sl_div exact_split 95 30 = Some (95 / 30)" by (simp add: exact_split_def)
    moreover have "d_mul (sl_arith exact_split) 30 (of_nat 3) = Some 90" "d_sub (sl_arith exact_split) 95 90 = Some 5"
      by (simp_all add: exact_split_def exact_arith_def in_range_def)
    ultimately show ?thesis by (simp add: fund_splits_def Let_def del: of_nat_numeral divide_numeral_1)
  qed
  moreover have "cost (fund_splits exact_split 100 [(30, 5), (10, 3)]) \<le> 100 * 95 / 100"
    using splits_within_reserve [OF exact_split_laws, of 100 "[(30, 5), (10, 3)]"] by (simp add: ledger_amount_def)
  ultimately show ?thesis by blast
qed

section \<open>Chunks\<close>

definition outputs :: "rung list \<Rightarrow> rat \<Rightarrow> nat" where
  "outputs splits denom = sum_list (map snd (filter (\<lambda>r. fst r = denom) splits))"

lemma outputs_simps [simp]:
  "outputs [] d = 0"
  "outputs ((denom, n) # splits) d = (if denom = d then n else 0) + outputs splits d"
  by (simp_all add: outputs_def)

definition output_count :: "rung list \<Rightarrow> nat" where
  "output_count splits = sum_list (map snd splits)"

lemma output_count_simps [simp]:
  "output_count [] = 0" "output_count (r # splits) = snd r + output_count splits"
  by (simp_all add: output_count_def)

lemma outputs_le: "outputs splits d \<le> output_count splits"
  by (induction splits) auto

lemma sat32_add_exact: "a + b \<le> u32_max \<Longrightarrow> sat32_add a b = a + b"
  by (simp add: sat32_add_def)

lemma cap_from_counts:
  "limit \<le> u32_max \<Longrightarrow> used \<le> limit \<Longrightarrow>
   output_count (cap_from limit used splits) = min (limit - used) (output_count splits)
   \<and> outputs (cap_from limit used splits) d \<le> outputs splits d"
proof (induction splits arbitrary: used)
  case (Cons r splits)
  obtain denom n where r: "r = (denom, n)" by (cases r)
  define t where "t = min n (limit - used)"
  have le: "used + t \<le> limit" using Cons.prems by (auto simp: t_def)
  have add: "sat32_add used t = used + t" using le Cons.prems by (intro sat32_add_exact) auto
  have eq: "cap_from limit used (r # splits) = (if limit \<le> used then [] else if t = 0 then cap_from limit used splits
      else (denom, t) # cap_from limit (used + t) splits)"
    by (simp add: r Let_def t_def [symmetric] add)
  note IH = Cons.IH [OF Cons.prems] Cons.IH [OF Cons.prems(1) le]
  show ?case
  proof (cases "limit \<le> used \<or> t = 0")
    case True
    then show ?thesis using IH(1) Cons.prems unfolding eq by (auto simp: r t_def)
  next
    case False
    have "t + min (limit - (used + t)) (output_count splits) = min (limit - used) (n + output_count splits)"
      using Cons.prems(2) unfolding t_def by linarith
    moreover have "t \<le> n" by (simp add: t_def)
    ultimately show ?thesis using IH(2) False unfolding eq by (auto simp: r)
  qed
qed simp

lemma subtract_from_counts: "outputs (subtract_from avail splits) d = outputs splits d - avail d"
proof (induction splits arbitrary: avail)
  case (Cons r splits)
  obtain denom n where r: "r = (denom, n)" by (cases r)
  have "subtract_from avail (r # splits) = (if avail denom < n
      then (denom, n - avail denom) # subtract_from (avail(denom := 0)) splits
      else subtract_from (avail(denom := avail denom - n)) splits)"
    by (simp add: r Let_def min_def)
  then show ?case using Cons.IH by (auto simp: r)
qed simp

lemma spent_counts_from:
  "m d \<le> u32_max \<Longrightarrow> foldl (\<lambda>m (denom, n). m(denom := sat32_add (m denom) n)) m chunk d
     = min u32_max (m d + outputs chunk d)"
  by (induction chunk arbitrary: m) (auto simp: sat32_add_def)

lemma spent_counts_eq: "spent_counts chunk d = min u32_max (outputs chunk d)"
  by (simp add: spent_counts_def spent_counts_from)

text \<open>
  A chunk of a request is as large as the limit of a transaction allows, and with the rest
  it is the whole request: denomination by denomination nothing is lost or asked for twice.
\<close>

theorem chunk_and_rest_make_request:
  assumes "limit \<le> u32_max" and "output_count request \<le> u32_max"
  shows "let chunk = cap_split_outputs request limit; rest = subtract_split_chunk request chunk in
    output_count chunk = min limit (output_count request)
    \<and> (\<forall>denom. outputs chunk denom + outputs rest denom = outputs request denom)"
proof -
  define chunk where "chunk = cap_split_outputs request limit"
  have cap: "output_count chunk = min limit (output_count request)" "outputs chunk d \<le> outputs request d" for d
    using cap_from_counts [OF assms(1) le0, of request d] by (auto simp: chunk_def cap_split_outputs_def)
  have "outputs chunk d \<le> u32_max" for d
    by (rule order_trans [OF cap(2) order_trans [OF outputs_le assms(2)]])
  then have "outputs (subtract_split_chunk request chunk) d = outputs request d - outputs chunk d" for d
    by (simp add: subtract_split_chunk_def subtract_from_counts spent_counts_eq min_absorb2)
  with cap show ?thesis unfolding Let_def chunk_def [symmetric] by simp
qed

end
