(* ===== verification/Split_Rate.thy ===== *)
theory Split_Rate
  imports Ladder_Safety
begin

text \<open>
  How often an instrument is split. Callers that take turns, one plan of an instrument at a
  time, keep to the budget of an hour and to the interval between two attempts; callers that
  plan side by side do not, since the history is read before the input is reserved, and an
  interval longer than an hour is not kept at all, since the history ends there.
\<close>

section \<open>The history\<close>

definition attempts_of :: "string \<Rightarrow> split_tasks \<Rightarrow> nat list" where
  "attempts_of key s = map snd (filter (\<lambda>a. fst a = key) (sk_attempts s))"

definition recent :: "nat \<Rightarrow> nat \<Rightarrow> bool" where
  "recent now t \<longleftrightarrow> now - t < SPLIT_BUDGET_WINDOW"

lemma recent_secs [simp]: "secs_since now t < SPLIT_OP_WINDOW_SECS \<longleftrightarrow> recent now t"
  by (simp add: secs_since_def recent_def SPLIT_OP_WINDOW_SECS_def SPLIT_BUDGET_WINDOW_def div_less_iff_less_mult)

lemma recent_later: "recent now t \<Longrightarrow> r \<le> now \<Longrightarrow> recent r t"
  by (simp add: recent_def)

lemma split_ops_recorded:
  assumes "r \<le> now"
  shows "split_ops (record_split_op r key c) now key' =
    (if key' = key then split_ops c now key @ filter (recent now) [r] else split_ops c now key')"
proof -
  have "filter (recent now) (filter (recent r) ts) = filter (recent now) ts" for ts
    using recent_later [OF _ assms] by (induction ts) auto
  then show ?thesis by (auto simp: split_ops_def record_split_op_def Let_def split: option.splits)
qed

definition spacing :: "split_settings \<Rightarrow> nat" where
  "spacing v2 = min (v2_min_interval_secs v2 * 1000000000) SPLIT_BUDGET_WINDOW"

text \<open>An open gate leaves room for one more attempt.\<close>

definition room :: "split_settings \<Rightarrow> nat \<Rightarrow> nat list \<Rightarrow> bool" where
  "room v2 now ts \<longleftrightarrow> length (filter (recent now) ts) < v2_max_ops_per_hour v2
     \<and> (\<forall>t \<in> set ts. spacing v2 \<le> now - t)"

definition paced :: "split_settings \<Rightarrow> nat list \<Rightarrow> bool" where
  "paced v2 ts \<longleftrightarrow> (\<forall>t. length (filter (\<lambda>u. u \<le> t \<and> recent t u) ts) \<le> v2_max_ops_per_hour v2)
     \<and> sorted_wrt (\<lambda>a b. b + spacing v2 \<le> a) ts"

lemma room_later:
  assumes "room v2 now ts" and "now \<le> r"
  shows "room v2 r ts"
proof -
  have "length (filter (recent r) ts) \<le> length (filter (recent now) ts)"
    using recent_later [OF _ assms(2)] by (induction ts) auto
  then show ?thesis using assms by (force simp: room_def)
qed

lemma room_paced:
  assumes "room v2 r ts" and "paced v2 ts" and "\<forall>t \<in> set ts. t \<le> r"
  shows "paced v2 (r # ts)"
proof -
  have "length (filter (\<lambda>u. u \<le> t \<and> recent t u) (r # ts)) \<le> v2_max_ops_per_hour v2" for t
  proof (cases "r \<le> t")
    case True
    have "length (filter (\<lambda>u. u \<le> t \<and> recent t u) ts) \<le> length (filter (recent r) ts)"
      using recent_later [OF _ True] by (induction ts) auto
    then show ?thesis using assms(1) by (simp add: room_def)
  next
    case False
    then show ?thesis using assms(2) by (simp add: paced_def)
  qed
  moreover have "t + spacing v2 \<le> r" if "t \<in> set ts" for t
    using assms(1,3) that by (fastforce simp: room_def)
  ultimately show ?thesis using assms(2) by (simp add: paced_def)
qed

lemma gate_room:
  assumes "split_gate (rev (filter (recent now) ts)) now (v2_min_interval_secs v2 * 1000000000)
      (v2_max_ops_per_hour v2) = Gate_Open"
  shows "room v2 now ts"
proof -
  let ?ops = "rev (filter (recent now) ts)"
  have "filter (\<lambda>t. now - t < SPLIT_BUDGET_WINDOW) ?ops = ?ops" by (simp add: recent_def filter_id_conv)
  then have "length (filter (recent now) ts) < v2_max_ops_per_hour v2"
      and last: "?ops = [] \<or> v2_min_interval_secs v2 * 1000000000 \<le> now - Max (set ?ops)"
    using assms by (auto simp: split_gate_def Let_def not_less split: if_splits)
  moreover have "spacing v2 \<le> now - t" if t: "t \<in> set ts" for t
  proof (cases "recent now t")
    case True
    then have "t \<le> Max (set ?ops)" "?ops \<noteq> []" using t by (auto simp: filter_empty_conv intro!: Max_ge)
    then have "v2_min_interval_secs v2 * 1000000000 \<le> now - t"
      using last diff_le_mono2 [of t "Max (set ?ops)" now] by linarith
    then show ?thesis by (simp add: spacing_def min.coboundedI1)
  next
    case False
    then show ?thesis by (simp add: recent_def spacing_def)
  qed
  ultimately show ?thesis by (simp add: room_def)
qed

section \<open>Callers that take turns\<close>

definition rate_inv :: "split_settings \<Rightarrow> split_tasks \<Rightarrow> bool" where
  "rate_inv v2 s \<longleftrightarrow> (\<forall>key. paced v2 (attempts_of key s)
       \<and> (\<forall>t \<in> set (attempts_of key s). t \<le> sk_clock s)
       \<and> (\<forall>now \<ge> sk_clock s. split_ops (sk_cache s) now key = rev (filter (recent now) (attempts_of key s))))
     \<and> (\<forall>(task, p) \<in> set (sk_planned s). room v2 (sk_clock s) (attempts_of (si_key (pl_instrument p)) s))
     \<and> distinct (map (\<lambda>(task, p). si_key (pl_instrument p)) (sk_planned s))"

fun leaves_history :: "cache_event \<Rightarrow> bool" where
  "leaves_history (Split_Op now key) \<longleftrightarrow> False"
| "leaves_history e \<longleftrightarrow> True"

text \<open>
  The clock does not go back, no other worker writes the history, and an instrument is planned
  by one task at a time.
\<close>

fun takes_turns :: "split_tasks \<Rightarrow> split_event \<Rightarrow> bool" where
  "takes_turns s (Plan task instrument rungs ks now) \<longleftrightarrow> sk_clock s \<le> now
     \<and> si_key instrument \<notin> (\<lambda>(task, p). si_key (pl_instrument p)) ` set (sk_planned s)"
| "takes_turns s (Begin task job reserved_at recorded_at) \<longleftrightarrow> sk_clock s \<le> recorded_at"
| "takes_turns s (Finish task answer consumed_at pending_at) \<longleftrightarrow> True"
| "takes_turns s (Cache_Event e) \<longleftrightarrow> leaves_history e"

lemma split_ops_cong: "hc_split_op_times c' = hc_split_op_times c \<Longrightarrow> split_ops c' = split_ops c"
  by (simp add: split_ops_def fun_eq_iff)

lemma history_kept:
  "hc_split_op_times (snd (reserve_split r cids job c)) = hc_split_op_times c"
  "hc_split_op_times (finish_split answer a b p c) = hc_split_op_times c"
  "leaves_history e \<Longrightarrow> hc_split_op_times (cache_step c e) = hc_split_op_times c"
proof -
  have consume: "hc_split_op_times (mark_consumed n cids r c) = hc_split_op_times c" for n cids r c
    unfolding mark_consumed_def by (induction cids arbitrary: c) auto
  have release: "hc_split_op_times (release_reservations cids c) = hc_split_op_times c" for cids c
    unfolding release_reservations_def by (induction cids arbitrary: c) auto
  show "hc_split_op_times (snd (reserve_split r cids job c)) = hc_split_op_times c"
    by (simp add: reserve_split_def reserve_with_kind_def)
  show "hc_split_op_times (finish_split answer a b p c) = hc_split_op_times c"
    by (simp add: finish_split_def record_pending_split_def consume release split: option.split)
  show "leaves_history e \<Longrightarrow> hc_split_op_times (cache_step c e) = hc_split_op_times c"
    by (cases e) (auto simp: cache_updates reserve_with_kind_def consume release)
qed

lemma plan_room:
  assumes "plan_split L ks v2 i rungs now c = Planned p"
    and "split_ops c now (si_key i) = rev (filter (recent now) ts)"
  shows "pl_instrument p = i \<and> room v2 now ts"
  using assms gate_room [of now ts v2]
  by (auto simp: plan_split_def decide_split_def Let_def split: if_splits split_verdict.splits option.splits)

lemma attempts_kept: "sk_attempts s' = sk_attempts s \<Longrightarrow> attempts_of key s' = attempts_of key s"
  by (simp add: attempts_of_def)

text \<open>A step that adds no plan and no attempt and leaves the history alone.\<close>

lemma rate_inv_quiet:
  assumes "rate_inv v2 s" and "sk_attempts s' = sk_attempts s" and "sk_clock s \<le> sk_clock s'"
    and "hc_split_op_times (sk_cache s') = hc_split_op_times (sk_cache s)"
    and "set (sk_planned s') \<subseteq> set (sk_planned s)"
    and "distinct (map (\<lambda>(task, p). si_key (pl_instrument p)) (sk_planned s'))"
  shows "rate_inv v2 s'"
  using assms room_later [OF _ assms(3)] split_ops_cong [OF assms(4)]
  by (fastforce simp: rate_inv_def attempts_of_def)

lemma distinct_keys_delete:
  "distinct (map f xs) \<Longrightarrow> distinct (map f (AList.delete k xs))"
  by (simp add: AList.delete_eq distinct_map_filter)

lemma plan_keeps_rate:
  assumes inv: "rate_inv v2 s" and turn: "takes_turns s (Plan task i rungs ks now)"
  shows "rate_inv v2 (plan_task L v2 task i rungs ks now s)"
proof -
  have le: "sk_clock s \<le> now" using turn by simp
  have quiet: "rate_inv v2 (s\<lparr>sk_clock := max now (sk_clock s)\<rparr>)"
    by (rule rate_inv_quiet [OF inv]) (use inv in \<open>simp_all add: rate_inv_def\<close>)
  show ?thesis
  proof (cases "\<exists>p. plan_split L ks v2 i rungs now (sk_cache s) = Planned p")
    case True
    then obtain p where p: "plan_split L ks v2 i rungs now (sk_cache s) = Planned p" by blast
    have "split_ops (sk_cache s) now (si_key i) = rev (filter (recent now) (attempts_of (si_key i) s))"
      using inv le by (simp add: rate_inv_def)
    then have "pl_instrument p = i \<and> room v2 now (attempts_of (si_key i) s)" by (rule plan_room [OF p])
    then show ?thesis
      using quiet turn p le by (simp add: plan_task_def rate_inv_def attempts_of_def max_absorb1 image_iff case_prod_beta)
  next
    case False
    then show ?thesis using quiet by (simp add: plan_task_def split: split_decision.split)
  qed
qed

lemma begin_keeps_rate:
  assumes inv: "rate_inv v2 s" and turn: "takes_turns s (Begin task job reserved_at recorded_at)"
  shows "rate_inv v2 (begin_task task job reserved_at recorded_at s)"
proof (cases "map_of (sk_planned s) task")
  case None
  then show ?thesis using inv by (simp add: begin_task_def)
next
  case (Some p)
  let ?key = "si_key (pl_instrument p)" and ?planned = "AList.delete task (sk_planned s)"
  have le: "sk_clock s \<le> recorded_at" using turn by simp
  have keys: "distinct (map (\<lambda>(task, p). si_key (pl_instrument p)) ?planned)"
    using inv unfolding rate_inv_def by (intro distinct_keys_delete) blast
  have sub: "set ?planned \<subseteq> set (sk_planned s)" by (auto simp: AList.delete_eq)
  have mem: "(task, p) \<in> set (sk_planned s)" using Some by (rule map_of_SomeD)
  show ?thesis
  proof (cases "begin_split job reserved_at recorded_at p (sk_cache s)")
    case (Pair request c)
    show ?thesis
    proof (cases request)
      case None
      have "hc_split_op_times c = hc_split_op_times (sk_cache s)"
        using Pair None history_kept(1) [of reserved_at "[pl_reserve p]" _ "sk_cache s"]
        by (auto simp: begin_split_def split: option.splits prod.splits bool.splits dest!: arg_cong [of _ _ snd])
      then show ?thesis
        using rate_inv_quiet [OF inv] Some Pair None sub keys by (simp add: begin_task_def)
    next
      case (Some r)
      then obtain c0 where c0: "c = record_split_op recorded_at ?key c0"
          "hc_split_op_times c0 = hc_split_op_times (sk_cache s)"
        using Pair history_kept(1) [of reserved_at "[pl_reserve p]" _ "sk_cache s"]
        by (auto simp: begin_split_def split: option.splits prod.splits bool.splits dest!: arg_cong [of _ _ snd])
      define s' where "s' = begin_task task job reserved_at recorded_at s"
      have s': "sk_cache s' = c" "sk_planned s' = ?planned" "sk_clock s' = recorded_at"
          "sk_attempts s' = (?key, recorded_at) # sk_attempts s"
        using \<open>map_of (sk_planned s) task = Some p\<close> Pair Some le by (simp_all add: s'_def begin_task_def)
      have t: "attempts_of key s' = (if key = ?key then recorded_at # attempts_of key s else attempts_of key s)" for key
        by (simp add: attempts_of_def s')
      have room: "room v2 recorded_at (attempts_of (si_key (pl_instrument q)) s)" if "(k, q) \<in> set (sk_planned s)" for k q
        using inv that by (intro room_later [OF _ le]) (auto simp: rate_inv_def)
      have upto: "\<forall>t \<in> set (attempts_of key s). t \<le> recorded_at" for key
        using inv le by (fastforce simp: rate_inv_def)
      have paced: "paced v2 (attempts_of key s')" for key
        using inv room_paced [OF room [OF mem]] upto by (simp add: t rate_inv_def)
      have ops: "split_ops (sk_cache s') now key = rev (filter (recent now) (attempts_of key s'))" if "recorded_at \<le> now" for now key
      proof -
        have "split_ops c0 now key = rev (filter (recent now) (attempts_of key s))" for key
          using inv that le unfolding split_ops_cong [OF c0(2)] by (simp add: rate_inv_def)
        then show ?thesis by (simp add: s' c0(1) split_ops_recorded [OF that] t)
      qed
      have other: "si_key (pl_instrument q) \<noteq> ?key" if "(k, q) \<in> set ?planned" for k q
      proof
        assume "si_key (pl_instrument q) = ?key"
        then have "(k, q) = (task, p)"
          using inv that sub mem
          by (intro inj_onD [of "\<lambda>(task, p). si_key (pl_instrument p)" "set (sk_planned s)"])
            (auto simp: rate_inv_def distinct_map)
        then show False using that by (auto simp: AList.delete_eq)
      qed
      have upto': "\<forall>t \<in> set (attempts_of key s'). t \<le> sk_clock s'" for key
        using upto [of key] by (simp add: t s')
      have "rate_inv v2 s'"
        unfolding rate_inv_def
      proof (intro conjI allI impI ballI)
        show "case x of (k, q) \<Rightarrow> room v2 (sk_clock s') (attempts_of (si_key (pl_instrument q)) s')"
          if "x \<in> set (sk_planned s')" for x
          using that other room sub by (cases x) (auto simp: t s')
      qed (use paced ops upto' keys in \<open>simp_all add: s'\<close>)
      then show ?thesis by (simp add: s'_def)
    qed
  qed
qed

lemma step_keeps_rate: "rate_inv v2 s \<Longrightarrow> takes_turns s e \<Longrightarrow> rate_inv v2 (split_step L v2 s e)"
proof (induction e)
  case (Finish task answer a b)
  have "distinct (map (\<lambda>(task, p). si_key (pl_instrument p)) (sk_planned s))"
    using Finish by (simp add: rate_inv_def)
  then show ?case
    using rate_inv_quiet [OF Finish(1)] Finish(1) by (simp add: end_task_def history_kept split: option.split)
next
  case (Cache_Event e)
  have "distinct (map (\<lambda>(task, p). si_key (pl_instrument p)) (sk_planned s))"
    using Cache_Event by (simp add: rate_inv_def)
  then show ?case
    using rate_inv_quiet [OF Cache_Event(1)] Cache_Event(2) by (simp add: history_kept)
qed (simp_all add: plan_keeps_rate begin_keeps_rate del: takes_turns.simps)

interpretation split_rate: guarded "split_step L v2" "rate_inv v2" takes_turns for L v2
  by unfold_locales (rule step_keeps_rate)

text \<open>
  C24: Callers that take turns never attempt more splits of an instrument within any hour than
  the budget allows, and leave the configured interval (up to an hour) between two of them.
\<close>

theorem split_attempts_paced:
  assumes "hc_split_op_times c = Map.empty" and "enabled_run (split_step L v2) takes_turns (no_tasks c) es"
  shows "let ts = attempts_of key (run (split_step L v2) (no_tasks c) es) in
    (\<forall>t. length (filter (\<lambda>u. u \<le> t \<and> t - u < SPLIT_BUDGET_WINDOW) ts) \<le> v2_max_ops_per_hour v2)
    \<and> sorted_wrt (\<lambda>a b. b + min (v2_min_interval_secs v2 * 1000000000) SPLIT_BUDGET_WINDOW \<le> a) ts"
proof -
  have "rate_inv v2 (no_tasks c)"
    using assms(1) by (simp add: rate_inv_def no_tasks_def attempts_of_def paced_def split_ops_def)
  from split_rate.guarded_run [OF this assms(2)] show ?thesis
    by (simp add: rate_inv_def paced_def recent_def spacing_def Let_def)
qed

section \<open>Examples\<close>

definition one_an_hour :: split_settings where
  "one_an_hour = \<lparr>v2_low_water_divisor = 1, v2_min_interval_secs = 7200, v2_max_ops_per_hour = 1\<rparr>"

definition one_reserve :: holdings_cache where
  "one_reserve = add_created [sample_holding ''r'' 1000] (empty_cache True)"

definition cc_plan :: "nat \<Rightarrow> nat \<Rightarrow> split_event" where
  "cc_plan task now = Plan task cc_instrument [(10, 2)] [''r''] now"

lemma plan_one:
  assumes "hc_available c = [''r'' \<mapsto> (sample_holding ''r'' 1000)\<lparr>h_discovered_at := t\<rparr>]" and "hc_consumed c = Map.empty"
    and "hc_splitter_reserve_enabled c" and "hc_pending_splits c = []"
    and "split_ops c now CC_INSTRUMENT = []" and "secs_since now t \<le> AVAILABLE_TTL_SECS"
  shows "plan_split exact_split [''r''] one_an_hour cc_instrument [(10, 2)] now c =
    Planned \<lparr>pl_instrument = cc_instrument, pl_reserve = ''r'', pl_splits = [(10, 2)]\<rparr>"
proof -
  let ?h = "(sample_holding ''r'' 1000)\<lparr>h_discovered_at := t\<rparr>"
  have ops: "split_ops c now (si_key cc_instrument) = []" using assms(5) by (simp add: cc_instrument_def)
  have hs: "holdings_of [''r''] c CC_INSTRUMENT = [?h]"
    using assms(1) by (simp add: holdings_of_def map_filter_def sample_holding_def CC_INSTRUMENT_def)
  have cid: "splitter_reserve_cid [''r''] c now CC_INSTRUMENT = Some ''r''"
    using assms by (simp add: splitter_reserve_cid_def hs is_consumed_def is_fresh_def) (simp add: sample_holding_def)
  have reserve: "splitter_reserve [''r''] c now (si_key cc_instrument) = Some ?h"
    using assms by (simp add: splitter_reserve_def cid cc_instrument_def)
  have count: "count_in_band [''r''] c now (si_key cc_instrument) 10 hi = 0" for hi
    using assms by (simp add: count_in_band_def excluded_cid_def cid hs Let_def cc_instrument_def) (simp add: sample_holding_def)
  have "fund_splits exact_split 1000 [(10, 2)] = [(10, 2)]"
    by (simp add: fund_splits_def split_budget_def exact_split_def exact_arith_def in_range_def trunc_u32_def u32_max_def Let_def)
  moreover have "h_amount ?h = 1000" "h_contract_id ?h = ''r''" by (simp_all add: sample_holding_def)
  ultimately show ?thesis
    by (simp add: plan_split_def decide_split_def ops reserve count one_an_hour_def plan_ladder_refill_def low_water_def
        ladder_overfull_def count_sum_def sat32_add_def u32_max_def split_gate_def Let_def MAX_SPLIT_OUTPUTS_PER_TX_def)
qed

abbreviation cc_split :: split_plan where
  "cc_split \<equiv> \<lparr>pl_instrument = cc_instrument, pl_reserve = ''r'', pl_splits = [(10, 2)]\<rparr>"

abbreviation one_caller :: "split_tasks \<Rightarrow> split_event \<Rightarrow> split_tasks" where
  "one_caller \<equiv> split_step exact_split one_an_hour"

lemma one_reserve_simps [simp]:
  "hc_available one_reserve = [''r'' \<mapsto> sample_holding ''r'' 1000]" "hc_consumed one_reserve = Map.empty"
  "hc_reserved one_reserve = Map.empty" "hc_splitter_reserve_enabled one_reserve" "hc_pending_splits one_reserve = []"
  "hc_split_op_times one_reserve = Map.empty"
  by (simp_all add: one_reserve_def add_created_def empty_cache_def by_contract_def) (simp add: sample_holding_def)

lemma cc_plan_step:
  assumes "hc_available (sk_cache s) = [''r'' \<mapsto> (sample_holding ''r'' 1000)\<lparr>h_discovered_at := t\<rparr>]"
    and "hc_consumed (sk_cache s) = Map.empty"
    and "hc_splitter_reserve_enabled (sk_cache s)" and "hc_pending_splits (sk_cache s) = []"
    and "split_ops (sk_cache s) now CC_INSTRUMENT = []" and "secs_since now t \<le> AVAILABLE_TTL_SECS" and "sk_clock s \<le> now"
  shows "one_caller s (cc_plan task now) = s\<lparr>sk_planned := (task, cc_split) # sk_planned s, sk_clock := now\<rparr>"
  using plan_one [OF assms(1-6)] assms(7) by (simp add: cc_plan_def plan_task_def)

lemma cc_begin_step:
  assumes "map_of (sk_planned s) task = Some cc_split" and "hc_consumed (sk_cache s) = Map.empty"
    and "hc_reserved (sk_cache s) = Map.empty" and "sk_clock s \<le> now"
  shows "one_caller s (Begin task (Some u) now now) = s\<lparr>sk_planned := AList.delete task (sk_planned s),
      sk_running := (task, cc_split) # sk_running s, sk_attempts := (CC_INSTRUMENT, now) # sk_attempts s, sk_clock := now,
      sk_cache := record_split_op now CC_INSTRUMENT ((sk_cache s)\<lparr>hc_reserved :=
        [''r'' \<mapsto> \<lparr>re_kind = Split (''split-'' @ u), re_reserved_at = now\<rparr>]\<rparr>)\<rparr>"
  using assms by (simp add: begin_task_def begin_split_def reserve_split_def reserve_with_kind_def is_consumed_def is_reserved_def
      max_absorb1 cc_instrument_def)

theorem split_attempts_paced_witness:
  "let es = [cc_plan 1 5, Begin 1 (Some ''u'') 7 7]; ts = attempts_of CC_INSTRUMENT (run one_caller (no_tasks one_reserve) es) in
    ts = [7] \<and> (\<forall>t. length (filter (\<lambda>u. u \<le> t \<and> t - u < SPLIT_BUDGET_WINDOW) ts) \<le> 1)"
proof -
  let ?es = "[cc_plan 1 5, Begin 1 (Some ''u'') 7 7]"
  have plan: "one_caller (no_tasks one_reserve) (cc_plan 1 5) = (no_tasks one_reserve)\<lparr>sk_planned := [(1, cc_split)], sk_clock := 5\<rparr>"
    by (subst cc_plan_step [where t = 0])
      (simp_all add: no_tasks_def split_ops_def secs_since_def AVAILABLE_TTL_SECS_def, simp add: sample_holding_def)
  have "run one_caller (no_tasks one_reserve) ?es = one_caller ((no_tasks one_reserve)\<lparr>sk_planned := [(1, cc_split)], sk_clock := 5\<rparr>)
      (Begin 1 (Some ''u'') 7 7)"
    by (simp only: run_simps plan)
  then have "attempts_of CC_INSTRUMENT (run one_caller (no_tasks one_reserve) ?es) = [7]"
    by (subst (asm) cc_begin_step) (simp_all add: no_tasks_def attempts_of_def)
  moreover have "enabled_run one_caller takes_turns (no_tasks one_reserve) ?es"
    unfolding enabled_run.simps plan by (simp add: cc_plan_def no_tasks_def)
  ultimately show ?thesis
    using split_attempts_paced [of one_reserve exact_split one_an_hour ?es CC_INSTRUMENT]
    by (simp add: one_an_hour_def)
qed

text \<open>
  Two callers that read the history before either reserves: the first attempt fails and frees
  the input, the second goes ahead on its old reading, over the budget of one an hour.
\<close>

theorem side_by_side_overruns_budget:
  "attempts_of CC_INSTRUMENT (run one_caller (no_tasks one_reserve)
     [cc_plan 1 0, cc_plan 2 0, Begin 1 (Some ''u'') 1 1, Finish 1 None 2 2, Begin 2 (Some ''v'') 3 3]) = [3, 1]
   \<and> v2_max_ops_per_hour one_an_hour = 1"
proof -
  define s1 where "s1 = one_caller (no_tasks one_reserve) (cc_plan 1 0)"
  define s2 where "s2 = one_caller s1 (cc_plan 2 0)"
  define s3 where "s3 = one_caller s2 (Begin 1 (Some ''u'') 1 1)"
  define s4 where "s4 = one_caller s3 (Finish 1 None 2 2)"
  have ready: "hc_available one_reserve = [''r'' \<mapsto> (sample_holding ''r'' 1000)\<lparr>h_discovered_at := 0\<rparr>]"
    by simp (simp add: sample_holding_def)
  have s1: "s1 = (no_tasks one_reserve)\<lparr>sk_planned := [(1, cc_split)], sk_clock := 0\<rparr>"
    unfolding s1_def by (subst cc_plan_step [where t = 0])
      (use ready in \<open>simp_all add: no_tasks_def split_ops_def secs_since_def\<close>)
  have s2: "s2 = (no_tasks one_reserve)\<lparr>sk_planned := [(2, cc_split), (1, cc_split)], sk_clock := 0\<rparr>"
    unfolding s2_def by (subst cc_plan_step [where t = 0])
      (use ready in \<open>simp_all add: s1 no_tasks_def split_ops_def secs_since_def\<close>)
  have s3: "sk_planned s3 = [(2, cc_split)]" "sk_running s3 = [(1, cc_split)]" "sk_attempts s3 = [(CC_INSTRUMENT, 1)]"
      "hc_consumed (sk_cache s3) = Map.empty" "hc_reserved (sk_cache s3) = [''r'' \<mapsto> \<lparr>re_kind = Split ''split-u'', re_reserved_at = 1\<rparr>]"
      "sk_clock s3 = 1"
    unfolding s3_def by (subst cc_begin_step; simp add: s2 no_tasks_def record_split_op_def Let_def)+
  have s4: "sk_planned s4 = [(2, cc_split)]" "sk_attempts s4 = [(CC_INSTRUMENT, 1)]"
      "hc_consumed (sk_cache s4) = Map.empty" "hc_reserved (sk_cache s4) = Map.empty" "sk_clock s4 = 1"
    by (simp_all add: s4_def end_task_def finish_split_def release_reservations_def s3)
  have "attempts_of CC_INSTRUMENT (one_caller s4 (Begin 2 (Some ''v'') 3 3)) = [3, 1]"
    by (subst cc_begin_step) (simp_all add: s4 attempts_of_def)
  then show ?thesis by (simp add: s1_def s2_def s3_def s4_def one_an_hour_def)
qed

text \<open>
  An interval of two hours: one hour after an attempt the history is empty and the next is let
  through, although a single caller works through them in turn.
\<close>

definition an_hour :: nat where "an_hour = 3600 * 1000000000"

theorem long_interval_not_kept:
  "attempts_of CC_INSTRUMENT (run one_caller (no_tasks one_reserve)
     [cc_plan 1 0, Begin 1 (Some ''u'') 0 0, Finish 1 None 1 1,
      Cache_Event (Add_Created [(sample_holding ''r'' 1000)\<lparr>h_discovered_at := an_hour\<rparr>]),
      cc_plan 2 an_hour, Begin 2 (Some ''v'') an_hour an_hour]) = [an_hour, 0]
   \<and> v2_min_interval_secs one_an_hour = 7200"
proof -
  let ?h = "(sample_holding ''r'' 1000)\<lparr>h_discovered_at := an_hour\<rparr>"
  define s1 where "s1 = one_caller (no_tasks one_reserve) (cc_plan 1 0)"
  define s2 where "s2 = one_caller s1 (Begin 1 (Some ''u'') 0 0)"
  define s3 where "s3 = one_caller (one_caller s2 (Finish 1 None 1 1)) (Cache_Event (Add_Created [?h]))"
  define s4 where "s4 = one_caller s3 (cc_plan 2 an_hour)"
  have ready: "hc_available one_reserve = [''r'' \<mapsto> (sample_holding ''r'' 1000)\<lparr>h_discovered_at := 0\<rparr>]"
    by simp (simp add: sample_holding_def)
  have s1: "s1 = (no_tasks one_reserve)\<lparr>sk_planned := [(1, cc_split)], sk_clock := 0\<rparr>"
    unfolding s1_def by (subst cc_plan_step [where t = 0])
      (use ready in \<open>simp_all add: no_tasks_def split_ops_def secs_since_def\<close>)
  have s2: "s2 = (no_tasks one_reserve)\<lparr>sk_planned := [], sk_running := [(1, cc_split)], sk_attempts := [(CC_INSTRUMENT, 0)],
      sk_clock := 0, sk_cache := record_split_op 0 CC_INSTRUMENT (one_reserve\<lparr>hc_reserved :=
        [''r'' \<mapsto> \<lparr>re_kind = Split ''split-u'', re_reserved_at = 0\<rparr>]\<rparr>)\<rparr>"
    unfolding s2_def by (subst cc_begin_step) (simp_all add: s1 no_tasks_def)
  have s3: "sk_planned s3 = []" "sk_attempts s3 = [(CC_INSTRUMENT, 0)]" "sk_clock s3 = 0"
      "hc_available (sk_cache s3) = [''r'' \<mapsto> ?h]" "hc_consumed (sk_cache s3) = Map.empty"
      "hc_reserved (sk_cache s3) = Map.empty" "hc_splitter_reserve_enabled (sk_cache s3)"
      "hc_pending_splits (sk_cache s3) = []" "hc_split_op_times (sk_cache s3) = [CC_INSTRUMENT \<mapsto> [0]]"
    by (simp_all add: s3_def s2 no_tasks_def end_task_def finish_split_def release_reservations_def
        record_split_op_def add_created_def by_contract_def Let_def) (simp_all add: sample_holding_def)
  have ops: "split_ops (sk_cache s3) an_hour CC_INSTRUMENT = []"
    by (simp add: split_ops_def s3 recent_def an_hour_def SPLIT_BUDGET_WINDOW_def)
  have s4: "s4 = s3\<lparr>sk_planned := [(2, cc_split)], sk_clock := an_hour\<rparr>"
    unfolding s4_def by (subst cc_plan_step [where t = an_hour]) (simp_all add: s3 ops secs_since_def)
  have "attempts_of CC_INSTRUMENT (one_caller s4 (Begin 2 (Some ''v'') an_hour an_hour)) = [an_hour, 0]"
    by (subst cc_begin_step) (simp_all add: s4 s3 attempts_of_def)
  then show ?thesis by (simp add: s1_def s2_def s3_def s4_def one_an_hour_def)
qed

end
