(* ===== verification/Consolidation.thy ===== *)
theory Consolidation
  imports Split_Rate
begin

text \<open>
  \<open>crates/cloud-agent/src/merge_worker.rs\<close>: the consolidation of dust. For each instrument the
  worker folds its smallest holdings below the ladder into one, by a self-transfer. A cycle is a
  function of the holdings cache and of what it meets: the instants of its clock readings, the
  ledger's answer, and what other tasks do to the cache before the reservation and during the
  submission.
\<close>

section \<open>One merge\<close>

definition plan_merge :: "cached_holding list \<Rightarrow> rat option \<Rightarrow> nat \<Rightarrow> nat \<Rightarrow> cached_holding list" where
  "plan_merge selectable floor_amount threshold max_amulets =
     (let dust = (case floor_amount of Some f \<Rightarrow> filter (\<lambda>h. h_amount h < f) selectable | None \<Rightarrow> selectable) in
      if length dust \<le> threshold then [] else take max_amulets dust)"

text \<open>
  The request: one output of the whole amount, by a split of Canton Coin or a transfer of the
  party to itself.
\<close>

datatype merge_request = Merge_Cc rat "string list"
  | Merge_Transfer string string string rat "string list"

fun merge_inputs :: "merge_request \<Rightarrow> string list" where
  "merge_inputs (Merge_Cc amount cids) = cids"
| "merge_inputs (Merge_Transfer instrument_id admin receiver amount cids) = cids"

fun merge_amount :: "merge_request \<Rightarrow> rat" where
  "merge_amount (Merge_Cc amount cids) = amount"
| "merge_amount (Merge_Transfer instrument_id admin receiver amount cids) = amount"

datatype merge_point = Before_Reserve | Before_Answer | Before_Pending

record merge_env =
  mg_walk :: "string list"
  mg_read_at :: nat
  mg_reserve_at :: nat
  mg_consumed_at :: nat
  mg_pending_at :: nat
  mg_job :: string
  mg_connects :: bool
  mg_answer :: "string + string"
  mg_others :: "merge_point \<Rightarrow> holdings_cache \<Rightarrow> holdings_cache"

datatype merge_fault = Sum_Out_Of_Range | No_Client | Inputs_Busy | Submit_Failed string

type_synonym merge_result = "merge_fault + (nat \<times> rat \<times> string) option"

definition merge_request_of :: "string \<Rightarrow> split_instrument \<Rightarrow> rat \<Rightarrow> string list \<Rightarrow> merge_request" where
  "merge_request_of party_id i amount cids =
     (if si_is_cc i then Merge_Cc amount cids
      else Merge_Transfer (si_on_chain_id i) (si_admin i) party_id amount cids)"

text \<open>After the submission; an error naming inactive contracts marks the inputs as spent.\<close>

definition finish_merge :: "merge_env \<Rightarrow> split_instrument \<Rightarrow> cached_holding list \<Rightarrow> rat \<Rightarrow> holdings_cache
    \<Rightarrow> merge_result \<times> holdings_cache" where
  "finish_merge E i to_merge amount c =
     (let cids = map h_contract_id to_merge in
      case mg_answer E of
        Inr update_id \<Rightarrow>
          (let c = mark_consumed (mg_consumed_at E) cids update_id c; c = mg_others E Before_Pending c
           in (Inr (Some (length to_merge, amount, update_id)),
               record_pending_split (mg_pending_at E) (si_key i) [(amount, 1)] c))
      | Inl e \<Rightarrow> (Inl (Submit_Failed e),
          if str_contains e ''INACTIVE_CONTRACTS'' then mark_consumed (mg_consumed_at E) cids ''inactive'' c
          else release_reservations cids c))"

text \<open>
  \<open>check_and_merge_instrument\<close>: the result, the request if one was submitted, whether the
  cycle has a client afterwards, and the cache.
\<close>

definition check_and_merge_instrument ::
  "dec_arith \<Rightarrow> string \<Rightarrow> merge_env \<Rightarrow> split_instrument \<Rightarrow> nat \<Rightarrow> nat \<Rightarrow> bool \<Rightarrow> holdings_cache
    \<Rightarrow> merge_result \<times> merge_request option \<times> bool \<times> holdings_cache" where
  "check_and_merge_instrument A party_id E i threshold max_amulets client c =
     (let to_merge = plan_merge (get_selectable (mg_walk E) c (mg_read_at E) (si_key i) True)
            (hc_dust_below c (si_key i)) threshold max_amulets;
          cids = map h_contract_id to_merge
      in if length to_merge < 2 then (Inr None, None, client, c)
         else (case dec_sum A (map h_amount to_merge) of
             None \<Rightarrow> (Inl Sum_Out_Of_Range, None, client, c)
           | Some amount \<Rightarrow>
               if \<not> client \<and> \<not> mg_connects E then (Inl No_Client, None, client, c)
               else (case reserve_split (mg_reserve_at E) cids (mg_job E) (mg_others E Before_Reserve c) of
                   (False, c) \<Rightarrow> (Inl Inputs_Busy, None, True, c)
                 | (True, c) \<Rightarrow>
                     (case finish_merge E i to_merge amount (mg_others E Before_Answer c) of
                       (result, c) \<Rightarrow> (result, Some (merge_request_of party_id i amount cids), True, c)))))"

text \<open>One cycle over the instruments, each with what it meets; it stops at a shutdown.\<close>

fun merge_cycle ::
  "dec_arith \<Rightarrow> string \<Rightarrow> nat \<Rightarrow> nat \<Rightarrow> (split_instrument \<times> bool \<times> merge_env) list \<Rightarrow> bool \<Rightarrow> holdings_cache
    \<Rightarrow> merge_request list \<times> holdings_cache" where
  "merge_cycle A party_id threshold max_amulets [] client c = ([], c)"
| "merge_cycle A party_id threshold max_amulets ((i, shutting_down, E) # rest) client c =
     (if shutting_down then ([], c)
      else (case check_and_merge_instrument A party_id E i threshold max_amulets client c of
        (result, request, client, c) \<Rightarrow>
          (case merge_cycle A party_id threshold max_amulets rest client c of
            (requests, c) \<Rightarrow> (case request of None \<Rightarrow> requests | Some r \<Rightarrow> r # requests, c))))"

section \<open>What a merge takes\<close>

lemma plan_merge_takes:
  "h \<in> set (plan_merge hs f threshold m) \<Longrightarrow> h \<in> set hs \<and> (\<forall>x. f = Some x \<longrightarrow> h_amount h < x)"
  by (auto simp: plan_merge_def Let_def dest!: in_set_takeD split: if_splits option.splits)

lemma plan_merge_length: "length (plan_merge hs f threshold m) \<le> m"
  by (simp add: plan_merge_def Let_def)

lemma selectable_ok_take: "selectable_ok hs \<Longrightarrow> selectable_ok (take n hs)"
proof -
  assume ok: "selectable_ok hs"
  have "0 \<le> total_of (take n hs)"
    using ok by (intro total_of_nonneg) (auto simp: selectable_ok_def dest!: in_set_takeD)
  moreover have "total_of (take n hs) \<le> total_of hs" using ok by (intro total_take_le) (simp add: selectable_ok_def)
  ultimately have "in_range (total_of (take n hs))"
    using ok in_range_le [of "total_of hs" "total_of (take n hs)"] by (simp add: selectable_ok_def)
  moreover have "sorted (amounts (take n hs))" "distinct (map h_contract_id (take n hs))"
    using ok by (simp_all add: selectable_ok_def sorted_wrt_take flip: take_map)
  ultimately show ?thesis using ok set_take_subset [of n hs] unfolding selectable_ok_def by blast
qed

lemma plan_merge_ok: "selectable_ok hs \<Longrightarrow> selectable_ok (plan_merge hs f threshold m)"
  by (auto simp: plan_merge_def Let_def intro!: selectable_ok_take selectable_ok_filter split: option.split)
    (simp_all add: selectable_ok_def total_of_def in_range_def)

text \<open>What a submitted merge looked at and what it asked for.\<close>

lemma merge_submitted:
  assumes "check_and_merge_instrument A party_id E i threshold m client c = (result, Some r, client', c')"
  obtains to_merge where "to_merge = plan_merge (get_selectable (mg_walk E) c (mg_read_at E) (si_key i) True)
      (hc_dust_below c (si_key i)) threshold m"
    and "2 \<le> length to_merge" and "merge_inputs r = map h_contract_id to_merge"
    and "dec_sum A (map h_amount to_merge) = Some (merge_amount r)"
    and "fst (reserve_split (mg_reserve_at E) (map h_contract_id to_merge) (mg_job E) (mg_others E Before_Reserve c))"
  using assms
  by (auto simp: check_and_merge_instrument_def merge_request_of_def Let_def not_less
      split: if_splits option.splits prod.splits bool.splits)

lemma foldl_min_le: "foldl min (x :: rat) xs \<le> x \<and> (\<forall>y \<in> set xs. foldl min x xs \<le> y)"
proof (induction xs arbitrary: x)
  case (Cons a xs)
  have "foldl min (min x a) xs \<le> min x a" using Cons by blast
  then show ?case using Cons [of "min x a"] by auto
qed simp

lemma dust_thresholds_below:
  assumes "distinct (map (si_key \<circ> tg_instrument) targets)" and "t \<in> set targets"
    and "parse_splits L (tg_denominations t) = Inr rungs" and "(denom, n) \<in> set rungs"
  shows "\<exists>f. dust_thresholds L targets (si_key (tg_instrument t)) = Some f \<and> f \<le> denom"
proof -
  define step where "step m t = (case parse_splits L (tg_denominations t) of
      Inr (r # rs) \<Rightarrow> m(si_key (tg_instrument t) \<mapsto> foldl min (fst r) (map fst rs)) | _ \<Rightarrow> m)" for m and t :: split_target
  have keep: "foldl step m ts k = m k" if "k \<notin> (si_key \<circ> tg_instrument) ` set ts" for m ts k
    using that by (induction ts arbitrary: m) (auto simp: step_def split: sum.splits list.splits)
  obtain pre post where split: "targets = pre @ t # post" using assms(2) by (auto dest: split_list)
  obtain r rs where rs: "rungs = r # rs" using assms(4) by (cases rungs) auto
  have "dust_thresholds L targets = foldl step Map.empty targets" by (simp add: dust_thresholds_def step_def [abs_def])
  then have "dust_thresholds L targets (si_key (tg_instrument t)) = step (foldl step Map.empty pre) t (si_key (tg_instrument t))"
    using assms(1) unfolding split by (simp add: keep)
  also have "\<dots> = Some (foldl min (fst r) (map fst rs))" by (simp add: step_def assms(3) rs)
  finally show ?thesis using foldl_min_le [of "fst r" "map fst rs"] assms(4) by (force simp: rs)
qed

text \<open>
  C26: The workers do not undo each other: whatever ladder is configured, a merge never takes a
  holding as large as a rung of its instrument.
\<close>

theorem merge_spares_ladder:
  assumes "check_and_merge_instrument A party_id E i threshold m client c = (result, Some r, client', c')"
    and "cache_inv c" and "hc_dust_below c = dust_thresholds L targets"
    and "distinct (map (si_key \<circ> tg_instrument) targets)" and "t \<in> set targets"
    and "si_key (tg_instrument t) = si_key i"
    and "parse_splits L (tg_denominations t) = Inr rungs" and "(denom, n) \<in> set rungs" and "cid \<in> set (merge_inputs r)"
  shows "\<exists>h. hc_available c cid = Some h \<and> h_amount h < denom"
proof -
  obtain f where f: "hc_dust_below c (si_key i) = Some f" "f \<le> denom"
    using dust_thresholds_below [OF assms(4,5,7,8)] assms(3,6) by auto
  obtain hs where hs: "hs = plan_merge (get_selectable (mg_walk E) c (mg_read_at E) (si_key i) True) (Some f) threshold m"
      "merge_inputs r = map h_contract_id hs"
    using merge_submitted [OF assms(1)] f(1) by metis
  then obtain h where h: "h \<in> set hs" "h_contract_id h = cid" using assms(9) by auto
  then have "h \<in> set (holdings_of (mg_walk E) c (si_key i))" "h_amount h < f"
    using plan_merge_takes [of h _ "Some f" threshold m] h(1) unfolding hs(1) get_selectable_def by fastforce+
  then show ?thesis using holdings_of_id [OF assms(2)] h(2) f(2) by fastforce
qed

text \<open>
  C27: A merge folds at least two and at most the configured number of different free holdings
  into one output of exactly their sum, and they are reserved for it.
\<close>

theorem merge_conserves:
  assumes "check_and_merge_instrument A party_id E i threshold m client c = (result, Some r, client', c')"
    and "cache_inv c" and "distinct (mg_walk E)" and "dec_laws A" and "amounts_ok (mg_walk E) c (si_key i)"
  shows "\<exists>hs. merge_inputs r = map h_contract_id hs \<and> merge_amount r = total_of hs
    \<and> 2 \<le> length hs \<and> length hs \<le> m \<and> distinct (merge_inputs r)
    \<and> set hs \<subseteq> set (get_selectable (mg_walk E) c (mg_read_at E) (si_key i) True)
    \<and> (\<forall>cid \<in> set (merge_inputs r). \<not> is_reserved (mg_others E Before_Reserve c) (mg_reserve_at E) cid)"
proof -
  let ?sel = "get_selectable (mg_walk E) c (mg_read_at E) (si_key i) True"
  obtain hs where hs: "hs = plan_merge ?sel (hc_dust_below c (si_key i)) threshold m" "2 \<le> length hs"
      "merge_inputs r = map h_contract_id hs" "dec_sum A (map h_amount hs) = Some (merge_amount r)"
      "fst (reserve_split (mg_reserve_at E) (map h_contract_id hs) (mg_job E) (mg_others E Before_Reserve c))"
    using merge_submitted [OF assms(1)] by metis
  have sub: "set hs \<subseteq> set ?sel" using plan_merge_takes unfolding hs(1) by blast
  have ok: "selectable_ok hs" unfolding hs(1) by (intro plan_merge_ok get_selectable_ok assms)
  then have "dec_sum A (map h_amount hs) = Some (total_of hs)"
    unfolding dec_sum_def selectable_ok_def total_of_def
    by (subst dec_sum_from_exact [OF assms(4)]) auto
  moreover have "\<forall>cid \<in> set (map h_contract_id hs). \<not> is_reserved (mg_others E Before_Reserve c) (mg_reserve_at E) cid"
    using hs(5) by (auto simp: reserve_split_def reserve_with_kind_def list_ex_iff split: if_splits)
  moreover have "distinct (map h_contract_id hs)" using ok by (simp add: selectable_ok_def)
  moreover have "length hs \<le> m" using plan_merge_length unfolding hs(1) .
  ultimately show ?thesis using hs(2,3,4) sub by auto
qed

section \<open>An example\<close>

definition sample_ladder :: split_lib where
  "sample_ladder = exact_split\<lparr>sl_parse := (\<lambda>s. if s = ''100'' then Some 100 else None)\<rparr>"

definition dusty :: holdings_cache where
  "dusty = set_dust_thresholds [CC_INSTRUMENT \<mapsto> 100] (add_created
     [sample_holding ''a'' 40, sample_holding ''b'' 30, sample_holding ''c'' 100, sample_holding ''d'' 500] (empty_cache True))"

definition calm_merge :: merge_env where
  "calm_merge = \<lparr>mg_walk = [''a'', ''b'', ''c'', ''d''], mg_read_at = 0, mg_reserve_at = 1, mg_consumed_at = 2,
     mg_pending_at = 2, mg_job = ''merge'', mg_connects = True, mg_answer = Inr ''update'', mg_others = (\<lambda>_ c. c)\<rparr>"

lemma dusty_simps [simp]:
  "hc_available dusty = [''a'' \<mapsto> sample_holding ''a'' 40, ''b'' \<mapsto> sample_holding ''b'' 30,
      ''c'' \<mapsto> sample_holding ''c'' 100, ''d'' \<mapsto> sample_holding ''d'' 500]"
  "hc_consumed dusty = Map.empty" "hc_reserved dusty = Map.empty" "hc_splitter_reserve_enabled dusty"
  "hc_dust_below dusty = [CC_INSTRUMENT \<mapsto> 100]"
  by (simp_all add: dusty_def set_dust_thresholds_def add_created_def empty_cache_def by_contract_def)
    (simp add: sample_holding_def)

lemma dusty_holdings: "holdings_of [''a'', ''b'', ''c'', ''d''] dusty CC_INSTRUMENT =
    [sample_holding ''a'' 40, sample_holding ''b'' 30, sample_holding ''c'' 100, sample_holding ''d'' 500]"
  by (simp add: holdings_of_def map_filter_def) (simp add: sample_holding_def CC_INSTRUMENT_def)

lemma dusty_merge:
  "get_selectable (mg_walk calm_merge) dusty 0 CC_INSTRUMENT True =
     [sample_holding ''b'' 30, sample_holding ''a'' 40, sample_holding ''c'' 100]"
  "check_and_merge_instrument exact_arith ''p'' calm_merge cc_instrument 1 10 False dusty =
     (Inr (Some (2, 70, ''update'')), Some (Merge_Cc 70 [''b'', ''a'']), True,
      record_pending_split 2 CC_INSTRUMENT [(70, 1)] (mark_consumed 2 [''b'', ''a''] ''update''
        (snd (reserve_split 1 [''b'', ''a''] ''merge'' dusty))))"
proof -
  have cid: "splitter_reserve_cid [''a'', ''b'', ''c'', ''d''] dusty 0 CC_INSTRUMENT = Some ''d''"
    by (simp add: splitter_reserve_cid_def dusty_holdings is_consumed_def is_fresh_def secs_since_def)
      (simp add: sample_holding_def holding_le_def)
  show sel: "get_selectable (mg_walk calm_merge) dusty 0 CC_INSTRUMENT True =
      [sample_holding ''b'' 30, sample_holding ''a'' 40, sample_holding ''c'' 100]"
    by (simp add: calm_merge_def get_selectable_def excluded_cid_def cid dusty_holdings selectable_holding_def is_fresh_def
        secs_since_def is_consumed_def is_reserved_def) (simp add: sample_holding_def)
  have plan: "plan_merge (get_selectable (mg_walk calm_merge) dusty 0 CC_INSTRUMENT True) (Some 100) 1 10 =
      [sample_holding ''b'' 30, sample_holding ''a'' 40]"
    unfolding sel by (simp add: plan_merge_def) (simp add: sample_holding_def)
  show "check_and_merge_instrument exact_arith ''p'' calm_merge cc_instrument 1 10 False dusty =
     (Inr (Some (2, 70, ''update'')), Some (Merge_Cc 70 [''b'', ''a'']), True,
      record_pending_split 2 CC_INSTRUMENT [(70, 1)] (mark_consumed 2 [''b'', ''a''] ''update''
        (snd (reserve_split 1 [''b'', ''a''] ''merge'' dusty))))"
  proof -
    have key: "si_key cc_instrument = CC_INSTRUMENT" "si_is_cc cc_instrument" by (simp_all add: cc_instrument_def)
    have E: "mg_read_at calm_merge = 0" "mg_reserve_at calm_merge = 1" "mg_consumed_at calm_merge = 2"
        "mg_pending_at calm_merge = 2" "mg_job calm_merge = ''merge''" "mg_connects calm_merge"
        "mg_answer calm_merge = Inr ''update''" "mg_others calm_merge x = (\<lambda>c. c)" for x
      by (simp_all add: calm_merge_def)
    have "dec_sum exact_arith [30, 40] = Some 70"
      by (simp add: dec_sum_def exact_arith_def in_range_def)
    moreover have "map h_amount [sample_holding ''b'' 30, sample_holding ''a'' 40] = [30, 40]"
        "map h_contract_id [sample_holding ''b'' 30, sample_holding ''a'' 40] = [''b'', ''a'']"
      by (simp_all add: sample_holding_def)
    moreover obtain c1 where "reserve_split 1 [''b'', ''a''] ''merge'' dusty = (True, c1)"
      by (simp add: reserve_split_def reserve_with_kind_def is_consumed_def is_reserved_def)
    moreover have "hc_dust_below dusty CC_INSTRUMENT = Some 100" by simp
    ultimately show ?thesis
      unfolding check_and_merge_instrument_def Let_def key E plan
      by (simp only: plan list.map option.case prod.case bool.case) (simp add: plan E key finish_merge_def merge_request_of_def Let_def)
  qed
qed

lemma dusty_inv: "cache_inv dusty"
proof -
  have "cache_inv (run cache_step (empty_cache True) [Add_Created [sample_holding ''a'' 40, sample_holding ''b'' 30,
      sample_holding ''c'' 100, sample_holding ''d'' 500], Dust_Thresholds [CC_INSTRUMENT \<mapsto> 100]])"
    by (rule cache_well_formed.run_keeps [OF cache_inv_empty]) simp
  then show ?thesis by (simp add: dusty_def)
qed

theorem merge_spares_ladder_witness:
  "(\<exists>h. hc_available dusty ''b'' = Some h \<and> h_amount h < 100) \<and> (\<exists>h. hc_available dusty ''a'' = Some h \<and> h_amount h < 100)"
proof -
  let ?t = "\<lparr>tg_instrument = cc_instrument, tg_denominations = [''100x2'']\<rparr>"
  have parse: "parse_splits sample_ladder (tg_denominations ?t) = Inr [(100, 2)]"
    by (simp add: parse_spec_def sample_ladder_def exact_split_def parse_u32_def digit_val_def more_places_def
        MAX_SPLIT_AMOUNT_def MAX_SPLIT_SCALE_def MAX_SPLIT_COUNT_def ok_or_def try_bind_def quotient_of_number)
  have "hc_dust_below dusty = dust_thresholds sample_ladder [?t]"
    using parse by (simp add: dusty_def set_dust_thresholds_def dust_thresholds_def cc_instrument_def)
  note below = merge_spares_ladder [OF dusty_merge(2) dusty_inv this _ _ _ parse, where denom = 100 and n = 2]
  show ?thesis using below [of "''b''"] below [of "''a''"] by simp
qed

theorem merge_conserves_witness:
  "\<exists>hs. [''b'', ''a''] = map h_contract_id hs \<and> 70 = total_of hs \<and> 2 \<le> length hs \<and> length hs \<le> 10"
proof -
  have "amounts_ok (mg_walk calm_merge) dusty (si_key cc_instrument)"
    unfolding calm_merge_def cc_instrument_def by (simp add: amounts_ok_def dusty_holdings)
      (simp add: sample_holding_def ledger_amount_def in_range_def)
  moreover have "distinct (mg_walk calm_merge)" by (simp add: calm_merge_def)
  ultimately obtain hs where "merge_inputs (Merge_Cc 70 [''b'', ''a'']) = map h_contract_id hs"
      "merge_amount (Merge_Cc 70 [''b'', ''a'']) = total_of hs" "2 \<le> length hs" "length hs \<le> 10"
    using merge_conserves [OF dusty_merge(2) dusty_inv _ exact_arith_laws] by blast
  then show ?thesis by (intro exI [of _ hs]) simp
qed

end
