(* ===== verification/Collector.thy ===== *)
theory Collector
  imports Forecast Json
begin

text \<open>
  \<open>crates/cloud-agent/src/dvp_gc_worker.rs\<close>: the collection of expired proposals of the first
  protocol, and the conversion of ledger values to JSON (\<open>lib.rs\<close>) it reads them by. A cycle
  scans the active proposals of the party, classifies them, waits at the gate before each and
  archives them one by one; the contracts, the answers of the ledger, the readings at the gate
  and the interruptions of its sleeps are arguments. The settings are the parsed environment.
\<close>

section \<open>Settings\<close>

definition MAX_CONSECUTIVE_FAILURES :: nat where "MAX_CONSECUTIVE_FAILURES = 20"
definition REJECT_REASON :: string where "REJECT_REASON = ''expired''"
definition MIN_COEFFICIENT_ENV :: string where "MIN_COEFFICIENT_ENV = ''DVP_GC_MIN_COEFFICIENT''"
definition DEFAULT_MIN_COEFFICIENT :: f64 where "DEFAULT_MIN_COEFFICIENT = round_f64 (68 / 100)"

datatype setting_fault = Not_A_Switch string string | Not_Whole_Seconds string string | Below_Minimum string nat nat
  | Not_A_Number string | Not_Finite string | Unreadable string

definition present :: "(string \<Rightarrow> string) \<Rightarrow> string option \<Rightarrow> string option" where
  "present trim raw = (case raw of None \<Rightarrow> None | Some s \<Rightarrow> if trim s = [] then None else Some s)"

definition parse_switch :: "(string \<Rightarrow> string) \<Rightarrow> string \<Rightarrow> string option \<Rightarrow> bool \<Rightarrow> setting_fault + bool" where
  "parse_switch trim name raw preset = (case present trim raw of None \<Rightarrow> Inr preset
     | Some s \<Rightarrow> let w = map ascii_lower (trim s) in
         if w \<in> {''1'', ''true'', ''yes'', ''on''} then Inr True
         else if w \<in> {''0'', ''false'', ''no'', ''off''} then Inr False
         else Inl (Not_A_Switch name s))"

definition switch_or_default :: "(string \<Rightarrow> string) \<Rightarrow> string \<Rightarrow> string option \<Rightarrow> bool \<Rightarrow> bool" where
  "switch_or_default trim name raw preset = (case parse_switch trim name raw preset of Inl _ \<Rightarrow> preset | Inr b \<Rightarrow> b)"

record secs_setting =
  ss_name :: string
  ss_default :: nat
  ss_min :: nat

definition parse_secs :: "(string \<Rightarrow> string) \<Rightarrow> secs_setting \<Rightarrow> string option \<Rightarrow> setting_fault + nat" where
  "parse_secs trim S raw = (case present trim raw of None \<Rightarrow> Inr (ss_default S)
     | Some s \<Rightarrow> (case parse_u64 (trim s) of None \<Rightarrow> Inl (Not_Whole_Seconds (ss_name S) (trim s))
         | Some secs \<Rightarrow> if secs < ss_min S then Inl (Below_Minimum (ss_name S) secs (ss_min S)) else Inr secs))"

definition env_value :: "(string \<Rightarrow> string) \<Rightarrow> secs_setting \<Rightarrow> string option \<Rightarrow> nat" where
  "env_value trim S raw = (case parse_secs trim S raw of Inl _ \<Rightarrow> ss_default S | Inr secs \<Rightarrow> secs)"

definition DELAY :: secs_setting where
  "DELAY = \<lparr>ss_name = ''DVP_GC_DELAY_SECS'', ss_default = 2, ss_min = 1\<rparr>"
definition REFRESH :: secs_setting where
  "REFRESH = \<lparr>ss_name = ''DVP_GC_REFRESH_SECS'', ss_default = 3600, ss_min = 1\<rparr>"
definition SAFETY_MARGIN :: secs_setting where
  "SAFETY_MARGIN = \<lparr>ss_name = ''DVP_GC_SAFETY_MARGIN_SECS'', ss_default = 3600, ss_min = 0\<rparr>"
definition MAX_PAUSE :: secs_setting where
  "MAX_PAUSE = \<lparr>ss_name = ''DVP_GC_MAX_PAUSE_SECS'', ss_default = 900, ss_min = 60\<rparr>"
definition STALE_FORECAST :: secs_setting where
  "STALE_FORECAST = \<lparr>ss_name = ''DVP_GC_STALE_FORECAST_SECS'', ss_default = 300, ss_min = 0\<rparr>"

definition parse_min_coefficient :: "(string \<Rightarrow> string) \<Rightarrow> string option \<Rightarrow> setting_fault + f64" where
  "parse_min_coefficient trim raw = (case present trim raw of None \<Rightarrow> Inr DEFAULT_MIN_COEFFICIENT
     | Some s \<Rightarrow> (case parse_f64 (trim s) of None \<Rightarrow> Inl (Not_A_Number (trim s))
         | Some v \<Rightarrow> if is_finite v then Inr v else Inl (Not_Finite (trim s))))"

text \<open>The startup check; a lookup fails when the variable is not text.\<close>

fun validate_secs :: "(string \<Rightarrow> string) \<Rightarrow> (string \<Rightarrow> setting_fault + string option) \<Rightarrow> secs_setting list \<Rightarrow> setting_fault + unit" where
  "validate_secs trim get [] = Inr ()"
| "validate_secs trim get (S # Ss) =
     try_bind (get (ss_name S)) (\<lambda>raw. try_bind (parse_secs trim S raw) (\<lambda>_. validate_secs trim get Ss))"

definition validate_env :: "(string \<Rightarrow> string) \<Rightarrow> (string \<Rightarrow> setting_fault + string option) \<Rightarrow> setting_fault + unit" where
  "validate_env trim get =
     try_bind (validate_secs trim get [DELAY, REFRESH, SAFETY_MARGIN, MAX_PAUSE, STALE_FORECAST]) (\<lambda>_.
     try_bind (get MIN_COEFFICIENT_ENV) (\<lambda>raw.
     try_bind (parse_min_coefficient trim raw) (\<lambda>_. Inr ())))"

section \<open>Ledger values\<close>

datatype prost_value = P_Unset | P_Null | P_Number f64 | P_String string | P_Bool bool
  | P_Struct "(string \<times> prost_value) list" | P_List "prost_value list"

text \<open>\<open>prost_value_to_json\<close>; \<open>show\<close> is the text \<open>serde_json\<close> gives a finite number.\<close>

fun prost_value_to_json :: "(f64 \<Rightarrow> string) \<Rightarrow> prost_value \<Rightarrow> jval" where
  "prost_value_to_json show P_Unset = JNull"
| "prost_value_to_json show P_Null = JNull"
| "prost_value_to_json show (P_Number n) = JNumber (if is_finite n then show n else ''0'')"
| "prost_value_to_json show (P_String s) = JString s"
| "prost_value_to_json show (P_Bool b) = JBool b"
| "prost_value_to_json show (P_Struct fs) = JObject (map (\<lambda>(k, v). (k, prost_value_to_json show v)) fs)"
| "prost_value_to_json show (P_List vs) = JArray (map (prost_value_to_json show) vs)"

definition prost_struct_to_json :: "(f64 \<Rightarrow> string) \<Rightarrow> (string \<times> prost_value) list \<Rightarrow> jval" where
  "prost_struct_to_json show fs = JObject (map (\<lambda>(k, v). (k, prost_value_to_json show v)) fs)"

section \<open>Classification\<close>

definition I64_MAX :: int where "I64_MAX = 2 ^ 63 - 1"
definition I64_MIN :: int where "I64_MIN = - (2 ^ 63)"

definition sat_i64 :: "int \<Rightarrow> int" where "sat_i64 i = max I64_MIN (min I64_MAX i)"

text \<open>\<open>f as i64\<close>.\<close>

fun f64_as_i64 :: "f64 \<Rightarrow> int" where
  "f64_as_i64 NaN = 0"
| "f64_as_i64 (Inf negative) = (if negative then I64_MIN else I64_MAX)"
| "f64_as_i64 (Fin r) = sat_i64 (if r < 0 then - \<lfloor>- r\<rfloor> else \<lfloor>r\<rfloor>)"

text \<open>What \<open>serde_json\<close> makes of the text of a number, and \<open>str::trim\<close>.\<close>

record gc_lib =
  gl_as_i64 :: "string \<Rightarrow> int option"
  gl_as_f64 :: "string \<Rightarrow> f64 option"
  gl_trim :: "string \<Rightarrow> string"
  gl_show :: "f64 \<Rightarrow> string"

definition micros_value :: "gc_lib \<Rightarrow> jval \<Rightarrow> int option" where
  "micros_value L v = (case v of
       JNumber s \<Rightarrow> (case gl_as_i64 L s of Some n \<Rightarrow> Some n | None \<Rightarrow> map_option f64_as_i64 (gl_as_f64 L s))
     | JString s \<Rightarrow> parse_i64 (gl_trim L s)
     | _ \<Rightarrow> None)"

definition margin_micros :: "nat \<Rightarrow> int" where
  "margin_micros secs = sat_i64 (min (int secs) I64_MAX * 1000000)"

datatype gc_action = Gc_Cancel | Gc_Reject

definition classify_proposal :: "gc_lib \<Rightarrow> jval \<Rightarrow> string \<Rightarrow> int \<Rightarrow> int \<Rightarrow> bool \<Rightarrow> (gc_action \<times> int) option" where
  "classify_proposal L args party_id now_micros margin reject_enabled =
     Option.bind (json_pointer args [''terms'', ''settleBefore'']) (\<lambda>v.
     Option.bind (micros_value L v) (\<lambda>settle_before.
       if sat_i64 (now_micros - margin) \<le> settle_before then None
       else Option.bind (string_at args ''proposer'') (\<lambda>proposer.
         if proposer = party_id then Some (Gc_Cancel, settle_before)
         else Option.bind (string_at args ''counterparty'') (\<lambda>counterparty.
           if counterparty = party_id \<and> reject_enabled then Some (Gc_Reject, settle_before) else None))))"

record gc_item =
  gi_cid :: string
  gi_action :: gc_action
  gi_settle_before :: int

record gc_contract =
  gk_contract_id :: string
  gk_create_arguments :: "(string \<times> prost_value) list option"

definition gc_item_of :: "gc_lib \<Rightarrow> string \<Rightarrow> int \<Rightarrow> int \<Rightarrow> bool \<Rightarrow> gc_contract \<Rightarrow> gc_item option" where
  "gc_item_of L party_id now margin reject_enabled c =
     Option.bind (gk_create_arguments c) (\<lambda>fs.
       map_option (\<lambda>(action, settle_before). \<lparr>gi_cid = gk_contract_id c, gi_action = action, gi_settle_before = settle_before\<rparr>)
         (classify_proposal L (prost_struct_to_json (gl_show L) fs) party_id now margin reject_enabled))"

text \<open>\<open>scan\<close> after the query: the eligible proposals, the oldest first.\<close>

definition scan :: "gc_lib \<Rightarrow> string \<Rightarrow> int \<Rightarrow> int \<Rightarrow> bool \<Rightarrow> gc_contract list \<Rightarrow> gc_item list" where
  "scan L party_id now margin reject_enabled contracts =
     sort_key gi_settle_before (List.map_filter (gc_item_of L party_id now margin reject_enabled) contracts)"

section \<open>The gate\<close>

datatype gate_result = Proceed | Gate_Shutdown | Gate_Timeout

datatype gate_reason = Backpressure nat | Coefficient f64

definition gate_block :: "f64 \<Rightarrow> f64 \<Rightarrow> nat option \<Rightarrow> gate_reason option" where
  "gate_block min_coefficient coeff pause_secs = (case pause_secs of
       Some secs \<Rightarrow> Some (Backpressure secs)
     | None \<Rightarrow> if f64_lt coeff min_coefficient then Some (Coefficient coeff) else None)"

text \<open>
  What one wait meets: whether the agent is already shutting down, the readings of its checks
  (the first is number 0, check \<open>k\<close> follows sleep \<open>k\<close>), whether a sleep is interrupted, and the
  time since the wait began, in nanoseconds.
\<close>

record gate_env =
  ge_shutting_down :: bool
  ge_coefficient :: "nat \<Rightarrow> f64"
  ge_pause :: "nat \<Rightarrow> nat option"
  ge_interrupted :: "nat \<Rightarrow> bool"
  ge_elapsed :: "nat \<Rightarrow> nat"

definition gate_shut :: "f64 \<Rightarrow> gate_env \<Rightarrow> nat \<Rightarrow> bool" where
  "gate_shut min_coefficient E k \<longleftrightarrow> gate_block min_coefficient (ge_coefficient E k) (ge_pause E k) \<noteq> None"

partial_function (option) await_from :: "f64 \<Rightarrow> nat \<Rightarrow> gate_env \<Rightarrow> nat \<Rightarrow> gate_result option" where
  "await_from min_coefficient max_pause E k =
     (if ge_interrupted E k then Some Gate_Shutdown
      else if \<not> gate_shut min_coefficient E k then Some Proceed
      else if max_pause \<le> ge_elapsed E k then Some Gate_Timeout
      else await_from min_coefficient max_pause E (Suc k))"

declare await_from.simps [code]

definition await_gate :: "f64 \<Rightarrow> nat \<Rightarrow> gate_env \<Rightarrow> gate_result option" where
  "await_gate min_coefficient max_pause E =
     (if ge_shutting_down E then Some Gate_Shutdown
      else if \<not> gate_shut min_coefficient E 0 then Some Proceed
      else await_from min_coefficient max_pause E 1)"

section \<open>Archiving\<close>

datatype gc_request = Cancel_Proposal string | Reject_Proposal string string

definition archive_request :: "gc_item \<Rightarrow> gc_request" where
  "archive_request item = (case gi_action item of
       Gc_Cancel \<Rightarrow> Cancel_Proposal (gi_cid item)
     | Gc_Reject \<Rightarrow> Reject_Proposal (gi_cid item) REJECT_REASON)"

text \<open>The answer to a submission: an error, or a response with its flag and its message.\<close>

type_synonym gc_answer = "string + (bool \<times> string option)"

fun archive_one :: "gc_answer \<Rightarrow> string + unit" where
  "archive_one (Inl e) = Inl e"
| "archive_one (Inr (success, error_message)) =
     (if success then Inr ()
      else Inl (''execute failed: '' @ (case error_message of Some m \<Rightarrow> m | None \<Rightarrow> ''unknown'')))"

definition is_already_gone :: "string \<Rightarrow> bool" where
  "is_already_gone msg \<longleftrightarrow> list_ex (str_contains msg) [''CONTRACT_NOT_FOUND'', ''CONTRACT_NOT_ACTIVE'',
     ''INACTIVE_CONTRACTS'', ''LOCKED_CONTRACTS'', ''UNKNOWN_CONTRACT_SYNCHRONIZERS'']"

record gc_tally =
  gt_done :: nat
  gt_gone :: nat
  gt_backpressured :: nat
  gt_failures :: nat
  gt_timed_out :: bool

definition no_tally :: gc_tally where
  "no_tally = \<lparr>gt_done = 0, gt_gone = 0, gt_backpressured = 0, gt_failures = 0, gt_timed_out = False\<rparr>"

text \<open>The tally after one answer.\<close>

definition tally_answer :: "string + unit \<Rightarrow> gc_tally \<Rightarrow> gc_tally" where
  "tally_answer answer t = (case answer of
       Inr _ \<Rightarrow> t\<lparr>gt_done := sat_add (gt_done t) 1, gt_failures := 0\<rparr>
     | Inl msg \<Rightarrow>
         if is_already_gone msg then t\<lparr>gt_gone := sat_add (gt_gone t) 1\<rparr>
         else if str_contains msg ''SEQUENCER_BACKPRESSURE'' then t\<lparr>gt_backpressured := sat_add (gt_backpressured t) 1\<rparr>
         else t\<lparr>gt_failures := min (2 ^ 32 - 1) (gt_failures t + 1)\<rparr>)"

definition is_fault :: "string + unit \<Rightarrow> bool" where
  "is_fault answer \<longleftrightarrow> (case answer of Inr _ \<Rightarrow> False
     | Inl msg \<Rightarrow> \<not> is_already_gone msg \<and> \<not> str_contains msg ''SEQUENCER_BACKPRESSURE'')"

text \<open>What one turn of the drain meets: the gate, the answer, and whether its sleep is interrupted.\<close>

record gc_turn =
  tn_gate :: gate_env
  tn_answer :: gc_answer
  tn_interrupted :: bool

datatype drain_end = Drain_Shutdown | Drain_Over

record gc_settings =
  gs_min_coefficient :: f64
  gs_max_pause :: nat
  gs_margin :: int
  gs_reject_enabled :: bool

text \<open>
  The drain: the tally at its end and the requests it submitted. \<open>None\<close>: a wait at the gate
  never ends.
\<close>

fun drain :: "gc_settings \<Rightarrow> (gc_item \<times> gc_turn) list \<Rightarrow> gc_tally \<Rightarrow> (drain_end \<times> gc_tally \<times> gc_request list) option" where
  "drain S [] t = Some (Drain_Over, t, [])"
| "drain S ((item, turn) # rest) t =
     (case await_gate (gs_min_coefficient S) (gs_max_pause S) (tn_gate turn) of
        None \<Rightarrow> None
      | Some Gate_Shutdown \<Rightarrow> Some (Drain_Shutdown, t, [])
      | Some Gate_Timeout \<Rightarrow> Some (Drain_Over, t\<lparr>gt_timed_out := True\<rparr>, [])
      | Some Proceed \<Rightarrow>
          (let answer = archive_one (tn_answer turn); t' = tally_answer answer t; request = archive_request item in
           if is_fault answer \<and> MAX_CONSECUTIVE_FAILURES \<le> gt_failures t' then Some (Drain_Over, t', [request])
           else if tn_interrupted turn then Some (Drain_Shutdown, t', [request])
           else map_option (\<lambda>(e, t'', requests). (e, t'', request # requests)) (drain S rest t')))"

section \<open>A cycle\<close>

datatype gc_next = Stop | Rescan_After_Delay | Rescan_After_Refresh

definition remaining_items :: "nat \<Rightarrow> nat \<Rightarrow> nat \<Rightarrow> nat" where
  "remaining_items queued archived gone = min u64_max queued - archived - gone"

text \<open>The warning that a whole cycle was skipped.\<close>

definition all_skipped :: "nat \<Rightarrow> gc_tally \<Rightarrow> bool" where
  "all_skipped queued t \<longleftrightarrow> queued \<noteq> 0 \<and> gt_done t = 0 \<and> gt_backpressured t = 0 \<and> \<not> gt_timed_out t
     \<and> gt_gone t = queued \<and> 1 < gt_gone t"

datatype scan_result = Scan_Shutdown | Scan_Failed | Scanned "gc_contract list"

text \<open>One turn of \<open>run\<close> with a client; what its turns meet is a function of their number.\<close>

definition gc_cycle ::
  "gc_lib \<Rightarrow> gc_settings \<Rightarrow> string \<Rightarrow> int \<Rightarrow> scan_result \<Rightarrow> (nat \<Rightarrow> gc_turn)
    \<Rightarrow> (gc_next \<times> gc_tally \<times> gc_request list) option" where
  "gc_cycle L S party_id now contracts turns = (case contracts of
       Scan_Shutdown \<Rightarrow> Some (Stop, no_tally, [])
     | Scan_Failed \<Rightarrow> Some (Rescan_After_Refresh, no_tally, [])
     | Scanned cs \<Rightarrow>
         (let queue = scan L party_id now (gs_margin S) (gs_reject_enabled S) cs in
          map_option (\<lambda>(e, t, requests).
            (case e of Drain_Shutdown \<Rightarrow> Stop
              | Drain_Over \<Rightarrow> if gt_timed_out t then Rescan_After_Delay else Rescan_After_Refresh, t, requests))
            (drain S (zip queue (map turns [0..<length queue])) no_tally)))"

end
