(* ===== verification/Collector_Safety.thy ===== *)
theory Collector_Safety
  imports Collector
begin

text \<open>
  What the collector promises: the wait at its gate ends; it archives only proposals that have
  expired and are its party's to archive; and it goes through them in order, once each, until
  it is told to stop, the gate stays shut or the failures pile up.
\<close>

section \<open>The wait\<close>

lemma await_from_ends:
  assumes late: "max_pause \<le> ge_elapsed E n" and le: "k \<le> n"
  shows "\<exists>r j. await_from m max_pause E k = Some r \<and> k \<le> j \<and> j \<le> n
    \<and> (r = Proceed \<longrightarrow> \<not> gate_shut m E j) \<and> (r = Gate_Shutdown \<longrightarrow> ge_interrupted E j)
    \<and> (r = Gate_Timeout \<longrightarrow> max_pause \<le> ge_elapsed E j \<and> (\<forall>i \<in> {k..j}. gate_shut m E i))"
  using le
proof (induction k rule: inc_induct)
  case base
  let ?r = "if ge_interrupted E n then Gate_Shutdown else if gate_shut m E n then Gate_Timeout else Proceed"
  have "await_from m max_pause E n = Some ?r" using late by (subst await_from.simps) simp
  then show ?case using late by (intro exI [of _ ?r] exI [of _ n]) auto
next
  case (step k)
  show ?case
  proof (cases "ge_interrupted E k \<or> \<not> gate_shut m E k \<or> max_pause \<le> ge_elapsed E k")
    case True
    let ?r = "if ge_interrupted E k then Gate_Shutdown else if gate_shut m E k then Gate_Timeout else Proceed"
    have "await_from m max_pause E k = Some ?r" using True by (subst await_from.simps) auto
    then show ?thesis using step.hyps True by (intro exI [of _ ?r] exI [of _ k]) auto
  next
    case False
    then have "await_from m max_pause E k = await_from m max_pause E (Suc k)" by (subst await_from.simps) simp
    moreover have "{k..j} = insert k {Suc k..j}" if "Suc k \<le> j" for j using that by auto
    ultimately show ?thesis using step.IH False by (smt (verit) Suc_leD insert_iff)
  qed
qed

text \<open>
  C28: The wait at the gate ends, after at most the polls that fill the configured pause: every
  sleep lasts at least the delay. It says the gate is open only when it read it open, and gives
  up only when the pause is over and every reading found it shut.
\<close>

theorem gate_wait_ends:
  assumes "0 < delay" and "\<forall>k. k * delay \<le> ge_elapsed E k"
  shows "\<exists>r j. await_gate m max_pause E = Some r \<and> j \<le> Suc (max_pause div delay)
    \<and> (r = Proceed \<longrightarrow> \<not> ge_shutting_down E \<and> \<not> gate_shut m E j)
    \<and> (r = Gate_Shutdown \<longrightarrow> ge_shutting_down E \<or> ge_interrupted E j)
    \<and> (r = Gate_Timeout \<longrightarrow> max_pause \<le> ge_elapsed E j \<and> (\<forall>i \<le> j. gate_shut m E i))"
proof (cases "ge_shutting_down E \<or> \<not> gate_shut m E 0")
  case True
  then show ?thesis
    by (intro exI [of _ "if ge_shutting_down E then Gate_Shutdown else Proceed"] exI [of _ 0]) (auto simp: await_gate_def)
next
  case False
  let ?n = "Suc (max_pause div delay)"
  have "max_pause \<le> ?n * delay"
    using dividend_less_div_times [OF assms(1), of max_pause] by simp
  then have "max_pause \<le> ge_elapsed E ?n" using assms(2) order_trans by blast
  from await_from_ends [OF this, of 1 m] obtain r j where r: "await_from m max_pause E 1 = Some r" "1 \<le> j" "j \<le> ?n"
      "r = Proceed \<longrightarrow> \<not> gate_shut m E j" "r = Gate_Shutdown \<longrightarrow> ge_interrupted E j"
      "r = Gate_Timeout \<longrightarrow> max_pause \<le> ge_elapsed E j \<and> (\<forall>i \<in> {1..j}. gate_shut m E i)" by auto
  have "\<forall>i \<le> j. gate_shut m E i" if "r = Gate_Timeout"
  proof (intro allI impI)
    fix i assume "i \<le> j"
    then show "gate_shut m E i" using False r(6) that by (cases "i = 0") auto
  qed
  then show ?thesis using r False by (intro exI [of _ r] exI [of _ j]) (auto simp: await_gate_def)
qed

section \<open>The drain\<close>

lemma drain_requests:
  "drain S turns t = Some (e, t', requests) \<Longrightarrow> \<exists>n. requests = map (archive_request \<circ> fst) (take n turns)"
proof (induction turns arbitrary: t e t' requests)
  case Nil
  then show ?case by simp
next
  case (Cons x rest)
  obtain item turn where x: "x = (item, turn)" by (cases x)
  define t1 where "t1 = tally_answer (archive_one (tn_answer turn)) t"
  consider "requests = []" | "requests = [archive_request item]"
    | rs t2 where "drain S rest t1 = Some (e, t2, rs)" "requests = archive_request item # rs"
    using Cons.prems by (auto simp: x Let_def t1_def split: option.splits gate_result.splits if_splits)
  then show ?case
  proof cases
    case 1
    then show ?thesis by (intro exI [of _ 0]) simp
  next
    case 2
    then show ?thesis by (intro exI [of _ 1]) (simp add: x)
  next
    case 3
    then obtain n where "rs = map (archive_request \<circ> fst) (take n rest)" using Cons.IH by blast
    then show ?thesis using 3(2) by (intro exI [of _ "Suc n"]) (simp add: x)
  qed
qed

lemma drain_failures:
  "drain S turns t = Some (e, t', requests) \<Longrightarrow> gt_failures t < MAX_CONSECUTIVE_FAILURES \<Longrightarrow>
    gt_failures t' \<le> MAX_CONSECUTIVE_FAILURES"
proof (induction turns arbitrary: t e t' requests)
  case Nil
  then show ?case by simp
next
  case (Cons x rest)
  obtain item turn where x: "x = (item, turn)" by (cases x)
  define t1 where "t1 = tally_answer (archive_one (tn_answer turn)) t"
  have bound: "gt_failures t1 \<le> MAX_CONSECUTIVE_FAILURES"
    and fault: "\<not> is_fault (archive_one (tn_answer turn)) \<Longrightarrow> gt_failures t1 < MAX_CONSECUTIVE_FAILURES"
    using Cons.prems(2)
    by (auto simp: t1_def tally_answer_def is_fault_def MAX_CONSECUTIVE_FAILURES_def split: sum.splits)
  consider "t' = t" | "t' = t\<lparr>gt_timed_out := True\<rparr>" | "t' = t1"
    | rs where "drain S rest t1 = Some (e, t', rs)" "gt_failures t1 < MAX_CONSECUTIVE_FAILURES"
    using Cons.prems(1) fault
    by (auto simp: x Let_def t1_def not_le split: option.splits gate_result.splits if_splits)
  then show ?case
  proof cases
    case 4
    then show ?thesis using Cons.IH by blast
  qed (use Cons.prems(2) bound in simp_all)
qed

text \<open>Every turn has its say: a drain ends when the waits at its gates do.\<close>

lemma drain_ends:
  "\<forall>(item, turn) \<in> set turns. await_gate (gs_min_coefficient S) (gs_max_pause S) (tn_gate turn) \<noteq> None \<Longrightarrow>
    drain S turns t \<noteq> None"
proof (induction turns arbitrary: t)
  case (Cons x rest)
  then show ?case by (cases x) (auto simp: Let_def split: option.split gate_result.split)
qed simp

section \<open>A cycle\<close>

lemma classified:
  assumes "classify_proposal L args party_id now margin reject_enabled = Some (action, settle_before)"
  shows "settle_before < sat_i64 (now - margin)
    \<and> Option.bind (json_pointer args [''terms'', ''settleBefore'']) (micros_value L) = Some settle_before
    \<and> (action = Gc_Cancel \<longrightarrow> string_at args ''proposer'' = Some party_id)
    \<and> (action = Gc_Reject \<longrightarrow> string_at args ''counterparty'' = Some party_id \<and> reject_enabled)"
  using assms by (auto simp: classify_proposal_def bind_eq_Some_conv split: if_splits)

lemma scanned:
  assumes "item \<in> set (scan L party_id now margin reject_enabled cs)"
  shows "\<exists>c \<in> set cs. \<exists>fs. gk_create_arguments c = Some fs \<and> gi_cid item = gk_contract_id c
    \<and> classify_proposal L (prost_struct_to_json (gl_show L) fs) party_id now margin reject_enabled
      = Some (gi_action item, gi_settle_before item)"
  using assms by (auto simp: scan_def gc_item_of_def map_filter_def bind_eq_Some_conv) force

lemma cycle_drained:
  assumes "gc_cycle L S party_id now (Scanned cs) turns = Some (n, t, requests)"
  obtains e where "drain S (zip (scan L party_id now (gs_margin S) (gs_reject_enabled S) cs)
      (map turns [0..<length (scan L party_id now (gs_margin S) (gs_reject_enabled S) cs)])) no_tally = Some (e, t, requests)"
  using assms by (auto simp: gc_cycle_def Let_def)

text \<open>
  C29: Whatever the ledger answers, a cycle submits requests only for proposals it was shown
  that had passed their settlement deadline by the safety margin; it cancels those of its own
  party and rejects those addressed to it, the latter only when that is enabled.
\<close>

theorem collector_archives_only_expired:
  assumes "gc_cycle L S party_id now (Scanned cs) turns = Some (n, t, requests)" and "request \<in> set requests"
  shows "\<exists>c \<in> set cs. \<exists>fs settle_before. gk_create_arguments c = Some fs
    \<and> Option.bind (json_pointer (prost_struct_to_json (gl_show L) fs) [''terms'', ''settleBefore'']) (micros_value L) = Some settle_before
    \<and> settle_before < sat_i64 (now - gs_margin S)
    \<and> (request = Cancel_Proposal (gk_contract_id c) \<and> string_at (prost_struct_to_json (gl_show L) fs) ''proposer'' = Some party_id
      \<or> request = Reject_Proposal (gk_contract_id c) REJECT_REASON \<and> gs_reject_enabled S
        \<and> string_at (prost_struct_to_json (gl_show L) fs) ''counterparty'' = Some party_id)"
proof -
  let ?queue = "scan L party_id now (gs_margin S) (gs_reject_enabled S) cs"
  obtain e where "drain S (zip ?queue (map turns [0..<length ?queue])) no_tally = Some (e, t, requests)"
    by (rule cycle_drained [OF assms(1)])
  from drain_requests [OF this] assms(2) obtain item where item: "item \<in> set ?queue" "request = archive_request item"
    by (auto dest!: in_set_takeD in_set_zipE)
  from scanned [OF item(1)] obtain c fs where c: "c \<in> set cs" "gk_create_arguments c = Some fs" "gi_cid item = gk_contract_id c"
    "classify_proposal L (prost_struct_to_json (gl_show L) fs) party_id now (gs_margin S) (gs_reject_enabled S)
      = Some (gi_action item, gi_settle_before item)" by blast
  show ?thesis
    using c classified [OF c(4)] item(2)
    by (intro bexI [OF _ c(1)] exI [of _ fs] exI [of _ "gi_settle_before item"])
      (auto simp: archive_request_def split: gc_action.split)
qed

text \<open>
  The drain takes the eligible proposals in the order of their deadlines, each at most once,
  and stops at the twentieth failure in a row.
\<close>

theorem collector_in_order:
  assumes "gc_cycle L S party_id now (Scanned cs) turns = Some (n, t, requests)"
  shows "(\<exists>k. requests = map archive_request (take k (scan L party_id now (gs_margin S) (gs_reject_enabled S) cs)))
    \<and> sorted (map gi_settle_before (scan L party_id now (gs_margin S) (gs_reject_enabled S) cs))
    \<and> gt_failures t \<le> MAX_CONSECUTIVE_FAILURES"
proof -
  let ?queue = "scan L party_id now (gs_margin S) (gs_reject_enabled S) cs"
  obtain e where d: "drain S (zip ?queue (map turns [0..<length ?queue])) no_tally = Some (e, t, requests)"
    by (rule cycle_drained [OF assms])
  obtain k where k: "requests = map (archive_request \<circ> fst) (take k (zip ?queue (map turns [0..<length ?queue])))"
    using drain_requests [OF d] by blast
  also have "\<dots> = map archive_request (take k ?queue)"
    by (simp only: take_map [symmetric] map_map [symmetric] map_fst_zip length_map length_upt diff_zero)
  finally show ?thesis
    using drain_failures [OF d] by (auto simp: no_tally_def MAX_CONSECUTIVE_FAILURES_def scan_def)
qed

section \<open>Examples\<close>

definition always_shut :: gate_env where
  "always_shut = \<lparr>ge_shutting_down = False, ge_coefficient = (\<lambda>_. Fin 0), ge_pause = (\<lambda>_. None),
     ge_interrupted = (\<lambda>_. False), ge_elapsed = (\<lambda>k. k * 2)\<rparr>"

theorem gate_wait_ends_witness:
  "\<exists>r (j :: nat). await_gate (Fin 1) 900 always_shut = Some r \<and> j \<le> 451
    \<and> (r = Gate_Shutdown \<or> r = Gate_Timeout \<and> 900 \<le> j * 2)"
proof -
  have shut: "gate_shut (Fin 1) always_shut k" for k by (simp add: gate_shut_def gate_block_def always_shut_def)
  have el: "ge_elapsed always_shut k = k * 2" for k by (simp add: always_shut_def)
  obtain r j where "await_gate (Fin 1) 900 always_shut = Some r" "j \<le> Suc (900 div 2)"
      "r = Proceed \<longrightarrow> \<not> ge_shutting_down always_shut \<and> \<not> gate_shut (Fin 1) always_shut j"
      "r = Gate_Timeout \<longrightarrow> 900 \<le> ge_elapsed always_shut j \<and> (\<forall>i \<le> j. gate_shut (Fin 1) always_shut i)"
    using gate_wait_ends [of 2 always_shut "Fin 1" 900] unfolding el by auto
  then show ?thesis unfolding el by (intro exI [of _ r] exI [of _ j]) (cases r; simp add: shut)
qed

definition gc_lib_sample :: gc_lib where
  "gc_lib_sample = \<lparr>gl_as_i64 = (\<lambda>_. None), gl_as_f64 = (\<lambda>s. if s = ''5'' then Some (Fin 5) else None), gl_trim = id,
     gl_show = (\<lambda>_. ''5'')\<rparr>"

definition gc_settings_sample :: gc_settings where
  "gc_settings_sample = \<lparr>gs_min_coefficient = Fin 0, gs_max_pause = 900, gs_margin = 10, gs_reject_enabled = True\<rparr>"

definition expired_proposal :: gc_contract where
  "expired_proposal = \<lparr>gk_contract_id = ''c'', gk_create_arguments =
     Some [(''terms'', P_Struct [(''settleBefore'', P_Number (Fin 5))]), (''proposer'', P_String ''p'')]\<rparr>"

definition open_turn :: gc_turn where
  "open_turn = \<lparr>tn_gate = always_shut, tn_answer = Inr (True, None), tn_interrupted = False\<rparr>"

lemma sample_scan: "scan gc_lib_sample ''p'' 100 10 True [expired_proposal] =
    [\<lparr>gi_cid = ''c'', gi_action = Gc_Cancel, gi_settle_before = 5\<rparr>]"
  by (simp add: scan_def map_filter_def gc_item_of_def expired_proposal_def classify_proposal_def prost_struct_to_json_def
      gc_lib_sample_def micros_value_def json_get_def is_finite_def sat_i64_def I64_MIN_def I64_MAX_def string_at_def as_str_def)

lemma sample_cycle: "gc_cycle gc_lib_sample gc_settings_sample ''p'' 100 (Scanned [expired_proposal]) (\<lambda>_. open_turn) =
    Some (Rescan_After_Refresh, no_tally\<lparr>gt_done := 1\<rparr>, [Cancel_Proposal ''c''])"
proof -
  have "await_gate (Fin 0) 900 always_shut = Some Proceed"
    by (simp add: await_gate_def always_shut_def gate_shut_def gate_block_def)
  then show ?thesis
    by (simp add: gc_cycle_def gc_settings_sample_def sample_scan open_turn_def Let_def tally_answer_def is_fault_def
        archive_request_def no_tally_def sat_add_def u64_max_def)
qed

theorem collector_archives_only_expired_witness:
  "\<exists>fs settle_before. gk_create_arguments expired_proposal = Some fs
    \<and> Option.bind (json_pointer (prost_struct_to_json (gl_show gc_lib_sample) fs) [''terms'', ''settleBefore''])
        (micros_value gc_lib_sample) = Some settle_before \<and> settle_before < 90"
  using collector_archives_only_expired [OF sample_cycle, of "Cancel_Proposal ''c''"]
  by (simp add: gc_settings_sample_def sat_i64_def I64_MIN_def I64_MAX_def) blast

theorem collector_in_order_witness:
  "\<exists>k. [Cancel_Proposal ''c''] = map archive_request (take k (scan gc_lib_sample ''p'' 100 10 True [expired_proposal]))"
  using collector_in_order [OF sample_cycle] by (simp add: gc_settings_sample_def)

end
