(* ===== verification/Spec2Isabelle.thy ===== *)
theory Spec2Isabelle
  imports Hash_Walk Verifier Atomic_Signing Fees_Json Authorization Envelope Ticket_Pool
    Ledger_Health Holdings_Safety Liquidity_Safety Executor_Progress Grid_Safety Shape_Safety Net_Safety
    Rfq_Lifecycle Payment_Amulets Rfq_Quoting Consolidation Collector_Safety
begin

text \<open>
  Verification of the Silvana book agent (\<open>src/crates\<close>), a trading agent on a Canton ledger:
  it keeps orders on an order book, settles the trades, gives quotes on request, and signs what
  the ledger prepares for it only after looking at it.

  \<^bold>\<open>The program and the theories.\<close> Each theory names the source it models; definitions have the
  names of the functions they translate where HOL leaves them free, records the fields of the
  structs with a short prefix, and errors are values of \<open>'a result\<close> (\<open>Inl\<close> a message).

  \<^item> What every component shares: \<open>Prelude\<close> (\<open>Result\<close> and its \<open>?\<close>, texts of messages, decimal
    digits, machine words), \<open>Machine\<close> (runs of operations and the two locales of invariants),
    \<open>Json\<close>, \<open>Decimal\<close> (\<open>rust_decimal\<close> as rationals with checked operations), \<open>F64\<close>,
    \<open>F64_Arith\<close>, \<open>F64_Ops\<close>, \<open>F64_Mono\<close> (doubles: rounding to nearest even, infinities, NaN).
  \<^item> \<open>tx-verifier\<close>: \<open>Codec\<close> and \<open>Daml_Types\<close> (the byte accumulator and the protobuf messages),
    \<open>Hasher\<close> (\<open>hasher.rs\<close>), \<open>Hash_Binding\<close>, \<open>Hash_Final\<close>, \<open>Hash_Walk\<close> (what the hash
    determines), \<open>Inspect_Flow\<close>, \<open>Inspect_Transfer\<close>, \<open>Inspect_Create\<close>, \<open>Inspect_Dvp\<close>,
    \<open>Inspect_Accept\<close>, \<open>Inspector\<close> (\<open>inspector.rs\<close>), \<open>Verifier\<close> (\<open>verify_and_hash\<close>).
  \<^item> \<open>message-signing\<close> and \<open>atomic-quote\<close>: \<open>Canonical\<close>, \<open>Message_Signing\<close>, \<open>Atomic_Signing\<close>,
    \<open>Signed_Messages\<close>, \<open>Fees_Json\<close>, \<open>Authorization\<close> (canonical texts, what they determine, and
    where they are checked), \<open>Atomic_Quote\<close>, \<open>Envelope\<close> (quotes and the client's check).
  \<^item> \<open>agent-logic\<close>: \<open>Ledger_Health\<close> (circuit breaker), \<open>Liquidity\<close>, \<open>Liquidity_Safety\<close>
    (balances and commitments), \<open>Order_Tracker\<close>, \<open>Tracker_Safety\<close> (quantities promised on
    orders), \<open>Instruments\<close>, \<open>Settlement_Types\<close>, \<open>Settlement_Step\<close>, \<open>Step_Safety\<close>,
    \<open>Settlement_Executor\<close>, \<open>Settlement_Results\<close>, \<open>Executor_Safety\<close>, \<open>Executor_Progress\<close>
    (\<open>settlement.rs\<close>: adoption of proposals, one step, the round that starts tasks),
    \<open>Pool_Impact\<close>, \<open>Order_Grid\<close>, \<open>Order_Manager\<close>, \<open>Grid_Safety\<close>, \<open>Shape_Safety\<close>
    (\<open>order_manager.rs\<close>), \<open>Net_Position\<close>, \<open>Net_Safety\<close>.
  \<^item> \<open>cloud-agent\<close>: \<open>Coin_Selection\<close>, \<open>Holdings_Cache\<close>, \<open>Holdings_Safety\<close>, \<open>Ticket_Pool\<close>, and
    \<open>rfq_v2.rs\<close> with \<open>venue_registry.rs\<close>: \<open>Rfq_State\<close>, \<open>Rfq_Confirm\<close>, \<open>Rfq_Sweep\<close>,
    \<open>Rfq_Safety\<close>, \<open>Rfq_Sample\<close>, \<open>Rfq_Issue\<close>, \<open>Rfq_Lifecycle\<close>.
    \<open>payment_queue.rs\<close>: \<open>Payment_Queue\<close> (scheduler and workers as a machine),
    \<open>Payment_Safety\<close>, \<open>Payment_Amulets\<close>. \<open>forecast.rs\<close>: \<open>Forecast\<close>.
    \<open>rfq_handler.rs\<close>, the overlays of \<open>config.rs\<close> and the answer of \<open>lp_stream.rs\<close>:
    \<open>Rfq_Pricing\<close>, \<open>Rfq_Quoting\<close>. The workers: \<open>Ladder\<close>, \<open>Ladder_Safety\<close>, \<open>Split_Rate\<close>
    (\<open>split_worker.rs\<close>), \<open>Consolidation\<close> (\<open>merge_worker.rs\<close>), \<open>Collector\<close>,
    \<open>Collector_Safety\<close> (\<open>dvp_gc_worker.rs\<close>).

  \<^bold>\<open>How the parts interact.\<close> The executor adopts a proposal after the tracker's verdict on its
  orders, reserves on the tracker and commits in the liquidity manager, and its steps ask the
  ledger client for prepared transactions, which the verifier inspects and hashes. A confirm of
  a quote commits in the liquidity manager, reserves in the holdings cache, takes a ticket of the
  pool and counts in the net position, signs the canonical message and issues the envelope, which
  the client checks with \<open>pre_submit_check\<close>. The payment queue, the split worker and the merge
  worker draw on the same holdings cache: each reserves what it takes before it submits. In the theories these calls are applications of the
  operations of the called component on its part of a state record (\<open>rfq_world\<close>, \<open>executor\<close>).

  \<^bold>\<open>State, concurrency, clocks.\<close> An operation under one lock is one function on the state. Where
  the code releases locks in between, other tasks may act: \<open>surroundings\<close> gives, for each such
  place, any transformation of the shared state, and the theorems on confirms hold for all that
  keep a stated rely condition (\<open>no_gain\<close>, \<open>no_loss\<close>). Clock readings are arguments, one for
  each time the code reads them, except in \<open>Order_Manager\<close>, where one reading serves a visit.
  Hash maps are walked in the order of a list that is an argument, or stand as association lists.
  Whole runs are lists of operations (\<open>run\<close>), or the inductive relation \<open>net_step\<close> with its
  reachable states where a background write can be overtaken.

  \<^bold>\<open>What the lemmas show.\<close> \<open>Hash_*\<close>: the encoders are prefix codes up to the collisions of the
  hash, so equal final hashes bind the content. \<open>Inspect*\<close>: when each inspection accepts, on
  every branch. \<open>*_Signing\<close>, \<open>Signed_Messages\<close>, \<open>Fees_Json\<close>, \<open>Atomic_Quote\<close>: canonical texts
  determine what was signed. \<open>*_Safety\<close>: invariants kept by every operation, and what each
  operation takes and gives back. \<open>Executor_Progress\<close>, \<open>Grid_Safety\<close>: every settlement and every
  market is served, errors give up as they should. \<open>Rfq_Issue\<close> and \<open>Rfq_Lifecycle\<close>: what is
  signed is accepted and backed, what is rejected or expired is given back. \<open>Payment_Safety\<close>:
  no payment is lost or starved. \<open>Rfq_Quoting\<close>: prices and answers. \<open>Ladder_Safety\<close>,
  \<open>Split_Rate\<close>, \<open>Consolidation\<close>: what splits and merges take and how often, and that they do
  not undo each other. \<open>Collector_Safety\<close>: what is archived, and that its waits end.

  \<^bold>\<open>Interfaces.\<close> The locales are \<open>prefix_code\<close> and \<open>partial_prefix_code\<close> (encoders),
  \<open>signed_text\<close> (canonical texts), \<open>kept\<close> and \<open>guarded\<close> (invariants of runs), \<open>quiet\<close>,
  \<open>bystander\<close> and \<open>faithful\<close> (tasks beside a confirm), \<open>ranked_queue\<close> (the heap of payments); each is interpreted on the
  model's own operations in the theory that provides them.

  \<^bold>\<open>Parameters.\<close> Third-party code is an argument: SHA-256, Ed25519, secp256k1, hex and base64
  (\<open>crypto\<close>, \<open>quote_crypto\<close>), \<open>rust_decimal\<close> (\<open>dec_arith\<close>, \<open>liq_arith\<close>, \<open>settle_arith\<close>,
  \<open>decimal_ops\<close>), the protobuf decoder, JSON printing and parsing, \<open>exp\<close> (\<open>f64_net\<close>), and the
  answers of server, ledger and backend. Laws are stated as named hypotheses (\<open>dec_laws\<close>, \<open>split_laws\<close>,
  \<open>sat_laws\<close>, \<open>settle_laws\<close>, \<open>decimal_laws\<close>, \<open>quote_crypto_laws\<close>) and instantiated in the
  witnesses. The \<open>f64\<close> model keeps one zero: the sign of a zero is not observed by the code.

  \<^bold>\<open>Bounds and fuel.\<close> Recursion is structural or over a list of the input wherever the code
  loops over one. \<open>wait_for_split\<close> takes \<open>SPLIT_POLLS\<close> (71) polls: \<open>split_wait_ends\<close> shows that
  the deadline always comes first. \<open>reserve_picks\<close> has the code's own \<open>RESERVE_ATTEMPTS\<close>, the
  walk of the hasher the code's depth limits (256 levels; \<open>Hash_Walk\<close>), the bisection of
  \<open>Pool_Impact\<close> its 64 rounds, and key generation its eight draws. Rounding to doubles finds its
  exponent by \<open>bit_len\<close> over the number itself. \<open>await_from\<close> is a partial
  function: \<open>gate_wait_ends\<close> shows that it returns, after at most the polls that fill the pause.

  \<^bold>\<open>Not modelled.\<close> Network, files, environment and command line (\<open>lib.rs\<close>, \<open>env.rs\<close>,
  \<open>client.rs\<close>, the gRPC half of \<open>ledger_client.rs\<close>, the reading of \<open>config.rs\<close>), generated
  protocol code, logging and reports; the tokio loops that call the modelled operations on a
  timer (\<open>runner.rs\<close>, \<open>grid_task.rs\<close>, the workers that read the ledger into the holdings cache); the sessions of the
  streams and the buyer loop (\<open>lp_stream.rs\<close>, \<open>fill_loop.rs\<close>, \<open>accept_settle.rs\<close>), the
  orchestration of atomic swaps; fee schedules;
  \<open>drain_tasks\<close> and setters of the executor; the time stamp of a reject. A state file is
  modelled up to its JSON text.
\<close>

end
